(* ===== verification/Prelude.thy ===== *)
theory Prelude
  imports Complex_Main "HOL-Library.AList" "HOL-Library.Sublist"
    "HOL-Library.Char_ord" "HOL-Library.List_Lexorder"
begin

text \<open>
  Shared vocabulary of the development: dynamic Go values (the type \<open>any\<close> that the maps of a
  Pulse hold), Go maps as association lists, the string functions of the Go standard library the
  sources call, and the collections of facts the component theories feed.
\<close>

section \<open>Collections\<close>

named_theorems step_defs \<open>definitions of pipeline steps\<close>
named_theorems frame_rules \<open>fields an operation leaves alone\<close>
named_theorems store_defs \<open>definitions of in-process stores\<close>

section \<open>Dynamic values\<close>

text \<open>
  A value of type \<open>any\<close>. A Go map is an association list whose keys are distinct; only
  lookups are meaningful, the order of the list is one of the iteration orders the runtime may
  choose. \<open>VFloat\<close> holds the finite \<open>float64\<close> values, the only ones
  \<open>encoding/json\<close> produces. \<open>VStringer\<close> is a value with a \<open>String()\<close>
  method, such as a \<open>MemoryKey\<close> stored in a map.
\<close>

datatype gval =
    VNil
  | VStr string
  | VInt int
  | VInt32 int
  | VInt64 int
  | VFloat rat
  | VFloat32 rat
  | VBool bool
  | VMap "(string \<times> gval) list"
  | VSlice "gval list"
  | VStrs "string list"
  | VStringer string

type_synonym gmap = "(string \<times> gval) list"

text \<open>A map variable may be nil: reading it finds nothing, writing to it panics.\<close>

definition gm_get :: "gmap option \<Rightarrow> string \<Rightarrow> gval option" where
  "gm_get m k = (case m of None \<Rightarrow> None | Some es \<Rightarrow> map_of es k)"

text \<open>\<open>v, _ := args[k].(string)\<close>\<close>

definition str_arg :: "gmap option \<Rightarrow> string \<Rightarrow> string" where
  "str_arg args k = (case gm_get args k of Some (VStr s) \<Rightarrow> s | _ \<Rightarrow> [])"

definition gm_put :: "string \<Rightarrow> gval \<Rightarrow> gmap option \<Rightarrow> gmap option" where
  "gm_put k v m = Some (AList.update k v (case m of None \<Rightarrow> [] | Some es \<Rightarrow> es))"

text \<open>\<open>for k, v := range src \{ dst[k] = v \}\<close>\<close>

fun gm_copy_into :: "gmap \<Rightarrow> gmap \<Rightarrow> gmap" where
  "gm_copy_into [] dst = dst"
| "gm_copy_into ((k, v) # src) dst = gm_copy_into src (AList.update k v dst)"

definition gm_entries :: "gmap option \<Rightarrow> gmap" where
  "gm_entries m = (case m of None \<Rightarrow> [] | Some es \<Rightarrow> es)"

definition gm_ok :: "gmap option \<Rightarrow> bool" where
  "gm_ok m = distinct (map fst (gm_entries m))"

lemma gm_get_simps [simp]:
  "gm_get None k = None"
  "gm_get (Some es) k = map_of es k"
  by (simp_all add: gm_get_def)

lemma gm_entries_simps [simp]:
  "gm_entries None = []"
  "gm_entries (Some es) = es"
  by (simp_all add: gm_entries_def)

lemma gm_get_put [simp]: "gm_get (gm_put k v m) j = (if j = k then Some v else gm_get m j)"
  by (cases m) (auto simp: gm_put_def update_conv')

lemma gm_put_not_None [simp]: "gm_put k v m \<noteq> None"
  by (simp add: gm_put_def)

lemma distinct_update: "distinct (map fst es) \<Longrightarrow> distinct (map fst (AList.update k v es))"
  by (rule distinct_update)

lemma gm_ok_put [simp]: "gm_ok m \<Longrightarrow> gm_ok (gm_put k v m)"
  by (cases m) (auto simp: gm_ok_def gm_put_def intro: distinct_update)

lemma distinct_copy_into:
  "distinct (map fst dst) \<Longrightarrow> distinct (map fst (gm_copy_into src dst))"
  by (induction src dst rule: gm_copy_into.induct) (auto intro: distinct_update)

text \<open>Copying a map overrides: the last write of a key wins, and a Go map has one per key.\<close>

lemma map_of_copy_into:
  "distinct (map fst src) \<Longrightarrow>
   map_of (gm_copy_into src dst) k
     = (case map_of src k of None \<Rightarrow> map_of dst k | Some v \<Rightarrow> Some v)"
proof (induction src dst rule: gm_copy_into.induct)
  case (1 dst)
  then show ?case by simp
next
  case (2 j v src dst)
  then have "map_of src j = None"
    by (auto simp: map_of_eq_None_iff)
  with 2 show ?case
    by (auto simp: update_conv' split: option.splits)
qed

section \<open>Strings\<close>

text \<open>\<open>strings.Join\<close>\<close>

fun str_join :: "string \<Rightarrow> string list \<Rightarrow> string" where
  "str_join sep [] = []"
| "str_join sep [x] = x"
| "str_join sep (x # y # xs) = x @ sep @ str_join sep (y # xs)"

text \<open>\<open>strings.Cut\<close> at a one-byte separator: \<open>None\<close> when it does not occur.\<close>

fun str_cut :: "char \<Rightarrow> string \<Rightarrow> (string \<times> string) option" where
  "str_cut c [] = None"
| "str_cut c (x # xs) =
     (if x = c then Some ([], xs)
      else map_option (\<lambda>(a, b). (x # a, b)) (str_cut c xs))"

lemma str_cut_None_iff: "str_cut c s = None \<longleftrightarrow> c \<notin> set s"
  by (induction c s rule: str_cut.induct) auto

lemma str_cut_Some: "str_cut c s = Some (a, b) \<Longrightarrow> s = a @ c # b \<and> c \<notin> set a"
  by (induction c s arbitrary: a b rule: str_cut.induct) (auto split: if_splits)

lemma str_cut_append: "c \<notin> set a \<Longrightarrow> str_cut c (a @ c # b) = Some (a, b)"
  by (induction a) auto

lemma str_cut_length: "str_cut c s = Some (a, b) \<Longrightarrow> length b < length s"
  by (auto dest!: str_cut_Some)

text \<open>\<open>strings.HasPrefix\<close> and \<open>strings.Contains\<close>\<close>

fun str_prefix :: "string \<Rightarrow> string \<Rightarrow> bool" where
  "str_prefix [] s = True"
| "str_prefix (p # ps) [] = False"
| "str_prefix (p # ps) (x # xs) = (p = x \<and> str_prefix ps xs)"

fun str_contains :: "string \<Rightarrow> string \<Rightarrow> bool" where
  "str_contains [] needle = (needle = [])"
| "str_contains (x # xs) needle = (str_prefix needle (x # xs) \<or> str_contains xs needle)"

lemma str_prefix_iff: "str_prefix p s \<longleftrightarrow> prefix p s"
  by (induction p s rule: str_prefix.induct) auto

lemma str_contains_iff: "str_contains s needle \<longleftrightarrow> sublist needle s"
  by (induction s needle rule: str_contains.induct)
    (auto simp: str_prefix_iff sublist_Cons_right)

text \<open>\<open>strings.ToLower\<close> on ASCII letters; other bytes are left alone.\<close>

definition lower_char :: "char \<Rightarrow> char" where
  "lower_char c = (let n = of_char c :: nat in if 65 \<le> n \<and> n \<le> 90 then char_of (n + 32) else c)"

definition str_lower :: "string \<Rightarrow> string" where
  "str_lower = map lower_char"

text \<open>\<open>strings.TrimSpace\<close> on ASCII white space.\<close>

definition is_space :: "char \<Rightarrow> bool" where
  "is_space c = (let n = of_char c :: nat in n = 32 \<or> (9 \<le> n \<and> n \<le> 13))"

definition str_trim :: "string \<Rightarrow> string" where
  "str_trim s = rev (dropWhile is_space (rev (dropWhile is_space s)))"

lemma length_str_trim: "length (str_trim s) \<le> length s"
  by (metis (no_types) length_dropWhile_le length_rev order_trans str_trim_def)

section \<open>Decimal numerals\<close>

definition digit_char :: "nat \<Rightarrow> char" where
  "digit_char d = char_of (48 + d)"

fun nat_dec :: "nat \<Rightarrow> string" where
  "nat_dec n = (if n < 10 then [digit_char n] else nat_dec (n div 10) @ [digit_char (n mod 10)])"

declare nat_dec.simps [simp del]

definition int_dec :: "int \<Rightarrow> string" where
  "int_dec i = (if i < 0 then CHR ''-'' # nat_dec (nat (- i)) else nat_dec (nat i))"

definition char_digit :: "char \<Rightarrow> nat option" where
  "char_digit c = (let n = of_char c :: nat in if 48 \<le> n \<and> n \<le> 57 then Some (n - 48) else None)"

fun digits_val :: "nat \<Rightarrow> string \<Rightarrow> nat option" where
  "digits_val acc [] = Some acc"
| "digits_val acc (c # cs) =
     (case char_digit c of None \<Rightarrow> None | Some d \<Rightarrow> digits_val (10 * acc + d) cs)"

text \<open>\<open>strconv.ParseInt(s, 10, 64)\<close>: an optional sign, at least one digit, in range.\<close>

fun sign_split :: "string \<Rightarrow> bool \<times> string" where
  "sign_split [] = (False, [])"
| "sign_split (c # cs) =
     (if c = CHR ''-'' then (True, cs)
      else if c = CHR ''+'' then (False, cs) else (False, c # cs))"

definition in_int64 :: "int \<Rightarrow> bool" where
  "in_int64 v \<longleftrightarrow> - (2 ^ 63) \<le> v \<and> v < 2 ^ 63"

definition parse_int :: "string \<Rightarrow> int option" where
  "parse_int s =
     (let (neg, ds) = sign_split s
      in if ds = [] then None
         else case digits_val 0 ds of
                None \<Rightarrow> None
              | Some n \<Rightarrow> (let v = (if neg then - int n else int n)
                          in if in_int64 v then Some v else None))"

lemma char_digit_digit_char: "d < 10 \<Longrightarrow> char_digit (digit_char d) = Some d"
  by (simp add: char_digit_def digit_char_def Let_def)

lemma digits_val_append:
  "digits_val acc (xs @ ys)
     = (case digits_val acc xs of None \<Rightarrow> None | Some a \<Rightarrow> digits_val a ys)"
  by (induction acc xs rule: digits_val.induct) (auto split: option.splits)

lemma digits_val_nat_dec: "digits_val 0 (nat_dec n) = Some n"
proof (induction n rule: nat_dec.induct)
  case (1 n)
  show ?case
  proof (cases "n < 10")
    case True
    then show ?thesis
      by (simp add: nat_dec.simps [of n] char_digit_digit_char)
  next
    case False
    with 1 have "digits_val 0 (nat_dec (n div 10)) = Some (n div 10)" by simp
    with False show ?thesis
      by (simp add: nat_dec.simps [of n] digits_val_append char_digit_digit_char)
  qed
qed

lemma nat_dec_not_Nil [simp]: "nat_dec n \<noteq> []"
  by (simp add: nat_dec.simps [of n])

lemma nat_dec_chars: "c \<in> set (nat_dec n) \<Longrightarrow> \<exists>d<10. c = digit_char d"
proof (induction n rule: nat_dec.induct)
  case (1 n)
  show ?case
  proof (cases "n < 10")
    case True
    with 1 show ?thesis by (auto simp: nat_dec.simps [of n])
  next
    case False
    have "n mod 10 < 10" by simp
    with False 1 show ?thesis
      by (auto simp: nat_dec.simps [of n] intro: exI [of _ "n mod 10"])
  qed
qed

lemma digit_char_plain:
  "d < 10 \<Longrightarrow> digit_char d \<noteq> CHR ''-'' \<and> digit_char d \<noteq> CHR ''+'' \<and> digit_char d \<noteq> CHR '':''"
proof -
  assume "d < 10"
  then have "char_digit (digit_char d) = Some d" by (rule char_digit_digit_char)
  moreover have "char_digit CHR ''-'' = None" "char_digit CHR ''+'' = None"
    "char_digit CHR '':'' = None"
    by (simp_all add: char_digit_def)
  ultimately show ?thesis by force
qed

text \<open>Printing an in-range number and parsing it back is the identity.\<close>

lemma sign_split_nat_dec: "sign_split (nat_dec n) = (False, nat_dec n)"
proof (cases "nat_dec n")
  case (Cons c cs)
  then have "c \<in> set (nat_dec n)" by simp
  then obtain d where "d < 10" and d: "c = digit_char d" using nat_dec_chars by blast
  have "c \<noteq> CHR ''-''" "c \<noteq> CHR ''+''"
    using digit_char_plain [OF \<open>d < 10\<close>] by (simp_all only: d simp_thms)
  then show ?thesis by (simp only: Cons sign_split.simps if_False)
qed (simp only: sign_split.simps)

lemma parse_int_int_dec:
  assumes "in_int64 i"
  shows "parse_int (int_dec i) = Some i"
proof (cases "i < 0")
  case True
  with assms show ?thesis
    by (simp add: parse_int_def int_dec_def digits_val_nat_dec)
next
  case False
  with assms show ?thesis
    by (simp add: parse_int_def int_dec_def sign_split_nat_dec digits_val_nat_dec)
qed

lemma colon_notin_nat_dec: "CHR '':'' \<notin> set (nat_dec n)"
  by (metis digit_char_plain nat_dec_chars)

lemma colon_notin_int_dec: "CHR '':'' \<notin> set (int_dec i)"
  by (simp add: int_dec_def colon_notin_nat_dec)

section \<open>Formatting\<close>

text \<open>
  \<open>fmt.Sprintf("%v", v)\<close>: maps print their keys in order. The text of a float is left to
  the argument \<open>ff\<close>.
\<close>

definition nl :: string where "nl = [CHR 0x0A]"
definition dq :: string where "dq = [CHR 0x22]"
definition em_dash :: string where "em_dash = [CHR 0xE2, CHR 0x80, CHR 0x94]"

text \<open>
  \<open>%q\<close>: a double-quoted Go literal. Bytes above 127 are kept, as \<open>strconv.Quote\<close> keeps the
  printable text they encode.
\<close>

definition hex_digit :: "nat \<Rightarrow> char" where
  "hex_digit n = (if n < 10 then char_of (48 + n) else char_of (87 + n))"

definition quote_char :: "char \<Rightarrow> string" where
  "quote_char c =
     (let n = (of_char c :: nat); bs = CHR 0x5C in
      if n = 0x22 \<or> n = 0x5C then [bs, c]
      else if n = 7 then [bs, CHR ''a''] else if n = 8 then [bs, CHR ''b'']
      else if n = 9 then [bs, CHR ''t''] else if n = 10 then [bs, CHR ''n'']
      else if n = 11 then [bs, CHR ''v''] else if n = 12 then [bs, CHR ''f'']
      else if n = 13 then [bs, CHR ''r'']
      else if n < 32 \<or> n = 127 then [bs, CHR ''x'', hex_digit (n div 16), hex_digit (n mod 16)]
      else [c])"

definition quote_q :: "string \<Rightarrow> string" where
  "quote_q s = dq @ concat (map quote_char s) @ dq"

function fmt_v :: "(rat \<Rightarrow> string) \<Rightarrow> gval \<Rightarrow> string" where
  "fmt_v ff VNil = ''<nil>''"
| "fmt_v ff (VStr s) = s"
| "fmt_v ff (VInt i) = int_dec i"
| "fmt_v ff (VInt32 i) = int_dec i"
| "fmt_v ff (VInt64 i) = int_dec i"
| "fmt_v ff (VFloat r) = ff r"
| "fmt_v ff (VFloat32 r) = ff r"
| "fmt_v ff (VBool b) = (if b then ''true'' else ''false'')"
| "fmt_v ff (VMap es) =
     ''map['' @ str_join '' '' (map (\<lambda>(k, v). k @ '':'' @ fmt_v ff v) (sort_key fst es)) @ '']''"
| "fmt_v ff (VSlice vs) = ''['' @ str_join '' '' (map (fmt_v ff) vs) @ '']''"
| "fmt_v ff (VStrs ss) = ''['' @ str_join '' '' ss @ '']''"
| "fmt_v ff (VStringer s) = s"
  by pat_completeness auto
termination
proof (relation "measure (size \<circ> snd)", goal_cases)
  case (2 ff es x k v)
  then have "(k, v) \<in> set es" by simp
  then have "size v < Suc (size_list (size_prod (\<lambda>x. 0) size) es)"
    by (induction es) auto
  with 2 show ?case by simp
next
  case (3 ff vs x)
  then show ?case by (induction vs) auto
qed simp

definition fmt_opt :: "(rat \<Rightarrow> string) \<Rightarrow> gval option \<Rightarrow> string" where
  "fmt_opt ff v = (case v of None \<Rightarrow> ''<nil>'' | Some x \<Rightarrow> fmt_v ff x)"

definition show_list :: "string list \<Rightarrow> string" where
  "show_list xs = ''['' @ str_join '' '' xs @ '']''"

section \<open>Machine integers\<close>

text \<open>Go's \<open>int\<close> and \<open>time.Duration\<close> are 64-bit two's complement: the result of an operation wraps.\<close>

definition wrap64 :: "int \<Rightarrow> int" where
  "wrap64 x = (x + 2 ^ 63) mod 2 ^ 64 - 2 ^ 63"

lemma wrap64_in_range: "in_int64 x \<Longrightarrow> wrap64 x = x"
  by (simp add: wrap64_def in_int64_def)

lemma wrap64_bounds: "in_int64 (wrap64 x)"
  using pos_mod_bound [of "2 ^ 64" "x + 2 ^ 63"] pos_mod_sign [of "2 ^ 64" "x + 2 ^ 63"]
  by (simp add: wrap64_def in_int64_def)

section \<open>Lists\<close>

lemma map_of_AList_delete: "map_of (AList.delete k es) j = (if j = k then None else map_of es j)"
  by (simp add: delete_conv')

lemma length_AList_update_new:
  "map_of es k = None \<Longrightarrow> length (AList.update k v es) = Suc (length es)"
  by (induction es) (auto split: if_splits)

lemma length_AList_update_old:
  "map_of es k \<noteq> None \<Longrightarrow> length (AList.update k v es) = length es"
  by (induction es) (auto split: if_splits)

lemma length_AList_update_le: "length (AList.update k v es) \<le> Suc (length es)"
  by (cases "map_of es k = None")
    (simp_all add: length_AList_update_new length_AList_update_old)

lemma length_AList_delete_le: "length (AList.delete k es) \<le> length es"
  by (simp add: AList.delete_eq)

end
