(* ===== verification/GoErrors.thy ===== *)
theory GoErrors
  imports Prelude
begin

text \<open>
  Error values: \<open>internal/domain/errors\<close> (business and infrastructure errors of Actions,
  repository errors) and \<open>orchestrator/errors.go\<close> (the coded errors of the pipeline), with
  the walk along \<open>Unwrap\<close> that \<open>errors.As\<close> and \<open>errors.Is\<close> make.
\<close>

section \<open>Error chains\<close>

datatype action_error_type = BusinessError | InfrastructureError

text \<open>
  \<open>EPlain\<close> is an error without a cause (\<open>errors.New\<close>, or \<open>fmt.Errorf\<close>
  without \<open>%w\<close>). \<open>EWrap p e\<close> is \<open>fmt.Errorf("p: %w", e)\<close>. The other
  constructors are the error structs of the repository. \<open>EDeadline\<close> and
  \<open>ECanceled\<close> are the two errors of a done context.
\<close>

datatype gerr =
    EPlain string
  | EWrap string gerr
  | EOrch string string "gerr option" bool
  | EAction action_error_type string "gerr option"
  | ENotFound string string
  | EConflict string string
  | ERitualTerminal
  | EDeadline
  | ECanceled

fun err_unwrap :: "gerr \<Rightarrow> gerr option" where
  "err_unwrap (EWrap _ e) = Some e"
| "err_unwrap (EOrch _ _ e _) = e"
| "err_unwrap (EAction _ _ e) = e"
| "err_unwrap _ = None"

text \<open>
  The chain of an error, outermost first; \<open>errors.As\<close> returns its first element of the
  wanted type. The recursion passes through an option, so the two functions go together.
\<close>

fun err_chain :: "gerr \<Rightarrow> gerr list"
  and opt_chain :: "gerr option \<Rightarrow> gerr list" where
  "err_chain (EWrap p e) = EWrap p e # err_chain e"
| "err_chain (EOrch c m e r) = EOrch c m e r # opt_chain e"
| "err_chain (EAction t m e) = EAction t m e # opt_chain e"
| "err_chain (EPlain s) = [EPlain s]"
| "err_chain (ENotFound a b) = [ENotFound a b]"
| "err_chain (EConflict a b) = [EConflict a b]"
| "err_chain ERitualTerminal = [ERitualTerminal]"
| "err_chain EDeadline = [EDeadline]"
| "err_chain ECanceled = [ECanceled]"
| "opt_chain None = []"
| "opt_chain (Some e) = err_chain e"

lemma err_chain_step: "err_chain e = e # opt_chain (err_unwrap e)"
  by (cases e) auto

section \<open>Action errors (domain/errors/action_errors.go)\<close>

fun action_type_str :: "action_error_type \<Rightarrow> string" where
  "action_type_str BusinessError = ''business''"
| "action_type_str InfrastructureError = ''infrastructure''"

fun is_action_error :: "gerr \<Rightarrow> bool" where
  "is_action_error (EAction _ _ _) = True"
| "is_action_error _ = False"

definition as_action_error :: "gerr \<Rightarrow> gerr option" where
  "as_action_error e = find is_action_error (err_chain e)"

definition IsBusinessError :: "gerr \<Rightarrow> bool" where
  "IsBusinessError e =
     (case as_action_error e of Some (EAction BusinessError _ _) \<Rightarrow> True | _ \<Rightarrow> False)"

definition IsInfrastructureError :: "gerr \<Rightarrow> bool" where
  "IsInfrastructureError e =
     (case as_action_error e of Some (EAction InfrastructureError _ _) \<Rightarrow> True | _ \<Rightarrow> False)"

definition first_err :: "gerr list \<Rightarrow> gerr option" where
  "first_err es = (case es of [] \<Rightarrow> None | e # _ \<Rightarrow> Some e)"

definition NewBusinessError :: "string \<Rightarrow> gerr list \<Rightarrow> gerr" where
  "NewBusinessError msg cause = EAction BusinessError msg (first_err cause)"

definition NewInfrastructureError :: "string \<Rightarrow> gerr list \<Rightarrow> gerr" where
  "NewInfrastructureError msg cause = EAction InfrastructureError msg (first_err cause)"

section \<open>Rendering\<close>

fun err_text :: "gerr \<Rightarrow> string" where
  "err_text (EPlain s) = s"
| "err_text (EWrap p e) = p @ '': '' @ err_text e"
| "err_text (EOrch c m (Some e) r) = ''['' @ c @ ''] '' @ m @ '': '' @ err_text e"
| "err_text (EOrch c m None r) = ''['' @ c @ ''] '' @ m"
| "err_text (EAction t m (Some e)) =
     action_type_str t @ '' error: '' @ m @ '' (cause: '' @ err_text e @ '')''"
| "err_text (EAction t m None) = action_type_str t @ '' error: '' @ m"
| "err_text (ENotFound a b) = a @ '' '' @ [CHR 0x22] @ b @ [CHR 0x22] @ '' not found''"
| "err_text (EConflict a b) = a @ '' '' @ [CHR 0x22] @ b @ [CHR 0x22] @ '' already exists''"
| "err_text ERitualTerminal = ''ritual already in terminal status''"
| "err_text EDeadline = ''context deadline exceeded''"
| "err_text ECanceled = ''context canceled''"

definition MessageFor :: "gerr \<Rightarrow> string" where
  "MessageFor e = (case as_action_error e of Some (EAction _ m _) \<Rightarrow> m | _ \<Rightarrow> err_text e)"

section \<open>Repository errors (domain/errors/repository_errors.go)\<close>

definition is_not_found :: "gerr \<Rightarrow> bool" where
  "is_not_found e = (\<exists>x\<in>set (err_chain e). case x of ENotFound _ _ \<Rightarrow> True | _ \<Rightarrow> False)"

definition is_conflict :: "gerr \<Rightarrow> bool" where
  "is_conflict e = (\<exists>x\<in>set (err_chain e). case x of EConflict _ _ \<Rightarrow> True | _ \<Rightarrow> False)"

definition is_ritual_terminal :: "gerr \<Rightarrow> bool" where
  "is_ritual_terminal e = (ERitualTerminal \<in> set (err_chain e))"

section \<open>Orchestration errors (orchestrator/errors.go)\<close>

fun is_orch :: "gerr \<Rightarrow> bool" where
  "is_orch (EOrch _ _ _ _) = True"
| "is_orch _ = False"

definition as_orch :: "gerr \<Rightarrow> gerr option" where
  "as_orch e = find is_orch (err_chain e)"

definition IsRetriable :: "gerr \<Rightarrow> bool" where
  "IsRetriable e = (case as_orch e of Some (EOrch _ _ _ r) \<Rightarrow> r | _ \<Rightarrow> False)"

definition orch_code :: "gerr \<Rightarrow> string option" where
  "orch_code e = (case as_orch e of Some (EOrch c _ _ _) \<Rightarrow> Some c | _ \<Rightarrow> None)"

definition ErrInvalidConfig :: "string \<Rightarrow> gerr" where
  "ErrInvalidConfig msg = EOrch ''INVALID_CONFIG'' msg None False"

definition ErrValidationFailed :: "string \<Rightarrow> string \<Rightarrow> gerr" where
  "ErrValidationFailed field reason =
     EOrch ''VALIDATION_FAILED''
       (''validation failed for field '' @ [CHR 0x27] @ field @ [CHR 0x27] @ '': '' @ reason)
       None False"

definition quoted :: "string \<Rightarrow> string" where
  "quoted s = [CHR 0x27] @ s @ [CHR 0x27]"

definition ErrLockAcquisitionFailed :: "string \<Rightarrow> gerr option \<Rightarrow> gerr" where
  "ErrLockAcquisitionFailed mk err =
     EOrch ''LOCK_ACQUISITION_FAILED'' (''failed to acquire lock for memory '' @ quoted mk) err True"

definition ErrMemoryBusy :: "string \<Rightarrow> gerr" where
  "ErrMemoryBusy mk =
     EOrch ''MEMORY_BUSY'' (''memory '' @ quoted mk @ '' is already being processed'') None False"

definition IsMemoryBusy :: "gerr \<Rightarrow> bool" where
  "IsMemoryBusy e = (orch_code e = Some ''MEMORY_BUSY'')"

definition ErrDuplicateEvent :: "string \<Rightarrow> gerr" where
  "ErrDuplicateEvent k =
     EOrch ''DUPLICATE_EVENT''
       (''event with idempotency key '' @ quoted k @ '' was already processed'') None False"

definition IsDuplicateEvent :: "gerr \<Rightarrow> bool" where
  "IsDuplicateEvent e = (orch_code e = Some ''DUPLICATE_EVENT'')"

definition ErrScoutFailed :: "gerr \<Rightarrow> gerr" where
  "ErrScoutFailed e = EOrch ''SCOUT_FAILED'' ''scout harvest failed'' (Some e) False"

definition ErrSpiritNotFound :: "string \<Rightarrow> gerr \<Rightarrow> gerr" where
  "ErrSpiritNotFound name e =
     EOrch ''SPIRIT_NOT_FOUND'' (''spirit '' @ quoted name @ '' not found'') (Some e) False"

definition ErrMemoryOperationFailed :: "string \<Rightarrow> gerr \<Rightarrow> gerr" where
  "ErrMemoryOperationFailed op e =
     EOrch ''MEMORY_OPERATION_FAILED'' (''memory operation '' @ quoted op @ '' failed'') (Some e) True"

definition ErrReasoningFailed :: "gerr \<Rightarrow> gerr" where
  "ErrReasoningFailed e = EOrch ''REASONING_FAILED'' ''reasoning loop failed'' (Some e) True"

definition ErrPersistenceFailed :: "string \<Rightarrow> gerr \<Rightarrow> gerr" where
  "ErrPersistenceFailed op e =
     EOrch ''PERSISTENCE_FAILED'' (''persistence operation '' @ quoted op @ '' failed'') (Some e) False"

definition ErrTimeoutExceeded :: "string \<Rightarrow> gerr" where
  "ErrTimeoutExceeded op =
     EOrch ''TIMEOUT_EXCEEDED'' (''operation '' @ quoted op @ '' exceeded timeout'') None True"

definition ErrRateLimitExceeded :: "string \<Rightarrow> gerr" where
  "ErrRateLimitExceeded mk =
     EOrch ''RATE_LIMIT_EXCEEDED'' (''rate limit exceeded for memory '' @ quoted mk) None False"

definition IsRateLimited :: "gerr \<Rightarrow> bool" where
  "IsRateLimited e = (orch_code e = Some ''RATE_LIMIT_EXCEEDED'')"

definition ErrToolBudgetExceeded :: "int \<Rightarrow> gerr" where
  "ErrToolBudgetExceeded limit =
     EOrch ''TOOL_BUDGET_EXCEEDED''
       (''tool call budget of '' @ int_dec limit @ '' exceeded in this reasoning cycle'') None False"

definition ErrPromptInjectionDetected :: gerr where
  "ErrPromptInjectionDetected =
     EOrch ''PROMPT_INJECTION_DETECTED'' ''user message contains disallowed content'' None False"

definition ErrFilterBlocked :: "string \<Rightarrow> string \<Rightarrow> gerr" where
  "ErrFilterBlocked f v =
     EOrch ''FILTER_BLOCKED''
       (''event field '' @ quoted f @ '' value '' @ quoted v @ '' is blocked'') None False"

definition IsFilterBlocked :: "gerr \<Rightarrow> bool" where
  "IsFilterBlocked e = (orch_code e = Some ''FILTER_BLOCKED'')"

definition ErrFilterNotAllowed :: "string \<Rightarrow> string \<Rightarrow> gerr" where
  "ErrFilterNotAllowed f v =
     EOrch ''FILTER_NOT_ALLOWED''
       (''event field '' @ quoted f @ '' value '' @ quoted v @ '' is not in the allowlist'') None False"

definition IsFilterNotAllowed :: "gerr \<Rightarrow> bool" where
  "IsFilterNotAllowed e = (orch_code e = Some ''FILTER_NOT_ALLOWED'')"

definition newErrSessionHeld :: gerr where
  "newErrSessionHeld = EOrch ''SESSION_HELD'' ''session held by operator vigil'' None False"

definition IsSessionHeld :: "gerr \<Rightarrow> bool" where
  "IsSessionHeld e = (orch_code e = Some ''SESSION_HELD'')"

lemmas orch_err_defs =
  ErrInvalidConfig_def ErrValidationFailed_def ErrLockAcquisitionFailed_def ErrMemoryBusy_def
  ErrDuplicateEvent_def ErrScoutFailed_def ErrSpiritNotFound_def ErrMemoryOperationFailed_def
  ErrReasoningFailed_def ErrPersistenceFailed_def ErrTimeoutExceeded_def
  ErrRateLimitExceeded_def ErrToolBudgetExceeded_def ErrPromptInjectionDetected_def
  ErrFilterBlocked_def ErrFilterNotAllowed_def newErrSessionHeld_def

lemmas orch_test_defs =
  IsRetriable_def IsMemoryBusy_def IsDuplicateEvent_def IsRateLimited_def IsFilterBlocked_def
  IsFilterNotAllowed_def IsSessionHeld_def orch_code_def as_orch_def

text \<open>\<open>fmt.Errorf\<close> with \<open>%w\<close> is transparent for the tests below.\<close>

lemma as_orch_EWrap [simp]: "as_orch (EWrap p e) = as_orch e"
  by (simp add: as_orch_def)

lemma as_orch_EOrch [simp]: "as_orch (EOrch c m e r) = Some (EOrch c m e r)"
  by (simp add: as_orch_def)

lemma IsRetriable_EWrap [simp]: "IsRetriable (EWrap p e) = IsRetriable e"
  by (simp add: IsRetriable_def)

lemma orch_code_EWrap [simp]: "orch_code (EWrap p e) = orch_code e"
  by (simp add: orch_code_def)

lemma orch_code_EOrch [simp]: "orch_code (EOrch c m e r) = Some c"
  by (simp add: orch_code_def)

lemma IsRetriable_EOrch [simp]: "IsRetriable (EOrch c m e r) = r"
  by (simp add: IsRetriable_def)

lemma IsDuplicateEvent_EWrap [simp]: "IsDuplicateEvent (EWrap p e) = IsDuplicateEvent e"
  by (simp add: IsDuplicateEvent_def)

lemma as_action_EWrap [simp]: "as_action_error (EWrap p e) = as_action_error e"
  by (simp add: as_action_error_def)

lemma as_action_EAction [simp]: "as_action_error (EAction t m e) = Some (EAction t m e)"
  by (simp add: as_action_error_def)

lemma IsBusinessError_simps [simp]:
  "IsBusinessError (EAction BusinessError m e)"
  "\<not> IsBusinessError (EAction InfrastructureError m e)"
  "IsBusinessError (EWrap p x) = IsBusinessError x"
  by (simp_all add: IsBusinessError_def)

lemma IsInfrastructureError_simps [simp]:
  "IsInfrastructureError (EAction InfrastructureError m e)"
  "\<not> IsInfrastructureError (EAction BusinessError m e)"
  "IsInfrastructureError (EWrap p x) = IsInfrastructureError x"
  by (simp_all add: IsInfrastructureError_def)

lemma IsBusinessError_New [simp]:
  "IsBusinessError (NewBusinessError m c)"
  "\<not> IsBusinessError (NewInfrastructureError m c)"
  by (simp_all add: NewBusinessError_def NewInfrastructureError_def)

lemma IsInfrastructureError_New [simp]:
  "IsInfrastructureError (NewInfrastructureError m c)"
  "\<not> IsInfrastructureError (NewBusinessError m c)"
  by (simp_all add: NewBusinessError_def NewInfrastructureError_def)

text \<open>An error is at most one of the two Action classes.\<close>

lemma action_class_exclusive: "\<not> (IsBusinessError e \<and> IsInfrastructureError e)"
  by (auto simp: IsBusinessError_def IsInfrastructureError_def
      split: option.splits gerr.splits action_error_type.splits)

section \<open>The audit status of an error (engine.go, statusFromError)\<close>

definition statusFromError :: "gerr \<Rightarrow> string" where
  "statusFromError err =
     (case orch_code err of
        None \<Rightarrow> ''error''
      | Some c \<Rightarrow>
          if c = ''RATE_LIMIT_EXCEEDED'' then ''rate_limited''
          else if c = ''VALIDATION_FAILED'' \<or> c = ''PROMPT_INJECTION_DETECTED'' then ''validation_failed''
          else if c = ''DUPLICATE_EVENT'' then ''duplicate''
          else if c = ''MEMORY_BUSY'' then ''session_busy''
          else if c = ''SESSION_HELD'' then ''session_held''
          else if c = ''LOCK_ACQUISITION_FAILED'' then ''lock_acquisition_failed''
          else if c = ''ENRICHMENT_FAILED'' then ''enrichment_failed''
          else if c = ''SPIRIT_NOT_FOUND'' then ''spirit_not_found''
          else if c = ''SESSION_OPERATION_FAILED'' then ''session_operation_failed''
          else if c = ''REASONING_FAILED'' then ''reasoning_failed''
          else if c = ''PERSISTENCE_FAILED'' then ''persistence_failed''
          else if c = ''TIMEOUT_EXCEEDED'' then ''timeout_exceeded''
          else if c = ''TOOL_BUDGET_EXCEEDED'' then ''tool_budget_exceeded''
          else if c = ''FILTER_BLOCKED'' then ''filter_blocked''
          else if c = ''FILTER_NOT_ALLOWED'' then ''filter_not_allowed''
          else ''error'')"

lemma statusFromError_EWrap [simp]: "statusFromError (EWrap p e) = statusFromError e"
  by (simp add: statusFromError_def)

end
