(* ===== verification/Pulse.thy ===== *)
theory Pulse
  imports GoErrors
begin

text \<open>
  The unit of work, \<open>internal/domain/entities/pulse.go\<close>: keys, the Pulse with its three maps
  (Payload and Metadata private, Knowledge forwarded to the model), the builder and the
  accessors. Ids and times come from outside and are arguments. Durations and times are
  nanoseconds. A pointer receiver that mutates its struct becomes a function that returns it.
\<close>

section \<open>Keys\<close>

record memory_key =
  mkChannel :: string
  mkUser :: string

definition MemoryKey_String :: "memory_key \<Rightarrow> string" where
  "MemoryKey_String k = mkChannel k @ '':'' @ mkUser k"

definition MemoryKey_Validate :: "memory_key \<Rightarrow> gerr option" where
  "MemoryKey_Validate k =
     (if mkChannel k = [] \<or> mkUser k = [] then Some (EPlain ''invalid session key'') else None)"

record subject_key =
  skEntity :: string
  skID :: string

definition SubjectKey_Validate :: "subject_key \<Rightarrow> gerr option" where
  "SubjectKey_Validate k =
     (if skEntity k = [] \<or> skID k = [] then Some (EPlain ''invalid topic key'') else None)"

definition SubjectKey_String :: "subject_key \<Rightarrow> string" where
  "SubjectKey_String k = skEntity k @ '':'' @ skID k"

section \<open>The Pulse\<close>

datatype artifact_type = ArtifactImage | ArtifactAudio | ArtifactVideo | ArtifactDocument

record artifact =
  aType :: artifact_type
  aURL :: string
  aMimeType :: string
  aFileName :: string
  aCaption :: string
  aMediaID :: string
  aData :: "nat list"

record pulse =
  pID :: string
  pMemoryKey :: string
  pTimestamp :: int
  pUserMessage :: string
  pContactPhone :: string
  pSource :: string
  pSubType :: string
  pEventType :: string
  pIdempotencyKey :: string
  pAttachments :: "artifact list"
  pPayload :: "gmap option"
  pSubjectKey :: string
  pMetadata :: "gmap option"
  pKnowledge :: "gmap option"
  pParentPulseID :: string
  pOrchestrationDepth :: int
  pHandoffCount :: int

definition zero_pulse :: pulse where
  "zero_pulse = \<lparr>pID = [], pMemoryKey = [], pTimestamp = 0, pUserMessage = [], pContactPhone = [],
     pSource = [], pSubType = [], pEventType = [], pIdempotencyKey = [], pAttachments = [],
     pPayload = None, pSubjectKey = [], pMetadata = None, pKnowledge = None,
     pParentPulseID = [], pOrchestrationDepth = 0, pHandoffCount = 0\<rparr>"

section \<open>Mutators\<close>

definition AddKnowledge :: "string \<Rightarrow> gval \<Rightarrow> pulse \<Rightarrow> pulse" where
  "AddKnowledge k v e = e\<lparr>pKnowledge := gm_put k v (pKnowledge e)\<rparr>"

definition SetKnowledge :: "gmap option \<Rightarrow> pulse \<Rightarrow> pulse" where
  "SetKnowledge m e = e\<lparr>pKnowledge := m\<rparr>"

definition MergeKnowledge :: "gmap option \<Rightarrow> pulse \<Rightarrow> pulse" where
  "MergeKnowledge m e = e\<lparr>pKnowledge := Some (gm_copy_into (gm_entries m) (gm_entries (pKnowledge e)))\<rparr>"

definition AddPayload :: "string \<Rightarrow> gval \<Rightarrow> pulse \<Rightarrow> pulse" where
  "AddPayload k v e = e\<lparr>pPayload := gm_put k v (pPayload e)\<rparr>"

definition SetPayload :: "gmap option \<Rightarrow> pulse \<Rightarrow> pulse" where
  "SetPayload m e = e\<lparr>pPayload := m\<rparr>"

definition MergePayload :: "gmap option \<Rightarrow> pulse \<Rightarrow> pulse" where
  "MergePayload m e = e\<lparr>pPayload := Some (gm_copy_into (gm_entries m) (gm_entries (pPayload e)))\<rparr>"

definition AddMetadata :: "string \<Rightarrow> gval \<Rightarrow> pulse \<Rightarrow> pulse" where
  "AddMetadata k v e = e\<lparr>pMetadata := gm_put k v (pMetadata e)\<rparr>"

definition SetMetadata :: "gmap option \<Rightarrow> pulse \<Rightarrow> pulse" where
  "SetMetadata m e = e\<lparr>pMetadata := m\<rparr>"

definition MergeMetadata :: "gmap option \<Rightarrow> pulse \<Rightarrow> pulse" where
  "MergeMetadata m e = e\<lparr>pMetadata := Some (gm_copy_into (gm_entries m) (gm_entries (pMetadata e)))\<rparr>"

definition AddAttachment :: "artifact \<Rightarrow> pulse \<Rightarrow> pulse" where
  "AddAttachment a e = e\<lparr>pAttachments := pAttachments e @ [a]\<rparr>"

definition SetAttachments :: "artifact list \<Rightarrow> pulse \<Rightarrow> pulse" where
  "SetAttachments xs e = e\<lparr>pAttachments := xs\<rparr>"

definition SetMemoryKey :: "memory_key \<Rightarrow> string \<Rightarrow> pulse \<Rightarrow> gerr option \<times> pulse" where
  "SetMemoryKey k updatedBy e =
     (case MemoryKey_Validate k of
        Some err \<Rightarrow> (Some err, e)
      | None \<Rightarrow>
          (let new = MemoryKey_String k in
           if new = pMemoryKey e then (None, e)
           else
             (let e1 = (if pMemoryKey e \<noteq> [] then AddMetadata ''previous_session'' (VStr (pMemoryKey e)) e else e);
                  e2 = (if updatedBy \<noteq> [] then AddMetadata ''session_updated_by'' (VStr updatedBy) e1 else e1);
                  e3 = AddMetadata ''session'' (VStr new) e2
              in (None, e3\<lparr>pMemoryKey := new\<rparr>))))"

definition SetTopic :: "subject_key \<Rightarrow> string \<Rightarrow> pulse \<Rightarrow> gerr option \<times> pulse" where
  "SetTopic k updatedBy e =
     (case SubjectKey_Validate k of
        Some err \<Rightarrow> (Some err, e)
      | None \<Rightarrow>
          (let new = SubjectKey_String k in
           if new = pSubjectKey e then (None, e)
           else
             (let e1 = (if pSubjectKey e \<noteq> [] then AddMetadata ''previous_topic'' (VStr (pSubjectKey e)) e else e);
                  e2 = (if updatedBy \<noteq> [] then AddMetadata ''topic_updated_by'' (VStr updatedBy) e1 else e1);
                  e3 = AddMetadata ''topic'' (VStr new) e2
              in (None, e3\<lparr>pSubjectKey := new\<rparr>))))"

definition SetContactPhone :: "string \<Rightarrow> string \<Rightarrow> pulse \<Rightarrow> pulse" where
  "SetContactPhone phone updatedBy e =
     (if phone = pContactPhone e then e
      else
        (let e1 = (if pContactPhone e \<noteq> [] then AddMetadata ''previous_contact_phone'' (VStr (pContactPhone e)) e else e);
             e2 = (if updatedBy \<noteq> [] then AddMetadata ''contact_phone_updated_by'' (VStr updatedBy) e1 else e1)
         in e2\<lparr>pContactPhone := phone\<rparr>))"

section \<open>Accessors\<close>

text \<open>
  Each returns the value and whether it was found with the wanted type. \<open>int(v)\<close> of a
  \<open>float64\<close> truncates towards zero; a value out of range gives the smallest integer, as
  the 64-bit compilers do.
\<close>

definition f64_to_int :: "rat \<Rightarrow> int" where
  "f64_to_int v =
     (let t = (if v < 0 then - \<lfloor>- v\<rfloor> else \<lfloor>v\<rfloor>) in if in_int64 t then t else - (2 ^ 63))"

definition GetPayloadString :: "string \<Rightarrow> pulse \<Rightarrow> string \<times> bool" where
  "GetPayloadString k e = (case gm_get (pPayload e) k of Some (VStr s) \<Rightarrow> (s, True) | _ \<Rightarrow> ([], False))"

definition GetKnowledgeString :: "string \<Rightarrow> pulse \<Rightarrow> string \<times> bool" where
  "GetKnowledgeString k e = (case gm_get (pKnowledge e) k of Some (VStr s) \<Rightarrow> (s, True) | _ \<Rightarrow> ([], False))"

definition GetMetadata :: "string \<Rightarrow> pulse \<Rightarrow> gval \<times> bool" where
  "GetMetadata k e = (case gm_get (pMetadata e) k of Some v \<Rightarrow> (v, True) | None \<Rightarrow> (VNil, False))"

definition GetMetadataString :: "string \<Rightarrow> pulse \<Rightarrow> string \<times> bool" where
  "GetMetadataString k e = (case gm_get (pMetadata e) k of Some (VStr s) \<Rightarrow> (s, True) | _ \<Rightarrow> ([], False))"

definition GetMetadataInt :: "string \<Rightarrow> pulse \<Rightarrow> int \<times> bool" where
  "GetMetadataInt k e =
     (case gm_get (pMetadata e) k of
        Some (VInt i) \<Rightarrow> (i, True)
      | Some (VInt64 i) \<Rightarrow> (i, True)
      | Some (VFloat v) \<Rightarrow> (f64_to_int v, True)
      | _ \<Rightarrow> (0, False))"

definition GetMetadataInt64 :: "string \<Rightarrow> pulse \<Rightarrow> int \<times> bool" where
  "GetMetadataInt64 k e =
     (case gm_get (pMetadata e) k of
        Some (VInt64 i) \<Rightarrow> (i, True)
      | Some (VInt i) \<Rightarrow> (i, True)
      | Some (VFloat v) \<Rightarrow> (f64_to_int v, True)
      | _ \<Rightarrow> (0, False))"

definition GetMetadataFloat64 :: "string \<Rightarrow> pulse \<Rightarrow> rat \<times> bool" where
  "GetMetadataFloat64 k e = (case gm_get (pMetadata e) k of Some (VFloat v) \<Rightarrow> (v, True) | _ \<Rightarrow> (0, False))"

definition GetMetadataBool :: "string \<Rightarrow> pulse \<Rightarrow> bool \<times> bool" where
  "GetMetadataBool k e = (case gm_get (pMetadata e) k of Some (VBool b) \<Rightarrow> (b, True) | _ \<Rightarrow> (False, False))"

text \<open>Elements that are not strings are skipped.\<close>

fun only_strings :: "gval list \<Rightarrow> string list" where
  "only_strings [] = []"
| "only_strings (VStr s # xs) = s # only_strings xs"
| "only_strings (_ # xs) = only_strings xs"

definition GetMetadataStringSlice :: "string \<Rightarrow> pulse \<Rightarrow> string list \<times> bool" where
  "GetMetadataStringSlice k e =
     (case gm_get (pMetadata e) k of
        Some (VStrs ss) \<Rightarrow> (ss, True)
      | Some (VSlice xs) \<Rightarrow> (only_strings xs, True)
      | _ \<Rightarrow> ([], False))"

definition GetMetadataMap :: "string \<Rightarrow> pulse \<Rightarrow> gmap option \<times> bool" where
  "GetMetadataMap k e = (case gm_get (pMetadata e) k of Some (VMap m) \<Rightarrow> (Some m, True) | _ \<Rightarrow> (None, False))"

section \<open>The builder\<close>

record pulse_builder =
  bEvent :: "pulse option"
  bErrs :: "gerr list"

definition NewPulse :: "string \<Rightarrow> int \<Rightarrow> memory_key \<Rightarrow> pulse_builder" where
  "NewPulse newID now k =
     (case MemoryKey_Validate k of
        Some err \<Rightarrow> \<lparr>bEvent = None, bErrs = [err]\<rparr>
      | None \<Rightarrow>
          \<lparr>bEvent = Some (zero_pulse\<lparr>pID := newID, pMemoryKey := MemoryKey_String k, pTimestamp := now,
              pPayload := Some [], pMetadata := Some [(''session'', VStringer (MemoryKey_String k))],
              pKnowledge := Some []\<rparr>), bErrs = []\<rparr>)"

definition on_event :: "(pulse \<Rightarrow> pulse) \<Rightarrow> pulse_builder \<Rightarrow> pulse_builder" where
  "on_event f b = b\<lparr>bEvent := map_option f (bEvent b)\<rparr>"

definition addErr :: "gerr option \<Rightarrow> pulse_builder \<Rightarrow> pulse_builder" where
  "addErr err b = (case err of None \<Rightarrow> b | Some e \<Rightarrow> b\<lparr>bErrs := bErrs b @ [e]\<rparr>)"

definition WithID :: "string \<Rightarrow> pulse_builder \<Rightarrow> pulse_builder" where
  "WithID x = on_event (\<lambda>e. e\<lparr>pID := x\<rparr>)"

definition WithUserMessage :: "string \<Rightarrow> pulse_builder \<Rightarrow> pulse_builder" where
  "WithUserMessage x = on_event (\<lambda>e. e\<lparr>pUserMessage := x\<rparr>)"

definition WithContactPhone :: "string \<Rightarrow> pulse_builder \<Rightarrow> pulse_builder" where
  "WithContactPhone x = on_event (\<lambda>e. e\<lparr>pContactPhone := x\<rparr>)"

definition WithSource :: "string \<Rightarrow> pulse_builder \<Rightarrow> pulse_builder" where
  "WithSource x = on_event (\<lambda>e. e\<lparr>pSource := x\<rparr>)"

definition WithSubType :: "string \<Rightarrow> pulse_builder \<Rightarrow> pulse_builder" where
  "WithSubType x = on_event (\<lambda>e. e\<lparr>pSubType := x\<rparr>)"

definition WithEventType :: "string \<Rightarrow> pulse_builder \<Rightarrow> pulse_builder" where
  "WithEventType x = on_event (\<lambda>e. e\<lparr>pEventType := x\<rparr>)"

definition WithIdempotencyKey :: "string \<Rightarrow> pulse_builder \<Rightarrow> pulse_builder" where
  "WithIdempotencyKey x = on_event (\<lambda>e. e\<lparr>pIdempotencyKey := x\<rparr>)"

definition WithSubjectKey :: "subject_key \<Rightarrow> pulse_builder \<Rightarrow> pulse_builder" where
  "WithSubjectKey k b =
     (if bEvent b = None then b
      else case SubjectKey_Validate k of
        Some err \<Rightarrow> addErr (Some err) b
      | None \<Rightarrow> on_event (\<lambda>e. AddMetadata ''topic'' (VStr (SubjectKey_String k))
                               (e\<lparr>pSubjectKey := SubjectKey_String k\<rparr>)) b)"

definition WithTimestamp :: "int \<Rightarrow> pulse_builder \<Rightarrow> pulse_builder" where
  "WithTimestamp t = on_event (\<lambda>e. e\<lparr>pTimestamp := t\<rparr>)"

definition WithPayload :: "gmap option \<Rightarrow> pulse_builder \<Rightarrow> pulse_builder" where
  "WithPayload m = on_event (SetPayload m)"

definition builder_MergePayload :: "gmap option \<Rightarrow> pulse_builder \<Rightarrow> pulse_builder" where
  "builder_MergePayload m = on_event (MergePayload m)"

definition builder_AddPayload :: "string \<Rightarrow> gval \<Rightarrow> pulse_builder \<Rightarrow> pulse_builder" where
  "builder_AddPayload k v = on_event (AddPayload k v)"

definition WithMetadata :: "gmap option \<Rightarrow> pulse_builder \<Rightarrow> pulse_builder" where
  "WithMetadata m = on_event (SetMetadata m)"

definition builder_MergeMetadata :: "gmap option \<Rightarrow> pulse_builder \<Rightarrow> pulse_builder" where
  "builder_MergeMetadata m = on_event (MergeMetadata m)"

definition builder_AddMetadata :: "string \<Rightarrow> gval \<Rightarrow> pulse_builder \<Rightarrow> pulse_builder" where
  "builder_AddMetadata k v = on_event (AddMetadata k v)"

definition WithKnowledge :: "gmap option \<Rightarrow> pulse_builder \<Rightarrow> pulse_builder" where
  "WithKnowledge m = on_event (SetKnowledge m)"

definition builder_MergeKnowledge :: "gmap option \<Rightarrow> pulse_builder \<Rightarrow> pulse_builder" where
  "builder_MergeKnowledge m = on_event (MergeKnowledge m)"

definition builder_AddKnowledge :: "string \<Rightarrow> gval \<Rightarrow> pulse_builder \<Rightarrow> pulse_builder" where
  "builder_AddKnowledge k v = on_event (AddKnowledge k v)"

definition WithAttachments :: "artifact list \<Rightarrow> pulse_builder \<Rightarrow> pulse_builder" where
  "WithAttachments xs = on_event (SetAttachments xs)"

definition builder_AddAttachment :: "artifact \<Rightarrow> pulse_builder \<Rightarrow> pulse_builder" where
  "builder_AddAttachment a = on_event (AddAttachment a)"

definition WithParent :: "string \<Rightarrow> int \<Rightarrow> pulse_builder \<Rightarrow> pulse_builder" where
  "WithParent pid depth = on_event (\<lambda>e. e\<lparr>pParentPulseID := pid, pOrchestrationDepth := depth\<rparr>)"

definition Build :: "pulse_builder \<Rightarrow> pulse option" where
  "Build b = (if bErrs b \<noteq> [] then None else bEvent b)"

section \<open>Facts\<close>

lemmas mutator_defs = AddKnowledge_def AddPayload_def AddMetadata_def SetKnowledge_def
  SetPayload_def SetMetadata_def MergeKnowledge_def MergePayload_def MergeMetadata_def
  AddAttachment_def SetAttachments_def

text \<open>The key of a Pulse determines channel and user as long as the channel has no colon.\<close>

lemma MemoryKey_String_inj:
  assumes "CHR '':'' \<notin> set (mkChannel a)" and "CHR '':'' \<notin> set (mkChannel b)"
    and "MemoryKey_String a = MemoryKey_String b"
  shows "mkChannel a = mkChannel b \<and> mkUser a = mkUser b"
proof -
  have cut: "str_cut CHR '':'' (MemoryKey_String k) = Some (mkChannel k, mkUser k)"
    if "CHR '':'' \<notin> set (mkChannel k)" for k
    by (simp add: MemoryKey_String_def str_cut_append that)
  from cut [OF assms(1)] cut [OF assms(2)] show ?thesis unfolding assms(3) by simp
qed

lemma AddMetadata_frame [simp]:
  "pKnowledge (AddMetadata k v e) = pKnowledge e"
  "pPayload (AddMetadata k v e) = pPayload e"
  "pMemoryKey (AddMetadata k v e) = pMemoryKey e"
  "pSubjectKey (AddMetadata k v e) = pSubjectKey e"
  "pContactPhone (AddMetadata k v e) = pContactPhone e"
  "pUserMessage (AddMetadata k v e) = pUserMessage e"
  "gm_get (pMetadata (AddMetadata k v e)) j = (if j = k then Some v else gm_get (pMetadata e) j)"
  by (simp_all add: AddMetadata_def)

lemma AddKnowledge_frame [simp]:
  "pMetadata (AddKnowledge k v e) = pMetadata e"
  "pPayload (AddKnowledge k v e) = pPayload e"
  "pMemoryKey (AddKnowledge k v e) = pMemoryKey e"
  "pSubjectKey (AddKnowledge k v e) = pSubjectKey e"
  "pUserMessage (AddKnowledge k v e) = pUserMessage e"
  "pContactPhone (AddKnowledge k v e) = pContactPhone e"
  "pIdempotencyKey (AddKnowledge k v e) = pIdempotencyKey e"
  "gm_get (pKnowledge (AddKnowledge k v e)) j = (if j = k then Some v else gm_get (pKnowledge e) j)"
  by (simp_all add: AddKnowledge_def)

lemma MergeKnowledge_get:
  assumes "gm_ok m"
  shows "gm_get (pKnowledge (MergeKnowledge m e)) k
           = (case gm_get m k of Some v \<Rightarrow> Some v | None \<Rightarrow> gm_get (pKnowledge e) k)"
proof -
  have "gm_get m k = map_of (gm_entries m) k" for m :: "gmap option" by (cases m) simp_all
  moreover have "distinct (map fst (gm_entries m))" using assms by (simp add: gm_ok_def)
  ultimately show ?thesis by (simp add: MergeKnowledge_def map_of_copy_into split: option.split)
qed

lemma MergeKnowledge_ok: "gm_ok (pKnowledge e) \<Longrightarrow> gm_ok (pKnowledge (MergeKnowledge m e))"
  by (simp add: MergeKnowledge_def gm_ok_def distinct_copy_into)

lemma on_event_simps [simp]:
  "bErrs (on_event f b) = bErrs b"
  "bEvent (on_event f b) = map_option f (bEvent b)"
  by (simp_all add: on_event_def)

text \<open>\<open>Build\<close> returns nil exactly when some step recorded an error.\<close>

definition builder_inv :: "pulse_builder \<Rightarrow> bool" where
  "builder_inv b \<longleftrightarrow> (bEvent b = None \<longrightarrow> bErrs b \<noteq> [])"

lemma builder_inv_New: "builder_inv (NewPulse i t k)"
  by (simp add: builder_inv_def NewPulse_def split: option.splits)

lemma builder_inv_on_event [simp]: "builder_inv b \<Longrightarrow> builder_inv (on_event f b)"
  by (simp add: builder_inv_def)

lemma builder_inv_WithSubjectKey: "builder_inv b \<Longrightarrow> builder_inv (WithSubjectKey k b)"
  by (auto simp: builder_inv_def WithSubjectKey_def addErr_def split: option.splits)

lemma Build_None_iff: "builder_inv b \<Longrightarrow> Build b = None \<longleftrightarrow> bErrs b \<noteq> []"
  by (auto simp: builder_inv_def Build_def)

end
