(* ===== verification/Registries.thy ===== *)
theory Registries
  imports Pulse
begin

text \<open>
  The name registries of \<open>implementation/registries\<close> and the provider table of
  \<open>oracles/factory.go\<close>. What is registered (an Action, a Voice, a Scout, a provider) is an
  interface, so its type is a variable and its \<open>GetName\<close> an argument. All of them keep one
  contract, the locale \<open>named_registry\<close>: a name is bound once and stays bound.
\<close>

type_synonym 'a reg = "(string \<times> 'a) list"

section \<open>The contract\<close>

text \<open>\<open>RegisterMultiple\<close>: one after the other, up to the first error.\<close>

fun register_all ::
  "('a \<Rightarrow> 'r \<Rightarrow> gerr option \<times> 'r) \<Rightarrow> 'a list \<Rightarrow> 'r \<Rightarrow> gerr option \<times> 'r" where
  "register_all reg [] r = (None, r)"
| "register_all reg (a # as) r =
     (case reg a r of (Some e, r1) \<Rightarrow> (Some e, r1) | (None, r1) \<Rightarrow> register_all reg as r1)"

locale named_registry =
  fixes register :: "'a \<Rightarrow> 'r \<Rightarrow> gerr option \<times> 'r"
    and get :: "string \<Rightarrow> 'r \<Rightarrow> 'a option"
    and nm :: "'a \<Rightarrow> string"
  assumes get_registered: "register a r = (None, r') \<Longrightarrow> get n r' = (if n = nm a then Some a else get n r)"
    and register_dup: "fst (register a r) = None \<longleftrightarrow> get (nm a) r = None"
    and register_error: "register a r = (Some e, r') \<Longrightarrow> r' = r"
begin

lemma register_keeps:
  assumes "get n r = Some b"
  shows "get n (snd (register a r)) = Some b"
proof (cases "register a r")
  case (Pair x r')
  then show ?thesis
    using assms get_registered [of a r r' n] register_dup [of a r] register_error [of a r]
    by (cases x) (auto split: if_splits)
qed

text \<open>A binding is for ever: no later registration, of the same name or another, moves it.\<close>

lemma all_keeps: "get n r = Some b \<Longrightarrow> get n (snd (register_all register as r)) = Some b"
proof (induction as arbitrary: r)
  case (Cons a as)
  then show ?case
    using register_keeps [of n r b a] by (cases "register a r") (auto split: option.split)
qed simp

text \<open>Registering a list succeeds exactly when its names are new and distinct.\<close>

lemma all_ok_iff:
  "fst (register_all register as r) = None
     \<longleftrightarrow> distinct (map nm as) \<and> (\<forall>a\<in>set as. get (nm a) r = None)"
proof (induction as arbitrary: r)
  case (Cons a as)
  show ?case
  proof (cases "register a r")
    case (Pair x r')
    show ?thesis
    proof (cases x)
      case None
      with Pair have g: "get n r' = (if n = nm a then Some a else get n r)" for n
        by (simp add: get_registered)
      from None Pair have "get (nm a) r = None" using register_dup [of a r] by simp
      moreover have "(\<forall>b\<in>set as. get (nm b) r' = None)
          \<longleftrightarrow> nm a \<notin> set (map nm as) \<and> (\<forall>b\<in>set as. get (nm b) r = None)"
        unfolding g by (auto split: if_splits) (metis imageI)
      ultimately show ?thesis using Pair None Cons.IH [of r'] by auto
    next
      case (Some e)
      with Pair have "get (nm a) r \<noteq> None" using register_dup [of a r] by simp
      with Pair Some show ?thesis by simp
    qed
  qed
qed simp

lemma all_bound:
  assumes "fst (register_all register as r) = None" and "a \<in> set as"
  shows "get (nm a) (snd (register_all register as r)) = Some a"
  using assms
proof (induction as arbitrary: r)
  case (Cons b as)
  obtain r' where r': "register b r = (None, r')"
    using Cons.prems(1) by (cases "register b r") (auto split: option.splits)
  then have b: "get (nm b) r' = Some b" using get_registered [of b r r' "nm b"] by simp
  from Cons.prems(1) r' have ok: "fst (register_all register as r') = None" by simp
  show ?case
  proof (cases "a \<in> set as")
    case True
    with Cons.IH ok r' show ?thesis by simp
  next
    case False
    with Cons.prems(2) have "a = b" by simp
    then show ?thesis using all_keeps [OF b, of as] r' by simp
  qed
qed simp

end

section \<open>Map-backed registries\<close>

definition reg_add :: "string \<Rightarrow> string \<Rightarrow> 'a \<Rightarrow> 'a reg \<Rightarrow> gerr option \<times> 'a reg" where
  "reg_add what name a r =
     (case map_of r name of
        Some _ \<Rightarrow> (Some (EPlain (what @ '' already registered: '' @ name)), r)
      | None \<Rightarrow> (None, AList.update name a r))"

definition reg_find :: "string \<Rightarrow> string \<Rightarrow> 'a reg \<Rightarrow> gerr + 'a" where
  "reg_find what name r =
     (case map_of r name of
        None \<Rightarrow> Inl (EPlain (what @ '' not found: '' @ name))
      | Some a \<Rightarrow> Inr a)"

lemma reg_add_contract: "named_registry (\<lambda>a. reg_add what (nm a) a) (\<lambda>n r. map_of r n) nm"
  by unfold_locales (auto simp: reg_add_def update_conv' split: option.splits if_splits)

lemma reg_find_map_of: "reg_find what n r = Inr a \<longleftrightarrow> map_of r n = Some a"
  by (auto simp: reg_find_def split: option.splits)

subsection \<open>Actions (action_registry.go)\<close>

definition action_Register :: "('a \<Rightarrow> string) \<Rightarrow> 'a \<Rightarrow> 'a reg \<Rightarrow> gerr option \<times> 'a reg" where
  "action_Register GetName a r = reg_add ''action'' (GetName a) a r"

definition action_RegisterMultiple :: "('a \<Rightarrow> string) \<Rightarrow> 'a list \<Rightarrow> 'a reg \<Rightarrow> gerr option \<times> 'a reg" where
  "action_RegisterMultiple GetName as r = register_all (action_Register GetName) as r"

definition action_Get :: "string \<Rightarrow> 'a reg \<Rightarrow> gerr + 'a" where
  "action_Get name r = reg_find ''action'' name r"

text \<open>The loop that splits the names into found values and missing names.\<close>

fun partition_names :: "'a reg \<Rightarrow> string list \<Rightarrow> 'a list \<times> string list" where
  "partition_names r [] = ([], [])"
| "partition_names r (n # ns) =
     (let (found, missing) = partition_names r ns
      in case map_of r n of
           None \<Rightarrow> (found, n # missing)
         | Some a \<Rightarrow> (a # found, missing))"

definition action_GetMultiple :: "string list \<Rightarrow> 'a reg \<Rightarrow> gerr + 'a list" where
  "action_GetMultiple names r =
     (let (found, missing) = partition_names r names
      in if missing \<noteq> [] then Inl (EPlain (''actions not found: '' @ show_list missing))
         else Inr found)"

definition action_IsRegistered :: "string \<Rightarrow> 'a reg \<Rightarrow> bool" where
  "action_IsRegistered name r \<longleftrightarrow> map_of r name \<noteq> None"

interpretation actions: named_registry "action_Register nm" "\<lambda>n r. map_of r n" nm
  for nm :: "'a \<Rightarrow> string"
  unfolding action_Register_def by (rule reg_add_contract)

lemma partition_step:
  "map_of r n = None \<Longrightarrow> partition_names r (n # ns)
     = (fst (partition_names r ns), n # snd (partition_names r ns))"
  "map_of r n = Some a \<Longrightarrow> partition_names r (n # ns)
     = (a # fst (partition_names r ns), snd (partition_names r ns))"
  by (simp_all only: partition_names.simps Let_def split_beta option.case)

declare partition_names.simps(2) [simp del]

lemma partition_missing: "snd (partition_names r ns) = filter (\<lambda>n. map_of r n = None) ns"
proof (induction ns)
  case (Cons n ns)
  then show ?case by (cases "map_of r n") (simp_all add: partition_step del: map_of_eq_Some_iff)
qed simp

lemma partition_found:
  "snd (partition_names r ns) = [] \<Longrightarrow> map Some (fst (partition_names r ns)) = map (map_of r) ns"
proof (induction ns)
  case (Cons n ns)
  then show ?case by (cases "map_of r n") (simp_all add: partition_step del: map_of_eq_Some_iff)
qed simp

text \<open>All or nothing, in the order asked for.\<close>

lemma GetMultiple_iff:
  "action_GetMultiple names r = Inr as \<longleftrightarrow> map Some as = map (map_of r) names"
proof
  assume "action_GetMultiple names r = Inr as"
  then show "map Some as = map (map_of r) names"
    using partition_found [of r names]
    by (auto simp: action_GetMultiple_def split: prod.splits if_splits)
next
  assume eq: "map Some as = map (map_of r) names"
  have "map_of r n \<noteq> None" if n: "n \<in> set names" for n
  proof -
    from n have "map_of r n \<in> set (map Some as)" unfolding eq by simp
    then show ?thesis by (clarsimp simp del: map_of_eq_Some_iff)
  qed
  then have m: "snd (partition_names r names) = []"
    by (simp only: partition_missing filter_empty_conv) blast
  have "map Some (fst (partition_names r names)) = map Some as"
    using partition_found [OF m] eq by simp
  then have "fst (partition_names r names) = as"
    by (simp add: inj_map_eq_map)
  with m show "action_GetMultiple names r = Inr as"
    by (simp add: action_GetMultiple_def split_beta)
qed

subsection \<open>Voices, Conduits, LogicRouters, Pathfinders\<close>

definition voice_Register :: "('a \<Rightarrow> string) \<Rightarrow> 'a \<Rightarrow> 'a reg \<Rightarrow> gerr option \<times> 'a reg" where
  "voice_Register GetName c r = reg_add ''voice channel'' (GetName c) c r"

definition voice_Get :: "string \<Rightarrow> 'a reg \<Rightarrow> gerr + 'a" where
  "voice_Get name r = reg_find ''voice channel'' name r"

definition conduit_Register :: "('a \<Rightarrow> string) \<Rightarrow> 'a \<Rightarrow> 'a reg \<Rightarrow> gerr option \<times> 'a reg" where
  "conduit_Register GetName c r = reg_add ''conduit'' (GetName c) c r"

definition conduit_Get :: "string \<Rightarrow> 'a reg \<Rightarrow> gerr + 'a" where
  "conduit_Get name r = reg_find ''conduit'' name r"

definition router_Register :: "('a \<Rightarrow> string) \<Rightarrow> 'a \<Rightarrow> 'a reg \<Rightarrow> gerr option \<times> 'a reg" where
  "router_Register GetName c r = reg_add ''logic router'' (GetName c) c r"

definition router_Get :: "string \<Rightarrow> 'a reg \<Rightarrow> gerr + 'a" where
  "router_Get name r = reg_find ''logic router'' name r"

definition pathfinder_Register :: "('a \<Rightarrow> string) \<Rightarrow> 'a \<Rightarrow> 'a reg \<Rightarrow> gerr option \<times> 'a reg" where
  "pathfinder_Register GetName c r = reg_add ''pathfinder'' (GetName c) c r"

definition pathfinder_Get :: "string \<Rightarrow> 'a reg \<Rightarrow> 'a option" where
  "pathfinder_Get name r = map_of r name"

interpretation voices: named_registry "voice_Register nm" "\<lambda>n r. map_of r n" nm
  for nm :: "'a \<Rightarrow> string"
  unfolding voice_Register_def by (rule reg_add_contract)

interpretation conduits: named_registry "conduit_Register nm" "\<lambda>n r. map_of r n" nm
  for nm :: "'a \<Rightarrow> string"
  unfolding conduit_Register_def by (rule reg_add_contract)

interpretation routers: named_registry "router_Register nm" "\<lambda>n r. map_of r n" nm
  for nm :: "'a \<Rightarrow> string"
  unfolding router_Register_def by (rule reg_add_contract)

interpretation pathfinders: named_registry "pathfinder_Register nm" pathfinder_Get nm
  for nm :: "'a \<Rightarrow> string"
  unfolding pathfinder_Register_def pathfinder_Get_def [abs_def] by (rule reg_add_contract)

section \<open>Scouts (scout_registry.go)\<close>

record 'a scout_reg =
  srScouts :: "'a reg"
  srOrder :: "string list"

definition scout_Register :: "('a \<Rightarrow> string) \<Rightarrow> 'a \<Rightarrow> 'a scout_reg \<Rightarrow> gerr option \<times> 'a scout_reg" where
  "scout_Register GetName a r =
     (let name = GetName a in
      case map_of (srScouts r) name of
        Some _ \<Rightarrow> (Some (EPlain (''scout already registered: '' @ name)), r)
      | None \<Rightarrow> (None, r\<lparr>srScouts := AList.update name a (srScouts r), srOrder := srOrder r @ [name]\<rparr>))"

definition scout_GetMultiple :: "string list \<Rightarrow> 'a scout_reg \<Rightarrow> gerr + 'a list" where
  "scout_GetMultiple names r =
     (let (found, missing) = partition_names (srScouts r) names
      in if missing \<noteq> [] then Inl (EPlain (''scouts not found: '' @ show_list missing))
         else Inr found)"

text \<open>\<open>List\<close>: a name of \<open>order\<close> that is not in the map would be a nil interface.\<close>

definition scout_List :: "'a scout_reg \<Rightarrow> 'a option list" where
  "scout_List r = map (map_of (srScouts r)) (srOrder r)"

definition scout_inv :: "'a scout_reg \<Rightarrow> bool" where
  "scout_inv r \<longleftrightarrow> distinct (srOrder r) \<and> set (srOrder r) = dom (map_of (srScouts r))"

interpretation scouts: named_registry "scout_Register nm" "\<lambda>n r. map_of (srScouts r) n" nm
  for nm :: "'a \<Rightarrow> string"
  by unfold_locales
    (auto simp: scout_Register_def Let_def update_conv' split: option.splits if_splits)

lemma scout_inv_Register: "scout_inv r \<Longrightarrow> scout_inv (snd (scout_Register nm a r))"
  by (auto simp: scout_inv_def scout_Register_def Let_def update_conv' split: option.splits)

lemma scout_List_total: "scout_inv r \<Longrightarrow> None \<notin> set (scout_List r)"
  by (auto simp: scout_inv_def scout_List_def)

text \<open>
  \<open>Harvest\<close>: every applicable Scout in order, on the Pulse the earlier ones left; a Scout
  that moves the Pulse to another memory key leaves a trace in the private metadata.
\<close>

record 'w scout =
  scName :: string
  scIsApplicable :: "pulse \<Rightarrow> bool"
  scHarvest :: "pulse \<Rightarrow> 'w \<Rightarrow> gerr option \<times> pulse \<times> 'w"

definition meta_nil :: "string \<Rightarrow> pulse \<Rightarrow> bool" where
  "meta_nil k e \<longleftrightarrow> gm_get (pMetadata e) k = None \<or> gm_get (pMetadata e) k = Some VNil"

definition note_key_change :: "string \<Rightarrow> string \<Rightarrow> pulse \<Rightarrow> pulse" where
  "note_key_change scout original e =
     (let e1 = (if meta_nil ''memory_key_updated_by'' e
                then AddMetadata ''memory_key_updated_by'' (VStr scout) e else e)
      in if meta_nil ''previous_memory_key'' e1 \<and> original \<noteq> []
         then AddMetadata ''previous_memory_key'' (VStr original) e1 else e1)"

fun scout_Harvest :: "'w scout list \<Rightarrow> string \<Rightarrow> pulse \<Rightarrow> 'w \<Rightarrow> gerr option \<times> pulse \<times> 'w" where
  "scout_Harvest [] original e w = (None, e, w)"
| "scout_Harvest (s # ss) original e w =
     (if \<not> scIsApplicable s e then scout_Harvest ss original e w
      else case scHarvest s e w of
        (Some err, e1, w1) \<Rightarrow> (Some (EWrap (''scout '' @ scName s @ '' failed'') err), e1, w1)
      | (None, e1, w1) \<Rightarrow>
          if pMemoryKey e1 \<noteq> original
          then scout_Harvest ss (pMemoryKey e1) (note_key_change (scName s) original e1) w1
          else scout_Harvest ss original e1 w1)"

section \<open>Providers (oracles/factory.go)\<close>

record 'p factory =
  faProviders :: "'p reg"
  faDefault :: string

definition RegisterProvider :: "string \<Rightarrow> 'p option \<Rightarrow> 'p factory \<Rightarrow> gerr option \<times> 'p factory" where
  "RegisterProvider name provider f =
     (if name = [] then (Some (EPlain ''provider name cannot be empty''), f)
      else case provider of
        None \<Rightarrow> (Some (EPlain ''provider cannot be nil''), f)
      | Some p \<Rightarrow>
          (case map_of (faProviders f) name of
             Some _ \<Rightarrow> (Some (EPlain (''provider '' @ name @ '' already registered'')), f)
           | None \<Rightarrow>
               (let f1 = f\<lparr>faProviders := AList.update name p (faProviders f)\<rparr>
                in (None, if faDefault f = [] then f1\<lparr>faDefault := name\<rparr> else f1))))"

definition GetProvider :: "string \<Rightarrow> 'p factory \<Rightarrow> gerr + 'p" where
  "GetProvider name f =
     (case map_of (faProviders f) name of
        None \<Rightarrow> Inl (EPlain (''provider '' @ name @ '' not found''))
      | Some p \<Rightarrow> Inr p)"

definition GetDefaultProvider :: "'p factory \<Rightarrow> gerr + 'p" where
  "GetDefaultProvider f =
     (if faDefault f = [] then Inl (EPlain ''no default provider configured'')
      else case map_of (faProviders f) (faDefault f) of
        None \<Rightarrow> Inl (EPlain (''default provider '' @ faDefault f @ '' not found''))
      | Some p \<Rightarrow> Inr p)"

definition SetDefaultProvider :: "string \<Rightarrow> 'p factory \<Rightarrow> gerr option \<times> 'p factory" where
  "SetDefaultProvider name f =
     (case map_of (faProviders f) name of
        None \<Rightarrow> (Some (EPlain (''provider '' @ name @ '' not registered'')), f)
      | Some _ \<Rightarrow> (None, f\<lparr>faDefault := name\<rparr>))"

text \<open>The first provider, in the order the map is visited, whose list holds the model.\<close>

definition lists_model :: "('p \<Rightarrow> string list) \<Rightarrow> string \<Rightarrow> string \<times> 'p \<Rightarrow> bool" where
  "lists_model models ml = (\<lambda>(_, p). ml \<in> set (map str_lower (models p)))"

definition provider_prefix :: "string \<Rightarrow> string option" where
  "provider_prefix ml =
     (if str_prefix ''gpt-'' ml \<or> str_prefix ''o1-'' ml then Some ''openai''
      else if str_prefix ''claude-'' ml then Some ''anthropic''
      else if str_prefix ''gemini-'' ml then Some ''gemini'' else None)"

definition GetProviderForModel :: "('p \<Rightarrow> string list) \<Rightarrow> string \<Rightarrow> 'p factory \<Rightarrow> gerr + 'p" where
  "GetProviderForModel models model f =
     (let ml = str_lower model;
          fallback = (case (if faDefault f = [] then None else map_of (faProviders f) (faDefault f)) of
                        Some p \<Rightarrow> Inr p
                      | None \<Rightarrow> Inl (EPlain (''no provider found for model: '' @ model)))
      in case find (lists_model models ml) (faProviders f) of
           Some (_, p) \<Rightarrow> Inr p
         | None \<Rightarrow>
             (case provider_prefix ml of
                None \<Rightarrow> fallback
              | Some name \<Rightarrow>
                  (case map_of (faProviders f) name of Some p \<Rightarrow> Inr p | None \<Rightarrow> fallback)))"

text \<open>A default is a registered provider, and there is one as soon as anything is registered.\<close>

definition factory_inv :: "'p factory \<Rightarrow> bool" where
  "factory_inv f \<longleftrightarrow>
     (faDefault f = [] \<longrightarrow> faProviders f = []) \<and>
     (faDefault f \<noteq> [] \<longrightarrow> map_of (faProviders f) (faDefault f) \<noteq> None)"

lemma factory_inv_Register: "factory_inv f \<Longrightarrow> factory_inv (snd (RegisterProvider n p f))"
  by (auto simp: factory_inv_def RegisterProvider_def Let_def update_conv'
      split: option.splits if_splits)

lemma factory_inv_SetDefault:
  "factory_inv f \<Longrightarrow> [] \<notin> dom (map_of (faProviders f)) \<Longrightarrow> factory_inv (snd (SetDefaultProvider n f))"
  by (auto simp: factory_inv_def SetDefaultProvider_def split: option.splits)

lemma GetProviderForModel_total:
  assumes "factory_inv f" and "faProviders f \<noteq> []"
  shows "\<exists>p. GetProviderForModel models m f = Inr p"
proof -
  from assms have "faDefault f \<noteq> []" "map_of (faProviders f) (faDefault f) \<noteq> None"
    by (auto simp: factory_inv_def)
  then show ?thesis
    by (auto simp: GetProviderForModel_def Let_def split: option.splits)
qed

end
