(* ===== verification/Spirit.thy ===== *)
theory Spirit
  imports GoErrors
begin

text \<open>
  The agent configuration: \<open>entities/spirit.go\<close>, the policies of \<open>entities/reasoning.go\<close>,
  plan items (\<open>entities/plan.go\<close>) and the budget records of \<open>entities/ledger.go\<close>. The
  fields the engine never reads (description, authorship, timestamps) are left out.
\<close>

section \<open>Policies (entities/reasoning.go)\<close>

record ProgressPolicy =
  prEnabled :: bool
  prStallWindow :: int

record CompressionPolicy =
  coEnabled :: bool
  coMaxContextChars :: int
  coKeepRecent :: int

record ReflectionPolicy =
  rfEnabled :: bool
  rfMaxRounds :: int
  rfModel :: string
  rfCriteria :: "string list"

text \<open>The action on a violation; any other configured text behaves as \<open>revise_once\<close>.\<close>

datatype GroundingViolationAction = GroundingReviseOnce | GroundingAnnotate | GroundingBlock | GroundingUnset

record GroundingPolicy =
  grEnabled :: bool
  grMinCitations :: int
  grOnViolation :: GroundingViolationAction
  grBlockedMessage :: string

record PlanPolicy =
  plEnabled :: bool
  plMaxItems :: int
  plRequired :: bool

text \<open>\<open>Confidence\<close> is a string type with three named values.\<close>

datatype Confidence = ConfidenceLow | ConfidenceMedium | ConfidenceHigh | ConfidenceOther string

datatype HandoffMode = HandoffRaiseVigil | HandoffAnnotateOnly | HandoffModeOther string

record HandoffPolicy =
  hoEnabled :: bool
  hoMinConfidence :: Confidence
  hoMode :: HandoffMode
  hoHoldingMessage :: string
  hoUncertaintyMarkers :: "string list"

record ReasoningOverrides =
  ovProgress :: "ProgressPolicy option"
  ovCompression :: "CompressionPolicy option"
  ovReflection :: "ReflectionPolicy option"
  ovGrounding :: "GroundingPolicy option"
  ovPlan :: "PlanPolicy option"
  ovHandoff :: "HandoffPolicy option"

datatype PlanStatus = PlanPending | PlanInProgress | PlanDone | PlanAbandoned

record PlanItem =
  piTitle :: string
  piStatus :: PlanStatus

section \<open>The Spirit (entities/spirit.go)\<close>

text \<open>\<open>SpiritType\<close> is a string type; a Spirit stored before types existed has the empty one.\<close>

datatype SpiritType =
    SpiritTypeUnset
  | SpiritTypeConversational
  | SpiritTypeExecutor
  | SpiritTypeNotifier
  | SpiritTypeOrchestrator
  | SpiritTypeOther string

record SpiritModel =
  smProvider :: string
  smModel :: string
  smTemperature :: rat
  smMaxTokens :: int
  smDraftModel :: string

record NotifierCondition =
  ncField :: string
  ncOperator :: string
  ncValue :: gval

record NotifierConfig =
  nfMode :: string
  nfTemplate :: string
  nfConditions :: "NotifierCondition list"

record OrchestratorConfig =
  ocMode :: string
  ocSubSpirits :: "string list"
  ocLogicRouterName :: string
  ocMaxDepth :: int
  ocParallelSummon :: bool

record HandoffConfig =
  hcAllowedTargets :: "string list"
  hcContextTransfer :: string
  hcMaxHandoffs :: int

record AllowedAction =
  aaName :: string
  aaIsCritical :: "bool option"
  aaDescriptionOverride :: string

record ResponseFormat =
  fmtName :: string
  fmtSchema :: gmap
  fmtStrict :: bool

record spirit =
  sID :: string
  sName :: string
  sVersion :: int
  sSystemPrompt :: string
  sAllowedActions :: "AllowedAction list"
  sEnforceVoiceDelivery :: bool
  sVoiceDeliveryInstructions :: string
  sBusinessErrorInstructions :: string
  sModelConfig :: SpiritModel
  sType :: SpiritType
  sRequireScouts :: "string list"
  sLoreIDs :: "string list"
  sWithSessionMemory :: bool
  sNotifierConfig :: NotifierConfig
  sOrchestratorConfig :: OrchestratorConfig
  sHandoffConfig :: HandoffConfig
  sReasoningOverrides :: "ReasoningOverrides option"
  sResponseFormat :: "ResponseFormat option"

definition IsConversational :: "spirit \<Rightarrow> bool" where
  "IsConversational s \<longleftrightarrow> sType s = SpiritTypeUnset \<or> sType s = SpiritTypeConversational"

definition IsExecutor :: "spirit \<Rightarrow> bool" where
  "IsExecutor s \<longleftrightarrow> sType s = SpiritTypeExecutor"

definition IsNotifier :: "spirit \<Rightarrow> bool" where
  "IsNotifier s \<longleftrightarrow> sType s = SpiritTypeNotifier"

definition IsOrchestrator :: "spirit \<Rightarrow> bool" where
  "IsOrchestrator s \<longleftrightarrow> sType s = SpiritTypeOrchestrator"

definition HasHandoff :: "spirit \<Rightarrow> bool" where
  "HasHandoff s \<longleftrightarrow> hcAllowedTargets (sHandoffConfig s) \<noteq> []"

definition NeedsSession :: "spirit \<Rightarrow> bool" where
  "NeedsSession s \<longleftrightarrow>
     IsConversational s \<or> IsOrchestrator s \<or> (IsExecutor s \<and> sWithSessionMemory s)"

definition NeedsMessageCoalescing :: "spirit \<Rightarrow> bool" where
  "NeedsMessageCoalescing s \<longleftrightarrow> IsConversational s"

lemmas spirit_type_defs = IsConversational_def IsExecutor_def IsNotifier_def IsOrchestrator_def
  NeedsSession_def NeedsMessageCoalescing_def HasHandoff_def

definition zero_model :: SpiritModel where
  "zero_model = \<lparr>smProvider = [], smModel = [], smTemperature = 0, smMaxTokens = 0, smDraftModel = []\<rparr>"

definition zero_spirit :: spirit where
  "zero_spirit = \<lparr>sID = [], sName = [], sVersion = 0, sSystemPrompt = [], sAllowedActions = [],
     sEnforceVoiceDelivery = False, sVoiceDeliveryInstructions = [], sBusinessErrorInstructions = [],
     sModelConfig = zero_model, sType = SpiritTypeUnset, sRequireScouts = [], sLoreIDs = [],
     sWithSessionMemory = False,
     sNotifierConfig = \<lparr>nfMode = [], nfTemplate = [], nfConditions = []\<rparr>,
     sOrchestratorConfig = \<lparr>ocMode = [], ocSubSpirits = [], ocLogicRouterName = [], ocMaxDepth = 0, ocParallelSummon = False\<rparr>,
     sHandoffConfig = \<lparr>hcAllowedTargets = [], hcContextTransfer = [], hcMaxHandoffs = 0\<rparr>,
     sReasoningOverrides = None, sResponseFormat = None\<rparr>"

section \<open>Budgets and model routing (entities/ledger.go)\<close>

record TokenBudget =
  tbMonthlyTokenLimit :: int
  tbOnExceed :: string
  tbDowngradeModel :: SpiritModel
  tbAlertThreshold :: rat
  tbDowngradeAtThreshold :: bool

record ModelRoutingCondition =
  rcInputLengthGte :: int
  rcInputLengthLt :: int
  rcHasAttachments :: bool
  rcTopicPrefix :: string
  rcEventType :: string
  rcUserTier :: string

record ModelRoutingRule =
  rrName :: string
  rrCondition :: ModelRoutingCondition
  rrModel :: SpiritModel

end
