(* ===== verification/Memories.thy ===== *)
theory Memories
  imports Pulse
begin

text \<open>
  The conversation memory: \<open>entities/memory.go\<close>, \<open>entities/echo.go\<close> and
  \<open>orchestrator/memory_manager.go\<close>. The two repositories are ports, so they are records of
  functions that thread the outside world \<open>'w\<close>; the clock is an argument. A nil repository
  is \<open>None\<close>, and calling a method of it panics, which is the result \<open>None\<close> of
  \<open>RebuildForTopic\<close>.
\<close>

section \<open>Data\<close>

record thread =
  thRole :: string
  thContent :: string
  thTimestamp :: int
  thIsUserFacing :: bool
  thToolCallID :: string
  thImageURLs :: "string list"
  thAudioURLs :: "string list"
  thMetadata :: "gmap option"

record memory =
  meMemoryKey :: string
  meSubjectKey :: string
  meThreads :: "thread list"
  meSummary :: string
  meTopicFacts :: "gmap option"
  meLastInteraction :: int

definition zero_memory :: memory where
  "zero_memory = \<lparr>meMemoryKey = [], meSubjectKey = [], meThreads = [], meSummary = [],
     meTopicFacts = None, meLastInteraction = 0\<rparr>"

record echo =
  ecID :: string
  ecMemoryKey :: string
  ecSubjectKey :: string
  ecRole :: string
  ecContent :: string
  ecTimestamp :: int
  ecIsUserFacing :: bool
  ecToolCallID :: string
  ecImageURLs :: "string list"
  ecAudioURLs :: "string list"
  ecMetadata :: "gmap option"

definition ToThread :: "echo \<Rightarrow> thread" where
  "ToThread m = \<lparr>thRole = ecRole m, thContent = ecContent m, thTimestamp = ecTimestamp m,
     thIsUserFacing = ecIsUserFacing m, thToolCallID = ecToolCallID m, thImageURLs = ecImageURLs m,
     thAudioURLs = ecAudioURLs m, thMetadata = ecMetadata m\<rparr>"

definition plain_thread :: "string \<Rightarrow> string \<Rightarrow> thread" where
  "plain_thread role content = \<lparr>thRole = role, thContent = content, thTimestamp = 0,
     thIsUserFacing = True, thToolCallID = [], thImageURLs = [], thAudioURLs = [], thMetadata = None\<rparr>"

definition plain_echo :: "string \<Rightarrow> string \<Rightarrow> string \<Rightarrow> string \<Rightarrow> echo" where
  "plain_echo mk topic role content = \<lparr>ecID = [], ecMemoryKey = mk, ecSubjectKey = topic,
     ecRole = role, ecContent = content, ecTimestamp = 0, ecIsUserFacing = True, ecToolCallID = [],
     ecImageURLs = [], ecAudioURLs = [], ecMetadata = None\<rparr>"

section \<open>The manager (memory_manager.go)\<close>

record 'w memory_repo =
  mrGetMemory :: "string \<Rightarrow> 'w \<Rightarrow> (gerr + memory) \<times> 'w"
  mrSaveMemory :: "string \<Rightarrow> memory \<Rightarrow> 'w \<Rightarrow> gerr option \<times> 'w"

record 'w echo_repo =
  erAppend :: "echo \<Rightarrow> 'w \<Rightarrow> gerr option \<times> 'w"
  erFindRecent :: "string \<Rightarrow> int \<Rightarrow> 'w \<Rightarrow> (gerr + echo list) \<times> 'w"
  erFindRecentSubject :: "string \<Rightarrow> string \<Rightarrow> int \<Rightarrow> 'w \<Rightarrow> (gerr + echo list) \<times> 'w"

record 'w memory_mgr =
  mmMemoryRepo :: "'w memory_repo"
  mmMessageRepo :: "'w echo_repo option"
  mmMaxMemoryMessages :: int
  mmReconstructionLimit :: int
  mmEnableReconstruction :: bool

definition NewMemoryManager :: "'w memory_repo \<Rightarrow> 'w echo_repo option \<Rightarrow> int \<Rightarrow> 'w memory_mgr" where
  "NewMemoryManager mr er mx =
     \<lparr>mmMemoryRepo = mr, mmMessageRepo = er, mmMaxMemoryMessages = (if mx \<le> 0 then 10 else mx),
      mmReconstructionLimit = 10, mmEnableReconstruction = True\<rparr>"

definition WithMemoryReconstruction :: "bool \<Rightarrow> int \<Rightarrow> 'w memory_mgr \<Rightarrow> 'w memory_mgr" where
  "WithMemoryReconstruction enabled limit s =
     (let s1 = s\<lparr>mmEnableReconstruction := enabled\<rparr>
      in if limit > 0 then s1\<lparr>mmReconstructionLimit := limit\<rparr> else s1)"

definition buildRedisKey :: "string \<Rightarrow> string \<Rightarrow> string" where
  "buildRedisKey memoryKey subjectKey =
     (if subjectKey = [] then memoryKey else memoryKey @ '':'' @ subjectKey)"

definition toChatMessages :: "echo list \<Rightarrow> thread list" where
  "toChatMessages = map ToThread"

definition emptySession :: "int \<Rightarrow> string \<Rightarrow> string \<Rightarrow> memory" where
  "emptySession now memoryKey subjectKey =
     \<lparr>meMemoryKey = memoryKey, meSubjectKey = subjectKey, meThreads = [], meSummary = [],
      meTopicFacts = Some [], meLastInteraction = now\<rparr>"

definition rebuildMemoryFromMessages ::
  "'w memory_mgr \<Rightarrow> 'w echo_repo \<Rightarrow> int \<Rightarrow> string \<Rightarrow> string \<Rightarrow> 'w \<Rightarrow> memory \<times> 'w" where
  "rebuildMemoryFromMessages s er now memoryKey subjectKey w =
     (let (r, w1) =
            (if subjectKey \<noteq> []
             then erFindRecentSubject er memoryKey subjectKey (mmReconstructionLimit s) w
             else erFindRecent er memoryKey (mmReconstructionLimit s) w)
      in case r of
           Inl _ \<Rightarrow> (emptySession now memoryKey subjectKey, w1)
         | Inr messages \<Rightarrow>
             (if messages = [] then (emptySession now memoryKey subjectKey, w1)
              else ((emptySession now memoryKey subjectKey)\<lparr>meThreads := toChatMessages messages\<rparr>, w1)))"

definition GetOrCreate ::
  "'w memory_mgr \<Rightarrow> int \<Rightarrow> string \<Rightarrow> string \<Rightarrow> 'w \<Rightarrow> (gerr + memory) \<times> 'w" where
  "GetOrCreate s now memoryKey subjectKey w =
     (let key = buildRedisKey memoryKey subjectKey in
      case mrGetMemory (mmMemoryRepo s) key w of
        (Inr session, w1) \<Rightarrow> (Inr session, w1)
      | (Inl _, w1) \<Rightarrow>
          (let (session, w2) =
                 (case mmMessageRepo s of
                    Some er \<Rightarrow>
                      if mmEnableReconstruction s
                      then rebuildMemoryFromMessages s er now memoryKey subjectKey w1
                      else (emptySession now memoryKey subjectKey, w1)
                  | None \<Rightarrow> (emptySession now memoryKey subjectKey, w1))
           in case mrSaveMemory (mmMemoryRepo s) key session w2 of
                (Some e, w3) \<Rightarrow> (Inl (EWrap ''initialize memory'' e), w3)
              | (None, w3) \<Rightarrow> (Inr session, w3)))"

definition FindLastTopicKey :: "'w memory_mgr \<Rightarrow> string \<Rightarrow> 'w \<Rightarrow> string \<times> 'w" where
  "FindLastTopicKey s memoryKey w =
     (case mmMessageRepo s of
        None \<Rightarrow> ([], w)
      | Some er \<Rightarrow>
          (case erFindRecent er memoryKey 1 w of
             (Inl _, w1) \<Rightarrow> ([], w1)
           | (Inr [], w1) \<Rightarrow> ([], w1)
           | (Inr (m # _), w1) \<Rightarrow> (ecSubjectKey m, w1)))"

text \<open>
  \<open>RebuildForTopic\<close> uses the message repository without the nil test that
  \<open>GetOrCreate\<close> makes; \<open>None\<close> is the panic.
\<close>

definition RebuildForTopic ::
  "'w memory_mgr \<Rightarrow> int \<Rightarrow> string \<Rightarrow> string \<Rightarrow> 'w \<Rightarrow> ((gerr + memory) \<times> 'w) option" where
  "RebuildForTopic s now memoryKey subjectKey w =
     (case mmMessageRepo s of
        None \<Rightarrow> None
      | Some er \<Rightarrow>
          (let (session, w1) = rebuildMemoryFromMessages s er now memoryKey subjectKey w
           in case mrSaveMemory (mmMemoryRepo s) (buildRedisKey memoryKey subjectKey) session w1 of
                (Some e, w2) \<Rightarrow> Some (Inl (EWrap ''rebuild memory'' e), w2)
              | (None, w2) \<Rightarrow> Some (Inr session, w2)))"

definition UpdateMemory :: "'w memory_mgr \<Rightarrow> int \<Rightarrow> thread \<Rightarrow> memory \<Rightarrow> memory" where
  "UpdateMemory s now message session =
     (let threads = meThreads session @ [message\<lparr>thTimestamp := now\<rparr>];
          session1 = session\<lparr>meThreads := threads, meLastInteraction := now\<rparr>
      in if int (length threads) > mmMaxMemoryMessages s
         then session1\<lparr>meThreads := drop (length threads - nat (mmMaxMemoryMessages s)) threads\<rparr>
         else session1)"

definition SaveSession :: "'w memory_mgr \<Rightarrow> memory \<Rightarrow> 'w \<Rightarrow> gerr option \<times> 'w" where
  "SaveSession s session w =
     (case mrSaveMemory (mmMemoryRepo s) (buildRedisKey (meMemoryKey session) (meSubjectKey session)) session w of
        (Some e, w1) \<Rightarrow> (Some (EWrap ''save memory'' e), w1)
      | (None, w1) \<Rightarrow> (None, w1))"

section \<open>Message manager (message_manager.go)\<close>

definition AppendMessage :: "'w echo_repo \<Rightarrow> echo \<Rightarrow> 'w \<Rightarrow> gerr option \<times> 'w" where
  "AppendMessage er m w =
     (case erAppend er m w of
        (Some e, w1) \<Rightarrow> (Some (EWrap ''append message'' e), w1)
      | (None, w1) \<Rightarrow> (None, w1))"

section \<open>Laws\<close>

lemma max_messages_pos: "0 < mmMaxMemoryMessages (NewMemoryManager mr er mx)"
  by (simp add: NewMemoryManager_def)

text \<open>
  \<open>MemoryManager.UpdateMemory\<close> as its callers rely on it: the session keeps a window on
  the newest messages of the conversation, and nothing else of the session moves.
\<close>

definition lastn :: "nat \<Rightarrow> 'a list \<Rightarrow> 'a list" where
  "lastn n xs = drop (length xs - n) xs"

lemma length_lastn [simp]: "length (lastn n xs) = min n (length xs)"
  by (auto simp: lastn_def)

lemma lastn_all [simp]: "length xs \<le> n \<Longrightarrow> lastn n xs = xs"
  by (simp add: lastn_def)

lemma lastn_append: "n \<le> length ys \<Longrightarrow> lastn n (xs @ ys) = lastn n ys"
  by (simp add: lastn_def)

lemma last_lastn: "0 < n \<Longrightarrow> xs \<noteq> [] \<Longrightarrow> last (lastn n xs) = last xs"
  unfolding lastn_def by (subst last_drop) (simp_all add: Suc_leI)

lemma lastn_lastn_append: "lastn n (lastn n xs @ ys) = lastn n (xs @ ys)"
proof (cases "length xs \<le> n")
  case False
  have glue: "drop a (drop b xs @ ys) = drop (a + b) (xs @ ys)" if "b \<le> length xs" for a b
    using that by (metis append_Nil diff_is_0_eq drop_0 drop_append drop_drop)
  from False show ?thesis
    using glue [of "length xs - n" "length ys"] by (simp add: lastn_def add.commute)
qed simp

locale memory_window =
  fixes upd :: "thread \<Rightarrow> memory \<Rightarrow> memory"
    and stamp :: "thread \<Rightarrow> thread"
    and cap :: nat
  assumes cap_pos: "0 < cap"
    and upd_threads: "meThreads (upd t m) = lastn cap (meThreads m @ [stamp t])"
    and upd_key: "meMemoryKey (upd t m) = meMemoryKey m"
    and upd_subject: "meSubjectKey (upd t m) = meSubjectKey m"
    and upd_facts: "meTopicFacts (upd t m) = meTopicFacts m"
    and upd_summary: "meSummary (upd t m) = meSummary m"
begin

lemma upd_last: "meThreads (upd t m) \<noteq> [] \<and> last (meThreads (upd t m)) = stamp t"
  using cap_pos by (simp add: upd_threads last_lastn flip: length_greater_0_conv)

lemma upd_bounded: "length (meThreads (upd t m)) \<le> cap"
  by (simp add: upd_threads)

text \<open>A run of updates shows the newest messages of everything that was said.\<close>

lemma run_threads:
  "ts \<noteq> [] \<Longrightarrow> meThreads (fold upd ts m) = lastn cap (meThreads m @ map stamp ts)"
proof (induction ts arbitrary: m)
  case (Cons t ts)
  show ?case
  proof (cases "ts = []")
    case True
    then show ?thesis by (simp add: upd_threads)
  next
    case False
    then have "meThreads (fold upd (t # ts) m) = lastn cap (meThreads (upd t m) @ map stamp ts)"
      using Cons.IH by simp
    also have "\<dots> = lastn cap (meThreads m @ map stamp (t # ts))"
      using lastn_lastn_append [of cap "meThreads m @ [stamp t]" "map stamp ts"]
      by (simp add: upd_threads)
    finally show ?thesis .
  qed
qed simp

lemma run_frame:
  "meMemoryKey (fold upd ts m) = meMemoryKey m \<and> meSubjectKey (fold upd ts m) = meSubjectKey m
   \<and> meTopicFacts (fold upd ts m) = meTopicFacts m \<and> meSummary (fold upd ts m) = meSummary m"
  by (induction ts arbitrary: m) (simp_all add: upd_key upd_subject upd_facts upd_summary)

end

lemma UpdateMemory_threads:
  assumes "0 < mmMaxMemoryMessages s"
  shows "meThreads (UpdateMemory s now t m)
           = lastn (nat (mmMaxMemoryMessages s)) (meThreads m @ [t\<lparr>thTimestamp := now\<rparr>])"
  using assms by (auto simp: UpdateMemory_def Let_def lastn_def)

text \<open>Every manager the constructor makes, whatever cap it was given, keeps the contract.\<close>

interpretation mw: memory_window
  "UpdateMemory (NewMemoryManager mr er mx) now" "\<lambda>t. t\<lparr>thTimestamp := now\<rparr>"
  "nat (if mx \<le> 0 then 10 else mx)"
  for mr :: "'w memory_repo" and er :: "'w echo_repo option" and mx now :: int
proof (unfold_locales, goal_cases)
  case 1
  then show ?case by simp
next
  case (2 t m)
  show ?case
    using UpdateMemory_threads [OF max_messages_pos [of mr er mx], of now t m]
    by (simp add: NewMemoryManager_def)
qed (simp_all add: UpdateMemory_def Let_def)

text \<open>
  Keys: with an identity of the form \<open>channel:user\<close> whose parts hold no colon, distinct
  (identity, subject) pairs have distinct store keys.
\<close>

lemma buildRedisKey_inj:
  assumes "CHR '':'' \<notin> set a" "CHR '':'' \<notin> set b" "CHR '':'' \<notin> set a'" "CHR '':'' \<notin> set b'"
    and eq: "buildRedisKey (a @ '':'' @ b) s = buildRedisKey (a' @ '':'' @ b') s'"
  shows "a @ '':'' @ b = a' @ '':'' @ b' \<and> s = s'"
proof -
  define t where "t = (if s = [] then [] else '':'' @ s)"
  define t' where "t' = (if s' = [] then [] else '':'' @ s')"
  have "a @ CHR '':'' # (b @ t) = a' @ CHR '':'' # (b' @ t')"
    using eq by (simp add: buildRedisKey_def t_def t'_def split: if_splits)
  then have "Some (a, b @ t) = Some (a', b' @ t')"
    using str_cut_append [OF assms(1)] str_cut_append [OF assms(3)] by metis
  then have 1: "a = a'" "b @ t = b' @ t'" by simp_all
  have "takeWhile (\<lambda>c. c \<noteq> CHR '':'') (b @ t) = b"
    using assms(2) by (auto simp: t_def takeWhile_append2 takeWhile_tail takeWhile_eq_all_conv)
  moreover have "takeWhile (\<lambda>c. c \<noteq> CHR '':'') (b' @ t') = b'"
    using assms(4) by (auto simp: t'_def takeWhile_append2 takeWhile_tail takeWhile_eq_all_conv)
  ultimately have "b = b'" using 1(2) by simp
  moreover from this 1(2) have "s = s'" by (simp add: t_def t'_def split: if_splits)
  ultimately show ?thesis using 1(1) by simp
qed

text \<open>What a rebuilt session holds.\<close>

lemma rebuild_clears:
  "fst (rebuildMemoryFromMessages s er now mk sk w) = m \<Longrightarrow>
   meTopicFacts m = Some [] \<and> meSummary m = [] \<and> meMemoryKey m = mk \<and> meSubjectKey m = sk"
  by (auto simp: rebuildMemoryFromMessages_def emptySession_def Let_def
      split: prod.splits sum.splits if_splits)

end
