(* ===== verification/Runes.thy ===== *)
theory Runes
  imports Prelude
begin

text \<open>
  A Go string is a sequence of bytes; \<open>[]rune(s)\<close> decodes it as UTF-8. The decoder here
  cuts a byte string into the encodings of its runes, and an invalid byte becomes the encoding
  of U+FFFD, as the conversion \<open>string([]rune(s))\<close> of the language has it.
\<close>

section \<open>Decoding\<close>

definition byte :: "char \<Rightarrow> nat" where
  "byte c = of_char c"

definition in_range :: "nat \<Rightarrow> nat \<Rightarrow> char \<Rightarrow> bool" where
  "in_range lo hi c \<longleftrightarrow> lo \<le> byte c \<and> byte c \<le> hi"

definition cont :: "char \<Rightarrow> bool" where
  "cont = in_range 128 191"

text \<open>Well-formed encodings of one, two, three and four bytes.\<close>

definition enc1 :: "char \<Rightarrow> bool" where
  "enc1 a \<longleftrightarrow> byte a < 128"

definition enc2 :: "char \<Rightarrow> char \<Rightarrow> bool" where
  "enc2 a b \<longleftrightarrow> in_range 194 223 a \<and> cont b"

definition enc3 :: "char \<Rightarrow> char \<Rightarrow> char \<Rightarrow> bool" where
  "enc3 a b c \<longleftrightarrow> in_range 224 239 a \<and> cont c
     \<and> in_range (if byte a = 224 then 160 else 128) (if byte a = 237 then 159 else 191) b"

definition enc4 :: "char \<Rightarrow> char \<Rightarrow> char \<Rightarrow> char \<Rightarrow> bool" where
  "enc4 a b c d \<longleftrightarrow> in_range 240 244 a \<and> cont c \<and> cont d
     \<and> in_range (if byte a = 240 then 144 else 128) (if byte a = 244 then 143 else 191) b"

text \<open>The length of the rune at the head of a byte string, 0 when its encoding is invalid.\<close>

fun utf8_len :: "string \<Rightarrow> nat" where
  "utf8_len [] = 0"
| "utf8_len [a] = (if enc1 a then 1 else 0)"
| "utf8_len [a, b] = (if enc1 a then 1 else if enc2 a b then 2 else 0)"
| "utf8_len [a, b, c] =
     (if enc1 a then 1 else if enc2 a b then 2 else if enc3 a b c then 3 else 0)"
| "utf8_len (a # b # c # d # s) =
     (if enc1 a then 1 else if enc2 a b then 2 else if enc3 a b c then 3
      else if enc4 a b c d then 4 else 0)"

definition rune_error :: string where
  "rune_error = [CHR 0xEF, CHR 0xBF, CHR 0xBD]"

function runes :: "string \<Rightarrow> string list" where
  "runes [] = []"
| "runes (a # s) =
     (let n = utf8_len (a # s) in
      if n = 0 then rune_error # runes s
      else take n (a # s) # runes (drop (n - 1) s))"
  by pat_completeness auto
termination by (relation "measure length") auto

declare runes.simps(2) [simp del]

definition rune_count :: "string \<Rightarrow> nat" where
  "rune_count s = length (runes s)"

text \<open>The encoding of one rune.\<close>

definition is_rune :: "string \<Rightarrow> bool" where
  "is_rune r \<longleftrightarrow> r \<noteq> [] \<and> utf8_len r = length r"

section \<open>Cutting and gluing\<close>

lemma utf8_len_le: "utf8_len s \<le> length s"
  by (cases s rule: utf8_len.cases) simp_all

lemma utf8_len_take:
  assumes "utf8_len s \<noteq> 0"
  shows "utf8_len (take (utf8_len s) s) = utf8_len s"
  using assms by (cases s rule: utf8_len.cases) (simp_all split: if_splits)

text \<open>The encodings are prefix-free: the first byte fixes the length.\<close>

lemma enc_exclusive:
  "enc1 a \<Longrightarrow> \<not> enc2 a b" "enc1 a \<Longrightarrow> \<not> enc3 a b c" "enc1 a \<Longrightarrow> \<not> enc4 a b c d"
  "enc2 a b \<Longrightarrow> \<not> enc3 a b' c" "enc2 a b \<Longrightarrow> \<not> enc4 a b' c d" "enc3 a b c \<Longrightarrow> \<not> enc4 a b' c' d"
  by (simp_all add: enc1_def enc2_def enc3_def enc4_def in_range_def)

lemma utf8_len_1 [simp]: "enc1 a \<Longrightarrow> utf8_len (a # s) = 1"
  by (cases "a # s" rule: utf8_len.cases) simp_all

lemma utf8_len_2 [simp]: "enc2 a b \<Longrightarrow> utf8_len (a # b # s) = 2"
  using enc_exclusive(1) [of a b] by (cases "a # b # s" rule: utf8_len.cases) auto

lemma utf8_len_3 [simp]: "enc3 a b c \<Longrightarrow> utf8_len (a # b # c # s) = 3"
  using enc_exclusive(2) [of a b c] enc_exclusive(4) [of a b b c]
  by (cases "a # b # c # s" rule: utf8_len.cases) auto

lemma utf8_len_4 [simp]: "enc4 a b c d \<Longrightarrow> utf8_len (a # b # c # d # s) = 4"
  using enc_exclusive(3) [of a b c d] enc_exclusive(5) [of a b b c d] enc_exclusive(6) [of a b c b c d]
  by auto

lemma is_rune_cases:
  assumes "is_rune r"
  obtains a where "r = [a]" "enc1 a"
    | a b where "r = [a, b]" "enc2 a b"
    | a b c where "r = [a, b, c]" "enc3 a b c"
    | a b c d where "r = [a, b, c, d]" "enc4 a b c d"
  using assms unfolding is_rune_def
  by (cases r rule: utf8_len.cases) (auto split: if_splits)

lemma utf8_len_append: "is_rune r \<Longrightarrow> utf8_len (r @ s) = length r"
  by (erule is_rune_cases) (simp_all del: utf8_len.simps)

lemma runes_rune [simp]:
  assumes "is_rune r"
  shows "runes (r @ s) = r # runes s"
proof (cases r)
  case Nil
  with assms show ?thesis by (simp add: is_rune_def)
next
  case (Cons a r')
  have n: "utf8_len (a # r' @ s) = Suc (length r')"
    using utf8_len_append [OF assms, of s] by (simp only: Cons append_Cons list.size)
  show ?thesis by (simp only: Cons append_Cons runes.simps Let_def n) simp
qed

lemma is_rune_error [simp]: "is_rune rune_error"
  by (simp add: is_rune_def rune_error_def enc1_def enc2_def enc3_def byte_def cont_def in_range_def)

lemma runes_are_runes: "\<forall>r\<in>set (runes s). is_rune r"
proof (induction s rule: runes.induct)
  case 1
  then show ?case by simp
next
  case (2 a s)
  let ?n = "utf8_len (a # s)"
  show ?case
  proof (cases "?n = 0")
    case True
    with 2 show ?thesis by (simp only: runes.simps Let_def if_True list.set) simp
  next
    case False
    have "is_rune (take ?n (a # s))"
      using utf8_len_take [OF False] utf8_len_le [of "a # s"] False
      unfolding is_rune_def by (simp only: length_take min_absorb2 take_eq_Nil) simp
    with False 2 show ?thesis by (simp only: runes.simps Let_def if_False list.set) simp
  qed
qed

lemma runes_concat: "\<forall>r\<in>set rs. is_rune r \<Longrightarrow> runes (concat rs @ s) = rs @ runes s"
  by (induction rs) simp_all

lemma runes_concat_runes [simp]: "runes (concat (runes s)) = runes s"
  using runes_concat [OF runes_are_runes, of s "[]"] by simp

definition ascii :: "string \<Rightarrow> bool" where
  "ascii s \<longleftrightarrow> (\<forall>c\<in>set s. byte c < 128)"

lemma is_rune_ascii [simp]: "byte c < 128 \<Longrightarrow> is_rune [c]"
  by (simp add: is_rune_def enc1_def)

lemma runes_ascii_append: "ascii s \<Longrightarrow> runes (s @ t) = map (\<lambda>c. [c]) s @ runes t"
proof (induction s)
  case (Cons c s)
  then have "runes ([c] @ (s @ t)) = [c] # runes (s @ t)"
    by (intro runes_rune is_rune_ascii) (simp add: ascii_def)
  with Cons show ?case by (simp add: ascii_def)
qed simp

lemma runes_ascii: "ascii s \<Longrightarrow> runes s = map (\<lambda>c. [c]) s"
  using runes_ascii_append [of s "[]"] by simp

lemma rune_count_ascii: "ascii s \<Longrightarrow> rune_count s = length s"
  by (simp add: rune_count_def runes_ascii)

lemma concat_runes_ascii: "ascii s \<Longrightarrow> concat (runes s) = s"
  by (simp add: runes_ascii concat_map_singleton)

lemma byte_digit_char: "d < 10 \<Longrightarrow> byte (digit_char d) < 128"
  by (simp add: byte_def digit_char_def)

lemma ascii_nat_dec: "ascii (nat_dec n)"
  unfolding ascii_def using nat_dec_chars byte_digit_char by metis

lemma ascii_append [simp]: "ascii (s @ t) \<longleftrightarrow> ascii s \<and> ascii t"
  by (auto simp: ascii_def)

lemma ascii_int_dec: "ascii (int_dec i)"
  using ascii_nat_dec by (auto simp: int_dec_def ascii_def byte_def)

end
