(* ===== verification/Executor.thy ===== *)
theory Executor
  imports Registries Runes
begin

text \<open>
  Running the Actions a model asks for: \<open>ports/action.go\<close>, \<open>orchestrator/tool_executor.go\<close>
  and the result bound of \<open>orchestrator/tool_shaping.go\<close>. An Action is an interface, so it is
  a record of functions over a state \<open>'s\<close> (the world and whatever the Actions share). A call
  runs as one atomic step; a parallel batch runs its calls in any order. Delays are nanoseconds
  and double with the wrap-around of \<open>int64\<close>.
\<close>

section \<open>Calls, Actions, results\<close>

record tool_call =
  tcID :: string
  tcName :: string
  tcArguments :: "gmap option"
  tcThoughtSignature :: "nat list"
  tcIsCriticalOverride :: "bool option"

datatype action_category = ActionDelivery | ActionRetrieval | ActionModification | ActionGeneral

datatype shape_strategy = ToolShapeTruncate | ToolShapeSummarize

record ToolResultLimits =
  rlMaxChars :: int
  rlStrategy :: shape_strategy
  rlKeepHead :: int
  rlKeepTail :: int

record 's action =
  acName :: string
  acDescription :: string
  acParameters :: gmap
  acCategory :: action_category
  acIsCritical :: bool
  acResultLimit :: "ToolResultLimits option"
  acValidate :: "gmap option \<Rightarrow> gerr option"
  acExecute :: "gmap option \<Rightarrow> 's \<Rightarrow> (gerr + string) \<times> 's"

record action_result =
  arActionName :: string
  arResult :: string
  arError :: "gerr option"
  arIsCritical :: bool
  arIsVoiceDelivery :: bool
  arDurationMs :: int

definition named_result :: "string \<Rightarrow> action_result" where
  "named_result name = \<lparr>arActionName = name, arResult = [], arError = None, arIsCritical = False,
     arIsVoiceDelivery = False, arDurationMs = 0\<rparr>"

section \<open>Retries\<close>

record retry_config =
  rcMaxAttempts :: int
  rcBaseDelay :: int

definition minRetryDelay :: int where
  "minRetryDelay = 50000000"

definition WithRetry :: "retry_config \<Rightarrow> retry_config" where
  "WithRetry cfg =
     (let c1 = (if rcMaxAttempts cfg \<le> 0 then cfg\<lparr>rcMaxAttempts := 1\<rparr> else cfg);
          c2 = (if rcBaseDelay c1 < 0 then c1\<lparr>rcBaseDelay := 0\<rparr> else c1)
      in if rcMaxAttempts c2 > 1 \<and> rcBaseDelay c2 = 0 then c2\<lparr>rcBaseDelay := minRetryDelay\<rparr> else c2)"

text \<open>
  The executor with its registry, mode and retry configuration. \<open>exWait d\<close> is the
  \<open>select\<close> between the timer and the context: \<open>Some e\<close> when the context was done
  first, with its error.
\<close>

record 's executor =
  exRegistry :: "'s action reg"
  exParallel :: bool
  exRetry :: retry_config
  exWait :: "int \<Rightarrow> 's \<Rightarrow> gerr option \<times> 's"

text \<open>
  The loop over the attempts; the number is what is left of \<open>maxAttempts\<close>, so 1 is the last.
\<close>

fun attempts ::
  "'s action \<Rightarrow> (int \<Rightarrow> 's \<Rightarrow> gerr option \<times> 's) \<Rightarrow> gmap option \<Rightarrow> nat \<Rightarrow> int \<Rightarrow> action_result
     \<Rightarrow> 's \<Rightarrow> action_result \<times> 's" where
  "attempts ac wait args 0 delay r s = (r, s)"
| "attempts ac wait args (Suc n) delay r s =
     (case acExecute ac args s of
        (Inr out, s1) \<Rightarrow> (r\<lparr>arResult := out\<rparr>, s1)
      | (Inl e, s1) \<Rightarrow>
          if \<not> IsInfrastructureError e then (r\<lparr>arError := Some (EWrap ''execution failed'' e)\<rparr>, s1)
          else if n = 0 then (r\<lparr>arError := Some (EWrap ''execution failed'' e)\<rparr>, s1)
          else case wait delay s1 of
            (Some ce, s2) \<Rightarrow> (r\<lparr>arError := Some (EWrap ''execution cancelled during retry'' ce)\<rparr>, s2)
          | (None, s2) \<Rightarrow> attempts ac wait args n (wrap64 (delay * 2)) r s2)"

text \<open>
  \<open>executeOne\<close>. The deferred assignment of \<open>DurationMs\<close> writes the local variable after
  the result was copied out, so every returned result keeps the zero duration.
\<close>

definition result_base :: "'s action \<Rightarrow> tool_call \<Rightarrow> action_result" where
  "result_base action call =
     (named_result (tcName call))
       \<lparr>arIsCritical := (case tcIsCriticalOverride call of Some b \<Rightarrow> b | None \<Rightarrow> acIsCritical action),
        arIsVoiceDelivery := (acCategory action = ActionDelivery)\<rparr>"

definition executeOne :: "'s executor \<Rightarrow> tool_call \<Rightarrow> 's \<Rightarrow> action_result \<times> 's" where
  "executeOne t call s =
     (case action_Get (tcName call) (exRegistry t) of
        Inl e \<Rightarrow> ((named_result (tcName call))\<lparr>arError := Some (EWrap ''action not found'' e)\<rparr>, s)
      | Inr action \<Rightarrow>
          (let r = result_base action call in
           case acValidate action (tcArguments call) of
             Some e \<Rightarrow> (r\<lparr>arError := Some (EWrap ''invalid arguments'' e)\<rparr>, s)
           | None \<Rightarrow>
               (let m = (if rcMaxAttempts (exRetry t) \<le> 0 then 1 else rcMaxAttempts (exRetry t))
                in attempts action (exWait t) (tcArguments call) (nat m) (rcBaseDelay (exRetry t)) r s)))"

section \<open>Batches\<close>

fun execute_seq :: "'s executor \<Rightarrow> tool_call list \<Rightarrow> 's \<Rightarrow> action_result list \<times> 's" where
  "execute_seq t [] s = ([], s)"
| "execute_seq t (c # cs) s =
     (let (r, s1) = executeOne t c s; (rs, s2) = execute_seq t cs s1 in (r # rs, s2))"

text \<open>A parallel batch: the goroutines finish in the order \<open>sched\<close>, each filling its slot.\<close>

fun execute_par ::
  "'s executor \<Rightarrow> tool_call list \<Rightarrow> nat list \<Rightarrow> action_result list \<Rightarrow> 's \<Rightarrow> action_result list \<times> 's" where
  "execute_par t calls [] results s = (results, s)"
| "execute_par t calls (i # is) results s =
     (let (r, s1) = executeOne t (calls ! i) s in execute_par t calls is (results[i := r]) s1)"

definition ExecuteAll ::
  "'s executor \<Rightarrow> nat list \<Rightarrow> tool_call list \<Rightarrow> 's \<Rightarrow> action_result list \<times> 's" where
  "ExecuteAll t sched calls s =
     (if exParallel t \<and> 1 < length calls
      then execute_par t calls sched (replicate (length calls) (named_result [])) s
      else execute_seq t calls s)"

definition GetAction :: "'s executor \<Rightarrow> string \<Rightarrow> gerr + 's action" where
  "GetAction t name =
     (case action_Get name (exRegistry t) of
        Inl e \<Rightarrow> Inl (EWrap (''get action '' @ quote_q name) e)
      | Inr a \<Rightarrow> Inr a)"

section \<open>Facts about one call\<close>

lemma attempts_frame:
  "arActionName (fst (attempts ac w a n d r s)) = arActionName r
   \<and> arIsCritical (fst (attempts ac w a n d r s)) = arIsCritical r
   \<and> arIsVoiceDelivery (fst (attempts ac w a n d r s)) = arIsVoiceDelivery r
   \<and> arDurationMs (fst (attempts ac w a n d r s)) = arDurationMs r"
  by (induction ac w a n d r s rule: attempts.induct)
    (auto split: prod.splits sum.splits option.splits if_splits)

lemma executeOne_name: "arActionName (fst (executeOne t c s)) = tcName c"
  by (simp add: executeOne_def attempts_frame result_base_def named_result_def Let_def del: attempts.simps
      split: sum.split option.split)

lemma executeOne_duration: "arDurationMs (fst (executeOne t c s)) = 0"
  by (simp add: executeOne_def attempts_frame result_base_def named_result_def Let_def del: attempts.simps
      split: sum.split option.split)

text \<open>
  Counting: in a state where every run of the Action adds one and waiting adds nothing, the
  counter after the loop bounds the number of attempts.
\<close>

lemma attempts_count:
  assumes "\<And>x s. cnt (snd (acExecute ac x s)) = Suc (cnt s)"
    and "\<And>d s. cnt (snd (wait d s)) = cnt s"
  shows "cnt (snd (attempts ac wait a n d r s)) \<le> cnt s + n"
proof (induction n arbitrary: d s)
  case (Suc n)
  obtain x s1 where x: "acExecute ac a s = (x, s1)" by (cases "acExecute ac a s")
  with assms(1) [of a s] have s1: "cnt s1 = Suc (cnt s)" by simp
  obtain y s2 where y: "wait d s1 = (y, s2)" by (cases "wait d s1")
  with assms(2) [of d s1] have s2: "cnt s2 = cnt s1" by simp
  show ?case
    using Suc.IH [of "wrap64 (d * 2)" s2] s1 s2 x y by (cases x) (auto split: option.split)
qed simp

text \<open>An error that is not an infrastructure error ends the loop at once, unretried.\<close>

lemma attempts_permanent:
  assumes "acExecute ac a s = (Inl e, s1)" and "\<not> IsInfrastructureError e"
  shows "attempts ac wait a (Suc n) d r s = (r\<lparr>arError := Some (EWrap ''execution failed'' e)\<rparr>, s1)"
  using assms by simp

text \<open>With every attempt failing transiently and no cancellation, the last error is reported.\<close>

lemma attempts_error_class:
  assumes "arError r = None" and "arError (fst (attempts ac wait a (Suc n) d r s)) = Some e"
    and "\<And>d s ce s'. wait d s = (Some ce, s') \<Longrightarrow> as_action_error ce = None"
    and "IsBusinessError e"
  shows "\<exists>s0 e0 s1. acExecute ac a s0 = (Inl e0, s1) \<and> IsBusinessError e0
           \<and> attempts ac wait a (Suc n) d r s = (r\<lparr>arError := Some (EWrap ''execution failed'' e0)\<rparr>, s1)"
  using assms(2)
proof (induction n arbitrary: d s)
  case 0
  obtain x s1 where x: "acExecute ac a s = (x, s1)" by (cases "acExecute ac a s")
  show ?case
  proof (cases x)
    case (Inl e1)
    with x 0 have "e = EWrap ''execution failed'' e1" by (simp split: if_splits)
    with assms(4) have "IsBusinessError e1" by simp
    with x Inl show ?thesis by auto
  next
    case (Inr out)
    with x 0 assms(1) show ?thesis by simp
  qed
next
  case (Suc n)
  obtain x s1 where x: "acExecute ac a s = (x, s1)" by (cases "acExecute ac a s")
  show ?case
  proof (cases x)
    case (Inr out)
    with x Suc.prems assms(1) show ?thesis by simp
  next
    case (Inl e1)
    show ?thesis
    proof (cases "IsInfrastructureError e1")
      case False
      with x Inl Suc.prems have "e = EWrap ''execution failed'' e1" by simp
      with assms(4) have "IsBusinessError e1" by simp
      with False x Inl show ?thesis by auto
    next
      case True
      obtain y s2 where y: "wait d s1 = (y, s2)" by (cases "wait d s1")
      show ?thesis
      proof (cases y)
        case None
        with True x Inl y have eq: "attempts ac wait a (Suc (Suc n)) d r s
            = attempts ac wait a (Suc n) (wrap64 (d * 2)) r s2" by simp
        show ?thesis unfolding eq by (rule Suc.IH) (use Suc.prems eq in simp)
      next
        case (Some ce)
        with True x Inl y Suc.prems have "e = EWrap ''execution cancelled during retry'' ce" by simp
        moreover have "as_action_error ce = None" using assms(3) y Some by blast
        ultimately have "\<not> IsBusinessError e" by (simp add: IsBusinessError_def)
        with assms(4) show ?thesis by simp
      qed
    qed
  qed
qed

text \<open>One call: at most \<open>MaxAttempts\<close> runs, and no second run after an error that cannot pass.\<close>

lemma executeOne_count:
  assumes "\<And>n a x s. map_of (exRegistry t) n = Some a \<Longrightarrow> cnt (snd (acExecute a x s)) = Suc (cnt s)"
    and "\<And>d s. cnt (snd (exWait t d s)) = cnt s"
  shows "int (cnt (snd (executeOne t c s))) \<le> int (cnt s) + max 1 (rcMaxAttempts (exRetry t))"
proof (cases "action_Get (tcName c) (exRegistry t)")
  case (Inl e)
  then show ?thesis by (simp add: executeOne_def)
next
  case (Inr a)
  then have a: "cnt (snd (acExecute a x s)) = Suc (cnt s)" for x s
    using assms(1) by (auto simp: action_Get_def reg_find_map_of)
  show ?thesis
  proof (cases "acValidate a (tcArguments c)")
    case None
    define m where "m = (if rcMaxAttempts (exRetry t) \<le> 0 then 1 else rcMaxAttempts (exRetry t))"
    have "cnt (snd (attempts a (exWait t) (tcArguments c) (nat m) (rcBaseDelay (exRetry t)) (result_base a c) s)) \<le> cnt s + nat m"
      by (rule attempts_count [of cnt, OF a assms(2)])
    moreover have "int (nat m) = max 1 (rcMaxAttempts (exRetry t))" by (simp add: m_def)
    moreover have "executeOne t c s
        = attempts a (exWait t) (tcArguments c) (nat m) (rcBaseDelay (exRetry t)) (result_base a c) s"
      using Inr None by (simp add: executeOne_def Let_def m_def)
    ultimately show ?thesis by (metis of_nat_add of_nat_mono)
  qed (use Inr in \<open>simp add: executeOne_def Let_def\<close>)
qed

lemma executeOne_business:
  assumes "action_Get (tcName c) (exRegistry t) = Inr a" "acValidate a (tcArguments c) = None"
    and "acExecute a (tcArguments c) s = (Inl e, s1)" "\<not> IsInfrastructureError e"
  shows "executeOne t c s = ((result_base a c)\<lparr>arError := Some (EWrap ''execution failed'' e)\<rparr>, s1)"
proof -
  obtain n where "nat (if rcMaxAttempts (exRetry t) \<le> 0 then 1 else rcMaxAttempts (exRetry t)) = Suc n"
    by (metis Suc_pred' less_numeral_extra(1) not_le nat_one_as_int zero_less_nat_eq)
  then show ?thesis
    using assms attempts_permanent [OF assms(3,4)] by (simp add: executeOne_def Let_def del: attempts.simps)
qed

section \<open>Facts about batches\<close>

lemma execute_seq_shape:
  "length (fst (execute_seq t cs s)) = length cs
   \<and> map arActionName (fst (execute_seq t cs s)) = map tcName cs"
proof (induction cs arbitrary: s)
  case (Cons c cs)
  then show ?case using executeOne_name [of t c s] by (simp add: Let_def split_beta)
qed simp

lemma execute_par_length: "length (fst (execute_par t cs is rs s)) = length rs"
  by (induction t cs "is" rs s rule: execute_par.induct) (auto simp: Let_def split: prod.splits)

lemma execute_par_other:
  "i \<notin> set is \<Longrightarrow> fst (execute_par t cs is rs s) ! i = rs ! i"
  by (induction t cs "is" rs s rule: execute_par.induct) (auto simp: Let_def split: prod.splits)

lemma execute_par_slot:
  assumes "i \<in> set is" and "distinct is" and "\<forall>j\<in>set is. j < length rs"
  shows "arActionName (fst (execute_par t cs is rs s) ! i) = tcName (cs ! i)"
  using assms
proof (induction t cs "is" rs s rule: execute_par.induct)
  case (2 t cs j js rs s)
  obtain r s1 where r: "executeOne t (cs ! j) s = (r, s1)" by (cases "executeOne t (cs ! j) s")
  have name: "arActionName r = tcName (cs ! j)" using executeOne_name [of t "cs ! j" s] r by simp
  show ?case
  proof (cases "i = j")
    case True
    with 2 r name show ?thesis by (simp add: Let_def execute_par_other)
  next
    case False
    with 2 r show ?thesis by (simp add: Let_def)
  qed
qed simp

text \<open>Every schedule fills every slot with the result of its own call.\<close>

lemma ExecuteAll_shape:
  assumes "distinct sched" and "set sched = {..<length calls}"
  shows "length (fst (ExecuteAll t sched calls s)) = length calls
     \<and> map arActionName (fst (ExecuteAll t sched calls s)) = map tcName calls"
proof (cases "exParallel t \<and> 1 < length calls")
  case True
  let ?rs = "fst (ExecuteAll t sched calls s)"
  from True have eq: "?rs = fst (execute_par t calls sched (replicate (length calls) (named_result [])) s)"
    by (simp add: ExecuteAll_def)
  have len: "length ?rs = length calls" unfolding eq by (simp add: execute_par_length)
  have "arActionName (?rs ! i) = tcName (calls ! i)" if "i < length calls" for i
    unfolding eq using that assms by (intro execute_par_slot) simp_all
  with len show ?thesis by (simp add: list_eq_iff_nth_eq)
next
  case False
  then show ?thesis by (simp only: ExecuteAll_def if_False execute_seq_shape)
qed

section \<open>Bounding a result (tool_shaping.go)\<close>

text \<open>Go's integer division truncates; \<open>MaxChars\<close> is positive where it is used.\<close>

definition resolveHeadTail :: "ToolResultLimits \<Rightarrow> int \<times> int" where
  "resolveHeadTail l =
     (let (h1, t1) =
            (if rlKeepHead l \<le> 0 \<and> rlKeepTail l \<le> 0
             then (let h = rlMaxChars l * 70 div 100 in (h, rlMaxChars l - h))
             else (rlKeepHead l, rlKeepTail l))
      in if h1 + t1 > rlMaxChars l
         then (let h = rlMaxChars l * 70 div 100 in (h, rlMaxChars l - h))
         else (h1, t1))"

definition truncationNotice :: "int \<Rightarrow> string" where
  "truncationNotice omitted =
     [CHR 0x0A] @ ''...[result truncated: '' @ int_dec omitted
       @ '' chars omitted; refine your query for detail]...'' @ [CHR 0x0A]"

text \<open>\<open>None\<close> is the panic of a slice expression out of range.\<close>

definition truncateToolResult :: "string \<Rightarrow> ToolResultLimits \<Rightarrow> string option" where
  "truncateToolResult content l =
     (if rlMaxChars l \<le> 0 then Some content
      else
        (let rs = runes content in
         if int (length rs) \<le> rlMaxChars l then Some content
         else
           (let (h, t) = resolveHeadTail l
            in if h < 0 \<or> t < 0 \<or> int (length rs) < t then None
               else Some (concat (take (nat h) rs)
                      @ truncationNotice (int (length rs) - (h + t))
                      @ concat (drop (length rs - nat t) rs)))))"

lemma resolveHeadTail_le:
  assumes "0 < rlMaxChars l"
  shows "fst (resolveHeadTail l) + snd (resolveHeadTail l) \<le> rlMaxChars l"
  using assms by (auto simp: resolveHeadTail_def Let_def)

lemma resolveHeadTail_nonneg:
  assumes "0 < rlMaxChars l" and "0 \<le> rlKeepHead l" and "0 \<le> rlKeepTail l"
  shows "0 \<le> fst (resolveHeadTail l) \<and> 0 \<le> snd (resolveHeadTail l)"
proof -
  have "rlMaxChars l * 70 div 100 \<le> rlMaxChars l" using assms(1) by simp
  with assms show ?thesis by (auto simp: resolveHeadTail_def Let_def)
qed

lemma ascii_truncationNotice: "ascii (truncationNotice n)"
  using ascii_int_dec [of n] by (simp add: truncationNotice_def ascii_def byte_def)

lemma runes_of_parts:
  assumes "set rs \<subseteq> set (runes s)" "ascii m" "set rs' \<subseteq> set (runes s)"
  shows "runes (concat rs @ m @ concat rs') = rs @ map (\<lambda>c. [c]) m @ rs'"
proof -
  have r: "\<forall>x\<in>set rs. is_rune x" "\<forall>x\<in>set rs'. is_rune x"
    using assms runes_are_runes [of s] by blast+
  show ?thesis
    using runes_concat [OF r(1)] runes_concat [OF r(2), of "[]"] runes_ascii_append [OF assms(2)]
    by simp
qed

text \<open>
  With non-negative head and tail a long result becomes its first \<open>h\<close> and last \<open>t\<close> runes
  around a notice, so at most \<open>MaxChars\<close> runes of it survive; never an invalid cut.
\<close>

lemma truncate_long:
  assumes pos: "0 < rlMaxChars l" "0 \<le> rlKeepHead l" "0 \<le> rlKeepTail l"
    and long: "rlMaxChars l < int (rune_count content)"
  obtains h t where "resolveHeadTail l = (int h, int t)" "int (h + t) \<le> rlMaxChars l"
    "truncateToolResult content l
       = Some (concat (take h (runes content))
           @ truncationNotice (int (rune_count content) - int (h + t))
           @ concat (drop (rune_count content - t) (runes content)))"
proof -
  obtain h t where ht: "resolveHeadTail l = (h, t)" by (cases "resolveHeadTail l")
  have b: "0 \<le> h" "0 \<le> t" "h + t \<le> rlMaxChars l"
    using resolveHeadTail_nonneg [OF pos] resolveHeadTail_le [OF pos(1)] ht by simp_all
  show thesis
  proof (rule that [of "nat h" "nat t"])
    show "resolveHeadTail l = (int (nat h), int (nat t))" using ht b by simp
    show "int (nat h + nat t) \<le> rlMaxChars l" using b by simp
    show "truncateToolResult content l
       = Some (concat (take (nat h) (runes content))
           @ truncationNotice (int (rune_count content) - int (nat h + nat t))
           @ concat (drop (rune_count content - nat t) (runes content)))"
      using pos long b ht by (simp add: truncateToolResult_def rune_count_def Let_def)
  qed
qed

end
