(* ===== verification/ReasonParts.thy ===== *)
theory ReasonParts
  imports Spirit Memories Executor
begin

text \<open>
  The data of the reasoning loop (\<open>ports/oracle.go\<close>, \<open>entities/chronicle.go\<close>,
  \<open>orchestrator/reasoning_service.go\<close>) and its self-contained parts: the stall tracker
  (\<open>progress_stall.go\<close>), the plan (\<open>plan_scratchpad.go\<close>), citations (\<open>grounding.go\<close>),
  confidence (\<open>handoff.go\<close>), messages for the model and model tiering. Durations of the audit
  logs are left out.
\<close>

section \<open>Messages, requests, responses (ports/oracle.go)\<close>

record OracleUsage =
  uPrompt :: int
  uCompletion :: int
  uTotal :: int

definition zero_usage :: OracleUsage where
  "zero_usage = \<lparr>uPrompt = 0, uCompletion = 0, uTotal = 0\<rparr>"

definition add_usage :: "OracleUsage \<Rightarrow> OracleUsage \<Rightarrow> OracleUsage" where
  "add_usage u v = \<lparr>uPrompt = uPrompt u + uPrompt v, uCompletion = uCompletion u + uCompletion v,
     uTotal = uTotal u + uTotal v\<rparr>"

record OracleMessage =
  omRole :: string
  omContent :: string
  omImageURLs :: "string list"
  omAudioURLs :: "string list"
  omToolCalls :: "tool_call list"
  omToolCallID :: string
  omToolName :: string
  omIsError :: bool

definition RoleUser :: string where "RoleUser = ''user''"
definition RoleAssistant :: string where "RoleAssistant = ''assistant''"
definition RoleTool :: string where "RoleTool = ''tool''"

lemmas role_defs = RoleUser_def RoleAssistant_def RoleTool_def

definition text_message :: "string \<Rightarrow> string \<Rightarrow> OracleMessage" where
  "text_message role content = \<lparr>omRole = role, omContent = content, omImageURLs = [],
     omAudioURLs = [], omToolCalls = [], omToolCallID = [], omToolName = [], omIsError = False\<rparr>"

definition tool_message :: "string \<Rightarrow> string \<Rightarrow> string \<Rightarrow> bool \<Rightarrow> OracleMessage" where
  "tool_message cid name content isErr =
     (text_message RoleTool content)\<lparr>omToolCallID := cid, omToolName := name, omIsError := isErr\<rparr>"

record OracleTool =
  otName :: string
  otDescription :: string
  otParameters :: gmap

record LLMAttachment =
  laType :: artifact_type
  laURL :: string
  laData :: "nat list"
  laMimeType :: string
  laCaption :: string

record OracleRequest =
  orModel :: string
  orSystemPrompt :: string
  orMessages :: "OracleMessage list"
  orTemperature :: rat
  orMaxTokens :: int
  orTools :: "OracleTool list"
  orUseTools :: bool
  orAttachments :: "LLMAttachment list"
  orResponseFormat :: "ResponseFormat option"

record OracleResponse =
  oaContent :: string
  oaToolCalls :: "tool_call list"
  oaStopReason :: string
  oaTokensUsed :: OracleUsage
  oaStructured :: string

datatype StreamEvent =
    SeDelta string
  | SeDone "tool_call list" OracleUsage string
  | SeError gerr

section \<open>Audit logs (entities/chronicle.go)\<close>

record ActionCallLog =
  alActionName :: string
  alArguments :: "gmap option"
  alResult :: string
  alIsError :: bool
  alErrorMessage :: string
  alIsCritical :: bool

record IterationLog =
  ilIteration :: nat
  ilOracleResponse :: string
  ilActionCalls :: "ActionCallLog list"
  ilBannedActions :: "string list"
  ilReflectionIssues :: "string list"
  ilErrors :: "string list"
  ilTokens :: OracleUsage

definition new_iteration_log :: "nat \<Rightarrow> IterationLog" where
  "new_iteration_log n = \<lparr>ilIteration = n, ilOracleResponse = [], ilActionCalls = [],
     ilBannedActions = [], ilReflectionIssues = [], ilErrors = [], ilTokens = zero_usage\<rparr>"

definition buildActionCallLog :: "tool_call \<Rightarrow> action_result \<Rightarrow> ActionCallLog" where
  "buildActionCallLog call r =
     (let log = \<lparr>alActionName = tcName call, alArguments = tcArguments call, alResult = [],
                 alIsError = False, alErrorMessage = [], alIsCritical = arIsCritical r\<rparr>
      in case arError r of
           Some e \<Rightarrow> log\<lparr>alIsError := True, alErrorMessage := err_text e\<rparr>
         | None \<Rightarrow> log\<lparr>alResult := arResult r\<rparr>)"

section \<open>Requests and results (reasoning_service.go)\<close>

text \<open>
  A pointer to a session: nil, the object that travels in the \<open>context.Context\<close> (which
  Actions change), or another object that only this request reaches.
\<close>

datatype session_ref = NoSession | CtxSession | OwnSession memory

record ReasoningRequest =
  rqEvent :: pulse
  rqSpirit :: spirit
  rqSession :: session_ref
  rqSystemPrompt :: string
  rqConversationContext :: "OracleMessage list"
  rqResponseFormat :: "ResponseFormat option"

record ReasoningResult =
  rrIterations :: "IterationLog list"
  rrFinalResponse :: string
  rrFinalError :: string
  rrWorkingContext :: "OracleMessage list"
  rrIterationsUsed :: nat
  rrTokensUsed :: OracleUsage
  rrTokensByModel :: "(string \<times> OracleUsage) list"
  rrFinalSession :: session_ref
  rrResponseDelivered :: bool
  rrCitations :: "string list"
  rrPlan :: "PlanItem list"
  rrConfidence :: "Confidence option"
  rrHandoffRaised :: bool
  rrStructured :: string

definition accumulateTokens :: "OracleUsage \<Rightarrow> ReasoningResult \<Rightarrow> ReasoningResult" where
  "accumulateTokens u r = r\<lparr>rrTokensUsed := add_usage (rrTokensUsed r) u\<rparr>"

definition accumulateModelTokens :: "string \<Rightarrow> OracleUsage \<Rightarrow> ReasoningResult \<Rightarrow> ReasoningResult" where
  "accumulateModelTokens model u r =
     (let r1 = accumulateTokens u r;
          cur = (case map_of (rrTokensByModel r1) model of Some c \<Rightarrow> c | None \<Rightarrow> zero_usage)
      in r1\<lparr>rrTokensByModel := AList.update model (add_usage cur u) (rrTokensByModel r1)\<rparr>)"

lemma frame_accumulateTokens [frame_rules, simp]:
  "rrIterations (accumulateTokens u r) = rrIterations r"
  "rrWorkingContext (accumulateTokens u r) = rrWorkingContext r"
  "rrIterationsUsed (accumulateTokens u r) = rrIterationsUsed r"
  "rrResponseDelivered (accumulateTokens u r) = rrResponseDelivered r"
  "rrFinalResponse (accumulateTokens u r) = rrFinalResponse r"
  "rrFinalError (accumulateTokens u r) = rrFinalError r"
  "rrCitations (accumulateTokens u r) = rrCitations r"
  "rrPlan (accumulateTokens u r) = rrPlan r"
  "rrFinalSession (accumulateTokens u r) = rrFinalSession r"
  "rrHandoffRaised (accumulateTokens u r) = rrHandoffRaised r"
  by (simp_all add: accumulateTokens_def)

lemma frame_accumulateModelTokens [frame_rules, simp]:
  "rrIterations (accumulateModelTokens m u r) = rrIterations r"
  "rrWorkingContext (accumulateModelTokens m u r) = rrWorkingContext r"
  "rrIterationsUsed (accumulateModelTokens m u r) = rrIterationsUsed r"
  "rrResponseDelivered (accumulateModelTokens m u r) = rrResponseDelivered r"
  "rrFinalResponse (accumulateModelTokens m u r) = rrFinalResponse r"
  "rrFinalError (accumulateModelTokens m u r) = rrFinalError r"
  "rrCitations (accumulateModelTokens m u r) = rrCitations r"
  "rrPlan (accumulateModelTokens m u r) = rrPlan r"
  "rrFinalSession (accumulateModelTokens m u r) = rrFinalSession r"
  "rrHandoffRaised (accumulateModelTokens m u r) = rrHandoffRaised r"
  by (simp_all add: accumulateModelTokens_def Let_def)

section \<open>Model tiering (model_tiering.go)\<close>

definition primary_model :: "ReasoningRequest \<Rightarrow> string" where
  "primary_model req = smModel (sModelConfig (rqSpirit req))"

definition tierDraftModel :: "ReasoningRequest \<Rightarrow> string" where
  "tierDraftModel req =
     (let draft = smDraftModel (sModelConfig (rqSpirit req))
      in if draft \<noteq> [] then draft else primary_model req)"

definition tieringActive :: "ReasoningRequest \<Rightarrow> bool" where
  "tieringActive req \<longleftrightarrow>
     (let draft = smDraftModel (sModelConfig (rqSpirit req))
      in draft \<noteq> [] \<and> draft \<noteq> primary_model req)"

definition accrueTokens :: "ReasoningRequest \<Rightarrow> string \<Rightarrow> OracleUsage \<Rightarrow> ReasoningResult \<Rightarrow> ReasoningResult" where
  "accrueTokens req model u r =
     (if \<not> tieringActive req then accumulateTokens u r
      else accumulateModelTokens (if model = [] then primary_model req else model) u r)"

lemma frame_accrueTokens [frame_rules, simp]:
  "rrIterations (accrueTokens q m u r) = rrIterations r"
  "rrWorkingContext (accrueTokens q m u r) = rrWorkingContext r"
  "rrIterationsUsed (accrueTokens q m u r) = rrIterationsUsed r"
  "rrResponseDelivered (accrueTokens q m u r) = rrResponseDelivered r"
  "rrFinalResponse (accrueTokens q m u r) = rrFinalResponse r"
  "rrFinalError (accrueTokens q m u r) = rrFinalError r"
  "rrCitations (accrueTokens q m u r) = rrCitations r"
  "rrPlan (accrueTokens q m u r) = rrPlan r"
  "rrFinalSession (accrueTokens q m u r) = rrFinalSession r"
  "rrHandoffRaised (accrueTokens q m u r) = rrHandoffRaised r"
  by (simp_all add: accrueTokens_def)

section \<open>Stall detection (progress_stall.go)\<close>

text \<open>
  \<open>callSignature\<close>: the name, a zero byte and the canonical JSON of the arguments, hashed.
  The hash (SHA-256 in hex) and the JSON encoder (\<open>None\<close> on error) are arguments.
\<close>

definition callSignature :: "(string \<Rightarrow> string) \<Rightarrow> (gmap \<Rightarrow> string option) \<Rightarrow> tool_call \<Rightarrow> string" where
  "callSignature hash json c =
     (let args = gm_entries (tcArguments c);
          argsJSON = (if args = [] then ''{}''
                      else case json args of Some b \<Rightarrow> b | None \<Rightarrow> ''{}'')
      in hash (tcName c @ [CHR 0x00] @ argsJSON))"

record stallTracker =
  stWindow :: int
  stSeen :: "string list"
  stStreak :: int

definition newStallTracker :: "int \<Rightarrow> stallTracker" where
  "newStallTracker window = \<lparr>stWindow = window, stSeen = [], stStreak = 0\<rparr>"

fun observe_calls :: "(tool_call \<Rightarrow> string) \<Rightarrow> tool_call list \<Rightarrow> string list \<Rightarrow> bool \<Rightarrow> string list \<times> bool" where
  "observe_calls sg [] seen progressed = (seen, progressed)"
| "observe_calls sg (c # cs) seen progressed =
     (if sg c \<in> set seen then observe_calls sg cs seen progressed
      else observe_calls sg cs (sg c # seen) True)"

definition observe :: "(tool_call \<Rightarrow> string) \<Rightarrow> tool_call list \<Rightarrow> stallTracker \<Rightarrow> bool \<times> stallTracker" where
  "observe sg calls s =
     (if stWindow s \<le> 0 then (False, s)
      else
        (let (seen, progressed) = observe_calls sg calls (stSeen s) False
         in if progressed then (False, s\<lparr>stSeen := seen, stStreak := 0\<rparr>)
            else (stWindow s \<le> stStreak s + 1, s\<lparr>stSeen := seen, stStreak := stStreak s + 1\<rparr>)))"

fun observe_run :: "(tool_call \<Rightarrow> string) \<Rightarrow> tool_call list list \<Rightarrow> stallTracker \<Rightarrow> bool list \<times> stallTracker" where
  "observe_run sg [] s = ([], s)"
| "observe_run sg (b # bs) s =
     (let (v, s1) = observe sg b s; (vs, s2) = observe_run sg bs s1 in (v # vs, s2))"

text \<open>The number of trailing batches that repeat only calls made before them.\<close>

definition repeats :: "(tool_call \<Rightarrow> string) \<Rightarrow> tool_call list list \<Rightarrow> tool_call list \<Rightarrow> bool" where
  "repeats sg before b \<longleftrightarrow> sg ` set b \<subseteq> (\<Union>x\<in>set before. sg ` set x)"

fun trailing :: "(tool_call \<Rightarrow> string) \<Rightarrow> tool_call list list \<Rightarrow> nat" where
  "trailing sg [] = 0"
| "trailing sg (b # rbs) = (if repeats sg rbs b then Suc (trailing sg rbs) else 0)"

lemma observe_calls_set:
  "set (fst (observe_calls sg cs seen p)) = set seen \<union> sg ` set cs"
  by (induction sg cs seen p rule: observe_calls.induct) auto

lemma observe_calls_progress:
  "snd (observe_calls sg cs seen p) \<longleftrightarrow> p \<or> \<not> sg ` set cs \<subseteq> set seen"
  by (induction sg cs seen p rule: observe_calls.induct) auto

text \<open>The tracker is the abstract count: seen signatures and the trailing streak.\<close>

definition tracks :: "(tool_call \<Rightarrow> string) \<Rightarrow> tool_call list list \<Rightarrow> stallTracker \<Rightarrow> bool" where
  "tracks sg rbs s \<longleftrightarrow>
     0 < stWindow s \<and> set (stSeen s) = (\<Union>x\<in>set rbs. sg ` set x) \<and> stStreak s = int (trailing sg rbs)"

lemma tracks_new: "0 < w \<Longrightarrow> tracks sg [] (newStallTracker w)"
  by (simp add: tracks_def newStallTracker_def)

lemma observe_tracks:
  assumes "tracks sg rbs s"
  shows "tracks sg (b # rbs) (snd (observe sg b s))
     \<and> (fst (observe sg b s) \<longleftrightarrow> repeats sg rbs b \<and> stWindow s \<le> int (trailing sg (b # rbs)))
     \<and> stWindow (snd (observe sg b s)) = stWindow s"
proof -
  obtain seen p where o: "observe_calls sg b (stSeen s) False = (seen, p)"
    by (cases "observe_calls sg b (stSeen s) False")
  have seen: "set seen = set (stSeen s) \<union> sg ` set b"
    using observe_calls_set [of sg b "stSeen s" False] o by simp
  have p: "p \<longleftrightarrow> \<not> repeats sg rbs b"
    using observe_calls_progress [of sg b "stSeen s" False] o assms
    by (simp add: repeats_def tracks_def)
  show ?thesis
    using assms seen p o by (auto simp: observe_def tracks_def)
qed

text \<open>
  The verdict of a stall detector that remembers everything: a batch stalls when it and the ones
  just before it repeat calls made earlier, for at least the window.
\<close>

fun stall_reference ::
  "(tool_call \<Rightarrow> string) \<Rightarrow> int \<Rightarrow> tool_call list list \<Rightarrow> tool_call list list \<Rightarrow> bool list" where
  "stall_reference sg w before [] = []"
| "stall_reference sg w before (b # bs) =
     (repeats sg before b \<and> w \<le> int (trailing sg (b # before))) # stall_reference sg w (b # before) bs"

lemma observe_run_reference:
  "tracks sg before s \<Longrightarrow> fst (observe_run sg bs s) = stall_reference sg (stWindow s) before bs"
proof (induction bs arbitrary: before s)
  case (Cons b bs)
  note o = observe_tracks [OF Cons.prems, of b]
  obtain v s1 where s1: "observe sg b s = (v, s1)" by (cases "observe sg b s")
  with o have "tracks sg (b # before) s1" "v = (repeats sg before b \<and> stWindow s \<le> int (trailing sg (b # before)))"
    "stWindow s1 = stWindow s" by auto
  with Cons.IH [of "b # before" s1] s1 show ?case
    by (cases "observe_run sg bs s1") (simp del: trailing.simps)
qed simp

section \<open>The plan (plan_scratchpad.go)\<close>

record planState =
  psItems :: "PlanItem list"
  psMaxItems :: nat

definition newPlanState :: "int \<Rightarrow> planState" where
  "newPlanState mx = \<lparr>psItems = [], psMaxItems = (if mx \<le> 0 then 12 else nat mx)\<rparr>"

definition plan_apply :: "PlanItem list \<Rightarrow> planState \<Rightarrow> planState" where
  "plan_apply items p =
     p\<lparr>psItems := (if psMaxItems p < length items then take (psMaxItems p) items else items)\<rparr>"

fun planMarker :: "PlanStatus \<Rightarrow> string" where
  "planMarker PlanDone = ''[x]''"
| "planMarker PlanInProgress = ''[~]''"
| "planMarker PlanAbandoned = ''[-]''"
| "planMarker PlanPending = ''[ ]''"

text \<open>\<open>strings.TrimRight(s, "\\n")\<close>\<close>

definition trim_newlines :: "string \<Rightarrow> string" where
  "trim_newlines s = rev (dropWhile (\<lambda>c. c = CHR 0x0A) (rev s))"

definition plan_render :: "planState \<Rightarrow> string" where
  "plan_render p =
     (if psItems p = [] then []
      else trim_newlines
        (nl @ nl @ ''--- CURRENT PLAN ---'' @ nl
          @ concat (map (\<lambda>i. planMarker (piStatus i) @ '' '' @ piTitle i @ nl) (psItems p))))"

definition item_open :: "PlanItem \<Rightarrow> bool" where
  "item_open i \<longleftrightarrow> piStatus i = PlanPending \<or> piStatus i = PlanInProgress"

definition plan_incomplete :: "planState \<Rightarrow> string list" where
  "plan_incomplete p = map piTitle (filter item_open (psItems p))"

definition plan_status :: "string \<Rightarrow> PlanStatus option" where
  "plan_status s =
     (if s = ''pending'' then Some PlanPending
      else if s = ''in_progress'' then Some PlanInProgress
      else if s = ''done'' then Some PlanDone
      else if s = ''abandoned'' then Some PlanAbandoned else None)"

fun parse_items :: "(rat \<Rightarrow> string) \<Rightarrow> gval list \<Rightarrow> string + PlanItem list" where
  "parse_items ff [] = Inr []"
| "parse_items ff (VMap m # rest) =
     (let title = (case map_of m ''title'' of Some (VStr t) \<Rightarrow> t | _ \<Rightarrow> []);
          status = fmt_opt ff (map_of m ''status'')
      in case plan_status status of
           None \<Rightarrow> Inl (''invalid plan item status '' @ quote_q status)
         | Some st \<Rightarrow>
             (case parse_items ff rest of
                Inl e \<Rightarrow> Inl e
              | Inr items \<Rightarrow> Inr (\<lparr>piTitle = title, piStatus = st\<rparr> # items)))"
| "parse_items ff (_ # rest) = Inl ''each plan item must be an object''"

definition parsePlanItems :: "(rat \<Rightarrow> string) \<Rightarrow> gmap option \<Rightarrow> string + PlanItem list" where
  "parsePlanItems ff args =
     (case gm_get args ''items'' of
        Some (VSlice raw) \<Rightarrow> parse_items ff raw
      | _ \<Rightarrow> Inl (''update_plan requires an '' @ [CHR 0x27] @ ''items'' @ [CHR 0x27] @ '' array''))"

definition updatePlanActionName :: string where
  "updatePlanActionName = ''update_plan''"

definition applyUpdatePlan :: "(rat \<Rightarrow> string) \<Rightarrow> tool_call \<Rightarrow> planState \<Rightarrow> action_result \<times> planState" where
  "applyUpdatePlan ff call p =
     (case parsePlanItems ff (tcArguments call) of
        Inl msg \<Rightarrow> ((named_result (tcName call))\<lparr>arError := Some (NewBusinessError msg [])\<rparr>, p)
      | Inr items \<Rightarrow>
          (let p1 = plan_apply items p
           in ((named_result (tcName call))\<lparr>arResult := ''Plan updated.'' @ plan_render p1\<rparr>, p1)))"

definition planNudgeMessage :: "string list \<Rightarrow> OracleMessage" where
  "planNudgeMessage inc = text_message RoleUser
     (''These plan items are still open: '' @ str_join ''; '' inc
       @ ''. Complete or abandon them via update_plan, or confirm you are done.'')"

definition planRequiredInstruction :: string where
  "planRequiredInstruction = nl @ nl @ ''--- PLANNING ---'' @ nl
     @ ''Before acting, lay out your plan using the update_plan action, and keep it current as you work.''"

definition plan_ok :: "planState \<Rightarrow> bool" where
  "plan_ok p \<longleftrightarrow> length (psItems p) \<le> psMaxItems p"

lemma plan_ok_new: "plan_ok (newPlanState mx)"
  by (simp add: plan_ok_def newPlanState_def)

lemma plan_ok_apply: "plan_ok (plan_apply items p)"
  by (auto simp: plan_ok_def plan_apply_def)

lemma plan_ok_update: "plan_ok p \<Longrightarrow> plan_ok (snd (applyUpdatePlan ff c p))"
  by (auto simp: applyUpdatePlan_def Let_def plan_ok_apply split: sum.split)

lemma plan_max_update: "psMaxItems (snd (applyUpdatePlan ff c p)) = psMaxItems p"
  by (auto simp: applyUpdatePlan_def plan_apply_def Let_def split: sum.split)

end
