(* ===== verification/Prompts.thy ===== *)
theory Prompts
  imports ReasonParts
begin

text \<open>
  The system prompt and the message history of a turn (the last part of
  \<open>orchestrator/engine.go\<close>). The JSON printer of the Knowledge map is an argument; it is
  the empty string where encoding fails, as the code drops that error.
\<close>

definition defaultVoiceInstructions :: string where
  "defaultVoiceInstructions = nl
     @ ''CRITICAL INSTRUCTION: You MUST send a response to the user by calling a response delivery tool.'' @ nl
     @ ''If you do not call send_whatsapp_message, send_whatsapp_template, or equivalent tool, the user will NOT receive your response.'' @ nl
     @ ''Always conclude conversations by explicitly calling the appropriate send tool with your final message.''"

definition defaultBusinessErrorInstructions :: string where
  "defaultBusinessErrorInstructions = ''--- Business Error Handling ---'' @ nl
     @ ''When a tool returns a business error during execution:'' @ nl
     @ ''- Read the error message to understand the business constraint or data issue that occurred'' @ nl
     @ ''- Communicate the situation to the user in clear, friendly language '' @ em_dash
     @ '' never expose tool names, technical identifiers, or raw error text verbatim'' @ nl
     @ ''- If the error implies a corrective action the user can take (e.g., wrong identifier, missing information), guide them on what to do next'' @ nl
     @ ''- Do not retry the same tool with the same arguments after receiving a business error'' @ nl
     @ ''- If no alternative path exists, acknowledge the situation honestly and offer what assistance you can''"

definition responseDeliverySection :: "spirit \<Rightarrow> string" where
  "responseDeliverySection sp =
     (if \<not> sEnforceVoiceDelivery sp then []
      else nl @ nl @ (if sVoiceDeliveryInstructions sp = [] then defaultVoiceInstructions
                      else sVoiceDeliveryInstructions sp))"

definition businessErrorSection :: "spirit \<Rightarrow> string" where
  "businessErrorSection sp =
     (if sAllowedActions sp = [] then []
      else nl @ nl @ (if sBusinessErrorInstructions sp = [] then defaultBusinessErrorInstructions
                      else sBusinessErrorInstructions sp))"

definition eventContextSection :: "(gmap \<Rightarrow> string) \<Rightarrow> pulse \<Rightarrow> string" where
  "eventContextSection indent e =
     nl @ nl @ ''--- Current Event Information ---''
     @ nl @ ''Event Type: '' @ pEventType e @ nl @ ''Source: '' @ pSource e
     @ (if pSubType e = [] then [] else nl @ ''Sub Type: '' @ pSubType e)
     @ (if gm_entries (pKnowledge e) = [] then []
        else nl @ nl @ ''--- Knowledge ---'' @ nl @ indent (gm_entries (pKnowledge e)))"

definition buildSystemPrompt :: "(gmap \<Rightarrow> string) \<Rightarrow> spirit \<Rightarrow> pulse \<Rightarrow> string" where
  "buildSystemPrompt indent sp e =
     sSystemPrompt sp @ responseDeliverySection sp @ businessErrorSection sp @ eventContextSection indent e"

text \<open>The prompt reads only these fields of a Pulse: Payload and Metadata stay out of it.\<close>

lemma buildSystemPrompt_private:
  assumes "pEventType e = pEventType e'" "pSource e = pSource e'" "pSubType e = pSubType e'"
    "pKnowledge e = pKnowledge e'"
  shows "buildSystemPrompt indent sp e = buildSystemPrompt indent sp e'"
  using assms by (simp add: buildSystemPrompt_def eventContextSection_def)

end
