(* ===== verification/Gates.thy ===== *)
theory Gates
  imports ReasonParts
begin

text \<open>
  The pure parts of the gates a draft answer passes before it is delivered: source citations
  (\<open>grounding.go\<close>), the self-critique (\<open>reflection.go\<close>), confidence (\<open>handoff.go\<close>), the span
  that context compression replaces (\<open>context_compression.go\<close>), and the messages the loop
  writes for the model (\<open>reasoning_service.go\<close>).
\<close>

section \<open>Citations (grounding.go)\<close>

text \<open>All matches of the pattern \<open>\\[chunk:([^\\]]+)\\]\<close>, leftmost first, not overlapping.\<close>

function cite_scan :: "string \<Rightarrow> string list" where
  "cite_scan [] = []"
| "cite_scan (c # cs) =
     (if str_prefix ''[chunk:'' (c # cs)
      then (let rest = drop 6 cs;
                body = takeWhile (\<lambda>x. x \<noteq> CHR '']'') rest;
                tail = dropWhile (\<lambda>x. x \<noteq> CHR '']'') rest
            in if body \<noteq> [] \<and> tail \<noteq> [] then body # cite_scan (tl tail) else cite_scan cs)
      else cite_scan cs)"
  by pat_completeness auto
termination
proof (relation "measure length", goal_cases)
  case (2 c cs rest body tail)
  then have "length tail \<le> length cs"
    using length_dropWhile_le [of "\<lambda>x. x \<noteq> CHR '']''" "drop 6 cs"] by simp
  then show ?case by simp
qed simp_all

declare cite_scan.simps(2) [simp del]

fun distinct_ids :: "string list \<Rightarrow> string list \<Rightarrow> string list" where
  "distinct_ids seen [] = []"
| "distinct_ids seen (m # ms) =
     (let i = str_trim m
      in if i \<noteq> [] \<and> i \<notin> set seen then i # distinct_ids (i # seen) ms else distinct_ids seen ms)"

definition parseCitations :: "string \<Rightarrow> string list" where
  "parseCitations draft = distinct_ids [] (cite_scan draft)"

text \<open>All matches of \<open>\\bid="([^"]+)"\<close>; the flag says whether a word character came before.\<close>

definition word_char :: "char \<Rightarrow> bool" where
  "word_char c \<longleftrightarrow> in_range 48 57 c \<or> in_range 65 90 c \<or> in_range 97 122 c \<or> c = CHR ''_''"

function id_scan :: "bool \<Rightarrow> string \<Rightarrow> string list" where
  "id_scan w [] = []"
| "id_scan w (c # cs) =
     (if \<not> w \<and> str_prefix (''id='' @ dq) (c # cs)
      then (let rest = drop 3 cs;
                body = takeWhile (\<lambda>x. x \<noteq> CHR 0x22) rest;
                tail = dropWhile (\<lambda>x. x \<noteq> CHR 0x22) rest
            in if body \<noteq> [] \<and> tail \<noteq> [] then body # id_scan False (tl tail)
               else id_scan (word_char c) cs)
      else id_scan (word_char c) cs)"
  by pat_completeness auto
termination
proof (relation "measure (length \<circ> snd)", goal_cases)
  case (2 w c cs rest body tail)
  then have "length tail \<le> length cs"
    using length_dropWhile_le [of "\<lambda>x. x \<noteq> CHR 0x22" "drop 3 cs"] by simp
  then show ?case by simp
qed simp_all

declare id_scan.simps(2) [simp del]

definition extractLoreChunkIDs :: "string \<Rightarrow> string list" where
  "extractLoreChunkIDs loreContext = id_scan False loreContext"

definition LoreContextKnowledgeKey :: string where
  "LoreContextKnowledgeKey = ''_lore_context''"

definition retrievedLoreContext :: "pulse \<Rightarrow> string" where
  "retrievedLoreContext e =
     (case gm_get (pKnowledge e) LoreContextKnowledgeKey of Some (VStr s) \<Rightarrow> s | _ \<Rightarrow> [])"

definition keepValidCitations :: "string list \<Rightarrow> string list \<Rightarrow> string list" where
  "keepValidCitations cited valid = filter (\<lambda>i. i \<in> set valid) cited"

definition defaultBlockedMessage :: string where
  "defaultBlockedMessage =
     ''I don'' @ [CHR 0x27] @ ''t have enough sourced information to answer that confidently.''"

definition groundingAddendum :: string where
  "groundingAddendum = nl @ nl @ ''--- SOURCE GROUNDING ---'' @ nl
     @ ''Base your answer only on the retrieved sources provided in the Knowledge section. Cite each ''
     @ ''factual claim with [chunk:<id>] using the id of the <lore> block it came from. If the sources ''
     @ ''do not contain the answer, say so.''"

definition citationRevisionMessage :: OracleMessage where
  "citationRevisionMessage = text_message RoleUser
     (''Your answer must cite the retrieved sources using [chunk:<id>] for each factual claim. ''
      @ ''Revise it to cite the sources you actually used. Do not mention this instruction to the user.'')"

text \<open>Returns (revise, blocked) and the updated result.\<close>

definition enforceGrounding ::
  "GroundingPolicy \<Rightarrow> pulse \<Rightarrow> string \<Rightarrow> ReasoningResult \<Rightarrow> bool \<times> bool \<times> ReasoningResult" where
  "enforceGrounding policy e draft res =
     (let loreCtx = retrievedLoreContext e; valid = extractLoreChunkIDs loreCtx in
      if loreCtx = [] \<or> valid = [] then (False, False, res)
      else
        (let cited = keepValidCitations (parseCitations draft) valid;
             need = (if grMinCitations policy < 1 then 1 else grMinCitations policy)
         in if need \<le> int (length cited) then (False, False, res\<lparr>rrCitations := cited\<rparr>)
            else case grOnViolation policy of
              GroundingBlock \<Rightarrow>
                (False, True, res\<lparr>rrFinalResponse := (if grBlockedMessage policy = [] then defaultBlockedMessage
                                                   else grBlockedMessage policy),
                                  rrFinalError := ''grounding violation: answer blocked for insufficient citations''\<rparr>)
            | GroundingAnnotate \<Rightarrow>
                (False, False, res\<lparr>rrFinalError := ''grounding violation: delivered without sufficient citations''\<rparr>)
            | _ \<Rightarrow> (True, False, res)))"

text \<open>What it means for an answer to be grounded in the retrieved chunks.\<close>

definition grounded :: "GroundingPolicy \<Rightarrow> pulse \<Rightarrow> string list \<Rightarrow> bool" where
  "grounded policy e ids \<longleftrightarrow>
     distinct ids \<and> set ids \<subseteq> set (extractLoreChunkIDs (retrievedLoreContext e))
     \<and> 1 \<le> length ids \<and> grMinCitations policy \<le> int (length ids)"

lemma distinct_ids_disjoint: "set (distinct_ids seen ms) \<inter> set seen = {}"
  by (induction seen ms rule: distinct_ids.induct) (auto simp: Let_def)

lemma distinct_distinct_ids: "distinct (distinct_ids seen ms)"
proof (induction seen ms rule: distinct_ids.induct)
  case (2 seen m ms)
  then show ?case using distinct_ids_disjoint [of "str_trim m # seen" ms] by (auto simp: Let_def)
qed simp

lemma distinct_parseCitations: "distinct (parseCitations draft)"
  by (simp add: parseCitations_def distinct_distinct_ids)

lemma enforceGrounding_accepts:
  assumes "enforceGrounding policy e draft res = (False, False, res')"
    and "extractLoreChunkIDs (retrievedLoreContext e) \<noteq> []" "retrievedLoreContext e \<noteq> []"
    and "grOnViolation policy \<noteq> GroundingAnnotate"
  shows "grounded policy e (rrCitations res') \<and> set (rrCitations res') \<subseteq> set (parseCitations draft)"
  using assms distinct_parseCitations [of draft]
  by (auto simp: enforceGrounding_def Let_def grounded_def keepValidCitations_def
      split: if_splits GroundingViolationAction.splits)

lemma enforceGrounding_frame:
  "enforceGrounding policy e draft res = (rv, bl, res') \<Longrightarrow>
     rrIterations res' = rrIterations res \<and> rrIterationsUsed res' = rrIterationsUsed res
     \<and> rrWorkingContext res' = rrWorkingContext res \<and> rrResponseDelivered res' = rrResponseDelivered res
     \<and> rrHandoffRaised res' = rrHandoffRaised res"
  by (auto simp: enforceGrounding_def Let_def split: if_splits GroundingViolationAction.splits)

section \<open>Confidence (handoff.go)\<close>

definition confidenceRank :: "Confidence \<Rightarrow> int" where
  "confidenceRank c =
     (case c of ConfidenceLow \<Rightarrow> 0 | ConfidenceMedium \<Rightarrow> 1 | ConfidenceHigh \<Rightarrow> 2 | ConfidenceOther _ \<Rightarrow> 1)"

text \<open>Bands are compared by rank; an unknown band ranks as medium, so this is a preorder.\<close>

instantiation Confidence :: preorder
begin

definition less_eq_Confidence :: "Confidence \<Rightarrow> Confidence \<Rightarrow> bool" where
  "less_eq_Confidence a b \<longleftrightarrow> confidenceRank a \<le> confidenceRank b"

definition less_Confidence :: "Confidence \<Rightarrow> Confidence \<Rightarrow> bool" where
  "less_Confidence a b \<longleftrightarrow> confidenceRank a < confidenceRank b"

instance
  by standard (auto simp: less_eq_Confidence_def less_Confidence_def)

end

record confidenceSignals =
  csCriticalErrors :: int
  csReflectionFailed :: bool
  csGrounded :: bool
  csUncertainContent :: bool

definition confidence_score :: "confidenceSignals \<Rightarrow> int" where
  "confidence_score s =
     - csCriticalErrors s - (if csReflectionFailed s then 2 else 0)
       - (if csUncertainContent s then 1 else 0) + (if csGrounded s then 1 else 0)"

definition scoreConfidence :: "confidenceSignals \<Rightarrow> Confidence" where
  "scoreConfidence s =
     (let score = confidence_score s
      in if 0 \<le> score then ConfidenceHigh else if score = -1 then ConfidenceMedium else ConfidenceLow)"

lemma scoreConfidence_mono:
  "confidence_score s \<le> confidence_score s' \<Longrightarrow> scoreConfidence s \<le> scoreConfidence s'"
  by (auto simp: scoreConfidence_def Let_def less_eq_Confidence_def confidenceRank_def)

lemma scoreConfidence_high_iff: "scoreConfidence s = ConfidenceHigh \<longleftrightarrow> 0 \<le> confidence_score s"
  by (auto simp: scoreConfidence_def Let_def)

definition matchesUncertainty :: "string \<Rightarrow> string list \<Rightarrow> bool" where
  "matchesUncertainty content markers \<longleftrightarrow>
     (\<exists>m\<in>set markers. m \<noteq> [] \<and> str_contains (str_lower content) (str_lower m))"

definition defaultHoldingMessage :: string where
  "defaultHoldingMessage = ''Thanks for your patience '' @ em_dash
     @ '' a member of our team will follow up with you shortly.''"

section \<open>Reflection (reflection.go)\<close>

fun str_index :: "char \<Rightarrow> string \<Rightarrow> nat option" where
  "str_index c [] = None"
| "str_index c (x # xs) = (if x = c then Some 0 else map_option Suc (str_index c xs))"

definition str_last_index :: "char \<Rightarrow> string \<Rightarrow> nat option" where
  "str_last_index c s = map_option (\<lambda>i. length s - Suc i) (str_index c (rev s))"

definition extractJSONObject :: "string \<Rightarrow> string" where
  "extractJSONObject s =
     (case (str_index CHR 0x7B s, str_last_index CHR 0x7D s) of
        (Some a, Some b) \<Rightarrow> if b < a then [] else take (b + 1 - a) (drop a s)
      | _ \<Rightarrow> [])"

text \<open>\<open>decode\<close> is \<open>json.Unmarshal\<close> into the verdict struct, \<open>None\<close> on error.\<close>

definition parseReflectionVerdict ::
  "(string \<Rightarrow> (bool \<times> string list) option) \<Rightarrow> string \<Rightarrow> bool \<times> string list" where
  "parseReflectionVerdict decode content =
     (let raw = extractJSONObject content in
      if raw = [] then (True, [])
      else case decode raw of None \<Rightarrow> (True, []) | Some v \<Rightarrow> v)"

definition reflectionBaseInstruction :: string where
  "reflectionBaseInstruction = ''You are reviewing a draft answer an agent is about to send to ''
     @ ''the user. Check that it directly answers the user'' @ [CHR 0x27] @ ''s request, that every factual claim is ''
     @ ''supported by the tool results in the conversation, and that no tool error was ignored.''"

definition reflectionVerdictRequest :: string where
  "reflectionVerdictRequest = ''Review the draft answer above against the criteria. Reply with ONLY ''
     @ ''a JSON object: {'' @ dq @ ''pass'' @ dq @ '': boolean, '' @ dq @ ''issues'' @ dq
     @ '': [string]}. Set pass=false only if the draft must be revised.''"

definition reflectionRevisionMessage :: "string list \<Rightarrow> OracleMessage" where
  "reflectionRevisionMessage issues = text_message RoleUser
     (''A self-review found issues with your draft answer: '' @ str_join ''; '' issues
       @ ''. Revise your answer to address them. Do not mention this review to the user.'')"

section \<open>Compression (context_compression.go)\<close>

definition contextChars :: "OracleMessage list \<Rightarrow> int" where
  "contextChars ms = int (sum_list (map (\<lambda>m. length (omContent m)) ms))"

definition renderMessagesForLedger :: "OracleMessage list \<Rightarrow> string" where
  "renderMessagesForLedger ms = concat (map (\<lambda>m.
     omRole m @ (if omToolName m = [] then [] else ''/'' @ omToolName m) @ '': '' @ omContent m @ nl) ms)"

definition ledgerInstruction :: string where
  "ledgerInstruction = ''Compress the following agent tool interactions into a dense evidence ''
     @ ''ledger. Preserve every concrete fact, identifier, value, decision, and unresolved error. Drop ''
     @ ''verbosity. Output only a bulleted ledger an agent can act on.''"

definition ledgerPrefix :: string where
  "ledgerPrefix = ''[EVIDENCE LEDGER]'' @ nl"

text \<open>
  The position where the part that is kept begins, \<open>None\<close> when there is nothing to compress.
\<close>

definition recent_start :: "CompressionPolicy \<Rightarrow> OracleMessage list \<Rightarrow> nat \<Rightarrow> nat list \<Rightarrow> nat option" where
  "recent_start policy wc offset boundaries =
     (let keep = (if coKeepRecent policy < 1 then 1 else nat (coKeepRecent policy)) in
      if contextChars wc \<le> coMaxContextChars policy \<or> length boundaries \<le> keep then None
      else (let r = boundaries ! (length boundaries - keep) in if r \<le> offset then None else Some r))"

definition ledger_splice :: "OracleMessage list \<Rightarrow> nat \<Rightarrow> nat \<Rightarrow> string \<Rightarrow> OracleMessage list" where
  "ledger_splice wc offset recent summary =
     take offset wc @ [text_message RoleAssistant (ledgerPrefix @ summary)] @ drop recent wc"

lemma recent_start_bounds:
  assumes "recent_start policy wc offset boundaries = Some r" and "\<forall>b\<in>set boundaries. b \<le> length wc"
  shows "offset < r \<and> r \<le> length wc"
proof -
  from assms(1) have "offset < r" and r: "r \<in> set boundaries"
    by (auto simp: recent_start_def Let_def split: if_splits)
  with assms(2) show ?thesis by blast
qed

lemma ledger_splice_shape:
  assumes "offset \<le> length wc"
  shows "take offset (ledger_splice wc offset r s) = take offset wc
    \<and> length (ledger_splice wc offset r s) = Suc offset + (length wc - r)"
  using assms by (simp add: ledger_splice_def)

section \<open>Messages for the model (reasoning_service.go)\<close>

definition infraClosingInstruction :: string where
  "infraClosingInstruction = nl @ nl @ ''--- CLOSING INSTRUCTION ---'' @ nl
     @ ''A technical error prevented this operation from completing. Apologize to the'' @ nl
     @ ''user and inform them that the service is temporarily unavailable.'' @ nl
     @ ''Do not attempt any further actions.''"

definition stallSynthesisInstruction :: string where
  "stallSynthesisInstruction = nl @ nl @ ''--- FINAL SYNTHESIS ---'' @ nl
     @ ''You have reached the limit of useful steps. Provide the best possible answer to the user using ''
     @ ''the information gathered so far. Do not request any more actions.''"

definition actionErrorMessage :: "string \<Rightarrow> string \<Rightarrow> action_result \<Rightarrow> OracleMessage" where
  "actionErrorMessage callID name r =
     (let err = (case arError r of Some e \<Rightarrow> e | None \<Rightarrow> EPlain []);
          business = IsBusinessError err;
          content =
            (if arIsCritical r \<and> business
             then ''Business error: '' @ MessageFor err @ nl
                    @ ''The identical call will not be retried '' @ em_dash
                    @ '' correct the arguments or take a different approach.''
             else if arIsCritical r then ''This operation failed due to a technical error.''
             else if business then ''Business error: '' @ MessageFor err
             else ''This operation is temporarily unavailable. Try an alternative approach if possible.'')
      in tool_message callID name content True)"

definition bannedSignatureMessage :: "tool_call \<Rightarrow> OracleMessage" where
  "bannedSignatureMessage call = tool_message (tcID call) (tcName call)
     (''You already called this with identical arguments and it failed. ''
      @ ''Use different arguments or take another approach '' @ em_dash
      @ '' it will not be retried as-is.'') True"

text \<open>What the model learns of an infrastructure failure does not depend on the failure.\<close>

lemma infra_message_opaque:
  assumes "arError r = Some e" "arError r' = Some e'" "\<not> IsBusinessError e" "\<not> IsBusinessError e'"
    and "arIsCritical r = arIsCritical r'"
  shows "actionErrorMessage i n r = actionErrorMessage i n r'"
  using assms by (simp add: actionErrorMessage_def Let_def)

definition chatMessagesToLLM :: "thread list \<Rightarrow> OracleMessage list" where
  "chatMessagesToLLM ts = map (\<lambda>t. (text_message (thRole t) (thContent t))
     \<lparr>omImageURLs := thImageURLs t, omAudioURLs := thAudioURLs t\<rparr>) ts"

definition resolveIterationActions :: "OracleTool list \<Rightarrow> bool \<Rightarrow> OracleTool list \<times> string" where
  "resolveIterationActions actions infraTerminal =
     (if infraTerminal then ([], infraClosingInstruction) else (actions, []))"

definition StopReasonToolCalls :: string where
  "StopReasonToolCalls = ''tool_calls''"

text \<open>Every other stop reason, known or not, ends the loop.\<close>

definition isTerminalResponse :: "OracleResponse \<Rightarrow> bool" where
  "isTerminalResponse resp \<longleftrightarrow> oaStopReason resp \<noteq> StopReasonToolCalls"

text \<open>\<open>initializeWorkingContext\<close>: the history, and the user's message unless it ends with it.\<close>

definition initializeWorkingContext :: "ReasoningRequest \<Rightarrow> OracleMessage list" where
  "initializeWorkingContext req =
     (let cc = rqConversationContext req; userMsg = pUserMessage (rqEvent req) in
      if userMsg = [] then cc
      else if cc \<noteq> [] \<and> omRole (last cc) = RoleUser \<and> omContent (last cc) = userMsg then cc
      else cc @ [text_message RoleUser userMsg])"

lemma initializeWorkingContext_user:
  assumes "pUserMessage (rqEvent req) \<noteq> []"
  shows "initializeWorkingContext req \<noteq> []
     \<and> omRole (last (initializeWorkingContext req)) = RoleUser
     \<and> omContent (last (initializeWorkingContext req)) = pUserMessage (rqEvent req)"
  using assms by (auto simp: initializeWorkingContext_def Let_def text_message_def)

section \<open>Critical overrides\<close>

text \<open>The index maps a name to the override of its last entry that has one.\<close>

definition override_index :: "AllowedAction list \<Rightarrow> string \<Rightarrow> bool option" where
  "override_index allowed name =
     (case filter (\<lambda>a. aaName a = name \<and> aaIsCritical a \<noteq> None) (rev allowed) of
        [] \<Rightarrow> None | a # _ \<Rightarrow> aaIsCritical a)"

definition applyIsCriticalOverrides :: "AllowedAction list \<Rightarrow> tool_call list \<Rightarrow> tool_call list" where
  "applyIsCriticalOverrides allowed calls =
     map (\<lambda>c. case override_index allowed (tcName c) of
                None \<Rightarrow> c | Some b \<Rightarrow> c\<lparr>tcIsCriticalOverride := Some b\<rparr>) calls"

lemma overrides_frame [simp]:
  "length (applyIsCriticalOverrides al cs) = length cs"
  "map tcName (applyIsCriticalOverrides al cs) = map tcName cs"
  "map tcID (applyIsCriticalOverrides al cs) = map tcID cs"
  "map tcArguments (applyIsCriticalOverrides al cs) = map tcArguments cs"
  by (auto simp: applyIsCriticalOverrides_def split: option.split)

section \<open>Attachments (media/attachment.go)\<close>

record media_support =
  msImages :: "string \<Rightarrow> bool"
  msAudio :: "string \<Rightarrow> bool"
  msDocuments :: "string \<Rightarrow> bool"

fun isMediaSupported :: "artifact_type \<Rightarrow> media_support \<Rightarrow> string \<Rightarrow> bool" where
  "isMediaSupported ArtifactAudio p m = msAudio p m"
| "isMediaSupported ArtifactImage p m = msImages p m"
| "isMediaSupported ArtifactDocument p m = msDocuments p m"
| "isMediaSupported ArtifactVideo p m = False"

definition toNativeLLMAttachment :: "artifact \<Rightarrow> media_support \<Rightarrow> string \<Rightarrow> LLMAttachment option" where
  "toNativeLLMAttachment att p model =
     (if \<not> isMediaSupported (aType att) p model then None
      else if aData att = [] \<and> aURL att = [] then None
      else Some \<lparr>laType = aType att, laURL = aURL att, laData = aData att,
                 laMimeType = aMimeType att, laCaption = aCaption att\<rparr>)"

definition ConvertToLLMAttachments :: "artifact list \<Rightarrow> media_support \<Rightarrow> string \<Rightarrow> LLMAttachment list" where
  "ConvertToLLMAttachments atts p model = List.map_filter (\<lambda>a. toNativeLLMAttachment a p model) atts"

lemma ConvertToLLMAttachments_supported:
  "a \<in> set (ConvertToLLMAttachments atts p m) \<Longrightarrow>
     isMediaSupported (laType a) p m \<and> laType a \<noteq> ArtifactVideo \<and> (laData a \<noteq> [] \<or> laURL a \<noteq> [])"
  by (auto simp: ConvertToLLMAttachments_def map_filter_def toNativeLLMAttachment_def
      split: if_splits)

end
