(* ===== verification/ReasonLoop.thy ===== *)
theory ReasonLoop
  imports Gates
begin

text \<open>
  The reasoning loop: \<open>orchestrator/reasoning_service.go\<close>, \<open>reasoning_loop.go\<close>,
  \<open>tool_shaping.go\<close>, \<open>context_compression.go\<close>, \<open>streaming.go\<close> and
  \<open>reasoning_durable.go\<close>. The providers, the executor, the memory manager and the other
  collaborators are interfaces, so the service is a record of functions over the world
  \<open>'s\<close>; \<open>'p\<close> is a provider. A result \<open>None\<close> is a panic of the runtime. The turn's
  mutable \<open>turnState\<close> is a record passed along.
\<close>

section \<open>The turn\<close>

record memoEntry =
  meResult :: string
  meIsVoiceDelivery :: bool

record 'p turnState =
  tsReq :: ReasoningRequest
  tsProvider :: 'p
  tsEmit :: bool
  tsResult :: ReasoningResult
  tsActions :: "OracleTool list"
  tsWorkingContext :: "OracleMessage list"
  tsActiveTopic :: string
  tsConversationOffset :: nat
  tsEnforceVoiceDelivery :: bool
  tsBanned :: "string list"
  tsToolMemo :: "(string \<times> memoEntry) list option"
  tsInfraTerminal :: bool
  tsTotalActionCalls :: int
  tsIterBoundaries :: "nat list"
  tsTopicSwitched :: bool
  tsReflectionRounds :: int
  tsGroundingRevised :: bool
  tsPlanNudged :: bool
  tsCriticalErrors :: int
  tsProgress :: ProgressPolicy
  tsReflection :: ReflectionPolicy
  tsGrounding :: GroundingPolicy
  tsPlanPolicy :: PlanPolicy
  tsHandoff :: HandoffPolicy
  tsCompressionEnabled :: bool
  tsPlan :: "planState option"
  tsStall :: stallTracker
  tsDraftModel :: string

record turnSnapshot =
  snIterationsUsed :: nat
  snWorkingContext :: "OracleMessage list"
  snActiveTopic :: string
  snConversationOffset :: nat
  snBanned :: "string list"
  snInfraTerminal :: bool
  snTotalActionCalls :: int
  snIterBoundaries :: "nat list"
  snTopicSwitched :: bool
  snReflectionRounds :: int
  snGroundingRevised :: bool
  snPlanNudged :: bool
  snCriticalErrors :: int
  snPlanItems :: "PlanItem list"
  snTokensUsed :: OracleUsage
  snTokensByModel :: "(string \<times> OracleUsage) list"
  snResponseDelivered :: bool
  snToolResults :: "(string \<times> memoEntry) list option"

section \<open>The service and its collaborators\<close>

datatype ReasoningEvent = ReDelta string | ReToolStatus string

record 's checkpoint_store =
  ckSave :: "string \<Rightarrow> string \<Rightarrow> 's \<Rightarrow> gerr option \<times> 's"
  ckLoad :: "string \<Rightarrow> 's \<Rightarrow> (gerr + string option) \<times> 's"
  ckDelete :: "string \<Rightarrow> 's \<Rightarrow> gerr option \<times> 's"

type_synonym 's summon_fn =
  "string \<Rightarrow> string \<Rightarrow> pulse \<Rightarrow> spirit \<Rightarrow> 's \<Rightarrow> ((gerr + string) \<times> 's) option"
type_synonym 's handoff_fn =
  "string \<Rightarrow> pulse \<Rightarrow> spirit \<Rightarrow> session_ref \<Rightarrow> OracleMessage list \<Rightarrow> 's
     \<Rightarrow> ((gerr + ReasoningResult) \<times> 's) option"

text \<open>
  \<open>rvSession\<close> reads the session object held by the context, \<open>rvCtxErr\<close> is
  \<open>ctx.Err()\<close>, \<open>rvSummonOrder\<close> the order in which concurrent summons finish, and the
  last fields are pieces of the standard library: hash, JSON codecs, float printing.
\<close>

record ('s, 'p) reasoning_service =
  rvGetProvider :: "string \<Rightarrow> gerr + 'p"
  rvProviderForModel :: "string \<Rightarrow> 'p option"
  rvGenerate :: "'p \<Rightarrow> OracleRequest \<Rightarrow> 's \<Rightarrow> (gerr + OracleResponse) \<times> 's"
  rvStream :: "'p \<Rightarrow> (OracleRequest \<Rightarrow> 's \<Rightarrow> (gerr + StreamEvent list) \<times> 's) option"
  rvMedia :: "'p \<Rightarrow> media_support"
  rvStructured :: "'p \<Rightarrow> string \<Rightarrow> bool"
  rvExecuteAll :: "tool_call list \<Rightarrow> 's \<Rightarrow> action_result list \<times> 's"
  rvGetAction :: "string \<Rightarrow> gerr + 's action"
  rvRebuild :: "(string \<Rightarrow> string \<Rightarrow> 's \<Rightarrow> ((gerr + memory) \<times> 's) option) option"
  rvSummon :: "'s summon_fn option"
  rvHandoff :: "'s handoff_fn option"
  rvSink :: "(string \<Rightarrow> 's \<Rightarrow> gerr option \<times> 's) option"
  rvCheckpoint :: "'s checkpoint_store option"
  rvMaxIterations :: int
  rvMaxIterationsMessage :: string
  rvMaxActionsPerCycle :: int
  rvToolResultLimits :: ToolResultLimits
  rvProgress :: ProgressPolicy
  rvCompression :: CompressionPolicy
  rvReflection :: ReflectionPolicy
  rvGrounding :: GroundingPolicy
  rvPlan :: PlanPolicy
  rvHandoffPolicy :: HandoffPolicy
  rvSession :: "'s \<Rightarrow> memory option"
  rvCtxErr :: "'s \<Rightarrow> gerr option"
  rvEmit :: "ReasoningEvent \<Rightarrow> 's \<Rightarrow> 's"
  rvSummonOrder :: "'s \<Rightarrow> nat list \<Rightarrow> nat list"
  rvHash :: "string \<Rightarrow> string"
  rvJSON :: "gmap \<Rightarrow> string option"
  rvVerdict :: "string \<Rightarrow> (bool \<times> string list) option"
  rvSchema :: "gmap \<Rightarrow> string \<Rightarrow> gerr option"
  rvEncode :: "turnSnapshot \<Rightarrow> string option"
  rvDecode :: "string \<Rightarrow> turnSnapshot option"
  rvFloat :: "rat \<Rightarrow> string"

text \<open>Per-Spirit overrides, else the defaults of the service.\<close>

definition override :: "(ReasoningOverrides \<Rightarrow> 'a option) \<Rightarrow> 'a \<Rightarrow> ReasoningRequest \<Rightarrow> 'a" where
  "override sel dflt req =
     (case sReasoningOverrides (rqSpirit req) of
        None \<Rightarrow> dflt
      | Some ov \<Rightarrow> (case sel ov of None \<Rightarrow> dflt | Some p \<Rightarrow> p))"

definition effectiveProgress :: "('s, 'p) reasoning_service \<Rightarrow> ReasoningRequest \<Rightarrow> ProgressPolicy" where
  "effectiveProgress r req = override ovProgress (rvProgress r) req"

definition effectiveCompression :: "('s, 'p) reasoning_service \<Rightarrow> ReasoningRequest \<Rightarrow> CompressionPolicy" where
  "effectiveCompression r req = override ovCompression (rvCompression r) req"

definition effectiveReflection :: "('s, 'p) reasoning_service \<Rightarrow> ReasoningRequest \<Rightarrow> ReflectionPolicy" where
  "effectiveReflection r req = override ovReflection (rvReflection r) req"

definition effectiveGrounding :: "('s, 'p) reasoning_service \<Rightarrow> ReasoningRequest \<Rightarrow> GroundingPolicy" where
  "effectiveGrounding r req = override ovGrounding (rvGrounding r) req"

definition effectivePlan :: "('s, 'p) reasoning_service \<Rightarrow> ReasoningRequest \<Rightarrow> PlanPolicy" where
  "effectivePlan r req = override ovPlan (rvPlan r) req"

definition effectiveHandoff :: "('s, 'p) reasoning_service \<Rightarrow> ReasoningRequest \<Rightarrow> HandoffPolicy" where
  "effectiveHandoff r req = override ovHandoff (rvHandoffPolicy r) req"

definition deref :: "('s, 'p) reasoning_service \<Rightarrow> session_ref \<Rightarrow> 's \<Rightarrow> memory option" where
  "deref r ref s =
     (case ref of NoSession \<Rightarrow> None | CtxSession \<Rightarrow> rvSession r s | OwnSession m \<Rightarrow> Some m)"

definition sessionTopicKey :: "memory option \<Rightarrow> string" where
  "sessionTopicKey m = (case m of None \<Rightarrow> [] | Some m \<Rightarrow> meSubjectKey m)"

definition signature :: "('s, 'p) reasoning_service \<Rightarrow> tool_call \<Rightarrow> string" where
  "signature r = callSignature (rvHash r) (rvJSON r)"

section \<open>Calling the model\<close>

fun assembleStream ::
  "(ReasoningEvent \<Rightarrow> 's \<Rightarrow> 's) \<Rightarrow> StreamEvent list \<Rightarrow> OracleResponse \<Rightarrow> 's
     \<Rightarrow> (gerr + OracleResponse) \<times> 's" where
  "assembleStream emit [] resp s = (Inr resp, s)"
| "assembleStream emit (SeDelta d # evs) resp s =
     assembleStream emit evs (resp\<lparr>oaContent := oaContent resp @ d\<rparr>) (emit (ReDelta d) s)"
| "assembleStream emit (SeDone calls u stop # evs) resp s =
     assembleStream emit evs (resp\<lparr>oaToolCalls := calls, oaTokensUsed := u, oaStopReason := stop\<rparr>) s"
| "assembleStream emit (SeError e # evs) resp s = (Inl e, s)"

definition empty_response :: OracleResponse where
  "empty_response = \<lparr>oaContent = [], oaToolCalls = [], oaStopReason = [],
     oaTokensUsed = zero_usage, oaStructured = []\<rparr>"

definition invokeProvider ::
  "('s, 'p) reasoning_service \<Rightarrow> 'p \<Rightarrow> OracleRequest \<Rightarrow> bool \<Rightarrow> 's \<Rightarrow> (gerr + OracleResponse) \<times> 's" where
  "invokeProvider r p oreq emit s =
     (case (if emit then rvStream r p else None) of
        Some gen \<Rightarrow>
          (case gen oreq s of
             (Inl e, s1) \<Rightarrow> (Inl (EWrap ''oracle generate stream'' e), s1)
           | (Inr evs, s1) \<Rightarrow>
               (case assembleStream (rvEmit r) evs empty_response s1 of
                  (Inl e, s2) \<Rightarrow> (Inl (EWrap ''oracle stream'' e), s2)
                | (Inr resp, s2) \<Rightarrow> (Inr resp, s2)))
      | None \<Rightarrow>
          (case rvGenerate r p oreq s of
             (Inl e, s1) \<Rightarrow> (Inl (EWrap ''oracle generate response'' e), s1)
           | (Inr resp, s1) \<Rightarrow> (Inr resp, s1)))"

definition callLLM ::
  "('s, 'p) reasoning_service \<Rightarrow> 'p \<Rightarrow> ReasoningRequest \<Rightarrow> OracleMessage list \<Rightarrow> OracleTool list
     \<Rightarrow> string \<Rightarrow> string \<Rightarrow> bool \<Rightarrow> ResponseFormat option \<Rightarrow> 's \<Rightarrow> (gerr + OracleResponse) \<times> 's" where
  "callLLM r provider req messages actions closingHint model emit responseFormat s =
     (let primary = primary_model req;
          m = (if model = [] then primary else model);
          p = (if m \<noteq> primary
               then (case rvProviderForModel r m of Some q \<Rightarrow> q | None \<Rightarrow> provider) else provider);
          mc = sModelConfig (rqSpirit req)
      in invokeProvider r p
           \<lparr>orModel = m, orSystemPrompt = rqSystemPrompt req @ closingHint, orMessages = messages,
            orTemperature = smTemperature mc, orMaxTokens = smMaxTokens mc, orTools = actions,
            orUseTools = (actions \<noteq> []),
            orAttachments = ConvertToLLMAttachments (pAttachments (rqEvent req)) (rvMedia r p) m,
            orResponseFormat = responseFormat\<rparr>
           emit s)"

text \<open>A side call on a fixed prompt: no tools, temperature zero, no attachments.\<close>

definition side_call ::
  "('s, 'p) reasoning_service \<Rightarrow> 'p \<Rightarrow> string \<Rightarrow> string \<Rightarrow> OracleMessage list \<Rightarrow> 's
     \<Rightarrow> (gerr + OracleResponse) \<times> 's" where
  "side_call r p model prompt messages s =
     rvGenerate r p \<lparr>orModel = model, orSystemPrompt = prompt, orMessages = messages,
       orTemperature = 0, orMaxTokens = 0, orTools = [], orUseTools = False, orAttachments = [],
       orResponseFormat = None\<rparr> s"

definition synthesizeFinal ::
  "('s, 'p) reasoning_service \<Rightarrow> 'p \<Rightarrow> ReasoningRequest \<Rightarrow> OracleMessage list \<Rightarrow> ReasoningResult
     \<Rightarrow> bool \<Rightarrow> 's \<Rightarrow> string \<times> ReasoningResult \<times> 's" where
  "synthesizeFinal r p req wc res emit s =
     (case callLLM r p req wc [] stallSynthesisInstruction [] emit None s of
        (Inl _, s1) \<Rightarrow> (rvMaxIterationsMessage r, res, s1)
      | (Inr resp, s1) \<Rightarrow> (oaContent resp, accrueTokens req [] (oaTokensUsed resp) res, s1))"

section \<open>Shaping a tool result\<close>

definition toolSummarizeInstruction :: string where
  "toolSummarizeInstruction = ''Summarize the following tool result for an AI agent that will ''
     @ ''continue a task. Preserve every concrete fact, identifier, numeric value, and error. Be dense ''
     @ ''and drop filler. Output only the summary.''"

definition summarizeToolResult ::
  "('s, 'p) reasoning_service \<Rightarrow> 'p \<Rightarrow> ReasoningRequest \<Rightarrow> string \<Rightarrow> 's
     \<Rightarrow> (gerr + string \<times> OracleUsage) \<times> 's" where
  "summarizeToolResult r p req full s =
     (case side_call r p (primary_model req) toolSummarizeInstruction [text_message RoleUser full] s of
        (Inl e, s1) \<Rightarrow> (Inl (EWrap ''summarize tool result'' e), s1)
      | (Inr resp, s1) \<Rightarrow> (Inr (oaContent resp, oaTokensUsed resp), s1))"

definition limitsFor :: "('s, 'p) reasoning_service \<Rightarrow> string \<Rightarrow> ToolResultLimits" where
  "limitsFor r name =
     (case rvGetAction r name of
        Inr a \<Rightarrow> (case acResultLimit a of Some l \<Rightarrow> l | None \<Rightarrow> rvToolResultLimits r)
      | Inl _ \<Rightarrow> rvToolResultLimits r)"

definition shapeResultForContext ::
  "('s, 'p) reasoning_service \<Rightarrow> 'p \<Rightarrow> ReasoningRequest \<Rightarrow> string \<Rightarrow> string \<Rightarrow> ReasoningResult \<Rightarrow> 's
     \<Rightarrow> (string \<times> ReasoningResult \<times> 's) option" where
  "shapeResultForContext r p req name full res s =
     (let limits = limitsFor r name;
          cut = (\<lambda>text res1 s1. map_option (\<lambda>t. (t, res1, s1)) (truncateToolResult text limits))
      in if rlMaxChars limits \<le> 0 \<or> int (rune_count full) \<le> rlMaxChars limits then Some (full, res, s)
         else if rlStrategy limits = ToolShapeSummarize
         then (case summarizeToolResult r p req full s of
                 (Inr (summary, u), s1) \<Rightarrow>
                   if str_trim summary \<noteq> [] then cut summary (accumulateTokens u res) s1
                   else cut full res s1
               | (Inl _, s1) \<Rightarrow> cut full res s1)
         else cut full res s)"

section \<open>Running the calls of one response\<close>

text \<open>What one batch of calls changes, threaded through its steps.\<close>

record 's batch =
  btContext :: "OracleMessage list"
  btResult :: ReasoningResult
  btLog :: IterationLog
  btMemo :: "(string \<times> memoEntry) list option"
  btBanned :: "string list"
  btInfra :: bool
  btWorld :: 's

definition log_call :: "tool_call \<Rightarrow> action_result \<Rightarrow> 's batch \<Rightarrow> 's batch" where
  "log_call call ar b =
     b\<lparr>btLog := (btLog b)\<lparr>ilActionCalls := ilActionCalls (btLog b) @ [buildActionCallLog call ar]\<rparr>\<rparr>"

definition log_banned :: "string \<Rightarrow> 's batch \<Rightarrow> 's batch" where
  "log_banned name b =
     b\<lparr>btLog := (btLog b)\<lparr>ilBannedActions := ilBannedActions (btLog b) @ [name]\<rparr>\<rparr>"

definition log_error :: "string \<Rightarrow> 's batch \<Rightarrow> 's batch" where
  "log_error t b = b\<lparr>btLog := (btLog b)\<lparr>ilErrors := ilErrors (btLog b) @ [t]\<rparr>\<rparr>"

definition push_message :: "OracleMessage \<Rightarrow> 's batch \<Rightarrow> 's batch" where
  "push_message m b = b\<lparr>btContext := btContext b @ [m]\<rparr>"

definition handleActionSuccess ::
  "('s, 'p) reasoning_service \<Rightarrow> 'p \<Rightarrow> ReasoningRequest \<Rightarrow> tool_call \<Rightarrow> action_result \<Rightarrow> 's batch
     \<Rightarrow> 's batch option" where
  "handleActionSuccess r p req call ar b =
     (case shapeResultForContext r p req (tcName call) (arResult ar) (btResult b) (btWorld b) of
        None \<Rightarrow> None
      | Some (content, res, s) \<Rightarrow>
          Some (push_message (tool_message (tcID call) (tcName call) content False)
            (b\<lparr>btResult := (if arIsVoiceDelivery ar then res\<lparr>rrResponseDelivered := True\<rparr> else res),
               btWorld := s\<rparr>)))"

text \<open>
  First pass: calls that are banned or memoized are answered here, the others are returned to
  be executed.
\<close>

fun triage ::
  "('s, 'p) reasoning_service \<Rightarrow> 'p \<Rightarrow> ReasoningRequest \<Rightarrow> string list \<Rightarrow> tool_call list \<Rightarrow> 's batch
     \<Rightarrow> (tool_call list \<times> 's batch) option" where
  "triage r p req banned [] b = Some ([], b)"
| "triage r p req banned (call # calls) b =
     (let sig = signature r call in
      if sig \<in> set banned
      then triage r p req banned calls
             (log_banned (tcName call)
               (log_call call (named_result (tcName call)) (push_message (bannedSignatureMessage call) b)))
      else
        (case (case btMemo b of None \<Rightarrow> None | Some m \<Rightarrow> map_of m sig) of
           Some entry \<Rightarrow>
             (let reused = (named_result (tcName call))
                \<lparr>arResult := meResult entry, arIsVoiceDelivery := meIsVoiceDelivery entry\<rparr>
              in case handleActionSuccess r p req call reused b of
                   None \<Rightarrow> None
                 | Some b1 \<Rightarrow> triage r p req banned calls (log_call call reused b1))
         | None \<Rightarrow>
             (case triage r p req banned calls b of
                None \<Rightarrow> None
              | Some (todo, b1) \<Rightarrow> Some (call # todo, b1))))"

text \<open>(message, banned, infraTerminal, error)\<close>

definition handleActionError ::
  "tool_call \<Rightarrow> action_result \<Rightarrow> bool \<Rightarrow> OracleMessage option \<times> bool \<times> bool \<times> gerr option" where
  "handleActionError call ar enforce =
     (let err = (case arError ar of Some e \<Rightarrow> e | None \<Rightarrow> EPlain []);
          msg = actionErrorMessage (tcID call) (tcName call) ar
      in if \<not> arIsCritical ar then (Some msg, False, False, None)
         else if IsBusinessError err then (Some msg, True, False, None)
         else if enforce then (Some msg, False, True, None)
         else (None, False, False, Some (EWrap (''critical action '' @ quote_q (tcName call)) err)))"

text \<open>Second pass: settle each executed call with its result, up to a hard stop.\<close>

definition settle_success ::
  "('s, 'p) reasoning_service \<Rightarrow> 'p \<Rightarrow> ReasoningRequest \<Rightarrow> tool_call \<Rightarrow> action_result \<Rightarrow> 's batch
     \<Rightarrow> 's batch option" where
  "settle_success r p req call ar b =
     map_option (\<lambda>b1. log_call call ar
       (b1\<lparr>btMemo := map_option (AList.update (signature r call)
              \<lparr>meResult = arResult ar, meIsVoiceDelivery = arIsVoiceDelivery ar\<rparr>) (btMemo b1)\<rparr>))
       (handleActionSuccess r p req call ar b)"

definition settle_failure ::
  "('s, 'p) reasoning_service \<Rightarrow> bool \<Rightarrow> tool_call \<Rightarrow> action_result \<Rightarrow> gerr \<Rightarrow> 's batch
     \<Rightarrow> gerr option \<times> 's batch" where
  "settle_failure r enforce call ar e b =
     (let b1 = log_error (tcName call @ '': '' @ err_text e) b;
          (msg, isBanned, isInfra, err) = handleActionError call ar enforce;
          b2 = (case msg of Some m \<Rightarrow> push_message m b1 | None \<Rightarrow> b1)
      in case err of
           Some he \<Rightarrow> (Some he, log_call call ar b2)
         | None \<Rightarrow>
             (let b3 = (if isBanned
                        then log_banned (tcName call) (b2\<lparr>btBanned := btBanned b2 @ [signature r call]\<rparr>)
                        else b2);
                  b4 = (if isInfra then b3\<lparr>btInfra := True\<rparr> else b3)
              in (None, log_call call ar b4)))"

fun settle ::
  "('s, 'p) reasoning_service \<Rightarrow> 'p \<Rightarrow> ReasoningRequest \<Rightarrow> bool \<Rightarrow> (tool_call \<times> action_result) list \<Rightarrow> 's batch
     \<Rightarrow> (gerr option \<times> 's batch) option" where
  "settle r p req enforce [] b = Some (None, b)"
| "settle r p req enforce ((call, ar) # rest) b =
     (case arError ar of
        None \<Rightarrow>
          (case settle_success r p req call ar b of
             None \<Rightarrow> None
           | Some b1 \<Rightarrow> settle r p req enforce rest b1)
      | Some e \<Rightarrow>
          (case settle_failure r enforce call ar e b of
             (Some he, b1) \<Rightarrow> Some (Some he, b1)
           | (None, b1) \<Rightarrow> settle r p req enforce rest b1))"

section \<open>Executing a batch\<close>

definition summonSpiritActionName :: string where
  "summonSpiritActionName = ''summon_spirit''"

definition handoffSpiritActionName :: string where
  "handoffSpiritActionName = ''handoff_spirit''"

definition executeSummonCall ::
  "'s summon_fn \<Rightarrow> tool_call \<Rightarrow> ReasoningRequest \<Rightarrow> 's \<Rightarrow> (action_result \<times> 's) option" where
  "executeSummonCall summon call req s =
     (let spiritName = str_arg (tcArguments call) ''spirit_name'';
          task = str_arg (tcArguments call) ''task'' in
      if spiritName = [] \<or> task = []
      then Some ((named_result [])\<lparr>arError :=
             Some (NewBusinessError ''summon_spirit requires spirit_name and task'' [])\<rparr>, s)
      else case summon spiritName task (rqEvent req) (rqSpirit req) s of
        None \<Rightarrow> None
      | Some (Inl e, s1) \<Rightarrow> Some ((named_result [])\<lparr>arError := Some e, arIsCritical := True\<rparr>, s1)
      | Some (Inr resp, s1) \<Rightarrow> Some ((named_result [])\<lparr>arResult := resp\<rparr>, s1))"

fun summon_loop ::
  "'s summon_fn \<Rightarrow> tool_call list \<Rightarrow> ReasoningRequest \<Rightarrow> nat list \<Rightarrow> action_result list \<Rightarrow> 's
     \<Rightarrow> (action_result list \<times> 's) option" where
  "summon_loop summon calls req [] results s = Some (results, s)"
| "summon_loop summon calls req (i # is) results s =
     (case executeSummonCall summon (calls ! i) req s of
        None \<Rightarrow> None
      | Some (ar, s1) \<Rightarrow> summon_loop summon calls req is (results[i := ar]) s1)"

text \<open>\<open>results[idx[j]] = vals[j]\<close> for every \<open>j\<close>\<close>

fun scatter :: "nat list \<Rightarrow> 'a list \<Rightarrow> 'a list \<Rightarrow> 'a list" where
  "scatter (i # is) (v # vs) xs = scatter is vs (xs[i := v])"
| "scatter _ _ xs = xs"

definition positions :: "(tool_call \<Rightarrow> bool) \<Rightarrow> tool_call list \<Rightarrow> nat list" where
  "positions P calls = filter (\<lambda>i. P (calls ! i)) [0..<length calls]"

definition executeAllActions ::
  "('s, 'p) reasoning_service \<Rightarrow> ReasoningRequest \<Rightarrow> tool_call list \<Rightarrow> 's
     \<Rightarrow> (action_result list \<times> 's) option" where
  "executeAllActions r req calls0 s =
     (let calls = applyIsCriticalOverrides (sAllowedActions (rqSpirit req)) calls0 in
      case (if IsOrchestrator (rqSpirit req) then rvSummon r else None) of
        None \<Rightarrow> Some (rvExecuteAll r calls s)
      | Some summon \<Rightarrow>
          (let isSummon = (\<lambda>c. tcName c = summonSpiritActionName);
               si = positions isSummon calls;
               ri = positions (\<lambda>c. \<not> isSummon c) calls;
               base = replicate (length calls) (named_result []);
               (rs, s1) = (if ri = [] then ([], s) else rvExecuteAll r (map (nth calls) ri) s)
           in if length rs < length ri then None
              else
                (let order = (if ocParallelSummon (sOrchestratorConfig (rqSpirit req)) \<and> 1 < length si
                              then rvSummonOrder r s1 si else si)
                 in summon_loop summon calls req order (scatter ri rs base) s1)))"

text \<open>The built-in \<open>update_plan\<close> runs here, on the turn's plan, before the other calls.\<close>

fun plan_calls ::
  "(rat \<Rightarrow> string) \<Rightarrow> tool_call list \<Rightarrow> nat list \<Rightarrow> action_result list \<Rightarrow> planState
     \<Rightarrow> action_result list \<times> planState" where
  "plan_calls ff calls [] results p = (results, p)"
| "plan_calls ff calls (i # is) results p =
     (let (ar, p1) = applyUpdatePlan ff (calls ! i) p in plan_calls ff calls is (results[i := ar]) p1)"

definition executeActionsWithPlan ::
  "('s, 'p) reasoning_service \<Rightarrow> ReasoningRequest \<Rightarrow> tool_call list \<Rightarrow> planState option \<Rightarrow> 's
     \<Rightarrow> (action_result list \<times> planState option \<times> 's) option" where
  "executeActionsWithPlan r req calls plan s =
     (case plan of
        None \<Rightarrow> map_option (\<lambda>(rs, s1). (rs, None, s1)) (executeAllActions r req calls s)
      | Some p \<Rightarrow>
          (let isPlan = (\<lambda>c. tcName c = updatePlanActionName);
               pi = positions isPlan calls;
               ri = positions (\<lambda>c. \<not> isPlan c) calls;
               (results, p1) = plan_calls (rvFloat r) calls pi (replicate (length calls) (named_result [])) p
           in if ri = [] then Some (results, Some p1, s)
              else (case executeAllActions r req (map (nth calls) ri) s of
                      None \<Rightarrow> None
                    | Some (sub, s1) \<Rightarrow>
                        if length ri < length sub then None
                        else Some (scatter ri sub results, Some p1, s1))))"

definition processActionCalls ::
  "('s, 'p) reasoning_service \<Rightarrow> 'p \<Rightarrow> ReasoningRequest \<Rightarrow> tool_call list \<Rightarrow> bool \<Rightarrow> planState option
     \<Rightarrow> string list \<Rightarrow> 's batch \<Rightarrow> (gerr option \<times> planState option \<times> 's batch) option" where
  "processActionCalls r p req calls enforce plan banned b =
     (case triage r p req banned calls b of
        None \<Rightarrow> None
      | Some (toExec, b1) \<Rightarrow>
          (case executeActionsWithPlan r req toExec plan (btWorld b1) of
             None \<Rightarrow> None
           | Some (results, plan1, s1) \<Rightarrow>
               (let b2 = b1\<lparr>btWorld := s1\<rparr> in
                if length results \<noteq> length toExec
                then Some (Some (EPlain (''executor returned '' @ nat_dec (length results) @ '' results for ''
                             @ nat_dec (length toExec) @ '' action calls'')), plan1, b2)
                else (case settle r p req enforce (zip toExec results) b2 of
                        None \<Rightarrow> None
                      | Some (err, b3) \<Rightarrow> Some (err, plan1, b3)))))"

section \<open>Topic switch and compression\<close>

definition merge_facts :: "gmap option \<Rightarrow> memory \<Rightarrow> memory" where
  "merge_facts pending m =
     (if gm_entries pending = [] then m
      else m\<lparr>meTopicFacts := Some (gm_copy_into (gm_entries pending) (gm_entries (meTopicFacts m)))\<rparr>)"

text \<open>
  When the session's subject moved, the history of the new subject replaces the old one. The
  request then points at the rebuilt session, the context still at the old object.
\<close>

definition handleTopicSwitch ::
  "('s, 'p) reasoning_service \<Rightarrow> ReasoningRequest \<Rightarrow> OracleMessage list \<Rightarrow> nat \<Rightarrow> string \<Rightarrow> 's
     \<Rightarrow> (OracleMessage list \<times> string \<times> nat \<times> ReasoningRequest \<times> 's) option" where
  "handleTopicSwitch r req wc offset previous s =
     (let session = deref r (rqSession req) s; current = sessionTopicKey session in
      case (if current = previous then None else rvRebuild r) of
        None \<Rightarrow> Some (wc, current, offset, req, s)
      | Some rebuild \<Rightarrow>
          (case session of
             None \<Rightarrow> None
           | Some m \<Rightarrow>
               (case rebuild (meMemoryKey m) current s of
                  None \<Rightarrow> None
                | Some (Inl e, s1) \<Rightarrow> Some (wc, current, offset, req, s1)
                | Some (Inr new, s1) \<Rightarrow>
                    if length wc < offset then None
                    else
                      (let new1 = merge_facts (meTopicFacts m) new;
                           history = chatMessagesToLLM (meThreads new1)
                       in Some (history @ drop offset wc, current, length history,
                            req\<lparr>rqSession := OwnSession new1\<rparr>, s1)))))"

definition maybeCompress ::
  "('s, 'p) reasoning_service \<Rightarrow> 'p \<Rightarrow> ReasoningRequest \<Rightarrow> OracleMessage list \<Rightarrow> nat \<Rightarrow> nat list
     \<Rightarrow> ReasoningResult \<Rightarrow> 's \<Rightarrow> (OracleMessage list \<times> nat list \<times> ReasoningResult \<times> 's) option" where
  "maybeCompress r p req wc offset boundaries res s =
     (case recent_start (effectiveCompression r req) wc offset boundaries of
        None \<Rightarrow> Some (wc, boundaries, res, s)
      | Some rs \<Rightarrow>
          if length wc < rs then None
          else
            (case side_call r p (primary_model req) ledgerInstruction
                    [text_message RoleUser (renderMessagesForLedger (drop offset (take rs wc)))] s of
               (Inl e, s1) \<Rightarrow> Some (wc, boundaries, res, s1)
             | (Inr resp, s1) \<Rightarrow>
                 if str_trim (oaContent resp) = [] then Some (wc, boundaries, res, s1)
                 else (let compressed = ledger_splice wc offset rs (oaContent resp)
                       in Some (compressed, [length compressed],
                                accumulateTokens (oaTokensUsed resp) res, s1))))"

section \<open>Gates with effects\<close>

definition reflect ::
  "('s, 'p) reasoning_service \<Rightarrow> 'p \<Rightarrow> ReasoningRequest \<Rightarrow> OracleMessage list \<Rightarrow> 's
     \<Rightarrow> (bool \<times> string list \<times> OracleUsage) \<times> 's" where
  "reflect r p req wc s =
     (let policy = effectiveReflection r req;
          model = (if rfModel policy \<noteq> [] then rfModel policy else primary_model req);
          prompt = reflectionBaseInstruction @ concat (map (\<lambda>c. nl @ ''- '' @ c) (rfCriteria policy))
      in case side_call r p model prompt (wc @ [text_message RoleUser reflectionVerdictRequest]) s of
           (Inl e, s1) \<Rightarrow> ((True, [], zero_usage), s1)
         | (Inr resp, s1) \<Rightarrow>
             (let (pass, issues) = parseReflectionVerdict (rvVerdict r) (oaContent resp)
              in ((pass, issues, oaTokensUsed resp), s1)))"

text \<open>Returns the holding message when a takeover was raised.\<close>

definition maybeHandoff ::
  "('s, 'p) reasoning_service \<Rightarrow> ReasoningRequest \<Rightarrow> ReasoningResult \<Rightarrow> string \<Rightarrow> int \<Rightarrow> int \<Rightarrow> 's
     \<Rightarrow> string option \<times> ReasoningResult \<times> 's" where
  "maybeHandoff r req res content criticalErrors reflectionRounds s =
     (if \<not> IsConversational (rqSpirit req) then (None, res, s)
      else
        (let policy = effectiveHandoff r req; refl = effectiveReflection r req;
             conf = scoreConfidence
               \<lparr>csCriticalErrors = criticalErrors,
                csReflectionFailed = (rfEnabled refl \<and> 0 < rfMaxRounds refl \<and> rfMaxRounds refl \<le> reflectionRounds),
                csGrounded = (rrCitations res \<noteq> []),
                csUncertainContent = matchesUncertainty content (hoUncertaintyMarkers policy)\<rparr>;
             res1 = res\<lparr>rrConfidence := Some conf\<rparr>;
             minConf = (if hoMinConfidence policy = ConfidenceOther [] then ConfidenceMedium
                        else hoMinConfidence policy)
         in if confidenceRank minConf \<le> confidenceRank conf then (None, res1, s)
            else if hoMode policy = HandoffAnnotateOnly then (None, res1, s)
            else case rvSink r of
              None \<Rightarrow> (None, res1, s)
            | Some raise \<Rightarrow>
                (case raise (pMemoryKey (rqEvent req)) s of
                   (Some e, s1) \<Rightarrow> (None, res1, s1)
                 | (None, s1) \<Rightarrow>
                     (Some (if hoHoldingMessage policy = [] then defaultHoldingMessage
                            else hoHoldingMessage policy),
                      res1\<lparr>rrHandoffRaised := True\<rparr>, s1))))"

text \<open>One generation and at most one repair; the number is what is left of the attempts.\<close>

fun structured_attempts ::
  "('s, 'p) reasoning_service \<Rightarrow> 'p \<Rightarrow> ReasoningRequest \<Rightarrow> OracleMessage list \<Rightarrow> ResponseFormat
     \<Rightarrow> ResponseFormat option \<Rightarrow> string \<Rightarrow> nat \<Rightarrow> string \<Rightarrow> string \<Rightarrow> ReasoningResult \<Rightarrow> 's
     \<Rightarrow> string \<times> ReasoningResult \<times> 's" where
  "structured_attempts r p req wc rf rfArg base 0 hint lastp res s = (lastp, res, s)"
| "structured_attempts r p req wc rf rfArg base (Suc n) hint lastp res s =
     (case callLLM r p req wc [] hint [] False rfArg s of
        (Inl e, s1) \<Rightarrow> (lastp, res, s1)
      | (Inr resp, s1) \<Rightarrow>
          (let res1 = accrueTokens req [] (oaTokensUsed resp) res;
               payload = (if oaStructured resp \<noteq> [] then oaStructured resp else oaContent resp)
           in case rvSchema r (fmtSchema rf) payload of
                None \<Rightarrow> (payload, res1\<lparr>rrStructured := payload\<rparr>, s1)
              | Some verr \<Rightarrow>
                  structured_attempts r p req wc rf rfArg base n
                    (base @ nl @ nl @ ''Your previous answer did not match the required schema: ''
                      @ err_text verr @ nl @ ''Return ONLY corrected JSON.'')
                    payload res1 s1))"

definition structuredInstruction :: "('s, 'p) reasoning_service \<Rightarrow> ResponseFormat \<Rightarrow> string" where
  "structuredInstruction r rf = nl @ nl
     @ ''Return ONLY a JSON object conforming to this JSON Schema, with no prose or code fences:'' @ nl
     @ (case rvJSON r (fmtSchema rf) of Some j \<Rightarrow> j | None \<Rightarrow> [])"

definition finalizeStructured ::
  "('s, 'p) reasoning_service \<Rightarrow> 'p \<Rightarrow> ReasoningRequest \<Rightarrow> ResponseFormat \<Rightarrow> OracleMessage list
     \<Rightarrow> ReasoningResult \<Rightarrow> 's \<Rightarrow> string \<times> ReasoningResult \<times> 's" where
  "finalizeStructured r p req rf wc res s =
     (let native = rvStructured r p (primary_model req);
          base = (if native then [] else structuredInstruction r rf)
      in structured_attempts r p req wc rf (if native then Some rf else None) base 2 base [] res s)"

end
