(* ===== verification/Turn.thy ===== *)
theory Turn
  imports ReasonLoop
begin

text \<open>
  One reasoning turn (\<open>reasoning_loop.go\<close>, \<open>reasoning_durable.go\<close>): the iteration, the gates
  on a tool-free answer, the handoff to a peer, checkpoints, and the loop itself, which recurses
  on the iterations that are left. \<open>None\<close> is a panic. The turn span and its attributes are
  left out.
\<close>

datatype step_result = StepContinue | StepDone | StepFail gerr

section \<open>State updates\<close>

definition set_result :: "(ReasoningResult \<Rightarrow> ReasoningResult) \<Rightarrow> 'p turnState \<Rightarrow> 'p turnState" where
  "set_result f ts = ts\<lparr>tsResult := f (tsResult ts)\<rparr>"

text \<open>The assignment to \<open>ts.workingContext\<close> with the one to \<open>ts.result.WorkingContext\<close>.\<close>

definition set_context :: "OracleMessage list \<Rightarrow> 'p turnState \<Rightarrow> 'p turnState" where
  "set_context wc ts =
     ts\<lparr>tsWorkingContext := wc, tsResult := (tsResult ts)\<lparr>rrWorkingContext := wc\<rparr>\<rparr>"

definition add_context :: "OracleMessage \<Rightarrow> 'p turnState \<Rightarrow> 'p turnState" where
  "add_context m ts = set_context (tsWorkingContext ts @ [m]) ts"

definition set_final_session :: "'p turnState \<Rightarrow> 'p turnState" where
  "set_final_session ts = set_result (\<lambda>r. r\<lparr>rrFinalSession := rqSession (tsReq ts)\<rparr>) ts"

definition fail_with :: "string \<Rightarrow> 'p turnState \<Rightarrow> 'p turnState" where
  "fail_with msg ts = set_final_session (set_result (\<lambda>r. r\<lparr>rrFinalError := msg\<rparr>) ts)"

definition result_plan :: "'p turnState \<Rightarrow> 'p turnState" where
  "result_plan ts = (case tsPlan ts of None \<Rightarrow> ts
     | Some p \<Rightarrow> set_result (\<lambda>r. r\<lparr>rrPlan := psItems p\<rparr>) ts)"

lemmas ts_update_defs = set_result_def set_context_def add_context_def set_final_session_def
  fail_with_def result_plan_def

section \<open>The gates on a tool-free answer\<close>

text \<open>The strong model writes the answer the draft model concluded with.\<close>

definition gate_synthesis ::
  "('s, 'p) reasoning_service \<Rightarrow> 'p turnState \<Rightarrow> string \<Rightarrow> 's \<Rightarrow> string \<times> 'p turnState \<times> 's" where
  "gate_synthesis r ts content s =
     (if tieringActive (tsReq ts) \<and> \<not> rrResponseDelivered (tsResult ts)
      then (case callLLM r (tsProvider ts) (tsReq ts) (tsWorkingContext ts) [] [] [] (tsEmit ts) None s of
              (Inl _, s1) \<Rightarrow> (content, ts, s1)
            | (Inr resp, s1) \<Rightarrow>
                (let ts1 = set_result (accrueTokens (tsReq ts) [] (oaTokensUsed resp)) ts;
                     wc = tsWorkingContext ts1
                 in (oaContent resp,
                     set_context (butlast wc @ [(last wc)\<lparr>omContent := oaContent resp\<rparr>]) ts1, s1)))
      else (content, ts, s))"

text \<open>Each gate yields the turn to send back (a revision was requested) or lets it pass.\<close>

definition gate_plan :: "'p turnState \<Rightarrow> 'p turnState option" where
  "gate_plan ts =
     (case tsPlan ts of
        None \<Rightarrow> None
      | Some p \<Rightarrow>
          if tsPlanNudged ts \<or> rrResponseDelivered (tsResult ts) \<or> plan_incomplete p = [] then None
          else Some (add_context (planNudgeMessage (plan_incomplete p)) (ts\<lparr>tsPlanNudged := True\<rparr>)))"

definition gate_reflection ::
  "('s, 'p) reasoning_service \<Rightarrow> 'p turnState \<Rightarrow> 's
     \<Rightarrow> (string list \<times> 'p turnState) option \<times> 'p turnState \<times> 's" where
  "gate_reflection r ts s =
     (if rfEnabled (tsReflection ts) \<and> tsReflectionRounds ts < rfMaxRounds (tsReflection ts)
         \<and> \<not> rrResponseDelivered (tsResult ts)
      then (let ((pass, issues, u), s1) = reflect r (tsProvider ts) (tsReq ts) (tsWorkingContext ts) s;
                ts1 = set_result (accumulateTokens u) ts
            in if pass then (None, ts1, s1)
               else (Some (issues, add_context (reflectionRevisionMessage issues)
                       (ts1\<lparr>tsReflectionRounds := tsReflectionRounds ts1 + 1\<rparr>)), ts1, s1))
      else (None, ts, s))"

datatype 'a gate_verdict = GatePass 'a | GateRevise 'a | GateFinal 'a

definition gate_grounding ::
  "('s, 'p) reasoning_service \<Rightarrow> 'p turnState \<Rightarrow> string \<Rightarrow> 'p turnState gate_verdict" where
  "gate_grounding r ts content =
     (if grEnabled (tsGrounding ts) \<and> \<not> rrResponseDelivered (tsResult ts)
      then (let (revise, blocked, res) =
                  enforceGrounding (effectiveGrounding r (tsReq ts)) (rqEvent (tsReq ts)) content (tsResult ts);
                ts1 = ts\<lparr>tsResult := res\<rparr>
            in if revise \<and> \<not> tsGroundingRevised ts1
               then GateRevise (add_context citationRevisionMessage (ts1\<lparr>tsGroundingRevised := True\<rparr>))
               else if blocked then GateFinal (set_final_session ts1)
               else GatePass ts1)
      else GatePass ts)"

definition gate_handoff ::
  "('s, 'p) reasoning_service \<Rightarrow> 'p turnState \<Rightarrow> string \<Rightarrow> 's \<Rightarrow> 'p turnState gate_verdict \<times> 's" where
  "gate_handoff r ts content s =
     (if hoEnabled (tsHandoff ts) \<and> \<not> rrResponseDelivered (tsResult ts)
      then (let (holding, res, s1) = maybeHandoff r (tsReq ts) (tsResult ts) content
                  (tsCriticalErrors ts) (tsReflectionRounds ts) s;
                ts1 = ts\<lparr>tsResult := res\<rparr>
            in case holding of
                 Some msg \<Rightarrow>
                   (GateFinal (result_plan (set_final_session
                      (set_result (\<lambda>x. x\<lparr>rrFinalResponse := msg\<rparr>) ts1))), s1)
               | None \<Rightarrow> (GatePass ts1, s1))
      else (GatePass ts, s))"

definition deliver_final ::
  "('s, 'p) reasoning_service \<Rightarrow> 'p turnState \<Rightarrow> string \<Rightarrow> 's \<Rightarrow> 'p turnState \<times> 's" where
  "deliver_final r ts content s =
     (case (if rrResponseDelivered (tsResult ts) then None else rqResponseFormat (tsReq ts)) of
        Some rf \<Rightarrow>
          (let (text, res, s1) = finalizeStructured r (tsProvider ts) (tsReq ts) rf
                                   (tsWorkingContext ts) (tsResult ts) s
           in (result_plan (set_final_session
                 (ts\<lparr>tsResult := res\<lparr>rrFinalResponse := text\<rparr>\<rparr>)), s1))
      | None \<Rightarrow>
          (result_plan (set_final_session
             (set_result (\<lambda>x. x\<lparr>rrFinalResponse := content\<rparr>) ts)), s))"

text \<open>\<open>True\<close> when the answer is final, \<open>False\<close> when a gate asked for another iteration.\<close>

definition finalizeTerminalResponse ::
  "('s, 'p) reasoning_service \<Rightarrow> 'p turnState \<Rightarrow> string \<Rightarrow> IterationLog \<Rightarrow> 's
     \<Rightarrow> bool \<times> 'p turnState \<times> IterationLog \<times> 's" where
  "finalizeTerminalResponse r ts0 content0 lg s0 =
     (let (content, ts, s) = gate_synthesis r ts0 content0 s0 in
      case gate_plan ts of
        Some ts1 \<Rightarrow> (False, ts1, lg, s)
      | None \<Rightarrow>
          (case gate_reflection r ts s of
             (Some (issues, ts1), _, s1) \<Rightarrow> (False, ts1, lg\<lparr>ilReflectionIssues := issues\<rparr>, s1)
           | (None, ts1, s1) \<Rightarrow>
               (case gate_grounding r ts1 content of
                  GateRevise ts2 \<Rightarrow> (False, ts2, lg, s1)
                | GateFinal ts2 \<Rightarrow> (True, ts2, lg, s1)
                | GatePass ts2 \<Rightarrow>
                    (case gate_handoff r ts2 content s1 of
                       (GateFinal ts3, s2) \<Rightarrow> (True, ts3, lg, s2)
                     | (GateRevise ts3, s2) \<Rightarrow> (False, ts3, lg, s2)
                     | (GatePass ts3, s2) \<Rightarrow>
                         (let (ts4, s3) = deliver_final r ts3 content s2 in (True, ts4, lg, s3))))))"

section \<open>Handing the turn to a peer\<close>

definition findHandoffCall :: "('s, 'p) reasoning_service \<Rightarrow> spirit \<Rightarrow> tool_call list \<Rightarrow> tool_call option" where
  "findHandoffCall r sp calls =
     (if rvHandoff r = None \<or> \<not> HasHandoff sp then None
      else find (\<lambda>c. tcName c = handoffSpiritActionName) calls)"

definition log_action :: "tool_call \<Rightarrow> action_result \<Rightarrow> IterationLog \<Rightarrow> IterationLog" where
  "log_action call ar lg = lg\<lparr>ilActionCalls := ilActionCalls lg @ [buildActionCallLog call ar]\<rparr>"

definition executeHandoff ::
  "('s, 'p) reasoning_service \<Rightarrow> 's handoff_fn \<Rightarrow> 'p turnState \<Rightarrow> tool_call \<Rightarrow> IterationLog \<Rightarrow> 's
     \<Rightarrow> (step_result \<times> 'p turnState \<times> IterationLog \<times> 's) option" where
  "executeHandoff r handoff ts call lg s =
     (let req = tsReq ts; target = str_arg (tcArguments call) ''target_spirit'' in
      if target = []
      then (let res = (named_result (tcName call))
                  \<lparr>arError := Some (NewBusinessError ''handoff_spirit requires target_spirit'' [])\<rparr>
            in Some (StepContinue, add_context (actionErrorMessage (tcID call) (tcName call) res) ts,
                     log_action call res lg, s))
      else case handoff target (rqEvent req) (rqSpirit req) (rqSession req) (rqConversationContext req) s of
        None \<Rightarrow> None
      | Some (Inl e, s1) \<Rightarrow>
          (let res = (named_result (tcName call))\<lparr>arError := Some e, arIsCritical := (\<not> IsBusinessError e)\<rparr>
           in Some (StepContinue, add_context (actionErrorMessage (tcID call) (tcName call) res) ts,
                    log_action call res lg, s1))
      | Some (Inr sub, s1) \<Rightarrow>
          Some (StepDone,
            set_final_session (set_result (\<lambda>x. (accrueTokens req [] (rrTokensUsed sub) x)
              \<lparr>rrFinalResponse := rrFinalResponse sub, rrStructured := rrStructured sub\<rparr>) ts),
            log_action call ((named_result (tcName call))\<lparr>arResult := rrFinalResponse sub\<rparr>) lg, s1))"

section \<open>The calls of one iteration\<close>

fun emit_statuses :: "(ReasoningEvent \<Rightarrow> 's \<Rightarrow> 's) \<Rightarrow> tool_call list \<Rightarrow> 's \<Rightarrow> 's" where
  "emit_statuses emit [] s = s"
| "emit_statuses emit (c # cs) s = emit_statuses emit cs (emit (ReToolStatus (tcName c)) s)"

definition start_batch :: "'p turnState \<Rightarrow> IterationLog \<Rightarrow> 's \<Rightarrow> 's batch" where
  "start_batch ts lg s =
     \<lparr>btContext = tsWorkingContext ts, btResult = tsResult ts, btLog = lg, btMemo = tsToolMemo ts,
      btBanned = [], btInfra = False, btWorld = s\<rparr>"

text \<open>What the turn takes over from a batch; the plan is changed in place.\<close>

definition end_batch :: "planState option \<Rightarrow> 's batch \<Rightarrow> bool \<Rightarrow> 'p turnState \<Rightarrow> 'p turnState" where
  "end_batch plan b infra ts =
     ts\<lparr>tsWorkingContext := btContext b, tsResult := btResult b, tsToolMemo := btMemo b, tsPlan := plan,
        tsBanned := btBanned b @ tsBanned ts,
        tsCriticalErrors := tsCriticalErrors ts + (if btBanned b \<noteq> [] \<or> infra then 1 else 0),
        tsInfraTerminal := (tsInfraTerminal ts \<or> infra)\<rparr>"

text \<open>The steps after a batch that went through: topic switch, stall, compression.\<close>

definition after_batch ::
  "('s, 'p) reasoning_service \<Rightarrow> tool_call list \<Rightarrow> 'p turnState \<Rightarrow> IterationLog \<Rightarrow> 's
     \<Rightarrow> (step_result \<times> 'p turnState \<times> IterationLog \<times> 's) option" where
  "after_batch r calls ts lg s =
     (case handleTopicSwitch r (tsReq ts) (tsWorkingContext ts) (tsConversationOffset ts) (tsActiveTopic ts) s of
        None \<Rightarrow> None
      | Some (wc, topic, offset, req, s1) \<Rightarrow>
          (let ts1 = set_context wc (ts\<lparr>tsReq := req, tsConversationOffset := offset,
                       tsTopicSwitched := (tsTopicSwitched ts \<or> topic \<noteq> tsActiveTopic ts),
                       tsActiveTopic := topic\<rparr>);
               (stalled, stall) = observe (signature r) calls (tsStall ts1);
               ts2 = ts1\<lparr>tsStall := stall\<rparr>
           in if stalled
              then (let (text, res, s2) = synthesizeFinal r (tsProvider ts2) (tsReq ts2)
                          (tsWorkingContext ts2) (tsResult ts2) (tsEmit ts2) s1
                    in Some (StepDone,
                         fail_with (''reasoning stalled at iteration '' @ nat_dec (rrIterationsUsed res)
                              @ ''; forced final synthesis'')
                           (ts2\<lparr>tsResult := res\<lparr>rrFinalResponse := text\<rparr>\<rparr>), lg, s2))
              else if tsCompressionEnabled ts2 \<and> \<not> tsTopicSwitched ts2
              then (case maybeCompress r (tsProvider ts2) (tsReq ts2) (tsWorkingContext ts2)
                           (tsConversationOffset ts2)
                           (tsIterBoundaries ts2 @ [length (tsWorkingContext ts2)]) (tsResult ts2) s1 of
                      None \<Rightarrow> None
                    | Some (wc2, bounds, res, s2) \<Rightarrow>
                        Some (StepContinue,
                          set_context wc2 (ts2\<lparr>tsIterBoundaries := bounds, tsResult := res\<rparr>), lg, s2))
              else Some (StepContinue, ts2, lg, s1)))"

definition executeIterationActions ::
  "('s, 'p) reasoning_service \<Rightarrow> 'p turnState \<Rightarrow> tool_call list \<Rightarrow> IterationLog \<Rightarrow> 's
     \<Rightarrow> (step_result \<times> 'p turnState \<times> IterationLog \<times> 's) option" where
  "executeIterationActions r ts calls lg s0 =
     (let s = (if tsEmit ts then emit_statuses (rvEmit r) calls s0 else s0) in
      case (case rvHandoff r of None \<Rightarrow> None
            | Some h \<Rightarrow> map_option (\<lambda>c. (h, c)) (findHandoffCall r (rqSpirit (tsReq ts)) calls)) of
        Some (handoff, call) \<Rightarrow> executeHandoff r handoff ts call lg s
      | None \<Rightarrow>
          (let ts1 = ts\<lparr>tsTotalActionCalls := tsTotalActionCalls ts + int (length calls)\<rparr> in
           if 0 < rvMaxActionsPerCycle r \<and> rvMaxActionsPerCycle r < tsTotalActionCalls ts1
           then Some (StepFail (ErrToolBudgetExceeded (rvMaxActionsPerCycle r)),
                  fail_with (''action budget of '' @ int_dec (rvMaxActionsPerCycle r) @ '' exceeded'') ts1, lg, s)
           else
             (case processActionCalls r (tsProvider ts1) (tsReq ts1) calls (tsEnforceVoiceDelivery ts1)
                     (tsPlan ts1) (tsBanned ts1) (start_batch ts1 lg s) of
                None \<Rightarrow> None
              | Some (Some e, plan, b) \<Rightarrow>
                  Some (StepFail e,
                    (let ts2 = end_batch plan b False ts1
                     in set_context (tsWorkingContext ts2)
                          (fail_with (''Critical Action failed at iteration ''
                             @ nat_dec (rrIterationsUsed (tsResult ts2))) ts2)),
                    btLog b, btWorld b)
              | Some (None, plan, b) \<Rightarrow>
                  after_batch r calls (end_batch plan b (btInfra b) ts1) (btLog b) (btWorld b))))"

section \<open>One iteration\<close>

definition runIteration ::
  "('s, 'p) reasoning_service \<Rightarrow> nat \<Rightarrow> 'p turnState \<Rightarrow> 's \<Rightarrow> (step_result \<times> 'p turnState \<times> 's) option" where
  "runIteration r iteration ts0 s0 =
     (let n = Suc iteration; ts = set_result (\<lambda>x. x\<lparr>rrIterationsUsed := n\<rparr>) ts0 in
      case rvCtxErr r s0 of
        Some err \<Rightarrow>
          (let msg = ''context cancelled at iteration '' @ nat_dec n
           in Some (StepFail (EWrap msg err), fail_with msg ts, s0))
      | None \<Rightarrow>
          (let (actions, hint0) = resolveIterationActions (tsActions ts) (tsInfraTerminal ts);
               hint = (case tsPlan ts of None \<Rightarrow> hint0 | Some p \<Rightarrow> plan_render p @ hint0);
               log0 = new_iteration_log n;
               logged = (\<lambda>lg t. set_result (\<lambda>x. x\<lparr>rrIterations := rrIterations x @ [lg]\<rparr>) t)
           in case callLLM r (tsProvider ts) (tsReq ts) (tsWorkingContext ts) actions hint
                     (tsDraftModel ts) (tsEmit ts) None s0 of
                (Inl e, s1) \<Rightarrow>
                  Some (StepFail (EWrap (''LLM call at iteration '' @ nat_dec n) e),
                    logged (log0\<lparr>ilErrors := [''LLM call failed: '' @ err_text e]\<rparr>)
                      (fail_with (''LLM call failed at iteration '' @ nat_dec n) ts), s1)
              | (Inr resp, s1) \<Rightarrow>
                  (let lg = log0\<lparr>ilOracleResponse := oaContent resp, ilTokens := oaTokensUsed resp\<rparr>;
                       ts1 = set_result (accrueTokens (tsReq ts) (tsDraftModel ts) (oaTokensUsed resp)) ts;
                       ts2 = add_context ((text_message RoleAssistant (oaContent resp))
                               \<lparr>omToolCalls := oaToolCalls resp\<rparr>) ts1
                   in if oaToolCalls resp = []
                      then (if isTerminalResponse resp
                            then (let (done, ts3, log1, s2) = finalizeTerminalResponse r ts2 (oaContent resp) lg s1
                                  in Some (if done then StepDone else StepContinue, logged log1 ts3, s2))
                            else Some (StepContinue, logged lg ts2, s1))
                      else map_option (\<lambda>(st, ts3, log1, s2). (st, logged log1 ts3, s2))
                             (executeIterationActions r ts2 (oaToolCalls resp) lg s1))))"

section \<open>Checkpoints (reasoning_durable.go)\<close>

definition ts_snapshot :: "'p turnState \<Rightarrow> turnSnapshot" where
  "ts_snapshot ts =
     \<lparr>snIterationsUsed = rrIterationsUsed (tsResult ts), snWorkingContext = tsWorkingContext ts,
      snActiveTopic = tsActiveTopic ts, snConversationOffset = tsConversationOffset ts,
      snBanned = tsBanned ts, snInfraTerminal = tsInfraTerminal ts,
      snTotalActionCalls = tsTotalActionCalls ts, snIterBoundaries = tsIterBoundaries ts,
      snTopicSwitched = tsTopicSwitched ts, snReflectionRounds = tsReflectionRounds ts,
      snGroundingRevised = tsGroundingRevised ts, snPlanNudged = tsPlanNudged ts,
      snCriticalErrors = tsCriticalErrors ts,
      snPlanItems = (case tsPlan ts of Some p \<Rightarrow> psItems p | None \<Rightarrow> []),
      snTokensUsed = rrTokensUsed (tsResult ts), snTokensByModel = rrTokensByModel (tsResult ts),
      snResponseDelivered = rrResponseDelivered (tsResult ts), snToolResults = tsToolMemo ts\<rparr>"

definition ts_restore :: "turnSnapshot \<Rightarrow> 'p turnState \<Rightarrow> 'p turnState" where
  "ts_restore sn ts =
     ts\<lparr>tsWorkingContext := snWorkingContext sn, tsActiveTopic := snActiveTopic sn,
        tsConversationOffset := snConversationOffset sn, tsInfraTerminal := snInfraTerminal sn,
        tsTotalActionCalls := snTotalActionCalls sn, tsIterBoundaries := snIterBoundaries sn,
        tsTopicSwitched := snTopicSwitched sn, tsReflectionRounds := snReflectionRounds sn,
        tsGroundingRevised := snGroundingRevised sn, tsPlanNudged := snPlanNudged sn,
        tsCriticalErrors := snCriticalErrors sn, tsBanned := snBanned sn,
        tsPlan := map_option (\<lambda>p. p\<lparr>psItems := snPlanItems sn\<rparr>) (tsPlan ts),
        tsToolMemo := snToolResults sn,
        tsResult := (tsResult ts)\<lparr>rrIterationsUsed := snIterationsUsed sn,
          rrWorkingContext := snWorkingContext sn, rrTokensUsed := snTokensUsed sn,
          rrTokensByModel := snTokensByModel sn, rrResponseDelivered := snResponseDelivered sn\<rparr>\<rparr>"

text \<open>The checkpoint store and the turn's key, \<open>None\<close> when the turn is not durable.\<close>

definition checkpointID ::
  "('s, 'p) reasoning_service \<Rightarrow> ReasoningRequest \<Rightarrow> ('s checkpoint_store \<times> string) option" where
  "checkpointID r req =
     (case rvCheckpoint r of
        None \<Rightarrow> None
      | Some st \<Rightarrow>
          (let k = (if pIdempotencyKey (rqEvent req) = [] then pID (rqEvent req)
                    else pIdempotencyKey (rqEvent req))
           in if k = [] then None else Some (st, k)))"

definition resumeFromCheckpoint ::
  "('s, 'p) reasoning_service \<Rightarrow> 's checkpoint_store \<Rightarrow> string \<Rightarrow> 'p turnState \<Rightarrow> 's
     \<Rightarrow> bool \<times> 'p turnState \<times> 's" where
  "resumeFromCheckpoint r st k ts s =
     (case ckLoad st k s of
        (Inl _, s1) \<Rightarrow> (False, ts, s1)
      | (Inr None, s1) \<Rightarrow> (False, ts, s1)
      | (Inr (Some data), s1) \<Rightarrow>
          (case rvDecode r data of
             None \<Rightarrow> (False, ts, s1)
           | Some sn \<Rightarrow> (True, ts_restore sn ts, s1)))"

definition saveCheckpoint ::
  "('s, 'p) reasoning_service \<Rightarrow> ('s checkpoint_store \<times> string) option \<Rightarrow> 'p turnState \<Rightarrow> 's \<Rightarrow> 's" where
  "saveCheckpoint r dur ts s =
     (case dur of
        None \<Rightarrow> s
      | Some (st, k) \<Rightarrow>
          (case rvEncode r (ts_snapshot ts) of None \<Rightarrow> s | Some data \<Rightarrow> snd (ckSave st k data s)))"

definition deleteCheckpoint :: "('s checkpoint_store \<times> string) option \<Rightarrow> 's \<Rightarrow> 's" where
  "deleteCheckpoint dur s = (case dur of None \<Rightarrow> s | Some (st, k) \<Rightarrow> snd (ckDelete st k s))"

section \<open>The loop\<close>

definition handleMaxIterations ::
  "('s, 'p) reasoning_service \<Rightarrow> 'p turnState \<Rightarrow> 's \<Rightarrow> gerr option \<times> 'p turnState \<times> 's" where
  "handleMaxIterations r ts0 s =
     (let ts = set_final_session ts0; mx = int_dec (rvMaxIterations r) in
      if prEnabled (tsProgress ts)
      then (let (text, res, s1) = synthesizeFinal r (tsProvider ts) (tsReq ts) (tsWorkingContext ts)
                                    (tsResult ts) (tsEmit ts) s
            in (None, ts\<lparr>tsResult := res\<lparr>rrFinalResponse := text,
                  rrFinalError := ''max iterations ('' @ mx @ '') reached; forced final synthesis''\<rparr>\<rparr>, s1))
      else (Some (EPlain (''max reasoning iterations ('' @ mx @ '') reached without completion'')),
            set_result (\<lambda>x. x\<lparr>rrFinalResponse := rvMaxIterationsMessage r,
                  rrFinalError := ''Max iterations ('' @ mx @ '') reached without completion''\<rparr>) ts, s))"

fun turn_loop ::
  "('s, 'p) reasoning_service \<Rightarrow> ('s checkpoint_store \<times> string) option \<Rightarrow> nat \<Rightarrow> nat \<Rightarrow> 'p turnState \<Rightarrow> 's
     \<Rightarrow> (gerr option \<times> 'p turnState \<times> 's) option" where
  "turn_loop r dur 0 i ts s =
     (let (err, ts1, s1) = handleMaxIterations r ts s in Some (err, ts1, deleteCheckpoint dur s1))"
| "turn_loop r dur (Suc n) i ts s =
     (case runIteration r i ts s of
        None \<Rightarrow> None
      | Some (StepFail e, ts1, s1) \<Rightarrow> Some (Some e, ts1, s1)
      | Some (StepDone, ts1, s1) \<Rightarrow> Some (None, ts1, deleteCheckpoint dur s1)
      | Some (StepContinue, ts1, s1) \<Rightarrow>
          turn_loop r dur n (Suc i) ts1 (saveCheckpoint r dur ts1 s1))"

definition summonSpiritTool :: "string list \<Rightarrow> OracleTool" where
  "summonSpiritTool subs =
     \<lparr>otName = summonSpiritActionName,
      otDescription = ''Delegates a task to a specialized sub-Spirit and returns its response. ''
        @ ''Use this to coordinate work across multiple Spirits. ''
        @ ''Available sub-Spirits: '' @ show_list subs,
      otParameters =
        [(''type'', VStr ''object''),
         (''properties'', VMap
           [(''spirit_name'', VMap [(''type'', VStr ''string''),
               (''description'', VStr ''Name of the sub-Spirit to summon.''), (''enum'', VStrs subs)]),
            (''task'', VMap [(''type'', VStr ''string''),
               (''description'', VStr ''The task or question to delegate to the sub-Spirit.'')])]),
         (''required'', VStrs [''spirit_name'', ''task''])]\<rparr>"

definition handoffSpiritTool :: "string list \<Rightarrow> OracleTool" where
  "handoffSpiritTool targets =
     \<lparr>otName = handoffSpiritActionName,
      otDescription = ''Transfers control of this conversation to a peer Spirit. The target answers the ''
        @ ''user now and owns the conversation from here on (use for triage to a specialist). ''
        @ ''Available targets: '' @ show_list targets,
      otParameters =
        [(''type'', VStr ''object''),
         (''properties'', VMap
           [(''target_spirit'', VMap [(''type'', VStr ''string''),
               (''description'', VStr ''Name of the Spirit to hand off to.''), (''enum'', VStrs targets)]),
            (''reason'', VMap [(''type'', VStr ''string''),
               (''description'', VStr ''Short reason for the handoff (for audit/logging).'')])]),
         (''required'', VStrs [''target_spirit''])]\<rparr>"

definition updatePlanTool :: OracleTool where
  "updatePlanTool =
     \<lparr>otName = updatePlanActionName,
      otDescription = ''Maintain your task plan. Call with the full list of plan items and their current ''
        @ ''status each time the plan changes. Statuses: pending, in_progress, done, abandoned.'',
      otParameters =
        [(''type'', VStr ''object''),
         (''properties'', VMap
           [(''items'', VMap
             [(''type'', VStr ''array''),
              (''items'', VMap
                [(''type'', VStr ''object''),
                 (''properties'', VMap
                   [(''title'', VMap [(''type'', VStr ''string''),
                       (''description'', VStr ''Short description of the step.'')]),
                    (''status'', VMap [(''type'', VStr ''string''),
                       (''enum'', VStrs [''pending'', ''in_progress'', ''done'', ''abandoned''])])]),
                 (''required'', VStrs [''title'', ''status''])])])]),
         (''required'', VStrs [''items''])]\<rparr>"

definition availableActions :: "('s, 'p) reasoning_service \<Rightarrow> ReasoningRequest \<Rightarrow> OracleTool list" where
  "availableActions r req =
     (let sp = rqSpirit req;
          listed = List.map_filter (\<lambda>aa. case rvGetAction r (aaName aa) of
                     Inl _ \<Rightarrow> None
                   | Inr a \<Rightarrow> Some \<lparr>otName = acName a,
                       otDescription = (if aaDescriptionOverride aa = [] then acDescription a
                                        else aaDescriptionOverride aa),
                       otParameters = acParameters a\<rparr>) (sAllowedActions sp);
          subs = ocSubSpirits (sOrchestratorConfig sp)
      in listed
         @ (if rvSummon r \<noteq> None \<and> IsOrchestrator sp \<and> subs \<noteq> [] then [summonSpiritTool subs] else [])
         @ (if rvHandoff r \<noteq> None \<and> HasHandoff sp
            then [handoffSpiritTool (hcAllowedTargets (sHandoffConfig sp))] else [])
         @ (if plEnabled (effectivePlan r req) then [updatePlanTool] else []))"

definition fresh_result :: "OracleMessage list \<Rightarrow> session_ref \<Rightarrow> ReasoningResult" where
  "fresh_result wc session =
     \<lparr>rrIterations = [], rrFinalResponse = [], rrFinalError = [], rrWorkingContext = wc,
      rrIterationsUsed = 0, rrTokensUsed = zero_usage, rrTokensByModel = [],
      rrFinalSession = session, rrResponseDelivered = False, rrCitations = [], rrPlan = [],
      rrConfidence = None, rrHandoffRaised = False, rrStructured = []\<rparr>"

definition newTurnState ::
  "('s, 'p) reasoning_service \<Rightarrow> ReasoningRequest \<Rightarrow> bool \<Rightarrow> 's \<Rightarrow> gerr + 'p turnState" where
  "newTurnState r req0 emit s =
     (case rvGetProvider r (smProvider (sModelConfig (rqSpirit req0))) of
        Inl e \<Rightarrow> Inl (EWrap ''get LLM provider'' e)
      | Inr provider \<Rightarrow>
          (let wc = initializeWorkingContext req0;
               offset = (if pUserMessage (rqEvent req0) \<noteq> [] then length wc - 1 else length wc);
               gp = effectiveGrounding r req0; pp = effectivePlan r req0; prog = effectiveProgress r req0;
               addendum = (if grEnabled gp \<and> retrievedLoreContext (rqEvent req0) \<noteq> [] then groundingAddendum else [])
                 @ (if plEnabled pp \<and> plRequired pp then planRequiredInstruction else []);
               req = req0\<lparr>rqSystemPrompt := rqSystemPrompt req0 @ addendum\<rparr>
           in Inr \<lparr>tsReq = req, tsProvider = provider, tsEmit = emit,
                tsResult = fresh_result wc (rqSession req), tsActions = availableActions r req,
                tsWorkingContext = wc, tsActiveTopic = sessionTopicKey (deref r (rqSession req) s),
                tsConversationOffset = offset,
                tsEnforceVoiceDelivery = sEnforceVoiceDelivery (rqSpirit req), tsBanned = [],
                tsToolMemo = None, tsInfraTerminal = False, tsTotalActionCalls = 0, tsIterBoundaries = [],
                tsTopicSwitched = False, tsReflectionRounds = 0, tsGroundingRevised = False,
                tsPlanNudged = False, tsCriticalErrors = 0, tsProgress = prog,
                tsReflection = effectiveReflection r req, tsGrounding = gp, tsPlanPolicy = pp,
                tsHandoff = effectiveHandoff r req,
                tsCompressionEnabled = coEnabled (effectiveCompression r req),
                tsPlan = (if plEnabled pp then Some (newPlanState (plMaxItems pp)) else None),
                tsStall = newStallTracker (if prEnabled prog then prStallWindow prog else 0),
                tsDraftModel = (if tieringActive req then tierDraftModel req else [])\<rparr>))"

text \<open>
  \<open>run\<close>: the error and the result (absent when the turn could not start). \<open>emit\<close> tells
  the streaming path from the buffered one.
\<close>

definition run ::
  "('s, 'p) reasoning_service \<Rightarrow> ReasoningRequest \<Rightarrow> bool \<Rightarrow> 's
     \<Rightarrow> (gerr option \<times> ReasoningResult option \<times> 's) option" where
  "run r req emit s =
     (case newTurnState r req emit s of
        Inl e \<Rightarrow> Some (Some e, None, s)
      | Inr ts \<Rightarrow>
          (let dur = checkpointID r (tsReq ts);
               (resumed, ts1, s1) =
                 (case dur of None \<Rightarrow> (False, ts, s) | Some (st, k) \<Rightarrow> resumeFromCheckpoint r st k ts s);
               start = (if resumed then rrIterationsUsed (tsResult ts1) else 0);
               ts2 = (if dur \<noteq> None \<and> tsToolMemo ts1 = None then ts1\<lparr>tsToolMemo := Some []\<rparr> else ts1)
           in case turn_loop r dur (nat (rvMaxIterations r - int start)) start ts2 s1 of
                None \<Rightarrow> None
              | Some (err, ts3, s2) \<Rightarrow> Some (err, Some (tsResult ts3), s2)))"

end
