(* ===== verification/Stores.thy ===== *)
theory Stores
  imports GoErrors
begin

text \<open>
  The in-process stores of the orchestrator, one operation per method, each run under the
  store's mutex and so atomic: the lock provider of \<open>bond_noop.go\<close>, the duplicate filter of
  \<open>idempotency_memory.go\<close> and the pin table of \<open>handoff_store_memory.go\<close>. A Go map is an
  association list with distinct keys, so its length is the length of the list. The contracts
  of the ports \<open>Bond\<close>, \<open>IdempotencyStore\<close> and \<open>HandoffStore\<close> are locales, and each
  store is an interpretation of its own.
\<close>

section \<open>Contracts\<close>

text \<open>
  \<open>ports.Bond\<close>: acquiring reports \<open>true\<close> only for a lock nobody held, \<open>false\<close>
  only for one that is held, and an error changes nothing.
\<close>

locale bond =
  fixes acquire :: "string \<Rightarrow> 's \<Rightarrow> (gerr + bool) \<times> 's"
    and release :: "string \<Rightarrow> 's \<Rightarrow> 's"
    and held :: "'s \<Rightarrow> string set"
    and inv :: "'s \<Rightarrow> bool"
  assumes acquire_true: "inv s \<Longrightarrow> acquire k s = (Inr True, s') \<Longrightarrow>
      k \<notin> held s \<and> held s' = insert k (held s)"
    and acquire_false: "inv s \<Longrightarrow> acquire k s = (Inr False, s') \<Longrightarrow> k \<in> held s \<and> s' = s"
    and acquire_error: "inv s \<Longrightarrow> acquire k s = (Inl e, s') \<Longrightarrow> s' = s"
    and inv_acquire: "inv s \<Longrightarrow> inv (snd (acquire k s))"
    and held_release: "inv s \<Longrightarrow> held (release k s) = held s - {k}"
    and inv_release: "inv s \<Longrightarrow> inv (release k s)"
begin

lemma acquire_twice:
  assumes "inv s" and "acquire k s = (Inr True, s')"
  shows "acquire k s' \<noteq> (Inr True, s'')"
  using assms acquire_true inv_acquire by (metis insertI1 snd_conv)

lemma release_undoes:
  assumes "inv s" and "acquire k s = (Inr True, s')"
  shows "held (release k s') = held s"
proof -
  from assms have "k \<notin> held s" "held s' = insert k (held s)" by (auto dest: acquire_true)
  moreover from assms have "inv s'" using inv_acquire by (metis snd_conv)
  ultimately show ?thesis by (simp add: held_release)
qed

lemma acquire_mono: "inv s \<Longrightarrow> held s \<subseteq> held (snd (acquire k s))"
proof -
  assume "inv s"
  obtain r s' where a: "acquire k s = (r, s')" by (cases "acquire k s")
  show ?thesis
  proof (cases r)
    case (Inl e)
    with a \<open>inv s\<close> show ?thesis using acquire_error by auto
  next
    case (Inr b)
    with a \<open>inv s\<close> show ?thesis
      by (cases b) (auto dest: acquire_true acquire_false)
  qed
qed

end

text \<open>\<open>ports.HandoffStore\<close>: the empty string is no pin.\<close>

locale pin_store =
  fixes get :: "string \<Rightarrow> 's \<Rightarrow> string"
    and set_pin :: "string \<Rightarrow> string \<Rightarrow> 's \<Rightarrow> gerr option \<times> 's"
    and clear :: "string \<Rightarrow> 's \<Rightarrow> 's"
  assumes get_set: "set_pin k v s = (None, s') \<Longrightarrow> get j s' = (if j = k then v else get j s)"
    and set_error: "set_pin k v s = (Some e, s') \<Longrightarrow> s' = s"
    and get_clear: "get j (clear k s) = (if j = k then [] else get j s)"
begin

lemma set_then_clear:
  "set_pin k v s = (None, s') \<Longrightarrow> get j (clear k s') = get j (clear k s)"
  by (simp add: get_clear get_set)

lemma last_set_wins:
  "set_pin k v s = (None, s') \<Longrightarrow> set_pin k w s' = (None, s'') \<Longrightarrow> get k s'' = w"
  by (simp add: get_set)

end

section \<open>The in-process Bond (bond_noop.go)\<close>

definition maxNoOpBondKeys :: nat where
  "maxNoOpBondKeys = 10000"

record noOpBond =
  locks :: "(string \<times> bool) list"

definition newNoOpBond :: noOpBond where
  "newNoOpBond = \<lparr>locks = []\<rparr>"

definition bond_limit_error :: gerr where
  "bond_limit_error = EPlain (''noOpBond: key limit of '' @ nat_dec maxNoOpBondKeys @ '' reached'')"

definition bond_AcquireLock :: "string \<Rightarrow> noOpBond \<Rightarrow> (gerr + bool) \<times> noOpBond" where
  "bond_AcquireLock key b =
     (if map_of (locks b) key = Some True then (Inr False, b)
      else if maxNoOpBondKeys \<le> length (locks b) then (Inl bond_limit_error, b)
      else (Inr True, b\<lparr>locks := AList.update key True (locks b)\<rparr>))"

definition bond_ReleaseLock :: "string \<Rightarrow> noOpBond \<Rightarrow> noOpBond" where
  "bond_ReleaseLock key b = b\<lparr>locks := AList.delete key (locks b)\<rparr>"

definition bond_ExtendLock :: "string \<Rightarrow> noOpBond \<Rightarrow> noOpBond" where
  "bond_ExtendLock key b = b"

definition bond_held :: "noOpBond \<Rightarrow> string set" where
  "bond_held b = {k. map_of (locks b) k = Some True}"

definition bond_inv :: "noOpBond \<Rightarrow> bool" where
  "bond_inv b \<longleftrightarrow>
     distinct (map fst (locks b)) \<and> length (locks b) \<le> maxNoOpBondKeys"

lemmas [store_defs] = bond_AcquireLock_def bond_ReleaseLock_def bond_ExtendLock_def
  bond_held_def bond_inv_def

lemma bond_inv_new: "bond_inv newNoOpBond"
  by (simp add: bond_inv_def newNoOpBond_def)

interpretation nb: bond bond_AcquireLock bond_ReleaseLock bond_held bond_inv
proof (unfold_locales, goal_cases)
  case (1 s k s')
  then show ?case by (auto simp: store_defs update_conv' split: if_splits)
next
  case (2 s k s')
  then show ?case by (auto simp: store_defs split: if_splits)
next
  case (3 s k e s')
  then show ?case by (auto simp: store_defs split: if_splits)
next
  case (4 s k)
  then show ?case
    using length_AList_update_le [of k True "locks s"]
    by (auto simp: store_defs intro: distinct_update)
next
  case (5 s k)
  then show ?case by (auto simp: store_defs map_of_AList_delete split: if_splits)
next
  case (6 s k)
  then show ?case
    using length_AList_delete_le [of k "locks s"]
    by (auto simp: store_defs distinct_delete)
qed

section \<open>The in-process duplicate filter (idempotency_memory.go)\<close>

text \<open>Times and durations are nanoseconds. \<open>seen\<close> maps a key to its expiry.\<close>

definition maxInMemoryIdempotencyKeys :: nat where
  "maxInMemoryIdempotencyKeys = 100000"

record idem_store =
  seen :: "(string \<times> int) list"

definition reapExpired :: "int \<Rightarrow> idem_store \<Rightarrow> idem_store" where
  "reapExpired now s = s\<lparr>seen := filter (\<lambda>(k, expiry). \<not> expiry < now) (seen s)\<rparr>"

definition idem_Seen :: "int \<Rightarrow> string \<Rightarrow> int \<Rightarrow> idem_store \<Rightarrow> bool \<times> idem_store" where
  "idem_Seen now key ttl s0 =
     (let s = reapExpired now s0 in
      case map_of (seen s) key of
        Some expiry \<Rightarrow>
          if now < expiry then (True, s)
          else if maxInMemoryIdempotencyKeys \<le> length (seen s) then (False, s)
          else (False, s\<lparr>seen := AList.update key (now + ttl) (seen s)\<rparr>)
      | None \<Rightarrow>
          if maxInMemoryIdempotencyKeys \<le> length (seen s) then (False, s)
          else (False, s\<lparr>seen := AList.update key (now + ttl) (seen s)\<rparr>))"

definition idem_inv :: "idem_store \<Rightarrow> bool" where
  "idem_inv s \<longleftrightarrow>
     distinct (map fst (seen s)) \<and> length (seen s) \<le> maxInMemoryIdempotencyKeys"

text \<open>A sequence of calls, each with its own clock reading, key and window.\<close>

type_synonym idem_call = "int \<times> string \<times> int"

fun idem_run :: "idem_store \<Rightarrow> idem_call list \<Rightarrow> bool list \<times> idem_store" where
  "idem_run s [] = ([], s)"
| "idem_run s ((now, key, ttl) # cs) =
     (let (b, s') = idem_Seen now key ttl s; (bs, s'') = idem_run s' cs in (b # bs, s''))"

lemma map_of_filter_expiry:
  assumes "distinct (map fst es)"
  shows "map_of (filter (\<lambda>(k, e). \<not> e < now) es) key
           = (case map_of es key of Some e \<Rightarrow> if e < now then None else Some e | None \<Rightarrow> None)"
  using assms
proof (induction es)
  case Nil
  then show ?case by simp
next
  case (Cons p es)
  obtain k e where p: "p = (k, e)" by (cases p)
  with Cons.prems have "map_of es k = None" by (auto simp: map_of_eq_None_iff)
  with Cons p show ?case by (auto split: option.splits)
qed

lemma distinct_filter_fst:
  "distinct (map fst es) \<Longrightarrow> distinct (map fst (filter P es))"
  by (simp add: distinct_map_filter)

lemma idem_inv_reap: "idem_inv s \<Longrightarrow> idem_inv (reapExpired now s)"
  by (auto simp: idem_inv_def reapExpired_def distinct_filter_fst intro: le_trans [OF length_filter_le])

lemma idem_inv_Seen: "idem_inv s \<Longrightarrow> idem_inv (snd (idem_Seen now key ttl s))"
proof -
  assume "idem_inv s"
  then have r: "idem_inv (reapExpired now s)" by (rule idem_inv_reap)
  show ?thesis
    using r length_AList_update_le [of key "now + ttl" "seen (reapExpired now s)"]
    by (auto simp: idem_Seen_def Let_def idem_inv_def split: option.splits intro: distinct_update)
qed

text \<open>Recording is fail-open: with the table full, the call records nothing and says "not seen".\<close>

lemma idem_Seen_recorded:
  assumes "idem_inv s" and "idem_Seen now key ttl s = (False, s')"
    and "length (seen (reapExpired now s)) < maxInMemoryIdempotencyKeys"
  shows "map_of (seen s') key = Some (now + ttl)"
  using assms by (auto simp: idem_Seen_def Let_def update_conv' split: option.splits if_splits)

text \<open>A live entry survives a later call, for whatever key, up to its expiry.\<close>

lemma reap_live:
  assumes "idem_inv s" and "map_of (seen s) key = Some e" and "now < e"
  shows "map_of (seen (reapExpired now s)) key = Some e"
  using assms by (auto simp add: reapExpired_def idem_inv_def map_of_filter_expiry simp del: map_of_eq_Some_iff)

lemma idem_Seen_keeps:
  assumes "idem_inv s" and "map_of (seen s) key = Some e" and "now < e"
  shows "map_of (seen (snd (idem_Seen now key' ttl s))) key = Some e"
  using reap_live [OF assms] assms(3)
  by (cases "key' = key") (simp_all add: idem_Seen_def Let_def update_conv' split: option.splits)

lemma idem_Seen_live:
  assumes "idem_inv s" and "map_of (seen s) key = Some e" and "now < e"
  shows "fst (idem_Seen now key ttl s)"
  using reap_live [OF assms] assms(3) by (simp add: idem_Seen_def Let_def)

lemma idem_run_inv: "idem_inv s \<Longrightarrow> idem_inv (snd (idem_run s cs))"
proof (induction s cs rule: idem_run.induct)
  case (1 s)
  then show ?case by simp
next
  case (2 s now key ttl cs)
  from idem_inv_Seen [OF "2.prems", of now key ttl] "2.IH" show ?case
    by (auto simp: Let_def split: prod.splits)
qed

lemma idem_run_keeps:
  assumes "idem_inv s" and "map_of (seen s) key = Some e"
    and "\<forall>(now, k, ttl)\<in>set cs. now < e"
  shows "map_of (seen (snd (idem_run s cs))) key = Some e"
  using assms
proof (induction s cs rule: idem_run.induct)
  case (1 s)
  then show ?case by simp
next
  case (2 s now k ttl cs)
  obtain b s' where s': "idem_Seen now k ttl s = (b, s')" by (cases "idem_Seen now k ttl s")
  have "map_of (seen s') key = Some e"
    using idem_Seen_keeps [OF "2.prems"(1,2), of now k ttl] "2.prems"(3) s' by auto
  moreover have "idem_inv s'" using idem_inv_Seen [OF "2.prems"(1), of now k ttl] s' by simp
  ultimately have "map_of (seen (snd (idem_run s' cs))) key = Some e"
    using "2.IH" s' "2.prems"(3) by auto
  with s' show ?case by (cases "idem_run s' cs") (simp add: Let_def)
qed

section \<open>The in-process pin table (handoff_store_memory.go)\<close>

definition maxInMemoryHandoffKeys :: nat where
  "maxInMemoryHandoffKeys = 10000"

record pin_table =
  active :: "(string \<times> string) list"

definition pin_limit_error :: gerr where
  "pin_limit_error =
     EPlain (''inMemoryHandoffStore: key limit of '' @ nat_dec maxInMemoryHandoffKeys @ '' reached'')"

definition GetActiveSpirit :: "string \<Rightarrow> pin_table \<Rightarrow> string" where
  "GetActiveSpirit key s = (case map_of (active s) key of None \<Rightarrow> [] | Some v \<Rightarrow> v)"

definition SetActiveSpirit :: "string \<Rightarrow> string \<Rightarrow> pin_table \<Rightarrow> gerr option \<times> pin_table" where
  "SetActiveSpirit key name s =
     (if map_of (active s) key = None \<and> maxInMemoryHandoffKeys \<le> length (active s)
      then (Some pin_limit_error, s)
      else (None, s\<lparr>active := AList.update key name (active s)\<rparr>))"

definition ClearActiveSpirit :: "string \<Rightarrow> pin_table \<Rightarrow> pin_table" where
  "ClearActiveSpirit key s = s\<lparr>active := AList.delete key (active s)\<rparr>"

definition pin_inv :: "pin_table \<Rightarrow> bool" where
  "pin_inv s \<longleftrightarrow>
     distinct (map fst (active s)) \<and> length (active s) \<le> maxInMemoryHandoffKeys"

interpretation pins: pin_store GetActiveSpirit SetActiveSpirit ClearActiveSpirit
  by unfold_locales
    (auto simp: GetActiveSpirit_def SetActiveSpirit_def ClearActiveSpirit_def update_conv'
      map_of_AList_delete split: if_splits option.splits)

lemma pin_inv_Set: "pin_inv s \<Longrightarrow> pin_inv (snd (SetActiveSpirit key name s))"
  by (cases "map_of (active s) key = None")
    (auto simp: pin_inv_def SetActiveSpirit_def length_AList_update_new length_AList_update_old
      intro: distinct_update)

lemma pin_inv_Clear: "pin_inv s \<Longrightarrow> pin_inv (ClearActiveSpirit key s)"
  using length_AList_delete_le [of key "active s"]
  by (auto simp: pin_inv_def ClearActiveSpirit_def distinct_delete)

text \<open>An existing pin can always be moved, also when the table is full.\<close>

lemma pin_move_ok:
  "map_of (active s) key \<noteq> None \<Longrightarrow> fst (SetActiveSpirit key name s) = None"
  by (simp add: SetActiveSpirit_def)

section \<open>Runs of the Bond\<close>

datatype bond_op = OpAcquire string | OpRelease string | OpExtend string

fun bond_exec :: "bond_op list \<Rightarrow> noOpBond \<Rightarrow> noOpBond" where
  "bond_exec [] b = b"
| "bond_exec (OpAcquire k # ops) b = bond_exec ops (snd (bond_AcquireLock k b))"
| "bond_exec (OpRelease k # ops) b = bond_exec ops (bond_ReleaseLock k b)"
| "bond_exec (OpExtend k # ops) b = bond_exec ops (bond_ExtendLock k b)"

lemma bond_exec_keeps:
  "bond_inv b \<Longrightarrow> k \<in> bond_held b \<Longrightarrow> OpRelease k \<notin> set ops \<Longrightarrow>
   bond_inv (bond_exec ops b) \<and> k \<in> bond_held (bond_exec ops b)"
proof (induction ops b rule: bond_exec.induct)
  case (2 j ops b)
  have "k \<in> bond_held (snd (bond_AcquireLock j b))"
    using nb.acquire_mono [OF "2.prems"(1)] "2.prems"(2) by blast
  with 2 show ?case by (simp add: nb.inv_acquire)
next
  case (3 j ops b)
  then show ?case by (simp add: nb.inv_release nb.held_release)
qed (auto simp: bond_ExtendLock_def)

end
