(* ===== verification/Delegation.thy ===== *)
theory Delegation
  imports Prompts Turn Stores
begin

text \<open>
  Delegation between Spirits: \<open>orchestrator/summon_service.go\<close> (call and return inside a turn)
  and \<open>orchestrator/handoff_service.go\<close> (transfer the conversation). The repository, the
  Scouts, the Archivist, the pin store and the reasoning executor are a record of functions over
  the world. A result \<open>None\<close> is a panic.
\<close>

record 'w delegation =
  dgFind :: "string \<Rightarrow> 'w \<Rightarrow> (gerr + spirit) \<times> 'w"
  dgScouts :: "'w scout scout_reg option"
  dgExec :: "ReasoningRequest \<Rightarrow> 'w \<Rightarrow> ((gerr option \<times> ReasoningResult option) \<times> 'w) option"
  dgPin :: "string \<Rightarrow> string \<Rightarrow> 'w \<Rightarrow> gerr option \<times> 'w"
  dgArchivist :: "(string \<Rightarrow> string \<Rightarrow> thread list \<Rightarrow> 'w \<Rightarrow> (gerr + string) \<times> 'w) option"
  dgSession :: "'w \<Rightarrow> memory option"
  dgIndent :: "gmap \<Rightarrow> string"

section \<open>Scouts\<close>

text \<open>\<open>runScout\<close> is fail-open: an error of the Scout is dropped, what it wrote stays.\<close>

definition runScout :: "'w scout \<Rightarrow> pulse \<Rightarrow> 'w \<Rightarrow> pulse \<times> 'w" where
  "runScout sc e w =
     (if \<not> scIsApplicable sc e then (e, w)
      else (case scHarvest sc e w of (_, e1, w1) \<Rightarrow> (e1, w1)))"

fun runScouts :: "'w scout list \<Rightarrow> pulse \<Rightarrow> 'w \<Rightarrow> pulse \<times> 'w" where
  "runScouts [] e w = (e, w)"
| "runScouts (sc # scs) e w = (let (e1, w1) = runScout sc e w in runScouts scs e1 w1)"

definition child_scouts :: "'w delegation \<Rightarrow> spirit \<Rightarrow> pulse \<Rightarrow> 'w \<Rightarrow> pulse \<times> 'w" where
  "child_scouts d sp e w =
     (case dgScouts d of
        None \<Rightarrow> (e, w)
      | Some reg \<Rightarrow>
          if sRequireScouts sp = [] then (e, w)
          else (case scout_GetMultiple (sRequireScouts sp) reg of
                  Inl _ \<Rightarrow> (e, w)
                | Inr scs \<Rightarrow> runScouts scs e w))"

section \<open>Summon\<close>

definition defaultMaxDepth :: int where
  "defaultMaxDepth = 3"

definition summon_limit :: "spirit \<Rightarrow> int" where
  "summon_limit sp = (if ocMaxDepth (sOrchestratorConfig sp) \<le> 0 then defaultMaxDepth
                      else ocMaxDepth (sOrchestratorConfig sp))"

definition validateSummon :: "string \<Rightarrow> pulse \<Rightarrow> spirit \<Rightarrow> gerr option" where
  "validateSummon name parent sp =
     (if name \<notin> set (ocSubSpirits (sOrchestratorConfig sp))
      then Some (NewBusinessError (''spirit '' @ quote_q name @ '' is not in the allowed sub-spirits list'') [])
      else if summon_limit sp \<le> pOrchestrationDepth parent
      then Some (NewBusinessError (''orchestration depth limit ('' @ int_dec (summon_limit sp) @ '') reached'') [])
      else None)"

definition summon_child :: "string \<Rightarrow> pulse \<Rightarrow> pulse" where
  "summon_child task parent =
     zero_pulse\<lparr>pMemoryKey := pMemoryKey parent, pContactPhone := pContactPhone parent,
       pSource := pSource parent, pEventType := pEventType parent, pUserMessage := task,
       pParentPulseID := pID parent, pOrchestrationDepth := wrap64 (pOrchestrationDepth parent + 1),
       pKnowledge := Some (gm_copy_into (gm_entries (pKnowledge parent)) [])\<rparr>"

definition Summon ::
  "'w delegation \<Rightarrow> string \<Rightarrow> string \<Rightarrow> pulse \<Rightarrow> spirit \<Rightarrow> 'w \<Rightarrow> ((gerr + string) \<times> 'w) option" where
  "Summon d name task parent sp w =
     (case validateSummon name parent sp of
        Some e \<Rightarrow> Some (Inl e, w)
      | None \<Rightarrow>
          (case dgFind d name w of
             (Inl e, w1) \<Rightarrow>
               Some (Inl (NewInfrastructureError (''summon: spirit '' @ quote_q name @ '' not found'') [e]), w1)
           | (Inr sub, w1) \<Rightarrow>
               (let (child, w2) = child_scouts d sub (summon_child task parent) w1
                in case dgExec d \<lparr>rqEvent = child, rqSpirit = sub, rqSession = OwnSession zero_memory,
                       rqSystemPrompt = buildSystemPrompt (dgIndent d) sub child,
                       rqConversationContext = [], rqResponseFormat = None\<rparr> w2 of
                     None \<Rightarrow> None
                   | Some ((Some e, _), w3) \<Rightarrow>
                       Some (Inl (NewInfrastructureError (''summon: spirit '' @ quote_q name @ '' reasoning failed'') [e]), w3)
                   | Some ((None, None), w3) \<Rightarrow> None
                   | Some ((None, Some res), w3) \<Rightarrow> Some (Inr (rrFinalResponse res), w3))))"

section \<open>Handoff\<close>

definition defaultMaxHandoffs :: int where
  "defaultMaxHandoffs = 3"

definition handoff_limit :: "spirit \<Rightarrow> int" where
  "handoff_limit sp = (if hcMaxHandoffs (sHandoffConfig sp) \<le> 0 then defaultMaxHandoffs
                       else hcMaxHandoffs (sHandoffConfig sp))"

definition validateHandoff :: "string \<Rightarrow> pulse \<Rightarrow> spirit \<Rightarrow> gerr option" where
  "validateHandoff target parent sp =
     (if target \<notin> set (hcAllowedTargets (sHandoffConfig sp))
      then Some (NewBusinessError (''spirit '' @ quote_q target @ '' is not an allowed handoff target'') [])
      else if handoff_limit sp \<le> pHandoffCount parent
      then Some (NewBusinessError (''handoff limit ('' @ int_dec (handoff_limit sp) @ '') reached for this turn'') [])
      else None)"

definition handoff_child :: "pulse \<Rightarrow> pulse" where
  "handoff_child parent =
     zero_pulse\<lparr>pMemoryKey := pMemoryKey parent, pContactPhone := pContactPhone parent,
       pSource := pSource parent, pEventType := pEventType parent, pUserMessage := pUserMessage parent,
       pAttachments := pAttachments parent, pParentPulseID := pID parent,
       pHandoffCount := wrap64 (pHandoffCount parent + 1),
       pKnowledge := Some (gm_copy_into (gm_entries (pKnowledge parent)) [])\<rparr>"

definition HandoffContextSession :: string where "HandoffContextSession = ''session''"
definition HandoffContextSummary :: string where "HandoffContextSummary = ''summary''"

definition deref_session :: "'w delegation \<Rightarrow> session_ref \<Rightarrow> 'w \<Rightarrow> memory option" where
  "deref_session d ref w =
     (case ref of NoSession \<Rightarrow> None | CtxSession \<Rightarrow> dgSession d w | OwnSession m \<Rightarrow> Some m)"

text \<open>(session, conversation context, prompt addendum)\<close>

definition transferContext ::
  "'w delegation \<Rightarrow> spirit \<Rightarrow> session_ref \<Rightarrow> OracleMessage list \<Rightarrow> 'w
     \<Rightarrow> (session_ref \<times> OracleMessage list \<times> string) \<times> 'w" where
  "transferContext d sp session cc w =
     (let mode = hcContextTransfer (sHandoffConfig sp) in
      if mode = HandoffContextSession then ((session, cc, []), w)
      else if mode = HandoffContextSummary
      then (case (dgArchivist d, deref_session d session w) of
              (Some summarize, Some m) \<Rightarrow>
                if meThreads m = [] then ((session, cc, []), w)
                else (case summarize (meMemoryKey m) (meSubjectKey m) (meThreads m) w of
                        (Inl _, w1) \<Rightarrow> ((session, cc, []), w1)
                      | (Inr summary, w1) \<Rightarrow>
                          ((OwnSession (zero_memory\<lparr>meMemoryKey := meMemoryKey m, meSubjectKey := meSubjectKey m\<rparr>),
                            [], nl @ nl @ ''Earlier conversation summary:'' @ nl @ summary), w1))
            | _ \<Rightarrow> ((session, cc, []), w))
      else ((OwnSession zero_memory, [], []), w))"

definition Handoff ::
  "'w delegation \<Rightarrow> string \<Rightarrow> pulse \<Rightarrow> spirit \<Rightarrow> session_ref \<Rightarrow> OracleMessage list \<Rightarrow> 'w
     \<Rightarrow> ((gerr + ReasoningResult) \<times> 'w) option" where
  "Handoff d target parent sp session cc w =
     (case validateHandoff target parent sp of
        Some e \<Rightarrow> Some (Inl e, w)
      | None \<Rightarrow>
          (case dgFind d target w of
             (Inl e, w1) \<Rightarrow>
               Some (Inl (NewInfrastructureError (''handoff: spirit '' @ quote_q target @ '' not found'') [e]), w1)
           | (Inr tsp, w1) \<Rightarrow>
               (case dgPin d (pMemoryKey parent) target w1 of
                  (Some e, w2) \<Rightarrow>
                    Some (Inl (NewInfrastructureError (''handoff: pin spirit '' @ quote_q target) [e]), w2)
                | (None, w2) \<Rightarrow>
                    (let (child, w3) = child_scouts d tsp (handoff_child parent) w2;
                         ((sess, conv, addendum), w4) = transferContext d sp session cc w3
                     in case dgExec d \<lparr>rqEvent = child, rqSpirit = tsp, rqSession = sess,
                            rqSystemPrompt = buildSystemPrompt (dgIndent d) tsp child @ addendum,
                            rqConversationContext = conv, rqResponseFormat = sResponseFormat tsp\<rparr> w4 of
                          None \<Rightarrow> None
                        | Some ((Some e, _), w5) \<Rightarrow>
                            Some (Inl (NewInfrastructureError (''handoff: spirit '' @ quote_q target @ '' reasoning failed'') [e]), w5)
                        | Some ((None, None), w5) \<Rightarrow> None
                        | Some ((None, Some res), w5) \<Rightarrow> Some (Inr res, w5)))))"

section \<open>What a delegation is\<close>

lemma validateSummon_ok:
  "validateSummon name e sp = None \<longleftrightarrow>
     name \<in> set (ocSubSpirits (sOrchestratorConfig sp)) \<and> pOrchestrationDepth e < summon_limit sp"
  by (auto simp: validateSummon_def)

lemma validateHandoff_ok:
  "validateHandoff target e sp = None \<longleftrightarrow>
     target \<in> set (hcAllowedTargets (sHandoffConfig sp)) \<and> pHandoffCount e < handoff_limit sp"
  by (auto simp: validateHandoff_def)

lemma Summon_refused: "validateSummon name e sp = Some err \<Longrightarrow> Summon d name task e sp w = Some (Inl err, w)"
  by (simp add: Summon_def)

lemma Handoff_refused:
  "validateHandoff target e sp = Some err \<Longrightarrow> Handoff d target e sp se cc w = Some (Inl err, w)"
  by (simp add: Handoff_def)

text \<open>
  Who works for whom: the nested turn of a Summon or a Handoff runs on the child Pulse, which
  Scouts may enrich but whose two counters they leave alone, under a Spirit of \<open>spirits\<close>.
\<close>

definition counters :: "pulse \<Rightarrow> int \<times> int" where
  "counters e = (pOrchestrationDepth e, pHandoffCount e)"

inductive summons :: "spirit set \<Rightarrow> pulse \<times> spirit \<Rightarrow> pulse \<times> spirit \<Rightarrow> bool" for spirits where
  summon: "sp \<in> spirits \<Longrightarrow> sub \<in> spirits \<Longrightarrow> validateSummon (sName sub) e sp = None \<Longrightarrow>
     counters child = counters (summon_child task e) \<Longrightarrow> summons spirits (e, sp) (child, sub)"

inductive hands_off :: "spirit set \<Rightarrow> pulse \<times> spirit \<Rightarrow> pulse \<times> spirit \<Rightarrow> bool" for spirits where
  hand_off: "sp \<in> spirits \<Longrightarrow> target \<in> spirits \<Longrightarrow> validateHandoff (sName target) e sp = None \<Longrightarrow>
     counters child = counters (handoff_child e) \<Longrightarrow> hands_off spirits (e, sp) (child, target)"

inductive_cases summonsE: "summons spirits (e, sp) (child, sub)"
inductive_cases hands_offE: "hands_off spirits (e, sp) (child, target)"

text \<open>The contract of a nesting counter: every step checks it against a limit and adds one.\<close>

locale bounded_nesting =
  fixes nest :: "pulse \<times> spirit \<Rightarrow> pulse \<times> spirit \<Rightarrow> bool"
    and level :: "pulse \<Rightarrow> int"
    and cap :: int
  assumes step_level: "nest (e, sp) (e', sp') \<Longrightarrow> 0 \<le> level e \<Longrightarrow> level e < cap \<and> level e' = level e + 1"
begin

lemma chain_level:
  "(nest ^^ n) (e, sp) (e', sp') \<Longrightarrow> 0 \<le> level e \<Longrightarrow> level e' = level e + int n"
proof (induction n arbitrary: e' sp')
  case (Suc n)
  from Suc.prems(1) obtain m where "(nest ^^ n) (e, sp) m" "nest m (e', sp')"
    by (auto elim: relpowp_Suc_E)
  then obtain e1 sp1 where m: "(nest ^^ n) (e, sp) (e1, sp1)" "nest (e1, sp1) (e', sp')" by (cases m) auto
  have "level e1 = level e + int n" using Suc.IH [OF m(1) Suc.prems(2)] .
  with step_level [OF m(2)] Suc.prems(2) show ?case by simp
qed simp

lemma chain_bounded:
  assumes "(nest ^^ n) (e, sp) (e', sp')" "0 \<le> level e"
  shows "int n \<le> max 0 (cap - level e)"
proof (cases n)
  case (Suc k)
  with assms(1) obtain m where "(nest ^^ k) (e, sp) m" "nest m (e', sp')"
    by (auto elim: relpowp_Suc_E)
  then obtain e1 sp1 where m: "(nest ^^ k) (e, sp) (e1, sp1)" "nest (e1, sp1) (e', sp')" by (cases m) auto
  have "level e1 = level e + int k" using chain_level [OF m(1) assms(2)] .
  with step_level [OF m(2)] assms(2) Suc show ?thesis by simp
qed simp

end

text \<open>The Spirits whose limits are at most \<open>M\<close>; a limit is a Go \<open>int\<close>.\<close>

definition capped :: "int \<Rightarrow> spirit set" where
  "capped M = {sp. summon_limit sp \<le> min M (2 ^ 63 - 1) \<and> handoff_limit sp \<le> min M (2 ^ 63 - 1)}"

lemma wrap64_small: "0 \<le> i \<Longrightarrow> i < 2 ^ 63 \<Longrightarrow> wrap64 i = i"
  by (simp add: wrap64_def)

interpretation summon_nest: bounded_nesting "summons (capped M)" pOrchestrationDepth "min M (2 ^ 63 - 1)"
  for M :: int
  by unfold_locales
    (fastforce elim!: summonsE simp: capped_def validateSummon_ok counters_def summon_child_def wrap64_small)

interpretation handoff_nest: bounded_nesting "hands_off (capped M)" pHandoffCount "min M (2 ^ 63 - 1)"
  for M :: int
  by unfold_locales
    (fastforce elim!: hands_offE simp: capped_def validateHandoff_ok counters_def handoff_child_def wrap64_small)

text \<open>Either step starts the other counter afresh, so a chain that mixes them has no bound.\<close>

definition delegates :: "spirit set \<Rightarrow> pulse \<times> spirit \<Rightarrow> pulse \<times> spirit \<Rightarrow> bool" where
  "delegates spirits x y \<longleftrightarrow> summons spirits x y \<or> hands_off spirits x y"

definition peer :: spirit where
  "peer = zero_spirit\<lparr>sName := ''a'', sType := SpiritTypeOrchestrator,
     sOrchestratorConfig := \<lparr>ocMode = [], ocSubSpirits = [''a''], ocLogicRouterName = [], ocMaxDepth = 1, ocParallelSummon = False\<rparr>,
     sHandoffConfig := \<lparr>hcAllowedTargets = [''a''], hcContextTransfer = [], hcMaxHandoffs = 1\<rparr>\<rparr>"

lemma peer_limits [simp]: "summon_limit peer = 1" "handoff_limit peer = 1"
  by (simp_all add: peer_def summon_limit_def handoff_limit_def)

lemma peer_summons:
  "pOrchestrationDepth e = 0 \<Longrightarrow> summons {peer} (e, peer) (summon_child [] e, peer)"
  by (rule summon) (auto simp: validateSummon_ok peer_def summon_limit_def)

lemma peer_hands_off:
  "pHandoffCount e = 0 \<Longrightarrow> hands_off {peer} (e, peer) (handoff_child e, peer)"
  by (rule hand_off) (auto simp: validateHandoff_ok peer_def handoff_limit_def)

lemma mixed_chain:
  "pOrchestrationDepth e = 0 \<Longrightarrow> pHandoffCount e = 0 \<Longrightarrow>
     \<exists>e'. (delegates {peer} ^^ n) (e, peer) (e', peer)
        \<and> (if even n then pOrchestrationDepth e' = 0 else pHandoffCount e' = 0)"
proof (induction n)
  case 0
  then show ?case by auto
next
  case (Suc n)
  then obtain e' where e': "(delegates {peer} ^^ n) (e, peer) (e', peer)"
    "if even n then pOrchestrationDepth e' = 0 else pHandoffCount e' = 0" by blast
  show ?case
  proof (cases "even n")
    case True
    with e' have "delegates {peer} (e', peer) (summon_child [] e', peer)"
      using peer_summons by (simp add: delegates_def)
    with e' True show ?thesis
      by (auto intro!: exI [of _ "summon_child [] e'"] simp: summon_child_def zero_pulse_def)
  next
    case False
    with e' have "delegates {peer} (e', peer) (handoff_child e', peer)"
      using peer_hands_off by (simp add: delegates_def)
    with e' False show ?thesis
      by (auto intro!: exI [of _ "handoff_child e'"] simp: handoff_child_def zero_pulse_def)
  qed
qed

section \<open>The pin of a Handoff\<close>

text \<open>
  The world as a pin table beside the rest; every collaborator but the pin store leaves the table
  alone.
\<close>

definition runs_beside_pins :: "(pin_table \<times> 'x) delegation \<Rightarrow> bool" where
  "runs_beside_pins d \<longleftrightarrow>
     (\<forall>k t p x. dgPin d k t (p, x) = (case SetActiveSpirit k t p of (e, p') \<Rightarrow> (e, (p', x))))
     \<and> (\<forall>n w. fst (snd (dgFind d n w)) = fst w)
     \<and> (\<forall>reg n sc e w. dgScouts d = Some reg \<longrightarrow> map_of (srScouts reg) n = Some sc
          \<longrightarrow> fst (snd (snd (scHarvest sc e w))) = fst w)
     \<and> (\<forall>f k s ts w. dgArchivist d = Some f \<longrightarrow> fst (snd (f k s ts w)) = fst w)
     \<and> (\<forall>q w y. dgExec d q w = Some y \<longrightarrow> fst (snd y) = fst w)"

lemma runScouts_pins:
  assumes "\<forall>sc\<in>set scs. \<forall>e w. fst (snd (snd (scHarvest sc e w))) = fst w"
  shows "fst (snd (runScouts scs e w)) = fst w"
  using assms
proof (induction scs arbitrary: e w)
  case (Cons sc scs)
  have "fst (snd (runScout sc e w)) = fst w"
    using Cons.prems by (cases w) (simp add: runScout_def split_beta)
  moreover have "fst (snd (runScouts scs e' w')) = fst w'" for e' w'
    using Cons.IH [of e' w'] Cons.prems by simp
  ultimately show ?case by (simp add: split_beta)
qed simp

lemma child_scouts_pins:
  assumes "runs_beside_pins d"
  shows "fst (snd (child_scouts d sp e w)) = fst w"
proof -
  have "fst (snd (runScouts scs e w)) = fst w"
    if "dgScouts d = Some reg" "scout_GetMultiple ns reg = Inr scs" for reg ns scs
  proof (rule runScouts_pins, intro ballI allI)
    fix sc e w
    assume "sc \<in> set scs"
    moreover have "map Some scs = map (map_of (srScouts reg)) ns"
      using that(2) partition_found [of "srScouts reg" ns]
      by (auto simp: scout_GetMultiple_def split: prod.splits if_splits)
    ultimately have "Some sc \<in> set (map (map_of (srScouts reg)) ns)" by (metis image_eqI set_map)
    then obtain n where "map_of (srScouts reg) n = Some sc" by (metis ex_map_conv)
    with assms that(1) show "fst (snd (snd (scHarvest sc e w))) = fst w"
      unfolding runs_beside_pins_def by blast
  qed
  then show ?thesis by (auto simp: child_scouts_def split: option.split sum.split)
qed

lemma transferContext_pins:
  assumes "runs_beside_pins d"
  shows "fst (snd (transferContext d sp se cc w)) = fst w"
proof -
  have a: "\<forall>f k s ts w. dgArchivist d = Some f \<longrightarrow> fst (snd (f k s ts w)) = fst w"
    using assms [unfolded runs_beside_pins_def] by (elim conjE)
  show ?thesis
  proof (cases "dgArchivist d")
    case None
    then show ?thesis by (simp add: transferContext_def Let_def)
  next
    case (Some f)
    have "fst w1 = fst w" if "f k s ts w = (y, w1)" for k s ts y w1
      using a Some that by (metis snd_conv)
    with Some show ?thesis
      by (simp add: transferContext_def Let_def split: option.split sum.split prod.split)
  qed
qed

text \<open>
  The pin is set before the target runs and is not undone: also when its reasoning fails, the
  next Pulse of the conversation goes to the target.
\<close>

lemma Handoff_pin:
  assumes d: "runs_beside_pins d" and v: "validateHandoff target e sp = None"
    and f: "dgFind d target (p, x) = (Inr tsp, w1)"
    and room: "fst (SetActiveSpirit (pMemoryKey e) target p) = None"
    and h: "Handoff d target e sp se cc (p, x) = Some (y, (p', x'))"
  shows "GetActiveSpirit (pMemoryKey e) p' = target"
proof -
  note laws = d [unfolded runs_beside_pins_def]
  have find: "\<forall>n w. fst (snd (dgFind d n w)) = fst w" using laws by (elim conjE)
  have exec: "\<forall>q w y. dgExec d q w = Some y \<longrightarrow> fst (snd y) = fst w" using laws by (elim conjE)
  have pin: "\<forall>k t p x. dgPin d k t (p, x) = (case SetActiveSpirit k t p of (e, p') \<Rightarrow> (e, (p', x)))"
    using laws by (elim conjE)
  obtain p1 where p1: "SetActiveSpirit (pMemoryKey e) target p = (None, p1)" using room by (cases "SetActiveSpirit (pMemoryKey e) target p") simp
  obtain x1 where w1: "w1 = (p, x1)" using find f by (metis fst_conv prod.collapse snd_conv)
  have w2: "dgPin d (pMemoryKey e) target w1 = (None, (p1, x1))" using pin p1 w1 by simp
  obtain child w3 where c: "child_scouts d tsp (handoff_child e) (p1, x1) = (child, w3)" by (metis prod.exhaust)
  obtain sess conv addendum w4 where t: "transferContext d sp se cc w3 = ((sess, conv, addendum), w4)"
    by (metis prod.exhaust)
  have "fst w3 = p1" using child_scouts_pins [OF d, of tsp "handoff_child e" "(p1, x1)"] c by simp
  moreover have "fst w4 = fst w3" using transferContext_pins [OF d, of sp se cc w3] t by simp
  moreover have "p' = fst w4"
  proof -
    from h obtain r w5 where "dgExec d \<lparr>rqEvent = child, rqSpirit = tsp, rqSession = sess,
         rqSystemPrompt = buildSystemPrompt (dgIndent d) tsp child @ addendum,
         rqConversationContext = conv, rqResponseFormat = sResponseFormat tsp\<rparr> w4 = Some (r, w5)"
      "(p', x') = w5"
      by (simp add: Handoff_def v f w2 c t split: option.splits prod.splits)
    with exec show ?thesis by (metis fst_conv snd_conv)
  qed
  ultimately show ?thesis using pins.get_set [OF p1, of "pMemoryKey e"] by simp
qed

end
