(* ===== verification/LockSystem.thy ===== *)
theory LockSystem
  imports Stores
begin

text \<open>
  Cycles that run side by side over one in-process Bond (\<open>bond_noop.go\<close>), as the lock steps of
  \<open>pipeline_step_lock.go\<close> and \<open>pipeline_step_enrichment.go\<close> and the clean-up of
  \<open>engine.go\<close> use it: a step relation over the Bond and the keys each cycle believes it holds.
  A cycle enters with the key of its memory, may take a second one when a Scout moves the Pulse,
  and gives its keys back one by one; a panic leaves it with whatever it held.
\<close>

section \<open>States and steps\<close>

datatype phase = Waiting | Running | Leaving | Gone | Crashed

record lock_system =
  lsBond :: noOpBond
  lsOwned :: "nat \<Rightarrow> string list"
  lsPhase :: "nat \<Rightarrow> phase"

definition start_system :: lock_system where
  "start_system = \<lparr>lsBond = newNoOpBond, lsOwned = (\<lambda>_. []), lsPhase = (\<lambda>_. Waiting)\<rparr>"

definition own_keys :: "nat \<Rightarrow> string list \<Rightarrow> lock_system \<Rightarrow> lock_system" where
  "own_keys i ks s = s\<lparr>lsOwned := (lsOwned s)(i := ks)\<rparr>"

definition set_phase :: "nat \<Rightarrow> phase \<Rightarrow> lock_system \<Rightarrow> lock_system" where
  "set_phase i p s = s\<lparr>lsPhase := (lsPhase s)(i := p)\<rparr>"

inductive turn_step :: "lock_system \<Rightarrow> lock_system \<Rightarrow> bool" where
  enter: "lsPhase s i = Waiting \<Longrightarrow> bond_AcquireLock k (lsBond s) = (Inr True, b) \<Longrightarrow>
     turn_step s (set_phase i Running (own_keys i [k] (s\<lparr>lsBond := b\<rparr>)))"
| refused: "lsPhase s i = Waiting \<Longrightarrow> bond_AcquireLock k (lsBond s) = (r, b) \<Longrightarrow> r \<noteq> Inr True \<Longrightarrow>
     turn_step s (set_phase i Gone (s\<lparr>lsBond := b\<rparr>))"
| move: "lsPhase s i = Running \<Longrightarrow> bond_AcquireLock k (lsBond s) = (Inr True, b) \<Longrightarrow>
     turn_step s (own_keys i (lsOwned s i @ [k]) (s\<lparr>lsBond := b\<rparr>))"
| stuck: "lsPhase s i = Running \<Longrightarrow> bond_AcquireLock k (lsBond s) = (r, b) \<Longrightarrow> r \<noteq> Inr True \<Longrightarrow>
     turn_step s (set_phase i Leaving (s\<lparr>lsBond := b\<rparr>))"
| extend: "lsPhase s i = Running \<Longrightarrow> k \<in> set (lsOwned s i) \<Longrightarrow>
     turn_step s (s\<lparr>lsBond := bond_ExtendLock k (lsBond s)\<rparr>)"
| leave: "lsPhase s i = Running \<Longrightarrow> turn_step s (set_phase i Leaving s)"
| release: "lsPhase s i = Leaving \<Longrightarrow> lsOwned s i = k # ks \<Longrightarrow>
     turn_step s (own_keys i ks (s\<lparr>lsBond := bond_ReleaseLock k (lsBond s)\<rparr>))"
| done_: "lsPhase s i = Leaving \<Longrightarrow> lsOwned s i = [] \<Longrightarrow> turn_step s (set_phase i Gone s)"
| crash: "lsPhase s i = Running \<Longrightarrow> turn_step s (set_phase i Crashed s)"

inductive_cases turn_stepE: "turn_step s s'"

definition reachable :: "lock_system \<Rightarrow> bool" where
  "reachable s \<longleftrightarrow> turn_step\<^sup>*\<^sup>* start_system s"

section \<open>Invariant\<close>

definition lock_inv :: "lock_system \<Rightarrow> bool" where
  "lock_inv s \<longleftrightarrow>
     bond_inv (lsBond s)
     \<and> bond_held (lsBond s) = (\<Union>i. set (lsOwned s i))
     \<and> (\<forall>i. distinct (lsOwned s i))
     \<and> (\<forall>i j. i \<noteq> j \<longrightarrow> set (lsOwned s i) \<inter> set (lsOwned s j) = {})
     \<and> (\<forall>i. lsPhase s i \<in> {Waiting, Gone} \<longrightarrow> lsOwned s i = [])"

lemma lock_inv_start: "lock_inv start_system"
  by (simp add: lock_inv_def start_system_def bond_inv_new)
    (simp add: bond_held_def newNoOpBond_def)

text \<open>A key nobody owns joins the keys of one cycle; an owned key leaves them.\<close>

lemma lock_inv_acquire:
  assumes inv: "lock_inv s" and a: "bond_AcquireLock k (lsBond s) = (Inr True, b)"
    and p: "lsPhase s i \<noteq> Gone" "ph \<notin> {Waiting, Gone}"
  shows "lock_inv (set_phase i ph (own_keys i (lsOwned s i @ [k]) (s\<lparr>lsBond := b\<rparr>)))"
proof -
  have bi: "bond_inv (lsBond s)" using inv by (simp add: lock_inv_def)
  from nb.acquire_true [OF bi a] nb.inv_acquire [OF bi, of k] a inv
  have k: "k \<notin> (\<Union>i. set (lsOwned s i))" "bond_held b = insert k (\<Union>i. set (lsOwned s i))" "bond_inv b"
    by (auto simp: lock_inv_def)
  from inv k(1) have "\<forall>j l. j \<noteq> l \<longrightarrow>
      set (((lsOwned s)(i := lsOwned s i @ [k])) j) \<inter> set (((lsOwned s)(i := lsOwned s i @ [k])) l) = {}"
    by (auto simp: lock_inv_def fun_upd_def)
  moreover have "(\<Union>j. set (((lsOwned s)(i := lsOwned s i @ [k])) j)) = insert k (\<Union>i. set (lsOwned s i))"
    by (auto simp: fun_upd_def split: if_splits)
  ultimately show ?thesis
    using inv k p by (auto simp: lock_inv_def set_phase_def own_keys_def)
qed

lemma lock_inv_release:
  assumes inv: "lock_inv s" and o: "lsOwned s i = k # ks" and p: "lsPhase s i = Leaving"
  shows "lock_inv (own_keys i ks (s\<lparr>lsBond := bond_ReleaseLock k (lsBond s)\<rparr>))"
proof -
  have bi: "bond_inv (lsBond s)" using inv by (simp add: lock_inv_def)
  have "distinct (lsOwned s i)" using inv by (simp add: lock_inv_def)
  with o have k: "k \<notin> set ks" "distinct ks" by simp_all
  have others: "k \<notin> set (lsOwned s j)" if "j \<noteq> i" for j
    using inv o that by (auto simp: lock_inv_def) (metis disjoint_iff list.set_intros(1))
  have "(\<Union>j. set (((lsOwned s)(i := ks)) j)) = (\<Union>i. set (lsOwned s i)) - {k}"
  proof (intro equalityI subsetI)
    fix x assume "x \<in> (\<Union>j. set (((lsOwned s)(i := ks)) j))"
    then obtain j where "x \<in> set (((lsOwned s)(i := ks)) j)" by blast
    with k(1) others o show "x \<in> (\<Union>i. set (lsOwned s i)) - {k}"
      by (cases "j = i") (auto intro: exI [of _ i])
  next
    fix x assume "x \<in> (\<Union>i. set (lsOwned s i)) - {k}"
    then obtain j where "x \<in> set (lsOwned s j)" "x \<noteq> k" by blast
    with o show "x \<in> (\<Union>j. set (((lsOwned s)(i := ks)) j))" by (cases "j = i") auto
  qed
  moreover have "\<forall>j l. j \<noteq> l \<longrightarrow> set (((lsOwned s)(i := ks)) j) \<inter> set (((lsOwned s)(i := ks)) l) = {}"
  proof (intro allI impI)
    fix j l :: nat
    assume "j \<noteq> l"
    then have "set (lsOwned s j) \<inter> set (lsOwned s l) = {}" using inv by (simp add: lock_inv_def)
    moreover have "set (((lsOwned s)(i := ks)) x) \<subseteq> set (lsOwned s x)" for x using o by (cases "x = i") auto
    ultimately show "set (((lsOwned s)(i := ks)) j) \<inter> set (((lsOwned s)(i := ks)) l) = {}" by blast
  qed
  ultimately show ?thesis
    using inv nb.held_release [OF bi, of k] nb.inv_release [OF bi, of k] k o p
    by (auto simp: lock_inv_def own_keys_def)
qed

lemma lock_inv_phase:
  assumes "lock_inv s" "ph \<in> {Waiting, Gone} \<longrightarrow> lsOwned s i = []"
  shows "lock_inv (set_phase i ph s)"
  using assms by (simp add: lock_inv_def set_phase_def)

lemma acquire_failed: "bond_inv b \<Longrightarrow> bond_AcquireLock k b = (r, b') \<Longrightarrow> r \<noteq> Inr True \<Longrightarrow> b' = b"
  by (auto simp: bond_AcquireLock_def split: if_splits)

lemma lock_inv_step: "turn_step s s' \<Longrightarrow> lock_inv s \<Longrightarrow> lock_inv s'"
proof (induction rule: turn_step.induct)
  case (enter s i k b)
  then have "lsOwned s i = []" by (simp add: lock_inv_def)
  with enter lock_inv_acquire [of s k b i Running] show ?case by simp
next
  case (refused s i k r b)
  then have "b = lsBond s" "lsOwned s i = []" by (auto simp: lock_inv_def acquire_failed)
  with refused show ?case by (simp add: lock_inv_phase)
next
  case (move s i k b)
  then have "lock_inv (set_phase i Running (own_keys i (lsOwned s i @ [k]) (s\<lparr>lsBond := b\<rparr>)))"
    by (intro lock_inv_acquire) auto
  moreover have "set_phase i Running (own_keys i (lsOwned s i @ [k]) (s\<lparr>lsBond := b\<rparr>))
      = own_keys i (lsOwned s i @ [k]) (s\<lparr>lsBond := b\<rparr>)"
    using move by (simp add: set_phase_def own_keys_def fun_upd_idem)
  ultimately show ?case by simp
next
  case (stuck s i k r b)
  then have "b = lsBond s" by (auto simp: lock_inv_def acquire_failed)
  with stuck show ?case by (simp add: lock_inv_phase)
next
  case (release s i k ks)
  then show ?case by (simp add: lock_inv_release)
qed (simp_all add: lock_inv_phase bond_ExtendLock_def)

lemma lock_inv_reachable: "reachable s \<Longrightarrow> lock_inv s"
  unfolding reachable_def
  by (induction rule: rtranclp_induct) (auto intro: lock_inv_start lock_inv_step)

text \<open>A crashed cycle keeps its keys, and the Bond keeps them held.\<close>

lemma crashed_step:
  "turn_step s s' \<Longrightarrow> lsPhase s i = Crashed \<Longrightarrow> lsPhase s' i = Crashed \<and> lsOwned s' i = lsOwned s i"
  by (erule turn_stepE) (auto simp: set_phase_def own_keys_def)

lemma crashed_forever:
  assumes "turn_step\<^sup>*\<^sup>* s s'" "lsPhase s i = Crashed"
  shows "lsPhase s' i = Crashed \<and> lsOwned s' i = lsOwned s i"
  using assms(1) by (induction rule: rtranclp_induct) (use assms(2) crashed_step in auto)

text \<open>When every cycle that came has gone, nothing is locked.\<close>

lemma all_gone_free:
  assumes "lock_inv s" "\<forall>i. lsPhase s i \<in> {Waiting, Gone}"
  shows "bond_held (lsBond s) = {}"
  using assms by (auto simp: lock_inv_def)

section \<open>Progress\<close>

text \<open>A cycle that has not crashed can give back what it owns and go, whatever the others do.\<close>

lemma release_all_keys:
  "lsPhase s i = Leaving \<Longrightarrow> \<exists>s'. turn_step\<^sup>*\<^sup>* s s' \<and> lsOwned s' i = [] \<and> lsPhase s' = lsPhase s"
proof (induction "lsOwned s i" arbitrary: s)
  case Nil
  then show ?case by (metis rtranclp.rtrancl_refl)
next
  case (Cons k ks)
  let ?s1 = "own_keys i ks (s\<lparr>lsBond := bond_ReleaseLock k (lsBond s)\<rparr>)"
  have step: "turn_step s ?s1" using Cons.hyps(2) Cons.prems by (intro turn_step.release) simp_all
  have "ks = lsOwned ?s1 i" "lsPhase ?s1 i = Leaving" using Cons.prems by (simp_all add: own_keys_def)
  from Cons.hyps(1) [OF this] obtain s' where
    "turn_step\<^sup>*\<^sup>* ?s1 s'" "lsOwned s' i = []" "lsPhase s' = lsPhase ?s1" by blast
  moreover from this(1) have "turn_step\<^sup>*\<^sup>* s s'" by (rule converse_rtranclp_into_rtranclp [of turn_step, OF step])
  ultimately show ?case by (auto simp: own_keys_def)
qed

lemma cycle_can_go:
  assumes "lsPhase s i \<in> {Running, Leaving}"
  shows "\<exists>s'. turn_step\<^sup>*\<^sup>* s s' \<and> lsPhase s' = (lsPhase s)(i := Gone)"
proof -
  let ?l = "set_phase i Leaving s"
  have "turn_step\<^sup>*\<^sup>* s ?l"
  proof (cases "lsPhase s i = Running")
    case True
    then show ?thesis by (intro r_into_rtranclp turn_step.leave)
  next
    case False
    with assms have "?l = s" by (simp add: set_phase_def fun_upd_idem)
    then show ?thesis by simp
  qed
  moreover obtain s1 where s1: "turn_step\<^sup>*\<^sup>* ?l s1" "lsOwned s1 i = []" "lsPhase s1 = lsPhase ?l"
    using release_all_keys [of ?l i] by (auto simp: set_phase_def)
  moreover have "turn_step s1 (set_phase i Gone s1)"
    using s1 by (intro turn_step.done_) (simp_all add: set_phase_def)
  ultimately have "turn_step\<^sup>*\<^sup>* s (set_phase i Gone s1)"
    by (meson rtranclp.rtrancl_into_rtrancl rtranclp_trans)
  with s1 show ?thesis by (intro exI [of _ "set_phase i Gone s1"]) (simp add: set_phase_def)
qed

definition busy :: "lock_system \<Rightarrow> nat set" where
  "busy s = {i. lsPhase s i \<in> {Running, Leaving}}"

lemma step_phase: "turn_step s s' \<Longrightarrow> \<exists>i. \<forall>j. j \<noteq> i \<longrightarrow> lsPhase s' j = lsPhase s j"
  by (erule turn_stepE) (auto simp: set_phase_def own_keys_def)

lemma finite_active: "reachable s \<Longrightarrow> finite {i. lsPhase s i \<noteq> Waiting}"
  unfolding reachable_def
proof (induction rule: rtranclp_induct)
  case base
  show ?case by (simp add: start_system_def)
next
  case (step y z)
  obtain i where "\<forall>j. j \<noteq> i \<longrightarrow> lsPhase z j = lsPhase y j" using step_phase [OF step.hyps(2)] by blast
  then have "{j. lsPhase z j \<noteq> Waiting} \<subseteq> insert i {j. lsPhase y j \<noteq> Waiting}" by auto
  with step.IH show ?case by (meson finite_insert finite_subset)
qed

lemma can_drain:
  assumes "finite (busy s)" "\<forall>i. lsPhase s i \<noteq> Crashed"
  shows "\<exists>s'. turn_step\<^sup>*\<^sup>* s s' \<and> (\<forall>i. lsPhase s' i \<in> {Waiting, Gone})"
  using assms
proof (induction "card (busy s)" arbitrary: s)
  case 0
  then have "busy s = {}" by simp
  with 0 have "lsPhase s i \<in> {Waiting, Gone}" for i
    by (cases "lsPhase s i") (auto simp: busy_def)
  then show ?case by (intro exI [of _ s]) auto
next
  case (Suc n)
  then obtain i where i: "i \<in> busy s" by (metis card.empty ex_in_conv nat.simps(3))
  then obtain s1 where s1: "turn_step\<^sup>*\<^sup>* s s1" "lsPhase s1 = (lsPhase s)(i := Gone)"
    using cycle_can_go [of s i] by (auto simp: busy_def)
  have a: "busy s1 = busy s - {i}" using s1(2) by (auto simp: busy_def)
  with i Suc have "n = card (busy s1)" "finite (busy s1)" by simp_all
  moreover have "\<forall>j. lsPhase s1 j \<noteq> Crashed" using Suc.prems(2) s1(2) by simp
  ultimately obtain s2 where "turn_step\<^sup>*\<^sup>* s1 s2" "\<forall>i. lsPhase s2 i \<in> {Waiting, Gone}"
    using Suc.hyps(1) by blast
  with s1(1) show ?case by (meson rtranclp_trans)
qed

lemma locks_can_drain:
  assumes "reachable s" "\<forall>i. lsPhase s i \<noteq> Crashed"
  shows "\<exists>s'. turn_step\<^sup>*\<^sup>* s s' \<and> bond_held (lsBond s') = {}"
proof -
  have "finite (busy s)"
    by (rule finite_subset [OF _ finite_active [OF assms(1)]]) (auto simp: busy_def)
  from can_drain [OF this assms(2)] obtain s' where
    s': "turn_step\<^sup>*\<^sup>* s s'" "\<forall>i. lsPhase s' i \<in> {Waiting, Gone}" by blast
  have "reachable s'" using assms(1) s'(1) by (auto simp: reachable_def)
  then have "bond_held (lsBond s') = {}" using all_gone_free [OF lock_inv_reachable s'(2)] by simp
  with s'(1) show ?thesis by blast
qed

text \<open>A crash blocks the conversation: no later cycle gets a key of the crashed one.\<close>

lemma held_refuses: "k \<in> bond_held b \<Longrightarrow> bond_AcquireLock k b = (Inr False, b)"
  by (simp add: bond_held_def bond_AcquireLock_def)

lemma crashed_blocks:
  assumes "reachable s" "lsPhase s i = Crashed" "k \<in> set (lsOwned s i)" "turn_step\<^sup>*\<^sup>* s s'"
  shows "bond_AcquireLock k (lsBond s') = (Inr False, lsBond s')"
proof -
  have "reachable s'" using assms(1,4) by (auto simp: reachable_def)
  then have "lock_inv s'" by (rule lock_inv_reachable)
  moreover have "lsOwned s' i = lsOwned s i" using crashed_forever [OF assms(4,2)] by simp
  ultimately have "k \<in> bond_held (lsBond s')" using assms(3) by (metis UN_I UNIV_I lock_inv_def)
  then show ?thesis by (rule held_refuses)
qed

text \<open>A system with one cycle that enters and crashes.\<close>

definition one_running :: lock_system where
  "one_running = set_phase 0 Running (own_keys 0 [''k''] (start_system\<lparr>lsBond := snd (bond_AcquireLock ''k'' newNoOpBond)\<rparr>))"

lemma one_running_reachable: "reachable one_running"
proof -
  have "bond_AcquireLock ''k'' newNoOpBond = (Inr True, snd (bond_AcquireLock ''k'' newNoOpBond))" by code_simp
  then have "turn_step start_system one_running"
    unfolding one_running_def by (intro turn_step.enter) (simp_all add: start_system_def)
  then show ?thesis by (auto simp: reachable_def)
qed

lemma one_crashed_reachable: "reachable (set_phase 0 Crashed one_running)"
proof -
  have "turn_step one_running (set_phase 0 Crashed one_running)"
    by (rule turn_step.crash) (simp add: one_running_def set_phase_def)
  with one_running_reachable show ?thesis by (auto simp: reachable_def)
qed

end
