(* ===== verification/Links.thy ===== *)
theory Links
  imports Pulse Spirit
begin

text \<open>
  Event configuration: \<open>entities/link.go\<close> (the Link, its builder and the compiled guards),
  the filter step of \<open>pipeline_step_validation.go\<close> that evaluates the guards on a Pulse, and
  the choice of the Spirit in \<open>engine.go\<close> (\<open>selectSpirit\<close>).
\<close>

section \<open>Guards and Links\<close>

record Guard =
  gField :: string
  gBlockList :: "string list"
  gAllowList :: "string list"

text \<open>A Go set is the list of its elements; \<open>compileGuard\<close> fills the two lookup sets.\<close>

record CompiledGuard =
  cgField :: string
  cgBlockSet :: "string list"
  cgAllowSet :: "string list"

definition compileGuard :: "Guard \<Rightarrow> CompiledGuard" where
  "compileGuard r =
     \<lparr>cgField = gField r, cgBlockSet = remdups (gBlockList r), cgAllowSet = remdups (gAllowList r)\<rparr>"

definition IsBlocked :: "CompiledGuard \<Rightarrow> string \<Rightarrow> bool" where
  "IsBlocked r v \<longleftrightarrow> v \<in> set (cgBlockSet r)"

definition IsNotAllowed :: "CompiledGuard \<Rightarrow> string \<Rightarrow> bool" where
  "IsNotAllowed r v = (if cgAllowSet r = [] then False else v \<notin> set (cgAllowSet r))"

record link =
  lEventType :: string
  lInboundConverterName :: string
  lRequireScouts :: "string list"
  lPathfinderName :: string
  lAllowedSpirits :: "string list"
  lDefaultSpirit :: string
  lVoiceName :: string
  lChannelName :: string
  lIngestionTimeout :: int
  lProcessingTimeout :: int
  lGuards :: "Guard list"
  lCompiledRules :: "CompiledGuard list"
  lMetadata :: "gmap option"

definition NewLink :: "string \<Rightarrow> link" where
  "NewLink eventType = \<lparr>lEventType = eventType, lInboundConverterName = [], lRequireScouts = [],
     lPathfinderName = [], lAllowedSpirits = [], lDefaultSpirit = [], lVoiceName = [],
     lChannelName = [], lIngestionTimeout = 0, lProcessingTimeout = 0, lGuards = [],
     lCompiledRules = [], lMetadata = Some []\<rparr>"

definition WithInboundConverter :: "string \<Rightarrow> link \<Rightarrow> link" where
  "WithInboundConverter name e = e\<lparr>lInboundConverterName := name\<rparr>"

definition WithScouts :: "string list \<Rightarrow> link \<Rightarrow> link" where
  "WithScouts xs e = e\<lparr>lRequireScouts := xs\<rparr>"

definition AddScout :: "string \<Rightarrow> link \<Rightarrow> link" where
  "AddScout x e = e\<lparr>lRequireScouts := lRequireScouts e @ [x]\<rparr>"

definition WithPathfinder :: "string \<Rightarrow> link \<Rightarrow> link" where
  "WithPathfinder name e = e\<lparr>lPathfinderName := name\<rparr>"

definition WithSpirits :: "string list \<Rightarrow> link \<Rightarrow> link" where
  "WithSpirits xs e = e\<lparr>lAllowedSpirits := xs\<rparr>"

definition AddSpirit :: "string \<Rightarrow> link \<Rightarrow> link" where
  "AddSpirit x e = e\<lparr>lAllowedSpirits := lAllowedSpirits e @ [x]\<rparr>"

definition WithDefaultSpirit :: "string \<Rightarrow> link \<Rightarrow> link" where
  "WithDefaultSpirit x e = e\<lparr>lDefaultSpirit := x\<rparr>"

definition WithVoice :: "string \<Rightarrow> link \<Rightarrow> link" where
  "WithVoice x e = e\<lparr>lVoiceName := x\<rparr>"

definition WithChannel :: "string \<Rightarrow> link \<Rightarrow> link" where
  "WithChannel name e = e\<lparr>lChannelName := name, lInboundConverterName := name, lVoiceName := name\<rparr>"

definition link_WithMetadata :: "gmap option \<Rightarrow> link \<Rightarrow> link" where
  "link_WithMetadata m e = e\<lparr>lMetadata := m\<rparr>"

definition link_AddMetadata :: "string \<Rightarrow> gval \<Rightarrow> link \<Rightarrow> link" where
  "link_AddMetadata k v e = e\<lparr>lMetadata := gm_put k v (lMetadata e)\<rparr>"

definition WithGuards :: "Guard list \<Rightarrow> link \<Rightarrow> link" where
  "WithGuards gs e = e\<lparr>lGuards := gs\<rparr>"

definition AddGuard :: "Guard \<Rightarrow> link \<Rightarrow> link" where
  "AddGuard g e = e\<lparr>lGuards := lGuards e @ [g]\<rparr>"

definition link_Build :: "link \<Rightarrow> link" where
  "link_Build e = e\<lparr>lCompiledRules := map compileGuard (lGuards e)\<rparr>"

definition IsSpiritAllowed :: "string \<Rightarrow> link \<Rightarrow> bool" where
  "IsSpiritAllowed name e = (if lAllowedSpirits e = [] then True else name \<in> set (lAllowedSpirits e))"

definition HasMultipleSpirits :: "link \<Rightarrow> bool" where
  "HasMultipleSpirits e \<longleftrightarrow> 1 < length (lAllowedSpirits e)"

definition HasSingleSpirit :: "link \<Rightarrow> bool" where
  "HasSingleSpirit e \<longleftrightarrow> length (lAllowedSpirits e) = 1"

definition GetSingleSpirit :: "link \<Rightarrow> string" where
  "GetSingleSpirit e = (case lAllowedSpirits e of [x] \<Rightarrow> x | _ \<Rightarrow> [])"

definition WithIngestionTimeout :: "int \<Rightarrow> link \<Rightarrow> link" where
  "WithIngestionTimeout t e = e\<lparr>lIngestionTimeout := t\<rparr>"

definition WithProcessingTimeout :: "int \<Rightarrow> link \<Rightarrow> link" where
  "WithProcessingTimeout t e = e\<lparr>lProcessingTimeout := t\<rparr>"

definition GetIngestionTimeout :: "link \<Rightarrow> int" where
  "GetIngestionTimeout e = (if lIngestionTimeout e = 0 then 5 * 10 ^ 9 else lIngestionTimeout e)"

definition GetProcessingTimeout :: "link \<Rightarrow> int" where
  "GetProcessingTimeout e = (if lProcessingTimeout e = 0 then 60 * 10 ^ 9 else lProcessingTimeout e)"

section \<open>Resolving a field path on a Pulse\<close>

definition resolveTopLevelField :: "pulse \<Rightarrow> string \<Rightarrow> string" where
  "resolveTopLevelField e f =
     (if f = ''contact_phone'' then pContactPhone e
      else if f = ''memory_key'' then pMemoryKey e
      else if f = ''source'' then pSource e
      else if f = ''sub_type'' then pSubType e
      else if f = ''event_type'' then pEventType e
      else if f = ''subject_key'' then pSubjectKey e
      else if f = ''idempotency_key'' then pIdempotencyKey e
      else if f = ''user_message'' then pUserMessage e
      else [])"

text \<open>Reading a nil map finds nothing, so a nil and an empty map give the same answer.\<close>

function resolveMapPath :: "gmap \<Rightarrow> string \<Rightarrow> string" where
  "resolveMapPath m path =
     (case str_cut CHR ''.'' path of
        None \<Rightarrow>
          (case map_of m path of
             Some (VStr s) \<Rightarrow> s
           | Some (VStringer s) \<Rightarrow> s
           | _ \<Rightarrow> [])
      | Some (key, rest) \<Rightarrow>
          (case map_of m key of
             Some (VMap sub) \<Rightarrow> resolveMapPath sub rest
           | _ \<Rightarrow> []))"
  by pat_completeness auto
termination
  by (relation "measure (\<lambda>(m, path). length path)") (auto simp: str_cut_length)

declare resolveMapPath.simps [simp del]

definition resolveEventField :: "pulse \<Rightarrow> string \<Rightarrow> string" where
  "resolveEventField e field =
     (case str_cut CHR ''.'' field of
        None \<Rightarrow> resolveTopLevelField e field
      | Some (pre, rest) \<Rightarrow>
          if pre = ''knowledge'' then resolveMapPath (gm_entries (pKnowledge e)) rest
          else if pre = ''metadata'' then resolveMapPath (gm_entries (pMetadata e)) rest
          else if pre = ''payload'' then resolveMapPath (gm_entries (pPayload e)) rest
          else [])"

text \<open>A path of plain keys descends one map per key.\<close>

fun lookup_path :: "gmap \<Rightarrow> string list \<Rightarrow> gval option" where
  "lookup_path m [] = None"
| "lookup_path m [k] = map_of m k"
| "lookup_path m (k # l # ks) =
     (case map_of m k of Some (VMap sub) \<Rightarrow> lookup_path sub (l # ks) | _ \<Rightarrow> None)"

definition text_of :: "gval option \<Rightarrow> string" where
  "text_of v = (case v of Some (VStr s) \<Rightarrow> s | Some (VStringer s) \<Rightarrow> s | _ \<Rightarrow> [])"

lemma resolveMapPath_keys:
  assumes "ks \<noteq> []" and "\<forall>k\<in>set ks. CHR ''.'' \<notin> set k"
  shows "resolveMapPath m (str_join ''.'' ks) = text_of (lookup_path m ks)"
  using assms
proof (induction m ks rule: lookup_path.induct)
  case (1 m)
  then show ?case by simp
next
  case (2 m k)
  then have "str_cut CHR ''.'' k = None" by (simp add: str_cut_None_iff)
  then show ?case
    by (simp add: resolveMapPath.simps text_of_def split: option.split gval.split)
next
  case (3 m k l ks)
  from 3(3) have "str_cut CHR ''.'' (str_join ''.'' (k # l # ks)) = Some (k, str_join ''.'' (l # ks))"
    by (simp add: str_cut_append)
  with 3 show ?case
    by (subst resolveMapPath.simps) (auto simp: text_of_def split: option.split gval.split)
qed

section \<open>The filter step\<close>

fun check_rules :: "pulse \<Rightarrow> CompiledGuard list \<Rightarrow> gerr option" where
  "check_rules e [] = None"
| "check_rules e (rule # rules) =
     (let value = resolveEventField e (cgField rule) in
      if value = [] then check_rules e rules
      else if IsBlocked rule value then Some (ErrFilterBlocked (cgField rule) value)
      else if IsNotAllowed rule value then Some (ErrFilterNotAllowed (cgField rule) value)
      else check_rules e rules)"

definition FilterStep_check :: "pulse \<Rightarrow> link \<Rightarrow> gerr option" where
  "FilterStep_check e l = (if lCompiledRules l = [] then None else check_rules e (lCompiledRules l))"

text \<open>What a guard means: on a present value, not blocked and, with an allow list, in it.\<close>

definition guard_passes :: "pulse \<Rightarrow> Guard \<Rightarrow> bool" where
  "guard_passes e g \<longleftrightarrow>
     (let v = resolveEventField e (gField g) in
      v = [] \<or> (v \<notin> set (gBlockList g) \<and> (gAllowList g = [] \<or> v \<in> set (gAllowList g))))"

lemma compiled_passes:
  "check_rules e (map compileGuard gs) = None \<longleftrightarrow> (\<forall>g\<in>set gs. guard_passes e g)"
  by (induction gs)
    (auto simp: guard_passes_def compileGuard_def IsBlocked_def IsNotAllowed_def Let_def)

lemma FilterStep_check_build:
  "FilterStep_check e (link_Build l) = check_rules e (map compileGuard (lGuards l))"
  by (simp add: FilterStep_check_def link_Build_def)

lemma check_rules_code:
  "check_rules e rules = Some err \<Longrightarrow>
   orch_code err \<in> {Some ''FILTER_BLOCKED'', Some ''FILTER_NOT_ALLOWED''} \<and> \<not> IsRetriable err"
  by (induction rules)
    (auto simp: Let_def ErrFilterBlocked_def ErrFilterNotAllowed_def split: if_splits)

section \<open>Choosing the Spirit\<close>

text \<open>
  A Pathfinder is outside code: a function from the Pulse and the candidates to a name. The
  registry finds it by name; \<open>DefaultPathfinderName\<close> is that of the LLM Pathfinder.
\<close>

type_synonym pathfinder = "pulse \<Rightarrow> string list \<Rightarrow> string"
type_synonym pathfinder_registry = "string \<Rightarrow> pathfinder option"

definition DefaultPathfinderName :: string where
  "DefaultPathfinderName = ''default_llm_pathfinder''"

definition selectSpirit :: "pathfinder_registry option \<Rightarrow> pulse \<Rightarrow> link \<Rightarrow> string" where
  "selectSpirit registry e config =
     (let available = lAllowedSpirits config; dflt = lDefaultSpirit config;
          pfName = lPathfinderName config in
      case available of
        [x] \<Rightarrow> x
      | [] \<Rightarrow> if dflt \<noteq> [] then dflt else ''DEFAULT''
      | x # _ \<Rightarrow>
          (let named = (case registry of Some reg \<Rightarrow> if pfName \<noteq> [] then reg pfName else None | None \<Rightarrow> None);
               pf = (case named of Some p \<Rightarrow> Some p
                     | None \<Rightarrow> (case registry of Some reg \<Rightarrow> reg DefaultPathfinderName | None \<Rightarrow> None))
           in case pf of
                None \<Rightarrow> if dflt \<noteq> [] then dflt else x
              | Some p \<Rightarrow>
                  (let sel = p e available in
                   if sel = [] then (if dflt \<noteq> [] then dflt else x) else sel)))"

lemma selectSpirit_single:
  "HasSingleSpirit l \<Longrightarrow> selectSpirit reg e l = GetSingleSpirit l"
  by (auto simp: HasSingleSpirit_def GetSingleSpirit_def selectSpirit_def Let_def length_Suc_conv)

lemma selectSpirit_nonempty:
  assumes "\<forall>x\<in>set (lAllowedSpirits l). x \<noteq> []"
  shows "selectSpirit reg e l \<noteq> []"
  using assms by (auto simp: selectSpirit_def Let_def split: list.splits option.splits if_splits)

end
