(* ===== verification/Pipeline.thy ===== *)
theory Pipeline
  imports Memories Delegation Links
begin

text \<open>
  The processing pipeline, \<open>orchestrator/pipeline.go\<close>: the state of one cycle, the runner of a
  list of steps with its deferred steps, and the steps that guard a session: lock, duplicates,
  rate, operator hold (\<open>pipeline_step_lock.go\<close>, \<open>_idempotency\<close>, \<open>_validation\<close>, \<open>_vigil\<close>,
  \<open>_typing\<close>). The collaborators of the engine are a record of functions over the world; an
  optional one is the nil interface of the code.
\<close>

section \<open>The state of a cycle\<close>

text \<open>
  The fields that are pointers to objects the cycle owns (the Pulse, the Spirit, the session) are
  values here; \<open>psSession\<close> is the session as it stands when no Action is running.
\<close>

record ProcessingState =
  psEvent :: pulse
  psEventKey :: string
  psLink :: link
  psSpiritName :: string
  psSpirit :: "spirit option"
  psSession :: "memory option"
  psResult :: "ReasoningResult option"
  psResponse :: string
  psFinalError :: string
  psStartTime :: int
  psLockKey :: string
  psLockAcquired :: bool
  psAdditionalLocks :: "string list"
  psResponseDelivered :: bool
  psSkipped :: bool
  psStreaming :: bool
  psSink :: bool
  psMediaTokens :: OracleUsage
  psStatus :: string
  psFailedAtStep :: string
  psPathfinderUsed :: string
  psSessionMessagesCount :: nat
  psCoalescedCount :: nat
  psArchivistApplied :: bool

definition new_state :: "string \<Rightarrow> link \<Rightarrow> bool \<Rightarrow> pulse \<Rightarrow> ProcessingState" where
  "new_state key l streaming e =
     \<lparr>psEvent = e, psEventKey = key, psLink = l, psSpiritName = [], psSpirit = None, psSession = None,
      psResult = None, psResponse = [], psFinalError = [], psStartTime = 0, psLockKey = [],
      psLockAcquired = False, psAdditionalLocks = [], psResponseDelivered = False, psSkipped = False,
      psStreaming = streaming, psSink = streaming, psMediaTokens = zero_usage, psStatus = [],
      psFailedAtStep = [], psPathfinderUsed = [], psSessionMessagesCount = 0, psCoalescedCount = 0,
      psArchivistApplied = False\<rparr>"

type_synonym 'w conf = "ProcessingState \<times> 'w"

text \<open>A step returns, with an error or without, or panics; what it did before stays done.\<close>

datatype 'a outcome = Ret "gerr option" 'a | Panic 'a

fun final :: "'a outcome \<Rightarrow> 'a" where
  "final (Ret e c) = c"
| "final (Panic c) = c"

record 'w pstep =
  stName :: string
  stExec :: "'w conf \<Rightarrow> 'w conf outcome"

section \<open>Running steps\<close>

text \<open>
  \<open>deadline\<close> tells whether the context of the named step (its own timeout, else the caller's
  context) is past its deadline in a world.
\<close>

definition executeStep ::
  "(string \<Rightarrow> 'w \<Rightarrow> bool) \<Rightarrow> 'w pstep \<Rightarrow> 'w conf \<Rightarrow> 'w conf outcome" where
  "executeStep deadline st c =
     (case stExec st c of
        Ret (Some e) c1 \<Rightarrow>
          Ret (Some (if deadline (stName st) (snd c1) then ErrTimeoutExceeded (stName st)
                     else EWrap (stName st) e)) c1
      | out \<Rightarrow> out)"

fun run_steps ::
  "(string \<Rightarrow> 'w \<Rightarrow> bool) \<Rightarrow> 'w pstep list \<Rightarrow> 'w conf \<Rightarrow> 'w conf outcome" where
  "run_steps deadline [] c = Ret None c"
| "run_steps deadline (st # sts) c =
     (case executeStep deadline st c of
        Ret None c1 \<Rightarrow> run_steps deadline sts c1
      | Ret (Some e) (ps, w) \<Rightarrow> Ret (Some e) (ps\<lparr>psFailedAtStep := stName st\<rparr>, w)
      | Panic c1 \<Rightarrow> Panic c1)"

fun run_deferred ::
  "(string \<Rightarrow> 'w \<Rightarrow> bool) \<Rightarrow> 'w pstep list \<Rightarrow> 'w conf \<Rightarrow> 'w conf outcome" where
  "run_deferred deadline [] c = Ret None c"
| "run_deferred deadline (st # sts) c =
     (case executeStep deadline st c of
        Ret _ c1 \<Rightarrow> run_deferred deadline sts c1
      | Panic c1 \<Rightarrow> Panic c1)"

text \<open>\<open>Pipeline.Execute\<close>: the deferred steps run also when a step failed or panicked.\<close>

definition pipeline_Execute ::
  "(string \<Rightarrow> 'w \<Rightarrow> bool) \<Rightarrow> 'w pstep list \<Rightarrow> 'w pstep list \<Rightarrow> int \<Rightarrow> 'w conf \<Rightarrow> 'w conf outcome" where
  "pipeline_Execute deadline steps deferred now c =
     (case run_steps deadline steps ((fst c)\<lparr>psStartTime := now, psStatus := ''success''\<rparr>, snd c) of
        Ret err c1 \<Rightarrow>
          (case run_deferred deadline deferred c1 of
             Ret _ c2 \<Rightarrow> Ret err c2
           | Panic c2 \<Rightarrow> Panic c2)
      | Panic c1 \<Rightarrow> Panic (final (run_deferred deadline deferred c1)))"

section \<open>The collaborators\<close>

record 'w bond_client =
  boAcquire :: "string \<Rightarrow> 'w \<Rightarrow> (gerr + bool) \<times> 'w"
  boRelease :: "string \<Rightarrow> 'w \<Rightarrow> gerr option \<times> 'w"

record 'w inbox_client =
  inPush :: "string \<Rightarrow> string \<Rightarrow> 'w \<Rightarrow> gerr option \<times> 'w"
  inPopAll :: "string \<Rightarrow> 'w \<Rightarrow> (gerr + string list) \<times> 'w"

section \<open>Guarding steps\<close>

definition ValidationStep :: "(pulse \<Rightarrow> gerr option) \<Rightarrow> 'w conf \<Rightarrow> 'w conf outcome" where
  "ValidationStep validate c =
     (case validate (psEvent (fst c)) of
        Some e \<Rightarrow> Ret (Some (EWrap ''validate event'' e)) c
      | None \<Rightarrow> Ret None c)"

definition RateLimitStep :: "(string \<Rightarrow> 'w \<Rightarrow> (gerr + bool) \<times> 'w) \<Rightarrow> 'w conf \<Rightarrow> 'w conf outcome" where
  "RateLimitStep allow c =
     (case c of (ps, w) \<Rightarrow>
       case allow (pMemoryKey (psEvent ps)) w of
         (Inl _, w1) \<Rightarrow> Ret None (ps, w1)
       | (Inr True, w1) \<Rightarrow> Ret None (ps, w1)
       | (Inr False, w1) \<Rightarrow> Ret (Some (ErrRateLimitExceeded (pMemoryKey (psEvent ps)))) (ps, w1))"

definition IdempotencyStep ::
  "(string \<Rightarrow> int \<Rightarrow> 'w \<Rightarrow> (gerr + bool) \<times> 'w) \<Rightarrow> int \<Rightarrow> 'w conf \<Rightarrow> 'w conf outcome" where
  "IdempotencyStep Seen ttl c =
     (case c of (ps, w) \<Rightarrow>
       let key = pIdempotencyKey (psEvent ps) in
       if key = [] then Ret None c
       else case Seen key ttl w of
         (Inl _, w1) \<Rightarrow> Ret None (ps, w1)
       | (Inr True, w1) \<Rightarrow> Ret (Some (ErrDuplicateEvent key)) (ps, w1)
       | (Inr False, w1) \<Rightarrow> Ret None (ps, w1))"

definition lock_key :: "string \<Rightarrow> string" where
  "lock_key mk = ''memory:'' @ mk"

definition push_inbox :: "'w inbox_client option \<Rightarrow> pulse \<Rightarrow> 'w \<Rightarrow> 'w" where
  "push_inbox inbox e w =
     (case inbox of
        None \<Rightarrow> w
      | Some ib \<Rightarrow> if pUserMessage e = [] then w else snd (inPush ib (pMemoryKey e) (pUserMessage e) w))"

definition LockAcquisitionStep ::
  "'w bond_client \<Rightarrow> 'w inbox_client option \<Rightarrow> 'w conf \<Rightarrow> 'w conf outcome" where
  "LockAcquisitionStep b inbox c =
     (case c of (ps, w) \<Rightarrow>
       let mk = pMemoryKey (psEvent ps);
           w1 = push_inbox inbox (psEvent ps) w;
           ps1 = ps\<lparr>psLockKey := lock_key mk\<rparr>
       in case boAcquire b (lock_key mk) w1 of
            (Inl e, w2) \<Rightarrow> Ret (Some (ErrLockAcquisitionFailed mk (Some e))) (ps1, w2)
          | (Inr False, w2) \<Rightarrow> Ret (Some (ErrMemoryBusy mk)) (ps1, w2)
          | (Inr True, w2) \<Rightarrow> Ret None (ps1\<lparr>psLockAcquired := True\<rparr>, w2))"

fun release_all :: "'w bond_client \<Rightarrow> string list \<Rightarrow> 'w \<Rightarrow> 'w" where
  "release_all b [] w = w"
| "release_all b (k # ks) w = release_all b ks (snd (boRelease b k w))"

definition LockReleaseStep :: "'w bond_client \<Rightarrow> 'w conf \<Rightarrow> 'w conf outcome" where
  "LockReleaseStep b c =
     (case c of (ps, w) \<Rightarrow>
       if \<not> psLockAcquired ps then Ret None c
       else Ret None (ps\<lparr>psLockAcquired := False\<rparr>, release_all b (psLockKey ps # psAdditionalLocks ps) w))"

text \<open>Fail-open: an error of the repository lets the Pulse through.\<close>

definition VigilCheckStep ::
  "(string \<Rightarrow> 'w \<Rightarrow> (gerr + string option) \<times> 'w) option \<Rightarrow> 'w conf \<Rightarrow> 'w conf outcome" where
  "VigilCheckStep vigil c =
     (case (vigil, c) of
        (None, _) \<Rightarrow> Ret None c
      | (Some get, (ps, w)) \<Rightarrow>
          (case get (pMemoryKey (psEvent ps)) w of
             (Inl _, w1) \<Rightarrow> Ret None (ps, w1)
           | (Inr None, w1) \<Rightarrow> Ret None (ps, w1)
           | (Inr (Some _), w1) \<Rightarrow> Ret (Some newErrSessionHeld) (ps\<lparr>psStatus := ''session_held''\<rparr>, w1)))"

text \<open>Both typing steps: the call is made when there is a phone, its error is dropped.\<close>

definition TypingStep :: "(string \<Rightarrow> 'w \<Rightarrow> gerr option \<times> 'w) \<Rightarrow> 'w conf \<Rightarrow> 'w conf outcome" where
  "TypingStep call c =
     (case c of (ps, w) \<Rightarrow>
       if pContactPhone (psEvent ps) = [] then Ret None c
       else Ret None (ps, snd (call (pContactPhone (psEvent ps)) w)))"

section \<open>Laws of the runner\<close>

text \<open>A list of steps stops at the first failing one, which it names.\<close>

lemma run_steps_append:
  "run_steps dl (xs @ ys) c =
     (case run_steps dl xs c of Ret None c1 \<Rightarrow> run_steps dl ys c1 | out \<Rightarrow> out)"
  by (induction xs arbitrary: c) (auto split: outcome.split option.split)

lemma run_steps_step:
  "stExec st c = Ret None c1 \<Longrightarrow> run_steps dl (st # sts) c = run_steps dl sts c1"
  "stExec st c = Panic c1 \<Longrightarrow> run_steps dl (st # sts) c = Panic c1"
  "stExec st c = Ret (Some e) (ps, w) \<Longrightarrow> \<exists>e'. run_steps dl (st # sts) c = Ret (Some e') (ps\<lparr>psFailedAtStep := stName st\<rparr>, w)"
  by (simp_all add: executeStep_def)

text \<open>To know the end of a list, know the end of its first part and, when that went well, of the rest.\<close>

lemma run_steps_split:
  assumes "run_steps dl xs c = out"
    and "\<And>c1. out = Ret None c1 \<Longrightarrow> P (run_steps dl ys c1)"
    and "\<And>e c1. out = Ret (Some e) c1 \<Longrightarrow> P out" "\<And>c1. out = Panic c1 \<Longrightarrow> P out"
  shows "P (run_steps dl (xs @ ys) c)"
  using assms by (cases out) (auto simp: run_steps_append split: option.split)

lemma run_steps_invariant:
  assumes "\<And>st c. st \<in> set sts \<Longrightarrow> P c \<Longrightarrow> P (final (stExec st c))"
    and frame: "\<And>ps w n. P (ps, w) \<Longrightarrow> P (ps\<lparr>psFailedAtStep := n\<rparr>, w)"
  shows "P c \<Longrightarrow> P (final (run_steps dl sts c))"
  using assms(1)
proof (induction sts arbitrary: c)
  case (Cons st sts)
  have "P (final (stExec st c))" using Cons.prems by simp
  moreover have "final (executeStep dl st c) = final (stExec st c)"
    by (auto simp: executeStep_def split: outcome.split option.split)
  ultimately have p: "P (final (executeStep dl st c))" by simp
  show ?case
  proof (cases "executeStep dl st c")
    case (Ret e c1)
    with p have "P c1" by simp
    with Cons Ret frame show ?thesis by (cases e; cases c1) auto
  next
    case (Panic c1)
    with p show ?thesis by simp
  qed
qed simp

lemma run_deferred_invariant:
  assumes "\<And>st c. st \<in> set sts \<Longrightarrow> P c \<Longrightarrow> P (final (stExec st c))"
  shows "P c \<Longrightarrow> P (final (run_deferred dl sts c))"
  using assms
proof (induction sts arbitrary: c)
  case (Cons st sts)
  have "P (final (stExec st c))" using Cons.prems by simp
  moreover have "final (executeStep dl st c) = final (stExec st c)"
    by (auto simp: executeStep_def split: outcome.split option.split)
  ultimately have "P (final (executeStep dl st c))" by simp
  with Cons show ?case by (cases "executeStep dl st c") auto
qed simp

lemma final_pipeline:
  "final (pipeline_Execute dl steps deferred now c) =
     final (run_deferred dl deferred
       (final (run_steps dl steps ((fst c)\<lparr>psStartTime := now, psStatus := ''success''\<rparr>, snd c))))"
  by (simp add: pipeline_Execute_def split: outcome.split)

text \<open>What every step and every deferred step keeps, \<open>Pipeline.Execute\<close> keeps.\<close>

lemma pipeline_invariant:
  assumes "\<And>st c. st \<in> set (steps @ deferred) \<Longrightarrow> P c \<Longrightarrow> P (final (stExec st c))"
    and "\<And>ps w n. P (ps, w) \<Longrightarrow> P (ps\<lparr>psFailedAtStep := n\<rparr>, w)"
    and "P ((fst c)\<lparr>psStartTime := now, psStatus := ''success''\<rparr>, snd c)"
  shows "P (final (pipeline_Execute dl steps deferred now c))"
proof -
  let ?c = "((fst c)\<lparr>psStartTime := now, psStatus := ''success''\<rparr>, snd c)"
  have "P (final (run_steps dl steps ?c))"
    by (rule run_steps_invariant [OF _ assms(2,3)]) (simp add: assms(1))
  then have "P (final (run_deferred dl deferred (final (run_steps dl steps ?c))))"
    by (rule run_deferred_invariant [rotated]) (simp add: assms(1))
  then show ?thesis by (simp add: final_pipeline)
qed

text \<open>The error a failing pipeline reports names the step, and so does the state.\<close>

lemma run_steps_error:
  "run_steps dl sts c = Ret (Some e) (ps, w) \<Longrightarrow>
     \<exists>st\<in>set sts. psFailedAtStep ps = stName st
       \<and> (e = ErrTimeoutExceeded (stName st) \<or> (\<exists>e'. e = EWrap (stName st) e'))"
proof (induction sts arbitrary: c)
  case (Cons st sts)
  then show ?case
    by (fastforce simp: executeStep_def split: outcome.splits option.splits prod.splits if_splits)
qed simp

end
