(* ===== verification/PipeRoute.thy ===== *)
theory PipeRoute
  imports Pipeline
begin

text \<open>
  The steps that enrich the Pulse and choose who answers: \<open>pipeline_step_enrichment.go\<close>,
  \<open>_validation\<close> (the filter), \<open>_agent\<close>, \<open>_http_tools\<close> and \<open>_orchestrator\<close>.
\<close>

section \<open>Scouts\<close>

text \<open>
  A Scout may move the Pulse to another memory key; the cycle then needs that key's lock too.
\<close>

definition LinkScoutStep ::
  "'w scout scout_reg option \<Rightarrow> 'w bond_client \<Rightarrow> 'w conf \<Rightarrow> 'w conf outcome" where
  "LinkScoutStep scouts b c =
     (case c of (ps, w) \<Rightarrow>
       case scouts of
         None \<Rightarrow> Ret None c
       | Some reg \<Rightarrow>
           if lRequireScouts (psLink ps) = [] then Ret None c
           else (case scout_GetMultiple (lRequireScouts (psLink ps)) reg of
             Inl e \<Rightarrow> Ret (Some (ErrScoutFailed e)) c
           | Inr scs \<Rightarrow>
               (let original = pMemoryKey (psEvent ps);
                    (e1, w1) = runScouts scs (psEvent ps) w;
                    ps1 = ps\<lparr>psEvent := e1\<rparr>; key = lock_key (pMemoryKey e1)
                in if pMemoryKey e1 = original then Ret None (ps1, w1)
                   else (case boAcquire b key w1 of
                           (Inl e, w2) \<Rightarrow> Ret (Some (ErrLockAcquisitionFailed (pMemoryKey e1) (Some e))) (ps1, w2)
                         | (Inr False, w2) \<Rightarrow> Ret (Some (ErrLockAcquisitionFailed (pMemoryKey e1) None)) (ps1, w2)
                         | (Inr True, w2) \<Rightarrow>
                             Ret None (ps1\<lparr>psAdditionalLocks := psAdditionalLocks ps1 @ [key]\<rparr>, w2)))))"

text \<open>Lore and Imprint harvesters enrich the Pulse; their errors are dropped.\<close>

definition SpiritScoutStep ::
  "'w scout scout_reg option
     \<Rightarrow> (pulse \<Rightarrow> string list \<Rightarrow> 'w \<Rightarrow> gerr option \<times> pulse \<times> 'w) option
     \<Rightarrow> (pulse \<Rightarrow> string \<Rightarrow> 'w \<Rightarrow> gerr option \<times> pulse \<times> 'w) option
     \<Rightarrow> 'w conf \<Rightarrow> 'w conf outcome" where
  "SpiritScoutStep scouts lore imprint c =
     (case c of (ps, w) \<Rightarrow>
       case psSpirit ps of
         None \<Rightarrow> Ret None c
       | Some sp \<Rightarrow>
           (case (case scouts of
                    None \<Rightarrow> Inr []
                  | Some reg \<Rightarrow> if sRequireScouts sp = [] then Inr [] else scout_GetMultiple (sRequireScouts sp) reg) of
              Inl e \<Rightarrow> Ret (Some (ErrScoutFailed e)) c
            | Inr scs \<Rightarrow>
                (let (e1, w1) = runScouts scs (psEvent ps) w;
                     (e2, w2) = (case lore of
                        None \<Rightarrow> (e1, w1)
                      | Some h \<Rightarrow> if sLoreIDs sp = [] then (e1, w1) else snd (h e1 (sLoreIDs sp) w1));
                     (e3, w3) = (case imprint of
                        None \<Rightarrow> (e2, w2)
                      | Some h \<Rightarrow> if IsConversational sp \<or> IsOrchestrator sp then snd (h e2 (sName sp) w2) else (e2, w2))
                 in Ret None (ps\<lparr>psEvent := e3\<rparr>, w3))))"

section \<open>Guards\<close>

definition FilterStep :: "'w conf \<Rightarrow> 'w conf outcome" where
  "FilterStep c = Ret (FilterStep_check (psEvent (fst c)) (psLink (fst c))) c"

section \<open>The Spirit\<close>

definition SpiritSelectionStep ::
  "pathfinder_registry option \<Rightarrow> (string \<Rightarrow> 'w \<Rightarrow> (gerr + string) \<times> 'w) option \<Rightarrow> 'w conf \<Rightarrow> 'w conf outcome" where
  "SpiritSelectionStep pathfinders pins c =
     (case c of (ps, w) \<Rightarrow>
       let (pinned, w1) = (case pins of
              None \<Rightarrow> ([], w)
            | Some get \<Rightarrow> (case get (pMemoryKey (psEvent ps)) w of
                             (Inl _, w1) \<Rightarrow> ([], w1) | (Inr a, w1) \<Rightarrow> (a, w1)))
       in if pinned \<noteq> []
          then Ret None (ps\<lparr>psSpiritName := pinned, psPathfinderUsed := ''handoff''\<rparr>, w1)
          else Ret None (ps\<lparr>psSpiritName := selectSpirit pathfinders (psEvent ps) (psLink ps),
                 psPathfinderUsed := lPathfinderName (psLink ps)\<rparr>, w1))"

definition SpiritLoadStep :: "(string \<Rightarrow> 'w \<Rightarrow> (gerr + spirit) \<times> 'w) \<Rightarrow> 'w conf \<Rightarrow> 'w conf outcome" where
  "SpiritLoadStep lookup c =
     (case c of (ps, w) \<Rightarrow>
       case lookup (psSpiritName ps) w of
         (Inl e, w1) \<Rightarrow> Ret (Some (ErrSpiritNotFound (psSpiritName ps) e)) (ps, w1)
       | (Inr sp, w1) \<Rightarrow> Ret None (ps\<lparr>psSpirit := Some sp\<rparr>, w1))"

text \<open>
  Every tool of the Spirit is offered; one whose name is taken already keeps the executor
  registered first, as the error of \<open>Register\<close> is dropped.
\<close>

fun load_tools ::
  "('h \<Rightarrow> string) \<Rightarrow> ('h \<Rightarrow> 'w \<Rightarrow> gerr option \<times> 'w) \<Rightarrow> 'h list \<Rightarrow> spirit \<Rightarrow> 'w \<Rightarrow> spirit \<times> 'w" where
  "load_tools nm reg [] sp w = (sp, w)"
| "load_tools nm reg (t # ts) sp w =
     load_tools nm reg ts
       (sp\<lparr>sAllowedActions := sAllowedActions sp
             @ [\<lparr>aaName = nm t, aaIsCritical = None, aaDescriptionOverride = []\<rparr>]\<rparr>)
       (snd (reg t w))"

definition HTTPToolLoadStep ::
  "(string \<Rightarrow> 'w \<Rightarrow> (gerr + 'h list) \<times> 'w) \<Rightarrow> ('h \<Rightarrow> string) \<Rightarrow> ('h \<Rightarrow> 'w \<Rightarrow> gerr option \<times> 'w)
     \<Rightarrow> 'w conf \<Rightarrow> 'w conf outcome" where
  "HTTPToolLoadStep lookup nm reg c =
     (case c of (ps, w) \<Rightarrow>
       case psSpirit ps of
         None \<Rightarrow> Panic c
       | Some sp \<Rightarrow>
           (case lookup (sID sp) w of
              (Inl _, w1) \<Rightarrow> Ret None (ps, w1)
            | (Inr tools, w1) \<Rightarrow>
                (let (sp1, w2) = load_tools nm reg tools sp w1 in Ret None (ps\<lparr>psSpirit := Some sp1\<rparr>, w2))))"

text \<open>An orchestrator in "logic" mode hands the cycle to the sub-Spirit its router names.\<close>

definition OrchestratorRoutingStep ::
  "(pulse \<Rightarrow> 'w \<Rightarrow> string \<times> 'w) reg option \<Rightarrow> (string \<Rightarrow> 'w \<Rightarrow> (gerr + spirit) \<times> 'w)
     \<Rightarrow> 'w conf \<Rightarrow> 'w conf outcome" where
  "OrchestratorRoutingStep routers lookup c =
     (case c of (ps, w) \<Rightarrow>
       case (psSpirit ps, routers) of
         (Some sp, Some reg) \<Rightarrow>
           (let cfg = sOrchestratorConfig sp in
            if \<not> IsOrchestrator sp \<or> ocMode cfg \<noteq> ''logic'' \<or> ocLogicRouterName cfg = [] then Ret None c
            else (case router_Get (ocLogicRouterName cfg) reg of
                    Inl _ \<Rightarrow> Ret None c
                  | Inr route \<Rightarrow>
                      (case route (psEvent ps) w of
                         (target, w1) \<Rightarrow>
                           if target = [] then Ret None (ps, w1)
                           else (case lookup target w1 of
                                   (Inl _, w2) \<Rightarrow> Ret None (ps, w2)
                                 | (Inr sub, w2) \<Rightarrow>
                                     Ret None (ps\<lparr>psSpirit := Some sub, psSpiritName := target\<rparr>, w2)))))
       | _ \<Rightarrow> Ret None c)"

section \<open>Laws\<close>

text \<open>A pin goes before the Pathfinder and is not checked against the Link's Spirits.\<close>

lemma selection_pinned:
  assumes "get (pMemoryKey (psEvent ps)) w = (Inr a, w1)" "a \<noteq> []"
  shows "SpiritSelectionStep pf (Some get) (ps, w)
    = Ret None (ps\<lparr>psSpiritName := a, psPathfinderUsed := ''handoff''\<rparr>, w1)"
  using assms by (simp add: SpiritSelectionStep_def)

text \<open>The orchestrator step changes nothing, or puts a Spirit the repository knows in charge.\<close>

lemma routing_known:
  assumes "OrchestratorRoutingStep routers lookup (ps, w) = Ret e (ps', w')"
  shows "e = None \<and> (ps' = ps \<or>
     (\<exists>sub w1. lookup (psSpiritName ps') w1 = (Inr sub, w') \<and> psSpirit ps' = Some sub \<and> psSpiritName ps' \<noteq> []))"
  using assms
  by (auto simp: OrchestratorRoutingStep_def Let_def split: option.splits if_splits sum.splits prod.splits)

lemma load_tools_offers:
  "map aaName (sAllowedActions (fst (load_tools nm reg ts sp w))) = map aaName (sAllowedActions sp) @ map nm ts"
  by (induction ts arbitrary: sp w) simp_all

end
