(* ===== verification/PipeMemory.thy ===== *)
theory PipeMemory
  imports Pipeline
begin

text \<open>
  The steps on the session: \<open>pipeline_step_session.go\<close> (setup, summary, coalescing) and
  \<open>pipeline_step_persistence.go\<close>. The clock of a step is an argument.
\<close>

section \<open>Session setup\<close>

definition conversationSummaryKey :: string where
  "conversationSummaryKey = ''conversation_summary''"

definition add_missing :: "string \<Rightarrow> gval \<Rightarrow> pulse \<Rightarrow> pulse" where
  "add_missing k v e = (if gm_get (pKnowledge e) k = None then AddKnowledge k v e else e)"

definition exposeTopicToLLM :: "memory \<Rightarrow> pulse \<Rightarrow> pulse" where
  "exposeTopicToLLM m e =
     (if meSubjectKey m = [] then e
      else
        (let e1 = fold (\<lambda>(k, v). add_missing k v) (gm_entries (meTopicFacts m)) e;
             e2 = (if meSummary m = [] then e1 else add_missing conversationSummaryKey (VStr (meSummary m)) e1)
         in AddKnowledge ''active_topic'' (VStr (meSubjectKey m)) e2))"

definition needs_session :: "ProcessingState \<Rightarrow> bool" where
  "needs_session ps \<longleftrightarrow> (case psSpirit ps of None \<Rightarrow> True | Some sp \<Rightarrow> NeedsSession sp)"

definition SessionSetupStep :: "'w memory_mgr \<Rightarrow> ('w \<Rightarrow> int) \<Rightarrow> 'w conf \<Rightarrow> 'w conf outcome" where
  "SessionSetupStep mm now c =
     (case c of (ps, w) \<Rightarrow>
       if \<not> needs_session ps then Ret None c
       else
         (let mk = pMemoryKey (psEvent ps);
              (topic, w1) = (if pSubjectKey (psEvent ps) \<noteq> [] then (pSubjectKey (psEvent ps), w)
                             else FindLastTopicKey mm mk w)
          in case GetOrCreate mm (now w1) mk topic w1 of
               (Inl e, w2) \<Rightarrow> Ret (Some (ErrMemoryOperationFailed ''get_or_create'' e)) (ps, w2)
             | (Inr m, w2) \<Rightarrow>
                 Ret None (ps\<lparr>psSession := Some m, psEvent := exposeTopicToLLM m (psEvent ps)\<rparr>, w2)))"

section \<open>Summary\<close>

definition keep_recent :: "int \<Rightarrow> int" where
  "keep_recent k = (if k < 1 then 1 else k)"

definition ArchivistStep ::
  "(string \<Rightarrow> string \<Rightarrow> thread list \<Rightarrow> 'w \<Rightarrow> (gerr + string) \<times> 'w) option \<Rightarrow> int \<Rightarrow> int \<Rightarrow> 'w conf
     \<Rightarrow> 'w conf outcome" where
  "ArchivistStep archivist threshold keepRecent c =
     (case c of (ps, w) \<Rightarrow>
       case (archivist, psSession ps) of
         (Some summarize, Some m) \<Rightarrow>
           (let n = length (meThreads m); splitAt = int n - keep_recent keepRecent in
            if \<not> needs_session ps \<or> int n < threshold \<or> splitAt \<le> 0 then Ret None c
            else (case summarize (pMemoryKey (psEvent ps)) (meSubjectKey m) (take (nat splitAt) (meThreads m)) w of
                    (Inl _, w1) \<Rightarrow> Ret None (ps, w1)
                  | (Inr summary, w1) \<Rightarrow>
                      if summary = [] then Ret None (ps, w1)
                      else Ret None (ps\<lparr>psSession := Some (m\<lparr>meSummary := summary,
                                          meThreads := drop (nat splitAt) (meThreads m)\<rparr>),
                             psArchivistApplied := True,
                             psEvent := add_missing conversationSummaryKey (VStr summary) (psEvent ps)\<rparr>, w1)))
       | _ \<Rightarrow> Ret None c)"

section \<open>Coalescing\<close>

definition drain ::
  "'w inbox_client option \<Rightarrow> int \<Rightarrow> ('w \<Rightarrow> int) \<Rightarrow> (int \<Rightarrow> 'w \<Rightarrow> 'w) \<Rightarrow> ProcessingState \<Rightarrow> 'w \<Rightarrow> 'w conf" where
  "drain inbox minWindow now wait ps w =
     (case inbox of
        None \<Rightarrow> (ps, w)
      | Some ib \<Rightarrow>
          (let remaining = minWindow - (now w - psStartTime ps);
               w1 = (if 0 < minWindow \<and> 0 < remaining then wait remaining w else w)
           in case inPopAll ib (pMemoryKey (psEvent ps)) w1 of
                (Inl _, w2) \<Rightarrow> (ps, w2)
              | (Inr msgs, w2) \<Rightarrow>
                  if 1 < length msgs
                  then (ps\<lparr>psEvent := (psEvent ps)\<lparr>pUserMessage := str_join nl msgs\<rparr>,
                           psCoalescedCount := length msgs\<rparr>, w2)
                  else (ps, w2)))"

definition MessageCoalescingStep ::
  "'w memory_mgr \<Rightarrow> 'w inbox_client option \<Rightarrow> int \<Rightarrow> ('w \<Rightarrow> int) \<Rightarrow> (int \<Rightarrow> 'w \<Rightarrow> 'w) \<Rightarrow> 'w conf
     \<Rightarrow> 'w conf outcome" where
  "MessageCoalescingStep mm inbox minWindow now wait c =
     (case c of (ps, w) \<Rightarrow>
       if (case psSpirit ps of None \<Rightarrow> False | Some sp \<Rightarrow> \<not> NeedsMessageCoalescing sp) then Ret None c
       else
         (let (ps1, w1) = drain inbox minWindow now wait ps w;
              msg = pUserMessage (psEvent ps1)
          in case psSession ps1 of
               None \<Rightarrow> Ret None (ps1, w1)
             | Some m \<Rightarrow>
                 if msg = [] then Ret None (ps1, w1)
                 else Ret None (ps1\<lparr>psSession := Some (UpdateMemory mm (now w1) (plain_thread RoleUser msg) m)\<rparr>, w1)))"

section \<open>Persistence\<close>

definition append_echo :: "'w echo_repo \<Rightarrow> string \<Rightarrow> string \<Rightarrow> string \<Rightarrow> string \<Rightarrow> 'w \<Rightarrow> 'w" where
  "append_echo er mk topic role content w =
     (if content = [] then w else snd (AppendMessage er (plain_echo mk topic role content) w))"

definition PersistenceStep ::
  "'w memory_mgr \<Rightarrow> 'w echo_repo \<Rightarrow> ('w \<Rightarrow> int) \<Rightarrow> 'w conf \<Rightarrow> 'w conf outcome" where
  "PersistenceStep mm er now c =
     (case c of (ps, w) \<Rightarrow>
       case psSession ps of
         None \<Rightarrow> Ret None c
       | Some m0 \<Rightarrow>
           (let m = (if psResponse ps = [] then m0
                     else UpdateMemory mm (now w) (plain_thread RoleAssistant (psResponse ps)) m0);
                ps1 = ps\<lparr>psSession := Some m\<rparr>; mk = pMemoryKey (psEvent ps)
            in case SaveSession mm m w of
                 (Some e, w1) \<Rightarrow> Ret (Some (ErrPersistenceFailed ''save_memory'' e)) (ps1, w1)
               | (None, w1) \<Rightarrow>
                   Ret None (ps1,
                     append_echo er mk (meSubjectKey m) RoleAssistant (psResponse ps)
                       (append_echo er mk (meSubjectKey m) RoleUser (pUserMessage (psEvent ps)) w1))))"

section \<open>Laws\<close>

lemma add_missing_get:
  "gm_get (pKnowledge (add_missing k v e)) j =
     (if j = k \<and> gm_get (pKnowledge e) k = None then Some v else gm_get (pKnowledge e) j)"
  by (auto simp: add_missing_def AddKnowledge_def gm_get_def gm_put_def update_conv' split: option.splits)

lemma fold_add_missing_get:
  "distinct (map fst fs) \<Longrightarrow>
     gm_get (pKnowledge (fold (\<lambda>(k, v). add_missing k v) fs e)) j =
       (case gm_get (pKnowledge e) j of Some v \<Rightarrow> Some v | None \<Rightarrow> map_of fs j)"
proof (induction fs arbitrary: e)
  case (Cons f fs)
  obtain k v where f: "f = (k, v)" by (cases f)
  with Cons.prems have k: "map_of fs k = None" by (auto simp: map_of_eq_None_iff)
  from Cons f k show ?case by (auto simp: add_missing_get split: option.split)
qed (simp split: option.split)

text \<open>
  What the model sees of a session with a subject: knowledge the Scouts wrote wins over the stored
  facts, the facts fill the gaps, and \<open>active_topic\<close> is always the session's subject.
\<close>

lemma exposeTopic_get:
  assumes "gm_ok (meTopicFacts m)" "meSubjectKey m \<noteq> []" "j \<noteq> conversationSummaryKey"
  shows "gm_get (pKnowledge (exposeTopicToLLM m e)) j =
    (if j = ''active_topic'' then Some (VStr (meSubjectKey m))
     else case gm_get (pKnowledge e) j of Some v \<Rightarrow> Some v | None \<Rightarrow> gm_get (meTopicFacts m) j)"
proof -
  have d: "distinct (map fst (gm_entries (meTopicFacts m)))"
    using assms(1) by (auto simp: gm_ok_def gm_entries_def split: option.splits)
  have get: "gm_get (pKnowledge (AddKnowledge k v x)) j = (if j = k then Some v else gm_get (pKnowledge x) j)" for k v x
    by (auto simp: AddKnowledge_def gm_get_def gm_put_def update_conv' split: option.splits)
  have m: "map_of (gm_entries (meTopicFacts m)) j = gm_get (meTopicFacts m) j"
    by (simp add: gm_get_def gm_entries_def split: option.split)
  show ?thesis
    using assms(2,3)
    by (simp add: exposeTopicToLLM_def Let_def get add_missing_get fold_add_missing_get [OF d] m split: option.split)
qed

text \<open>A summary never loses the newest messages, and what it drops was given to the Archivist.\<close>

lemma archivist_keeps:
  assumes "ArchivistStep arch t k (ps, w) = Ret e (ps', w')" "psSession ps = Some m"
  shows "\<exists>m'. psSession ps' = Some m' \<and> e = None
    \<and> (m' = m \<or> (\<exists>cut. meThreads m = cut @ meThreads m' \<and> cut \<noteq> [] \<and> int (length (meThreads m')) = keep_recent k
         \<and> meSummary m' \<noteq> [] \<and> (\<exists>f w1. arch = Some f
            \<and> f (pMemoryKey (psEvent ps)) (meSubjectKey m) cut w = (Inr (meSummary m'), w1))))"
proof (cases arch)
  case None
  with assms show ?thesis by (auto simp: ArchivistStep_def)
next
  case (Some f)
  define n where "n = nat (int (length (meThreads m)) - keep_recent k)"
  consider (same) "psSession ps' = Some m" "e = None"
    | (cut) s w1 where "0 < int (length (meThreads m)) - keep_recent k" "s \<noteq> []" "e = None"
        "f (pMemoryKey (psEvent ps)) (meSubjectKey m) (take n (meThreads m)) w = (Inr s, w1)"
        "psSession ps' = Some (m\<lparr>meSummary := s, meThreads := drop n (meThreads m)\<rparr>)"
    using assms Some
    by (auto simp: ArchivistStep_def Let_def n_def split: if_splits sum.splits prod.splits)
  then show ?thesis
  proof cases
    case same
    then show ?thesis by blast
  next
    case cut
    have k: "1 \<le> keep_recent k" by (simp add: keep_recent_def)
    have "meThreads m = take n (meThreads m) @ drop n (meThreads m)" by simp
    moreover have "take n (meThreads m) \<noteq> []" using cut(1) k by (auto simp: n_def)
    moreover have "int (length (drop n (meThreads m))) = keep_recent k" using cut(1) k by (auto simp: n_def)
    moreover have "f (pMemoryKey (psEvent ps)) (meSubjectKey m) (take n (meThreads m)) w = (Inr s, w1)"
      by (rule cut(4))
    ultimately have "\<exists>pre. meThreads m = pre @ drop n (meThreads m) \<and> pre \<noteq> []
        \<and> int (length (drop n (meThreads m))) = keep_recent k \<and> s \<noteq> [] \<and> (\<exists>f w1. arch = Some f
            \<and> f (pMemoryKey (psEvent ps)) (meSubjectKey m) pre w = (Inr s, w1))"
      using cut(2) Some by (intro exI [of _ "take n (meThreads m)"]) simp
    then show ?thesis
      using cut(3,5) by (intro exI [of _ "m\<lparr>meSummary := s, meThreads := drop n (meThreads m)\<rparr>"]) simp
  qed
qed

end
