(* ===== verification/PipeDeliver.thy ===== *)
theory PipeDeliver
  imports Pipeline
begin

text \<open>
  The steps from the budget to the answer: \<open>pipeline_step_cost.go\<close>, \<open>_model_routing\<close>,
  \<open>_condition\<close>, \<open>_reasoning\<close>, \<open>_notification\<close>, \<open>_output_guard\<close>, \<open>_delivery\<close>,
  \<open>_scheduled\<close> and \<open>_media\<close>. Go's \<open>float64\<close> is a rational here: the quotients and
  products of the code are exact, and an \<open>int\<close> compared as a float is the integer itself.
\<close>

section \<open>Budgets\<close>

datatype ledger_alert = BudgetThreshold string rat int | BudgetExceeded string string int

record 'w ledger =
  ldBudget :: "string \<Rightarrow> 'w \<Rightarrow> (gerr + TokenBudget) \<times> 'w"
  ldMonthUsage :: "string \<Rightarrow> 'w \<Rightarrow> (gerr + int) \<times> 'w"
  ldIncrement :: "string \<Rightarrow> int \<Rightarrow> rat \<Rightarrow> 'w \<Rightarrow> gerr option \<times> 'w"

definition set_model :: "SpiritModel \<Rightarrow> ProcessingState \<Rightarrow> ProcessingState" where
  "set_model m ps = ps\<lparr>psSpirit := map_option (\<lambda>sp. sp\<lparr>sModelConfig := m\<rparr>) (psSpirit ps)\<rparr>"

definition budgetMessage :: string where
  "budgetMessage = ''Monthly request limit reached. Please try again next month.''"

text \<open>The month is the one of the clock; the alert hook runs on the side.\<close>

definition enforce_budget ::
  "(ledger_alert \<Rightarrow> 'w \<Rightarrow> 'w) option \<Rightarrow> string \<Rightarrow> TokenBudget \<Rightarrow> int \<Rightarrow> 'w conf \<Rightarrow> 'w conf" where
  "enforce_budget hook name b used c =
     (case c of (ps, w) \<Rightarrow>
       let alert = (\<lambda>a w. case hook of None \<Rightarrow> w | Some h \<Rightarrow> h a w);
           pct = of_int used / of_int (tbMonthlyTokenLimit b);
           atThreshold = (0 < tbAlertThreshold b \<and> tbAlertThreshold b \<le> pct);
           w1 = (if atThreshold then alert (BudgetThreshold name pct used) w else w);
           downgrade = (smModel (tbDowngradeModel b) \<noteq> [])
       in if used < tbMonthlyTokenLimit b
          then (if atThreshold \<and> tbDowngradeAtThreshold b \<and> downgrade
                then (set_model (tbDowngradeModel b) ps, w1) else (ps, w1))
          else
            (let w2 = alert (BudgetExceeded name (tbOnExceed b) used) w1 in
             if tbOnExceed b = ''block''
             then (ps\<lparr>psResponse := budgetMessage, psStatus := ''budget_exceeded'',
                      psResponseDelivered := True, psSkipped := True\<rparr>, w2)
             else if tbOnExceed b = ''downgrade'' \<and> downgrade
             then (set_model (tbDowngradeModel b) ps, w2)
             else (ps, w2)))"

definition CostEnforcementStep ::
  "'w ledger \<Rightarrow> (ledger_alert \<Rightarrow> 'w \<Rightarrow> 'w) option \<Rightarrow> 'w conf \<Rightarrow> 'w conf outcome" where
  "CostEnforcementStep ld hook c =
     (case c of (ps, w) \<Rightarrow>
       case psSpirit ps of
         None \<Rightarrow> Ret None c
       | Some sp \<Rightarrow>
           (case ldBudget ld (sName sp) w of
              (Inl _, w1) \<Rightarrow> Ret None (ps, w1)
            | (Inr b, w1) \<Rightarrow>
                if tbMonthlyTokenLimit b \<le> 0 then Ret None (ps, w1)
                else (case ldMonthUsage ld (sName sp) w1 of
                        (Inl _, w2) \<Rightarrow> Ret None (ps, w2)
                      | (Inr used, w2) \<Rightarrow> Ret None (enforce_budget hook (sName sp) b used (ps, w2)))))"

text \<open>\<open>pricing.go\<close>: (provider:model, input, output) per thousand tokens, in US dollars.\<close>

definition modelPricing :: "(string \<times> rat \<times> rat) list" where
  "modelPricing =
     [(''anthropic:claude-opus-4-5'', 15 / 1000, 75 / 1000),
      (''anthropic:claude-sonnet-4-5'', 3 / 1000, 15 / 1000),
      (''anthropic:claude-haiku-3-5'', 25 / 100000, 125 / 100000),
      (''anthropic:claude-3-5-sonnet-latest'', 3 / 1000, 15 / 1000),
      (''anthropic:claude-3-5-haiku-latest'', 8 / 10000, 4 / 1000),
      (''anthropic:claude-opus-4-0'', 15 / 1000, 75 / 1000),
      (''openai:gpt-4o'', 25 / 10000, 1 / 100),
      (''openai:gpt-4o-mini'', 15 / 100000, 6 / 10000),
      (''openai:gpt-4-turbo'', 1 / 100, 3 / 100),
      (''openai:o1-mini'', 3 / 1000, 12 / 1000),
      (''openai:o1'', 15 / 1000, 6 / 100),
      (''google:gemini-1.5-pro'', 125 / 100000, 5 / 1000),
      (''google:gemini-1.5-flash'', 75 / 1000000, 3 / 10000),
      (''google:gemini-2.0-flash'', 1 / 10000, 4 / 10000)]"

definition estimateCost :: "string \<Rightarrow> string \<Rightarrow> int \<Rightarrow> int \<Rightarrow> rat" where
  "estimateCost provider model prompt completion =
     (case map_of modelPricing (provider @ '':'' @ model) of
        None \<Rightarrow> 0
      | Some (inp, outp) \<Rightarrow> of_int prompt / 1000 * inp + of_int completion / 1000 * outp)"

definition LedgerUpdateStep :: "'w ledger \<Rightarrow> 'w conf \<Rightarrow> 'w conf outcome" where
  "LedgerUpdateStep ld c =
     (case c of (ps, w) \<Rightarrow>
       case (psSpirit ps, psResult ps) of
         (Some sp, Some res) \<Rightarrow>
           (let u = rrTokensUsed res; mc = sModelConfig sp in
            if uTotal u = 0 then Ret None c
            else Ret None (ps, snd (ldIncrement ld (sName sp) (uTotal u)
                   (estimateCost (smProvider mc) (smModel mc) (uPrompt u) (uCompletion u)) w)))
       | _ \<Rightarrow> Ret None c)"

section \<open>Model routing\<close>

definition matchesRoutingCondition :: "ModelRoutingCondition \<Rightarrow> pulse \<Rightarrow> bool" where
  "matchesRoutingCondition cond e \<longleftrightarrow>
     (let n = int (length (pUserMessage e)) in
      \<not> (0 < rcInputLengthGte cond \<and> n < rcInputLengthGte cond)
      \<and> \<not> (0 < rcInputLengthLt cond \<and> rcInputLengthLt cond \<le> n)
      \<and> \<not> (rcHasAttachments cond \<and> pAttachments e = [])
      \<and> (rcEventType cond = [] \<or> pEventType e = rcEventType cond)
      \<and> (rcTopicPrefix cond = [] \<or> str_prefix (rcTopicPrefix cond) (pSubjectKey e))
      \<and> (rcUserTier cond = []
         \<or> (case gm_get (pKnowledge e) ''user_tier'' of Some (VStr t) \<Rightarrow> t | _ \<Rightarrow> []) = rcUserTier cond))"

fun first_rule :: "ModelRoutingRule list \<Rightarrow> pulse \<Rightarrow> SpiritModel option" where
  "first_rule [] e = None"
| "first_rule (r # rs) e =
     (if matchesRoutingCondition (rrCondition r) e then Some (rrModel r) else first_rule rs e)"

definition ModelRoutingStep :: "ModelRoutingRule list \<Rightarrow> 'w conf \<Rightarrow> 'w conf outcome" where
  "ModelRoutingStep rules c =
     (case c of (ps, w) \<Rightarrow>
       case (psSpirit ps, first_rule rules (psEvent ps)) of
         (Some sp, Some m) \<Rightarrow> Ret None (set_model m ps, w)
       | _ \<Rightarrow> Ret None c)"

section \<open>Conditions of a notifier\<close>

text \<open>\<open>VNil\<close> is the nil interface; \<open>ff\<close> prints a float as \<open>%v\<close> does.\<close>

definition or_nil :: "gval option \<Rightarrow> gval" where
  "or_nil v = (case v of None \<Rightarrow> VNil | Some x \<Rightarrow> x)"

definition resolveKnowledgeField :: "pulse \<Rightarrow> string \<Rightarrow> gval" where
  "resolveKnowledgeField e field =
     (let (key, rest) = (case str_cut (CHR ''.'') field of
            None \<Rightarrow> (field, None) | Some (a, b) \<Rightarrow> (a, Some b)) in
      if key = ''knowledge''
      then (case rest of Some r \<Rightarrow> or_nil (gm_get (pKnowledge e) r)
            | None \<Rightarrow> VMap (gm_entries (pKnowledge e)))
      else if key = ''user_message'' then VStr (pUserMessage e)
      else if key = ''event_type'' then VStr (pEventType e)
      else if key = ''source'' then VStr (pSource e)
      else if key = ''contact_phone'' then VStr (pContactPhone e)
      else or_nil (gm_get (pKnowledge e) field))"

fun toFloat :: "gval \<Rightarrow> rat option" where
  "toFloat (VFloat r) = Some r"
| "toFloat (VFloat32 r) = Some r"
| "toFloat (VInt i) = Some (of_int i)"
| "toFloat (VInt64 i) = Some (of_int i)"
| "toFloat (VInt32 i) = Some (of_int i)"
| "toFloat _ = None"

definition compareNumeric :: "string \<Rightarrow> gval \<Rightarrow> gval \<Rightarrow> bool" where
  "compareNumeric op actual expected =
     (case (toFloat actual, toFloat expected) of
        (Some a, Some b) \<Rightarrow>
          if op = ''gt'' then b < a else if op = ''gte'' then b \<le> a
          else if op = ''lt'' then a < b else if op = ''lte'' then a \<le> b else False
      | _ \<Rightarrow> False)"

fun isInSlice :: "(rat \<Rightarrow> string) \<Rightarrow> gval \<Rightarrow> gval \<Rightarrow> bool" where
  "isInSlice ff actual (VSlice vs) = (fmt_v ff actual \<in> fmt_v ff ` set vs)"
| "isInSlice ff actual (VStrs ss) = (fmt_v ff actual \<in> set ss)"
| "isInSlice ff actual _ = False"

definition evaluateCondition :: "(rat \<Rightarrow> string) \<Rightarrow> NotifierCondition \<Rightarrow> gval \<Rightarrow> bool" where
  "evaluateCondition ff cond actual =
     (let op = ncOperator cond; expected = ncValue cond in
      if actual = VNil then op = ''not_exists''
      else if op = ''exists'' then True
      else if op = ''not_exists'' then False
      else if op = ''eq'' then fmt_v ff actual = fmt_v ff expected
      else if op = ''neq'' then fmt_v ff actual \<noteq> fmt_v ff expected
      else if op = ''contains'' then str_contains (fmt_v ff actual) (fmt_v ff expected)
      else if op \<in> {''gt'', ''gte'', ''lt'', ''lte''} then compareNumeric op actual expected
      else if op = ''in'' then isInSlice ff actual expected
      else if op = ''not_in'' then \<not> isInSlice ff actual expected
      else False)"

definition ConditionEvaluationStep :: "(rat \<Rightarrow> string) \<Rightarrow> 'w conf \<Rightarrow> 'w conf outcome" where
  "ConditionEvaluationStep ff c =
     (case c of (ps, w) \<Rightarrow>
       case psSpirit ps of
         None \<Rightarrow> Ret None c
       | Some sp \<Rightarrow>
           if IsNotifier sp
              \<and> list_ex (\<lambda>k. \<not> evaluateCondition ff k (resolveKnowledgeField (psEvent ps) (ncField k)))
                  (nfConditions (sNotifierConfig sp))
           then Ret None (ps\<lparr>psSkipped := True, psStatus := ''skipped''\<rparr>, w)
           else Ret None c)"

section \<open>Reasoning\<close>

definition buildMessageHistory :: "memory \<Rightarrow> OracleMessage list" where
  "buildMessageHistory m =
     map (\<lambda>t. (text_message (thRole t) (thContent t))
            \<lparr>omImageURLs := thImageURLs t, omAudioURLs := thAudioURLs t\<rparr>) (meThreads m)"

text \<open>
  The executor, and the session object the context holds while it runs: Actions change it there.
  \<open>rxLost\<close> tells that the context was cancelled and the stream's last event, the one that
  carries the result, was dropped by the emitter's \<open>select\<close>.
\<close>

record 'w reasoner =
  rxRun :: "ReasoningRequest \<Rightarrow> bool \<Rightarrow> 'w \<Rightarrow> (gerr option \<times> ReasoningResult option \<times> 'w) option"
  rxPut :: "memory \<Rightarrow> 'w \<Rightarrow> 'w"
  rxGet :: "'w \<Rightarrow> memory option"
  rxLost :: "'w \<Rightarrow> bool"
  rxIndent :: "gmap \<Rightarrow> string"

definition executeStreaming ::
  "'w reasoner \<Rightarrow> ReasoningRequest \<Rightarrow> 'w \<Rightarrow> (gerr option \<times> ReasoningResult option \<times> 'w) option" where
  "executeStreaming rx req w =
     (case rxRun rx req True w of
        None \<Rightarrow> None
      | Some (err, res, w1) \<Rightarrow> Some (if rxLost rx w1 then (None, None, w1) else (err, res, w1)))"

definition buildReasoningRequest :: "'w reasoner \<Rightarrow> pulse \<Rightarrow> spirit \<Rightarrow> memory \<Rightarrow> ReasoningRequest" where
  "buildReasoningRequest rx e sp m =
     \<lparr>rqEvent = e, rqSpirit = sp, rqSession = CtxSession,
      rqSystemPrompt = buildSystemPrompt (rxIndent rx) sp e,
      rqConversationContext = buildMessageHistory m, rqResponseFormat = sResponseFormat sp\<rparr>"

definition populateStateFromResult ::
  "memory option \<Rightarrow> ReasoningResult option \<Rightarrow> ProcessingState \<Rightarrow> ProcessingState" where
  "populateStateFromResult live r ps =
     (case r of
        None \<Rightarrow> ps\<lparr>psSession := live\<rparr>
      | Some res \<Rightarrow>
          ps\<lparr>psResult := Some res, psResponse := rrFinalResponse res, psFinalError := rrFinalError res,
             psSession := (case rrFinalSession res of OwnSession m \<Rightarrow> Some m | _ \<Rightarrow> live),
             psResponseDelivered := (psResponseDelivered ps \<or> rrResponseDelivered res)\<rparr>)"

text \<open>A nil Spirit or a nil session is dereferenced while the request is built.\<close>

definition ReasoningStep :: "'w reasoner \<Rightarrow> 'w conf \<Rightarrow> 'w conf outcome" where
  "ReasoningStep rx c =
     (case c of (ps, w) \<Rightarrow>
       if psSkipped ps then Ret None c
       else case psSpirit ps of
         None \<Rightarrow> Panic c
       | Some sp \<Rightarrow>
           if IsNotifier sp then Ret None c
           else (case psSession ps of
             None \<Rightarrow> Panic c
           | Some m \<Rightarrow>
               (let ps1 = ps\<lparr>psSessionMessagesCount := length (meThreads m)\<rparr>;
                    w1 = rxPut rx m w;
                    req = buildReasoningRequest rx (psEvent ps) sp m
                in case (if psSink ps then executeStreaming rx req w1 else rxRun rx req False w1) of
                     None \<Rightarrow> Panic (ps1, w1)
                   | Some (err, res, w2) \<Rightarrow>
                       Ret (map_option ErrReasoningFailed err)
                         (populateStateFromResult (rxGet rx w2) res ps1, w2))))"

section \<open>Notification\<close>

text \<open>\<open>strings.ReplaceAll\<close> with a non-empty pattern: leftmost, without overlaps.\<close>

function str_replace :: "string \<Rightarrow> string \<Rightarrow> string \<Rightarrow> string" where
  "str_replace old new s =
     (if old = [] then s
      else case s of
        [] \<Rightarrow> []
      | x # xs \<Rightarrow>
          if str_prefix old s then new @ str_replace old new (drop (length old) s)
          else x # str_replace old new xs)"
  by auto
termination
  by (relation "measure (\<lambda>(old, _, s). length s)") auto

declare str_replace.simps [simp del]

definition render_value :: "(rat \<Rightarrow> string) \<Rightarrow> gval \<Rightarrow> string" where
  "render_value ff v =
     (case v of
        VNil \<Rightarrow> []
      | VStr s \<Rightarrow> s
      | VFloat r \<Rightarrow> (if of_int \<lfloor>r\<rfloor> = r \<and> in_int64 \<lfloor>r\<rfloor> then int_dec \<lfloor>r\<rfloor> else str_trim (fmt_v ff v))
      | _ \<Rightarrow> str_trim (fmt_v ff v))"

text \<open>The entries of the map in the order Go happens to range over them.\<close>

fun renderTemplate :: "(rat \<Rightarrow> string) \<Rightarrow> string \<Rightarrow> gmap \<Rightarrow> string" where
  "renderTemplate ff t [] = t"
| "renderTemplate ff t ((k, v) # es) =
     renderTemplate ff (str_replace (''{{'' @ k @ ''}}'') (render_value ff v) t) es"

record 'w voice =
  voAuto :: bool
  voSend :: "pulse \<Rightarrow> string \<Rightarrow> 'w \<Rightarrow> gerr option \<times> 'w"

record ('w, 'p) notifier =
  ntVoices :: "'w voice reg"
  ntProvider :: "string \<Rightarrow> gerr + 'p"
  ntGenerate :: "'p \<Rightarrow> OracleRequest \<Rightarrow> 'w \<Rightarrow> (gerr + OracleResponse) \<times> 'w"
  ntFloat :: "rat \<Rightarrow> string"
  ntOrder :: "gmap \<Rightarrow> gmap"
  ntIndent :: "gmap \<Rightarrow> string"

definition empty_result :: ReasoningResult where
  "empty_result = \<lparr>rrIterations = [], rrFinalResponse = [], rrFinalError = [], rrWorkingContext = [],
     rrIterationsUsed = 0, rrTokensUsed = zero_usage, rrTokensByModel = [], rrFinalSession = NoSession,
     rrResponseDelivered = False, rrCitations = [], rrPlan = [], rrConfidence = None,
     rrHandoffRaised = False, rrStructured = []\<rparr>"

definition notifier_callOracle ::
  "('w, 'p) notifier \<Rightarrow> spirit \<Rightarrow> 'w conf \<Rightarrow> (gerr + string) \<times> 'w conf" where
  "notifier_callOracle nt sp c =
     (case c of (ps, w) \<Rightarrow>
       let mc = sModelConfig sp in
       case ntProvider nt (smProvider mc) of
         Inl e \<Rightarrow> (Inl (EWrap ''get oracle provider'' e), c)
       | Inr p \<Rightarrow>
           (case ntGenerate nt p
                  \<lparr>orModel = smModel mc, orSystemPrompt = buildSystemPrompt (ntIndent nt) sp (psEvent ps),
                   orMessages = [text_message RoleUser (pUserMessage (psEvent ps))],
                   orTemperature = smTemperature mc, orMaxTokens = 0, orTools = [], orUseTools = False,
                   orAttachments = [], orResponseFormat = None\<rparr> w of
              (Inl e, w1) \<Rightarrow> (Inl (EWrap ''generate oracle response'' e), (ps, w1))
            | (Inr resp, w1) \<Rightarrow>
                (Inr (oaContent resp),
                 (ps\<lparr>psResult := Some (accumulateTokens (oaTokensUsed resp)
                        (case psResult ps of Some r \<Rightarrow> r | None \<Rightarrow> empty_result))\<rparr>, w1))))"

text \<open>The message of the mode: \<open>None\<close> where the step ends without one.\<close>

definition notifier_message ::
  "('w, 'p) notifier \<Rightarrow> spirit \<Rightarrow> 'w conf \<Rightarrow> string option \<times> 'w conf" where
  "notifier_message nt sp c =
     (let cfg = sNotifierConfig sp in
      if nfMode cfg = ''template''
      then (Some (renderTemplate (ntFloat nt) (nfTemplate cfg)
              (ntOrder nt (gm_entries (pKnowledge (psEvent (fst c)))))), c)
      else if nfMode cfg = ''llm''
      then (case notifier_callOracle nt sp c of (Inl _, c1) \<Rightarrow> (None, c1) | (Inr t, c1) \<Rightarrow> (Some t, c1))
      else (None, c))"

definition NotificationStep :: "('w, 'p) notifier \<Rightarrow> 'w conf \<Rightarrow> 'w conf outcome" where
  "NotificationStep nt c =
     (case c of (ps, w) \<Rightarrow>
       case psSpirit ps of
         None \<Rightarrow> Ret None c
       | Some sp \<Rightarrow>
           if \<not> IsNotifier sp \<or> psSkipped ps \<or> lVoiceName (psLink ps) = [] then Ret None c
           else (case voice_Get (lVoiceName (psLink ps)) (ntVoices nt) of
             Inl _ \<Rightarrow> Ret None c
           | Inr voice \<Rightarrow>
               (case notifier_message nt sp c of
                  (None, c1) \<Rightarrow> Ret None c1
                | (Some msg, (ps1, w1)) \<Rightarrow>
                    if msg = [] then Ret None (ps1\<lparr>psSkipped := True, psStatus := ''skipped''\<rparr>, w1)
                    else (case voSend voice (psEvent ps1) msg w1 of
                            (Some _, w2) \<Rightarrow> Ret None (ps1\<lparr>psResponse := msg\<rparr>, w2)
                          | (None, w2) \<Rightarrow>
                              Ret None (ps1\<lparr>psResponse := msg, psResponseDelivered := True\<rparr>, w2)))))"

section \<open>Guarding and delivering the response\<close>

text \<open>
  The patterns are the tests of the compiled regular expressions; \<open>redact\<close> gives the redacted
  text and whether anything was found, and is absent when redaction is off.
\<close>

record output_guard =
  ogBlocked :: "(string \<Rightarrow> bool) list"
  ogBlockedMessage :: string
  ogRedact :: "(string \<Rightarrow> string \<times> bool) option"

definition NewOutputGuard :: "(string \<Rightarrow> (string \<Rightarrow> bool) option) \<Rightarrow> string list \<Rightarrow> string \<Rightarrow> (string \<Rightarrow> string \<times> bool) option \<Rightarrow> output_guard" where
  "NewOutputGuard compile patterns msg redact =
     \<lparr>ogBlocked = List.map_filter compile patterns,
      ogBlockedMessage = (if msg = [] then ''I can'' @ [CHR 0x27] @ ''t share that response.'' else msg),
      ogRedact = redact\<rparr>"

definition guarded :: "output_guard \<Rightarrow> string \<Rightarrow> string" where
  "guarded og text =
     (if list_ex (\<lambda>p. p text) (ogBlocked og) then ogBlockedMessage og
      else case ogRedact og of
        None \<Rightarrow> text
      | Some redact \<Rightarrow> (case redact text of (t, hit) \<Rightarrow> if hit then t else text))"

definition OutputGuardStep :: "output_guard \<Rightarrow> 'w conf \<Rightarrow> 'w conf outcome" where
  "OutputGuardStep og c =
     (case c of (ps, w) \<Rightarrow>
       if psResponse ps = [] then Ret None c
       else Ret None (ps\<lparr>psResponse := guarded og (psResponse ps)\<rparr>, w))"

definition ResponseDeliveryStep :: "'w voice reg \<Rightarrow> 'w conf \<Rightarrow> 'w conf outcome" where
  "ResponseDeliveryStep voices c =
     (case c of (ps, w) \<Rightarrow>
       if psStreaming ps then Ret None (ps\<lparr>psResponseDelivered := True\<rparr>, w)
       else if psResponseDelivered ps \<or> lVoiceName (psLink ps) = [] \<or> psResponse ps = [] then Ret None c
       else (case voice_Get (lVoiceName (psLink ps)) voices of
               Inl _ \<Rightarrow> Ret None c
             | Inr voice \<Rightarrow>
                 if \<not> voAuto voice then Ret None c
                 else (case voSend voice (psEvent ps) (psResponse ps) w of
                         (Some _, w1) \<Rightarrow> Ret None (ps, w1)
                       | (None, w1) \<Rightarrow> Ret None (ps\<lparr>psResponseDelivered := True\<rparr>, w1))))"

section \<open>Rituals\<close>

definition MetadataKeyRitualID :: string where
  "MetadataKeyRitualID = ''ritual_id''"

definition ritual_of :: "pulse \<Rightarrow> string option" where
  "ritual_of e = (case GetMetadataString MetadataKeyRitualID e of
     (k, ok) \<Rightarrow> if \<not> ok \<or> k = [] then None else Some k)"

definition RitualMarkStep :: "(string \<Rightarrow> 'w \<Rightarrow> gerr option \<times> 'w) \<Rightarrow> 'w conf \<Rightarrow> 'w conf outcome" where
  "RitualMarkStep MarkRunning c =
     (case c of (ps, w) \<Rightarrow>
       case ritual_of (psEvent ps) of
         None \<Rightarrow> Ret None c
       | Some k \<Rightarrow>
           (case MarkRunning k w of
              (None, w1) \<Rightarrow> Ret None (ps, w1)
            | (Some e, w1) \<Rightarrow>
                if is_ritual_terminal e
                then Ret (Some (EOrch ''SCHEDULED_TASK_SKIP'' (err_text e) None False)) (ps, w1)
                else Ret None (ps, w1)))"

definition MarkExecutedStep :: "(string \<Rightarrow> 'w \<Rightarrow> gerr option \<times> 'w) \<Rightarrow> 'w conf \<Rightarrow> 'w conf outcome" where
  "MarkExecutedStep MarkExecuted c =
     (case c of (ps, w) \<Rightarrow>
       case ritual_of (psEvent ps) of
         None \<Rightarrow> Ret None c
       | Some k \<Rightarrow> Ret None (ps, snd (MarkExecuted k w)))"

section \<open>Media\<close>

fun type_name :: "artifact_type \<Rightarrow> string" where
  "type_name ArtifactImage = ''image''"
| "type_name ArtifactAudio = ''audio''"
| "type_name ArtifactVideo = ''video''"
| "type_name ArtifactDocument = ''document''"

definition mimeTypes :: "(string \<times> string) list" where
  "mimeTypes =
     [(''audio/ogg'', ''ogg''), (''audio/ogg; codecs=opus'', ''ogg''), (''audio/mpeg'', ''mp3''),
      (''audio/mp3'', ''mp3''), (''audio/mp4'', ''m4a''), (''audio/wav'', ''wav''),
      (''image/jpeg'', ''jpg''), (''image/png'', ''png''), (''image/webp'', ''webp''),
      (''image/gif'', ''gif''), (''video/mp4'', ''mp4''), (''video/3gpp'', ''3gp''),
      (''application/pdf'', ''pdf'')]"

definition mimeToExt :: "string \<Rightarrow> string" where
  "mimeToExt mime =
     (case map_of mimeTypes mime of
        Some x \<Rightarrow> x
      | None \<Rightarrow> (case str_cut (CHR ''/'') mime of Some (_, rest) \<Rightarrow> rest | None \<Rightarrow> ''bin''))"

definition buildVaultKey :: "string \<Rightarrow> string \<Rightarrow> artifact \<Rightarrow> string" where
  "buildVaultKey rid mk a =
     map (\<lambda>ch. if ch = CHR '':'' then CHR ''/'' else ch) mk @ ''/'' @ type_name (aType a) @ ''_'' @ rid
       @ ''.'' @ mimeToExt (aMimeType a)"

text \<open>\<open>rid\<close> draws the random part of a key.\<close>

fun vault_all ::
  "(string \<Rightarrow> nat list \<Rightarrow> string \<Rightarrow> 'w \<Rightarrow> (gerr + string) \<times> 'w) \<Rightarrow> ('w \<Rightarrow> string \<times> 'w) \<Rightarrow> string
     \<Rightarrow> artifact list \<Rightarrow> 'w \<Rightarrow> artifact list \<times> 'w" where
  "vault_all store rid mk [] w = ([], w)"
| "vault_all store rid mk (a # as) w =
     (let (a1, w1) =
        (if aData a = [] \<or> aURL a \<noteq> [] then (a, w)
         else case rid w of (r, w1) \<Rightarrow>
           (case store (buildVaultKey r mk a) (aData a) (aMimeType a) w1 of
              (Inl _, w2) \<Rightarrow> (a, w2)
            | (Inr url, w2) \<Rightarrow> (a\<lparr>aURL := url\<rparr>, w2)));
          (as1, w2) = vault_all store rid mk as w1
      in (a1 # as1, w2))"

definition MediaVaultStep ::
  "(string \<Rightarrow> nat list \<Rightarrow> string \<Rightarrow> 'w \<Rightarrow> (gerr + string) \<times> 'w) \<Rightarrow> ('w \<Rightarrow> string \<times> 'w) \<Rightarrow> 'w conf
     \<Rightarrow> 'w conf outcome" where
  "MediaVaultStep store rid c =
     (case c of (ps, w) \<Rightarrow>
       let (as, w1) = vault_all store rid (pMemoryKey (psEvent ps)) (pAttachments (psEvent ps)) w
       in Ret None (ps\<lparr>psEvent := (psEvent ps)\<lparr>pAttachments := as\<rparr>\<rparr>, w1))"

definition MediaProcessingStep ::
  "(pulse \<Rightarrow> 'w \<Rightarrow> (OracleUsage \<times> gerr option \<times> pulse) \<times> 'w) \<Rightarrow> 'w conf \<Rightarrow> 'w conf outcome" where
  "MediaProcessingStep lens c =
     (case c of (ps, w) \<Rightarrow>
       if pAttachments (psEvent ps) = [] then Ret None c
       else (case lens (psEvent ps) w of
               ((u, err, e1), w1) \<Rightarrow>
                 Ret (map_option (EWrap ''process media'') err) (ps\<lparr>psMediaTokens := u, psEvent := e1\<rparr>, w1)))"

end
