(* ===== verification/Engine.thy ===== *)
theory Engine
  imports PipeRoute PipeMemory PipeDeliver
begin

text \<open>
  The engine, \<open>orchestrator/engine.go\<close>: the collaborators of a \<open>Weave\<close>, the list of steps
  \<open>buildProcessingPipeline\<close> makes of them, the audit record (\<open>domain/entities/chronicle.go\<close>),
  the response of a cycle (\<open>domain/entities/response.go\<close>), and the drivers that run the
  pipeline for one Pulse, for a stream and for a batch.
\<close>

section \<open>Responses\<close>

datatype response_status = ResponseSuccess | ResponsePartial | ResponseFailed | ResponseDuplicate

record response =
  reStatus :: response_status
  reEventID :: string
  reMemoryKey :: string
  reSpiritUsed :: string
  reActionsExecuted :: "string list"
  reMessage :: string
  reFinalResponse :: string
  reError :: string
  reDelivered :: bool

definition NewResponse :: "string \<Rightarrow> string \<Rightarrow> string \<Rightarrow> string list \<Rightarrow> response" where
  "NewResponse eid mk sp acts =
     \<lparr>reStatus = ResponseSuccess, reEventID = eid, reMemoryKey = mk, reSpiritUsed = sp,
      reActionsExecuted = acts, reMessage = ''Pulse processed successfully'', reFinalResponse = [],
      reError = [], reDelivered = False\<rparr>"

definition NewDuplicateResponse :: "string \<Rightarrow> string \<Rightarrow> response" where
  "NewDuplicateResponse eid mk =
     \<lparr>reStatus = ResponseDuplicate, reEventID = eid, reMemoryKey = mk, reSpiritUsed = [],
      reActionsExecuted = [], reMessage = ''duplicate event ignored (already processed)'',
      reFinalResponse = [], reError = [], reDelivered = False\<rparr>"

definition NewErrorResponse :: "string \<Rightarrow> string \<Rightarrow> string \<Rightarrow> response" where
  "NewErrorResponse eid mk msg =
     \<lparr>reStatus = ResponseFailed, reEventID = eid, reMemoryKey = mk, reSpiritUsed = [],
      reActionsExecuted = [], reMessage = ''Pulse processing failed'', reFinalResponse = [],
      reError = msg, reDelivered = False\<rparr>"

section \<open>The audit record\<close>

record AttachmentLog =
  atlType :: artifact_type
  atlMediaID :: string
  atlMimeType :: string
  atlStorageURL :: string
  atlDownloaded :: bool

record InteractionSpiritLog =
  islID :: string
  islName :: string
  islVersion :: string
  islProvider :: string
  islModel :: string
  islTemperature :: rat

record Chronicle =
  chMemoryKey :: string
  chEventKey :: string
  chEvent :: pulse
  chSubjectKey :: string
  chAttachments :: "AttachmentLog list"
  chScoutsUsed :: "string list"
  chSpirit :: InteractionSpiritLog
  chStatus :: string
  chProcessingTimeMs :: int
  chFailedAtStep :: string
  chPathfinderUsed :: string
  chArchivistApplied :: bool
  chSessionMessagesCount :: nat
  chCoalescedCount :: nat
  chIterations :: "IterationLog list"
  chIterationsUsed :: nat
  chFinalResponse :: string
  chFinalError :: string
  chDelivered :: bool
  chResponseChannel :: string
  chReasoningTokens :: OracleUsage
  chMediaTokens :: OracleUsage
  chTotalTokens :: OracleUsage

definition buildAttachmentLogs :: "artifact list \<Rightarrow> AttachmentLog list" where
  "buildAttachmentLogs as =
     map (\<lambda>a. \<lparr>atlType = aType a, atlMediaID = aMediaID a, atlMimeType = aMimeType a,
               atlStorageURL = aURL a, atlDownloaded = (aData a \<noteq> [])\<rparr>) as"

definition spirit_log :: "spirit option \<Rightarrow> InteractionSpiritLog" where
  "spirit_log sp =
     (case sp of
        None \<Rightarrow> \<lparr>islID = [], islName = [], islVersion = [], islProvider = [], islModel = [], islTemperature = 0\<rparr>
      | Some s \<Rightarrow>
          \<lparr>islID = sID s, islName = sName s, islVersion = int_dec (sVersion s),
           islProvider = smProvider (sModelConfig s), islModel = smModel (sModelConfig s),
           islTemperature = smTemperature (sModelConfig s)\<rparr>)"

text \<open>
  The record \<open>logInteraction\<close> builds from the state. The event fields of the Go struct are
  copied one by one from the Pulse; here the record keeps the Pulse. \<open>now\<close> and the start
  time are milliseconds.
\<close>

definition interaction_log :: "int \<Rightarrow> ProcessingState \<Rightarrow> Chronicle" where
  "interaction_log now ps =
     (let r = (case psResult ps of Some r \<Rightarrow> rrTokensUsed r | None \<Rightarrow> zero_usage);
          m = psMediaTokens ps
      in \<lparr>chMemoryKey = pMemoryKey (psEvent ps), chEventKey = psEventKey ps, chEvent = psEvent ps,
          chSubjectKey = (case psSession ps of Some s \<Rightarrow> meSubjectKey s | None \<Rightarrow> []),
          chAttachments = buildAttachmentLogs (pAttachments (psEvent ps)),
          chScoutsUsed = lRequireScouts (psLink ps),
          chSpirit = spirit_log (psSpirit ps),
          chStatus = (if psStatus ps \<noteq> [] then psStatus ps
                      else if psFinalError ps \<noteq> [] then ''error'' else ''success''),
          chProcessingTimeMs = now - psStartTime ps,
          chFailedAtStep = psFailedAtStep ps,
          chPathfinderUsed = (if psPathfinderUsed ps = [] then lPathfinderName (psLink ps) else psPathfinderUsed ps),
          chArchivistApplied = psArchivistApplied ps,
          chSessionMessagesCount = psSessionMessagesCount ps,
          chCoalescedCount = psCoalescedCount ps,
          chIterations = (case psResult ps of Some r \<Rightarrow> rrIterations r | None \<Rightarrow> []),
          chIterationsUsed = (case psResult ps of Some r \<Rightarrow> rrIterationsUsed r | None \<Rightarrow> 0),
          chFinalResponse = psResponse ps,
          chFinalError = psFinalError ps,
          chDelivered = psResponseDelivered ps,
          chResponseChannel = lVoiceName (psLink ps),
          chReasoningTokens = r, chMediaTokens = m, chTotalTokens = add_usage r m\<rparr>)"

definition logInteraction ::
  "(Chronicle \<Rightarrow> 'w \<Rightarrow> gerr option \<times> 'w) \<Rightarrow> ('w \<Rightarrow> int) \<Rightarrow> ProcessingState \<Rightarrow> 'w \<Rightarrow> gerr option \<times> 'w" where
  "logInteraction store now ps w =
     (case store (interaction_log (now w) ps) w of (e, w1) \<Rightarrow> (map_option (EWrap ''log interaction'') e, w1))"

definition AuditLogStep ::
  "(Chronicle \<Rightarrow> 'w \<Rightarrow> gerr option \<times> 'w) \<Rightarrow> ('w \<Rightarrow> int) \<Rightarrow> 'w conf \<Rightarrow> 'w conf outcome" where
  "AuditLogStep store now c = Ret None (fst c, snd (logInteraction store now (fst c) (snd c)))"

text \<open>
  The extraction of facts runs on its own goroutine; \<open>extract\<close> is what it does to the world,
  given user, Spirit and conversation.
\<close>

definition ImprintExtractionStep ::
  "bool \<Rightarrow> (string \<Rightarrow> string \<Rightarrow> string \<Rightarrow> 'w \<Rightarrow> 'w) \<Rightarrow> 'w conf \<Rightarrow> 'w conf outcome" where
  "ImprintExtractionStep enabled extract c =
     (case c of (ps, w) \<Rightarrow>
       case psSpirit ps of
         None \<Rightarrow> Ret None c
       | Some sp \<Rightarrow>
           if \<not> enabled \<or> \<not> (IsConversational sp \<or> IsOrchestrator sp) \<or> psResponse ps = []
              \<or> pContactPhone (psEvent ps) = []
           then Ret None c
           else Ret None (ps, extract (pContactPhone (psEvent ps)) (sName sp)
                  (''User: '' @ pUserMessage (psEvent ps) @ nl @ ''Assistant: '' @ psResponse ps) w))"

section \<open>The engine and its pipeline\<close>

record ('w, 'h, 'p) weave =
  wvDeadline :: "string \<Rightarrow> 'w \<Rightarrow> bool"
  wvNow :: "'w \<Rightarrow> int"
  wvWait :: "int \<Rightarrow> 'w \<Rightarrow> 'w"
  wvValidate :: "pulse \<Rightarrow> gerr option"
  wvSeen :: "(string \<Rightarrow> int \<Rightarrow> 'w \<Rightarrow> (gerr + bool) \<times> 'w) option"
  wvIdempotencyTTL :: int
  wvAllow :: "(string \<Rightarrow> 'w \<Rightarrow> (gerr + bool) \<times> 'w) option"
  wvBond :: "'w bond_client"
  wvInbox :: "'w inbox_client option"
  wvVigil :: "(string \<Rightarrow> 'w \<Rightarrow> (gerr + string option) \<times> 'w) option"
  wvTyping :: "((string \<Rightarrow> 'w \<Rightarrow> gerr option \<times> 'w) \<times> (string \<Rightarrow> 'w \<Rightarrow> gerr option \<times> 'w)) option"
  wvRituals :: "((string \<Rightarrow> 'w \<Rightarrow> gerr option \<times> 'w) \<times> (string \<Rightarrow> 'w \<Rightarrow> gerr option \<times> 'w)) option"
  wvScouts :: "'w scout scout_reg option"
  wvPathfinders :: "pathfinder_registry option"
  wvPins :: "(string \<Rightarrow> 'w \<Rightarrow> (gerr + string) \<times> 'w) option"
  wvFindSpirit :: "string \<Rightarrow> 'w \<Rightarrow> (gerr + spirit) \<times> 'w"
  wvHTTPTools :: "((string \<Rightarrow> 'w \<Rightarrow> (gerr + 'h list) \<times> 'w) \<times> ('h \<Rightarrow> string) \<times> ('h \<Rightarrow> 'w \<Rightarrow> gerr option \<times> 'w)) option"
  wvLoreHarvest :: "(pulse \<Rightarrow> string list \<Rightarrow> 'w \<Rightarrow> gerr option \<times> pulse \<times> 'w) option"
  wvImprintHarvest :: "(pulse \<Rightarrow> string \<Rightarrow> 'w \<Rightarrow> gerr option \<times> pulse \<times> 'w) option"
  wvRouters :: "(pulse \<Rightarrow> 'w \<Rightarrow> string \<times> 'w) reg option"
  wvVault :: "((string \<Rightarrow> nat list \<Rightarrow> string \<Rightarrow> 'w \<Rightarrow> (gerr + string) \<times> 'w) \<times> ('w \<Rightarrow> string \<times> 'w)) option"
  wvLens :: "(pulse \<Rightarrow> 'w \<Rightarrow> (OracleUsage \<times> gerr option \<times> pulse) \<times> 'w) option"
  wvMemory :: "'w memory_mgr"
  wvEchoes :: "'w echo_repo"
  wvArchivist :: "((string \<Rightarrow> string \<Rightarrow> thread list \<Rightarrow> 'w \<Rightarrow> (gerr + string) \<times> 'w) \<times> int \<times> int) option"
  wvInboxMinWindow :: int
  wvLedger :: "'w ledger option"
  wvAlertHook :: "(ledger_alert \<Rightarrow> 'w \<Rightarrow> 'w) option"
  wvRoutingRules :: "ModelRoutingRule list"
  wvReasoner :: "'w reasoner"
  wvNotifier :: "('w, 'p) notifier"
  wvOutputGuard :: "output_guard option"
  wvLog :: "Chronicle \<Rightarrow> 'w \<Rightarrow> gerr option \<times> 'w"
  wvImprints :: "(bool \<times> (string \<Rightarrow> string \<Rightarrow> string \<Rightarrow> 'w \<Rightarrow> 'w)) option"

definition stp :: "string \<Rightarrow> ('w conf \<Rightarrow> 'w conf outcome) \<Rightarrow> 'w pstep" where
  "stp n f = \<lparr>stName = n, stExec = f\<rparr>"

text \<open>A step that is there only when its collaborator is configured.\<close>

definition opt_step :: "string \<Rightarrow> ('a \<Rightarrow> 'w conf \<Rightarrow> 'w conf outcome) \<Rightarrow> 'a option \<Rightarrow> 'w pstep list" where
  "opt_step n f x = (case x of None \<Rightarrow> [] | Some a \<Rightarrow> [stp n (f a)])"

definition gate_steps :: "('w, 'h, 'p) weave \<Rightarrow> 'w pstep list" where
  "gate_steps wv =
     [stp ''Validation'' (ValidationStep (wvValidate wv))]
     @ opt_step ''IdempotencyCheck'' (\<lambda>seen. IdempotencyStep seen (wvIdempotencyTTL wv)) (wvSeen wv)
     @ opt_step ''RateLimit'' RateLimitStep (wvAllow wv)
     @ [stp ''LockAcquisition'' (LockAcquisitionStep (wvBond wv) (wvInbox wv)),
        stp ''VigilCheck'' (VigilCheckStep (wvVigil wv))]
     @ opt_step ''TypingStart'' (\<lambda>(start, _). TypingStep start) (wvTyping wv)
     @ opt_step ''RitualMark'' (\<lambda>(mark, _). RitualMarkStep mark) (wvRituals wv)"

definition routing_steps :: "('w, 'h, 'p) weave \<Rightarrow> 'w pstep list" where
  "routing_steps wv =
     [stp ''LinkScout'' (LinkScoutStep (wvScouts wv) (wvBond wv)),
      stp ''Filter'' FilterStep,
      stp ''SpiritSelection'' (SpiritSelectionStep (wvPathfinders wv) (wvPins wv)),
      stp ''SpiritLoad'' (SpiritLoadStep (wvFindSpirit wv))]
     @ opt_step ''HTTPToolLoad'' (\<lambda>(lookup, nm, register). HTTPToolLoadStep lookup nm register) (wvHTTPTools wv)
     @ [stp ''SpiritScout'' (SpiritScoutStep (wvScouts wv) (wvLoreHarvest wv) (wvImprintHarvest wv)),
        stp ''OrchestratorRouting'' (OrchestratorRoutingStep (wvRouters wv) (wvFindSpirit wv))]"

definition session_steps :: "('w, 'h, 'p) weave \<Rightarrow> 'w pstep list" where
  "session_steps wv =
     opt_step ''MediaVault'' (\<lambda>(store, rid). MediaVaultStep store rid) (wvVault wv)
     @ opt_step ''MediaProcessing'' MediaProcessingStep (wvLens wv)
     @ [stp ''SessionSetup'' (SessionSetupStep (wvMemory wv) (wvNow wv))]
     @ opt_step ''Archivist'' (\<lambda>(f, threshold, keep). ArchivistStep (Some f) threshold keep) (wvArchivist wv)
     @ [stp ''MessageCoalescing''
          (MessageCoalescingStep (wvMemory wv) (wvInbox wv) (wvInboxMinWindow wv) (wvNow wv) (wvWait wv))]
     @ opt_step ''CostEnforcement'' (\<lambda>ld. CostEnforcementStep ld (wvAlertHook wv)) (wvLedger wv)
     @ (if wvRoutingRules wv = [] then [] else [stp ''ModelRouting'' (ModelRoutingStep (wvRoutingRules wv))])"

definition answer_steps :: "('w, 'h, 'p) weave \<Rightarrow> 'w pstep list" where
  "answer_steps wv =
     [stp ''ConditionEvaluation'' (ConditionEvaluationStep (ntFloat (wvNotifier wv))),
      stp ''Reasoning'' (ReasoningStep (wvReasoner wv)),
      stp ''Notification'' (NotificationStep (wvNotifier wv))]
     @ opt_step ''OutputGuard'' OutputGuardStep (wvOutputGuard wv)
     @ [stp ''Persistence'' (PersistenceStep (wvMemory wv) (wvEchoes wv) (wvNow wv)),
        stp ''ResponseDelivery'' (ResponseDeliveryStep (ntVoices (wvNotifier wv))),
        stp ''AuditLog'' (AuditLogStep (wvLog wv) (wvNow wv))]
     @ opt_step ''ImprintExtraction'' (\<lambda>(enabled, extract). ImprintExtractionStep enabled extract) (wvImprints wv)
     @ opt_step ''LedgerUpdate'' LedgerUpdateStep (wvLedger wv)
     @ opt_step ''MarkExecuted'' (\<lambda>(_, executed). MarkExecutedStep executed) (wvRituals wv)"

definition buildProcessingPipeline :: "('w, 'h, 'p) weave \<Rightarrow> 'w pstep list" where
  "buildProcessingPipeline wv = gate_steps wv @ routing_steps wv @ session_steps wv @ answer_steps wv"

definition deferred_steps :: "('w, 'h, 'p) weave \<Rightarrow> 'w pstep list" where
  "deferred_steps wv = opt_step ''TypingStop'' (\<lambda>(_, stop). TypingStep stop) (wvTyping wv)"

section \<open>Drivers\<close>

text \<open>The pipeline of the engine run on a state.\<close>

definition execute_pipeline :: "('w, 'h, 'p) weave \<Rightarrow> ProcessingState \<Rightarrow> 'w \<Rightarrow> 'w conf outcome" where
  "execute_pipeline wv ps w =
     pipeline_Execute (wvDeadline wv) (buildProcessingPipeline wv) (deferred_steps wv) (wvNow wv w) (ps, w)"

definition release_cleanup :: "'w bond_client \<Rightarrow> 'w conf \<Rightarrow> 'w conf" where
  "release_cleanup b c = (if psLockAcquired (fst c) then final (LockReleaseStep b c) else c)"

definition action_names :: "ReasoningResult \<Rightarrow> string list" where
  "action_names r =
     concat (map (\<lambda>it. filter (\<lambda>n. n \<noteq> []) (map alActionName (ilActionCalls it))) (rrIterations r))"

definition success_response :: "ProcessingState \<Rightarrow> spirit \<Rightarrow> ReasoningResult \<Rightarrow> response" where
  "success_response ps sp r =
     (NewResponse (pID (psEvent ps)) (pMemoryKey (psEvent ps)) (sName sp) (action_names r))
       \<lparr>reDelivered := psResponseDelivered ps, reFinalResponse := psResponse ps\<rparr>"

definition error_response :: "ProcessingState \<Rightarrow> gerr \<Rightarrow> response" where
  "error_response ps e =
     (NewErrorResponse (pID (psEvent ps)) (pMemoryKey (psEvent ps)) (''processing failed: '' @ err_text e))
       \<lparr>reDelivered := psResponseDelivered ps\<rparr>"

text \<open>
  \<open>None\<close> is a panic: of the pipeline, before the lock is released, or of the success path,
  which reads the Spirit and the result of the reasoning.
\<close>

definition runProcessingPipeline ::
  "('w, 'h, 'p) weave \<Rightarrow> ProcessingState \<Rightarrow> 'w \<Rightarrow> (response \<times> gerr option) option \<times> 'w" where
  "runProcessingPipeline wv ps w =
     (case execute_pipeline wv ps w of
        Panic c \<Rightarrow> (None, snd c)
      | Ret err c \<Rightarrow>
          (case (release_cleanup (wvBond wv) c, err) of
             ((ps2, w2), Some e) \<Rightarrow>
               (let w3 = snd (logInteraction (wvLog wv) (wvNow wv) (ps2\<lparr>psStatus := statusFromError e\<rparr>) w2) in
                if IsDuplicateEvent e
                then (Some (NewDuplicateResponse (pID (psEvent ps2)) (pMemoryKey (psEvent ps2)), None), w3)
                else (Some (error_response ps2 e, Some e), w3))
           | ((ps2, w2), None) \<Rightarrow>
               (case (psSpirit ps2, psResult ps2) of
                  (Some sp, Some r) \<Rightarrow> (Some (success_response ps2 sp r, None), w2)
                | _ \<Rightarrow> (None, w2))))"

definition processEventWithConfig ::
  "('w, 'h, 'p) weave \<Rightarrow> pulse \<Rightarrow> string \<Rightarrow> link \<Rightarrow> 'w \<Rightarrow> (response \<times> gerr option) option \<times> 'w" where
  "processEventWithConfig wv e key l w = runProcessingPipeline wv (new_state key l False e) w"

definition no_config :: "string \<Rightarrow> string" where
  "no_config key = ''event configuration not found for key: '' @ key"

text \<open>\<open>links\<close> is the lookup of the configuration cache.\<close>

definition ProcessEventByKey ::
  "('w, 'h, 'p) weave \<Rightarrow> (string \<Rightarrow> link option) \<Rightarrow> string \<Rightarrow> pulse \<Rightarrow> 'w
     \<Rightarrow> (response \<times> gerr option) option \<times> 'w" where
  "ProcessEventByKey wv links key e w =
     (case links key of
        None \<Rightarrow> (Some (NewErrorResponse (pID e) (pMemoryKey e) (no_config key), Some (EPlain (no_config key))), w)
      | Some l \<Rightarrow> processEventWithConfig wv e key l w)"

text \<open>
  The last frame of a stream. The frames before it are the deltas and tool statuses the sink
  receives while the reasoner runs.
\<close>

datatype stream_end = AgentStreamDone string | AgentStreamError gerr

definition ProcessEventByKeyStream ::
  "('w, 'h, 'p) weave \<Rightarrow> (string \<Rightarrow> link option) \<Rightarrow> string \<Rightarrow> pulse \<Rightarrow> 'w
     \<Rightarrow> (gerr + stream_end option) \<times> 'w" where
  "ProcessEventByKeyStream wv links key e w =
     (case links key of
        None \<Rightarrow> (Inl (EPlain (no_config key)), w)
      | Some l \<Rightarrow>
          (case runProcessingPipeline wv (new_state key l True e) w of
             (None, w1) \<Rightarrow> (Inr None, w1)
           | (Some (_, Some err), w1) \<Rightarrow> (Inr (Some (AgentStreamError err)), w1)
           | (Some (resp, None), w1) \<Rightarrow> (Inr (Some (AgentStreamDone (reFinalResponse resp))), w1)))"

text \<open>
  A batch. The goroutines take turns in some order: \<open>order\<close> lists indices of the batch, and the
  cycles run one after the other; \<open>None\<close> is a panic of one of them. The identifiers of an
  error entry are read from the Pulse after its cycle, which Scouts may have changed.
\<close>

fun process_in_order ::
  "('w, 'h, 'p) weave \<Rightarrow> string \<Rightarrow> link \<Rightarrow> pulse list \<Rightarrow> nat list \<Rightarrow> response option list \<Rightarrow> 'w
     \<Rightarrow> response option list option \<times> 'w" where
  "process_in_order wv key l es [] out w = (Some out, w)"
| "process_in_order wv key l es (i # is) out w =
     (case processEventWithConfig wv (es ! i) key l w of
        (None, w1) \<Rightarrow> (None, w1)
      | (Some (resp, None), w1) \<Rightarrow> process_in_order wv key l es is (out[i := Some resp]) w1
      | (Some (resp, Some err), w1) \<Rightarrow>
          process_in_order wv key l es is
            (out[i := Some (NewErrorResponse (reEventID resp) (reMemoryKey resp) (err_text err))]) w1)"

definition ProcessMultipleEventsByKey ::
  "('w, 'h, 'p) weave \<Rightarrow> (string \<Rightarrow> link option) \<Rightarrow> string \<Rightarrow> nat list \<Rightarrow> pulse list \<Rightarrow> 'w
     \<Rightarrow> (gerr + response option list option) \<times> 'w" where
  "ProcessMultipleEventsByKey wv links key order es w =
     (case links key of
        None \<Rightarrow> (Inl (EPlain (no_config key)), w)
      | Some l \<Rightarrow> (case process_in_order wv key l es order (replicate (length es) None) w of
                    (out, w1) \<Rightarrow> (Inr out, w1)))"

end
