(* ===== verification/Frames.thy ===== *)
theory Frames
  imports Engine
begin

text \<open>
  What a step can touch. An observation \<open>v\<close> of the world is left alone by a collaborator when
  no call of it changes the observation; a step whose collaborators leave it alone is calm: it
  keeps the observation and the locks of the cycle, and never takes a delivery back. The steps
  that are not calm for every observation are the ones that lock, reason, send and log.
\<close>

section \<open>Observations\<close>

definition leaves :: "('w \<Rightarrow> 'a) \<Rightarrow> ('w \<Rightarrow> 'b \<times> 'w) \<Rightarrow> bool" where
  "leaves v f \<longleftrightarrow> (\<forall>w. v (snd (f w)) = v w)"

lemma leavesD: "leaves v f \<Longrightarrow> f w = (x, w') \<Longrightarrow> v w' = v w"
  unfolding leaves_def by (metis snd_conv)

lemma leaves_snd: "leaves v f \<Longrightarrow> v (snd (f w)) = v w"
  by (simp add: leaves_def)

text \<open>The collaborators other than Bond, voices, reasoner and audit log.\<close>

definition quiet_gates :: "('w \<Rightarrow> 'a) \<Rightarrow> ('w, 'h, 'p) weave \<Rightarrow> bool" where
  "quiet_gates v wv \<longleftrightarrow>
     (\<forall>f k t. wvSeen wv = Some f \<longrightarrow> leaves v (f k t))
     \<and> (\<forall>f k. wvAllow wv = Some f \<longrightarrow> leaves v (f k))
     \<and> (\<forall>ib k m. wvInbox wv = Some ib \<longrightarrow> leaves v (inPush ib k m) \<and> leaves v (inPopAll ib k))
     \<and> (\<forall>f k. wvVigil wv = Some f \<longrightarrow> leaves v (f k))
     \<and> (\<forall>f g k. wvTyping wv = Some (f, g) \<longrightarrow> leaves v (f k) \<and> leaves v (g k))
     \<and> (\<forall>f g k. wvRituals wv = Some (f, g) \<longrightarrow> leaves v (f k) \<and> leaves v (g k))
     \<and> (\<forall>n w. v (wvWait wv n w) = v w)"

definition quiet_routing :: "('w \<Rightarrow> 'a) \<Rightarrow> ('w, 'h, 'p) weave \<Rightarrow> bool" where
  "quiet_routing v wv \<longleftrightarrow>
     (\<forall>reg sc e w. wvScouts wv = Some reg \<longrightarrow> sc \<in> snd ` set (srScouts reg) \<longrightarrow>
        v (snd (snd (scHarvest sc e w))) = v w)
     \<and> (\<forall>f k. wvPins wv = Some f \<longrightarrow> leaves v (f k))
     \<and> (\<forall>k. leaves v (wvFindSpirit wv k))
     \<and> (\<forall>f n g k t. wvHTTPTools wv = Some (f, n, g) \<longrightarrow> leaves v (f k) \<and> leaves v (g t))
     \<and> (\<forall>f e k w. wvLoreHarvest wv = Some f \<longrightarrow> v (snd (snd (f e k w))) = v w)
     \<and> (\<forall>f e k w. wvImprintHarvest wv = Some f \<longrightarrow> v (snd (snd (f e k w))) = v w)
     \<and> (\<forall>reg n f e. wvRouters wv = Some reg \<longrightarrow> router_Get n reg = Inr f \<longrightarrow> leaves v (f e))"

definition quiet_memory :: "('w \<Rightarrow> 'a) \<Rightarrow> 'w memory_mgr \<Rightarrow> bool" where
  "quiet_memory v mm \<longleftrightarrow>
     (\<forall>k. leaves v (mrGetMemory (mmMemoryRepo mm) k))
     \<and> (\<forall>k m. leaves v (mrSaveMemory (mmMemoryRepo mm) k m))
     \<and> (\<forall>er k n. mmMessageRepo mm = Some er \<longrightarrow> leaves v (erFindRecent er k n))
     \<and> (\<forall>er k t n. mmMessageRepo mm = Some er \<longrightarrow> leaves v (erFindRecentSubject er k t n))"

definition quiet_session :: "('w \<Rightarrow> 'a) \<Rightarrow> ('w, 'h, 'p) weave \<Rightarrow> bool" where
  "quiet_session v wv \<longleftrightarrow>
     (\<forall>f g k d t. wvVault wv = Some (f, g) \<longrightarrow> leaves v (f k d t) \<and> leaves v g)
     \<and> (\<forall>f e. wvLens wv = Some f \<longrightarrow> leaves v (f e))
     \<and> quiet_memory v (wvMemory wv)
     \<and> (\<forall>m. leaves v (erAppend (wvEchoes wv) m))
     \<and> (\<forall>f t n k s ts. wvArchivist wv = Some (f, t, n) \<longrightarrow> leaves v (f k s ts))
     \<and> (\<forall>ld n t c. wvLedger wv = Some ld \<longrightarrow>
          leaves v (ldBudget ld n) \<and> leaves v (ldMonthUsage ld n) \<and> leaves v (ldIncrement ld n t c))
     \<and> (\<forall>h a w. wvAlertHook wv = Some h \<longrightarrow> v (h a w) = v w)
     \<and> (\<forall>p q. leaves v (ntGenerate (wvNotifier wv) p q))
     \<and> (\<forall>b f u n t w. wvImprints wv = Some (b, f) \<longrightarrow> v (f u n t w) = v w)"

definition quiet :: "('w \<Rightarrow> 'a) \<Rightarrow> ('w, 'h, 'p) weave \<Rightarrow> bool" where
  "quiet v wv \<longleftrightarrow> quiet_gates v wv \<and> quiet_routing v wv \<and> quiet_session v wv"

definition quiet_bond :: "('w \<Rightarrow> 'a) \<Rightarrow> ('w, 'h, 'p) weave \<Rightarrow> bool" where
  "quiet_bond v wv \<longleftrightarrow> (\<forall>k. leaves v (boAcquire (wvBond wv) k) \<and> leaves v (boRelease (wvBond wv) k))"

definition quiet_voices :: "('w \<Rightarrow> 'a) \<Rightarrow> ('w, 'h, 'p) weave \<Rightarrow> bool" where
  "quiet_voices v wv \<longleftrightarrow>
     (\<forall>n vc e t. voice_Get n (ntVoices (wvNotifier wv)) = Inr vc \<longrightarrow> leaves v (voSend vc e t))"

definition quiet_reasoner :: "('w \<Rightarrow> 'a) \<Rightarrow> ('w, 'h, 'p) weave \<Rightarrow> bool" where
  "quiet_reasoner v wv \<longleftrightarrow>
     (\<forall>m w. v (rxPut (wvReasoner wv) m w) = v w)
     \<and> (\<forall>q b w e r w'. rxRun (wvReasoner wv) q b w = Some (e, r, w') \<longrightarrow> v w' = v w)"

definition quiet_log :: "('w \<Rightarrow> 'a) \<Rightarrow> ('w, 'h, 'p) weave \<Rightarrow> bool" where
  "quiet_log v wv \<longleftrightarrow> (\<forall>x. leaves v (wvLog wv x))"

section \<open>Calm steps\<close>

definition locks_of :: "ProcessingState \<Rightarrow> bool \<times> string \<times> string list" where
  "locks_of ps = (psLockAcquired ps, psLockKey ps, psAdditionalLocks ps)"

definition calm :: "('w \<Rightarrow> 'a) \<Rightarrow> ('w conf \<Rightarrow> 'w conf outcome) \<Rightarrow> bool" where
  "calm v f \<longleftrightarrow> (\<forall>ps w. v (snd (final (f (ps, w)))) = v w
     \<and> locks_of (fst (final (f (ps, w)))) = locks_of ps
     \<and> (psResponseDelivered ps \<longrightarrow> psResponseDelivered (fst (final (f (ps, w)))))
     \<and> psStreaming (fst (final (f (ps, w)))) = psStreaming ps)"

text \<open>
  The cases of a step are explored with the results of the calls named, so each call of a quiet
  collaborator closes by \<open>leavesD\<close>.
\<close>

lemmas calmI = calm_def [THEN iffD2, rule_format]

lemma runScouts_leaves:
  assumes "\<forall>sc\<in>set scs. \<forall>e w. v (snd (snd (scHarvest sc e w))) = v w"
  shows "v (snd (runScouts scs e w)) = v w"
  using assms
proof (induction scs arbitrary: e w)
  case (Cons sc scs)
  have "v (snd (runScout sc e w)) = v w"
    using Cons.prems by (simp add: runScout_def split_beta)
  moreover have "v (snd (runScouts scs e' w')) = v w'" for e' w'
    using Cons.IH [of e' w'] Cons.prems by simp
  ultimately show ?case by (simp add: split_beta)
qed simp

lemma found_scouts:
  assumes "scout_GetMultiple ns reg = Inr scs"
  shows "set scs \<subseteq> snd ` set (srScouts reg)"
proof -
  have "set (fst (partition_names r ns)) \<subseteq> snd ` set r" for r :: "'a reg"
  proof (induction ns)
    case (Cons n ns)
    then show ?case
      by (cases "map_of r n") (auto simp: partition_step simp del: map_of_eq_Some_iff dest!: map_of_SomeD intro: rev_image_eqI)
  qed simp
  with assms show ?thesis by (auto simp: scout_GetMultiple_def split_beta Let_def split: if_splits)
qed

lemma calm_Validation: "calm v (ValidationStep f)"
  by (auto simp: calm_def ValidationStep_def split: option.split)

lemma calm_Filter: "calm v FilterStep"
  by (simp add: calm_def FilterStep_def)

lemma calm_RateLimit: "(\<And>k. leaves v (f k)) \<Longrightarrow> calm v (RateLimitStep f)"
  by (auto simp: calm_def RateLimitStep_def dest!: leavesD split: prod.split sum.split bool.split)

lemma calm_Idempotency: "(\<And>k t. leaves v (f k t)) \<Longrightarrow> calm v (IdempotencyStep f ttl)"
  by (auto simp: calm_def IdempotencyStep_def Let_def dest!: leavesD split: prod.split sum.split bool.split)

lemma calm_Vigil: "(\<And>f k. g = Some f \<Longrightarrow> leaves v (f k)) \<Longrightarrow> calm v (VigilCheckStep g)"
  by (auto simp: calm_def VigilCheckStep_def locks_of_def dest!: leavesD split: prod.split sum.split option.split)

lemma calm_Typing: "(\<And>k. leaves v (f k)) \<Longrightarrow> calm v (TypingStep f)"
  by (auto simp: calm_def TypingStep_def leaves_snd)

lemma calm_RitualMark: "(\<And>k. leaves v (f k)) \<Longrightarrow> calm v (RitualMarkStep f)"
  by (auto simp: calm_def RitualMarkStep_def dest!: leavesD split: prod.split option.split)

lemma calm_MarkExecuted: "(\<And>k. leaves v (f k)) \<Longrightarrow> calm v (MarkExecutedStep f)"
  by (auto simp: calm_def MarkExecutedStep_def leaves_snd split: option.split)

lemma calm_SpiritSelection:
  "(\<And>f k. pins = Some f \<Longrightarrow> leaves v (f k)) \<Longrightarrow> calm v (SpiritSelectionStep pf pins)"
  by (auto simp: calm_def SpiritSelectionStep_def locks_of_def dest!: leavesD split: prod.split sum.split option.split)

lemma calm_SpiritLoad: "(\<And>k. leaves v (f k)) \<Longrightarrow> calm v (SpiritLoadStep f)"
  by (auto simp: calm_def SpiritLoadStep_def locks_of_def dest!: leavesD split: prod.split sum.split)

lemma load_tools_leaves: "(\<And>t. leaves v (g t)) \<Longrightarrow> v (snd (load_tools nm g ts sp w)) = v w"
  by (induction ts arbitrary: sp w) (simp_all add: leaves_snd)

lemma calm_HTTPToolLoad:
  assumes "\<And>k. leaves v (f k)" "\<And>t. leaves v (g t)"
  shows "calm v (HTTPToolLoadStep f nm g)"
  using assms load_tools_leaves [of v g nm]
  by (auto simp: calm_def HTTPToolLoadStep_def locks_of_def split_beta Let_def leaves_snd
      split: sum.split option.split)

lemma calm_SpiritScout:
  assumes "\<And>reg sc e w. scouts = Some reg \<Longrightarrow> sc \<in> snd ` set (srScouts reg) \<Longrightarrow> v (snd (snd (scHarvest sc e w))) = v w"
    and "\<And>f e k w. lore = Some f \<Longrightarrow> v (snd (snd (f e k w))) = v w"
    and "\<And>f e k w. imprint = Some f \<Longrightarrow> v (snd (snd (f e k w))) = v w"
  shows "calm v (SpiritScoutStep scouts lore imprint)"
proof (rule calmI)
  fix ps w
  have run: "v (snd (runScouts scs e w)) = v w"
    if "(case scouts of None \<Rightarrow> Inr [] | Some reg \<Rightarrow> if ns = [] then Inr [] else scout_GetMultiple ns reg) = Inr scs"
    for scs e ns
  proof (rule runScouts_leaves)
    show "\<forall>sc\<in>set scs. \<forall>e w. v (snd (snd (scHarvest sc e w))) = v w"
    proof (cases scouts)
      case (Some reg)
      with that have "set scs \<subseteq> snd ` set (srScouts reg)"
        by (cases "ns = []") (auto dest: found_scouts)
      with Some assms(1) show ?thesis by blast
    qed (use that in simp)
  qed
  show "v (snd (final (SpiritScoutStep scouts lore imprint (ps, w)))) = v w
     \<and> locks_of (fst (final (SpiritScoutStep scouts lore imprint (ps, w)))) = locks_of ps
     \<and> (psResponseDelivered ps \<longrightarrow> psResponseDelivered (fst (final (SpiritScoutStep scouts lore imprint (ps, w)))))
     \<and> psStreaming (fst (final (SpiritScoutStep scouts lore imprint (ps, w)))) = psStreaming ps"
  proof (cases "psSpirit ps")
    case (Some sp)
    show ?thesis
    proof (cases "case scouts of None \<Rightarrow> Inr [] | Some reg \<Rightarrow>
        if sRequireScouts sp = [] then Inr [] else scout_GetMultiple (sRequireScouts sp) reg")
      case (Inr scs)
      note r = run [OF Inr]
      show ?thesis
        using r assms(2,3)
        by (cases lore; cases imprint)
          (simp_all add: SpiritScoutStep_def Some Inr split_beta Let_def locks_of_def)
    qed (simp add: SpiritScoutStep_def Some)
  qed (simp add: SpiritScoutStep_def)
qed

lemma calm_OrchestratorRouting:
  assumes "\<And>reg n f e. routers = Some reg \<Longrightarrow> router_Get n reg = Inr f \<Longrightarrow> leaves v (f e)"
    and "\<And>k. leaves v (lookup k)"
  shows "calm v (OrchestratorRoutingStep routers lookup)"
proof (rule calmI)
  fix ps w
  let ?o = "OrchestratorRoutingStep routers lookup (ps, w)"
  have look: "v (snd (lookup k w')) = v w'" for k w' by (rule leaves_snd [OF assms(2)])
  consider "?o = Ret None (ps, w)"
    | sp reg route where "psSpirit ps = Some sp" "routers = Some reg"
      "router_Get (ocLogicRouterName (sOrchestratorConfig sp)) reg = Inr route"
    by (cases "psSpirit ps"; cases routers;
        fastforce simp: OrchestratorRoutingStep_def Let_def split: if_splits sum.splits)
  then show "v (snd (final ?o)) = v w \<and> locks_of (fst (final ?o)) = locks_of ps
     \<and> (psResponseDelivered ps \<longrightarrow> psResponseDelivered (fst (final ?o)))
     \<and> psStreaming (fst (final ?o)) = psStreaming ps"
  proof cases
    case (2 sp reg route)
    have "v (snd (route e w)) = v w" for e by (rule leaves_snd [OF assms(1) [OF 2(2,3)]])
    with 2 look show ?thesis
      by (simp add: OrchestratorRoutingStep_def Let_def split_beta locks_of_def split: sum.split)
  qed simp
qed

section \<open>Calm steps on the session\<close>

lemma vault_all_leaves:
  assumes "\<And>k d t. leaves v (f k d t)" "leaves v g"
  shows "v (snd (vault_all f g mk as w)) = v w"
  using assms
  by (induction as arbitrary: w) (simp_all add: split_beta Let_def leaves_snd split: sum.split)

lemma calm_MediaVault:
  "(\<And>k d t. leaves v (f k d t)) \<Longrightarrow> leaves v g \<Longrightarrow> calm v (MediaVaultStep f g)"
  by (simp add: calm_def MediaVaultStep_def split_beta locks_of_def vault_all_leaves)

lemma calm_MediaProcessing: "(\<And>e. leaves v (f e)) \<Longrightarrow> calm v (MediaProcessingStep f)"
  by (simp add: calm_def MediaProcessingStep_def split_beta locks_of_def leaves_snd)

lemma GetOrCreate_leaves: "quiet_memory v mm \<Longrightarrow> v (snd (GetOrCreate mm now k t w)) = v w"
  by (simp add: quiet_memory_def GetOrCreate_def rebuildMemoryFromMessages_def split_beta Let_def leaves_snd
      split: sum.split option.split)

lemma FindLastTopicKey_leaves: "quiet_memory v mm \<Longrightarrow> v (snd (FindLastTopicKey mm k w)) = v w"
  by (simp add: quiet_memory_def FindLastTopicKey_def split_beta leaves_snd
      split: sum.split option.split list.split)

lemma SaveSession_leaves: "quiet_memory v mm \<Longrightarrow> v (snd (SaveSession mm m w)) = v w"
  by (simp add: quiet_memory_def SaveSession_def split_beta leaves_snd split: option.split)

lemma calm_SessionSetup: "quiet_memory v mm \<Longrightarrow> calm v (SessionSetupStep mm now)"
  by (simp add: calm_def SessionSetupStep_def split_beta Let_def locks_of_def GetOrCreate_leaves
      FindLastTopicKey_leaves split: sum.split)

lemma calm_Archivist:
  "(\<And>k s ts. leaves v (f k s ts)) \<Longrightarrow> calm v (ArchivistStep (Some f) n k)"
  by (simp add: calm_def ArchivistStep_def split_beta Let_def locks_of_def leaves_snd split: sum.split option.split)

lemma drain_leaves:
  assumes "\<And>ib k. inbox = Some ib \<Longrightarrow> leaves v (inPopAll ib k)" "\<And>n w. v (wait n w) = v w"
  shows "v (snd (drain inbox mw now wait ps w)) = v w
     \<and> locks_of (fst (drain inbox mw now wait ps w)) = locks_of ps
     \<and> psResponseDelivered (fst (drain inbox mw now wait ps w)) = psResponseDelivered ps
     \<and> psStreaming (fst (drain inbox mw now wait ps w)) = psStreaming ps"
proof (cases inbox)
  case (Some ib)
  have "v (snd (inPopAll ib k w')) = v w'" for k w' by (rule leaves_snd [OF assms(1) [OF Some]])
  with assms(2) show ?thesis
    by (simp add: drain_def Some split_beta Let_def locks_of_def split: sum.split)
qed (simp add: drain_def)

lemma calm_MessageCoalescing:
  assumes "\<And>ib k. inbox = Some ib \<Longrightarrow> leaves v (inPopAll ib k)" "\<And>n w. v (wait n w) = v w"
  shows "calm v (MessageCoalescingStep mm inbox mw now wait)"
  using drain_leaves [of inbox v wait] assms
  by (simp add: calm_def MessageCoalescingStep_def split_beta Let_def locks_of_def split: option.split)

lemma calm_CostEnforcement:
  assumes "\<And>n. leaves v (ldBudget ld n)" "\<And>n. leaves v (ldMonthUsage ld n)"
    and "\<And>h a w. hook = Some h \<Longrightarrow> v (h a w) = v w"
  shows "calm v (CostEnforcementStep ld hook)"
proof -
  have a: "v (case hook of None \<Rightarrow> w | Some h \<Rightarrow> h a w) = v w" for a w
    using assms(3) by (cases hook) simp_all
  show ?thesis
    using assms(1,2) a
    by (simp add: calm_def CostEnforcementStep_def enforce_budget_def set_model_def split_beta Let_def
        locks_of_def leaves_snd split: sum.split option.split)
qed

lemma calm_ModelRouting: "calm v (ModelRoutingStep rules)"
  by (simp add: calm_def ModelRoutingStep_def set_model_def locks_of_def split: option.split)

section \<open>Calm steps on the answer\<close>

lemma calm_ConditionEvaluation: "calm v (ConditionEvaluationStep ff)"
  by (simp add: calm_def ConditionEvaluationStep_def locks_of_def split: option.split)

lemma calm_OutputGuard: "calm v (OutputGuardStep og)"
  by (simp add: calm_def OutputGuardStep_def locks_of_def)

lemma append_echo_leaves: "(\<And>m. leaves v (erAppend er m)) \<Longrightarrow> v (append_echo er mk t r x w) = v w"
  by (simp add: append_echo_def AppendMessage_def split_beta leaves_snd split: option.split)

lemma calm_Persistence:
  assumes "quiet_memory v mm" "\<And>m. leaves v (erAppend er m)"
  shows "calm v (PersistenceStep mm er now)"
  using assms
  by (simp add: calm_def PersistenceStep_def split_beta Let_def locks_of_def SaveSession_leaves
      append_echo_leaves split: option.split)

lemma calm_ImprintExtraction:
  "(\<And>u n t w. v (f u n t w) = v w) \<Longrightarrow> calm v (ImprintExtractionStep b f)"
  by (simp add: calm_def ImprintExtractionStep_def split: option.split)

lemma calm_LedgerUpdate: "(\<And>n t c. leaves v (ldIncrement ld n t c)) \<Longrightarrow> calm v (LedgerUpdateStep ld)"
  by (simp add: calm_def LedgerUpdateStep_def Let_def leaves_snd split: option.split)

lemma calm_AuditLog: "(\<And>x. leaves v (f x)) \<Longrightarrow> calm v (AuditLogStep f now)"
  by (simp add: calm_def AuditLogStep_def logInteraction_def split_beta leaves_snd)

end
