(* ===== verification/Cycle.thy ===== *)
theory Cycle
  imports Frames Stores
begin

text \<open>
  One whole cycle of the engine: what it does to the locks and what it sends. Each proof splits
  the list of steps where the interesting step stands and lets the calm ones pass.
\<close>

section \<open>The remaining steps\<close>

lemma calm_Reasoning: "quiet_reasoner v wv \<Longrightarrow> calm v (ReasoningStep (wvReasoner wv))"
proof (rule calmI)
  fix ps w
  assume q: "quiet_reasoner v wv"
  let ?rx = "wvReasoner wv"
  have put: "v (rxPut ?rx m w) = v w" for m w using q by (simp add: quiet_reasoner_def)
  have run: "v w' = v w" if "rxRun ?rx r b w = Some (e, x, w')" for r b w e x w'
    using q that unfolding quiet_reasoner_def by blast
  have pop: "psLockAcquired (populateStateFromResult live r x) = psLockAcquired x"
      "psLockKey (populateStateFromResult live r x) = psLockKey x"
      "psAdditionalLocks (populateStateFromResult live r x) = psAdditionalLocks x"
      "psResponseDelivered x \<Longrightarrow> psResponseDelivered (populateStateFromResult live r x)"
      "psStreaming (populateStateFromResult live r x) = psStreaming x" for live r x
    by (simp_all add: populateStateFromResult_def split: option.split)
  show "v (snd (final (ReasoningStep ?rx (ps, w)))) = v w
     \<and> locks_of (fst (final (ReasoningStep ?rx (ps, w)))) = locks_of ps
     \<and> (psResponseDelivered ps \<longrightarrow> psResponseDelivered (fst (final (ReasoningStep ?rx (ps, w)))))
     \<and> psStreaming (fst (final (ReasoningStep ?rx (ps, w)))) = psStreaming ps"
    by (auto simp: ReasoningStep_def executeStreaming_def Let_def pop put locks_of_def
        split: option.split prod.split dest!: run)
qed

lemma notifier_message_calm:
  assumes "\<And>p q. leaves v (ntGenerate nt p q)"
  shows "v (snd (snd (notifier_message nt sp (ps, w)))) = v w
     \<and> locks_of (fst (snd (notifier_message nt sp (ps, w)))) = locks_of ps
     \<and> psResponseDelivered (fst (snd (notifier_message nt sp (ps, w)))) = psResponseDelivered ps
     \<and> psStreaming (fst (snd (notifier_message nt sp (ps, w)))) = psStreaming ps"
  using assms
  by (simp add: notifier_message_def notifier_callOracle_def split_beta Let_def locks_of_def leaves_snd
      split: sum.split)

lemma calm_Notification:
  assumes "quiet_session v wv" "quiet_voices v wv"
  shows "calm v (NotificationStep (wvNotifier wv))"
proof (rule calmI)
  fix ps w
  let ?nt = "wvNotifier wv"
  have gen: "leaves v (ntGenerate ?nt p q)" for p q using assms(1) by (simp add: quiet_session_def)
  have msg: "v (snd (snd (notifier_message ?nt sp (ps, w)))) = v w"
    "locks_of (fst (snd (notifier_message ?nt sp (ps, w)))) = locks_of ps"
    "psResponseDelivered (fst (snd (notifier_message ?nt sp (ps, w)))) = psResponseDelivered ps"
    "psStreaming (fst (snd (notifier_message ?nt sp (ps, w)))) = psStreaming ps" for sp
    using notifier_message_calm [of v ?nt, OF gen] by auto
  have send: "v (snd (voSend vc e t w)) = v w" if "voice_Get n (ntVoices ?nt) = Inr vc" for n vc e t w
    using assms(2) that by (simp add: quiet_voices_def leaves_snd)
  show "v (snd (final (NotificationStep ?nt (ps, w)))) = v w
     \<and> locks_of (fst (final (NotificationStep ?nt (ps, w)))) = locks_of ps
     \<and> (psResponseDelivered ps \<longrightarrow> psResponseDelivered (fst (final (NotificationStep ?nt (ps, w)))))
     \<and> psStreaming (fst (final (NotificationStep ?nt (ps, w)))) = psStreaming ps"
    using msg
    by (auto simp: NotificationStep_def split_beta locks_of_def send split: option.split sum.split)
qed

lemma calm_Delivery:
  assumes "quiet_voices v wv"
  shows "calm v (ResponseDeliveryStep (ntVoices (wvNotifier wv)))"
proof (rule calmI)
  fix ps w
  have send: "v (snd (voSend vc e t w)) = v w" if "voice_Get n (ntVoices (wvNotifier wv)) = Inr vc" for n vc e t w
    using assms that by (simp add: quiet_voices_def leaves_snd)
  let ?o = "ResponseDeliveryStep (ntVoices (wvNotifier wv)) (ps, w)"
  show "v (snd (final ?o)) = v w \<and> locks_of (fst (final ?o)) = locks_of ps
     \<and> (psResponseDelivered ps \<longrightarrow> psResponseDelivered (fst (final ?o)))
     \<and> psStreaming (fst (final ?o)) = psStreaming ps"
    by (auto simp: ResponseDeliveryStep_def split_beta locks_of_def send split: option.split sum.split)
qed

section \<open>Lists of calm steps\<close>

definition all_steps :: "(('w conf \<Rightarrow> 'w conf outcome) \<Rightarrow> bool) \<Rightarrow> 'w pstep list \<Rightarrow> bool" where
  "all_steps P sts \<longleftrightarrow> (\<forall>st\<in>set sts. P (stExec st))"

lemma all_steps_simps [simp]:
  "all_steps P []"
  "all_steps P (stp n f # sts) \<longleftrightarrow> P f \<and> all_steps P sts"
  "all_steps P (xs @ ys) \<longleftrightarrow> all_steps P xs \<and> all_steps P ys"
  "all_steps P (opt_step n g x) \<longleftrightarrow> (\<forall>a. x = Some a \<longrightarrow> P (g a))"
  by (auto simp: all_steps_def stp_def opt_step_def split: option.split)

lemma all_stepsD: "all_steps P sts \<Longrightarrow> st \<in> set sts \<Longrightarrow> P (stExec st)"
  by (simp add: all_steps_def)

text \<open>What each kind of step keeps, a list of them keeps.\<close>

lemma run_all_steps:
  assumes "all_steps K sts" "\<And>f c. K f \<Longrightarrow> P c \<Longrightarrow> P (final (f c))"
    and "\<And>ps w n. P (ps, w) \<Longrightarrow> P (ps\<lparr>psFailedAtStep := n\<rparr>, w)" "P c"
  shows "P (final (run_steps dl sts c))"
  by (rule run_steps_invariant [where P = P, OF _ assms(3,4)]) (use assms(1,2) in \<open>auto dest: all_stepsD\<close>)

lemma run_all_deferred:
  assumes "all_steps K sts" "\<And>f c. K f \<Longrightarrow> P c \<Longrightarrow> P (final (f c))" "P c"
  shows "P (final (run_deferred dl sts c))"
  by (rule run_deferred_invariant [where P = P, OF _ assms(3)]) (use assms(1,2) in \<open>auto dest: all_stepsD\<close>)

abbreviation all_calm :: "('w \<Rightarrow> 'a) \<Rightarrow> 'w pstep list \<Rightarrow> bool" where
  "all_calm v \<equiv> all_steps (calm v)"

lemma run_steps_calm:
  assumes "all_calm v sts"
  shows "v (snd (final (run_steps dl sts (ps, w)))) = v w
     \<and> locks_of (fst (final (run_steps dl sts (ps, w)))) = locks_of ps
     \<and> (psResponseDelivered ps \<longrightarrow> psResponseDelivered (fst (final (run_steps dl sts (ps, w)))))
     \<and> psStreaming (fst (final (run_steps dl sts (ps, w)))) = psStreaming ps"
  by (rule run_steps_invariant [where P = "\<lambda>c. v (snd c) = v w \<and> locks_of (fst c) = locks_of ps
       \<and> (psResponseDelivered ps \<longrightarrow> psResponseDelivered (fst c)) \<and> psStreaming (fst c) = psStreaming ps"])
    (use assms in \<open>auto simp: all_steps_def calm_def locks_of_def\<close>)

lemma run_deferred_calm:
  assumes "all_calm v sts"
  shows "v (snd (final (run_deferred dl sts (ps, w)))) = v w
     \<and> locks_of (fst (final (run_deferred dl sts (ps, w)))) = locks_of ps
     \<and> (psResponseDelivered ps \<longrightarrow> psResponseDelivered (fst (final (run_deferred dl sts (ps, w)))))
     \<and> psStreaming (fst (final (run_deferred dl sts (ps, w)))) = psStreaming ps"
  by (rule run_deferred_invariant [where P = "\<lambda>c. v (snd c) = v w \<and> locks_of (fst c) = locks_of ps
       \<and> (psResponseDelivered ps \<longrightarrow> psResponseDelivered (fst c)) \<and> psStreaming (fst c) = psStreaming ps"])
    (use assms in \<open>auto simp: all_steps_def calm_def locks_of_def\<close>)

section \<open>The engine's steps\<close>

text \<open>The parts of the list around the steps that lock and send.\<close>

definition gate_front :: "('w, 'h, 'p) weave \<Rightarrow> 'w pstep list" where
  "gate_front wv =
     [stp ''Validation'' (ValidationStep (wvValidate wv))]
     @ opt_step ''IdempotencyCheck'' (\<lambda>seen. IdempotencyStep seen (wvIdempotencyTTL wv)) (wvSeen wv)
     @ opt_step ''RateLimit'' RateLimitStep (wvAllow wv)"

definition gate_back :: "('w, 'h, 'p) weave \<Rightarrow> 'w pstep list" where
  "gate_back wv =
     [stp ''VigilCheck'' (VigilCheckStep (wvVigil wv))]
     @ opt_step ''TypingStart'' (\<lambda>(start, _). TypingStep start) (wvTyping wv)
     @ opt_step ''RitualMark'' (\<lambda>(mark, _). RitualMarkStep mark) (wvRituals wv)"

abbreviation lock_step :: "('w, 'h, 'p) weave \<Rightarrow> 'w pstep" where
  "lock_step wv \<equiv> stp ''LockAcquisition'' (LockAcquisitionStep (wvBond wv) (wvInbox wv))"

abbreviation scout_step :: "('w, 'h, 'p) weave \<Rightarrow> 'w pstep" where
  "scout_step wv \<equiv> stp ''LinkScout'' (LinkScoutStep (wvScouts wv) (wvBond wv))"

definition after_scouts :: "('w, 'h, 'p) weave \<Rightarrow> 'w pstep list" where
  "after_scouts wv = tl (routing_steps wv) @ session_steps wv
     @ [stp ''ConditionEvaluation'' (ConditionEvaluationStep (ntFloat (wvNotifier wv))),
        stp ''Reasoning'' (ReasoningStep (wvReasoner wv))]"

definition before_delivery :: "('w, 'h, 'p) weave \<Rightarrow> 'w pstep list" where
  "before_delivery wv =
     opt_step ''OutputGuard'' OutputGuardStep (wvOutputGuard wv)
     @ [stp ''Persistence'' (PersistenceStep (wvMemory wv) (wvEchoes wv) (wvNow wv))]"

definition after_delivery :: "('w, 'h, 'p) weave \<Rightarrow> 'w pstep list" where
  "after_delivery wv =
     opt_step ''ImprintExtraction'' (\<lambda>(enabled, extract). ImprintExtractionStep enabled extract) (wvImprints wv)
     @ opt_step ''LedgerUpdate'' LedgerUpdateStep (wvLedger wv)
     @ opt_step ''MarkExecuted'' (\<lambda>(_, executed). MarkExecutedStep executed) (wvRituals wv)"

abbreviation notify_step :: "('w, 'h, 'p) weave \<Rightarrow> 'w pstep" where
  "notify_step wv \<equiv> stp ''Notification'' (NotificationStep (wvNotifier wv))"

abbreviation deliver_step :: "('w, 'h, 'p) weave \<Rightarrow> 'w pstep" where
  "deliver_step wv \<equiv> stp ''ResponseDelivery'' (ResponseDeliveryStep (ntVoices (wvNotifier wv)))"

abbreviation audit_step :: "('w, 'h, 'p) weave \<Rightarrow> 'w pstep" where
  "audit_step wv \<equiv> stp ''AuditLog'' (AuditLogStep (wvLog wv) (wvNow wv))"

lemma pipeline_parts:
  "buildProcessingPipeline wv = gate_front wv @ lock_step wv # gate_back wv @ scout_step wv # after_scouts wv
     @ notify_step wv # before_delivery wv @ deliver_step wv # audit_step wv # after_delivery wv"
  by (simp add: buildProcessingPipeline_def gate_steps_def routing_steps_def session_steps_def answer_steps_def
      gate_front_def gate_back_def after_scouts_def before_delivery_def after_delivery_def)

lemma calm_parts:
  assumes "quiet v wv"
  shows "all_calm v (gate_front wv)" "all_calm v (gate_back wv)" "all_calm v (before_delivery wv)"
    "all_calm v (after_delivery wv)" "all_calm v (deferred_steps wv)"
    "quiet_reasoner v wv \<Longrightarrow> all_calm v (after_scouts wv)"
proof -
  from assms have g: "quiet_gates v wv" and r: "quiet_routing v wv" and s: "quiet_session v wv"
    by (simp_all add: quiet_def)
  from g show "all_calm v (gate_front wv)"
    by (auto simp: gate_front_def quiet_gates_def intro!: calm_Validation calm_Idempotency calm_RateLimit)
  from g show "all_calm v (gate_back wv)"
    by (auto simp: gate_back_def quiet_gates_def intro!: calm_Vigil calm_Typing calm_RitualMark)
  from s show "all_calm v (before_delivery wv)"
    by (auto simp: before_delivery_def quiet_session_def intro!: calm_OutputGuard calm_Persistence)
  from s g show "all_calm v (after_delivery wv)"
    by (auto simp: after_delivery_def quiet_session_def quiet_gates_def
        intro!: calm_ImprintExtraction calm_LedgerUpdate calm_MarkExecuted)
  from g show "all_calm v (deferred_steps wv)"
    by (auto simp: deferred_steps_def quiet_gates_def intro!: calm_Typing)
  show "all_calm v (after_scouts wv)" if q: "quiet_reasoner v wv"
  proof -
    have "all_calm v (tl (routing_steps wv))"
      using r unfolding quiet_routing_def routing_steps_def
      by (auto intro!: calm_Filter calm_SpiritSelection calm_SpiritLoad calm_HTTPToolLoad
          calm_SpiritScout calm_OrchestratorRouting)
    moreover have "all_calm v (session_steps wv)"
      using s g unfolding quiet_session_def quiet_gates_def session_steps_def
      by (auto intro!: calm_MediaVault calm_MediaProcessing calm_SessionSetup calm_Archivist
          calm_MessageCoalescing calm_CostEnforcement calm_ModelRouting)
    ultimately show ?thesis
      using calm_Reasoning [OF q] by (simp add: after_scouts_def calm_ConditionEvaluation)
  qed
qed

section \<open>Locks of a cycle\<close>

text \<open>The Bond of an engine as an instance of the contract, its world invariant included.\<close>

definition engine_bond :: "('w, 'h, 'p) weave \<Rightarrow> ('w \<Rightarrow> string set) \<Rightarrow> ('w \<Rightarrow> bool) \<Rightarrow> bool" where
  "engine_bond wv held ok \<longleftrightarrow>
     bond (boAcquire (wvBond wv)) (\<lambda>k w. snd (boRelease (wvBond wv) k w)) held ok"

text \<open>The cycle holds its own keys on top of those that were held before, \<open>H\<close>.\<close>

definition owns :: "('w \<Rightarrow> string set) \<Rightarrow> ('w \<Rightarrow> bool) \<Rightarrow> string set \<Rightarrow> 'w conf \<Rightarrow> bool" where
  "owns held ok H c \<longleftrightarrow>
     (let mine = set (psLockKey (fst c) # psAdditionalLocks (fst c)) in
      ok (snd c) \<and> psLockAcquired (fst c) \<and> held (snd c) = H \<union> mine \<and> H \<inter> mine = {})"

definition disowns :: "('w \<Rightarrow> string set) \<Rightarrow> ('w \<Rightarrow> bool) \<Rightarrow> string set \<Rightarrow> 'w conf \<Rightarrow> bool" where
  "disowns held ok H c \<longleftrightarrow>
     ok (snd c) \<and> \<not> psLockAcquired (fst c) \<and> psAdditionalLocks (fst c) = [] \<and> held (snd c) = H"

lemma owns_calm:
  assumes "calm (\<lambda>w. (held w, ok w)) f" "owns held ok H c"
  shows "owns held ok H (final (f c))"
  using assms by (cases c) (auto simp: owns_def calm_def locks_of_def Let_def)

lemma disowns_calm:
  assumes "calm (\<lambda>w. (held w, ok w)) f" "disowns held ok H c"
  shows "disowns held ok H (final (f c))"
  using assms by (cases c) (auto simp: disowns_def calm_def locks_of_def)

lemma owns_mark: "owns held ok H (ps\<lparr>psFailedAtStep := n\<rparr>, w) = owns held ok H (ps, w)"
  and disowns_mark: "disowns held ok H (ps\<lparr>psFailedAtStep := n\<rparr>, w) = disowns held ok H (ps, w)"
  by (simp_all add: owns_def disowns_def)

lemma push_inbox_leaves:
  assumes "quiet_gates v wv"
  shows "v (push_inbox (wvInbox wv) e w) = v w"
  using assms by (simp add: push_inbox_def quiet_gates_def leaves_snd split: option.split)

lemma LockAcquisition_owns:
  assumes b: "engine_bond wv held ok" and q: "quiet_gates (\<lambda>w. (held w, ok w)) wv"
    and d: "disowns held ok H c"
  shows "case LockAcquisitionStep (wvBond wv) (wvInbox wv) c of
     Ret None c1 \<Rightarrow> owns held ok H c1 | Ret (Some e) c1 \<Rightarrow> disowns held ok H c1 | Panic _ \<Rightarrow> False"
proof -
  obtain ps w where c: "c = (ps, w)" by (cases c)
  let ?k = "lock_key (pMemoryKey (psEvent ps))"
  define w1 where "w1 = push_inbox (wvInbox wv) (psEvent ps) w"
  have "held w1 = held w \<and> ok w1 = ok w"
    using push_inbox_leaves [OF q, of "psEvent ps" w] by (simp add: w1_def)
  with d c have w1: "ok w1" "held w1 = H" "\<not> psLockAcquired ps" "psAdditionalLocks ps = []"
    by (auto simp: disowns_def)
  note acq = bond.acquire_true [OF b [unfolded engine_bond_def] w1(1), of ?k]
    bond.acquire_false [OF b [unfolded engine_bond_def] w1(1), of ?k]
    bond.acquire_error [OF b [unfolded engine_bond_def] w1(1), of ?k]
    bond.inv_acquire [OF b [unfolded engine_bond_def] w1(1), of ?k]
  obtain r w2 where a: "boAcquire (wvBond wv) ?k w1 = (r, w2)" by (cases "boAcquire (wvBond wv) ?k w1")
  show ?thesis
  proof (cases r)
    case (Inl e)
    with acq(3) a have "w2 = w1" by simp
    with a Inl w1 show ?thesis by (simp add: c LockAcquisitionStep_def Let_def w1_def [symmetric] disowns_def)
  next
    case (Inr got)
    show ?thesis
    proof (cases got)
      case True
      with Inr a acq(1,4) w1(2) have "?k \<notin> H" "held w2 = insert ?k H" "ok w2" by auto
      with True Inr a w1 show ?thesis
        by (simp add: c LockAcquisitionStep_def Let_def w1_def [symmetric] owns_def)
    next
      case False
      with Inr a acq(2) have "w2 = w1" by simp
      with False Inr a w1 show ?thesis
        by (simp add: c LockAcquisitionStep_def Let_def w1_def [symmetric] disowns_def)
    qed
  qed
qed

lemma scouts_quiet:
  assumes "quiet_routing v wv" "wvScouts wv = Some reg" "scout_GetMultiple ns reg = Inr scs"
  shows "v (snd (runScouts scs e w)) = v w"
proof (rule runScouts_leaves)
  show "\<forall>sc\<in>set scs. \<forall>e w. v (snd (snd (scHarvest sc e w))) = v w"
  proof (intro ballI allI)
    fix sc e w
    assume "sc \<in> set scs"
    with found_scouts [OF assms(3)] have "sc \<in> snd ` set (srScouts reg)" by (rule subsetD)
    with assms(1,2) show "v (snd (snd (scHarvest sc e w))) = v w" by (simp add: quiet_routing_def)
  qed
qed

lemma LinkScout_owns:
  assumes b: "engine_bond wv held ok" and q: "quiet_routing (\<lambda>w. (held w, ok w)) wv"
    and o: "owns held ok H c"
  shows "owns held ok H (final (LinkScoutStep (wvScouts wv) (wvBond wv) c))"
proof -
  obtain ps w where c: "c = (ps, w)" by (cases c)
  consider "LinkScoutStep (wvScouts wv) (wvBond wv) c = Ret None c"
    | e where "LinkScoutStep (wvScouts wv) (wvBond wv) c = Ret (Some e) c"
    | reg scs where "wvScouts wv = Some reg" "lRequireScouts (psLink ps) \<noteq> []"
        "scout_GetMultiple (lRequireScouts (psLink ps)) reg = Inr scs"
    by (cases "wvScouts wv"; cases "lRequireScouts (psLink ps) = []";
        cases "scout_GetMultiple (lRequireScouts (psLink ps)) (the (wvScouts wv))")
      (simp_all add: LinkScoutStep_def c)
  then show ?thesis
  proof cases
    case (3 reg scs)
    obtain e1 w1 where run: "runScouts scs (psEvent ps) w = (e1, w1)" by (cases "runScouts scs (psEvent ps) w")
    have "(\<lambda>w. (held w, ok w)) (snd (runScouts scs (psEvent ps) w)) = (\<lambda>w. (held w, ok w)) w"
      by (rule scouts_quiet [OF q 3(1,3)])
    with run o c have w1: "ok w1" "held w1 = held w" by (auto simp: owns_def Let_def)
    let ?k = "lock_key (pMemoryKey e1)"
    note acq = bond.acquire_true [OF b [unfolded engine_bond_def] w1(1), of ?k]
      bond.acquire_false [OF b [unfolded engine_bond_def] w1(1), of ?k]
      bond.acquire_error [OF b [unfolded engine_bond_def] w1(1), of ?k]
      bond.inv_acquire [OF b [unfolded engine_bond_def] w1(1), of ?k]
    obtain r w2 where a: "boAcquire (wvBond wv) ?k w1 = (r, w2)" by (cases "boAcquire (wvBond wv) ?k w1")
    note step = LinkScoutStep_def c 3 run Let_def
    have o': "psLockAcquired ps" "held w = H \<union> set (psLockKey ps # psAdditionalLocks ps)"
      "H \<inter> set (psLockKey ps # psAdditionalLocks ps) = {}"
      using o by (simp_all add: c owns_def Let_def)
    show ?thesis
    proof (cases "pMemoryKey e1 = pMemoryKey (psEvent ps)")
      case True
      with o' w1 show ?thesis by (simp add: step owns_def)
    next
      case moved: False
      show ?thesis
      proof (cases "r = Inr True")
        case True
        with a acq(1,4) w1(2) have k: "?k \<notin> held w" "held w2 = insert ?k (held w)" "ok w2" by auto
        with a True o' moved show ?thesis by (auto simp: step owns_def)
      next
        case False
        then have "w2 = w1" using acq(2,3) a by (cases r) auto
        with False a o' w1 moved show ?thesis
          by (cases r) (simp_all add: step owns_def)
      qed
    qed
  qed (use o in simp_all)
qed

lemma release_all_held:
  assumes "bond (boAcquire b) (\<lambda>k w. snd (boRelease b k w)) held ok" "ok w"
  shows "held (release_all b ks w) = held w - set ks \<and> ok (release_all b ks w)"
  using assms(2)
  by (induction ks arbitrary: w)
    (auto simp: bond.held_release [OF assms(1)] bond.inv_release [OF assms(1)])

lemma cleanup_releases:
  assumes "engine_bond wv held ok" "owns held ok H c \<or> disowns held ok H c"
  shows "held (snd (release_cleanup (wvBond wv) c)) = H \<and> ok (snd (release_cleanup (wvBond wv) c))"
proof (cases "owns held ok H c")
  case True
  obtain ps w where c: "c = (ps, w)" by (cases c)
  have "held (release_all (wvBond wv) (psLockKey ps # psAdditionalLocks ps) w)
      = held w - set (psLockKey ps # psAdditionalLocks ps)
    \<and> ok (release_all (wvBond wv) (psLockKey ps # psAdditionalLocks ps) w)"
    by (rule release_all_held) (use assms(1) True c in \<open>simp_all add: engine_bond_def owns_def Let_def\<close>)
  with True c show ?thesis
    by (auto simp: release_cleanup_def LockReleaseStep_def owns_def Let_def simp del: release_all.simps)
next
  case False
  with assms(2) show ?thesis by (simp add: disowns_def release_cleanup_def)
qed

text \<open>Every way the pipeline ends, the cycle holds what its state says it holds.\<close>

lemma pipeline_locks:
  fixes held :: "'w \<Rightarrow> string set" and ok :: "'w \<Rightarrow> bool" and wv :: "('w, 'h, 'p) weave"
  defines "v \<equiv> \<lambda>w. (held w, ok w)"
  assumes b: "engine_bond wv held ok"
    and q: "quiet v wv" "quiet_reasoner v wv" "quiet_voices v wv" "quiet_log v wv"
    and w: "ok w" "\<not> psLockAcquired ps" "psAdditionalLocks ps = []"
  shows "owns held ok (held w) (final (execute_pipeline wv ps w))
       \<or> disowns held ok (held w) (final (execute_pipeline wv ps w))"
proof -
  let ?H = "held w" and ?dl = "wvDeadline wv"
  let ?fin = "\<lambda>c. owns held ok ?H c \<or> disowns held ok ?H c"
  have g: "quiet_gates v wv" and r: "quiet_routing v wv" and s: "quiet_session v wv"
    using q(1) by (simp_all add: quiet_def)
  note calm = calm_parts [OF q(1)]
  define rest where "rest = gate_back wv @ scout_step wv # after_scouts wv
     @ notify_step wv # before_delivery wv @ deliver_step wv # audit_step wv # after_delivery wv"
  have mark: "owns held ok ?H (ps\<lparr>psFailedAtStep := n\<rparr>, w) = owns held ok ?H (ps, w)" for ps w n
    by (rule owns_mark)
  have keep: "owns held ok ?H (final (stExec st c))" if "st \<in> set rest" "owns held ok ?H c" for st c
  proof (cases "st = scout_step wv")
    case True
    then show ?thesis
      using LinkScout_owns [OF b r [unfolded v_def] that(2)] by (simp add: stp_def)
  next
    case False
    have "all_calm v (notify_step wv # deliver_step wv # [audit_step wv])"
      using calm_Notification [OF s q(3)] calm_Delivery [OF q(3)] calm_AuditLog [of v "wvLog wv"] q(4)
      by (simp add: quiet_log_def)
    with calm(2,3,4) calm(6) [OF q(2)] False that(1) have "calm v (stExec st)"
      unfolding rest_def all_steps_def by auto
    then show ?thesis unfolding v_def by (rule owns_calm) (rule that(2))
  qed
  have rest: "owns held ok ?H (final (run_steps ?dl rest c))" if "owns held ok ?H c" for c
    by (rule run_steps_invariant [where P = "owns held ok ?H", OF keep _ that]) (simp_all add: mark)
  have lock: "?fin (final (run_steps ?dl (lock_step wv # rest) c))" if d: "disowns held ok ?H c" for c
  proof -
    note l = LockAcquisition_owns [OF b g [unfolded v_def] d]
    have e: "stExec (lock_step wv) = LockAcquisitionStep (wvBond wv) (wvInbox wv)" by (simp add: stp_def)
    show ?thesis
    proof (cases "stExec (lock_step wv) c")
      case (Ret x c1)
      obtain ps1 w1 where c1: "c1 = (ps1, w1)" by (cases c1)
      show ?thesis
      proof (cases x)
        case None
        with Ret l rest e show ?thesis by (simp add: run_steps_step(1) del: run_steps.simps)
      next
        case (Some y)
        with Ret c1 run_steps_step(3) [of "lock_step wv" c y ps1 w1 ?dl rest] l e show ?thesis
          by (auto simp: disowns_mark simp del: run_steps.simps)
      qed
    next
      case (Panic c1)
      with l e show ?thesis by simp
    qed
  qed
  let ?c0 = "(ps\<lparr>psStartTime := wvNow wv w, psStatus := ''success''\<rparr>, w)"
  have d0: "disowns held ok ?H ?c0" using w by (simp add: disowns_def)
  have dk: "disowns held ok ?H (final (stExec st c))"
    if "all_calm v sts" "st \<in> set sts" "disowns held ok ?H c" for sts st c
    by (rule disowns_calm [OF _ that(3)]) (use that(1,2) in \<open>simp add: v_def all_steps_def\<close>)
  have kk: "owns held ok ?H (final (stExec st c))"
    if "all_calm v sts" "st \<in> set sts" "owns held ok ?H c" for sts st c
    by (rule owns_calm [OF _ that(3)]) (use that(1,2) in \<open>simp add: v_def all_steps_def\<close>)
  have front: "disowns held ok ?H (final (run_steps ?dl (gate_front wv) ?c0))"
    by (rule run_steps_invariant [where P = "disowns held ok ?H", OF dk [OF calm(1)] _ d0])
      (simp_all add: disowns_mark)
  have "?fin (final (run_steps ?dl (gate_front wv @ lock_step wv # rest) ?c0))"
    by (rule run_steps_split [where P = "\<lambda>out. ?fin (final out)", OF refl]) (use front lock in auto)
  then have main: "?fin (final (run_steps ?dl (buildProcessingPipeline wv) ?c0))"
    by (simp add: pipeline_parts rest_def)
  have "?fin (final (run_deferred ?dl (deferred_steps wv) c))" if "?fin c" for c
    using that run_deferred_invariant [where P = "owns held ok ?H", OF kk [OF calm(5)]]
      run_deferred_invariant [where P = "disowns held ok ?H", OF dk [OF calm(5)]] by blast
  with main show ?thesis by (simp add: execute_pipeline_def final_pipeline)
qed

lemma logInteraction_leaves: "quiet_log v wv \<Longrightarrow> v (snd (logInteraction (wvLog wv) now ps w)) = v w"
  by (simp add: logInteraction_def quiet_log_def leaves_snd split_beta)

text \<open>A cycle whose pipeline does not panic gives back every lock it took, and takes none it did not get.\<close>

lemma cycle_locks:
  fixes held :: "'w \<Rightarrow> string set" and ok :: "'w \<Rightarrow> bool" and wv :: "('w, 'h, 'p) weave"
  defines "v \<equiv> \<lambda>w. (held w, ok w)"
  assumes b: "engine_bond wv held ok"
    and q: "quiet v wv" "quiet_reasoner v wv" "quiet_voices v wv" "quiet_log v wv"
    and w: "ok w" "\<not> psLockAcquired ps" "psAdditionalLocks ps = []"
    and run: "execute_pipeline wv ps w = Ret err c"
  shows "held (snd (runProcessingPipeline wv ps w)) = held w \<and> ok (snd (runProcessingPipeline wv ps w))"
proof -
  have "owns held ok (held w) c \<or> disowns held ok (held w) c"
    using pipeline_locks [OF b q [unfolded v_def] w] run by simp
  note rel = cleanup_releases [OF b this]
  obtain ps2 w2 where c2: "release_cleanup (wvBond wv) c = (ps2, w2)"
    by (cases "release_cleanup (wvBond wv) c")
  have log: "v (snd (logInteraction (wvLog wv) (wvNow wv) ps2' w2)) = v w2" for ps2'
    by (rule logInteraction_leaves [OF q(4)])
  show ?thesis
  proof (cases err)
    case (Some e)
    have "snd (runProcessingPipeline wv ps w)
       = snd (logInteraction (wvLog wv) (wvNow wv) (ps2\<lparr>psStatus := statusFromError e\<rparr>) w2)"
      by (simp add: runProcessingPipeline_def run c2 Some Let_def)
    with log rel c2 show ?thesis by (simp add: v_def)
  next
    case None
    with rel c2 show ?thesis
      by (simp add: runProcessingPipeline_def run split: option.split)
  qed
qed

end
