(* ===== verification/Sends.thy ===== *)
theory Sends
  imports Cycle
begin

text \<open>
  What a cycle sends through its Voices: at most one text, marked as delivered, and, unless the
  Spirit is a notifier, one the output guard let out. \<open>sent\<close> observes the texts that went out.
\<close>

section \<open>Voices that record what they send\<close>

definition records_sends :: "('w \<Rightarrow> string list) \<Rightarrow> ('w, 'h, 'p) weave \<Rightarrow> bool" where
  "records_sends sent wv \<longleftrightarrow>
     (\<forall>n vc e t w. voice_Get n (ntVoices (wvNotifier wv)) = Inr vc \<longrightarrow>
        sent (snd (voSend vc e t w)) = (if fst (voSend vc e t w) = None then sent w @ [t] else sent w))"

definition notifies :: "ProcessingState \<Rightarrow> bool" where
  "notifies ps \<longleftrightarrow> (\<exists>sp. psSpirit ps = Some sp \<and> IsNotifier sp)"

text \<open>A text that may go out: a notifier's, or one that left the guard when there is one.\<close>

definition may_send :: "('w, 'h, 'p) weave \<Rightarrow> ProcessingState \<Rightarrow> string \<Rightarrow> bool" where
  "may_send wv ps t \<longleftrightarrow>
     t \<noteq> [] \<and> (notifies ps \<or> (\<forall>og. wvOutputGuard wv = Some og \<longrightarrow> t \<in> range (guarded og)))"

definition sent_once :: "('w, 'h, 'p) weave \<Rightarrow> ('w \<Rightarrow> string list) \<Rightarrow> string list \<Rightarrow> 'w conf \<Rightarrow> bool" where
  "sent_once wv sent s0 c \<longleftrightarrow>
     sent (snd c) = s0
     \<or> (psResponseDelivered (fst c) \<and> (\<exists>t. sent (snd c) = s0 @ [t] \<and> may_send wv (fst c) t))"

definition keeps_spirit :: "('w conf \<Rightarrow> 'w conf outcome) \<Rightarrow> bool" where
  "keeps_spirit f \<longleftrightarrow> (\<forall>ps w. psSpirit (fst (final (f (ps, w)))) = psSpirit ps)"

lemma keeps_spirit_steps:
  "keeps_spirit (OutputGuardStep og)" "keeps_spirit (PersistenceStep mm er now)"
  "keeps_spirit (ResponseDeliveryStep voices)" "keeps_spirit (AuditLogStep lg now)"
  "keeps_spirit (ImprintExtractionStep b x)" "keeps_spirit (LedgerUpdateStep ld)"
  "keeps_spirit (MarkExecutedStep g)" "keeps_spirit (TypingStep g)"
  by (simp_all add: keeps_spirit_def OutputGuardStep_def PersistenceStep_def ResponseDeliveryStep_def
      AuditLogStep_def ImprintExtractionStep_def LedgerUpdateStep_def MarkExecutedStep_def TypingStep_def
      Let_def split: option.split sum.split prod.split)

lemma sent_once_calm:
  assumes "calm sent f" "keeps_spirit f" "sent_once wv sent s0 c"
  shows "sent_once wv sent s0 (final (f c))"
  using assms by (cases c) (auto simp: sent_once_def calm_def keeps_spirit_def may_send_def notifies_def)

lemma sent_once_mark: "sent_once wv sent s0 (ps\<lparr>psFailedAtStep := n\<rparr>, w) = sent_once wv sent s0 (ps, w)"
  by (simp add: sent_once_def may_send_def notifies_def)

section \<open>The two steps that send\<close>

lemma notifier_message_keeps:
  assumes "\<And>p q. leaves sent (ntGenerate nt p q)"
  shows "sent (snd (snd (notifier_message nt sp (ps, w)))) = sent w
    \<and> psSpirit (fst (snd (notifier_message nt sp (ps, w)))) = psSpirit ps"
  using assms
  by (simp add: notifier_message_def notifier_callOracle_def split_beta Let_def leaves_snd split: sum.split)

lemma Notification_sends:
  assumes q: "quiet_session sent wv" and r: "records_sends sent wv" and s: "sent (snd c) = s0"
  shows "sent_once wv sent s0 (final (NotificationStep (wvNotifier wv) c))"
proof -
  let ?nt = "wvNotifier wv"
  obtain ps w where c: "c = (ps, w)" by (cases c)
  have gen: "leaves sent (ntGenerate ?nt p q)" for p q using q by (simp add: quiet_session_def)
  note keep = notifier_message_keeps [of sent ?nt, OF gen]
  show ?thesis
  proof (cases "NotificationStep ?nt c = Ret None c")
    case True
    with s show ?thesis by (simp add: sent_once_def)
  next
    case False
    then obtain sp vc where sp: "psSpirit ps = Some sp" "IsNotifier sp" "\<not> psSkipped ps" "lVoiceName (psLink ps) \<noteq> []"
      and vc: "voice_Get (lVoiceName (psLink ps)) (ntVoices ?nt) = Inr vc"
      by (auto simp: NotificationStep_def c split: option.splits if_splits sum.splits)
    obtain msg ps1 w1 where m: "notifier_message ?nt sp (ps, w) = (msg, ps1, w1)"
      by (cases "notifier_message ?nt sp (ps, w)")
    with keep [of sp ps w] s c have w1: "sent w1 = s0" "psSpirit ps1 = Some sp" by (auto simp: sp)
    have send: "sent (snd (voSend vc e t w1)) = (if fst (voSend vc e t w1) = None then s0 @ [t] else s0)" for e t
      using r vc w1(1) by (auto simp: records_sends_def)
    show ?thesis
    proof (cases msg)
      case None
      with sp vc m w1 show ?thesis by (simp add: NotificationStep_def c sent_once_def)
    next
      case (Some t)
      show ?thesis
        using sp vc m w1 Some send [of "psEvent ps1" t]
        by (cases "fst (voSend vc (psEvent ps1) t w1)")
          (auto simp: NotificationStep_def c sent_once_def may_send_def notifies_def split_beta
            split: option.split)
    qed
  qed
qed

lemma Delivery_sends:
  assumes r: "records_sends sent wv" and s: "sent_once wv sent s0 c"
    and t: "psResponse (fst c) \<noteq> [] \<Longrightarrow> may_send wv (fst c) (psResponse (fst c))"
  shows "sent_once wv sent s0 (final (ResponseDeliveryStep (ntVoices (wvNotifier wv)) c))"
proof -
  obtain ps w where c: "c = (ps, w)" by (cases c)
  let ?step = "ResponseDeliveryStep (ntVoices (wvNotifier wv)) c"
  consider "?step = Ret None c" | "psStreaming ps" "?step = Ret None (ps\<lparr>psResponseDelivered := True\<rparr>, w)"
    | vc where "\<not> psStreaming ps" "\<not> psResponseDelivered ps" "psResponse ps \<noteq> []"
        "voice_Get (lVoiceName (psLink ps)) (ntVoices (wvNotifier wv)) = Inr vc"
        "?step = (case voSend vc (psEvent ps) (psResponse ps) w of
                         (Some _, w1) \<Rightarrow> Ret None (ps, w1)
                       | (None, w1) \<Rightarrow> Ret None (ps\<lparr>psResponseDelivered := True\<rparr>, w1))"
    by (cases "psStreaming ps"; cases "psResponseDelivered ps"; cases "lVoiceName (psLink ps) = []";
        cases "psResponse ps = []"; cases "voice_Get (lVoiceName (psLink ps)) (ntVoices (wvNotifier wv))";
        cases "voAuto (projr (voice_Get (lVoiceName (psLink ps)) (ntVoices (wvNotifier wv))))")
      (simp_all add: ResponseDeliveryStep_def c)
  then show ?thesis
  proof cases
    case 1
    with s show ?thesis by simp
  next
    case 2
    with s c show ?thesis by (auto simp: sent_once_def may_send_def notifies_def)
  next
    case (3 vc)
    have w: "sent w = s0" using s 3(2) c by (simp add: sent_once_def)
    have "sent (snd (voSend vc (psEvent ps) (psResponse ps) w))
       = (if fst (voSend vc (psEvent ps) (psResponse ps) w) = None then s0 @ [psResponse ps] else s0)"
      using r 3(4) w by (simp add: records_sends_def)
    with 3 t c show ?thesis
      by (cases "voSend vc (psEvent ps) (psResponse ps) w")
        (auto simp: sent_once_def may_send_def notifies_def split: option.split)
  qed
qed

section \<open>Between the guard and the delivery\<close>

lemma before_delivery_guards:
  assumes "run_steps dl (before_delivery wv) c = Ret None (ps, w)" "psResponse ps \<noteq> []"
  shows "may_send wv ps (psResponse ps)"
proof -
  let ?P = "PersistenceStep (wvMemory wv) (wvEchoes wv) (wvNow wv)"
  have keep: "psResponse (fst (final (?P c1))) = psResponse (fst c1)" for c1
    by (cases c1) (simp add: PersistenceStep_def Let_def split: option.split prod.split)
  show ?thesis
  proof (cases "wvOutputGuard wv")
    case None
    with assms(2) show ?thesis by (simp add: may_send_def)
  next
    case (Some og)
    have last: "psResponse ps = psResponse (fst c1)"
      if "run_steps dl [stp ''Persistence'' ?P] c1 = Ret None (ps, w)" for c1
      using that keep [of c1]
      by (auto simp: executeStep_def stp_def split: outcome.splits option.splits)
    define c1 where "c1 = final (OutputGuardStep og c)"
    have g: "OutputGuardStep og c = Ret None c1"
      by (cases c) (simp add: OutputGuardStep_def c1_def)
    have "run_steps dl [stp ''Persistence'' ?P] c1 = Ret None (ps, w)"
      using assms(1) g Some
      by (simp add: before_delivery_def opt_step_def executeStep_def stp_def)
    with last assms(2) have r: "psResponse ps = psResponse (fst c1)" "psResponse (fst c1) \<noteq> []" by auto
    moreover from r(2) g have "psResponse (fst c1) \<in> range (guarded og)"
      by (cases c) (auto simp: OutputGuardStep_def split: if_splits)
    ultimately show ?thesis using Some assms(2) by (simp add: may_send_def)
  qed
qed

section \<open>The whole cycle\<close>

lemma LockAcquisition_quiet:
  assumes "quiet_gates v wv" "quiet_bond v wv"
  shows "v (snd (final (LockAcquisitionStep (wvBond wv) (wvInbox wv) c))) = v (snd c)"
  using assms(2) push_inbox_leaves [OF assms(1)]
  by (cases c) (simp add: LockAcquisitionStep_def Let_def split_beta quiet_bond_def leaves_snd
      split: sum.split bool.split)

lemma LinkScout_quiet:
  assumes "quiet_routing v wv" "quiet_bond v wv"
  shows "v (snd (final (LinkScoutStep (wvScouts wv) (wvBond wv) c))) = v (snd c)"
proof -
  obtain ps w where c: "c = (ps, w)" by (cases c)
  have acq: "v (snd (boAcquire (wvBond wv) k w')) = v w'" for k w'
    using assms(2) by (simp add: quiet_bond_def leaves_snd)
  show ?thesis
  proof (cases "wvScouts wv")
    case (Some reg)
    show ?thesis
    proof (cases "scout_GetMultiple (lRequireScouts (psLink ps)) reg")
      case (Inr scs)
      have "v (snd (runScouts scs e w)) = v w" for e
        by (rule scouts_quiet [OF assms(1) Some Inr])
      with Some Inr acq show ?thesis
        by (simp add: c LinkScoutStep_def Let_def split_beta split: sum.split bool.split)
    qed (simp add: c LinkScoutStep_def Some)
  qed (simp add: c LinkScoutStep_def)
qed

lemma pipeline_sends:
  assumes q: "quiet sent wv" "quiet_reasoner sent wv" "quiet_bond sent wv" "quiet_log sent wv"
    and r: "records_sends sent wv"
  shows "sent_once wv sent (sent w) (final (execute_pipeline wv ps w))"
proof -
  let ?s = "sent w" and ?dl = "wvDeadline wv"
  let ?ok = "\<lambda>out. sent_once wv sent ?s (final out)"
  have parts: "quiet_gates sent wv" "quiet_routing sent wv" "quiet_session sent wv"
    using q(1) by (simp_all add: quiet_def)
  note calm = calm_parts [OF q(1)]
  define start where "start = gate_front wv @ lock_step wv # gate_back wv @ scout_step wv # after_scouts wv"
  define tail where "tail = audit_step wv # after_delivery wv"
  have calm_tail: "all_calm sent tail"
    using calm(4) q(4) calm_AuditLog [of sent "wvLog wv"] by (simp add: tail_def quiet_log_def)
  have ks_tail: "all_steps keeps_spirit tail"
    by (auto simp: tail_def after_delivery_def keeps_spirit_steps)
  have keep: "sent_once wv sent ?s (final (stExec st c))"
    if "all_calm sent sts" "all_steps keeps_spirit sts" "st \<in> set sts" "sent_once wv sent ?s c"
    for sts st c
    by (rule sent_once_calm [OF _ _ that(4)]) (use that(1,2,3) in \<open>simp_all add: all_steps_def\<close>)
  have tail: "?ok (run_steps ?dl tail c)" if "sent_once wv sent ?s c" for c
    by (rule run_steps_invariant [where P = "sent_once wv sent ?s", OF keep [OF calm_tail ks_tail] _ that])
      (simp_all add: sent_once_mark)
  have ks_before: "all_steps keeps_spirit (before_delivery wv)"
    by (simp add: before_delivery_def keeps_spirit_steps)
  have before: "?ok (run_steps ?dl (before_delivery wv) c)" if "sent_once wv sent ?s c" for c
    by (rule run_steps_invariant [where P = "sent_once wv sent ?s", OF keep [OF calm(3) ks_before] _ that])
      (simp_all add: sent_once_mark)
  have step: "?ok (run_steps ?dl (st # sts) c)"
    if "sent_once wv sent ?s (final (stExec st c))"
      "\<And>c1. sent_once wv sent ?s c1 \<Longrightarrow> stExec st c = Ret None c1 \<Longrightarrow> ?ok (run_steps ?dl sts c1)" for st sts c
  proof (cases "stExec st c")
    case (Ret x c1)
    obtain ps1 w1 where c1: "c1 = (ps1, w1)" by (cases c1)
    show ?thesis
    proof (cases x)
      case None
      with Ret that show ?thesis by (simp add: run_steps_step(1) del: run_steps.simps)
    next
      case (Some y)
      with Ret c1 run_steps_step(3) [of st c y ps1 w1 ?dl sts] that(1) show ?thesis
        by (auto simp: sent_once_mark simp del: run_steps.simps)
    qed
  next
    case (Panic c1)
    with that(1) show ?thesis by (simp add: run_steps_step(2) del: run_steps.simps)
  qed
  have deliver: "?ok (run_steps ?dl (deliver_step wv # tail) c)"
    if "sent_once wv sent ?s c" "psResponse (fst c) \<noteq> [] \<Longrightarrow> may_send wv (fst c) (psResponse (fst c))" for c
    by (rule step) (use Delivery_sends [OF r that] tail in \<open>simp_all add: stp_def\<close>)
  have guard: "?ok (run_steps ?dl (before_delivery wv @ deliver_step wv # tail) c)"
    if "sent_once wv sent ?s c" for c
    by (rule run_steps_split [where P = ?ok, OF refl])
      (use before [OF that] deliver before_delivery_guards [of ?dl wv c] in auto)
  have notify: "?ok (run_steps ?dl (notify_step wv # before_delivery wv @ deliver_step wv # tail) c)"
    if "sent (snd c) = ?s" for c
    by (rule step) (use Notification_sends [OF parts(3) r that] guard in \<open>simp_all add: stp_def\<close>)
  have quiet_start: "sent (snd (final (stExec st c))) = sent (snd c)" if "st \<in> set start" for st c
  proof -
    have "calm sent (stExec st) \<or> st = lock_step wv \<or> st = scout_step wv"
      using that calm(1,2) calm(6) [OF q(2)] by (auto simp: start_def all_steps_def)
    then show ?thesis
      using LockAcquisition_quiet [OF parts(1) q(3)] LinkScout_quiet [OF parts(2) q(3)]
      by (cases c) (auto simp: calm_def stp_def)
  qed
  have start: "sent (snd (final (run_steps ?dl start c))) = ?s" if "sent (snd c) = ?s" for c
    by (rule run_steps_invariant [where P = "\<lambda>c. sent (snd c) = ?s"]) (use quiet_start that in auto)
  let ?c0 = "(ps\<lparr>psStartTime := wvNow wv w, psStatus := ''success''\<rparr>, w)"
  have "?ok (run_steps ?dl (start @ notify_step wv # before_delivery wv @ deliver_step wv # tail) ?c0)"
    by (rule run_steps_split [where P = ?ok, OF refl])
      (use start [of ?c0] notify in \<open>auto simp: sent_once_def\<close>)
  then have main: "?ok (run_steps ?dl (buildProcessingPipeline wv) ?c0)"
    by (simp add: pipeline_parts start_def tail_def)
  have ks_def: "all_steps keeps_spirit (deferred_steps wv)"
    by (auto simp: deferred_steps_def keeps_spirit_steps)
  have "?ok (run_deferred ?dl (deferred_steps wv) c)" if "sent_once wv sent ?s c" for c
    by (rule run_deferred_invariant [where P = "sent_once wv sent ?s", OF keep [OF calm(5) ks_def] that])
  with main show ?thesis by (simp add: execute_pipeline_def final_pipeline)
qed

text \<open>The clean-up sends nothing.\<close>

lemma release_all_quiet: "(\<And>k. leaves v (boRelease b k)) \<Longrightarrow> v (release_all b ks w) = v w"
  by (induction ks arbitrary: w) (simp_all add: leaves_snd)

lemma cleanup_quiet:
  assumes "quiet_bond v wv"
  shows "v (snd (release_cleanup (wvBond wv) c)) = v (snd c)"
  using assms release_all_quiet [of v "wvBond wv"]
  by (cases c) (simp add: release_cleanup_def LockReleaseStep_def quiet_bond_def leaves_snd)

lemma cycle_world:
  assumes "quiet_bond v wv" "quiet_log v wv"
  shows "v (snd (runProcessingPipeline wv ps w)) = v (snd (final (execute_pipeline wv ps w)))"
proof (cases "execute_pipeline wv ps w")
  case (Ret err c)
  obtain ps2 w2 where c2: "release_cleanup (wvBond wv) c = (ps2, w2)"
    by (cases "release_cleanup (wvBond wv) c")
  have "v w2 = v (snd c)" using cleanup_quiet [OF assms(1), of c] c2 by simp
  with Ret c2 logInteraction_leaves [OF assms(2)] show ?thesis
    by (cases err) (auto simp: runProcessingPipeline_def Let_def split: option.split)
qed (simp add: runProcessingPipeline_def)

end
