(* ===== verification/Outcomes.thy ===== *)
theory Outcomes
  imports Sends
begin

text \<open>
  How a cycle ends: which Spirits a success response can come from, and that each cycle that
  returns left exactly one audit record.
\<close>

section \<open>Who answered\<close>

text \<open>The fields that decide the end of a cycle.\<close>

definition answer_of :: "ProcessingState \<Rightarrow> spirit option \<times> bool \<times> ReasoningResult option" where
  "answer_of ps = (psSpirit ps, psSkipped ps, psResult ps)"

text \<open>A cycle without a reasoning result: the notifier did not ask a model, or the turn was skipped.\<close>

definition unanswered :: "ProcessingState \<Rightarrow> bool" where
  "unanswered ps \<longleftrightarrow> (\<forall>sp. psSpirit ps = Some sp \<longrightarrow>
     (if IsNotifier sp then nfMode (sNotifierConfig sp) \<noteq> ''llm'' else psSkipped ps \<or> \<not> NeedsSession sp)
     \<longrightarrow> psResult ps = None)"

definition keeps_answer :: "('w conf \<Rightarrow> 'w conf outcome) \<Rightarrow> bool" where
  "keeps_answer f \<longleftrightarrow> (\<forall>ps w. answer_of (fst (final (f (ps, w)))) = answer_of ps)"

definition keeps_result :: "('w conf \<Rightarrow> 'w conf outcome) \<Rightarrow> bool" where
  "keeps_result f \<longleftrightarrow> (\<forall>ps w. psResult (fst (final (f (ps, w)))) = psResult ps)"

text \<open>A session is there only when the Spirit in charge keeps one.\<close>

definition session_fits :: "ProcessingState \<Rightarrow> bool" where
  "session_fits ps \<longleftrightarrow> (psSession ps \<noteq> None \<longrightarrow> needs_session ps)"

lemma keeps_answer_steps:
  "keeps_answer (OutputGuardStep og)" "keeps_answer (PersistenceStep mm er now)"
  "keeps_answer (ResponseDeliveryStep voices)" "keeps_answer (AuditLogStep lg now)"
  "keeps_answer (ImprintExtractionStep b x)" "keeps_answer (LedgerUpdateStep ld)"
  "keeps_answer (MarkExecutedStep g)" "keeps_answer (TypingStep g)"
  by (simp_all add: keeps_answer_def answer_of_def OutputGuardStep_def PersistenceStep_def
      ResponseDeliveryStep_def AuditLogStep_def ImprintExtractionStep_def LedgerUpdateStep_def
      MarkExecutedStep_def TypingStep_def Let_def split: option.split sum.split prod.split)

lemma unanswered_answer_of: "answer_of ps = answer_of ps' \<Longrightarrow> unanswered ps = unanswered ps'"
  by (simp add: answer_of_def unanswered_def)

lemma unanswered_kept: "keeps_answer f \<Longrightarrow> unanswered (fst c) \<Longrightarrow> unanswered (fst (final (f c)))"
  by (cases c) (metis fst_conv keeps_answer_def unanswered_answer_of)

lemma unanswered_mark: "unanswered (ps\<lparr>psFailedAtStep := n\<rparr>) = unanswered ps"
  by (simp add: unanswered_def)

lemma drain_keeps:
  "psResult (fst (drain ib mw now wait ps w)) = psResult ps
   \<and> psSession (fst (drain ib mw now wait ps w)) = psSession ps
   \<and> psSpirit (fst (drain ib mw now wait ps w)) = psSpirit ps"
  by (simp add: drain_def Let_def split: option.split sum.split prod.split)

lemma enforce_budget_keeps:
  "psResult (fst (enforce_budget h n b u (ps, w))) = psResult ps
   \<and> psSession (fst (enforce_budget h n b u (ps, w))) = psSession ps
   \<and> map_option sType (psSpirit (fst (enforce_budget h n b u (ps, w)))) = map_option sType (psSpirit ps)
   \<and> needs_session (fst (enforce_budget h n b u (ps, w))) = needs_session ps"
  by (simp add: enforce_budget_def set_model_def Let_def needs_session_def NeedsSession_def
      IsConversational_def IsOrchestrator_def IsExecutor_def split: option.split)

lemma keeps_result_steps:
  "keeps_result (ValidationStep val)" "keeps_result (IdempotencyStep s t)" "keeps_result (RateLimitStep a)"
  "keeps_result (LockAcquisitionStep b ib)" "keeps_result (VigilCheckStep vg)" "keeps_result (TypingStep g)"
  "keeps_result (RitualMarkStep g)" "keeps_result (LinkScoutStep sc b)" "keeps_result FilterStep"
  "keeps_result (SpiritSelectionStep pf pins)" "keeps_result (SpiritLoadStep look)"
  "keeps_result (HTTPToolLoadStep lk nm rg)" "keeps_result (SpiritScoutStep sc lo im)"
  "keeps_result (OrchestratorRoutingStep rt look)" "keeps_result (MediaVaultStep st rid)"
  "keeps_result (MediaProcessingStep lens)" "keeps_result (SessionSetupStep mm now)"
  "keeps_result (ArchivistStep ar th k)" "keeps_result (MessageCoalescingStep mm ib mw now wait)"
  "keeps_result (CostEnforcementStep ld h)" "keeps_result (ModelRoutingStep rules)"
  "keeps_result (ConditionEvaluationStep ff)"
  by (simp_all add: keeps_result_def ValidationStep_def IdempotencyStep_def RateLimitStep_def
      LockAcquisitionStep_def VigilCheckStep_def TypingStep_def RitualMarkStep_def LinkScoutStep_def
      FilterStep_def SpiritSelectionStep_def SpiritLoadStep_def HTTPToolLoadStep_def SpiritScoutStep_def
      OrchestratorRoutingStep_def MediaVaultStep_def MediaProcessingStep_def SessionSetupStep_def
      ArchivistStep_def MessageCoalescingStep_def CostEnforcementStep_def ModelRoutingStep_def set_model_def
      ConditionEvaluationStep_def split_beta Let_def drain_keeps enforce_budget_keeps
      split: option.split sum.split bool.split)

definition early_steps :: "('w, 'h, 'p) weave \<Rightarrow> 'w pstep list" where
  "early_steps wv = gate_steps wv @ routing_steps wv
     @ opt_step ''MediaVault'' (\<lambda>(store, rid). MediaVaultStep store rid) (wvVault wv)
     @ opt_step ''MediaProcessing'' MediaProcessingStep (wvLens wv)"

definition middle_steps :: "('w, 'h, 'p) weave \<Rightarrow> 'w pstep list" where
  "middle_steps wv =
     opt_step ''Archivist'' (\<lambda>(f, threshold, keep). ArchivistStep (Some f) threshold keep) (wvArchivist wv)
     @ [stp ''MessageCoalescing''
          (MessageCoalescingStep (wvMemory wv) (wvInbox wv) (wvInboxMinWindow wv) (wvNow wv) (wvWait wv))]
     @ opt_step ''CostEnforcement'' (\<lambda>ld. CostEnforcementStep ld (wvAlertHook wv)) (wvLedger wv)
     @ (if wvRoutingRules wv = [] then [] else [stp ''ModelRouting'' (ModelRoutingStep (wvRoutingRules wv))])
     @ [stp ''ConditionEvaluation'' (ConditionEvaluationStep (ntFloat (wvNotifier wv)))]"

definition late_steps :: "('w, 'h, 'p) weave \<Rightarrow> 'w pstep list" where
  "late_steps wv = before_delivery wv @ deliver_step wv # audit_step wv # after_delivery wv"

lemma pipeline_phases:
  "buildProcessingPipeline wv =
     early_steps wv @ stp ''SessionSetup'' (SessionSetupStep (wvMemory wv) (wvNow wv)) # middle_steps wv
     @ stp ''Reasoning'' (ReasoningStep (wvReasoner wv)) # notify_step wv # late_steps wv"
  by (simp add: buildProcessingPipeline_def session_steps_def answer_steps_def early_steps_def
      middle_steps_def late_steps_def before_delivery_def after_delivery_def)

definition keeps_session :: "('w conf \<Rightarrow> 'w conf outcome) \<Rightarrow> bool" where
  "keeps_session f \<longleftrightarrow> (\<forall>ps w. psSession (fst (final (f (ps, w)))) = psSession ps)"

lemma keeps_session_steps:
  "keeps_session (ValidationStep val)" "keeps_session (IdempotencyStep s t)" "keeps_session (RateLimitStep a)"
  "keeps_session (LockAcquisitionStep b ib)" "keeps_session (VigilCheckStep vg)" "keeps_session (TypingStep g)"
  "keeps_session (RitualMarkStep g)" "keeps_session (LinkScoutStep sc b)" "keeps_session FilterStep"
  "keeps_session (SpiritSelectionStep pf pins)" "keeps_session (SpiritLoadStep look)"
  "keeps_session (HTTPToolLoadStep lk nm rg)" "keeps_session (SpiritScoutStep sc lo im)"
  "keeps_session (OrchestratorRoutingStep rt look)" "keeps_session (MediaVaultStep st rid)"
  "keeps_session (MediaProcessingStep lens)"
  by (simp_all add: keeps_session_def ValidationStep_def IdempotencyStep_def RateLimitStep_def
      LockAcquisitionStep_def VigilCheckStep_def TypingStep_def RitualMarkStep_def LinkScoutStep_def
      FilterStep_def SpiritSelectionStep_def SpiritLoadStep_def HTTPToolLoadStep_def SpiritScoutStep_def
      OrchestratorRoutingStep_def MediaVaultStep_def MediaProcessingStep_def split_beta Let_def
      split: option.split sum.split bool.split)

lemma early_keeps: "all_steps keeps_result (early_steps wv)" "all_steps keeps_session (early_steps wv)"
  by (auto simp: early_steps_def gate_steps_def routing_steps_def keeps_result_steps keeps_session_steps)

text \<open>Before the reasoning: no result, and a session only for a Spirit that keeps one.\<close>

definition unreasoned :: "ProcessingState \<Rightarrow> bool" where
  "unreasoned ps \<longleftrightarrow> psResult ps = None \<and> session_fits ps"

lemma session_fits_update [simp]:
  "session_fits (ps\<lparr>psEvent := e\<rparr>) = session_fits ps"
  "session_fits (ps\<lparr>psFailedAtStep := n\<rparr>) = session_fits ps"
  "session_fits (ps\<lparr>psArchivistApplied := b\<rparr>) = session_fits ps"
  by (simp_all add: session_fits_def needs_session_def)

lemma SessionSetup_unreasoned:
  assumes "psResult (fst c) = None" "psSession (fst c) = None"
  shows "unreasoned (fst (final (SessionSetupStep mm now c)))"
  using assms
  by (cases c) (auto simp: SessionSetupStep_def unreasoned_def session_fits_def needs_session_def Let_def
      split: option.split sum.split prod.split)

definition keeps_unreasoned :: "('w conf \<Rightarrow> 'w conf outcome) \<Rightarrow> bool" where
  "keeps_unreasoned f \<longleftrightarrow> (\<forall>ps w. unreasoned ps \<longrightarrow> unreasoned (fst (final (f (ps, w)))))"

lemma keeps_unreasoned_steps:
  "keeps_unreasoned (ArchivistStep (Some f) th k)" "keeps_unreasoned (ModelRoutingStep rules)"
  "keeps_unreasoned (ConditionEvaluationStep ff)"
  by (auto simp: keeps_unreasoned_def ArchivistStep_def ModelRoutingStep_def set_model_def
      ConditionEvaluationStep_def unreasoned_def session_fits_def needs_session_def NeedsSession_def
      IsConversational_def IsOrchestrator_def IsExecutor_def Let_def split: option.split sum.split prod.split)

lemma keeps_unreasoned_coalescing: "keeps_unreasoned (MessageCoalescingStep mm ib mw now wait)"
  by (simp add: keeps_unreasoned_def MessageCoalescingStep_def unreasoned_def session_fits_def
      needs_session_def drain_keeps Let_def split_beta split: option.split)

lemma keeps_unreasoned_cost: "keeps_unreasoned (CostEnforcementStep ld h)"
  by (simp add: keeps_unreasoned_def CostEnforcementStep_def unreasoned_def session_fits_def
      enforce_budget_keeps split_beta split: option.split sum.split)

lemma middle_unreasoned: "all_steps keeps_unreasoned (middle_steps wv)"
  by (auto simp: middle_steps_def keeps_unreasoned_steps keeps_unreasoned_coalescing keeps_unreasoned_cost)

lemma populate_keeps:
  "psSpirit (populateStateFromResult live r ps) = psSpirit ps"
  "psSkipped (populateStateFromResult live r ps) = psSkipped ps"
  by (simp_all add: populateStateFromResult_def split: option.split)

lemma Reasoning_unanswered:
  assumes "unreasoned (fst c)" "ReasoningStep rx c = Ret e (ps', w')"
  shows "unanswered ps'"
proof -
  obtain ps w where c: "c = (ps, w)" by (cases c)
  have u: "psResult ps = None" "session_fits ps" using assms(1) by (simp_all add: c unreasoned_def)
  show ?thesis
  proof (cases "psSpirit ps")
    case None
    with assms(2) u show ?thesis by (auto simp: c ReasoningStep_def unanswered_def split: if_splits)
  next
    case (Some sp)
    show ?thesis
    proof (cases "psSkipped ps \<or> IsNotifier sp")
      case True
      with Some assms(2) u show ?thesis by (auto simp: c ReasoningStep_def unanswered_def split: if_splits)
    next
      case False
      with Some assms(2) obtain m where m: "psSession ps = Some m"
        by (cases "psSession ps") (simp_all add: c ReasoningStep_def)
      with u Some have "NeedsSession sp" by (simp add: session_fits_def needs_session_def)
      let ?w1 = "rxPut rx m w" and ?q = "buildReasoningRequest rx (psEvent ps) sp m"
      obtain err r w2 where out: "(if psSink ps then executeStreaming rx ?q ?w1 else rxRun rx ?q False ?w1)
          = Some (err, r, w2)"
        using assms(2) False Some m
        by (cases "if psSink ps then executeStreaming rx ?q ?w1 else rxRun rx ?q False ?w1")
          (simp_all add: c ReasoningStep_def Let_def, metis prod_cases3)
      have "psSpirit ps' = Some sp \<and> psSkipped ps' = psSkipped ps"
        using assms(2) False Some m out by (auto simp: c ReasoningStep_def Let_def populate_keeps)
      with False \<open>NeedsSession sp\<close> show ?thesis by (simp add: unanswered_def)
    qed
  qed
qed

lemma Notification_unanswered:
  assumes "unanswered (fst c)" "NotificationStep nt c = Ret e (ps', w')"
  shows "unanswered ps'"
proof -
  obtain ps w where c: "c = (ps, w)" by (cases c)
  show ?thesis
  proof (cases "ps' = ps")
    case False
    then obtain sp where sp: "psSpirit ps = Some sp" "IsNotifier sp" "psSkipped ps = False"
      using assms(2) by (auto simp: c NotificationStep_def split: option.splits if_splits)
    show ?thesis
    proof (cases "nfMode (sNotifierConfig sp) = ''llm''")
      case True
      have "psSpirit (fst (snd (notifier_message nt sp (ps, w)))) = psSpirit ps"
        by (simp add: notifier_message_def notifier_callOracle_def Let_def split_beta split: sum.split)
      then have "psSpirit ps' = Some sp"
        using assms(2) sp
        by (auto simp: c NotificationStep_def split_beta split: option.splits if_splits sum.splits)
      with sp True show ?thesis by (simp add: unanswered_def)
    next
      case not_llm: False
      then have "snd (notifier_message nt sp (ps, w)) = (ps, w)" by (simp add: notifier_message_def Let_def)
      then have "psSpirit ps' = Some sp \<and> psResult ps' = psResult ps"
        using assms(2) sp
        by (auto simp: c NotificationStep_def split_beta split: option.splits if_splits sum.splits)
      with assms(1) sp not_llm show ?thesis by (simp add: unanswered_def c)
    qed
  qed (use assms(1) c in simp)
qed

text \<open>The end of a list of steps whose runs all went well.\<close>

lemma run_steps_Cons_None:
  assumes "run_steps dl (st # sts) c = Ret None c'"
  obtains c1 where "stExec st c = Ret None c1" "run_steps dl sts c1 = Ret None c'"
  using assms by (auto simp: executeStep_def split: outcome.splits option.splits prod.splits)

lemma run_steps_append_None:
  assumes "run_steps dl (xs @ ys) c = Ret None c'"
  obtains c1 where "run_steps dl xs c = Ret None c1" "run_steps dl ys c1 = Ret None c'"
  using assms by (auto simp: run_steps_append split: outcome.splits option.splits)

lemma late_keeps_answer: "all_steps keeps_answer (late_steps wv)"
  by (auto simp: late_steps_def before_delivery_def after_delivery_def keeps_answer_steps)

lemma deferred_keeps_answer: "all_steps keeps_answer (deferred_steps wv)"
  by (auto simp: deferred_steps_def keeps_answer_steps)

lemma pipeline_unanswered:
  assumes "psResult ps = None" "psSession ps = None" "execute_pipeline wv ps w = Ret None c"
  shows "unanswered (fst c)"
proof -
  let ?dl = "wvDeadline wv"
  let ?c0 = "(ps\<lparr>psStartTime := wvNow wv w, psStatus := ''success''\<rparr>, w)"
  obtain c1 where run: "run_steps ?dl (buildProcessingPipeline wv) ?c0 = Ret None c1"
    and def: "run_deferred ?dl (deferred_steps wv) c1 = Ret None c \<or> final (run_deferred ?dl (deferred_steps wv) c1) = c"
    using assms(3) unfolding execute_pipeline_def pipeline_Execute_def
    by (auto split: outcome.splits)
  obtain c2 c3 c4 c5 c6 where
    e: "run_steps ?dl (early_steps wv) ?c0 = Ret None c2"
    and s: "SessionSetupStep (wvMemory wv) (wvNow wv) c2 = Ret None c3"
    and m: "run_steps ?dl (middle_steps wv) c3 = Ret None c4"
    and r: "ReasoningStep (wvReasoner wv) c4 = Ret None c5"
    and n: "NotificationStep (wvNotifier wv) c5 = Ret None c6"
    and l: "run_steps ?dl (late_steps wv) c6 = Ret None c1"
    using run unfolding pipeline_phases
    by (elim run_steps_append_None run_steps_Cons_None) (simp add: stp_def)
  have "psResult (fst (final (run_steps ?dl (early_steps wv) ?c0))) = None
      \<and> psSession (fst (final (run_steps ?dl (early_steps wv) ?c0))) = None"
    by (rule run_all_steps [where K = "\<lambda>f. keeps_result f \<and> keeps_session f"
          and P = "\<lambda>c. psResult (fst c) = None \<and> psSession (fst c) = None"])
      (use assms(1,2) early_keeps [of wv] in \<open>auto simp: all_steps_def keeps_result_def keeps_session_def\<close>)
  with e s have "unreasoned (fst c3)" using SessionSetup_unreasoned [of c2 "wvMemory wv" "wvNow wv"] by simp
  then have "unreasoned (fst (final (run_steps ?dl (middle_steps wv) c3)))"
    by (rule run_all_steps [OF middle_unreasoned, where P = "\<lambda>c. unreasoned (fst c)", rotated 2])
      (auto simp: keeps_unreasoned_def unreasoned_def)
  with m r have "unanswered (fst c5)" by (cases c5) (auto dest: Reasoning_unanswered)
  with n have "unanswered (fst c6)" by (cases c6) (auto dest: Notification_unanswered)
  then have "unanswered (fst (final (run_steps ?dl (late_steps wv) c6)))"
    by (rule run_all_steps [OF late_keeps_answer, where P = "\<lambda>c. unanswered (fst c)", rotated 2])
      (auto intro: unanswered_kept simp: unanswered_mark)
  with l have "unanswered (fst c1)" by simp
  then have "unanswered (fst (final (run_deferred ?dl (deferred_steps wv) c1)))"
    by (rule run_all_deferred [OF deferred_keeps_answer, where P = "\<lambda>c. unanswered (fst c)", rotated])
      (rule unanswered_kept)
  with def show ?thesis by auto
qed

lemma cleanup_state:
  "fst (release_cleanup b c) = (fst c)\<lparr>psLockAcquired := False\<rparr>"
  by (cases c) (simp add: release_cleanup_def LockReleaseStep_def)

lemma success_cases:
  assumes "runProcessingPipeline wv ps w = (Some (resp, err), w')" "reStatus resp = ResponseSuccess"
  obtains ps' w1 sp r where "execute_pipeline wv ps w = Ret None (ps', w1)" "err = None"
    "psSpirit ps' = Some sp" "psResult ps' = Some r" "resp = success_response (ps'\<lparr>psLockAcquired := False\<rparr>) sp r"
proof -
  obtain x ps1 w1 where run: "execute_pipeline wv ps w = Ret x (ps1, w1)"
    using assms(1) by (cases "execute_pipeline wv ps w") (auto simp: runProcessingPipeline_def)
  obtain ps2 w2 where c2: "release_cleanup (wvBond wv) (ps1, w1) = (ps2, w2)"
    by (cases "release_cleanup (wvBond wv) (ps1, w1)")
  have ps2: "ps2 = ps1\<lparr>psLockAcquired := False\<rparr>" using cleanup_state [of "wvBond wv" "(ps1, w1)"] c2 by simp
  show ?thesis
  proof (cases x)
    case None
    with assms(1) run c2 obtain sp r where "psSpirit ps2 = Some sp" "psResult ps2 = Some r"
      "resp = success_response ps2 sp r" "err = None"
      by (cases "psSpirit ps2"; cases "psResult ps2") (auto simp: runProcessingPipeline_def)
    with that run None ps2 show ?thesis by simp
  next
    case (Some e)
    with assms run c2 show ?thesis
      by (auto simp: runProcessingPipeline_def Let_def NewDuplicateResponse_def error_response_def
          NewErrorResponse_def split: if_splits)
  qed
qed

section \<open>The audit trail\<close>

definition records_log :: "('w \<Rightarrow> Chronicle list) \<Rightarrow> ('w, 'h, 'p) weave \<Rightarrow> bool" where
  "records_log logs wv \<longleftrightarrow> (\<forall>x w. logs (snd (wvLog wv x w)) = logs w @ [x])"

text \<open>The steps behind the audit step never fail.\<close>

definition succeeds :: "('w conf \<Rightarrow> 'w conf outcome) \<Rightarrow> bool" where
  "succeeds f \<longleftrightarrow> (\<forall>c. \<exists>c1. f c = Ret None c1)"

lemma succeeds_steps:
  "succeeds (AuditLogStep lg now)" "succeeds (ImprintExtractionStep b x)" "succeeds (LedgerUpdateStep ld)"
  "succeeds (MarkExecutedStep g)" "succeeds (ResponseDeliveryStep voices)" "succeeds (OutputGuardStep og)"
  "succeeds (NotificationStep nt)"
  by (auto simp: succeeds_def AuditLogStep_def ImprintExtractionStep_def LedgerUpdateStep_def
      MarkExecutedStep_def ResponseDeliveryStep_def OutputGuardStep_def NotificationStep_def Let_def
      split: option.split sum.split prod.split)

lemma run_succeeds: "all_steps succeeds sts \<Longrightarrow> \<exists>c1. run_steps dl sts c = Ret None c1"
proof (induction sts arbitrary: c)
  case (Cons st sts)
  then have "succeeds (stExec st)" by (simp add: all_steps_def)
  then obtain c1 where "stExec st c = Ret None c1" unfolding succeeds_def by blast
  moreover have "\<exists>c2. run_steps dl sts c1 = Ret None c2"
    using Cons by (simp add: all_steps_def)
  ultimately show ?case by (simp add: run_steps_step(1) del: run_steps.simps)
qed simp

lemma after_delivery_succeeds: "all_steps succeeds (after_delivery wv)"
  by (auto simp: after_delivery_def succeeds_steps)

text \<open>Up to the audit step a cycle logs nothing, so a failing one has logged nothing.\<close>

lemma pipeline_logs:
  assumes q: "quiet logs wv" "quiet_reasoner logs wv" "quiet_bond logs wv" "quiet_voices logs wv"
    and r: "records_log logs wv"
    and run: "execute_pipeline wv ps w = Ret err c"
  shows "case err of None \<Rightarrow> \<exists>x. logs (snd c) = logs w @ [x] | Some _ \<Rightarrow> logs (snd c) = logs w"
proof -
  let ?dl = "wvDeadline wv" and ?l = "logs w"
  let ?c0 = "(ps\<lparr>psStartTime := wvNow wv w, psStatus := ''success''\<rparr>, w)"
  have parts: "quiet_gates logs wv" "quiet_routing logs wv" "quiet_session logs wv"
    using q(1) by (simp_all add: quiet_def)
  note calm = calm_parts [OF q(1)]
  define start where "start = gate_front wv @ lock_step wv # gate_back wv @ scout_step wv # after_scouts wv
     @ notify_step wv # before_delivery wv @ [deliver_step wv]"
  have same: "logs (snd (final (stExec st c))) = ?l" if "st \<in> set start" "logs (snd c) = ?l" for st c
  proof -
    have "all_calm logs [notify_step wv, deliver_step wv]"
      using calm_Notification [OF parts(3) q(4)] calm_Delivery [OF q(4)] by simp
    with that(1) calm(1,2,3) calm(6) [OF q(2)]
    have "calm logs (stExec st) \<or> st = lock_step wv \<or> st = scout_step wv"
      by (auto simp: start_def all_steps_def)
    then show ?thesis
      using LockAcquisition_quiet [OF parts(1) q(3)] LinkScout_quiet [OF parts(2) q(3)] that(2)
      by (cases c) (auto simp: calm_def stp_def)
  qed
  have start: "logs (snd (final (run_steps ?dl start ?c0))) = ?l"
    by (rule run_steps_invariant [where P = "\<lambda>c. logs (snd c) = ?l"]) (use same in auto)
  let ?tail = "audit_step wv # after_delivery wv"
  have tail: "\<exists>c2 x. run_steps ?dl ?tail c = Ret None c2 \<and> logs (snd c2) = logs (snd c) @ [x]" for c
  proof -
    obtain c1 where a: "stExec (audit_step wv) c = Ret None c1" by (simp add: stp_def AuditLogStep_def)
    have x: "\<exists>x. logs (snd c1) = logs (snd c) @ [x]"
      using a r by (auto simp: stp_def AuditLogStep_def logInteraction_def records_log_def split_beta)
    obtain c2 where s: "run_steps ?dl (after_delivery wv) c1 = Ret None c2"
      using run_succeeds [OF after_delivery_succeeds] by blast
    obtain ps1 w1 where c1: "c1 = (ps1, w1)" by (cases c1)
    have "logs (snd c2) = logs (snd c1)"
      using run_steps_calm [OF calm(4), of ?dl ps1 w1] s c1 by simp
    with a s x show ?thesis by (auto simp: run_steps_step(1) simp del: run_steps.simps)
  qed
  have main: "case run_steps ?dl (buildProcessingPipeline wv) ?c0 of
      Ret None c1 \<Rightarrow> \<exists>x. logs (snd c1) = ?l @ [x] | Ret (Some _) c1 \<Rightarrow> logs (snd c1) = ?l | Panic _ \<Rightarrow> True"
  proof -
    have b: "buildProcessingPipeline wv = start @ ?tail" by (simp add: pipeline_parts start_def)
    show ?thesis
    proof (cases "run_steps ?dl start ?c0")
      case (Ret e c1)
      show ?thesis
      proof (cases e)
        case None
        obtain c2 x where t: "run_steps ?dl ?tail c1 = Ret None c2" "logs (snd c2) = logs (snd c1) @ [x]"
          using tail [of c1] by blast
        then show ?thesis
          using start Ret None by (simp add: b run_steps_append del: run_steps.simps)
      next
        case (Some y)
        with Ret start show ?thesis by (simp add: b run_steps_append del: run_steps.simps)
      qed
    next
      case (Panic c1)
      then show ?thesis by (simp add: b run_steps_append del: run_steps.simps)
    qed
  qed
  obtain c1 where c1: "run_steps ?dl (buildProcessingPipeline wv) ?c0 = Ret err c1"
    and c: "c = final (run_deferred ?dl (deferred_steps wv) c1)"
    using run by (auto simp: execute_pipeline_def pipeline_Execute_def split: outcome.splits)
  obtain ps1 w1 where p: "c1 = (ps1, w1)" by (cases c1)
  have "logs (snd c) = logs (snd c1)"
    using run_deferred_calm [OF calm(5), of ?dl ps1 w1] by (simp add: c p)
  with main c1 show ?thesis by (cases err) simp_all
qed

text \<open>A failing cycle is logged by the engine itself, with the status of its error.\<close>

lemma cycle_logs:
  assumes q: "quiet logs wv" "quiet_reasoner logs wv" "quiet_bond logs wv" "quiet_voices logs wv"
    and r: "records_log logs wv"
    and run: "execute_pipeline wv ps w = Ret err c"
  shows "\<exists>x. logs (snd (runProcessingPipeline wv ps w)) = logs w @ [x]
     \<and> (\<forall>e. err = Some e \<longrightarrow> chStatus x = statusFromError e)"
proof -
  obtain ps2 w2 where c2: "release_cleanup (wvBond wv) c = (ps2, w2)"
    by (cases "release_cleanup (wvBond wv) c")
  have w2: "logs w2 = logs (snd c)" using cleanup_quiet [OF q(3), of c] c2 by simp
  note p = pipeline_logs [OF q r run]
  show ?thesis
  proof (cases err)
    case None
    with p w2 run c2 show ?thesis by (auto simp: runProcessingPipeline_def split: option.split)
  next
    case (Some e)
    have "statusFromError e \<noteq> []" by (simp add: statusFromError_def split: option.split)
    with Some p w2 run c2 r show ?thesis
      by (auto simp: runProcessingPipeline_def logInteraction_def records_log_def split_beta Let_def
          interaction_log_def)
  qed
qed

end
