(* ===== verification/Endings.thy ===== *)
theory Endings
  imports Outcomes
begin

text \<open>
  How the cycles of \<open>runProcessingPipeline\<close> and of a batch end: with an answer, as a duplicate,
  or in a panic of the pipeline or of the success path.
\<close>

section \<open>The success path\<close>

text \<open>The fields the success path reads are those the pipeline left.\<close>

lemma cycle_of_success:
  assumes "execute_pipeline wv ps w = Ret None (ps', w1)"
  shows "fst (runProcessingPipeline wv ps w)
    = (case (psSpirit ps', psResult ps') of
         (Some sp, Some r) \<Rightarrow> Some (success_response (ps'\<lparr>psLockAcquired := False\<rparr>) sp r, None)
       | _ \<Rightarrow> None)"
proof -
  obtain ps2 w2 where c: "release_cleanup (wvBond wv) (ps', w1) = (ps2, w2)"
    by (cases "release_cleanup (wvBond wv) (ps', w1)")
  have "ps2 = ps'\<lparr>psLockAcquired := False\<rparr>" using cleanup_state [of "wvBond wv" "(ps', w1)"] c by simp
  with c show ?thesis
    by (simp add: runProcessingPipeline_def assms split: option.split)
qed

text \<open>
  A Spirit that asked no model leaves no \<open>ReasoningResult\<close>, and the success path, which reads its
  iteration count for a log line, panics.
\<close>

definition asks_model :: "spirit \<Rightarrow> ProcessingState \<Rightarrow> bool" where
  "asks_model sp ps \<longleftrightarrow>
     (if IsNotifier sp then nfMode (sNotifierConfig sp) = ''llm'' else NeedsSession sp \<and> \<not> psSkipped ps)"

lemma unasked_panics:
  assumes "psResult ps = None" "psSession ps = None" "execute_pipeline wv ps w = Ret None (ps', w1)"
    and "psSpirit ps' = Some sp" "\<not> asks_model sp ps'"
  shows "fst (runProcessingPipeline wv ps w) = None"
proof -
  have "unanswered ps'" using pipeline_unanswered [OF assms(1-3)] by simp
  with assms(4,5) have "psResult ps' = None"
    by (auto simp: unanswered_def asks_model_def split: if_splits)
  then show ?thesis
    by (simp add: cycle_of_success [OF assms(3)] split: option.split)
qed

lemma success_asks:
  assumes "psResult ps = None" "psSession ps = None"
    and "runProcessingPipeline wv ps w = (Some (resp, err), w')" "reStatus resp = ResponseSuccess"
  shows "\<exists>ps' w1 sp r. execute_pipeline wv ps w = Ret None (ps', w1) \<and> psSpirit ps' = Some sp
     \<and> psResult ps' = Some r \<and> asks_model sp ps' \<and> err = None
     \<and> reFinalResponse resp = psResponse ps' \<and> reDelivered resp = psResponseDelivered ps'"
proof -
  from assms(3,4) obtain ps' w1 sp r where s: "execute_pipeline wv ps w = Ret None (ps', w1)"
      "err = None" "psSpirit ps' = Some sp" "psResult ps' = Some r"
      "resp = success_response (ps'\<lparr>psLockAcquired := False\<rparr>) sp r"
    by (rule success_cases)
  moreover have "asks_model sp ps'"
    using unasked_panics [OF assms(1,2) s(1,3)] assms(3) by fastforce
  ultimately show ?thesis by (auto simp: success_response_def)
qed

section \<open>Panics of the pipeline\<close>

text \<open>The clean-up is not deferred: what the cycle held stays held.\<close>

lemma panic_keeps_locks:
  assumes "engine_bond wv held ok" "quiet (\<lambda>w. (held w, ok w)) wv" "quiet_reasoner (\<lambda>w. (held w, ok w)) wv"
    "quiet_voices (\<lambda>w. (held w, ok w)) wv" "quiet_log (\<lambda>w. (held w, ok w)) wv"
    and "ok w" "\<not> psLockAcquired ps" "psAdditionalLocks ps = []"
    and run: "execute_pipeline wv ps w = Panic c"
  shows "fst (runProcessingPipeline wv ps w) = None
    \<and> held (snd (runProcessingPipeline wv ps w)) = held w
        \<union> (if psLockAcquired (fst c) then set (psLockKey (fst c) # psAdditionalLocks (fst c)) else {})"
  using pipeline_locks [OF assms(1-8)]
  by (auto simp: runProcessingPipeline_def run owns_def disowns_def Let_def)

section \<open>Duplicates\<close>

lemma gate_duplicate:
  assumes "wvValidate wv (psEvent ps) = None" "wvSeen wv = Some check" "pIdempotencyKey (psEvent ps) \<noteq> []"
    and "check (pIdempotencyKey (psEvent ps)) (wvIdempotencyTTL wv) w = (Inr True, w1)"
    and "\<not> wvDeadline wv ''IdempotencyCheck'' w1"
  shows "run_steps (wvDeadline wv) (buildProcessingPipeline wv) (ps, w)
    = Ret (Some (EWrap ''IdempotencyCheck'' (ErrDuplicateEvent (pIdempotencyKey (psEvent ps)))))
        (ps\<lparr>psFailedAtStep := ''IdempotencyCheck''\<rparr>, w1)"
  using assms
  by (simp add: buildProcessingPipeline_def gate_steps_def stp_def opt_step_def executeStep_def
      ValidationStep_def IdempotencyStep_def Let_def)

lemma duplicate_dropped:
  assumes "wvValidate wv (psEvent ps) = None" "wvSeen wv = Some check" "pIdempotencyKey (psEvent ps) \<noteq> []"
    and "check (pIdempotencyKey (psEvent ps)) (wvIdempotencyTTL wv) w = (Inr True, w1)"
    and "\<not> wvDeadline wv ''IdempotencyCheck'' w1" "wvTyping wv = None" "\<not> psLockAcquired ps"
  shows "\<exists>x. runProcessingPipeline wv ps w
      = (Some (NewDuplicateResponse (pID (psEvent ps)) (pMemoryKey (psEvent ps)), None), snd (wvLog wv x w1))
    \<and> chStatus x = ''duplicate'' \<and> chFailedAtStep x = ''IdempotencyCheck''"
proof -
  define e where "e = EWrap ''IdempotencyCheck'' (ErrDuplicateEvent (pIdempotencyKey (psEvent ps)))"
  define ps1 where "ps1 = ps\<lparr>psStartTime := wvNow wv w, psStatus := ''success''\<rparr>"
  have r: "run_steps (wvDeadline wv) (buildProcessingPipeline wv) (ps1, w)
      = Ret (Some e) (ps1\<lparr>psFailedAtStep := ''IdempotencyCheck''\<rparr>, w1)"
    using gate_duplicate [of wv ps1 check w w1] assms by (simp add: ps1_def e_def)
  then have x: "execute_pipeline wv ps w = Ret (Some e) (ps1\<lparr>psFailedAtStep := ''IdempotencyCheck''\<rparr>, w1)"
    using assms(6) by (simp add: execute_pipeline_def pipeline_Execute_def deferred_steps_def opt_step_def ps1_def)
  have s: "statusFromError e = ''duplicate''" "IsDuplicateEvent e"
    by (simp_all add: e_def statusFromError_def ErrDuplicateEvent_def IsDuplicateEvent_def orch_code_def)
  define x0 where "x0 = interaction_log (wvNow wv w1)
    (ps1\<lparr>psFailedAtStep := ''IdempotencyCheck'', psStatus := ''duplicate''\<rparr>)"
  have "runProcessingPipeline wv ps w
      = (Some (NewDuplicateResponse (pID (psEvent ps)) (pMemoryKey (psEvent ps)), None), snd (wvLog wv x0 w1))"
    using assms(7) s
    by (simp add: runProcessingPipeline_def x release_cleanup_def Let_def logInteraction_def split_beta ps1_def x0_def)
  moreover have "chStatus x0 = ''duplicate''" "chFailedAtStep x0 = ''IdempotencyCheck''"
    by (simp_all add: x0_def interaction_log_def Let_def ps1_def)
  ultimately show ?thesis by blast
qed

section \<open>Batches\<close>

lemma process_in_order_length:
  "process_in_order wv key l es is out w = (Some out', w') \<Longrightarrow> length out' = length out"
  by (induction wv key l es "is" out w rule: process_in_order.induct)
    (auto split: prod.splits option.splits)

lemma process_in_order_filled:
  "process_in_order wv key l es is out w = (Some out', w') \<Longrightarrow> i < length out \<Longrightarrow>
     i \<in> set is \<or> out ! i \<noteq> None \<Longrightarrow> out' ! i \<noteq> None"
proof (induction wv key l es "is" out w rule: process_in_order.induct)
  case (2 wv key l es j js out w)
  show ?case
  proof (cases "processEventWithConfig wv (es ! j) key l w")
    case (Pair r w1)
    with 2 show ?thesis
      by (cases "i = j") (auto split: option.splits prod.splits)
  qed
qed simp

text \<open>Whatever the order of the goroutines, a batch that ends has one response per event.\<close>

lemma batch_complete:
  assumes "ProcessMultipleEventsByKey wv links key order es w = (Inr (Some out), w')"
    and "set order = {..<length es}"
  shows "length out = length es \<and> None \<notin> set out"
proof -
  from assms(1) obtain l where
    p: "process_in_order wv key l es order (replicate (length es) None) w = (Some out, w')"
    by (auto simp: ProcessMultipleEventsByKey_def split: option.splits prod.splits)
  have n: "length out = length es" using process_in_order_length [OF p] by simp
  moreover have "out ! i \<noteq> None" if "i < length es" for i
    using process_in_order_filled [OF p, of i] assms(2) that by simp
  ultimately show ?thesis by (metis in_set_conv_nth)
qed

end
