(* ===== verification/TurnCounts.thy ===== *)
theory TurnCounts
  imports Turn
begin

text \<open>
  What one reasoning turn may execute. A measure \<open>cnt\<close> of the world counts calls: the
  executor adds at most the weight of the calls it is given and no other collaborator adds
  anything. Weight 1 gives the budget of Action calls; the weight of one signature gives the ban
  on repeating a failed call and the reuse of memoized ones.
\<close>

section \<open>Measures of the world\<close>

definition keeps :: "('s \<Rightarrow> nat) \<Rightarrow> ('s \<Rightarrow> 'a \<times> 's) \<Rightarrow> bool" where
  "keeps cnt f \<longleftrightarrow> (\<forall>s. cnt (snd (f s)) = cnt s)"

definition keeps_opt :: "('s \<Rightarrow> nat) \<Rightarrow> ('s \<Rightarrow> ('a \<times> 's) option) \<Rightarrow> bool" where
  "keeps_opt cnt f \<longleftrightarrow> (\<forall>s a s'. f s = Some (a, s') \<longrightarrow> cnt s' = cnt s)"

definition weight :: "(tool_call \<Rightarrow> nat) \<Rightarrow> tool_call list \<Rightarrow> nat" where
  "weight wt calls = sum_list (map wt calls)"

text \<open>The weight looks only at a call's name and arguments.\<close>

definition plain_weight :: "(tool_call \<Rightarrow> nat) \<Rightarrow> bool" where
  "plain_weight wt \<longleftrightarrow> (\<forall>c b. wt (c\<lparr>tcIsCriticalOverride := b\<rparr>) = wt c)"

definition counts_calls :: "('s, 'p) reasoning_service \<Rightarrow> (tool_call \<Rightarrow> nat) \<Rightarrow> ('s \<Rightarrow> nat) \<Rightarrow> bool" where
  "counts_calls r wt cnt \<longleftrightarrow>
     plain_weight wt
     \<and> (\<forall>calls s. cnt (snd (rvExecuteAll r calls s)) \<le> cnt s + weight wt calls)
     \<and> (\<forall>p q. keeps cnt (rvGenerate r p q))
     \<and> (\<forall>p gen q. rvStream r p = Some gen \<longrightarrow> keeps cnt (gen q))
     \<and> (\<forall>ev s. cnt (rvEmit r ev s) = cnt s)
     \<and> (\<forall>f mk sk. rvRebuild r = Some f \<longrightarrow> keeps_opt cnt (f mk sk))
     \<and> (\<forall>f n t e sp. rvSummon r = Some f \<longrightarrow> keeps_opt cnt (f n t e sp))
     \<and> (\<forall>f t e sp se cc. rvHandoff r = Some f \<longrightarrow> keeps_opt cnt (f t e sp se cc))
     \<and> (\<forall>f k. rvSink r = Some f \<longrightarrow> keeps cnt (f k))
     \<and> (\<forall>st k d. rvCheckpoint r = Some st \<longrightarrow>
          keeps cnt (ckSave st k d) \<and> keeps cnt (ckLoad st k) \<and> keeps cnt (ckDelete st k))"

lemma weight_simps [simp]:
  "weight wt [] = 0" "weight wt (c # cs) = wt c + weight wt cs"
  "weight wt (xs @ ys) = weight wt xs + weight wt ys"
  by (simp_all add: weight_def)

lemma weight_overrides:
  "plain_weight wt \<Longrightarrow> weight wt (applyIsCriticalOverrides al cs) = weight wt cs"
  by (induction cs) (auto simp: applyIsCriticalOverrides_def plain_weight_def split: option.split)

lemma weight_positions: "weight wt (map (nth cs) (positions P cs)) = weight wt (filter P cs)"
proof -
  have "map (nth cs) (filter (\<lambda>i. P (cs ! i)) [0..<length cs]) = filter P (map (nth cs) [0..<length cs])"
    by (simp add: filter_map comp_def)
  then show ?thesis by (simp add: positions_def map_nth)
qed

lemma weight_filter_le: "weight wt (filter P cs) \<le> weight wt cs"
  by (induction cs) auto

section \<open>Operations that count nothing\<close>

lemma counts_calls_facts:
  assumes "counts_calls r wt cnt"
  shows "rvGenerate r p q s = (x, s') \<Longrightarrow> cnt s' = cnt s"
    and "rvStream r p = Some gen \<Longrightarrow> gen q s = (y, s') \<Longrightarrow> cnt s' = cnt s"
    and "rvRebuild r = Some f \<Longrightarrow> f mk sk s = Some (z, s') \<Longrightarrow> cnt s' = cnt s"
    and "rvSummon r = Some sf \<Longrightarrow> sf n t e sp s = Some (u, s') \<Longrightarrow> cnt s' = cnt s"
    and "rvHandoff r = Some hf \<Longrightarrow> hf t e sp se cc s = Some (v, s') \<Longrightarrow> cnt s' = cnt s"
    and "rvSink r = Some kf \<Longrightarrow> kf t s = (w, s') \<Longrightarrow> cnt s' = cnt s"
    and "rvCheckpoint r = Some st \<Longrightarrow> ckLoad st k s = (l, s') \<Longrightarrow> cnt s' = cnt s"
    and "rvCheckpoint r = Some st \<Longrightarrow> cnt (snd (ckSave st k d s)) = cnt s"
    and "rvCheckpoint r = Some st \<Longrightarrow> cnt (snd (ckDelete st k s)) = cnt s"
    and "cnt (rvEmit r ev s) = cnt s"
    and "rvExecuteAll r calls s = (rs, s') \<Longrightarrow> cnt s' \<le> cnt s + weight wt calls"
    and "plain_weight wt"
proof -
  note d = assms [unfolded counts_calls_def]
  have "\<forall>p q. keeps cnt (rvGenerate r p q)" using d by (elim conjE)
  then show "rvGenerate r p q s = (x, s') \<Longrightarrow> cnt s' = cnt s" by (metis keeps_def snd_conv)
  have "\<forall>p gen q. rvStream r p = Some gen \<longrightarrow> keeps cnt (gen q)" using d by (elim conjE)
  then show "rvStream r p = Some gen \<Longrightarrow> gen q s = (y, s') \<Longrightarrow> cnt s' = cnt s"
    by (metis keeps_def snd_conv)
  have "\<forall>f mk sk. rvRebuild r = Some f \<longrightarrow> keeps_opt cnt (f mk sk)" using d by (elim conjE)
  then show "rvRebuild r = Some f \<Longrightarrow> f mk sk s = Some (z, s') \<Longrightarrow> cnt s' = cnt s"
    by (metis keeps_opt_def)
  have "\<forall>f n t e sp. rvSummon r = Some f \<longrightarrow> keeps_opt cnt (f n t e sp)" using d by (elim conjE)
  then show "rvSummon r = Some sf \<Longrightarrow> sf n t e sp s = Some (u, s') \<Longrightarrow> cnt s' = cnt s"
    by (metis keeps_opt_def)
  have "\<forall>f t e sp se cc. rvHandoff r = Some f \<longrightarrow> keeps_opt cnt (f t e sp se cc)" using d by (elim conjE)
  then show "rvHandoff r = Some hf \<Longrightarrow> hf t e sp se cc s = Some (v, s') \<Longrightarrow> cnt s' = cnt s"
    by (metis keeps_opt_def)
  have "\<forall>f k. rvSink r = Some f \<longrightarrow> keeps cnt (f k)" using d by (elim conjE)
  then show "rvSink r = Some kf \<Longrightarrow> kf t s = (w, s') \<Longrightarrow> cnt s' = cnt s"
    by (metis keeps_def snd_conv)
  have st: "\<forall>st k d. rvCheckpoint r = Some st \<longrightarrow>
      keeps cnt (ckSave st k d) \<and> keeps cnt (ckLoad st k) \<and> keeps cnt (ckDelete st k)"
    using d by (elim conjE)
  show "rvCheckpoint r = Some st \<Longrightarrow> ckLoad st k s = (l, s') \<Longrightarrow> cnt s' = cnt s"
    using st by (metis keeps_def snd_conv)
  show "rvCheckpoint r = Some st \<Longrightarrow> cnt (snd (ckSave st k d s)) = cnt s"
    using st by (metis keeps_def)
  show "rvCheckpoint r = Some st \<Longrightarrow> cnt (snd (ckDelete st k s)) = cnt s"
    using st by (metis keeps_def)
  have "\<forall>ev s. cnt (rvEmit r ev s) = cnt s" using d by (elim conjE)
  then show "cnt (rvEmit r ev s) = cnt s" by simp
  have "\<forall>calls s. cnt (snd (rvExecuteAll r calls s)) \<le> cnt s + weight wt calls" using d by (elim conjE)
  then show "rvExecuteAll r calls s = (rs, s') \<Longrightarrow> cnt s' \<le> cnt s + weight wt calls" by (metis snd_conv)
  show "plain_weight wt" using d by (elim conjE)
qed

lemma cnt_assembleStream:
  shows "\<forall>ev s. cnt (emit ev s) = cnt s \<Longrightarrow> assembleStream emit evs resp s = (x, s') \<Longrightarrow> cnt s' = cnt s"
  by (induction emit evs resp s rule: assembleStream.induct) auto

lemma cnt_callLLM:
  assumes c: "counts_calls r wt cnt" and e: "callLLM r p req wc acts hint m emit rf s = (x, s')"
  shows "cnt s' = cnt s"
proof -
  obtain p' q where i: "invokeProvider r p' q emit s = (x, s')"
    using e unfolding callLLM_def Let_def by blast
  have em: "\<forall>ev s. cnt (rvEmit r ev s) = cnt s" using counts_calls_facts(10) [OF c] by blast
  show ?thesis
  proof (cases "if emit then rvStream r p' else None")
    case None
    obtain y s1 where g: "rvGenerate r p' q s = (y, s1)" by (cases "rvGenerate r p' q s")
    with counts_calls_facts(1) [OF c g] i None show ?thesis
      by (auto simp: invokeProvider_def split: sum.splits)
  next
    case (Some gen)
    then have gen: "rvStream r p' = Some gen" by (simp split: if_splits)
    obtain y s1 where g: "gen q s = (y, s1)" by (cases "gen q s")
    have s1: "cnt s1 = cnt s" using counts_calls_facts(2) [OF c gen g] .
    show ?thesis
    proof (cases y)
      case (Inl e)
      with i Some g s1 show ?thesis by (simp add: invokeProvider_def)
    next
      case (Inr evs)
      obtain z s2 where a: "assembleStream (rvEmit r) evs empty_response s1 = (z, s2)"
        by (cases "assembleStream (rvEmit r) evs empty_response s1")
      have "cnt s2 = cnt s1" using cnt_assembleStream [OF em a] .
      with i Some g Inr a s1 show ?thesis by (cases z) (simp_all add: invokeProvider_def)
    qed
  qed
qed

lemma cnt_side_call:
  assumes "counts_calls r wt cnt" "side_call r p m q ms s = (x, s')"
  shows "cnt s' = cnt s"
  using assms(2) unfolding side_call_def by (rule counts_calls_facts(1) [OF assms(1)])

lemma cnt_synthesizeFinal:
  assumes "counts_calls r wt cnt" "synthesizeFinal r p req wc res emit s = (x, y, s')"
  shows "cnt s' = cnt s"
  using assms(2) cnt_callLLM [OF assms(1)]
  by (auto simp: synthesizeFinal_def split: prod.splits sum.splits)

lemma cnt_summarize:
  assumes "counts_calls r wt cnt" "summarizeToolResult r p req full s = (x, s')"
  shows "cnt s' = cnt s"
  using assms(2) cnt_side_call [OF assms(1)]
  by (auto simp: summarizeToolResult_def split: prod.splits sum.splits)

lemma cnt_shape:
  assumes "counts_calls r wt cnt" "shapeResultForContext r p req name full res s = Some (x, y, s')"
  shows "cnt s' = cnt s"
  using assms(2) cnt_summarize [OF assms(1)]
  by (auto simp: shapeResultForContext_def Let_def split: prod.splits sum.splits if_splits)

lemma cnt_handleActionSuccess:
  assumes "counts_calls r wt cnt" "handleActionSuccess r p req call ar b = Some b'"
  shows "cnt (btWorld b') = cnt (btWorld b)"
  using assms(2) cnt_shape [OF assms(1)]
  by (auto simp: handleActionSuccess_def push_message_def split: option.splits prod.splits)

text \<open>Which calls are left to execute: those neither banned nor memoized.\<close>

definition fresh_call ::
  "('s, 'p) reasoning_service \<Rightarrow> string list \<Rightarrow> (string \<times> memoEntry) list option \<Rightarrow> tool_call \<Rightarrow> bool" where
  "fresh_call r banned memo call \<longleftrightarrow>
     signature r call \<notin> set banned
     \<and> (case memo of None \<Rightarrow> True | Some m \<Rightarrow> map_of m (signature r call) = None)"

lemma handleActionSuccess_frame:
  assumes "handleActionSuccess r p req call ar b = Some b'"
  shows "btMemo b' = btMemo b \<and> btBanned b' = btBanned b \<and> btInfra b' = btInfra b \<and> btLog b' = btLog b"
  using assms by (auto simp: handleActionSuccess_def push_message_def split: option.splits)

lemma triage_spec:
  shows "counts_calls r wt cnt \<Longrightarrow> triage r p req banned calls b = Some (todo, b') \<Longrightarrow>
    todo = filter (fresh_call r banned (btMemo b)) calls \<and> btMemo b' = btMemo b
    \<and> btBanned b' = btBanned b \<and> btInfra b' = btInfra b \<and> cnt (btWorld b') = cnt (btWorld b)"
proof (induction r p req banned calls b arbitrary: todo b' rule: triage.induct)
  case (1 r p req banned b)
  then show ?case by simp
next
  case (2 r p req banned call calls b)
  show ?case
  proof (cases "signature r call \<in> set banned")
    case True
    let ?b = "log_banned (tcName call)
       (log_call call (named_result (tcName call)) (push_message (bannedSignatureMessage call) b))"
    have t: "triage r p req banned calls ?b = Some (todo, b')"
      using True 2(5) by (simp only: triage.simps Let_def if_True)
    have f: "btMemo ?b = btMemo b" "btBanned ?b = btBanned b" "btInfra ?b = btInfra b"
      "btWorld ?b = btWorld b"
      by (simp_all add: log_banned_def log_call_def push_message_def)
    have "\<not> fresh_call r banned (btMemo b) call" using True by (simp add: fresh_call_def)
    with 2(1) [OF refl True 2(4) t] f show ?thesis by simp
  next
    case False
    show ?thesis
    proof (cases "case btMemo b of None \<Rightarrow> None | Some m \<Rightarrow> map_of m (signature r call)")
      case None
      then obtain t1 where t: "triage r p req banned calls b = Some (t1, b')" "todo = call # t1"
        using False 2(5) by (auto simp: Let_def split: option.splits)
      have "fresh_call r banned (btMemo b) call"
        using False None by (simp add: fresh_call_def split: option.splits)
      with 2(2) [OF refl False None 2(4) t(1)] t(2) show ?thesis by simp
    next
      case (Some entry)
      let ?ru = "(named_result (tcName call))
         \<lparr>arResult := meResult entry, arIsVoiceDelivery := meIsVoiceDelivery entry\<rparr>"
      obtain b1 where b1: "handleActionSuccess r p req call ?ru b = Some b1"
        and t: "triage r p req banned calls (log_call call ?ru b1) = Some (todo, b')"
        using False Some 2(5) by (auto simp: Let_def split: option.splits)
      have f: "btMemo (log_call call ?ru b1) = btMemo b" "btBanned (log_call call ?ru b1) = btBanned b"
        "btInfra (log_call call ?ru b1) = btInfra b"
        using handleActionSuccess_frame [OF b1] by (simp_all add: log_call_def)
      have "cnt (btWorld (log_call call ?ru b1)) = cnt (btWorld b)"
        using cnt_handleActionSuccess [OF 2(4) b1] by (simp add: log_call_def)
      moreover have "\<not> fresh_call r banned (btMemo b) call"
        using Some by (auto simp: fresh_call_def split: option.splits)
      ultimately show ?thesis
        using 2(3) [OF refl False Some refl b1 2(4) t] f by simp
    qed
  qed
qed

lemma settle_failure_frame:
  "btWorld (snd (settle_failure r enf call ar e b)) = btWorld b
   \<and> btMemo (snd (settle_failure r enf call ar e b)) = btMemo b
   \<and> btResult (snd (settle_failure r enf call ar e b)) = btResult b"
  by (auto simp: settle_failure_def Let_def log_error_def log_call_def log_banned_def push_message_def
      split: option.split prod.split)

lemma settle_success_frame:
  assumes "settle_success r p req call ar b = Some b'"
  shows "btBanned b' = btBanned b \<and> btInfra b' = btInfra b
    \<and> btMemo b' = map_option (AList.update (signature r call)
         \<lparr>meResult = arResult ar, meIsVoiceDelivery = arIsVoiceDelivery ar\<rparr>) (btMemo b)"
  using assms handleActionSuccess_frame by (fastforce simp: settle_success_def log_call_def)

lemma settle_counts:
  shows "counts_calls r wt cnt \<Longrightarrow> settle r p req enf crs b = Some (err, b') \<Longrightarrow>
    cnt (btWorld b') = cnt (btWorld b)"
proof (induction r p req enf crs b arbitrary: err b' rule: settle.induct)
  case (1 r p req enf b)
  then show ?case by simp
next
  case (2 r p req enf call ar rest b)
  show ?case
  proof (cases "arError ar")
    case None
    then obtain b1 where b1: "settle_success r p req call ar b = Some b1"
      and t: "settle r p req enf rest b1 = Some (err, b')"
      using 2(4) by (auto split: option.splits)
    have "cnt (btWorld b1) = cnt (btWorld b)"
      using b1 cnt_handleActionSuccess [OF 2(3)] by (auto simp: settle_success_def log_call_def)
    with 2(1) [OF None b1 2(3) t] show ?thesis by simp
  next
    case (Some e)
    obtain x b1 where b1: "settle_failure r enf call ar e b = (x, b1)"
      by (cases "settle_failure r enf call ar e b")
    have w: "btWorld b1 = btWorld b" using settle_failure_frame [of r enf call ar e b] b1 by simp
    show ?thesis
    proof (cases x)
      case None
      then have "settle r p req enf rest b1 = Some (err, b')" using 2(4) Some b1 by simp
      with 2(2) [OF Some b1 [symmetric] None 2(3)] w b1 show ?thesis by simp
    next
      case (Some he)
      with 2(4) \<open>arError ar = Some e\<close> b1 w show ?thesis by simp
    qed
  qed
qed

section \<open>Executing calls\<close>

lemma cnt_summon_loop:
  assumes "counts_calls r wt cnt" "rvSummon r = Some sf"
  shows "summon_loop sf calls req is rs s = Some (x, s') \<Longrightarrow> cnt s' = cnt s"
proof (induction "is" arbitrary: rs s)
  case (Cons i js)
  obtain ar s1 where a: "executeSummonCall sf (calls ! i) req s = Some (ar, s1)"
    and t: "summon_loop sf calls req js (rs[i := ar]) s1 = Some (x, s')"
    using Cons.prems by (auto split: option.splits prod.splits)
  have "cnt s1 = cnt s"
    using a counts_calls_facts(4) [OF assms]
    by (auto simp: executeSummonCall_def Let_def split: if_splits option.splits prod.splits sum.splits)
  with Cons.IH [OF t] show ?case by simp
qed simp

lemma cnt_executeAllActions:
  assumes c: "counts_calls r wt cnt" and e: "executeAllActions r req calls s = Some (rs, s')"
  shows "cnt s' \<le> cnt s + weight wt calls"
proof -
  let ?calls = "applyIsCriticalOverrides (sAllowedActions (rqSpirit req)) calls"
  have w: "weight wt ?calls = weight wt calls"
    using counts_calls_facts(12) [OF c] by (rule weight_overrides)
  show ?thesis
  proof (cases "if IsOrchestrator (rqSpirit req) then rvSummon r else None")
    case None
    with e have "rvExecuteAll r ?calls s = (rs, s')"
      by (auto simp: executeAllActions_def Let_def split: if_splits option.splits)
    with counts_calls_facts(11) [OF c] w show ?thesis by metis
  next
    case (Some sf)
    then have sf: "rvSummon r = Some sf" by (simp split: if_splits)
    let ?ri = "positions (\<lambda>c. tcName c \<noteq> summonSpiritActionName) ?calls"
    obtain rs1 s1 where x: "(if ?ri = [] then ([], s) else rvExecuteAll r (map (nth ?calls) ?ri) s) = (rs1, s1)"
      by (cases "if ?ri = [] then ([], s) else rvExecuteAll r (map (nth ?calls) ?ri) s")
    obtain order base where l: "summon_loop sf ?calls req order base s1 = Some (rs, s')"
      using e Some x by (auto simp: executeAllActions_def Let_def split: if_splits)
    have "weight wt (map (nth ?calls) ?ri) \<le> weight wt calls"
      using weight_filter_le w by (metis weight_positions)
    then have "cnt s1 \<le> cnt s + weight wt calls"
      using x counts_calls_facts(11) [OF c, of "map (nth ?calls) ?ri" s rs1 s1]
      by (auto split: if_splits)
    with cnt_summon_loop [OF c sf l] show ?thesis by simp
  qed
qed

lemma cnt_executeActionsWithPlan:
  assumes c: "counts_calls r wt cnt" and e: "executeActionsWithPlan r req calls plan s = Some (rs, plan', s')"
  shows "cnt s' \<le> cnt s + weight wt calls"
proof (cases plan)
  case None
  with e cnt_executeAllActions [OF c] show ?thesis
    by (auto simp: executeActionsWithPlan_def)
next
  case (Some p)
  let ?ri = "positions (\<lambda>c. tcName c \<noteq> updatePlanActionName) calls"
  obtain results p1 where pc: "plan_calls (rvFloat r) calls
      (positions (\<lambda>c. tcName c = updatePlanActionName) calls)
      (replicate (length calls) (named_result [])) p = (results, p1)"
    by (cases "plan_calls (rvFloat r) calls
      (positions (\<lambda>c. tcName c = updatePlanActionName) calls)
      (replicate (length calls) (named_result [])) p")
  have le: "weight wt (map (nth calls) ?ri) \<le> weight wt calls"
    by (simp only: weight_positions weight_filter_le)
  show ?thesis
  proof (cases "?ri = []")
    case True
    with e Some pc show ?thesis by (simp add: executeActionsWithPlan_def Let_def)
  next
    case False
    then obtain sub where "executeAllActions r req (map (nth calls) ?ri) s = Some (sub, s')"
      using e Some pc by (auto simp: executeActionsWithPlan_def Let_def split: option.splits if_splits)
    with cnt_executeAllActions [OF c] le show ?thesis by (metis le_trans nat_add_left_cancel_le)
  qed
qed

text \<open>A batch executes at most its fresh calls; bans and memos only grow.\<close>

definition memo_grows :: "(string \<times> memoEntry) list option \<Rightarrow> (string \<times> memoEntry) list option \<Rightarrow> bool" where
  "memo_grows m m' \<longleftrightarrow>
     (case m of None \<Rightarrow> m' = None
      | Some a \<Rightarrow> (\<exists>a'. m' = Some a' \<and> (\<forall>k. map_of a k \<noteq> None \<longrightarrow> map_of a' k \<noteq> None)))"

lemma memo_grows_refl [simp]: "memo_grows m m"
  by (cases m) (auto simp: memo_grows_def)

lemma memo_grows_trans: "memo_grows a b \<Longrightarrow> memo_grows b c \<Longrightarrow> memo_grows a c"
  by (auto simp: memo_grows_def split: option.splits)

lemma memo_grows_update [simp]: "memo_grows m (map_option (AList.update k v) m)"
  by (cases m) (auto simp: memo_grows_def update_conv')

lemma fresh_call_mono:
  "set bn \<subseteq> set bn' \<Longrightarrow> memo_grows m m' \<Longrightarrow> fresh_call r bn' m' call \<Longrightarrow> fresh_call r bn m call"
  by (auto simp: fresh_call_def memo_grows_def split: option.splits)

lemma settle_memo: "settle r p req enf crs b = Some (err, b') \<Longrightarrow> memo_grows (btMemo b) (btMemo b')"
proof (induction r p req enf crs b arbitrary: err b' rule: settle.induct)
  case (1 r p req enf b)
  then show ?case by simp
next
  case (2 r p req enf call ar rest b)
  show ?case
  proof (cases "arError ar")
    case None
    then obtain b1 where b1: "settle_success r p req call ar b = Some b1"
      and t: "settle r p req enf rest b1 = Some (err, b')"
      using 2(3) by (auto split: option.splits)
    have "memo_grows (btMemo b) (btMemo b1)" using settle_success_frame [OF b1] by simp
    with 2(1) [OF None b1 t] show ?thesis by (rule memo_grows_trans [rotated])
  next
    case (Some e)
    obtain x b1 where b1: "settle_failure r enf call ar e b = (x, b1)"
      by (cases "settle_failure r enf call ar e b")
    have w: "btMemo b1 = btMemo b" using settle_failure_frame [of r enf call ar e b] b1 by simp
    show ?thesis
    proof (cases x)
      case None
      then have "settle r p req enf rest b1 = Some (err, b')" using 2(3) Some b1 by simp
      with 2(2) [OF Some b1 [symmetric] None] w b1 show ?thesis by simp
    next
      case (Some he)
      with 2(3) \<open>arError ar = Some e\<close> b1 w show ?thesis by simp
    qed
  qed
qed

lemma processActionCalls_spec:
  assumes c: "counts_calls r wt cnt"
    and e: "processActionCalls r p req calls enf plan banned b = Some (err, plan', b')"
  shows "cnt (btWorld b') \<le> cnt (btWorld b) + weight wt (filter (fresh_call r banned (btMemo b)) calls)
    \<and> memo_grows (btMemo b) (btMemo b')"
proof -
  obtain toExec b1 results s1 where t: "triage r p req banned calls b = Some (toExec, b1)"
    and x: "executeActionsWithPlan r req toExec plan (btWorld b1) = Some (results, plan', s1)"
    and f: "b' = b1\<lparr>btWorld := s1\<rparr>
        \<or> settle r p req enf (zip toExec results) (b1\<lparr>btWorld := s1\<rparr>) = Some (err, b')"
    using e by (auto simp: processActionCalls_def Let_def split: option.splits if_splits)
  note t' = triage_spec [OF c t]
  have "cnt s1 \<le> cnt (btWorld b) + weight wt toExec"
    using cnt_executeActionsWithPlan [OF c x] t' by simp
  moreover have "cnt (btWorld b') = cnt s1 \<and> memo_grows (btMemo b1) (btMemo b')"
    using f settle_counts [OF c] settle_memo by fastforce
  ultimately show ?thesis using t' by simp
qed

text \<open>A batch does not touch the iteration counter.\<close>

lemma shape_iterations:
  "shapeResultForContext r p req name full res s = Some (x, res', s') \<Longrightarrow>
     rrIterationsUsed res' = rrIterationsUsed res"
  by (auto simp: shapeResultForContext_def Let_def split: if_splits prod.splits sum.splits)

lemma handleActionSuccess_iterations:
  "handleActionSuccess r p req call ar b = Some b' \<Longrightarrow>
     rrIterationsUsed (btResult b') = rrIterationsUsed (btResult b)"
  by (auto simp: handleActionSuccess_def push_message_def dest!: shape_iterations split: option.splits)

lemma triage_iterations:
  "triage r p req banned calls b = Some (todo, b') \<Longrightarrow>
     rrIterationsUsed (btResult b') = rrIterationsUsed (btResult b)"
proof (induction calls arbitrary: b todo b')
  case (Cons call calls)
  show ?case
  proof (cases "signature r call \<in> set banned")
    case True
    then have "triage r p req banned calls (log_banned (tcName call)
       (log_call call (named_result (tcName call)) (push_message (bannedSignatureMessage call) b))) = Some (todo, b')"
      using Cons.prems by (simp only: triage.simps Let_def if_True)
    from Cons.IH [OF this] show ?thesis by (simp add: log_banned_def log_call_def push_message_def)
  next
    case False
    show ?thesis
    proof (cases "case btMemo b of None \<Rightarrow> None | Some m \<Rightarrow> map_of m (signature r call)")
      case None
      with False Cons.prems Cons.IH show ?thesis by (auto simp: Let_def split: option.splits)
    next
      case (Some entry)
      let ?ru = "(named_result (tcName call))
         \<lparr>arResult := meResult entry, arIsVoiceDelivery := meIsVoiceDelivery entry\<rparr>"
      obtain b1 where b1: "handleActionSuccess r p req call ?ru b = Some b1"
        and t: "triage r p req banned calls (log_call call ?ru b1) = Some (todo, b')"
        using False Some Cons.prems by (auto simp: Let_def split: option.splits)
      from Cons.IH [OF t] handleActionSuccess_iterations [OF b1] show ?thesis
        by (simp add: log_call_def)
    qed
  qed
qed simp

lemma settle_iterations:
  "settle r p req enf crs b = Some (err, b') \<Longrightarrow>
     rrIterationsUsed (btResult b') = rrIterationsUsed (btResult b)"
proof (induction crs arbitrary: b err b')
  case (Cons x crs)
  obtain call ar where x: "x = (call, ar)" by (cases x)
  show ?case
  proof (cases "arError ar")
    case None
    then obtain b1 where b1: "settle_success r p req call ar b = Some b1"
      and t: "settle r p req enf crs b1 = Some (err, b')"
      using Cons.prems x by (auto split: option.splits)
    have "rrIterationsUsed (btResult b1) = rrIterationsUsed (btResult b)"
      using b1 handleActionSuccess_iterations by (fastforce simp: settle_success_def log_call_def)
    with Cons.IH [OF t] show ?thesis by simp
  next
    case (Some e)
    obtain y b1 where b1: "settle_failure r enf call ar e b = (y, b1)"
      by (cases "settle_failure r enf call ar e b")
    have w: "btResult b1 = btResult b" using settle_failure_frame [of r enf call ar e b] b1 by simp
    show ?thesis
    proof (cases y)
      case None
      then have "settle r p req enf crs b1 = Some (err, b')" using Cons.prems Some b1 x by simp
      from Cons.IH [OF this] w show ?thesis by simp
    next
      case (Some he)
      with Cons.prems \<open>arError ar = Some e\<close> b1 w x show ?thesis by simp
    qed
  qed
qed simp

lemma processActionCalls_iterations:
  "processActionCalls r p req calls enf plan banned b = Some (err, plan', b') \<Longrightarrow>
     rrIterationsUsed (btResult b') = rrIterationsUsed (btResult b)"
  by (auto simp: processActionCalls_def Let_def split: option.splits if_splits
      dest!: triage_iterations settle_iterations)

section \<open>The part of the turn the gates leave alone\<close>

definition turn_core :: "'p turnState \<Rightarrow> _" where
  "turn_core ts = (tsReq ts, tsProvider ts, tsBanned ts, tsToolMemo ts, tsTotalActionCalls ts,
     tsInfraTerminal ts, tsActiveTopic ts, tsConversationOffset ts, tsIterBoundaries ts,
     tsTopicSwitched ts, tsCriticalErrors ts, tsPlan ts, tsStall ts, rrIterationsUsed (tsResult ts))"

lemma turn_core_updates [simp]:
  "turn_core (set_context wc ts) = turn_core ts"
  "turn_core (add_context m ts) = turn_core ts"
  "turn_core (set_final_session ts) = turn_core ts"
  "turn_core (fail_with msg ts) = turn_core ts"
  "turn_core (result_plan ts) = turn_core ts"
  "turn_core (ts\<lparr>tsPlanNudged := x\<rparr>) = turn_core ts"
  "turn_core (ts\<lparr>tsReflectionRounds := y\<rparr>) = turn_core ts"
  "turn_core (ts\<lparr>tsGroundingRevised := z\<rparr>) = turn_core ts"
  by (simp_all add: turn_core_def ts_update_defs split: option.split)

lemma turn_core_set_result [simp]:
  "rrIterationsUsed (f (tsResult ts)) = rrIterationsUsed (tsResult ts) \<Longrightarrow>
     turn_core (set_result f ts) = turn_core ts"
  by (simp add: turn_core_def set_result_def)

lemma turn_core_tsResult [simp]:
  "rrIterationsUsed res = rrIterationsUsed (tsResult ts) \<Longrightarrow> turn_core (ts\<lparr>tsResult := res\<rparr>) = turn_core ts"
  by (simp add: turn_core_def)

lemma synthesizeFinal_frame:
  assumes "synthesizeFinal r p req wc res emit s = (x, res', s')"
  shows "rrIterationsUsed res' = rrIterationsUsed res \<and> rrResponseDelivered res' = rrResponseDelivered res
    \<and> rrWorkingContext res' = rrWorkingContext res \<and> rrIterations res' = rrIterations res"
  using assms by (auto simp: synthesizeFinal_def split: prod.splits sum.splits)

lemma structured_frame:
  "structured_attempts r p req wc rf a base n hint lp res s = (x, res', s') \<Longrightarrow>
   rrIterationsUsed res' = rrIterationsUsed res \<and> rrCitations res' = rrCitations res
   \<and> rrResponseDelivered res' = rrResponseDelivered res \<and> rrWorkingContext res' = rrWorkingContext res"
proof (induction n arbitrary: hint lp res s)
  case (Suc n)
  obtain y s1 where c: "callLLM r p req wc [] hint [] False a s = (y, s1)"
    by (cases "callLLM r p req wc [] hint [] False a s")
  show ?case
  proof (cases y)
    case (Inl e)
    with Suc.prems c show ?thesis by simp
  next
    case (Inr resp)
    show ?thesis
    proof (cases "rvSchema r (fmtSchema rf) (if oaStructured resp \<noteq> [] then oaStructured resp else oaContent resp)")
      case None
      with Suc.prems c Inr show ?thesis by (auto simp: Let_def)
    next
      case (Some verr)
      have "structured_attempts r p req wc rf a base n
          (base @ nl @ nl @ ''Your previous answer did not match the required schema: ''
             @ err_text verr @ nl @ ''Return ONLY corrected JSON.'')
          (if oaStructured resp \<noteq> [] then oaStructured resp else oaContent resp)
          (accrueTokens req [] (oaTokensUsed resp) res) s1 = (x, res', s')"
        using Suc.prems c Inr Some by (simp only: structured_attempts.simps prod.case sum.case Let_def option.case)
      from Suc.IH [OF this] show ?thesis by simp
    qed
  qed
qed simp

lemma cnt_structured:
  assumes c: "counts_calls r wt cnt"
  shows "structured_attempts r p req wc rf a base n hint lp res s = (x, res', s') \<Longrightarrow> cnt s' = cnt s"
proof (induction n arbitrary: hint lp res s)
  case (Suc n)
  obtain y s1 where l: "callLLM r p req wc [] hint [] False a s = (y, s1)"
    by (cases "callLLM r p req wc [] hint [] False a s")
  have s1: "cnt s1 = cnt s" using cnt_callLLM [OF c l] .
  show ?case
  proof (cases y)
    case (Inl e)
    with Suc.prems l s1 show ?thesis by simp
  next
    case (Inr resp)
    show ?thesis
    proof (cases "rvSchema r (fmtSchema rf) (if oaStructured resp \<noteq> [] then oaStructured resp else oaContent resp)")
      case None
      with Suc.prems l Inr s1 show ?thesis by (auto simp: Let_def)
    next
      case (Some verr)
      have "structured_attempts r p req wc rf a base n
          (base @ nl @ nl @ ''Your previous answer did not match the required schema: ''
             @ err_text verr @ nl @ ''Return ONLY corrected JSON.'')
          (if oaStructured resp \<noteq> [] then oaStructured resp else oaContent resp)
          (accrueTokens req [] (oaTokensUsed resp) res) s1 = (x, res', s')"
        using Suc.prems l Inr Some by (simp only: structured_attempts.simps prod.case sum.case Let_def option.case)
      from Suc.IH [OF this] s1 show ?thesis by simp
    qed
  qed
qed simp

lemma maybeHandoff_frame:
  assumes "maybeHandoff r req res content ce rr s = (h, res', s')"
  shows "rrIterationsUsed res' = rrIterationsUsed res \<and> rrResponseDelivered res' = rrResponseDelivered res
    \<and> rrCitations res' = rrCitations res \<and> rrFinalResponse res' = rrFinalResponse res
    \<and> rrWorkingContext res' = rrWorkingContext res"
  using assms by (auto simp: maybeHandoff_def Let_def split: if_splits option.splits prod.splits)

lemma cnt_maybeHandoff:
  assumes c: "counts_calls r wt cnt" and e: "maybeHandoff r req res content ce rr s = (h, res', s')"
  shows "cnt s' = cnt s"
proof (cases "rvSink r")
  case None
  with e show ?thesis by (auto simp: maybeHandoff_def Let_def split: if_splits)
next
  case (Some f)
  obtain y s1 where f: "f (pMemoryKey (rqEvent req)) s = (y, s1)" by (cases "f (pMemoryKey (rqEvent req)) s")
  from counts_calls_facts(6) [OF c Some f] have "cnt s1 = cnt s" .
  with e Some f show ?thesis
    by (auto simp: maybeHandoff_def Let_def split: if_splits option.splits)
qed

lemma gate_synthesis_spec:
  assumes "gate_synthesis r ts content s = (x, ts', s')"
  shows "turn_core ts' = turn_core ts" and "counts_calls r wt cnt \<Longrightarrow> cnt s' = cnt s"
  using assms cnt_callLLM by (auto simp: gate_synthesis_def Let_def split: if_splits prod.splits sum.splits)

lemma gate_plan_spec: "gate_plan ts = Some ts' \<Longrightarrow> turn_core ts' = turn_core ts"
  by (auto simp: gate_plan_def split: option.splits if_splits)

lemma gate_reflection_spec:
  assumes "gate_reflection r ts s = (v, ts1, s')"
  shows "turn_core ts1 = turn_core ts" and "v = Some (iss, ts2) \<Longrightarrow> turn_core ts2 = turn_core ts"
    and "counts_calls r wt cnt \<Longrightarrow> cnt s' = cnt s"
proof -
  obtain pass issues u s1 where rf: "reflect r (tsProvider ts) (tsReq ts) (tsWorkingContext ts) s
      = ((pass, issues, u), s1)"
    by (metis prod.exhaust)
  show "turn_core ts1 = turn_core ts" "v = Some (iss, ts2) \<Longrightarrow> turn_core ts2 = turn_core ts"
    using assms rf by (auto simp: gate_reflection_def Let_def split: if_splits)
  assume c: "counts_calls r wt cnt"
  have "cnt s1 = cnt s"
    using rf cnt_side_call [OF c] by (auto simp: reflect_def Let_def split: prod.splits sum.splits)
  with assms rf show "cnt s' = cnt s" by (auto simp: gate_reflection_def Let_def split: if_splits)
qed

fun verdict_turn :: "'a gate_verdict \<Rightarrow> 'a" where
  "verdict_turn (GatePass x) = x"
| "verdict_turn (GateRevise x) = x"
| "verdict_turn (GateFinal x) = x"

lemma gate_grounding_spec: "turn_core (verdict_turn (gate_grounding r ts content)) = turn_core ts"
proof -
  obtain rv bl res where g: "enforceGrounding (effectiveGrounding r (tsReq ts)) (rqEvent (tsReq ts))
      content (tsResult ts) = (rv, bl, res)" by (metis prod.exhaust)
  from enforceGrounding_frame [OF g] g show ?thesis
    by (simp add: gate_grounding_def Let_def)
qed

lemma gate_handoff_spec:
  assumes "gate_handoff r ts content s = (v, s')"
  shows "turn_core (verdict_turn v) = turn_core ts" and "counts_calls r wt cnt \<Longrightarrow> cnt s' = cnt s"
proof -
  obtain h res s1 where m: "maybeHandoff r (tsReq ts) (tsResult ts) content (tsCriticalErrors ts)
      (tsReflectionRounds ts) s = (h, res, s1)" by (metis prod.exhaust)
  show "turn_core (verdict_turn v) = turn_core ts"
    using assms m maybeHandoff_frame [OF m]
    by (auto simp: gate_handoff_def Let_def split: if_splits option.splits)
  assume c: "counts_calls r wt cnt"
  show "cnt s' = cnt s"
    using assms m cnt_maybeHandoff [OF c m]
    by (auto simp: gate_handoff_def Let_def split: if_splits option.splits)
qed

lemma deliver_final_spec:
  assumes "deliver_final r ts content s = (ts', s')"
  shows "turn_core ts' = turn_core ts" and "counts_calls r wt cnt \<Longrightarrow> cnt s' = cnt s"
proof -
  show "turn_core ts' = turn_core ts"
  proof (cases "if rrResponseDelivered (tsResult ts) then None else rqResponseFormat (tsReq ts)")
    case (Some rf)
    obtain x res s1 where f: "finalizeStructured r (tsProvider ts) (tsReq ts) rf (tsWorkingContext ts)
        (tsResult ts) s = (x, res, s1)" by (metis prod.exhaust)
    then have "rrIterationsUsed res = rrIterationsUsed (tsResult ts)"
      by (auto simp: finalizeStructured_def Let_def dest!: structured_frame)
    with assms Some f show ?thesis by (auto simp: deliver_final_def)
  qed (use assms in \<open>auto simp: deliver_final_def\<close>)
  assume c: "counts_calls r wt cnt"
  show "cnt s' = cnt s"
  proof (cases "if rrResponseDelivered (tsResult ts) then None else rqResponseFormat (tsReq ts)")
    case (Some rf)
    obtain x res s1 where f: "finalizeStructured r (tsProvider ts) (tsReq ts) rf (tsWorkingContext ts)
        (tsResult ts) s = (x, res, s1)" by (metis prod.exhaust)
    then have "cnt s1 = cnt s"
      using cnt_structured [OF c] unfolding finalizeStructured_def Let_def by blast
    with assms Some f show ?thesis by (auto simp: deliver_final_def)
  qed (use assms in \<open>auto simp: deliver_final_def\<close>)
qed

lemma finalize_spec:
  assumes "finalizeTerminalResponse r ts content lg s = (d, ts', lg', s')"
  shows "turn_core ts' = turn_core ts" and "counts_calls r wt cnt \<Longrightarrow> cnt s' = cnt s"
proof -
  obtain x ts1 s1 where g1: "gate_synthesis r ts content s = (x, ts1, s1)" by (metis prod.exhaust)
  obtain v ts2 s2 where g2: "gate_reflection r ts1 s1 = (v, ts2, s2)" by (metis prod.exhaust)
  note a = gate_synthesis_spec(1) [OF g1] gate_synthesis_spec(2) [OF g1]
    gate_reflection_spec(1) [OF g2] gate_reflection_spec(2) [OF g2] gate_reflection_spec(3) [OF g2]
  have gg: "turn_core (verdict_turn (gate_grounding r ts2 x)) = turn_core ts2" by (rule gate_grounding_spec)
  show "turn_core ts' = turn_core ts"
  proof (cases "gate_plan ts1")
    case (Some t)
    with gate_plan_spec [OF Some] assms g1 a(1) show ?thesis by (simp add: finalizeTerminalResponse_def)
  next
    case None
    show ?thesis
    proof (cases v)
      case (Some w)
      with None assms g1 g2 a show ?thesis
        by (cases w) (simp add: finalizeTerminalResponse_def)
    next
      case None
      note n = \<open>gate_plan ts1 = None\<close> None
      show ?thesis
      proof (cases "gate_grounding r ts2 x")
        case (GatePass ts3)
        obtain v3 s3 where g3: "gate_handoff r ts3 x s2 = (v3, s3)" by (metis prod.exhaust)
        obtain ts5 s5 where g5: "deliver_final r (verdict_turn v3) x s3 = (ts5, s5)" by (metis prod.exhaust)
        show ?thesis
          using assms g1 g2 g3 g5 n GatePass gg a(1,3) gate_handoff_spec(1) [OF g3] deliver_final_spec(1) [OF g5]
          by (cases v3) (simp_all add: finalizeTerminalResponse_def)
      qed (use assms g1 g2 n gg a(1,3) in \<open>simp_all add: finalizeTerminalResponse_def\<close>)
    qed
  qed
  assume c: "counts_calls r wt cnt"
  note a' = a(2) [OF c] a(5) [OF c]
  show "cnt s' = cnt s"
  proof (cases "gate_plan ts1")
    case (Some t)
    with assms g1 a' show ?thesis by (simp add: finalizeTerminalResponse_def)
  next
    case None
    show ?thesis
    proof (cases v)
      case (Some w)
      with None assms g1 g2 a' show ?thesis
        by (cases w) (simp add: finalizeTerminalResponse_def)
    next
      case None
      note n = \<open>gate_plan ts1 = None\<close> None
      show ?thesis
      proof (cases "gate_grounding r ts2 x")
        case (GatePass ts3)
        obtain v3 s3 where g3: "gate_handoff r ts3 x s2 = (v3, s3)" by (metis prod.exhaust)
        obtain ts5 s5 where g5: "deliver_final r (verdict_turn v3) x s3 = (ts5, s5)" by (metis prod.exhaust)
        show ?thesis
          using assms g1 g2 g3 g5 n GatePass a' gate_handoff_spec(2) [OF g3 c] deliver_final_spec(2) [OF g5 c]
          by (cases v3) (simp_all add: finalizeTerminalResponse_def)
      qed (use assms g1 g2 n a' in \<open>simp_all add: finalizeTerminalResponse_def\<close>)
    qed
  qed
qed

section \<open>One iteration, one turn\<close>

definition turn_books :: "'p turnState \<Rightarrow> string list \<times> (string \<times> memoEntry) list option \<times> int \<times> nat" where
  "turn_books ts = (tsBanned ts, tsToolMemo ts, tsTotalActionCalls ts, rrIterationsUsed (tsResult ts))"

lemma turn_books_core: "turn_core a = turn_core b \<Longrightarrow> turn_books a = turn_books b"
  by (simp add: turn_core_def turn_books_def)

lemma turn_books_frame [simp]:
  "turn_books (set_context wc ts) = turn_books ts"
  "turn_books (fail_with msg ts) = turn_books ts"
  "turn_books (ts\<lparr>tsStall := st\<rparr>) = turn_books ts"
  "turn_books (ts\<lparr>tsIterBoundaries := bs\<rparr>) = turn_books ts"
  "turn_books (ts\<lparr>tsReq := q, tsConversationOffset := o', tsTopicSwitched := w, tsActiveTopic := t\<rparr>) = turn_books ts"
  "rrIterationsUsed res = rrIterationsUsed (tsResult ts) \<Longrightarrow> turn_books (ts\<lparr>tsResult := res\<rparr>) = turn_books ts"
  by (simp_all add: turn_books_def ts_update_defs)

lemma cnt_handleTopicSwitch:
  assumes c: "counts_calls r wt cnt" and e: "handleTopicSwitch r req wc off pr s = Some (a, b, d, q, s')"
  shows "cnt s' = cnt s"
proof (cases "if sessionTopicKey (deref r (rqSession req) s) = pr then None else rvRebuild r")
  case None
  with e show ?thesis by (simp add: handleTopicSwitch_def Let_def)
next
  case (Some f)
  then have f: "rvRebuild r = Some f" by (simp split: if_splits)
  from e Some show ?thesis
    by (auto simp: handleTopicSwitch_def Let_def split: option.splits sum.splits if_splits
        dest!: counts_calls_facts(3) [OF c f])
qed

lemma maybeCompress_spec:
  assumes "maybeCompress r p req wc off bs res s = Some (wc', bs', res', s')"
  shows "rrIterationsUsed res' = rrIterationsUsed res" and "counts_calls r wt cnt \<Longrightarrow> cnt s' = cnt s"
  using assms cnt_side_call
  by (auto simp: maybeCompress_def Let_def split: option.splits prod.splits sum.splits if_splits)

lemma after_batch_spec:
  assumes "after_batch r calls ts lg s = Some (st, ts', lg', s')"
  shows "turn_books ts' = turn_books ts" and "counts_calls r wt cnt \<Longrightarrow> cnt s' = cnt s"
proof -
  obtain wc topic off req s1 where h: "handleTopicSwitch r (tsReq ts) (tsWorkingContext ts)
      (tsConversationOffset ts) (tsActiveTopic ts) s = Some (wc, topic, off, req, s1)"
    using assms by (auto simp: after_batch_def split: option.splits)
  define ts1 where "ts1 = set_context wc (ts\<lparr>tsReq := req, tsConversationOffset := off,
     tsTopicSwitched := (tsTopicSwitched ts \<or> topic \<noteq> tsActiveTopic ts), tsActiveTopic := topic\<rparr>)"
  obtain stalled stall where o: "observe (signature r) calls (tsStall ts1) = (stalled, stall)"
    by (metis prod.exhaust)
  let ?ts2 = "ts1\<lparr>tsStall := stall\<rparr>"
  have b: "turn_books ?ts2 = turn_books ts" by (simp add: ts1_def)
  obtain x res s2 where sy: "synthesizeFinal r (tsProvider ?ts2) (tsReq ?ts2) (tsWorkingContext ?ts2)
      (tsResult ?ts2) (tsEmit ?ts2) s1 = (x, res, s2)" by (metis prod.exhaust)
  note body = assms [unfolded after_batch_def h option.case prod.case Let_def, folded ts1_def,
      unfolded o prod.case]
  show "turn_books ts' = turn_books ts"
  proof (cases stalled)
    case True
    with body sy synthesizeFinal_frame [OF sy] b show ?thesis by (auto simp: Let_def)
  next
    case False
    with body b show ?thesis
      by (auto split: if_splits option.splits prod.splits dest!: maybeCompress_spec(1))
  qed
  assume c: "counts_calls r wt cnt"
  have s1: "cnt s1 = cnt s" using cnt_handleTopicSwitch [OF c h] .
  show "cnt s' = cnt s"
  proof (cases stalled)
    case True
    with body sy cnt_synthesizeFinal [OF c sy] s1 show ?thesis by (auto simp: Let_def)
  next
    case False
    with body s1 show ?thesis
      by (auto split: if_splits option.splits prod.splits dest!: maybeCompress_spec(2) [OF _ c])
  qed
qed

lemma executeHandoff_spec:
  assumes h: "executeHandoff r hf ts call lg s = Some (st, ts', lg', s')"
  shows "turn_books ts' = turn_books ts"
    and "counts_calls r wt cnt \<Longrightarrow> rvHandoff r = Some hf \<Longrightarrow> cnt s' = cnt s"
proof -
  show "turn_books ts' = turn_books ts"
    using h by (auto simp: executeHandoff_def Let_def turn_books_def ts_update_defs
        split: if_splits option.splits sum.splits)
  assume c: "counts_calls r wt cnt" and hf: "rvHandoff r = Some hf"
  show "cnt s' = cnt s"
    using h by (auto simp: executeHandoff_def Let_def split: if_splits option.splits sum.splits
        dest!: counts_calls_facts(5) [OF c hf])
qed

lemma cnt_emit_statuses:
  "counts_calls r wt cnt \<Longrightarrow> cnt (emit_statuses (rvEmit r) calls s) = cnt s"
  by (induction "rvEmit r" calls s rule: emit_statuses.induct)
    (simp_all add: counts_calls_facts(10))

text \<open>What an iteration did: nothing counted, or a batch within the budget.\<close>

definition iteration_books ::
  "('s, 'p) reasoning_service \<Rightarrow> (tool_call \<Rightarrow> nat) \<Rightarrow> 'p turnState \<Rightarrow> 'p turnState \<Rightarrow> step_result \<Rightarrow> nat \<Rightarrow> nat \<Rightarrow> bool" where
  "iteration_books r wt ts ts' st k k' \<longleftrightarrow>
     set (tsBanned ts) \<subseteq> set (tsBanned ts') \<and> memo_grows (tsToolMemo ts) (tsToolMemo ts')
     \<and> rrIterationsUsed (tsResult ts') = rrIterationsUsed (tsResult ts)
     \<and> (k' = k \<and> (tsTotalActionCalls ts' = tsTotalActionCalls ts \<or> (\<exists>e. st = StepFail e))
        \<or> (\<exists>calls. k' \<le> k + weight wt (filter (fresh_call r (tsBanned ts) (tsToolMemo ts)) calls)
              \<and> tsTotalActionCalls ts' = tsTotalActionCalls ts + int (length calls)
              \<and> (0 < rvMaxActionsPerCycle r \<longrightarrow> tsTotalActionCalls ts' \<le> rvMaxActionsPerCycle r)))"

lemma executeIterationActions_spec:
  assumes c: "counts_calls r wt cnt"
    and e: "executeIterationActions r ts calls lg s0 = Some (st, ts', lg', s')"
  shows "iteration_books r wt ts ts' st (cnt s0) (cnt s')"
proof -
  define s where "s = (if tsEmit ts then emit_statuses (rvEmit r) calls s0 else s0)"
  have s: "cnt s = cnt s0" by (simp add: s_def cnt_emit_statuses [OF c])
  note body = e [unfolded executeIterationActions_def Let_def, folded s_def]
  show ?thesis
  proof (cases "case rvHandoff r of None \<Rightarrow> None
            | Some h \<Rightarrow> map_option (\<lambda>c. (h, c)) (findHandoffCall r (rqSpirit (tsReq ts)) calls)")
    case (Some hc)
    obtain hf call where hc: "hc = (hf, call)" by (cases hc)
    then have hf: "rvHandoff r = Some hf" using Some by (auto split: option.splits)
    have x: "executeHandoff r hf ts call lg s = Some (st, ts', lg', s')" using body Some hc by simp
    from executeHandoff_spec(1) [OF x] executeHandoff_spec(2) [OF x c hf] s
    show ?thesis by (simp add: iteration_books_def turn_books_def)
  next
    case None
    define ts1 where "ts1 = ts\<lparr>tsTotalActionCalls := tsTotalActionCalls ts + int (length calls)\<rparr>"
    note body1 = body [unfolded None option.case, folded ts1_def]
    have ts1: "tsBanned ts1 = tsBanned ts" "tsToolMemo ts1 = tsToolMemo ts" "tsResult ts1 = tsResult ts"
      "tsTotalActionCalls ts1 = tsTotalActionCalls ts + int (length calls)"
      by (simp_all add: ts1_def)
    show ?thesis
    proof (cases "0 < rvMaxActionsPerCycle r \<and> rvMaxActionsPerCycle r < tsTotalActionCalls ts1")
      case True
      with body1 have st: "st = StepFail (ErrToolBudgetExceeded (rvMaxActionsPerCycle r))" "s' = s"
        "turn_books ts' = turn_books ts1" by auto
      with s ts1 show ?thesis by (simp add: iteration_books_def turn_books_def)
    next
      case False
      then obtain err plan b where p: "processActionCalls r (tsProvider ts1) (tsReq ts1) calls
          (tsEnforceVoiceDelivery ts1) (tsPlan ts1) (tsBanned ts1) (start_batch ts1 lg s) = Some (err, plan, b)"
        and rest: "(case err of Some x \<Rightarrow> turn_books ts' = turn_books (end_batch plan b False ts1) \<and> s' = btWorld b
            | None \<Rightarrow> after_batch r calls (end_batch plan b (btInfra b) ts1) (btLog b) (btWorld b)
                = Some (st, ts', lg', s'))"
        using body1 by (auto simp: Let_def split: option.splits)
      have sb: "cnt (btWorld b) \<le> cnt s + weight wt (filter (fresh_call r (tsBanned ts) (tsToolMemo ts)) calls)"
        "memo_grows (tsToolMemo ts) (btMemo b)"
        using processActionCalls_spec [OF c p] ts1 by (simp_all add: start_batch_def)
      have it: "rrIterationsUsed (btResult b) = rrIterationsUsed (tsResult ts)"
        using processActionCalls_iterations [OF p] ts1 by (simp add: start_batch_def)
      obtain infra where tb: "turn_books ts' = turn_books (end_batch plan b infra ts1)"
        and cs: "cnt s' = cnt (btWorld b)"
      proof (cases err)
        case None
        with rest have a: "after_batch r calls (end_batch plan b (btInfra b) ts1) (btLog b) (btWorld b)
            = Some (st, ts', lg', s')" by simp
        show thesis by (rule that [OF after_batch_spec(1) [OF a] after_batch_spec(2) [OF a c]])
      next
        case (Some x)
        with rest show thesis by (intro that) auto
      qed
      have "tsTotalActionCalls ts' = tsTotalActionCalls ts + int (length calls)"
        "set (tsBanned ts) \<subseteq> set (tsBanned ts')" "tsToolMemo ts' = btMemo b"
        "rrIterationsUsed (tsResult ts') = rrIterationsUsed (tsResult ts)"
        using tb ts1 it by (auto simp: turn_books_def end_batch_def)
      with False cs sb s ts1 show ?thesis by (auto simp: iteration_books_def)
    qed
  qed
qed

lemma runIteration_spec:
  assumes c: "counts_calls r wt cnt" and e: "runIteration r i ts0 s0 = Some (st, ts', s')"
  shows "iteration_books r wt (set_result (\<lambda>x. x\<lparr>rrIterationsUsed := Suc i\<rparr>) ts0) ts' st (cnt s0) (cnt s')"
proof -
  define ts where "ts = set_result (\<lambda>x. x\<lparr>rrIterationsUsed := Suc i\<rparr>) ts0"
  have still: "iteration_books r wt ts ts' st (cnt s0) (cnt s0)" if "turn_books ts' = turn_books ts"
    using that by (simp add: iteration_books_def turn_books_def)
  have logged: "turn_books (set_result (\<lambda>x. x\<lparr>rrIterations := rrIterations x @ [l]\<rparr>) t) = turn_books t" for l t
    by (simp add: turn_books_def set_result_def)
  obtain acts hint0 where ah: "resolveIterationActions (tsActions ts) (tsInfraTerminal ts) = (acts, hint0)"
    by (metis prod.exhaust)
  define hint where "hint = (case tsPlan ts of None \<Rightarrow> hint0 | Some p \<Rightarrow> plan_render p @ hint0)"
  note body = e [unfolded runIteration_def Let_def, folded ts_def, unfolded ah prod.case, folded hint_def]
  show ?thesis unfolding ts_def [symmetric]
  proof (cases "rvCtxErr r s0")
    case (Some err)
    with body have "turn_books ts' = turn_books ts" "s' = s0" by auto
    with still show "iteration_books r wt ts ts' st (cnt s0) (cnt s')" by simp
  next
    case None
    obtain y s1 where l: "callLLM r (tsProvider ts) (tsReq ts) (tsWorkingContext ts) acts hint
        (tsDraftModel ts) (tsEmit ts) None s0 = (y, s1)" by (metis prod.exhaust)
    have s1: "cnt s1 = cnt s0" using cnt_callLLM [OF c l] .
    note body1 = body [unfolded None option.case l prod.case]
    show "iteration_books r wt ts ts' st (cnt s0) (cnt s')"
    proof (cases y)
      case (Inl er)
      with body1 have "turn_books ts' = turn_books ts" "s' = s1" by (auto simp: logged)
      with still s1 show ?thesis by simp
    next
      case (Inr resp)
      define ts2 where "ts2 = add_context ((text_message RoleAssistant (oaContent resp))
         \<lparr>omToolCalls := oaToolCalls resp\<rparr>)
         (set_result (accrueTokens (tsReq ts) (tsDraftModel ts) (oaTokensUsed resp)) ts)"
      have ts2: "turn_books ts2 = turn_books ts" by (simp add: ts2_def turn_books_def ts_update_defs)
      define lg where "lg = (new_iteration_log (Suc i))\<lparr>ilOracleResponse := oaContent resp, ilTokens := oaTokensUsed resp\<rparr>"
      note body2 = body1 [unfolded Inr sum.case, folded ts2_def lg_def]
      show ?thesis
      proof (cases "oaToolCalls resp = []")
        case True
        show ?thesis
        proof (cases "isTerminalResponse resp")
          case True
          obtain d ts3 l3 s3 where f: "finalizeTerminalResponse r ts2 (oaContent resp) lg s1 = (d, ts3, l3, s3)"
            by (metis prod.exhaust)
          with body2 True \<open>oaToolCalls resp = []\<close> have "turn_books ts' = turn_books ts3" "s' = s3"
            by (auto simp: logged)
          with turn_books_core [OF finalize_spec(1) [OF f]] finalize_spec(2) [OF f c] ts2 s1 still
          show ?thesis by simp
        next
          case False
          with body2 \<open>oaToolCalls resp = []\<close> have "turn_books ts' = turn_books ts2" "s' = s1"
            by (auto simp: logged)
          with still s1 ts2 show ?thesis by simp
        qed
      next
        case False
        then obtain ts3 l3 where x: "executeIterationActions r ts2 (oaToolCalls resp) lg s1 = Some (st, ts3, l3, s')"
          and "turn_books ts' = turn_books ts3"
          using body2 by (auto simp: logged)
        with executeIterationActions_spec [OF c x] ts2 s1 show ?thesis
          by (simp add: iteration_books_def turn_books_def)
      qed
    qed
  qed
qed

text \<open>\<open>IterationsUsed\<close> after an iteration is its number.\<close>

lemma trivial_counts:
  "counts_calls (r :: ('s, 'p) reasoning_service) (\<lambda>_. 0) (\<lambda>_. 0)"
  by (simp add: counts_calls_def plain_weight_def keeps_def keeps_opt_def)

lemma runIteration_used:
  assumes "runIteration r i ts s = Some (st, ts', s')"
  shows "rrIterationsUsed (tsResult ts') = Suc i"
  using runIteration_spec [OF trivial_counts assms] by (simp add: iteration_books_def set_result_def)

lemma saveCheckpoint_counts:
  "counts_calls r wt cnt \<Longrightarrow> dur = None \<or> (\<exists>st k. dur = Some (st, k) \<and> rvCheckpoint r = Some st)
     \<Longrightarrow> cnt (saveCheckpoint r dur ts s) = cnt s \<and> cnt (deleteCheckpoint dur s) = cnt s"
  by (auto simp: saveCheckpoint_def deleteCheckpoint_def counts_calls_facts(8) counts_calls_facts(9)
      split: option.split)

lemma handleMax_spec:
  assumes "handleMaxIterations r ts s = (err, ts', s')"
  shows "turn_books ts' = turn_books ts" and "counts_calls r wt cnt \<Longrightarrow> cnt s' = cnt s"
proof -
  let ?t = "set_final_session ts"
  have t: "turn_books ?t = turn_books ts" by (simp add: turn_books_def ts_update_defs)
  obtain x res s1 where sy: "synthesizeFinal r (tsProvider ?t) (tsReq ?t) (tsWorkingContext ?t)
      (tsResult ?t) (tsEmit ?t) s = (x, res, s1)" by (metis prod.exhaust)
  show "turn_books ts' = turn_books ts"
    using assms sy synthesizeFinal_frame [OF sy] t
    by (auto simp: handleMaxIterations_def Let_def turn_books_def set_result_def split: if_splits)
  assume c: "counts_calls r wt cnt"
  show "cnt s' = cnt s"
    using assms sy cnt_synthesizeFinal [OF c sy]
    by (auto simp: handleMaxIterations_def Let_def split: if_splits)
qed

text \<open>The iteration counter never passes the maximum of where the loop began and its cap.\<close>

lemma turn_loop_iterations:
  "turn_loop r dur n i ts s = Some (err, ts', s') \<Longrightarrow> rrIterationsUsed (tsResult ts) \<le> i \<Longrightarrow>
     rrIterationsUsed (tsResult ts') \<le> i + n"
proof (induction n arbitrary: i ts s)
  case 0
  then obtain t1 s1 where h: "handleMaxIterations r ts s = (err, ts', s1)"
    by (cases "handleMaxIterations r ts s") (auto simp: Let_def)
  from handleMax_spec(1) [OF h] 0 show ?case by (simp add: turn_books_def)
next
  case (Suc n)
  obtain st ts1 s1 where it: "runIteration r i ts s = Some (st, ts1, s1)"
    using Suc.prems by (auto split: option.splits)
  have u: "rrIterationsUsed (tsResult ts1) = Suc i" using runIteration_used [OF it] .
  show ?case
  proof (cases st)
    case StepContinue
    with Suc.prems it have t: "turn_loop r dur n (Suc i) ts1 (saveCheckpoint r dur ts1 s1) = Some (err, ts', s')"
      by simp
    from Suc.IH [OF t] u show ?thesis by simp
  qed (use Suc.prems it u in auto)
qed

text \<open>The budget: what was executed is covered by the call counter, and that by the cap.\<close>

lemma turn_loop_budget:
  assumes c: "counts_calls r (\<lambda>_. 1) cnt" and m: "0 < rvMaxActionsPerCycle r"
    and d: "dur = None \<or> (\<exists>st k. dur = Some (st, k) \<and> rvCheckpoint r = Some st)"
  shows "turn_loop r dur n i ts s = Some (err, ts', s') \<Longrightarrow>
     int (cnt s) \<le> int c0 + tsTotalActionCalls ts \<Longrightarrow> tsTotalActionCalls ts \<le> rvMaxActionsPerCycle r \<Longrightarrow>
     int (cnt s') \<le> int c0 + rvMaxActionsPerCycle r"
proof (induction n arbitrary: i ts s)
  case 0
  then obtain s1 where h: "handleMaxIterations r ts s = (err, ts', s1)" "s' = deleteCheckpoint dur s1"
    by (cases "handleMaxIterations r ts s") (auto simp: Let_def)
  from handleMax_spec(2) [OF h(1) c] saveCheckpoint_counts [OF c d] h(2) 0 show ?case by simp
next
  case (Suc n)
  obtain st ts1 s1 where it: "runIteration r i ts s = Some (st, ts1, s1)"
    using Suc.prems by (auto split: option.splits)
  have len: "weight (\<lambda>_. 1) (filter P calls) \<le> length calls" for P calls
    using weight_filter_le [of "\<lambda>_. 1" P calls] by (simp add: weight_def sum_list_triv)
  note b = runIteration_spec [OF c it, unfolded iteration_books_def]
  have fin: "int (cnt s1) \<le> int c0 + rvMaxActionsPerCycle r"
    and cont: "st = StepContinue \<Longrightarrow> int (cnt s1) \<le> int c0 + tsTotalActionCalls ts1
         \<and> tsTotalActionCalls ts1 \<le> rvMaxActionsPerCycle r"
  proof -
    have "(cnt s1 = cnt s \<and> (tsTotalActionCalls ts1 = tsTotalActionCalls ts \<or> (\<exists>e. st = StepFail e)))
      \<or> (\<exists>calls :: tool_call list. cnt s1 \<le> cnt s + length calls
          \<and> tsTotalActionCalls ts1 = tsTotalActionCalls ts + int (length calls)
          \<and> tsTotalActionCalls ts1 \<le> rvMaxActionsPerCycle r)" (is "?A \<or> ?B")
    proof -
      from b consider "?A" | calls P where "cnt s1 \<le> cnt s + weight (\<lambda>_. 1) (filter P calls)"
        "tsTotalActionCalls ts1 = tsTotalActionCalls ts + int (length calls)"
        "tsTotalActionCalls ts1 \<le> rvMaxActionsPerCycle r"
        using m unfolding set_result_def by auto
      then show ?thesis
      proof cases
        case (2 calls P)
        then show ?thesis using len [of P calls] by (intro disjI2 exI [of _ calls] conjI) linarith+
      qed simp
    qed
    then show "int (cnt s1) \<le> int c0 + rvMaxActionsPerCycle r"
      "st = StepContinue \<Longrightarrow> int (cnt s1) \<le> int c0 + tsTotalActionCalls ts1
         \<and> tsTotalActionCalls ts1 \<le> rvMaxActionsPerCycle r"
      using Suc.prems by auto
  qed
  show ?case
  proof (cases st)
    case StepContinue
    with Suc.prems it have t: "turn_loop r dur n (Suc i) ts1 (saveCheckpoint r dur ts1 s1) = Some (err, ts', s')"
      by simp
    from Suc.IH [OF t] cont [OF StepContinue] saveCheckpoint_counts [OF c d] show ?thesis by simp
  next
    case StepDone
    with Suc.prems it fin saveCheckpoint_counts [OF c d] show ?thesis by auto
  next
    case (StepFail e)
    with Suc.prems it fin show ?thesis by auto
  qed
qed

text \<open>A call that is banned or memoized is not executed again for the rest of the turn.\<close>

definition one_signature :: "('s, 'p) reasoning_service \<Rightarrow> string \<Rightarrow> tool_call \<Rightarrow> nat" where
  "one_signature r sg call = (if signature r call = sg then 1 else 0)"

definition settled :: "string \<Rightarrow> 'p turnState \<Rightarrow> bool" where
  "settled sg ts \<longleftrightarrow> sg \<in> set (tsBanned ts)
     \<or> (\<exists>m. tsToolMemo ts = Some m \<and> map_of m sg \<noteq> None)"

lemma weight_settled:
  assumes "settled sg ts"
  shows "weight (one_signature r sg) (filter (fresh_call r (tsBanned ts) (tsToolMemo ts)) calls) = 0"
proof -
  have "signature r call \<noteq> sg" if "fresh_call r (tsBanned ts) (tsToolMemo ts) call" for call
    using that assms by (auto simp: fresh_call_def settled_def)
  then show ?thesis by (induction calls) (auto simp: one_signature_def)
qed

lemma settled_grows:
  "settled sg ts \<Longrightarrow> set (tsBanned ts) \<subseteq> set (tsBanned ts') \<Longrightarrow> memo_grows (tsToolMemo ts) (tsToolMemo ts')
     \<Longrightarrow> settled sg ts'"
  by (auto simp: settled_def memo_grows_def split: option.splits)

lemma turn_loop_settled:
  assumes c: "counts_calls r (one_signature r sg) cnt"
    and d: "dur = None \<or> (\<exists>st k. dur = Some (st, k) \<and> rvCheckpoint r = Some st)"
  shows "turn_loop r dur n i ts s = Some (err, ts', s') \<Longrightarrow> settled sg ts \<Longrightarrow> cnt s' \<le> cnt s"
proof (induction n arbitrary: i ts s)
  case 0
  then obtain s1 where h: "handleMaxIterations r ts s = (err, ts', s1)" "s' = deleteCheckpoint dur s1"
    by (cases "handleMaxIterations r ts s") (auto simp: Let_def)
  from handleMax_spec(2) [OF h(1) c] saveCheckpoint_counts [OF c d] h(2) show ?case by simp
next
  case (Suc n)
  obtain st ts1 s1 where it: "runIteration r i ts s = Some (st, ts1, s1)"
    using Suc.prems by (auto split: option.splits)
  note b = runIteration_spec [OF c it, unfolded iteration_books_def]
  have st: "settled sg (set_result (\<lambda>x. x\<lparr>rrIterationsUsed := Suc i\<rparr>) ts)"
    using Suc.prems(2) by (simp add: settled_def set_result_def)
  have le: "cnt s1 \<le> cnt s" using b weight_settled [OF st, of r] by auto
  have grow: "settled sg ts1" using settled_grows [OF st] b by blast
  show ?case
  proof (cases st)
    case StepContinue
    with Suc.prems it have t: "turn_loop r dur n (Suc i) ts1 (saveCheckpoint r dur ts1 s1) = Some (err, ts', s')"
      by simp
    from Suc.IH [OF t grow] le saveCheckpoint_counts [OF c d] show ?thesis by simp
  next
    case StepDone
    with Suc.prems it le saveCheckpoint_counts [OF c d] show ?thesis by auto
  next
    case (StepFail e)
    with Suc.prems it le show ?thesis by auto
  qed
qed

end
