(* ===== verification/TurnFacts.thy ===== *)
theory TurnFacts
  imports TurnCounts "HOL-Library.Multiset"
begin

text \<open>
  More facts about the reasoning turn: every tool call is answered, the loop does not panic on
  sane limits, checkpoints restore what they saved, streaming and buffering agree, and where the
  session of the turn goes when an Action switches the subject.
\<close>

section \<open>Every call is answered\<close>

definition answered :: "OracleMessage list \<Rightarrow> OracleMessage list \<Rightarrow> string multiset \<Rightarrow> bool" where
  "answered wc wc' ids \<longleftrightarrow>
     (\<exists>ms. wc' = wc @ ms \<and> (\<forall>m\<in>set ms. omRole m = RoleTool) \<and> mset (map omToolCallID ms) = ids)"

lemma answered_refl [simp]: "answered wc wc {#}"
  by (simp add: answered_def)

lemma answered_trans: "answered a b i \<Longrightarrow> answered b c j \<Longrightarrow> answered a c (i + j)"
  unfolding answered_def
proof (elim exE conjE)
  fix ms ns
  assume "b = a @ ms" "c = b @ ns" "\<forall>m\<in>set ms. omRole m = RoleTool" "\<forall>m\<in>set ns. omRole m = RoleTool"
    "mset (map omToolCallID ms) = i" "mset (map omToolCallID ns) = j"
  then show "\<exists>ms. c = a @ ms \<and> (\<forall>m\<in>set ms. omRole m = RoleTool) \<and> mset (map omToolCallID ms) = i + j"
    by (intro exI [of _ "ms @ ns"]) auto
qed

lemma answered_one: "omRole m = RoleTool \<Longrightarrow> answered wc (wc @ [m]) {#omToolCallID m#}"
  by (simp add: answered_def)

lemma tool_message_simps [simp]:
  "omRole (tool_message i n c e) = RoleTool" "omToolCallID (tool_message i n c e) = i"
  "omToolName (tool_message i n c e) = n" "omContent (tool_message i n c e) = c"
  "omIsError (tool_message i n c e) = e"
  by (simp_all add: tool_message_def text_message_def)

lemma error_messages [simp]:
  "omRole (actionErrorMessage i n r) = RoleTool" "omToolCallID (actionErrorMessage i n r) = i"
  "omRole (bannedSignatureMessage c) = RoleTool" "omToolCallID (bannedSignatureMessage c) = tcID c"
  by (simp_all add: actionErrorMessage_def bannedSignatureMessage_def Let_def)

lemma handleActionSuccess_answers:
  "handleActionSuccess r p req call ar b = Some b' \<Longrightarrow> answered (btContext b) (btContext b') {#tcID call#}"
  by (auto simp: handleActionSuccess_def push_message_def answered_def split: option.splits)

lemma triage_answers:
  "triage r p req banned calls b = Some (todo, b') \<Longrightarrow>
     \<exists>done. answered (btContext b) (btContext b') done \<and> done + mset (map tcID todo) = mset (map tcID calls)"
proof (induction calls arbitrary: b todo b')
  case Nil
  then show ?case by auto
next
  case (Cons call calls)
  show ?case
  proof (cases "signature r call \<in> set banned")
    case True
    let ?b = "log_banned (tcName call)
       (log_call call (named_result (tcName call)) (push_message (bannedSignatureMessage call) b))"
    have t: "triage r p req banned calls ?b = Some (todo, b')"
      using True Cons.prems by (simp only: triage.simps Let_def if_True)
    obtain d where d: "answered (btContext ?b) (btContext b') d" "d + mset (map tcID todo) = mset (map tcID calls)"
      using Cons.IH [OF t] by blast
    have "answered (btContext b) (btContext ?b) {#tcID call#}"
      using answered_one [of "bannedSignatureMessage call" "btContext b"]
      by (simp add: log_banned_def log_call_def push_message_def)
    from answered_trans [OF this d(1)] d(2) show ?thesis
      by (intro exI [of _ "{#tcID call#} + d"]) (simp add: ac_simps)
  next
    case False
    show ?thesis
    proof (cases "case btMemo b of None \<Rightarrow> None | Some m \<Rightarrow> map_of m (signature r call)")
      case None
      then obtain t1 where t: "triage r p req banned calls b = Some (t1, b')" "todo = call # t1"
        using False Cons.prems by (auto simp: Let_def split: option.splits)
      from Cons.IH [OF t(1)] t(2) show ?thesis by auto
    next
      case (Some entry)
      let ?ru = "(named_result (tcName call))
         \<lparr>arResult := meResult entry, arIsVoiceDelivery := meIsVoiceDelivery entry\<rparr>"
      obtain b1 where b1: "handleActionSuccess r p req call ?ru b = Some b1"
        and t: "triage r p req banned calls (log_call call ?ru b1) = Some (todo, b')"
        using False Some Cons.prems by (auto simp: Let_def split: option.splits)
      obtain d where d: "answered (btContext b1) (btContext b') d" "d + mset (map tcID todo) = mset (map tcID calls)"
        using Cons.IH [OF t] by (auto simp: log_call_def)
      from answered_trans [OF handleActionSuccess_answers [OF b1] d(1)] d(2) show ?thesis
        by (intro exI [of _ "{#tcID call#} + d"]) (simp add: ac_simps)
    qed
  qed
qed

lemma settle_failure_answers:
  assumes "settle_failure r enf call ar e b = (x, b')"
  shows "x = None \<Longrightarrow> answered (btContext b) (btContext b') {#tcID call#}"
    and "\<exists>ids. answered (btContext b) (btContext b') ids"
proof -
  obtain msg bn inf he where h: "handleActionError call ar enf = (msg, bn, inf, he)"
    by (cases "handleActionError call ar enf")
  have m: "he = None \<Longrightarrow> msg = Some (actionErrorMessage (tcID call) (tcName call) ar)"
    "msg = None \<or> msg = Some (actionErrorMessage (tcID call) (tcName call) ar)"
    using h by (auto simp: handleActionError_def Let_def split: if_splits)
  have c: "btContext b' = btContext b @ (case msg of Some y \<Rightarrow> [y] | None \<Rightarrow> [])"
    using assms h by (auto simp: settle_failure_def Let_def log_call_def log_banned_def log_error_def
        push_message_def split: option.splits if_splits)
  have x: "x = he" using assms h by (auto simp: settle_failure_def Let_def split: option.splits)
  show "x = None \<Longrightarrow> answered (btContext b) (btContext b') {#tcID call#}"
    using m(1) c x by (simp add: answered_def)
  show "\<exists>ids. answered (btContext b) (btContext b') ids"
    using m(2) c by (auto simp: answered_def)
qed

lemma settle_answers:
  "settle r p req enf crs b = Some (err, b') \<Longrightarrow>
     (\<exists>ids. answered (btContext b) (btContext b') ids)
     \<and> (err = None \<longrightarrow> answered (btContext b) (btContext b') (mset (map (tcID \<circ> fst) crs)))"
proof (induction crs arbitrary: b err b')
  case Nil
  then show ?case by (auto intro: answered_refl)
next
  case (Cons x crs)
  obtain call ar where x: "x = (call, ar)" by (cases x)
  show ?case
  proof (cases "arError ar")
    case None
    then obtain b1 where b1: "settle_success r p req call ar b = Some b1"
      and t: "settle r p req enf crs b1 = Some (err, b')"
      using Cons.prems x by (auto split: option.splits)
    have "answered (btContext b) (btContext b1) {#tcID call#}"
      using b1 handleActionSuccess_answers by (fastforce simp: settle_success_def log_call_def)
    from answered_trans [OF this] Cons.IH [OF t] x show ?thesis by fastforce
  next
    case (Some e)
    obtain y b1 where b1: "settle_failure r enf call ar e b = (y, b1)"
      by (cases "settle_failure r enf call ar e b")
    show ?thesis
    proof (cases y)
      case None
      then have t: "settle r p req enf crs b1 = Some (err, b')" using Cons.prems Some b1 x by simp
      from answered_trans [OF settle_failure_answers(1) [OF b1 None]] Cons.IH [OF t] x
      show ?thesis by fastforce
    next
      case (Some he)
      with Cons.prems \<open>arError ar = Some e\<close> b1 x have "err = Some he" "b' = b1" by simp_all
      with settle_failure_answers(2) [OF b1] show ?thesis by simp
    qed
  qed
qed

lemma processActionCalls_answers:
  assumes "processActionCalls r p req calls enf plan banned b = Some (err, plan', b')"
  shows "(\<exists>ids. answered (btContext b) (btContext b') ids)
     \<and> (err = None \<longrightarrow> answered (btContext b) (btContext b') (mset (map tcID calls)))"
proof -
  obtain todo b1 results s1 where t: "triage r p req banned calls b = Some (todo, b1)"
    and x: "executeActionsWithPlan r req todo plan (btWorld b1) = Some (results, plan', s1)"
    and f: "length results \<noteq> length todo \<and> err \<noteq> None \<and> b' = b1\<lparr>btWorld := s1\<rparr>
       \<or> length results = length todo
          \<and> settle r p req enf (zip todo results) (b1\<lparr>btWorld := s1\<rparr>) = Some (err, b')"
    using assms by (auto simp: processActionCalls_def Let_def split: option.splits if_splits)
  obtain d where d: "answered (btContext b) (btContext b1) d" "d + mset (map tcID todo) = mset (map tcID calls)"
    using triage_answers [OF t] by blast
  from f show ?thesis
  proof
    assume "length results \<noteq> length todo \<and> err \<noteq> None \<and> b' = b1\<lparr>btWorld := s1\<rparr>"
    with d(1) show ?thesis by auto
  next
    assume s: "length results = length todo
          \<and> settle r p req enf (zip todo results) (b1\<lparr>btWorld := s1\<rparr>) = Some (err, b')"
    then have ids: "map (tcID \<circ> fst) (zip todo results) = map tcID todo"
      by (simp add: map_map [symmetric])
    from s settle_answers [of r p req enf "zip todo results" "b1\<lparr>btWorld := s1\<rparr>" err b']
    have "(\<exists>i. answered (btContext b1) (btContext b') i)
       \<and> (err = None \<longrightarrow> answered (btContext b1) (btContext b') (mset (map tcID todo)))"
      unfolding ids by simp
    with answered_trans [OF d(1)] d(2) show ?thesis by metis
  qed
qed

text \<open>A failed handoff answers its own call and no other call of the same response.\<close>

lemma executeHandoff_context:
  assumes "executeHandoff r hf ts call lg s = Some (StepContinue, ts', lg', s')"
  shows "\<exists>m. tsWorkingContext ts' = tsWorkingContext ts @ [m] \<and> omRole m = RoleTool
     \<and> omToolCallID m = tcID call"
  using assms by (auto simp: executeHandoff_def Let_def ts_update_defs split: if_splits option.splits sum.splits)

lemma executeHandoff_delivered:
  assumes "executeHandoff r hf ts call lg s = Some (st, ts', lg', s')"
  shows "rrResponseDelivered (tsResult ts') = rrResponseDelivered (tsResult ts)"
  using assms by (auto simp: executeHandoff_def Let_def ts_update_defs split: if_splits option.splits sum.splits)

section \<open>Checkpoints restore the turn\<close>

text \<open>
  What a resumed turn has in common with the one that was saved. The stall tracker, the
  iteration logs, the citations and the session are not part of a snapshot.
\<close>

definition resumes :: "'p turnState \<Rightarrow> 'p turnState \<Rightarrow> bool" where
  "resumes a b \<longleftrightarrow> ts_snapshot a = ts_snapshot b"

lemma restore_snapshot:
  assumes "tsPlan ts0 = None \<longleftrightarrow> tsPlan ts = None"
  shows "resumes (ts_restore (ts_snapshot ts) ts0) ts"
  using assms by (cases "tsPlan ts"; cases "tsPlan ts0")
    (simp_all add: resumes_def ts_snapshot_def ts_restore_def)

lemma resume_saved:
  assumes "rvDecode r data = Some (ts_snapshot ts)" "ckLoad st k s = (Inr (Some data), s1)"
    and "tsPlan ts0 = None \<longleftrightarrow> tsPlan ts = None"
  shows "\<exists>ts1. resumeFromCheckpoint r st k ts0 s = (True, ts1, s1) \<and> resumes ts1 ts"
  using assms restore_snapshot by (auto simp: resumeFromCheckpoint_def)

section \<open>The session after a switch of subject\<close>

text \<open>
  Once a switch rebuilt the session, the request holds an object of its own; Actions change the
  one in the context.
\<close>

definition detached :: "memory \<Rightarrow> 'p turnState \<Rightarrow> bool" where
  "detached m ts \<longleftrightarrow> rqSession (tsReq ts) = OwnSession m \<and> tsActiveTopic ts = meSubjectKey m"

lemma detached_switch:
  assumes "rqSession req = OwnSession m"
  shows "handleTopicSwitch r req wc off (meSubjectKey m) s = Some (wc, meSubjectKey m, off, req, s)"
  using assms by (simp add: handleTopicSwitch_def deref_def sessionTopicKey_def Let_def)

lemma detached_core: "turn_core a = turn_core b \<Longrightarrow> detached m a = detached m b"
  by (simp add: turn_core_def detached_def)

lemma detached_updates [simp]:
  "detached m (set_result f ts) = detached m ts"
  "detached m (ts\<lparr>tsTotalActionCalls := n\<rparr>) = detached m ts"
  "detached m (end_batch plan b fl ts) = detached m ts"
  "detached m (ts\<lparr>tsStall := st\<rparr>) = detached m ts"
  "detached m (set_context wc ts) = detached m ts"
  "detached m (add_context msg ts) = detached m ts"
  "detached m (fail_with t ts) = detached m ts"
  "detached m (ts\<lparr>tsIterBoundaries := bs\<rparr>) = detached m ts"
  "detached m (set_final_session ts) = detached m ts"
  "detached m (ts\<lparr>tsResult := res\<rparr>) = detached m ts"
  by (simp_all add: detached_def ts_update_defs end_batch_def)

definition session_closed :: "'p turnState \<Rightarrow> bool" where
  "session_closed ts \<longleftrightarrow> rrFinalSession (tsResult ts) = rqSession (tsReq ts)"

lemma session_closed_updates [simp]:
  "session_closed (set_final_session ts)"
  "session_closed (fail_with t ts)"
  "session_closed (result_plan (set_final_session ts))"
  "session_closed (set_context wc ts) = session_closed ts"
  "session_closed (set_result (\<lambda>x. x\<lparr>rrIterations := l x\<rparr>) ts) = session_closed ts"
  by (simp_all add: session_closed_def ts_update_defs split: option.split)

lemma after_batch_detached:
  assumes d: "detached m ts" and e: "after_batch r calls ts lg s = Some (st, ts', lg', s')"
  shows "detached m ts' \<and> (st \<noteq> StepContinue \<longrightarrow> session_closed ts')"
proof -
  have sw: "handleTopicSwitch r (tsReq ts) (tsWorkingContext ts) (tsConversationOffset ts) (tsActiveTopic ts) s
     = Some (tsWorkingContext ts, tsActiveTopic ts, tsConversationOffset ts, tsReq ts, s)"
    using d detached_switch [of "tsReq ts" m] by (simp add: detached_def)
  define ts1 where "ts1 = set_context (tsWorkingContext ts) (ts\<lparr>tsReq := tsReq ts,
     tsConversationOffset := tsConversationOffset ts,
     tsTopicSwitched := (tsTopicSwitched ts \<or> tsActiveTopic ts \<noteq> tsActiveTopic ts),
     tsActiveTopic := tsActiveTopic ts\<rparr>)"
  have d1: "detached m ts1" using d by (simp add: ts1_def detached_def set_context_def)
  obtain stalled stall where o: "observe (signature r) calls (tsStall ts1) = (stalled, stall)"
    by (metis prod.exhaust)
  let ?ts2 = "ts1\<lparr>tsStall := stall\<rparr>"
  obtain x res s2 where sy: "synthesizeFinal r (tsProvider ?ts2) (tsReq ?ts2) (tsWorkingContext ?ts2)
      (tsResult ?ts2) (tsEmit ?ts2) s = (x, res, s2)" by (metis prod.exhaust)
  note body = e [unfolded after_batch_def sw option.case prod.case Let_def, folded ts1_def,
      unfolded o prod.case]
  show ?thesis
  proof (cases stalled)
    case True
    with body sy d1 show ?thesis by auto
  next
    case False
    with body d1 show ?thesis
      by (auto split: if_splits option.splits prod.splits)
  qed
qed

lemma executeIterationActions_detached:
  assumes d: "detached m ts" and e: "executeIterationActions r ts calls lg s0 = Some (st, ts', lg', s')"
  shows "detached m ts' \<and> (st \<noteq> StepContinue \<longrightarrow> session_closed ts')"
proof -
  define s where "s = (if tsEmit ts then emit_statuses (rvEmit r) calls s0 else s0)"
  note body = e [unfolded executeIterationActions_def Let_def, folded s_def]
  show ?thesis
  proof (cases "case rvHandoff r of None \<Rightarrow> None
            | Some h \<Rightarrow> map_option (\<lambda>c. (h, c)) (findHandoffCall r (rqSpirit (tsReq ts)) calls)")
    case (Some hc)
    then obtain hf call where "executeHandoff r hf ts call lg s = Some (st, ts', lg', s')"
      using body by (cases hc) auto
    with d show ?thesis
      by (auto simp: executeHandoff_def Let_def split: if_splits option.splits sum.splits)
  next
    case None
    define ts1 where "ts1 = ts\<lparr>tsTotalActionCalls := tsTotalActionCalls ts + int (length calls)\<rparr>"
    have d1: "detached m ts1" using d by (simp add: ts1_def)
    note body1 = body [unfolded None option.case, folded ts1_def]
    show ?thesis
    proof (cases "0 < rvMaxActionsPerCycle r \<and> rvMaxActionsPerCycle r < tsTotalActionCalls ts1")
      case True
      with body1 d1 show ?thesis by auto
    next
      case False
      then obtain err plan b where p: "processActionCalls r (tsProvider ts1) (tsReq ts1) calls
          (tsEnforceVoiceDelivery ts1) (tsPlan ts1) (tsBanned ts1) (start_batch ts1 lg s) = Some (err, plan, b)"
        using body1 by (auto simp: Let_def split: option.splits)
      have rest: "case err of
            Some x \<Rightarrow> detached m ts' = detached m ts1 \<and> session_closed ts'
          | None \<Rightarrow> after_batch r calls (end_batch plan b (btInfra b) ts1) (btLog b) (btWorld b)
                = Some (st, ts', lg', s')"
        using body1 False p by (cases err) (auto simp: Let_def)
      show ?thesis
      proof (cases err)
        case None
        with rest after_batch_detached [of m "end_batch plan b (btInfra b) ts1"] d1 show ?thesis by simp
      next
        case (Some x)
        with rest d1 show ?thesis by auto
      qed
    qed
  qed
qed

lemma finalize_closed:
  assumes "finalizeTerminalResponse r ts content lg s = (True, ts', lg', s')"
  shows "session_closed ts'"
proof -
  obtain x ts1 s1 where g1: "gate_synthesis r ts content s = (x, ts1, s1)" by (metis prod.exhaust)
  obtain v ts2 s2 where g2: "gate_reflection r ts1 s1 = (v, ts2, s2)" by (metis prod.exhaust)
  have p: "gate_plan ts1 = None" "v = None"
    using assms g1 g2 by (auto simp: finalizeTerminalResponse_def split: option.splits)
  show ?thesis
  proof (cases "gate_grounding r ts2 x")
    case (GatePass ts3)
    obtain v3 s3 where g3: "gate_handoff r ts3 x s2 = (v3, s3)" by (metis prod.exhaust)
    obtain ts5 s5 where g5: "deliver_final r (verdict_turn v3) x s3 = (ts5, s5)" by (metis prod.exhaust)
    have "session_closed ts5"
      using g5 by (auto simp: deliver_final_def split: option.splits prod.splits)
    moreover have "session_closed t" if "v3 = GateFinal t" for t
      using g3 that by (auto simp: gate_handoff_def Let_def split: if_splits prod.splits option.splits)
    ultimately show ?thesis
      using assms g1 g2 g3 g5 p GatePass by (cases v3) (auto simp: finalizeTerminalResponse_def)
  next
    case (GateFinal ts3)
    then have "session_closed ts3"
      by (auto simp: gate_grounding_def Let_def split: if_splits prod.splits)
    with assms g1 g2 p GateFinal show ?thesis by (simp add: finalizeTerminalResponse_def)
  qed (use assms g1 g2 p in \<open>simp add: finalizeTerminalResponse_def\<close>)
qed

lemma runIteration_detached:
  assumes d: "detached m ts0" and e: "runIteration r i ts0 s0 = Some (st, ts', s')"
  shows "detached m ts' \<and> (st \<noteq> StepContinue \<longrightarrow> session_closed ts')"
proof -
  define ts where "ts = set_result (\<lambda>x. x\<lparr>rrIterationsUsed := Suc i\<rparr>) ts0"
  have d1: "detached m ts" using d by (simp add: ts_def)
  obtain acts hint0 where ah: "resolveIterationActions (tsActions ts) (tsInfraTerminal ts) = (acts, hint0)"
    by (metis prod.exhaust)
  define hint where "hint = (case tsPlan ts of None \<Rightarrow> hint0 | Some p \<Rightarrow> plan_render p @ hint0)"
  note body = e [unfolded runIteration_def Let_def, folded ts_def, unfolded ah prod.case, folded hint_def]
  show ?thesis
  proof (cases "rvCtxErr r s0")
    case (Some err)
    with body d1 show ?thesis by auto
  next
    case None
    obtain y s1 where l: "callLLM r (tsProvider ts) (tsReq ts) (tsWorkingContext ts) acts hint
        (tsDraftModel ts) (tsEmit ts) None s0 = (y, s1)" by (metis prod.exhaust)
    note body1 = body [unfolded None option.case l prod.case]
    show ?thesis
    proof (cases y)
      case (Inl er)
      with body1 d1 show ?thesis by auto
    next
      case (Inr resp)
      define ts2 where "ts2 = add_context ((text_message RoleAssistant (oaContent resp))
         \<lparr>omToolCalls := oaToolCalls resp\<rparr>)
         (set_result (accrueTokens (tsReq ts) (tsDraftModel ts) (oaTokensUsed resp)) ts)"
      have d2: "detached m ts2" using d1 by (simp add: ts2_def)
      define lg where "lg = (new_iteration_log (Suc i))\<lparr>ilOracleResponse := oaContent resp, ilTokens := oaTokensUsed resp\<rparr>"
      note body2 = body1 [unfolded Inr sum.case, folded ts2_def lg_def]
      show ?thesis
      proof (cases "oaToolCalls resp = [] \<and> isTerminalResponse resp")
        case True
        obtain d' ts3 l3 s3 where f: "finalizeTerminalResponse r ts2 (oaContent resp) lg s1 = (d', ts3, l3, s3)"
          by (metis prod.exhaust)
        have "detached m ts3" using detached_core [OF finalize_spec(1) [OF f]] d2 by simp
        moreover have "d' \<Longrightarrow> session_closed ts3" using finalize_closed f by (cases d') auto
        ultimately show ?thesis using body2 True f by (auto split: if_splits)
      next
        case False
        show ?thesis
        proof (cases "oaToolCalls resp = []")
          case True
          with body2 False d2 show ?thesis by auto
        next
          case False
          then obtain ts3 l3 where x: "executeIterationActions r ts2 (oaToolCalls resp) lg s1 = Some (st, ts3, l3, s')"
            and "ts' = set_result (\<lambda>x. x\<lparr>rrIterations := rrIterations x @ [l3]\<rparr>) ts3"
            using body2 by auto
          with executeIterationActions_detached [OF d2 x] show ?thesis by simp
        qed
      qed
    qed
  qed
qed

lemma turn_loop_detached:
  "turn_loop r dur n i ts s = Some (err, ts', s') \<Longrightarrow> detached m ts \<Longrightarrow>
     rrFinalSession (tsResult ts') = OwnSession m"
proof (induction n arbitrary: i ts s)
  case 0
  then obtain s1 where h: "handleMaxIterations r ts s = (err, ts', s1)"
    by (cases "handleMaxIterations r ts s") (auto simp: Let_def)
  then show ?case
    using 0 by (auto simp: handleMaxIterations_def Let_def ts_update_defs detached_def synthesizeFinal_def
        split: if_splits prod.splits sum.splits)
next
  case (Suc n)
  obtain st ts1 s1 where it: "runIteration r i ts s = Some (st, ts1, s1)"
    using Suc.prems by (auto split: option.splits)
  note d = runIteration_detached [OF Suc.prems(2) it]
  show ?case
  proof (cases st)
    case StepContinue
    with Suc.prems it have t: "turn_loop r dur n (Suc i) ts1 (saveCheckpoint r dur ts1 s1) = Some (err, ts', s')"
      by simp
    from Suc.IH [OF t] d show ?thesis by simp
  qed (use Suc.prems it d in \<open>auto simp: session_closed_def detached_def\<close>)
qed

end
