(* ===== verification/TurnSafe.thy ===== *)
theory TurnSafe
  imports TurnFacts
begin

text \<open>
  The loop does not panic: with result limits whose head and tail are not negative, an executor
  that returns one result per call, collaborators that do not panic and a session that is there,
  no slice expression or nil pointer of the turn fails.
\<close>

definition sane_limits :: "ToolResultLimits \<Rightarrow> bool" where
  "sane_limits l \<longleftrightarrow> rlMaxChars l \<le> 0 \<or> (0 \<le> rlKeepHead l \<and> 0 \<le> rlKeepTail l)"

definition sane_service :: "('s, 'p) reasoning_service \<Rightarrow> bool" where
  "sane_service r \<longleftrightarrow>
     sane_limits (rvToolResultLimits r)
     \<and> (\<forall>n a l. rvGetAction r n = Inr a \<longrightarrow> acResultLimit a = Some l \<longrightarrow> sane_limits l)
     \<and> (\<forall>calls s. length (fst (rvExecuteAll r calls s)) = length calls)
     \<and> (\<forall>f mk sk s. rvRebuild r = Some f \<longrightarrow> f mk sk s \<noteq> None)
     \<and> (\<forall>f n t e sp s. rvSummon r = Some f \<longrightarrow> f n t e sp s \<noteq> None)
     \<and> (\<forall>f t e sp se cc s. rvHandoff r = Some f \<longrightarrow> f t e sp se cc s \<noteq> None)
     \<and> (\<forall>s. rvSession r s \<noteq> None)"

lemma sane_facts:
  assumes "sane_service r"
  shows "sane_limits (rvToolResultLimits r)"
    and "rvGetAction r n = Inr a \<Longrightarrow> acResultLimit a = Some l \<Longrightarrow> sane_limits l"
    and "rvExecuteAll r calls s = (rs, s') \<Longrightarrow> length rs = length calls"
    and "rvRebuild r = Some f \<Longrightarrow> f mk sk s \<noteq> None"
    and "rvSummon r = Some g \<Longrightarrow> g n t e sp s \<noteq> None"
    and "rvHandoff r = Some h \<Longrightarrow> h t e sp se cc s \<noteq> None"
    and "rvSession r s \<noteq> None"
proof -
  note d = assms [unfolded sane_service_def]
  show "sane_limits (rvToolResultLimits r)" using d by (elim conjE)
  have "\<forall>n a l. rvGetAction r n = Inr a \<longrightarrow> acResultLimit a = Some l \<longrightarrow> sane_limits l" using d by (elim conjE)
  then show "rvGetAction r n = Inr a \<Longrightarrow> acResultLimit a = Some l \<Longrightarrow> sane_limits l" by blast
  have "\<forall>calls s. length (fst (rvExecuteAll r calls s)) = length calls" using d by (elim conjE)
  then show "rvExecuteAll r calls s = (rs, s') \<Longrightarrow> length rs = length calls" by (metis fst_conv)
  have "\<forall>f mk sk s. rvRebuild r = Some f \<longrightarrow> f mk sk s \<noteq> None" using d by (elim conjE)
  then show "rvRebuild r = Some f \<Longrightarrow> f mk sk s \<noteq> None" by blast
  have "\<forall>f n t e sp s. rvSummon r = Some f \<longrightarrow> f n t e sp s \<noteq> None" using d by (elim conjE)
  then show "rvSummon r = Some g \<Longrightarrow> g n t e sp s \<noteq> None" by blast
  have "\<forall>f t e sp se cc s. rvHandoff r = Some f \<longrightarrow> f t e sp se cc s \<noteq> None" using d by (elim conjE)
  then show "rvHandoff r = Some h \<Longrightarrow> h t e sp se cc s \<noteq> None" by blast
  have "\<forall>s. rvSession r s \<noteq> None" using d by (elim conjE)
  then show "rvSession r s \<noteq> None" by blast
qed

section \<open>Shaping and settling\<close>

lemma truncate_sane: "sane_limits l \<Longrightarrow> truncateToolResult content l \<noteq> None"
proof (cases "rlMaxChars l \<le> 0 \<or> int (rune_count content) \<le> rlMaxChars l")
  case True
  then show ?thesis by (auto simp: truncateToolResult_def rune_count_def Let_def)
next
  case False
  assume "sane_limits l"
  with False have "0 < rlMaxChars l" "0 \<le> rlKeepHead l" "0 \<le> rlKeepTail l"
    "rlMaxChars l < int (rune_count content)"
    by (auto simp: sane_limits_def)
  then show ?thesis by (metis option.distinct(1) truncate_long)
qed

lemma limitsFor_sane: "sane_service r \<Longrightarrow> sane_limits (limitsFor r n)"
  using sane_facts(1) sane_facts(2) by (auto simp: limitsFor_def split: sum.split option.split)

lemma shape_sane:
  assumes "sane_service r"
  shows "shapeResultForContext r p req name full res s \<noteq> None"
  using truncate_sane [OF limitsFor_sane [OF assms]]
  by (auto simp: shapeResultForContext_def Let_def split: prod.split sum.split)

lemma handleActionSuccess_sane: "sane_service r \<Longrightarrow> handleActionSuccess r p req call ar b \<noteq> None"
  using shape_sane by (auto simp: handleActionSuccess_def split: option.splits)

lemma triage_sane: "sane_service r \<Longrightarrow> triage r p req banned calls b \<noteq> None"
proof (induction calls arbitrary: b)
  case (Cons call calls)
  note ih = Cons.IH [OF Cons.prems]
  show ?case
  proof (cases "signature r call \<in> set banned")
    case True
    with ih show ?thesis by (simp only: triage.simps Let_def if_True) simp
  next
    case False
    show ?thesis
    proof (cases "case btMemo b of None \<Rightarrow> None | Some m \<Rightarrow> map_of m (signature r call)")
      case None
      obtain t where "triage r p req banned calls b = Some t" using ih [of b] by blast
      with False None show ?thesis
        by (cases t) (simp only: triage.simps Let_def if_False option.case prod.case, simp)
    next
      case (Some entry)
      let ?ru = "(named_result (tcName call))
         \<lparr>arResult := meResult entry, arIsVoiceDelivery := meIsVoiceDelivery entry\<rparr>"
      obtain b1 where "handleActionSuccess r p req call ?ru b = Some b1"
        using handleActionSuccess_sane [OF Cons.prems] by blast
      with False Some ih show ?thesis
        by (simp only: triage.simps Let_def if_False option.case) simp
    qed
  qed
qed simp

lemma settle_sane: "sane_service r \<Longrightarrow> settle r p req enf crs b \<noteq> None"
proof (induction crs arbitrary: b)
  case (Cons x crs)
  obtain call ar where x: "x = (call, ar)" by (cases x)
  have "settle_success r p req call ar b \<noteq> None"
    using handleActionSuccess_sane [OF Cons.prems] by (simp add: settle_success_def)
  with Cons x show ?case by (auto split: option.split prod.split)
qed simp

section \<open>Executing\<close>

lemma summon_loop_sane:
  assumes "\<And>n t e sp s. sf n t e sp s \<noteq> None"
  shows "summon_loop sf calls req is rs s \<noteq> None"
proof (induction "is" arbitrary: rs s)
  case (Cons i js)
  have "executeSummonCall sf (calls ! i) req s \<noteq> None"
  proof (cases "sf (str_arg (tcArguments (calls ! i)) ''spirit_name'') (str_arg (tcArguments (calls ! i)) ''task'')
      (rqEvent req) (rqSpirit req) s")
    case None
    with assms show ?thesis by blast
  qed (auto simp: executeSummonCall_def Let_def split: sum.split)
  with Cons show ?case by (auto split: prod.split)
qed simp

lemma length_scatter [simp]: "length (scatter is vs xs) = length xs"
  by (induction "is" vs xs rule: scatter.induct) simp_all

lemma summon_loop_length:
  "summon_loop sf calls req is rs s = Some (rs', s') \<Longrightarrow> length rs' = length rs"
  by (induction "is" arbitrary: rs s) (fastforce split: option.splits prod.splits)+

lemma executeAllActions_sane:
  assumes s: "sane_service r"
  shows "\<exists>rs s'. executeAllActions r req calls w = Some (rs, s') \<and> length rs = length calls"
proof -
  let ?calls = "applyIsCriticalOverrides (sAllowedActions (rqSpirit req)) calls"
  show ?thesis
  proof (cases "if IsOrchestrator (rqSpirit req) then rvSummon r else None")
    case None
    obtain rs s' where e: "rvExecuteAll r ?calls w = (rs, s')" by (metis prod.exhaust)
    with sane_facts(3) [OF s e] None show ?thesis
      by (auto simp: executeAllActions_def Let_def split: if_splits)
  next
    case (Some sf)
    then have sf: "rvSummon r = Some sf" by (simp split: if_splits)
    let ?ri = "positions (\<lambda>c. tcName c \<noteq> summonSpiritActionName) ?calls"
    obtain rs1 s1 where x: "(if ?ri = [] then ([], w) else rvExecuteAll r (map (nth ?calls) ?ri) w) = (rs1, s1)"
      by (metis prod.exhaust)
    have len: "length rs1 = length ?ri"
      using x sane_facts(3) [OF s, of "map (nth ?calls) ?ri" w rs1 s1] by (auto split: if_splits)
    let ?si = "positions (\<lambda>c. tcName c = summonSpiritActionName) ?calls"
    define order where "order = (if ocParallelSummon (sOrchestratorConfig (rqSpirit req)) \<and> 1 < length ?si
        then rvSummonOrder r s1 ?si else ?si)"
    let ?base = "scatter ?ri rs1 (replicate (length ?calls) (named_result []))"
    obtain rs s' where l: "summon_loop sf ?calls req order ?base s1 = Some (rs, s')"
      using summon_loop_sane [of sf ?calls req order ?base s1] sane_facts(5) [OF s sf] by auto
    have eq: "executeAllActions r req calls w = Some (rs, s')"
      unfolding executeAllActions_def Let_def Some option.case x prod.case
      using l len by (simp add: order_def)
    have "length rs = length calls" using summon_loop_length [OF l] by simp
    with eq show ?thesis by blast
  qed
qed

lemma plan_calls_length: "length (fst (plan_calls ff calls is rs p)) = length rs"
  by (induction ff calls "is" rs p rule: plan_calls.induct) (auto split: prod.split)

lemma length_positions_map [simp]: "length (map (nth calls) (positions P calls)) = length (positions P calls)"
  by simp

lemma executeActionsWithPlan_sane:
  assumes s: "sane_service r"
  shows "\<exists>rs plan' s'. executeActionsWithPlan r req calls plan w = Some (rs, plan', s') \<and> length rs = length calls"
proof (cases plan)
  case None
  with executeAllActions_sane [OF s, of req calls w] show ?thesis
    by (auto simp: executeActionsWithPlan_def)
next
  case (Some p)
  let ?ri = "positions (\<lambda>c. tcName c \<noteq> updatePlanActionName) calls"
  let ?pi = "positions (\<lambda>c. tcName c = updatePlanActionName) calls"
  obtain results p1 where pc: "plan_calls (rvFloat r) calls ?pi (replicate (length calls) (named_result [])) p
      = (results, p1)" by (metis prod.exhaust)
  have lr: "length results = length calls"
    using plan_calls_length [of "rvFloat r" calls ?pi "replicate (length calls) (named_result [])" p] pc by simp
  obtain sub s1 where e: "executeAllActions r req (map (nth calls) ?ri) w = Some (sub, s1)"
    "length sub = length ?ri"
    using executeAllActions_sane [OF s, of req "map (nth calls) ?ri" w] by auto
  from e lr show ?thesis
    unfolding executeActionsWithPlan_def Some option.case Let_def pc prod.case by simp
qed

lemma processActionCalls_sane:
  assumes s: "sane_service r"
  shows "processActionCalls r p req calls enf plan banned b \<noteq> None"
proof -
  obtain todo b1 where t: "triage r p req banned calls b = Some (todo, b1)"
    using triage_sane [OF s, of p req banned calls b] by auto
  obtain rs plan' s1 where x: "executeActionsWithPlan r req todo plan (btWorld b1) = Some (rs, plan', s1)"
    using executeActionsWithPlan_sane [OF s] by blast
  obtain b2 where "settle r p req enf (zip todo rs) (b1\<lparr>btWorld := s1\<rparr>) = Some b2"
    using settle_sane [OF s, of p req enf "zip todo rs" "b1\<lparr>btWorld := s1\<rparr>"] by auto
  then show ?thesis
    unfolding processActionCalls_def t x option.case prod.case Let_def by (cases b2) simp
qed

section \<open>The working context stays in shape\<close>

text \<open>
  The pinned prefix ends inside the context, and until a switch of subject so do the recorded
  iteration boundaries.
\<close>

definition context_ok :: "'p turnState \<Rightarrow> bool" where
  "context_ok ts \<longleftrightarrow>
     tsConversationOffset ts \<le> length (tsWorkingContext ts)
     \<and> (tsTopicSwitched ts \<or> (\<forall>b\<in>set (tsIterBoundaries ts). b \<le> length (tsWorkingContext ts)))
     \<and> rqSession (tsReq ts) \<noteq> NoSession"

lemma context_ok_grow:
  assumes "context_ok ts" "length (tsWorkingContext ts) \<le> length (tsWorkingContext ts')"
    and "tsConversationOffset ts' = tsConversationOffset ts" "tsTopicSwitched ts' = tsTopicSwitched ts"
    and "tsIterBoundaries ts' = tsIterBoundaries ts" "rqSession (tsReq ts') = rqSession (tsReq ts)"
  shows "context_ok ts'"
  using assms by (fastforce simp: context_ok_def)

lemma answered_length: "answered wc wc' ids \<Longrightarrow> length wc \<le> length wc'"
  by (auto simp: answered_def)

lemma handleTopicSwitch_sane:
  assumes s: "sane_service r" and o: "off \<le> length wc" and q: "rqSession req \<noteq> NoSession"
  obtains wc' t off' req' s' where "handleTopicSwitch r req wc off pr w = Some (wc', t, off', req', s')"
    "off' \<le> length wc'" "rqSession req' \<noteq> NoSession" "t = pr \<Longrightarrow> wc' = wc \<and> off' = off"
proof -
  obtain m where m: "deref r (rqSession req) w = Some m"
    using q sane_facts(7) [OF s] by (cases "rqSession req") (auto simp: deref_def)
  show thesis
  proof (cases "if sessionTopicKey (Some m) = pr then None else rvRebuild r")
    case None
    show thesis
      by (rule that [of wc "sessionTopicKey (Some m)" off req w])
        (use None m o q in \<open>auto simp: handleTopicSwitch_def\<close>)
  next
    case (Some f)
    then have f: "rvRebuild r = Some f" and ne: "sessionTopicKey (Some m) \<noteq> pr" by (auto split: if_splits)
    obtain y s1 where y: "f (meMemoryKey m) (sessionTopicKey (Some m)) w = Some (y, s1)"
      using sane_facts(4) [OF s f] by fast
    show thesis
    proof (cases y)
      case (Inl e)
      show thesis
        by (rule that [of wc "sessionTopicKey (Some m)" off req s1])
          (use Some m o q y Inl ne in \<open>auto simp: handleTopicSwitch_def\<close>)
    next
      case (Inr new)
      let ?new = "merge_facts (meTopicFacts m) new"
      let ?h = "chatMessagesToLLM (meThreads ?new)"
      show thesis
        by (rule that [of "?h @ drop off wc" "sessionTopicKey (Some m)" "length ?h"
              "req\<lparr>rqSession := OwnSession ?new\<rparr>" s1])
          (use Some m o q y Inr ne in \<open>auto simp: handleTopicSwitch_def Let_def\<close>)
    qed
  qed
qed

lemma maybeCompress_sane:
  assumes o: "off \<le> length wc" and b: "\<forall>b\<in>set bs. b \<le> length wc"
  obtains wc' bs' res' s' where "maybeCompress r p req wc off bs res w = Some (wc', bs', res', s')"
    "off \<le> length wc'" "\<forall>b\<in>set bs'. b \<le> length wc'"
proof (cases "recent_start (effectiveCompression r req) wc off bs")
  case None
  with o b show thesis by (intro that [of wc bs res w]) (simp_all add: maybeCompress_def)
next
  case (Some rs)
  have le: "rs \<le> length wc" using recent_start_bounds [OF Some b] by simp
  obtain y s1 where y: "side_call r p (primary_model req) ledgerInstruction
      [text_message RoleUser (renderMessagesForLedger (drop off (take rs wc)))] w = (y, s1)"
    by (metis prod.exhaust)
  show thesis
  proof (cases y)
    case (Inl e)
    with Some y le o b show thesis by (intro that [of wc bs res s1]) (simp_all add: maybeCompress_def)
  next
    case (Inr resp)
    let ?c = "ledger_splice wc off rs (oaContent resp)"
    show thesis
    proof (cases "str_trim (oaContent resp) = []")
      case True
      with Some y le o b Inr show thesis by (intro that [of wc bs res s1]) (simp_all add: maybeCompress_def)
    next
      case False
      have "off \<le> length ?c" using o by (simp add: ledger_splice_def)
      with Some y le Inr False show thesis
        by (intro that [of ?c "[length ?c]" "accumulateTokens (oaTokensUsed resp) res" s1])
          (simp_all add: maybeCompress_def Let_def)
    qed
  qed
qed

lemma after_batch_sane:
  assumes s: "sane_service r" and o: "context_ok ts"
  shows "\<exists>st ts' lg' s'. after_batch r calls ts lg w = Some (st, ts', lg', s') \<and> context_ok ts'"
proof -
  obtain wc t off req s1 where h: "handleTopicSwitch r (tsReq ts) (tsWorkingContext ts)
      (tsConversationOffset ts) (tsActiveTopic ts) w = Some (wc, t, off, req, s1)"
    and off: "off \<le> length wc" "rqSession req \<noteq> NoSession"
      "t = tsActiveTopic ts \<Longrightarrow> wc = tsWorkingContext ts \<and> off = tsConversationOffset ts"
    using handleTopicSwitch_sane [OF s] o unfolding context_ok_def by metis
  define ts1 where "ts1 = set_context wc (ts\<lparr>tsReq := req, tsConversationOffset := off,
     tsTopicSwitched := (tsTopicSwitched ts \<or> t \<noteq> tsActiveTopic ts), tsActiveTopic := t\<rparr>)"
  obtain stalled stall where ob: "observe (signature r) calls (tsStall ts1) = (stalled, stall)"
    by (metis prod.exhaust)
  let ?ts2 = "ts1\<lparr>tsStall := stall\<rparr>"
  have f: "tsWorkingContext ?ts2 = wc" "tsConversationOffset ?ts2 = off" "rqSession (tsReq ?ts2) = rqSession req"
    "tsTopicSwitched ?ts2 = (tsTopicSwitched ts \<or> t \<noteq> tsActiveTopic ts)"
    "tsIterBoundaries ?ts2 = tsIterBoundaries ts"
    by (simp_all add: ts1_def set_context_def)
  have ok2: "context_ok ?ts2"
    using o off f unfolding context_ok_def by auto
  note unf = after_batch_def h option.case prod.case Let_def ts1_def [symmetric] ob
  show ?thesis
  proof (cases stalled)
    case True
    obtain x res s2 where sy: "synthesizeFinal r (tsProvider ?ts2) (tsReq ?ts2) (tsWorkingContext ?ts2)
      (tsResult ?ts2) (tsEmit ?ts2) s1 = (x, res, s2)" by (metis prod.exhaust)
    have "context_ok (fail_with msg (?ts2\<lparr>tsResult := res'\<rparr>))" for msg res'
      by (rule context_ok_grow [OF ok2]) (simp_all add: ts_update_defs)
    with True sy show ?thesis unfolding unf by (simp add: unf)
  next
    case False
    show ?thesis
    proof (cases "tsCompressionEnabled ?ts2 \<and> \<not> tsTopicSwitched ?ts2")
      case True
      have bs: "\<forall>b\<in>set (tsIterBoundaries ?ts2 @ [length (tsWorkingContext ?ts2)]). b \<le> length (tsWorkingContext ?ts2)"
        and oo: "tsConversationOffset ?ts2 \<le> length (tsWorkingContext ?ts2)"
        using ok2 True unfolding context_ok_def by auto
      obtain wc2 bs2 res s2 where mc: "maybeCompress r (tsProvider ?ts2) (tsReq ?ts2) (tsWorkingContext ?ts2)
          (tsConversationOffset ?ts2) (tsIterBoundaries ?ts2 @ [length (tsWorkingContext ?ts2)])
          (tsResult ?ts2) s1 = Some (wc2, bs2, res, s2)"
        "tsConversationOffset ?ts2 \<le> length wc2" "\<forall>b\<in>set bs2. b \<le> length wc2"
        using maybeCompress_sane [OF oo bs] by metis
      have "context_ok (set_context wc2 (?ts2\<lparr>tsIterBoundaries := bs2, tsResult := res\<rparr>))"
        using mc(2,3) ok2 unfolding context_ok_def set_context_def by simp
      with False True mc(1) show ?thesis unfolding unf by (simp add: unf)
    next
      case nc: False
      with False ok2 show ?thesis unfolding unf by auto
    qed
  qed
qed

section \<open>Iterations\<close>

lemma context_ok_core:
  assumes "context_ok ts" "turn_core ts' = turn_core ts" "length (tsWorkingContext ts) \<le> length (tsWorkingContext ts')"
  shows "context_ok ts'"
  using assms by (auto simp: context_ok_def turn_core_def)

lemma gate_lengths:
  "tsWorkingContext ts \<noteq> [] \<Longrightarrow> gate_synthesis r ts content s = (x, ts1, s1) \<Longrightarrow>
     length (tsWorkingContext ts1) = length (tsWorkingContext ts)"
  "gate_plan ts = Some ts2 \<Longrightarrow> length (tsWorkingContext ts) \<le> length (tsWorkingContext ts2)"
  "gate_reflection r ts s = (v, ts3, s3) \<Longrightarrow> length (tsWorkingContext ts) \<le> length (tsWorkingContext ts3)
     \<and> (v = Some (is, ts4) \<longrightarrow> length (tsWorkingContext ts) \<le> length (tsWorkingContext ts4))"
  "length (tsWorkingContext ts) \<le> length (tsWorkingContext (verdict_turn (gate_grounding r ts content)))"
  "gate_handoff r ts content s = (v5, s5) \<Longrightarrow>
     length (tsWorkingContext ts) \<le> length (tsWorkingContext (verdict_turn v5))"
  "deliver_final r ts content s = (ts6, s6) \<Longrightarrow> length (tsWorkingContext ts) \<le> length (tsWorkingContext ts6)"
  by (auto simp: gate_synthesis_def gate_plan_def gate_reflection_def gate_grounding_def gate_handoff_def
      deliver_final_def Let_def ts_update_defs split: if_splits prod.splits sum.splits option.splits)

lemma finalize_length:
  assumes ne: "tsWorkingContext ts \<noteq> []" and e: "finalizeTerminalResponse r ts content lg s = (d, ts', lg', s')"
  shows "length (tsWorkingContext ts) \<le> length (tsWorkingContext ts')"
proof -
  obtain x ts1 s1 where g1: "gate_synthesis r ts content s = (x, ts1, s1)" by (metis prod.exhaust)
  obtain v ts2 s2 where g2: "gate_reflection r ts1 s1 = (v, ts2, s2)" by (metis prod.exhaust)
  have l1: "length (tsWorkingContext ts1) = length (tsWorkingContext ts)" using gate_lengths(1) [OF ne g1] .
  show ?thesis
  proof (cases "gate_plan ts1")
    case (Some t)
    with e g1 gate_lengths(2) [OF Some] l1 show ?thesis by (simp add: finalizeTerminalResponse_def)
  next
    case None
    show ?thesis
    proof (cases v)
      case (Some w)
      obtain iss t where w: "w = (iss, t)" by (cases w)
      with None Some e g1 g2 gate_lengths(3) [OF g2, of iss t] l1 show ?thesis
        by (simp add: finalizeTerminalResponse_def)
    next
      case n: None
      have l2: "length (tsWorkingContext ts) \<le> length (tsWorkingContext ts2)"
        using gate_lengths(3) [OF g2] l1 by simp
      note l3 = gate_lengths(4) [of ts2 r x]
      show ?thesis
      proof (cases "gate_grounding r ts2 x")
        case (GatePass ts3)
        obtain v3 s3 where g3: "gate_handoff r ts3 x s2 = (v3, s3)" by (metis prod.exhaust)
        obtain ts5 s5 where g5: "deliver_final r (verdict_turn v3) x s3 = (ts5, s5)" by (metis prod.exhaust)
        show ?thesis
          using e g1 g2 g3 g5 n None GatePass l2 l3 gate_lengths(5) [OF g3] gate_lengths(6) [OF g5]
          by (cases v3) (simp_all add: finalizeTerminalResponse_def)
      qed (use e g1 g2 n None l2 l3 in \<open>simp_all add: finalizeTerminalResponse_def\<close>)
    qed
  qed
qed

lemma executeHandoff_sane:
  assumes s: "sane_service r" and hf: "rvHandoff r = Some hf" and o: "context_ok ts"
  shows "\<exists>st ts' lg' s'. executeHandoff r hf ts call lg w = Some (st, ts', lg', s') \<and> context_ok ts'"
proof -
  have grow: "context_ok (add_context m ts)" for m
    by (rule context_ok_grow [OF o]) (simp_all add: ts_update_defs)
  have fin: "context_ok (set_final_session (set_result f ts))" for f
    by (rule context_ok_grow [OF o]) (simp_all add: ts_update_defs)
  obtain y s1 where y: "hf (str_arg (tcArguments call) ''target_spirit'') (rqEvent (tsReq ts))
      (rqSpirit (tsReq ts)) (rqSession (tsReq ts)) (rqConversationContext (tsReq ts)) w = Some (y, s1)"
    using sane_facts(6) [OF s hf] by fast
  show ?thesis
    using y grow fin by (cases y) (auto simp: executeHandoff_def Let_def)
qed

lemma executeIterationActions_sane:
  assumes s: "sane_service r" and o: "context_ok ts"
  shows "\<exists>st ts' lg' s'. executeIterationActions r ts calls lg w0 = Some (st, ts', lg', s') \<and> context_ok ts'"
proof -
  define w where "w = (if tsEmit ts then emit_statuses (rvEmit r) calls w0 else w0)"
  note unf = executeIterationActions_def Let_def w_def [symmetric]
  show ?thesis
  proof (cases "case rvHandoff r of None \<Rightarrow> None
            | Some h \<Rightarrow> map_option (\<lambda>c. (h, c)) (findHandoffCall r (rqSpirit (tsReq ts)) calls)")
    case (Some hc)
    obtain hf call where hc: "hc = (hf, call)" by (cases hc)
    then have hf: "rvHandoff r = Some hf" using Some by (auto split: option.splits)
    from executeHandoff_sane [OF s hf o] show ?thesis unfolding unf Some hc option.case prod.case .
  next
    case None
    define ts1 where "ts1 = ts\<lparr>tsTotalActionCalls := tsTotalActionCalls ts + int (length calls)\<rparr>"
    have o1: "context_ok ts1" using o by (simp add: context_ok_def ts1_def)
    note unf1 = unf None option.case ts1_def [symmetric]
    show ?thesis
    proof (cases "0 < rvMaxActionsPerCycle r \<and> rvMaxActionsPerCycle r < tsTotalActionCalls ts1")
      case True
      have "context_ok (fail_with msg ts1)" for msg
        by (rule context_ok_grow [OF o1]) (simp_all add: ts_update_defs)
      with True show ?thesis unfolding unf1 by simp
    next
      case False
      obtain err plan b where p: "processActionCalls r (tsProvider ts1) (tsReq ts1) calls
          (tsEnforceVoiceDelivery ts1) (tsPlan ts1) (tsBanned ts1) (start_batch ts1 lg w) = Some (err, plan, b)"
        using processActionCalls_sane [OF s, of "tsProvider ts1" "tsReq ts1" calls
          "tsEnforceVoiceDelivery ts1" "tsPlan ts1" "tsBanned ts1" "start_batch ts1 lg w"] by auto
      have len: "length (tsWorkingContext ts1) \<le> length (btContext b)"
        using processActionCalls_answers [OF p] answered_length by (fastforce simp: start_batch_def)
      have eb: "context_ok (end_batch plan b fl ts1)" for fl
        by (rule context_ok_grow [OF o1]) (use len in \<open>simp_all add: end_batch_def\<close>)
      show ?thesis
      proof (cases err)
        case None
        with False p after_batch_sane [OF s eb [of "btInfra b"], of calls "btLog b" "btWorld b"]
        show ?thesis unfolding unf1 by auto
      next
        case (Some x)
        have "context_ok (set_context (tsWorkingContext (end_batch plan b False ts1))
           (fail_with msg (end_batch plan b False ts1)))" for msg
          by (rule context_ok_grow [OF eb [of False]]) (simp_all add: ts_update_defs)
        with p Some show ?thesis unfolding unf1 if_not_P [OF False] by simp
      qed
    qed
  qed
qed

lemma runIteration_sane:
  assumes s: "sane_service r" and o0: "context_ok ts0"
  shows "\<exists>st ts' s'. runIteration r i ts0 w = Some (st, ts', s') \<and> context_ok ts'"
proof -
  define ts where "ts = set_result (\<lambda>x. x\<lparr>rrIterationsUsed := Suc i\<rparr>) ts0"
  have o: "context_ok ts" using o0 by (simp add: context_ok_def ts_def set_result_def)
  have res: "context_ok (set_result f t) = context_ok t" for f t
    by (simp add: context_ok_def set_result_def)
  have fl: "context_ok t \<Longrightarrow> context_ok (fail_with msg t)" for msg t
    by (rule context_ok_grow [of t]) (simp_all add: ts_update_defs)
  obtain acts hint0 where ah: "resolveIterationActions (tsActions ts) (tsInfraTerminal ts) = (acts, hint0)"
    by (metis prod.exhaust)
  define hint where "hint = (case tsPlan ts of None \<Rightarrow> hint0 | Some p \<Rightarrow> plan_render p @ hint0)"
  note unf = runIteration_def Let_def ts_def [symmetric] ah prod.case hint_def [symmetric]
  show ?thesis
  proof (cases "rvCtxErr r w")
    case (Some err)
    with fl [OF o] show ?thesis unfolding unf by simp
  next
    case None
    obtain y s1 where l: "callLLM r (tsProvider ts) (tsReq ts) (tsWorkingContext ts) acts hint
        (tsDraftModel ts) (tsEmit ts) None w = (y, s1)" by (metis prod.exhaust)
    note unf1 = unf None option.case l
    show ?thesis
    proof (cases y)
      case (Inl er)
      with fl [OF o] show ?thesis unfolding unf1 Inl sum.case by (simp add: res)
    next
      case (Inr resp)
      define ts2 where "ts2 = add_context ((text_message RoleAssistant (oaContent resp))
         \<lparr>omToolCalls := oaToolCalls resp\<rparr>)
         (set_result (accrueTokens (tsReq ts) (tsDraftModel ts) (oaTokensUsed resp)) ts)"
      have o2: "context_ok ts2"
        by (rule context_ok_grow [OF o]) (simp_all add: ts2_def ts_update_defs)
      have ne: "tsWorkingContext ts2 \<noteq> []" by (simp add: ts2_def ts_update_defs)
      define lg where "lg = (new_iteration_log (Suc i))\<lparr>ilOracleResponse := oaContent resp, ilTokens := oaTokensUsed resp\<rparr>"
      note unf2 = unf1 Inr sum.case ts2_def [symmetric] lg_def [symmetric]
      show ?thesis
      proof (cases "oaToolCalls resp = []")
        case True
        show ?thesis
        proof (cases "isTerminalResponse resp")
          case t: True
          obtain d ts3 l3 s3 where f: "finalizeTerminalResponse r ts2 (oaContent resp) lg s1 = (d, ts3, l3, s3)"
            by (metis prod.exhaust)
          have "context_ok ts3"
            by (rule context_ok_core [OF o2 finalize_spec(1) [OF f] finalize_length [OF ne f]])
          with True t f show ?thesis unfolding unf2 by (simp add: res)
        next
          case False
          with True o2 show ?thesis unfolding unf2 by (simp add: res)
        qed
      next
        case False
        obtain st ts3 l3 s' where "executeIterationActions r ts2 (oaToolCalls resp) lg s1 = Some (st, ts3, l3, s')"
          "context_ok ts3"
          using executeIterationActions_sane [OF s o2] by blast
        with False show ?thesis unfolding unf2 by (simp add: res)
      qed
    qed
  qed
qed

lemma turn_loop_sane:
  assumes s: "sane_service r"
  shows "context_ok ts \<Longrightarrow> turn_loop r dur n i ts w \<noteq> None"
proof (induction n arbitrary: i ts w)
  case 0
  then show ?case by (cases "handleMaxIterations r ts w") simp
next
  case (Suc n)
  obtain st ts1 s1 where "runIteration r i ts w = Some (st, ts1, s1)" "context_ok ts1"
    using runIteration_sane [OF s Suc.prems] by blast
  with Suc.IH show ?case by (cases st) simp_all
qed

lemma newTurnState_ok:
  assumes "newTurnState r req emit s = Inr ts" "rqSession req \<noteq> NoSession"
  shows "context_ok ts"
  using assms by (auto simp: newTurnState_def Let_def context_ok_def split: sum.splits)

text \<open>A decoded snapshot is trusted to hold a context its own offsets fit.\<close>

definition sane_snapshots :: "('s, 'p) reasoning_service \<Rightarrow> bool" where
  "sane_snapshots r \<longleftrightarrow> (\<forall>d sn. rvDecode r d = Some sn \<longrightarrow>
     snConversationOffset sn \<le> length (snWorkingContext sn)
     \<and> (snTopicSwitched sn \<or> (\<forall>b\<in>set (snIterBoundaries sn). b \<le> length (snWorkingContext sn))))"

lemma restore_ok:
  assumes "context_ok ts" "sane_snapshots r" "rvDecode r d = Some sn"
  shows "context_ok (ts_restore sn ts)"
proof -
  have "snConversationOffset sn \<le> length (snWorkingContext sn)
     \<and> (snTopicSwitched sn \<or> (\<forall>b\<in>set (snIterBoundaries sn). b \<le> length (snWorkingContext sn)))"
    using assms(2,3) unfolding sane_snapshots_def by blast
  with assms(1) show ?thesis by (cases "snTopicSwitched sn") (simp_all add: context_ok_def ts_restore_def)
qed

lemma resume_ok:
  assumes "context_ok ts" "sane_snapshots r" "resumeFromCheckpoint r st k ts s = (b, ts', s')"
  shows "context_ok ts'"
  using assms(1,3) restore_ok [OF assms(1,2)]
  by (auto simp: resumeFromCheckpoint_def split: prod.splits sum.splits option.splits)

lemma run_sane:
  assumes s: "sane_service r" and sn: "sane_snapshots r" and q: "rqSession req \<noteq> NoSession"
  shows "run r req emit w \<noteq> None"
proof (cases "newTurnState r req emit w")
  case (Inl e)
  then show ?thesis by (simp add: run_def)
next
  case (Inr ts)
  have o: "context_ok ts" using newTurnState_ok [OF Inr q] .
  define rs where "rs = (case checkpointID r (tsReq ts) of None \<Rightarrow> (False, ts, w)
      | Some (st, k) \<Rightarrow> resumeFromCheckpoint r st k ts w)"
  obtain b ts1 s1 where rs: "rs = (b, ts1, s1)" by (metis prod.exhaust)
  have o1: "context_ok ts1"
  proof (cases "checkpointID r (tsReq ts)")
    case None
    with rs o show ?thesis by (simp add: rs_def)
  next
    case (Some d)
    then have "resumeFromCheckpoint r (fst d) (snd d) ts w = (b, ts1, s1)"
      using rs by (simp add: rs_def split_beta)
    with resume_ok [OF o sn] show ?thesis by blast
  qed
  define ts2 where "ts2 = (if checkpointID r (tsReq ts) \<noteq> None \<and> tsToolMemo ts1 = None
      then ts1\<lparr>tsToolMemo := Some []\<rparr> else ts1)"
  have o2: "context_ok ts2" using o1 by (simp add: context_ok_def ts2_def)
  define start where "start = (if b then rrIterationsUsed (tsResult ts1) else 0)"
  obtain t where "turn_loop r (checkpointID r (tsReq ts)) (nat (rvMaxIterations r - int start)) start ts2 s1 = Some t"
    using turn_loop_sane [OF s o2] by blast
  then show ?thesis
    unfolding run_def Inr sum.case Let_def rs_def [symmetric] rs prod.case start_def [symmetric] ts2_def [symmetric]
    by (cases t) simp
qed

end
