(* ===== verification/TurnRun.thy ===== *)
theory TurnRun
  imports TurnSafe
begin

text \<open>What the laws of the loop say of a whole \<open>run\<close>, resumed from a checkpoint or not.\<close>

lemma run_cases:
  assumes e: "run r req emit s = Some (err, res, s')"
  obtains (refused) e' where "newTurnState r req emit s = Inl e'" "err = Some e'" "res = None" "s' = s"
  | (ran) ts b ts1 s1 ts2 start ts3 where
      "newTurnState r req emit s = Inr ts"
      "(case checkpointID r (tsReq ts) of None \<Rightarrow> (False, ts, s)
        | Some (st, k) \<Rightarrow> resumeFromCheckpoint r st k ts s) = (b, ts1, s1)"
      "start = (if b then rrIterationsUsed (tsResult ts1) else 0)"
      "ts2 = (if checkpointID r (tsReq ts) \<noteq> None \<and> tsToolMemo ts1 = None
              then ts1\<lparr>tsToolMemo := Some []\<rparr> else ts1)"
      "turn_loop r (checkpointID r (tsReq ts)) (nat (rvMaxIterations r - int start)) start ts2 s1 = Some (err, ts3, s')"
      "res = Some (tsResult ts3)"
proof (cases "newTurnState r req emit s")
  case (Inl e')
  have "err = Some e' \<and> res = None \<and> s' = s" using e by (auto simp: run_def Inl)
  then show thesis using refused [OF Inl] by blast
next
  case (Inr ts)
  obtain b ts1 s1 where c: "(case checkpointID r (tsReq ts) of None \<Rightarrow> (False, ts, s)
        | Some (st, k) \<Rightarrow> resumeFromCheckpoint r st k ts s) = (b, ts1, s1)" by (metis prod.exhaust)
  define start where "start = (if b then rrIterationsUsed (tsResult ts1) else 0)"
  define ts2 where "ts2 = (if checkpointID r (tsReq ts) \<noteq> None \<and> tsToolMemo ts1 = None
      then ts1\<lparr>tsToolMemo := Some []\<rparr> else ts1)"
  have body: "run r req emit s = (case turn_loop r (checkpointID r (tsReq ts))
        (nat (rvMaxIterations r - int start)) start ts2 s1 of
      None \<Rightarrow> None | Some (err, ts3, s2) \<Rightarrow> Some (err, Some (tsResult ts3), s2))"
    unfolding run_def Inr sum.case Let_def c prod.case start_def ts2_def ..
  obtain ts3 where "turn_loop r (checkpointID r (tsReq ts)) (nat (rvMaxIterations r - int start)) start ts2 s1
      = Some (err, ts3, s')" "res = Some (tsResult ts3)"
    using e unfolding body by (auto split: option.splits)
  then show thesis using ran [OF Inr c start_def ts2_def] by blast
qed

lemma checkpointID_store:
  "checkpointID r req = None \<or> (\<exists>st k. checkpointID r req = Some (st, k) \<and> rvCheckpoint r = Some st)"
  by (auto simp: checkpointID_def Let_def split: option.splits)

text \<open>A resumed turn is the fresh one or a decoded snapshot laid over it.\<close>

lemma resume_cases:
  assumes "resumeFromCheckpoint r st k ts s = (b, ts1, s1)"
  shows "s1 = snd (ckLoad st k s)
    \<and> (\<not> b \<and> ts1 = ts \<or> b \<and> (\<exists>d sn. rvDecode r d = Some sn \<and> ts1 = ts_restore sn ts))"
  using assms by (auto simp: resumeFromCheckpoint_def split: prod.splits sum.splits option.splits)

lemma entry_cases:
  assumes "(case checkpointID r (tsReq ts) of None \<Rightarrow> (False, ts, s)
        | Some (st, k) \<Rightarrow> resumeFromCheckpoint r st k ts s) = (b, ts1, s1)"
  shows "(\<not> b \<and> ts1 = ts) \<or> (b \<and> (\<exists>d sn. rvDecode r d = Some sn \<and> ts1 = ts_restore sn ts))"
proof (cases "checkpointID r (tsReq ts)")
  case None
  with assms show ?thesis by simp
next
  case (Some d)
  then have "resumeFromCheckpoint r (fst d) (snd d) ts s = (b, ts1, s1)"
    using assms by (simp add: split_beta)
  from resume_cases [OF this] show ?thesis by blast
qed

lemma entry_counts:
  assumes c: "counts_calls r wt cnt" and "(case checkpointID r (tsReq ts) of None \<Rightarrow> (False, ts, s)
        | Some (st, k) \<Rightarrow> resumeFromCheckpoint r st k ts s) = (b, ts1, s1)"
  shows "cnt s1 = cnt s"
proof (cases "checkpointID r (tsReq ts)")
  case None
  with assms show ?thesis by simp
next
  case (Some d)
  then have e: "resumeFromCheckpoint r (fst d) (snd d) ts s = (b, ts1, s1)"
    using assms by (simp add: split_beta)
  have "rvCheckpoint r = Some (fst d)" using checkpointID_store [of r "tsReq ts"] Some by auto
  then show ?thesis
    using resume_cases [OF e] counts_calls_facts(7) [OF c, of "fst d" "snd d" s] by (metis prod.collapse)
qed

lemma new_turn_facts:
  assumes "newTurnState r req emit s = Inr ts"
  shows "tsTotalActionCalls ts = 0 \<and> rrIterationsUsed (tsResult ts) = 0"
  using assms by (auto simp: newTurnState_def Let_def fresh_result_def split: sum.splits)

lemma run_budget:
  assumes c: "counts_calls r (\<lambda>_. 1) cnt" and m: "0 < rvMaxActionsPerCycle r"
    and sn: "\<forall>d sn. rvDecode r d = Some sn \<longrightarrow>
       0 \<le> snTotalActionCalls sn \<and> snTotalActionCalls sn \<le> rvMaxActionsPerCycle r"
    and e: "run r req emit s = Some (err, res, s')"
  shows "int (cnt s') \<le> int (cnt s) + rvMaxActionsPerCycle r"
  using e
proof (cases rule: run_cases)
  case refused
  with m show ?thesis by simp
next
  case (ran ts b ts1 s1 ts2 start ts3)
  have "0 \<le> tsTotalActionCalls ts1 \<and> tsTotalActionCalls ts1 \<le> rvMaxActionsPerCycle r"
    using entry_cases [OF ran(2)] new_turn_facts [OF ran(1)] sn m by (auto simp: ts_restore_def)
  moreover have "tsTotalActionCalls ts2 = tsTotalActionCalls ts1" using ran(4) by simp
  ultimately show ?thesis
    using turn_loop_budget [OF c m checkpointID_store ran(5), of "cnt s"] entry_counts [OF c ran(2)] by simp
qed

lemma run_iterations:
  assumes sn: "\<forall>d sn. rvDecode r d = Some sn \<longrightarrow> int (snIterationsUsed sn) \<le> rvMaxIterations r"
    and e: "run r req emit s = Some (err, Some res, s')"
  shows "int (rrIterationsUsed res) \<le> max 0 (rvMaxIterations r)"
  using e
proof (cases rule: run_cases)
  case (ran ts b ts1 s1 ts2 start ts3)
  have u: "rrIterationsUsed (tsResult ts1) = start"
    using entry_cases [OF ran(2)] new_turn_facts [OF ran(1)] ran(3) by auto
  have le: "b \<longrightarrow> int start \<le> rvMaxIterations r" "\<not> b \<longrightarrow> start = 0"
    using entry_cases [OF ran(2)] ran(3) sn by (auto simp: ts_restore_def)
  have "rrIterationsUsed (tsResult ts2) \<le> start" using u ran(4) by simp
  from turn_loop_iterations [OF ran(5) this]
  have "rrIterationsUsed res \<le> start + nat (rvMaxIterations r - int start)" using ran(6) by simp
  with le show ?thesis by (cases b) auto
qed simp

lemma new_turn_key: "newTurnState r req emit s = Inr ts \<Longrightarrow> checkpointID r (tsReq ts) = checkpointID r req"
proof -
  assume "newTurnState r req emit s = Inr ts"
  then have "rqEvent (tsReq ts) = rqEvent req" by (auto simp: newTurnState_def Let_def split: sum.splits)
  then show ?thesis unfolding checkpointID_def by (simp only:)
qed

text \<open>
  A turn that resumes: what its snapshot settles, a call already answered or banned, is not
  executed again, however the rest of the turn goes.
\<close>

lemma run_resumed_once:
  assumes c: "counts_calls r (one_signature r sg) cnt"
    and ck: "checkpointID r req = Some (st, k)"
    and ld: "ckLoad st k s = (Inr (Some d), s1)" "rvDecode r d = Some sn"
    and st: "sg \<in> set (snBanned sn) \<or> (\<exists>m. snToolResults sn = Some m \<and> map_of m sg \<noteq> None)"
    and e: "run r req emit s = Some (err, res, s')"
  shows "cnt s' \<le> cnt s"
  using e
proof (cases rule: run_cases)
  case (refused e')
  then show ?thesis by simp
next
  case (ran ts0 b ts1 s2 ts2 start ts3)
  have r: "b" "ts1 = ts_restore sn ts0"
    using ran(2) ck ld by (simp_all add: new_turn_key [OF ran(1)] resumeFromCheckpoint_def)
  have "settled sg ts2" using st ran(4) by (auto simp: r settled_def ts_restore_def)
  moreover have "cnt s2 = cnt s" by (rule entry_counts [OF c ran(2)])
  moreover have "checkpointID r (tsReq ts0) = None \<or> (\<exists>st k. checkpointID r (tsReq ts0) = Some (st, k) \<and> rvCheckpoint r = Some st)"
    by (rule checkpointID_store)
  ultimately show ?thesis using turn_loop_settled [OF c _ ran(5)] by auto
qed

end
