(* ===== verification/Demo.thy ===== *)
theory Demo
  imports TurnRun
begin

text \<open>
  Concrete collaborators for the reasoning loop, small enough to evaluate: a model given as a
  function of the request, one Action, an executor whose world counts the calls it ran, a
  checkpoint store that holds nothing. The witnesses of the properties run on them.
\<close>

definition quiet_limits :: ToolResultLimits where
  "quiet_limits = \<lparr>rlMaxChars = 0, rlStrategy = ToolShapeTruncate, rlKeepHead = 0, rlKeepTail = 0\<rparr>"

definition demo_memory :: memory where
  "demo_memory = emptySession 0 ''c:u'' ''order:1''"

definition demo_call :: tool_call where
  "demo_call = \<lparr>tcID = ''1'', tcName = ''t'', tcArguments = None, tcThoughtSignature = [],
     tcIsCriticalOverride = None\<rparr>"

definition call_response :: "tool_call list \<Rightarrow> OracleResponse" where
  "call_response cs = \<lparr>oaContent = [], oaToolCalls = cs, oaStopReason = ''tool_calls'',
     oaTokensUsed = zero_usage, oaStructured = []\<rparr>"

definition text_response :: "string \<Rightarrow> OracleResponse" where
  "text_response t = \<lparr>oaContent = t, oaToolCalls = [], oaStopReason = ''complete'',
     oaTokensUsed = zero_usage, oaStructured = []\<rparr>"

text \<open>A model that never stops calling the tool, and one that answers after a tool result.\<close>

definition stubborn :: "OracleRequest \<Rightarrow> OracleResponse" where
  "stubborn q = call_response [demo_call]"

definition polite :: "OracleRequest \<Rightarrow> OracleResponse" where
  "polite q = (if list_ex (\<lambda>m. omRole m = RoleTool) (orMessages q) then text_response ''ok''
               else call_response [demo_call])"

definition empty_store :: "nat checkpoint_store" where
  "empty_store = \<lparr>ckSave = (\<lambda>_ _ s. (None, s)), ckLoad = (\<lambda>_ s. (Inr None, s)), ckDelete = (\<lambda>_ s. (None, s))\<rparr>"

definition demo_service ::
  "(OracleRequest \<Rightarrow> OracleResponse) \<Rightarrow> nat checkpoint_store option \<Rightarrow> int \<Rightarrow> (nat, unit) reasoning_service" where
  "demo_service gen st budget = \<lparr>
     rvGetProvider = (\<lambda>_. Inr ()), rvProviderForModel = (\<lambda>_. None),
     rvGenerate = (\<lambda>_ q s. (Inr (gen q), s)), rvStream = (\<lambda>_. None),
     rvMedia = (\<lambda>_. \<lparr>msImages = (\<lambda>_. False), msAudio = (\<lambda>_. False), msDocuments = (\<lambda>_. False)\<rparr>),
     rvStructured = (\<lambda>_ _. False),
     rvExecuteAll = (\<lambda>cs s. (map (\<lambda>c. (named_result (tcName c))\<lparr>arResult := ''r''\<rparr>) cs, s + length cs)),
     rvGetAction = (\<lambda>_. Inl (EPlain [])), rvRebuild = None, rvSummon = None, rvHandoff = None,
     rvSink = None, rvCheckpoint = st, rvMaxIterations = 4, rvMaxIterationsMessage = ''later'',
     rvMaxActionsPerCycle = budget, rvToolResultLimits = quiet_limits,
     rvProgress = \<lparr>prEnabled = False, prStallWindow = 0\<rparr>,
     rvCompression = \<lparr>coEnabled = False, coMaxContextChars = 0, coKeepRecent = 0\<rparr>,
     rvReflection = \<lparr>rfEnabled = False, rfMaxRounds = 0, rfModel = [], rfCriteria = []\<rparr>,
     rvGrounding = \<lparr>grEnabled = False, grMinCitations = 0,
       grOnViolation = GroundingReviseOnce, grBlockedMessage = []\<rparr>,
     rvPlan = \<lparr>plEnabled = False, plMaxItems = 0, plRequired = False\<rparr>,
     rvHandoffPolicy = \<lparr>hoEnabled = False, hoMinConfidence = ConfidenceLow, hoMode = HandoffRaiseVigil,
       hoHoldingMessage = [], hoUncertaintyMarkers = []\<rparr>,
     rvSession = (\<lambda>_. Some demo_memory), rvCtxErr = (\<lambda>_. None), rvEmit = (\<lambda>_ s. s),
     rvSummonOrder = (\<lambda>_ xs. xs), rvHash = (\<lambda>x. x), rvJSON = (\<lambda>_. Some []),
     rvVerdict = (\<lambda>_. None), rvSchema = (\<lambda>_ _. None), rvEncode = (\<lambda>_. None), rvDecode = (\<lambda>_. None),
     rvFloat = (\<lambda>_. [])\<rparr>"

definition demo_request :: ReasoningRequest where
  "demo_request = \<lparr>rqEvent = zero_pulse\<lparr>pUserMessage := ''hi'', pID := ''e1''\<rparr>, rqSpirit = zero_spirit,
     rqSession = CtxSession, rqSystemPrompt = [], rqConversationContext = [], rqResponseFormat = None\<rparr>"

text \<open>The demo service keeps every law the properties ask for.\<close>

lemma demo_sane: "sane_service (demo_service gen st b)"
  by (simp add: sane_service_def demo_service_def sane_limits_def quiet_limits_def)

lemma demo_snapshots: "sane_snapshots (demo_service gen st b)"
  by (simp add: sane_snapshots_def demo_service_def)

lemma demo_counts_one: "counts_calls (demo_service gen (Some empty_store) b) (\<lambda>_. 1) id"
proof -
  have "weight (\<lambda>_. 1) cs = length cs" for cs by (induction cs) simp_all
  then show ?thesis
    by (simp add: counts_calls_def plain_weight_def demo_service_def keeps_def empty_store_def)
qed

lemma demo_counts_sig: "counts_calls ((demo_service gen (Some empty_store) b)
    \<lparr>rvExecuteAll := \<lambda>cs s. (map (\<lambda>c. (named_result (tcName c))\<lparr>arResult := ''r''\<rparr>) cs, s + weight wt cs)\<rparr>) wt id
  \<longleftrightarrow> plain_weight wt"
  by (auto simp: counts_calls_def demo_service_def keeps_def empty_store_def)

text \<open>A durable turn: the store holds a snapshot, whose memo has the answer of the demo call.\<close>

definition demo_turn :: "unit turnState" where
  "demo_turn = (case newTurnState (demo_service polite None 0) demo_request False 0 of Inr ts \<Rightarrow> ts)"

definition demo_signature :: string where
  "demo_signature = signature (demo_service polite None 0) demo_call"

definition demo_snapshot :: turnSnapshot where
  "demo_snapshot = (ts_snapshot demo_turn)\<lparr>snToolResults := Some [(demo_signature, \<lparr>meResult = ''r'', meIsVoiceDelivery = False\<rparr>)]\<rparr>"

definition saved_store :: "nat checkpoint_store" where
  "saved_store = \<lparr>ckSave = (\<lambda>_ _ s. (None, s)), ckLoad = (\<lambda>_ s. (Inr (Some ''snap''), s)), ckDelete = (\<lambda>_ s. (None, s))\<rparr>"

definition slot_store :: "nat checkpoint_store" where
  "slot_store = \<lparr>ckSave = (\<lambda>_ _ s. (None, 1)), ckLoad = (\<lambda>_ s. (Inr (if s = 1 then Some ''snap'' else None), s)),
     ckDelete = (\<lambda>_ s. (None, 0))\<rparr>"

definition demo_durable :: "nat checkpoint_store \<Rightarrow> turnSnapshot \<Rightarrow> (nat, unit) reasoning_service" where
  "demo_durable st sn = (demo_service polite (Some st) 0)
     \<lparr>rvExecuteAll := \<lambda>cs s. (map (\<lambda>c. (named_result (tcName c))\<lparr>arResult := ''r''\<rparr>) cs,
        s + weight (one_signature (demo_service polite None 0) demo_signature) cs),
      rvEncode := (\<lambda>_. Some ''snap''), rvDecode := (\<lambda>d. if d = ''snap'' then Some sn else None)\<rparr>"

lemma demo_durable_signature: "one_signature (demo_durable st sn) = one_signature (demo_service polite None 0)"
  by (simp add: fun_eq_iff one_signature_def signature_def demo_durable_def demo_service_def)

lemma demo_durable_counts:
  "counts_calls (demo_durable saved_store sn) (one_signature (demo_durable saved_store sn) demo_signature) id"
proof -
  have "plain_weight (one_signature (demo_service polite None 0) demo_signature)"
    by (simp add: plain_weight_def one_signature_def signature_def callSignature_def)
  then show ?thesis
    unfolding demo_durable_signature
    by (simp add: counts_calls_def demo_durable_def demo_service_def keeps_def saved_store_def)
qed

lemma demo_durable_key: "checkpointID (demo_durable st sn) demo_request = Some (st, ''e1'')"
  by (simp add: checkpointID_def demo_durable_def demo_service_def demo_request_def zero_pulse_def)

lemma demo_durable_sane: "sane_service (demo_durable st sn)"
  by (simp add: sane_service_def demo_durable_def demo_service_def sane_limits_def quiet_limits_def)

lemma demo_durable_snapshots: "sane_snapshots (demo_durable st demo_snapshot)"
proof -
  have "snConversationOffset demo_snapshot \<le> length (snWorkingContext demo_snapshot)
      \<and> snIterBoundaries demo_snapshot = []"
    by code_simp
  then show ?thesis by (simp add: sane_snapshots_def demo_durable_def)
qed

text \<open>A batch of calls about to be processed, and a handoff call.\<close>

definition demo_log :: IterationLog where
  "demo_log = \<lparr>ilIteration = 1, ilOracleResponse = [], ilActionCalls = [], ilBannedActions = [],
     ilReflectionIssues = [], ilErrors = [], ilTokens = zero_usage\<rparr>"

definition demo_batch :: "nat batch" where
  "demo_batch = \<lparr>btContext = [], btResult = fresh_result [] CtxSession, btLog = demo_log, btMemo = None, btBanned = [],
     btInfra = False, btWorld = 0\<rparr>"

definition demo_handoff :: tool_call where
  "demo_handoff = demo_call\<lparr>tcArguments := Some [(''target_spirit'', VStr ''s2'')]\<rparr>"

text \<open>An executor with one Action that counts its runs and fails.\<close>

definition demo_action :: "gerr \<Rightarrow> nat action" where
  "demo_action e = \<lparr>acName = ''t'', acDescription = [], acParameters = [], acCategory = ActionGeneral,
     acIsCritical = False, acResultLimit = None, acValidate = (\<lambda>_. None),
     acExecute = (\<lambda>_ s. (Inl e, Suc s))\<rparr>"

definition demo_executor :: "nat executor" where
  "demo_executor = \<lparr>exRegistry = [(''t'', demo_action (NewInfrastructureError ''down'' []))], exParallel = False,
     exRetry = \<lparr>rcMaxAttempts = 3, rcBaseDelay = 1\<rparr>, exWait = (\<lambda>_ s. (None, s))\<rparr>"

end
