(* ===== verification/DemoEngine.thy ===== *)
theory DemoEngine
  imports Outcomes Demo
begin

text \<open>
  An engine small enough to evaluate: the in-process Bond, one Voice that records what it sends,
  an audit log that records what it is given, a reasoner with a fixed answer. The witnesses of
  the properties of a cycle run on it.
\<close>

record demo_world =
  dwBond :: noOpBond
  dwSent :: "string list"
  dwLogs :: "Chronicle list"
  dwLive :: "memory option"

definition demo_start :: demo_world where
  "demo_start = \<lparr>dwBond = newNoOpBond, dwSent = [], dwLogs = [], dwLive = None\<rparr>"

definition demo_bond :: "demo_world bond_client" where
  "demo_bond = \<lparr>
     boAcquire = (\<lambda>k w. case bond_AcquireLock k (dwBond w) of (r, b) \<Rightarrow> (r, w\<lparr>dwBond := b\<rparr>)),
     boRelease = (\<lambda>k w. (None, w\<lparr>dwBond := bond_ReleaseLock k (dwBond w)\<rparr>))\<rparr>"

definition demo_voice :: "demo_world voice" where
  "demo_voice = \<lparr>voAuto = True, voSend = (\<lambda>e t w. (None, w\<lparr>dwSent := dwSent w @ [t]\<rparr>))\<rparr>"

definition demo_answer :: ReasoningResult where
  "demo_answer = empty_result\<lparr>rrFinalResponse := ''hello'', rrIterationsUsed := 1\<rparr>"

definition demo_repo :: "demo_world memory_repo" where
  "demo_repo = \<lparr>mrGetMemory = (\<lambda>k w. (Inl (ENotFound ''memory'' k), w)), mrSaveMemory = (\<lambda>k m w. (None, w))\<rparr>"

definition demo_memory_mgr :: "demo_world memory_mgr" where
  "demo_memory_mgr = NewMemoryManager demo_repo None 10"

definition demo_said :: "string \<Rightarrow> thread" where
  "demo_said t = \<lparr>thRole = ''user'', thContent = t, thTimestamp = 0, thIsUserFacing = True, thToolCallID = [],
     thImageURLs = [], thAudioURLs = [], thMetadata = None\<rparr>"

definition demo_weave :: "spirit \<Rightarrow> output_guard option \<Rightarrow> bool option \<Rightarrow> (demo_world, unit, unit) weave" where
  "demo_weave sp og dup = \<lparr>
     wvDeadline = (\<lambda>_ _. False), wvNow = (\<lambda>_. 0), wvWait = (\<lambda>_ w. w), wvValidate = (\<lambda>_. None),
     wvSeen = map_option (\<lambda>b _ _ w. (Inr b, w)) dup, wvIdempotencyTTL = 0, wvAllow = None,
     wvBond = demo_bond, wvInbox = None, wvVigil = None, wvTyping = None, wvRituals = None,
     wvScouts = None, wvPathfinders = None, wvPins = None, wvFindSpirit = (\<lambda>_ w. (Inr sp, w)),
     wvHTTPTools = None, wvLoreHarvest = None, wvImprintHarvest = None, wvRouters = None,
     wvVault = None, wvLens = None, wvMemory = demo_memory_mgr,
     wvEchoes = \<lparr>erAppend = (\<lambda>_ w. (None, w)), erFindRecent = (\<lambda>_ _ w. (Inr [], w)),
                 erFindRecentSubject = (\<lambda>_ _ _ w. (Inr [], w))\<rparr>,
     wvArchivist = None, wvInboxMinWindow = 0, wvLedger = None, wvAlertHook = None, wvRoutingRules = [],
     wvReasoner = \<lparr>rxRun = (\<lambda>_ _ w. Some (None, Some demo_answer, w)), rxPut = (\<lambda>m w. w\<lparr>dwLive := Some m\<rparr>),
                   rxGet = dwLive, rxLost = (\<lambda>_. False), rxIndent = (\<lambda>_. [])\<rparr>,
     wvNotifier = \<lparr>ntVoices = [(''wa'', demo_voice)], ntProvider = (\<lambda>_. Inl (EPlain [])),
                   ntGenerate = (\<lambda>_ _ w. (Inl (EPlain []), w)), ntFloat = (\<lambda>_. []), ntOrder = (\<lambda>x. x),
                   ntIndent = (\<lambda>_. [])\<rparr>,
     wvOutputGuard = og, wvLog = (\<lambda>x w. (None, w\<lparr>dwLogs := dwLogs w @ [x]\<rparr>)), wvImprints = None\<rparr>"

definition demo_pulse :: pulse where
  "demo_pulse = zero_pulse\<lparr>pID := ''e1'', pMemoryKey := ''c:u'', pUserMessage := ''hi'', pIdempotencyKey := ''k1''\<rparr>"

definition demo_link :: link where
  "demo_link = (NewLink ''msg'')\<lparr>lVoiceName := ''wa'', lAllowedSpirits := [''s'']\<rparr>"

definition chatty :: spirit where
  "chatty = zero_spirit\<lparr>sName := ''s'', sType := SpiritTypeConversational\<rparr>"

definition reminder :: spirit where
  "reminder = zero_spirit\<lparr>sName := ''s'', sType := SpiritTypeNotifier,
     sNotifierConfig := \<lparr>nfMode = ''template'', nfTemplate = ''due'', nfConditions = []\<rparr>\<rparr>"

definition worker :: spirit where
  "worker = zero_spirit\<lparr>sName := ''s'', sType := SpiritTypeExecutor\<rparr>"

definition demo_state :: "bool \<Rightarrow> ProcessingState" where
  "demo_state streaming = new_state ''msg'' demo_link streaming demo_pulse"

section \<open>The laws it keeps\<close>

lemma demo_quiet: "quiet v (demo_weave sp og dup)"
  by (auto simp: quiet_def quiet_gates_def quiet_routing_def quiet_session_def quiet_memory_def leaves_def
      demo_weave_def demo_memory_mgr_def demo_repo_def NewMemoryManager_def)

lemma demo_quiet_reasoner: "(\<And>w m. v (w\<lparr>dwLive := m\<rparr>) = v w) \<Longrightarrow> quiet_reasoner v (demo_weave sp og dup)"
  by (simp add: quiet_reasoner_def demo_weave_def)

lemma demo_quiet_bond: "(\<And>w b. v (w\<lparr>dwBond := b\<rparr>) = v w) \<Longrightarrow> quiet_bond v (demo_weave sp og dup)"
  by (auto simp: quiet_bond_def leaves_def demo_weave_def demo_bond_def split: prod.split)

lemma demo_voices: "voice_Get n (ntVoices (wvNotifier (demo_weave sp og dup))) = Inr vc \<Longrightarrow> vc = demo_voice"
  by (auto simp: demo_weave_def voice_Get_def reg_find_map_of split: if_splits)

lemma demo_quiet_voices: "(\<And>w b. v (w\<lparr>dwSent := b\<rparr>) = v w) \<Longrightarrow> quiet_voices v (demo_weave sp og dup)"
  by (auto simp: quiet_voices_def leaves_def demo_voice_def dest!: demo_voices)

lemma demo_quiet_log: "(\<And>w b. v (w\<lparr>dwLogs := b\<rparr>) = v w) \<Longrightarrow> quiet_log v (demo_weave sp og dup)"
  by (simp add: quiet_log_def leaves_def demo_weave_def)

lemma demo_records_sends: "records_sends dwSent (demo_weave sp og dup)"
  by (auto simp: records_sends_def demo_voice_def dest!: demo_voices)

lemma demo_records_log: "records_log dwLogs (demo_weave sp og dup)"
  by (simp add: records_log_def demo_weave_def)

lemma demo_engine_bond:
  "engine_bond (demo_weave sp og dup) (\<lambda>w. bond_held (dwBond w)) (\<lambda>w. bond_inv (dwBond w))"
  unfolding engine_bond_def demo_weave_def demo_bond_def
proof (unfold_locales, goal_cases)
  case (4 s k)
  then show ?case by (cases "bond_AcquireLock k (dwBond s)") (use nb.inv_acquire [of "dwBond s" k] in auto)
qed (auto simp: nb.acquire_true nb.acquire_false nb.acquire_error nb.held_release nb.inv_release split: prod.splits)

text \<open>How the pipeline of an engine ends: well, with an error, or in a panic.\<close>

definition ends_well :: "'a outcome \<Rightarrow> bool" where
  "ends_well x = (case x of Ret None _ \<Rightarrow> True | _ \<Rightarrow> False)"

definition ends_badly :: "'a outcome \<Rightarrow> bool" where
  "ends_badly x = (case x of Ret (Some _) _ \<Rightarrow> True | _ \<Rightarrow> False)"

lemma ends_wellD: "ends_well x \<Longrightarrow> \<exists>c. x = Ret None c"
  by (auto simp: ends_well_def split: outcome.splits option.splits)

lemma ends_badlyD: "ends_badly x \<Longrightarrow> \<exists>e c. x = Ret (Some e) c"
  by (auto simp: ends_badly_def split: outcome.splits option.splits)

lemma demo_chatty: "\<exists>c. execute_pipeline (demo_weave chatty None (Some False)) (demo_state False) demo_start = Ret None c"
  by (rule ends_wellD) code_simp

lemma demo_reminder: "\<exists>c. execute_pipeline (demo_weave reminder None None) (demo_state False) demo_start = Ret None c"
  by (rule ends_wellD) code_simp

lemma demo_duplicate:
  "\<exists>e c. execute_pipeline (demo_weave chatty None (Some True)) (demo_state False) demo_start = Ret (Some e) c"
  by (rule ends_badlyD) code_simp

section \<open>Delegation\<close>

text \<open>A delegation whose world is the pin table alone, and whose targets are all the peer.\<close>

definition demo_delegation :: "(pin_table \<times> unit) delegation" where
  "demo_delegation = \<lparr>dgFind = (\<lambda>_ w. (Inr peer, w)), dgScouts = None,
     dgExec = (\<lambda>_ w. Some ((Some (EPlain ''model down''), None), w)),
     dgPin = (\<lambda>k t w. case SetActiveSpirit k t (fst w) of (e, p) \<Rightarrow> (e, (p, snd w))),
     dgArchivist = None, dgSession = (\<lambda>_. None), dgIndent = (\<lambda>_. [])\<rparr>"

lemma demo_beside_pins: "runs_beside_pins demo_delegation"
  by (simp add: runs_beside_pins_def demo_delegation_def)

lemma peer_chain: "(summons (capped 1) ^^ 1) (zero_pulse, peer) (summon_child [] zero_pulse, peer)"
proof -
  have "peer \<in> capped 1" by (simp add: capped_def)
  moreover have "validateSummon (sName peer) zero_pulse peer = None"
    by (simp add: validateSummon_ok) (simp add: peer_def zero_pulse_def)
  ultimately show ?thesis by (auto intro!: summons.summon [of _ _ _ _ _ "[]"])
qed

end
