(* ===== verification/Chunking.thy ===== *)
theory Chunking
  imports Runes
begin

text \<open>
  The text splitter of \<open>internal/helpers/chunking/chunking.go\<close>. A text is the list of its
  runes, each the byte string of its encoding (theory \<open>Runes\<close>), so a length is what
  \<open>utf8.RuneCountInString\<close> counts; the texts are valid UTF-8. The laws: every piece fits the
  sz, a chunk exceeds it by the overlap at most, and without overlap nothing but white space
  and full stops before a space is lost.
\<close>

section \<open>White space and separators\<close>

type_synonym rtext = "string list"

text \<open>\<open>unicode.IsSpace\<close>, by the encodings of its runes.\<close>

definition space_rune :: "string \<Rightarrow> bool" where
  "space_rune r \<longleftrightarrow>
     (case map byte r of
        [a] \<Rightarrow> (9 \<le> a \<and> a \<le> 13) \<or> a = 32
      | [a, b] \<Rightarrow> a = 194 \<and> (b = 133 \<or> b = 160)
      | [a, b, c] \<Rightarrow>
          (a = 225 \<and> b = 154 \<and> c = 128)
          \<or> (a = 226 \<and> b = 128 \<and> (128 \<le> c \<and> c \<le> 138 \<or> c = 168 \<or> c = 169 \<or> c = 175))
          \<or> (a = 226 \<and> b = 129 \<and> c = 159) \<or> (a = 227 \<and> b = 128 \<and> c = 128)
      | _ \<Rightarrow> False)"

definition trim_runes :: "rtext \<Rightarrow> rtext" where
  "trim_runes t = rev (dropWhile space_rune (rev (dropWhile space_rune t)))"

definition rn :: "string \<Rightarrow> rtext" where
  "rn s = map (\<lambda>c. [c]) s"

definition separators :: "rtext list" where
  "separators = [rn [CHR 10, CHR 10], rn [CHR 10], rn ''. '', rn '' '', []]"

text \<open>\<open>strings.Split\<close> with a separator that is not empty; \<open>acc\<close> is the part so far, reversed.\<close>

function split_parts :: "rtext \<Rightarrow> rtext \<Rightarrow> rtext \<Rightarrow> rtext list" where
  "split_parts sep acc s =
     (case s of
        [] \<Rightarrow> [rev acc]
      | x # xs \<Rightarrow>
          if sep \<noteq> [] \<and> take (length sep) s = sep
          then rev acc # split_parts sep [] (drop (length sep) s)
          else split_parts sep (x # acc) xs)"
  by auto
termination
  by (relation "measure (\<lambda>(_, _, s). length s)") auto

declare split_parts.simps [simp del]

section \<open>Splitting and merging\<close>

text \<open>The loop of \<open>hardSplit\<close> on the runes from the current position on.\<close>

function windows :: "nat \<Rightarrow> nat \<Rightarrow> rtext \<Rightarrow> rtext list" where
  "windows sz step xs =
     (if xs = [] \<or> step = 0 then []
      else (if trim_runes (take sz xs) = [] then [] else [trim_runes (take sz xs)])
           @ (if length xs \<le> sz then [] else windows sz step (drop step xs)))"
  by auto
termination
  by (relation "measure (\<lambda>(_, _, xs). length xs)") auto

declare windows.simps [simp del]

definition hardSplit :: "rtext \<Rightarrow> nat \<Rightarrow> nat \<Rightarrow> rtext list" where
  "hardSplit doc sz overlap = windows sz (if sz \<le> overlap then sz else sz - overlap) doc"

fun splitToAtoms :: "nat \<Rightarrow> nat \<Rightarrow> rtext list \<Rightarrow> rtext \<Rightarrow> rtext list" where
  "splitToAtoms sz overlap [] doc = hardSplit doc sz overlap"
| "splitToAtoms sz overlap (sep # seps) doc =
     (if sep = [] then hardSplit doc sz overlap
      else concat (map (\<lambda>part.
             if trim_runes part = [] then []
             else if length part \<le> sz then [trim_runes part]
             else splitToAtoms sz overlap seps part) (split_parts sep [] doc)))"

definition join_runes :: "rtext list \<Rightarrow> rtext" where
  "join_runes ps = (case ps of [] \<Rightarrow> [] | p # qs \<Rightarrow> p @ concat (map (\<lambda>q. rn '' '' @ q) qs))"

fun drop_old :: "nat \<Rightarrow> rtext list \<Rightarrow> nat \<Rightarrow> rtext list \<times> nat" where
  "drop_old overlap [] n = ([], n)"
| "drop_old overlap (c # cur) n = (if overlap < n then drop_old overlap cur (n - length c) else (c # cur, n))"

text \<open>\<open>cur\<close> and \<open>n\<close> are the chunk under construction and \<open>curLen\<close>.\<close>

fun merge_loop :: "nat \<Rightarrow> nat \<Rightarrow> rtext list \<Rightarrow> rtext list \<Rightarrow> nat \<Rightarrow> rtext list" where
  "merge_loop sz overlap [] cur n = (if cur = [] then [] else [join_runes cur])"
| "merge_loop sz overlap (a # as) cur n =
     (if sz < n + length a + length cur \<and> cur \<noteq> []
      then (let (cur1, n1) = drop_old overlap cur n
            in join_runes cur # merge_loop sz overlap as (cur1 @ [a]) (n1 + length a))
      else merge_loop sz overlap as (cur @ [a]) (n + length a))"

definition mergeAtoms :: "rtext list \<Rightarrow> nat \<Rightarrow> nat \<Rightarrow> rtext list" where
  "mergeAtoms atoms sz overlap = merge_loop sz overlap atoms [] 0"

definition clamp_overlap :: "int \<Rightarrow> int \<Rightarrow> nat" where
  "clamp_overlap sz overlap =
     (let o1 = (if overlap < 0 then 0 else overlap) in nat (if sz \<le> o1 then sz div 2 else o1))"

definition chunk_runes :: "rtext \<Rightarrow> int \<Rightarrow> int \<Rightarrow> rtext list" where
  "chunk_runes doc sz overlap =
     (let t = trim_runes doc in
      if t = [] then []
      else if sz \<le> 0 \<or> int (length t) \<le> sz then [t]
      else mergeAtoms (splitToAtoms (nat sz) (clamp_overlap sz overlap) separators t)
             (nat sz) (clamp_overlap sz overlap))"

definition Recursive :: "string \<Rightarrow> int \<Rightarrow> int \<Rightarrow> string list" where
  "Recursive doc sz overlap = map concat (chunk_runes (runes doc) sz overlap)"

section \<open>Sizes\<close>

lemma length_trim: "length (trim_runes t) \<le> length t"
  by (metis (no_types) length_dropWhile_le length_rev order_trans trim_runes_def)

lemma windows_size: "p \<in> set (windows sz step xs) \<Longrightarrow> p \<noteq> [] \<and> length p \<le> sz"
proof (induction sz step xs rule: windows.induct)
  case (1 sz step xs)
  have "length (trim_runes (take sz xs)) \<le> sz"
    using length_trim [of "take sz xs"] by simp
  with 1 show ?case
    by (subst (asm) (2) windows.simps) (auto split: if_splits)
qed

lemma atoms_size: "a \<in> set (splitToAtoms sz overlap seps doc) \<Longrightarrow> a \<noteq> [] \<and> length a \<le> sz"
proof (induction sz overlap seps doc rule: splitToAtoms.induct)
  case (2 sz overlap sep seps doc)
  then show ?case
    using length_trim by (fastforce simp: hardSplit_def dest: windows_size split: if_splits intro: order_trans)
qed (simp add: hardSplit_def windows_size)

lemma length_join: "cur \<noteq> [] \<Longrightarrow> length (join_runes cur) + 1 = sum_list (map length cur) + length cur"
proof -
  have "length (concat (map (\<lambda>q. rn '' '' @ q) qs)) = sum_list (map length qs) + length qs" for qs :: "rtext list"
    by (induction qs) (simp_all add: rn_def)
  then show "cur \<noteq> [] \<Longrightarrow> ?thesis" by (cases cur) (simp_all add: join_runes_def)
qed

lemma drop_old_spec:
  assumes "\<forall>c\<in>set cur. c \<noteq> []" "n = sum_list (map length cur)" "drop_old overlap cur n = (cur1, n1)"
  shows "n1 = sum_list (map length cur1) \<and> n1 \<le> overlap \<and> length cur1 \<le> n1 \<and> (\<forall>c\<in>set cur1. c \<noteq> [])
     \<and> (\<exists>old. cur = old @ cur1)"
  using assms
proof (induction overlap cur n rule: drop_old.induct)
  case (2 overlap c cur n)
  have len: "length xs \<le> sum_list (map length xs)" if "\<forall>c\<in>set xs. c \<noteq> []" for xs :: "rtext list"
    using that by (induction xs) (auto simp: Suc_le_eq add_strict_increasing)
  show ?case
  proof (cases "overlap < n")
    case True
    with 2 have res: "n1 = sum_list (map length cur1) \<and> n1 \<le> overlap \<and> length cur1 \<le> n1 \<and> (\<forall>c\<in>set cur1. c \<noteq> [])
       \<and> (\<exists>old. cur = old @ cur1)" by simp
    then obtain old where "cur = old @ cur1" by blast
    then have "c # cur = (c # old) @ cur1" by simp
    with res show ?thesis by blast
  next
    case False
    with 2 len [of "c # cur"] show ?thesis by auto
  qed
qed simp

text \<open>The chunk under construction stays within the size plus twice the overlap.\<close>

lemma merge_bound:
  assumes "\<forall>a\<in>set as. a \<noteq> [] \<and> length a \<le> sz" "\<forall>c\<in>set cur. c \<noteq> []" "n = sum_list (map length cur)"
    and "cur \<noteq> [] \<Longrightarrow> n + length cur \<le> sz + 2 * overlap + 1"
  shows "\<forall>p\<in>set (merge_loop sz overlap as cur n). p \<noteq> [] \<and> length p \<le> sz + 2 * overlap"
  using assms
proof (induction sz overlap as cur n rule: merge_loop.induct)
  case (1 sz overlap cur n)
  then show ?case using length_join [of cur] by (cases cur) (auto simp: join_runes_def)
next
  case (2 sz overlap a as cur n)
  show ?case
  proof (cases "sz < n + length a + length cur \<and> cur \<noteq> []")
    case True
    obtain cur1 n1 where d: "drop_old overlap cur n = (cur1, n1)" by (cases "drop_old overlap cur n")
    note spec = drop_old_spec [OF 2(4,5) d]
    have "\<forall>p\<in>set (merge_loop sz overlap as (cur1 @ [a]) (n1 + length a)). p \<noteq> [] \<and> length p \<le> sz + 2 * overlap"
      by (rule 2(1) [OF True d [symmetric] refl]) (use 2(3) spec in auto)
    moreover have "join_runes cur \<noteq> [] \<and> length (join_runes cur) \<le> sz + 2 * overlap"
      using length_join [of cur] 2(4,5,6) True by (cases cur) (auto simp: join_runes_def)
    ultimately show ?thesis using True d by simp
  next
    case False
    have "\<forall>p\<in>set (merge_loop sz overlap as (cur @ [a]) (n + length a)). p \<noteq> [] \<and> length p \<le> sz + 2 * overlap"
      by (rule 2(2) [OF False]) (use 2(3,4,5) False in auto)
    then show ?thesis by (simp only: merge_loop.simps if_not_P [OF False])
  qed
qed

lemma chunk_bound:
  assumes "0 < sz" "p \<in> set (chunk_runes doc sz overlap)"
  shows "p \<noteq> [] \<and> int (length p) \<le> sz + 2 * int (clamp_overlap sz overlap)"
proof -
  let ?o = "clamp_overlap sz overlap"
  consider "p = trim_runes doc" "trim_runes doc \<noteq> []" "int (length (trim_runes doc)) \<le> sz"
    | "p \<in> set (mergeAtoms (splitToAtoms (nat sz) ?o separators (trim_runes doc)) (nat sz) ?o)"
    using assms by (auto simp: chunk_runes_def Let_def split: if_splits)
  then show ?thesis
  proof cases
    case 2
    then have "p \<noteq> [] \<and> length p \<le> nat sz + 2 * ?o"
      using merge_bound [of "splitToAtoms (nat sz) ?o separators (trim_runes doc)" "nat sz" "[]" 0 ?o]
        atoms_size [of _ "nat sz" ?o separators "trim_runes doc"]
      unfolding mergeAtoms_def by auto
    with assms(1) show ?thesis by linarith
  qed auto
qed

section \<open>What is kept\<close>

text \<open>Runes that are neither white space nor a full stop.\<close>

definition kept :: "string \<Rightarrow> bool" where
  "kept r \<longleftrightarrow> \<not> space_rune r \<and> r \<noteq> ''.''"

lemma filter_dropWhile_space: "filter kept (dropWhile space_rune t) = filter kept t"
  by (induction t) (simp_all add: kept_def)

lemma trim_keeps: "filter kept (trim_runes t) = filter kept t"
  by (metis (no_types) filter_dropWhile_space rev_filter rev_rev_ident trim_runes_def)

lemma split_keeps:
  "filter kept sep = [] \<Longrightarrow> filter kept (concat (split_parts sep acc s)) = filter kept (rev acc @ s)"
proof (induction sep acc s rule: split_parts.induct)
  case (1 sep acc s)
  show ?case
  proof (cases s)
    case (Cons x xs)
    show ?thesis
    proof (cases "sep \<noteq> [] \<and> take (length sep) s = sep")
      case True
      have "filter kept s = filter kept (take (length sep) s) @ filter kept (drop (length sep) s)"
        by (metis append_take_drop_id filter_append)
      with True 1 Cons show ?thesis by (subst split_parts.simps) simp
    next
      case False
      with 1 Cons show ?thesis by (subst split_parts.simps) (auto simp: Cons)
    qed
  qed (subst split_parts.simps, simp)
qed

lemma windows_keep:
  "0 < sz \<Longrightarrow> filter kept (concat (windows sz sz xs)) = filter kept xs"
proof (induction xs rule: length_induct)
  case (1 xs)
  have t: "filter kept (concat (if trim_runes (take sz xs) = [] then [] else [trim_runes (take sz xs)]))
      = filter kept (take sz xs)"
    using trim_keeps [of "take sz xs"] by auto
  show ?case
  proof (cases "xs = []")
    case False
    have "filter kept xs = filter kept (take sz xs) @ filter kept (drop sz xs)"
      by (metis append_take_drop_id filter_append)
    moreover have "filter kept (concat (windows sz sz (drop sz xs))) = filter kept (drop sz xs)"
      using 1 False by simp
    ultimately show ?thesis
      using False t \<open>0 < sz\<close> by (subst windows.simps) (simp split: if_splits)
  qed (subst windows.simps, simp)
qed

lemma hardSplit_keeps: "0 < sz \<Longrightarrow> filter kept (concat (hardSplit doc sz 0)) = filter kept doc"
  by (simp add: hardSplit_def windows_keep)

lemma concat_map_keeps:
  "(\<And>p. p \<in> set ps \<Longrightarrow> filter kept (concat (f p)) = filter kept p) \<Longrightarrow>
   filter kept (concat (concat (map f ps))) = filter kept (concat ps)"
  by (induction ps) simp_all

lemma atoms_keep:
  assumes "0 < sz" "\<forall>sep\<in>set seps. filter kept sep = []"
  shows "filter kept (concat (splitToAtoms sz 0 seps doc)) = filter kept doc"
  using assms(2)
proof (induction seps arbitrary: doc)
  case Nil
  show ?case by (simp only: splitToAtoms.simps hardSplit_keeps [OF assms(1)])
next
  case (Cons sep seps)
  show ?case
  proof (cases "sep = []")
    case True
    then show ?thesis by (simp add: hardSplit_keeps [OF assms(1)])
  next
    case False
    have part: "filter kept (concat (if trim_runes p = [] then [] else if length p \<le> sz then [trim_runes p]
        else splitToAtoms sz 0 seps p)) = filter kept p" for p
      using Cons trim_keeps [of p] by auto
    have "filter kept (concat (splitToAtoms sz 0 (sep # seps) doc)) = filter kept (concat (split_parts sep [] doc))"
      using concat_map_keeps [OF part, of "split_parts sep [] doc"] False by simp
    with Cons split_keeps [of sep "[]" doc] show ?thesis by simp
  qed
qed

lemma join_keeps: "filter kept (join_runes cur) = filter kept (concat cur)"
proof -
  have sp: "space_rune '' ''" by (simp add: space_rune_def byte_def)
  have "filter kept (concat (map (\<lambda>q. rn '' '' @ q) qs)) = filter kept (concat qs)" for qs :: "rtext list"
    by (induction qs) (simp_all add: rn_def kept_def sp)
  then show ?thesis by (cases cur) (simp_all add: join_runes_def)
qed

lemma merge_keeps:
  "\<forall>a\<in>set as. a \<noteq> [] \<Longrightarrow> \<forall>c\<in>set cur. c \<noteq> [] \<Longrightarrow> n = sum_list (map length cur) \<Longrightarrow>
   filter kept (concat (merge_loop sz 0 as cur n)) = filter kept (concat cur @ concat as)"
proof (induction sz "0::nat" as cur n rule: merge_loop.induct)
  case (1 sz cur n)
  then show ?case by (simp add: join_keeps)
next
  case (2 sz a as cur n)
  show ?case
  proof (cases "sz < n + length a + length cur \<and> cur \<noteq> []")
    case True
    obtain cur1 n1 where d: "drop_old 0 cur n = (cur1, n1)" by (cases "drop_old 0 cur n")
    from drop_old_spec [OF 2(4,5) d] have e: "cur1 = []" "n1 = 0" by auto
    have "filter kept (concat (merge_loop sz 0 as (cur1 @ [a]) (n1 + length a)))
        = filter kept (concat (cur1 @ [a]) @ concat as)"
      by (rule 2(1) [OF True d [symmetric] refl]) (use 2(3) e in auto)
    with True d e show ?thesis by (simp add: join_keeps)
  next
    case False
    have "filter kept (concat (merge_loop sz 0 as (cur @ [a]) (n + length a)))
        = filter kept (concat (cur @ [a]) @ concat as)"
      by (rule 2(2) [OF False]) (use 2(3,4,5) in auto)
    then show ?thesis by (simp only: merge_loop.simps if_not_P [OF False]) simp
  qed
qed

lemma separators_unkept: "\<forall>sep\<in>set separators. filter kept sep = []"
  by (simp add: separators_def rn_def kept_def space_rune_def byte_def)

lemma clamp_zero: "0 < sz \<Longrightarrow> overlap \<le> 0 \<Longrightarrow> clamp_overlap sz overlap = 0"
  by (simp add: clamp_overlap_def Let_def)

lemma chunks_keep:
  assumes "overlap \<le> 0"
  shows "filter kept (concat (chunk_runes doc sz overlap)) = filter kept doc"
proof (cases "trim_runes doc = [] \<or> sz \<le> 0 \<or> int (length (trim_runes doc)) \<le> sz")
  case True
  with trim_keeps [of doc] show ?thesis by (auto simp: chunk_runes_def Let_def)
next
  case False
  then have pos: "0 < nat sz" by simp
  let ?as = "splitToAtoms (nat sz) 0 separators (trim_runes doc)"
  have "chunk_runes doc sz overlap = merge_loop (nat sz) 0 ?as [] 0"
    using False clamp_zero [of sz overlap] assms by (simp add: chunk_runes_def Let_def mergeAtoms_def)
  moreover have "filter kept (concat (merge_loop (nat sz) 0 ?as [] 0)) = filter kept (concat [] @ concat ?as)"
    by (rule merge_keeps) (use atoms_size in auto)
  ultimately show ?thesis
    using atoms_keep [OF pos separators_unkept, of "trim_runes doc"] trim_keeps [of doc] by simp
qed

end
