(* ===== verification/Lore.thy ===== *)
theory Lore
  imports Chunking Gates "HOL-Library.Multiset"
begin

text \<open>
  Knowledge bases: ingestion and search of \<open>engine.go\<close>, the Scout of
  \<open>scouts/lore_scout.go\<close> and the Action of \<open>actions/lore_search.go\<close>. Repository, vector
  store and embedder are functions over the world; vectors are left to the type \<open>'v\<close>. The laws:
  chunk identifiers, grouping by document, and the identifiers the grounding gate reads back
  from the formatted chunks.
\<close>

section \<open>Data\<close>

record Lore =
  loID :: string
  loName :: string
  loChunkSize :: int
  loOverlap :: int

record 'v LoreChunk =
  lcID :: string
  lcLoreID :: string
  lcContent :: string
  lcEmbedding :: "'v option"
  lcMetadata :: "gmap option"
  lcScore :: rat

record LoreIngestion =
  liLoreID :: string
  liText :: string
  liFilePath :: string
  liMetadata :: "gmap option"
  liDocumentID :: string
  liNoChunk :: bool

definition LoreDocumentIDKey :: string where
  "LoreDocumentIDKey = ''_document_id''"

record ('w, 'v) lore_ports =
  lpGetByID :: "(string \<Rightarrow> 'w \<Rightarrow> (gerr + Lore) \<times> 'w) option"
  lpUpsert :: "('v LoreChunk list \<Rightarrow> 'w \<Rightarrow> gerr option \<times> 'w) option"
  lpEmbed :: "(string list \<Rightarrow> 'w \<Rightarrow> (gerr + 'v list) \<times> 'w) option"
  lpSearch :: "string \<Rightarrow> 'v \<Rightarrow> int \<Rightarrow> rat \<Rightarrow> 'w \<Rightarrow> (gerr + 'v LoreChunk list) \<times> 'w"
  lpDelete :: "string \<Rightarrow> 'w \<Rightarrow> gerr option \<times> 'w"
  lpReadFile :: "string \<Rightarrow> 'w \<Rightarrow> (gerr + string) \<times> 'w"

section \<open>Ingestion\<close>

definition chunkID :: "LoreIngestion \<Rightarrow> nat \<Rightarrow> nat \<Rightarrow> string" where
  "chunkID ing i n =
     (if liDocumentID ing \<noteq> []
      then (if n = 1 then liDocumentID ing else liDocumentID ing @ ''_'' @ nat_dec i)
      else liLoreID ing @ ''_'' @ nat_dec i)"

definition chunkMetadata :: "LoreIngestion \<Rightarrow> gmap option" where
  "chunkMetadata ing =
     (if liDocumentID ing = [] then liMetadata ing
      else gm_put LoreDocumentIDKey (VStr (liDocumentID ing)) (Some (gm_entries (liMetadata ing))))"

definition make_chunks :: "LoreIngestion \<Rightarrow> string list \<Rightarrow> 'v list \<Rightarrow> 'v LoreChunk list" where
  "make_chunks ing pieces embs =
     map (\<lambda>i. \<lparr>lcID = chunkID ing i (length pieces), lcLoreID = liLoreID ing, lcContent = pieces ! i,
               lcEmbedding = Some (embs ! i), lcMetadata = chunkMetadata ing, lcScore = 0\<rparr>) [0..<length pieces]"

text \<open>The text to index: given, or read from the file.\<close>

definition ingestion_text :: "('w, 'v) lore_ports \<Rightarrow> LoreIngestion \<Rightarrow> 'w \<Rightarrow> (gerr + string) \<times> 'w" where
  "ingestion_text lp ing w =
     (if liText ing \<noteq> [] \<or> liFilePath ing = [] then (Inr (liText ing), w)
      else case lpReadFile lp (liFilePath ing) w of
        (Inl e, w1) \<Rightarrow> (Inl (EWrap ''read lore file'' e), w1)
      | (Inr t, w1) \<Rightarrow> (Inr t, w1))"

definition raw_chunks :: "Lore \<Rightarrow> LoreIngestion \<Rightarrow> string \<Rightarrow> string list" where
  "raw_chunks lore ing doc =
     (if liNoChunk ing then [doc]
      else Recursive doc (if loChunkSize lore \<le> 0 then 1000 else loChunkSize lore)
             (if loOverlap lore < 0 then 0 else loOverlap lore))"

text \<open>\<open>None\<close> is the panic of indexing an answer of the embedder that is too short.\<close>

definition IngestLore :: "('w, 'v) lore_ports \<Rightarrow> LoreIngestion \<Rightarrow> 'w \<Rightarrow> gerr option option \<times> 'w" where
  "IngestLore lp ing w =
     (case (lpGetByID lp, lpUpsert lp, lpEmbed lp) of
        (Some byID, Some upsert, Some emb) \<Rightarrow>
          (case byID (liLoreID ing) w of
             (Inl e, w1) \<Rightarrow> (Some (Some (EWrap (''lore '' @ quote_q (liLoreID ing) @ '' not found'') e)), w1)
           | (Inr lore, w1) \<Rightarrow>
               (case ingestion_text lp ing w1 of
                  (Inl e, w2) \<Rightarrow> (Some (Some e), w2)
                | (Inr doc, w2) \<Rightarrow>
                    if doc = [] then (Some (Some (EPlain ''lore ingestion requires Text or FilePath'')), w2)
                    else
                      (let pieces = raw_chunks lore ing doc in
                       case emb pieces w2 of
                         (Inl e, w3) \<Rightarrow> (Some (Some (EWrap ''embed lore chunks'' e)), w3)
                       | (Inr embs, w3) \<Rightarrow>
                           if length embs < length pieces then (None, w3)
                           else (case upsert (make_chunks ing pieces embs) w3 of
                                   (Some e, w4) \<Rightarrow> (Some (Some (EWrap ''upsert lore chunks'' e)), w4)
                                 | (None, w4) \<Rightarrow> (Some None, w4)))))
      | _ \<Rightarrow> (Some (Some (EPlain ''lore ingestion not configured: call WithLoreRepository, WithLoreStore, and WithLoreEmbedder'')), w))"

definition DeleteLore :: "('w, 'v) lore_ports \<Rightarrow> string \<Rightarrow> 'w \<Rightarrow> gerr option \<times> 'w" where
  "DeleteLore lp loreID w =
     (if lpUpsert lp = None then (Some (EPlain ''lore store not configured''), w)
      else case lpDelete lp loreID w of (e, w1) \<Rightarrow> (map_option (EWrap ''delete lore'') e, w1))"

section \<open>Search\<close>

record 'f LoreSearchOptions =
  soTopK :: int
  soMinScore :: rat
  soFilter :: "'f option"
  soGroupByDocument :: bool
  soOverfetch :: int

definition defaultOverfetch :: int where
  "defaultOverfetch = 5"

definition documentKey :: "'v LoreChunk \<Rightarrow> string" where
  "documentKey c =
     (case gm_get (lcMetadata c) LoreDocumentIDKey of
        Some (VStr d) \<Rightarrow> if d \<noteq> [] then d else lcID c
      | _ \<Rightarrow> lcID c)"

text \<open>The best chunk of each document, in the order the documents first appear.\<close>

fun best_chunks :: "'v LoreChunk list \<Rightarrow> (string \<times> 'v LoreChunk) list \<Rightarrow> (string \<times> 'v LoreChunk) list" where
  "best_chunks [] best = best"
| "best_chunks (c # cs) best =
     best_chunks cs
       (case map_of best (documentKey c) of
          None \<Rightarrow> best @ [(documentKey c, c)]
        | Some cur \<Rightarrow> if lcScore cur < lcScore c then AList.update (documentKey c) c best else best)"

definition groupByDocument :: "'v LoreChunk list \<Rightarrow> int \<Rightarrow> 'v LoreChunk list" where
  "groupByDocument chunks topK =
     (let result = sort_key (\<lambda>c. - lcScore c) (map snd (best_chunks chunks []))
      in if 0 < topK \<and> topK < int (length result) then take (nat topK) result else result)"

definition runLoreSearch ::
  "('w, 'v) lore_ports \<Rightarrow> (string \<Rightarrow> 'v \<Rightarrow> 'f LoreSearchOptions \<Rightarrow> 'w \<Rightarrow> (gerr + 'v LoreChunk list) \<times> 'w) option
     \<Rightarrow> string \<Rightarrow> 'v \<Rightarrow> 'f LoreSearchOptions \<Rightarrow> 'w \<Rightarrow> (gerr + 'v LoreChunk list) \<times> 'w" where
  "runLoreSearch lp filtered loreID q opts w =
     (case filtered of
        Some f \<Rightarrow>
          (case f loreID q opts w of
             (Inl e, w1) \<Rightarrow> (Inl (EWrap ''filtered lore search'' e), w1) | (Inr cs, w1) \<Rightarrow> (Inr cs, w1))
      | None \<Rightarrow>
          (case lpSearch lp loreID q (soTopK opts) (soMinScore opts) w of
             (Inl e, w1) \<Rightarrow> (Inl (EWrap ''lore search'' e), w1) | (Inr cs, w1) \<Rightarrow> (Inr cs, w1)))"

definition SearchLore ::
  "('w, 'v) lore_ports \<Rightarrow> (string \<Rightarrow> 'v \<Rightarrow> 'f LoreSearchOptions \<Rightarrow> 'w \<Rightarrow> (gerr + 'v LoreChunk list) \<times> 'w) option
     \<Rightarrow> string \<Rightarrow> string \<Rightarrow> 'f LoreSearchOptions \<Rightarrow> 'w \<Rightarrow> (gerr + 'v LoreChunk list) \<times> 'w" where
  "SearchLore lp filtered loreID query opts0 w =
     (case (lpUpsert lp, lpEmbed lp) of
        (Some _, Some emb) \<Rightarrow>
          (case emb [query] w of
             (Inl e, w1) \<Rightarrow> (Inl (EWrap ''embed query'' e), w1)
           | (Inr [], w1) \<Rightarrow> (Inl (EPlain ''embedder returned no vector for query''), w1)
           | (Inr (q # _), w1) \<Rightarrow>
               (let opts = (if soTopK opts0 \<le> 0 then opts0\<lparr>soTopK := 5\<rparr> else opts0);
                    over = (if soOverfetch opts \<le> 0 then defaultOverfetch else soOverfetch opts);
                    sopts = (if soGroupByDocument opts then opts\<lparr>soTopK := wrap64 (soTopK opts * over)\<rparr> else opts)
                in case runLoreSearch lp filtered loreID q sopts w1 of
                     (Inl e, w2) \<Rightarrow> (Inl e, w2)
                   | (Inr cs, w2) \<Rightarrow>
                       (Inr (if soGroupByDocument opts then groupByDocument cs (soTopK opts) else cs), w2)))
      | _ \<Rightarrow> (Inl (EPlain ''lore search not configured: call WithLoreStore and WithLoreEmbedder''), w))"

section \<open>The Scout and the Action\<close>

definition format_chunk :: "Lore list \<Rightarrow> 'v LoreChunk \<Rightarrow> string" where
  "format_chunk lores c =
     (let nm = (case map_of (rev (map (\<lambda>l. (loID l, loName l)) lores)) (lcLoreID c) of None \<Rightarrow> [] | Some n \<Rightarrow> n);
          name = (if nm = [] then lcLoreID c else nm)
      in ''<lore name='' @ quote_q name @ '' id='' @ quote_q (lcID c) @ ''>'' @ nl @ lcContent c @ nl @ ''</lore>'' @ nl)"

definition formatChunks :: "Lore list \<Rightarrow> 'v LoreChunk list \<Rightarrow> string" where
  "formatChunks lores chunks = str_trim (concat (map (format_chunk lores) chunks))"

fun search_all ::
  "(string \<Rightarrow> 'v \<Rightarrow> int \<Rightarrow> rat \<Rightarrow> 'w \<Rightarrow> (gerr + 'v LoreChunk list) \<times> 'w) \<Rightarrow> 'v \<Rightarrow> int \<Rightarrow> rat \<Rightarrow> Lore list \<Rightarrow> 'w
     \<Rightarrow> 'v LoreChunk list \<times> 'w" where
  "search_all search q k s [] w = ([], w)"
| "search_all search q k s (l # ls) w =
     (case search (loID l) q k s w of
        (Inl _, w1) \<Rightarrow> search_all search q k s ls w1
      | (Inr cs, w1) \<Rightarrow> (case search_all search q k s ls w1 of (ds, w2) \<Rightarrow> (cs @ ds, w2)))"

definition LoreScout_Harvest ::
  "(string list \<Rightarrow> 'w \<Rightarrow> (gerr + 'v list) \<times> 'w) \<Rightarrow> (string list \<Rightarrow> 'w \<Rightarrow> (gerr + Lore list) \<times> 'w)
     \<Rightarrow> (string \<Rightarrow> 'v \<Rightarrow> int \<Rightarrow> rat \<Rightarrow> 'w \<Rightarrow> (gerr + 'v LoreChunk list) \<times> 'w) \<Rightarrow> int \<Rightarrow> rat
     \<Rightarrow> pulse \<Rightarrow> string list \<Rightarrow> 'w \<Rightarrow> gerr option \<times> pulse \<times> 'w" where
  "LoreScout_Harvest emb byIDs search topK minScore e ids w =
     (case emb [pUserMessage e] w of
        (Inl _, w1) \<Rightarrow> (None, e, w1)
      | (Inr [], w1) \<Rightarrow> (None, e, w1)
      | (Inr (q # _), w1) \<Rightarrow>
          (case byIDs ids w1 of
             (Inl _, w2) \<Rightarrow> (None, e, w2)
           | (Inr lores, w2) \<Rightarrow>
               (case search_all search q (if topK \<le> 0 then 5 else topK) (if minScore \<le> 0 then 7 / 10 else minScore) lores w2 of
                  (chunks, w3) \<Rightarrow>
                    if chunks = [] then (None, e, w3)
                    else (None, AddKnowledge LoreContextKnowledgeKey (VStr (formatChunks lores chunks)) e, w3))))"

definition SearchLore_Validate :: "gmap option \<Rightarrow> gerr option" where
  "SearchLore_Validate args =
     (if str_arg args ''lore_name'' = [] then Some (NewBusinessError ''lore_name is required'' [])
      else if str_arg args ''query'' = [] then Some (NewBusinessError ''query is required'' [])
      else None)"

definition SearchLore_Execute ::
  "(string \<Rightarrow> 'w \<Rightarrow> (gerr + Lore) \<times> 'w) \<Rightarrow> (string list \<Rightarrow> 'w \<Rightarrow> (gerr + 'v list) \<times> 'w)
     \<Rightarrow> (string \<Rightarrow> 'v \<Rightarrow> int \<Rightarrow> rat \<Rightarrow> 'w \<Rightarrow> (gerr + 'v LoreChunk list) \<times> 'w) \<Rightarrow> gmap option \<Rightarrow> 'w
     \<Rightarrow> (gerr + string) \<times> 'w" where
  "SearchLore_Execute byName emb search args w =
     (let name = str_arg args ''lore_name''; query = str_arg args ''query'';
          topK = (case gm_get args ''top_k'' of Some (VFloat k) \<Rightarrow> if 0 < k then f64_to_int k else 5 | _ \<Rightarrow> 5)
      in case byName name w of
           (Inl _, w1) \<Rightarrow> (Inl (NewBusinessError (''knowledge base '' @ quote_q name @ '' not found'') []), w1)
         | (Inr lore, w1) \<Rightarrow>
             (case emb [query] w1 of
                (Inl e, w2) \<Rightarrow> (Inl (NewInfrastructureError ''failed to embed search query'' [e]), w2)
              | (Inr [], w2) \<Rightarrow> (Inl (NewInfrastructureError ''failed to embed search query'' []), w2)
              | (Inr (q # _), w2) \<Rightarrow>
                  (case search (loID lore) q topK 0 w2 of
                     (Inl e, w3) \<Rightarrow> (Inl (NewInfrastructureError ''lore search failed'' [e]), w3)
                   | (Inr [], w3) \<Rightarrow>
                       (Inr (''No relevant content found in knowledge base '' @ quote_q name @ '' for query: '' @ query), w3)
                   | (Inr cs, w3) \<Rightarrow>
                       (Inr (str_trim (concat (map (\<lambda>(i, c). ''['' @ nat_dec (i + 1) @ ''] '' @ lcContent c @ nl)
                              (enumerate 0 cs)))), w3))))"

section \<open>Laws\<close>

lemma chunkID_inj:
  assumes "chunkID ing i n = chunkID ing j n" "i < n" "j < n"
  shows "i = j"
proof (cases "liDocumentID ing \<noteq> [] \<and> n = 1")
  case True
  with assms(2,3) show ?thesis by simp
next
  case False
  with assms(1) have "nat_dec i = nat_dec j" by (simp add: chunkID_def split: if_splits)
  then show ?thesis by (metis digits_val_nat_dec option.inject)
qed

lemma make_chunks_ids: "distinct (map lcID (make_chunks ing pieces embs))"
  by (auto simp: make_chunks_def distinct_map comp_def inj_on_def dest: chunkID_inj)

text \<open>The table of best chunks: one entry per document seen, holding a best chunk of it.\<close>

definition best_of :: "'v LoreChunk list \<Rightarrow> (string \<times> 'v LoreChunk) list \<Rightarrow> bool" where
  "best_of seen best \<longleftrightarrow>
     distinct (map fst best) \<and> fst ` set best = documentKey ` set seen
     \<and> (\<forall>(k, c)\<in>set best. c \<in> set seen \<and> documentKey c = k)
     \<and> (\<forall>c\<in>set seen. \<exists>b. map_of best (documentKey c) = Some b \<and> lcScore c \<le> lcScore b)"

lemma best_of_step:
  assumes b: "best_of seen best"
  shows "best_of (seen @ [c])
       (case map_of best (documentKey c) of
          None \<Rightarrow> best @ [(documentKey c, c)]
        | Some cur \<Rightarrow> if lcScore cur < lcScore c then AList.update (documentKey c) c best else best)"
proof -
  let ?k = "documentKey c"
  from b have d: "distinct (map fst best)" and f: "fst ` set best = documentKey ` set seen"
    and i: "\<forall>(k, c)\<in>set best. c \<in> set seen \<and> documentKey c = k"
    and m: "\<forall>c\<in>set seen. \<exists>b. map_of best (documentKey c) = Some b \<and> lcScore c \<le> lcScore b"
    unfolding best_of_def by blast+
  show ?thesis
  proof (cases "map_of best ?k")
    case None
    then have nk: "?k \<notin> fst ` set best" by (simp add: map_of_eq_None_iff)
    have "\<forall>x\<in>set (seen @ [c]). \<exists>b. map_of (best @ [(?k, c)]) (documentKey x) = Some b \<and> lcScore x \<le> lcScore b"
    proof
      fix x assume "x \<in> set (seen @ [c])"
      then consider "x \<in> set seen" | "x = c" by auto
      then show "\<exists>b. map_of (best @ [(?k, c)]) (documentKey x) = Some b \<and> lcScore x \<le> lcScore b"
        using m None by cases (fastforce simp: map_add_def simp del: map_of_eq_Some_iff split: option.split)+
    qed
    moreover have "\<forall>(k, x)\<in>set (best @ [(?k, c)]). x \<in> set (seen @ [c]) \<and> documentKey x = k" using i by auto
    moreover have "fst ` set (best @ [(?k, c)]) = documentKey ` set (seen @ [c])" using f by auto
    moreover have "distinct (map fst (best @ [(?k, c)]))" using d nk by simp
    ultimately show ?thesis by (simp only: None option.case best_of_def)
  next
    case (Some cur)
    then have k: "?k \<in> fst ` set best" "?k \<in> documentKey ` set seen"
      using f by (force dest: map_of_SomeD)+
    show ?thesis
    proof (cases "lcScore cur < lcScore c")
      case True
      let ?b = "AList.update ?k c best"
      have mp: "map_of ?b j = (if j = ?k then Some c else map_of best j)" for j by (simp add: update_conv')
      have "\<forall>x\<in>set (seen @ [c]). \<exists>b. map_of ?b (documentKey x) = Some b \<and> lcScore x \<le> lcScore b"
      proof
        fix x assume x: "x \<in> set (seen @ [c])"
        show "\<exists>b. map_of ?b (documentKey x) = Some b \<and> lcScore x \<le> lcScore b"
        proof (cases "x = c")
          case False
          with x m obtain b where "map_of best (documentKey x) = Some b" "lcScore x \<le> lcScore b" by auto
          with Some True mp show ?thesis by (cases "documentKey x = ?k") auto
        qed (simp add: mp)
      qed
      moreover have "\<forall>(k, x)\<in>set ?b. x \<in> set (seen @ [c]) \<and> documentKey x = k"
      proof
        fix p assume p: "p \<in> set ?b"
        obtain k x where kx: "p = (k, x)" by (cases p)
        have "distinct (map fst ?b)" using d by (simp add: distinct_update)
        with p kx have "map_of ?b k = Some x" by simp
        then have "k = ?k \<and> x = c \<or> (k, x) \<in> set best"
          by (auto simp: mp simp del: map_of_eq_Some_iff dest: map_of_SomeD split: if_splits)
        with i kx show "case p of (k, x) \<Rightarrow> x \<in> set (seen @ [c]) \<and> documentKey x = k" by auto
      qed
      moreover have "fst ` set ?b = documentKey ` set (seen @ [c])"
        using f k by (simp add: dom_update [unfolded dom_map_of_conv_image_fst] insert_absorb)
      moreover have "distinct (map fst ?b)" using d by (simp add: distinct_update)
      ultimately show ?thesis by (simp only: Some option.case True if_True best_of_def)
    next
      case False
      have "\<forall>x\<in>set (seen @ [c]). \<exists>b. map_of best (documentKey x) = Some b \<and> lcScore x \<le> lcScore b"
        using m Some False by auto
      with False Some d f i k show ?thesis by (auto simp: best_of_def)
    qed
  qed
qed

lemma best_chunks_spec: "best_of seen best \<Longrightarrow> best_of (seen @ cs) (best_chunks cs best)"
proof (induction cs arbitrary: seen best)
  case (Cons c cs)
  from Cons.IH [OF best_of_step [OF Cons.prems, of c]] show ?case by simp
qed simp

lemma best_chunks_all: "best_of cs (best_chunks cs [])"
  using best_chunks_spec [of "[]" "[]" cs] by (simp add: best_of_def del: map_of_eq_Some_iff)

lemma best_chunks_facts:
  fixes cs :: "'v LoreChunk list"
  defines "ds \<equiv> map snd (best_chunks cs [])"
  shows "distinct (map documentKey ds)" "set ds \<subseteq> set cs" "documentKey ` set ds = documentKey ` set cs"
    and "c \<in> set cs \<Longrightarrow> d \<in> set ds \<Longrightarrow> documentKey c = documentKey d \<Longrightarrow> lcScore c \<le> lcScore d"
proof -
  let ?best = "best_chunks cs []"
  have b: "distinct (map fst ?best)" "fst ` set ?best = documentKey ` set cs"
    "\<forall>(k, c)\<in>set ?best. c \<in> set cs \<and> documentKey c = k"
    "\<forall>c\<in>set cs. \<exists>b. map_of ?best (documentKey c) = Some b \<and> lcScore c \<le> lcScore b"
    using best_chunks_all [of cs] unfolding best_of_def by blast+
  have key: "map documentKey ds = map fst ?best" using b(3) by (auto simp: ds_def)
  with b(1,2) show "distinct (map documentKey ds)" "documentKey ` set ds = documentKey ` set cs"
    by (simp_all flip: set_map)
  show "set ds \<subseteq> set cs" using b(3) by (auto simp: ds_def)
  show "lcScore c \<le> lcScore d" if c: "c \<in> set cs" and d: "d \<in> set ds" and k: "documentKey c = documentKey d"
  proof -
    obtain k where "(k, d) \<in> set ?best" using d by (auto simp: ds_def)
    with b(1,3) have "map_of ?best (documentKey d) = Some d" by auto
    with b(4) c k show ?thesis by auto
  qed
qed

text \<open>
  Grouping returns distinct documents, each by its best chunk, best first, at most \<open>topK\<close> of
  them, and leaves out no document with a better chunk than one it returns.
\<close>

lemma group_facts:
  fixes cs :: "'v LoreChunk list" and k :: int
  defines "res \<equiv> groupByDocument cs k"
  shows "distinct (map documentKey res)" "set res \<subseteq> set cs"
    "sorted_wrt (\<lambda>a b. lcScore b \<le> lcScore a) res" "0 < k \<Longrightarrow> int (length res) \<le> k"
    and "c \<in> set cs \<Longrightarrow> r \<in> set res \<Longrightarrow>
      documentKey c = documentKey r \<or> documentKey c \<notin> documentKey ` set res \<Longrightarrow> lcScore c \<le> lcScore r"
proof -
  define ds where "ds = map snd (best_chunks cs [])"
  define ss where "ss = sort_key (\<lambda>c. - lcScore c) ds"
  note bc = best_chunks_facts [where cs = cs, folded ds_def]
  have res: "\<exists>n. res = take n ss \<and> (0 < k \<longrightarrow> int (length res) \<le> k)"
    by (auto simp: res_def groupByDocument_def Let_def ds_def [symmetric] ss_def [symmetric]
        intro: exI [of _ "nat k"] exI [of _ "length ss"])
  then obtain n where n: "res = take n ss" and k: "0 < k \<longrightarrow> int (length res) \<le> k" by blast
  have ms: "mset ss = mset ds" by (simp add: ss_def)
  then have "mset (map documentKey ss) = mset (map documentKey ds)" by (metis mset_map)
  then have "distinct (map documentKey ss)" using bc(1) by (metis mset_eq_imp_distinct_iff)
  then show "distinct (map documentKey res)" by (simp add: n take_map [symmetric] distinct_take del: take_map)
  have set: "set ss = set ds" using ms by (rule mset_eq_setD)
  then show "set res \<subseteq> set cs" using bc(2) set_take_subset [of n ss] by (auto simp: n)
  have "sorted (map (\<lambda>c. - lcScore c) ss)" by (simp add: ss_def)
  then have sorted: "sorted_wrt (\<lambda>a b. lcScore b \<le> lcScore a) ss" by (simp add: sorted_map)
  then show "sorted_wrt (\<lambda>a b. lcScore b \<le> lcScore a) res" by (simp add: n sorted_wrt_take)
  show "0 < k \<Longrightarrow> int (length res) \<le> k" using k by simp
  show "lcScore c \<le> lcScore r"
    if c: "c \<in> set cs" and r: "r \<in> set res"
      and or: "documentKey c = documentKey r \<or> documentKey c \<notin> documentKey ` set res"
  proof (cases "documentKey c = documentKey r")
    case True
    have "r \<in> set ds" using r set_take_subset [of n ss] set by (auto simp: n)
    with bc(4) c True show ?thesis by blast
  next
    case False
    with or have nc: "documentKey c \<notin> documentKey ` set res" by simp
    obtain d where d: "d \<in> set ds" "documentKey d = documentKey c" using bc(3) c by (metis imageE image_eqI)
    have "d \<notin> set res" using nc d(2) by (metis image_eqI)
    then have dd: "d \<in> set (drop n ss)"
      using d(1) set by (metis Un_iff append_take_drop_id n set_append)
    have "sorted_wrt (\<lambda>a b. lcScore b \<le> lcScore a) (take n ss @ drop n ss)" using sorted by simp
    with r dd have "lcScore d \<le> lcScore r" unfolding sorted_wrt_append by (auto simp: n)
    with bc(4) [OF c d(1) d(2) [symmetric]] show ?thesis by simp
  qed
qed

section \<open>What the grounding gate reads back\<close>

text \<open>A text without a double quote holds no identifier, unless it ends where one begins.\<close>

lemma id_scan_skip:
  assumes "CHR 0x22 \<notin> set s" "r = [] \<or> hd r = CHR 0x22" "\<not> suffix ''id='' s"
  shows "id_scan w (s @ r) = id_scan (if s = [] then w else word_char (last s)) r"
  using assms
proof (induction s arbitrary: w)
  case (Cons c s)
  have no: "\<not> str_prefix (''id='' @ dq) ((c # s) @ r)"
  proof
    assume p: "str_prefix (''id='' @ dq) ((c # s) @ r)"
    show False
    proof (cases "length s < 3")
      case True
      then consider "s = []" | x where "s = [x]" | x y where "s = [x, y]"
        by (cases s rule: remdups_adj.cases) (auto simp: length_Suc_conv)
      then show False
        using p Cons.prems
        by cases (cases r; auto simp: dq_def suffix_def)+
    next
      case False
      then obtain x y z s' where "s = x # y # z # s'"
        by (metis (no_types) Suc_length_conv length_Suc_conv linorder_not_less list.exhaust list.size(3)
            not_less_eq numeral_3_eq_3 zero_less_Suc)
      with p Cons.prems show False by (auto simp: dq_def)
    qed
  qed
  have "id_scan w ((c # s) @ r) = id_scan (word_char c) (s @ r)"
  proof -
    have "\<not> str_prefix (''id='' @ dq) (c # (s @ r))" using no by simp
    then show ?thesis by (simp only: append_Cons [of c s r] id_scan.simps(2) simp_thms if_False)
  qed
  moreover have "\<not> suffix ''id='' s" using Cons.prems(3) by (auto simp: suffix_def)
  ultimately show ?case using Cons by (cases s) auto
qed simp

lemma id_scan_quote: "id_scan w (CHR 0x22 # s) = id_scan False s"
  by (simp add: id_scan.simps(2) word_char_def in_range_def byte_def)

lemma id_scan_id:
  assumes "CHR 0x22 \<notin> set i" "i \<noteq> []"
  shows "id_scan False (''id='' @ dq @ i @ dq @ s) = i # id_scan False s"
proof -
  have t: "takeWhile (\<lambda>x. x \<noteq> CHR 0x22) (i @ CHR 0x22 # s) = i"
    "dropWhile (\<lambda>x. x \<noteq> CHR 0x22) (i @ CHR 0x22 # s) = CHR 0x22 # s"
    using assms(1) by (subst takeWhile_append2 dropWhile_append2; fastforce)+
  show ?thesis using assms(2) by (simp add: dq_def id_scan.simps(2) t Let_def)
qed

text \<open>Text that \<open>%q\<close> prints as it is, and that holds no mark of an attribute.\<close>

definition plain_char :: "char \<Rightarrow> bool" where
  "plain_char c \<longleftrightarrow> 32 \<le> byte c \<and> byte c \<noteq> 127 \<and> c \<noteq> CHR 0x22 \<and> c \<noteq> CHR 0x5C \<and> c \<noteq> CHR ''=''"

definition plain :: "string \<Rightarrow> bool" where
  "plain s \<longleftrightarrow> (\<forall>c\<in>set s. plain_char c)"

lemma quote_plain_char:
  assumes "plain_char c"
  shows "quote_char c = [c]"
proof -
  have "char_of (byte c) = c" by (simp add: byte_def)
  moreover have "char_of (34::nat) = CHR 0x22" "char_of (92::nat) = CHR 0x5C" by code_simp+
  ultimately have "byte c \<noteq> 34" "byte c \<noteq> 92"
    using assms by (metis plain_char_def)+
  then show ?thesis using assms by (simp add: plain_char_def quote_char_def byte_def Let_def)
qed

lemma quote_plain: "plain s \<Longrightarrow> quote_q s = dq @ s @ dq"
proof -
  have "concat (map quote_char s) = s" if "plain s" for s
    using that by (induction s) (simp_all add: plain_def quote_plain_char)
  then show "plain s \<Longrightarrow> ?thesis" by (simp add: quote_q_def)
qed

lemma plain_no_mark: "plain s \<Longrightarrow> CHR 0x22 \<notin> set s \<and> CHR ''='' \<notin> set s"
  by (auto simp: plain_def plain_char_def)

lemma no_suffix_id: "CHR ''='' \<notin> set s \<Longrightarrow> \<not> suffix ''id='' s"
  by (auto simp: suffix_def)

definition chunk_name :: "Lore list \<Rightarrow> 'v LoreChunk \<Rightarrow> string" where
  "chunk_name lores c =
     (let nm = (case map_of (rev (map (\<lambda>l. (loID l, loName l)) lores)) (lcLoreID c) of None \<Rightarrow> [] | Some n \<Rightarrow> n)
      in if nm = [] then lcLoreID c else nm)"

definition citable :: "Lore list \<Rightarrow> 'v LoreChunk \<Rightarrow> bool" where
  "citable lores c \<longleftrightarrow> plain (chunk_name lores c) \<and> plain (lcID c) \<and> lcID c \<noteq> [] \<and> CHR 0x22 \<notin> set (lcContent c)"

text \<open>
  The scan from inside the content of a chunk on, over the chunks that follow: it yields the
  identifiers of those. The flag does not matter, as white space stands before an attribute.
\<close>

lemma id_scan_chunks:
  assumes "\<forall>c\<in>set cs. citable lores c" "CHR 0x22 \<notin> set s" "CHR ''='' \<noteq> last s \<or> s = []"
  shows "id_scan w (s @ concat (map (format_chunk lores) cs)) = map lcID cs"
  using assms
proof (induction cs arbitrary: w s)
  case Nil
  then have "\<not> suffix ''id='' s" by (auto simp: suffix_def)
  with Nil show ?case using id_scan_skip [of s "[]" w] by simp
next
  case (Cons c cs)
  have c: "citable lores c" using Cons.prems(1) by simp
  let ?n = "chunk_name lores c"
  let ?tail = "''>'' @ nl @ lcContent c @ nl @ ''</lore>'' @ nl"
  let ?rest = "concat (map (format_chunk lores) cs)"
  have n: "CHR 0x22 \<notin> set ?n" "CHR ''='' \<notin> set ?n" and i: "CHR 0x22 \<notin> set (lcID c)" "lcID c \<noteq> []"
    and q: "quote_q ?n = dq @ ?n @ dq" "quote_q (lcID c) = dq @ lcID c @ dq"
    using c by (auto simp: citable_def quote_plain plain_no_mark)
  have f: "format_chunk lores c = ''<lore name='' @ dq @ ?n @ dq @ '' '' @ ''id='' @ dq @ lcID c @ dq @ ?tail"
    using q by (simp add: format_chunk_def chunk_name_def Let_def)
  have "id_scan w (s @ format_chunk lores c @ ?rest)
      = id_scan w ((s @ ''<lore name='') @ CHR 0x22 # (?n @ CHR 0x22 # '' '' @ ''id='' @ dq @ lcID c @ dq @ ?tail @ ?rest))"
    by (simp add: f dq_def)
  also have "\<dots> = id_scan False (?n @ CHR 0x22 # '' '' @ ''id='' @ dq @ lcID c @ dq @ ?tail @ ?rest)"
    using Cons.prems(2) by (subst id_scan_skip) (auto simp: suffix_def id_scan_quote)
  also have "\<dots> = id_scan False ('' '' @ ''id='' @ dq @ lcID c @ dq @ ?tail @ ?rest)"
    using n no_suffix_id [of ?n] by (subst id_scan_skip) (auto simp: id_scan_quote)
  also have "\<dots> = id_scan False (''id='' @ dq @ lcID c @ dq @ ?tail @ ?rest)"
    by (simp add: id_scan.simps(2) [of False "CHR '' ''"] word_char_def in_range_def byte_def)
  also have "\<dots> = lcID c # id_scan False (?tail @ ?rest)"
    using id_scan_id [OF i, of "?tail @ ?rest"] by simp
  also have "id_scan False (?tail @ ?rest) = map lcID cs"
    using Cons.IH [of ?tail False] Cons.prems(1) c
    by (simp add: citable_def nl_def)
  finally show ?case by simp
qed

text \<open>
  What the grounding check reads in the observation that \<open>search_lore\<close> returned: the identifiers of
  exactly the chunks it was given, in their order.
\<close>

lemma id_scan_formatted:
  assumes "\<forall>c\<in>set cs. citable lores c"
  shows "id_scan w (concat (map (format_chunk lores) cs)) = map lcID cs"
  using id_scan_chunks [OF assms, of "[]" w] by simp

lemma id_scan_hit:
  assumes "\<not> w" "str_prefix (''id='' @ dq) (c # cs)"
    and "takeWhile (\<lambda>x. x \<noteq> CHR 0x22) (drop 3 cs) = b" "b \<noteq> []"
    and "dropWhile (\<lambda>x. x \<noteq> CHR 0x22) (drop 3 cs) = q # t"
  shows "id_scan w (c # cs) = b # id_scan False t"
  unfolding id_scan.simps(2) Let_def assms(3,5) using assms(1,2,4) by (simp only: simp_thms if_True list.distinct list.sel)

lemma id_scan_miss:
  assumes "w \<or> \<not> str_prefix (''id='' @ dq) (c # cs) \<or> takeWhile (\<lambda>x. x \<noteq> CHR 0x22) (drop 3 cs) = []
      \<or> dropWhile (\<lambda>x. x \<noteq> CHR 0x22) (drop 3 cs) = []"
  shows "id_scan w (c # cs) = id_scan (word_char c) cs"
  unfolding id_scan.simps(2) Let_def using assms by presburger

lemma mark_newline: "str_prefix (''id='' @ dq) (c # cs @ nl) = str_prefix (''id='' @ dq) (c # cs)"
proof (cases "length cs < 3")
  case True
  then consider "cs = []" | x where "cs = [x]" | x y where "cs = [x, y]"
    by (cases cs rule: remdups_adj.cases) (auto simp: length_Suc_conv)
  then show ?thesis by cases (auto simp: dq_def nl_def)
next
  case False
  then obtain x y z s' where "cs = x # y # z # s'"
    by (metis (no_types) Suc_length_conv length_Suc_conv linorder_not_less list.exhaust list.size(3)
          not_less_eq numeral_3_eq_3 zero_less_Suc)
  then show ?thesis by (auto simp: dq_def)
qed

lemma mark_length: "str_prefix (''id='' @ dq) (c # cs) \<Longrightarrow> 3 \<le> length cs"
  by (cases cs rule: remdups_adj.cases; cases "tl (tl cs)") (auto simp: dq_def)

lemma id_scan_nl: "id_scan w (s @ nl) = id_scan w s"
proof (induction w s rule: id_scan.induct)
  case (1 w)
  have "id_scan w (CHR 0x0A # []) = id_scan (word_char (CHR 0x0A)) []" by (rule id_scan_miss) simp
  then show ?case by (simp add: nl_def)
next
  case (2 w c cs)
  let ?q = "\<lambda>x. x \<noteq> CHR 0x22"
  let ?rest = "drop 3 cs"
  let ?hit = "\<not> w \<and> str_prefix (''id='' @ dq) (c # cs)"
  show ?case
  proof (cases "?hit \<and> takeWhile ?q ?rest \<noteq> [] \<and> dropWhile ?q ?rest \<noteq> []")
    case True
    then have h: ?hit and b: "takeWhile ?q ?rest \<noteq> []" and t: "dropWhile ?q ?rest \<noteq> []" by blast+
    then obtain x t' where x: "dropWhile ?q ?rest = x # t'" by (meson neq_Nil_conv)
    have "drop 3 (cs @ nl) = ?rest @ nl" using h mark_length [of c cs] by simp
    moreover have "CHR 0x22 \<in> set ?rest" using t by (auto simp: dropWhile_eq_Nil_conv)
    ultimately have tl: "takeWhile ?q (drop 3 (cs @ nl)) = takeWhile ?q ?rest"
        "dropWhile ?q (drop 3 (cs @ nl)) = x # (t' @ nl)"
      using x by (auto simp: takeWhile_append dropWhile_append)
    have "id_scan w (c # (cs @ nl)) = takeWhile ?q ?rest # id_scan False (t' @ nl)"
      by (rule id_scan_hit [OF _ _ tl(1) b tl(2)]) (simp_all only: mark_newline h simp_thms)
    moreover have "id_scan w (c # cs) = takeWhile ?q ?rest # id_scan False t'"
      by (rule id_scan_hit [OF _ _ refl b x]) (use h in blast)+
    moreover have "id_scan False (t' @ nl) = id_scan False t'"
      using 2(1) [OF h refl refl refl] b t x by (simp only: list.sel simp_thms)
    ultimately show ?thesis by simp
  next
    case miss: False
    have "id_scan w (c # (cs @ nl)) = id_scan (word_char c) (cs @ nl)"
    proof (rule id_scan_miss, cases ?hit)
      case True
      then have "drop 3 (cs @ nl) = ?rest @ nl" using mark_length [of c cs] by simp
      moreover have "dropWhile ?q (?rest @ nl) = []" if "dropWhile ?q ?rest = []"
        using that by (auto simp: dropWhile_eq_Nil_conv nl_def)
      moreover have "takeWhile ?q (?rest @ nl) = []" if "takeWhile ?q ?rest = []" "dropWhile ?q ?rest \<noteq> []"
        using that by (cases ?rest) (auto split: if_splits)
      ultimately show "w \<or> \<not> str_prefix (''id='' @ dq) (c # cs @ nl) \<or> takeWhile ?q (drop 3 (cs @ nl)) = []
          \<or> dropWhile ?q (drop 3 (cs @ nl)) = []"
        using True miss by (simp only: simp_thms) blast
    qed (simp only: mark_newline, blast)
    moreover have "id_scan w (c # cs) = id_scan (word_char c) cs"
      using miss by (intro id_scan_miss) blast
    moreover have "id_scan (word_char c) (cs @ nl) = id_scan (word_char c) cs"
    proof (cases ?hit)
      case True
      show ?thesis by (rule 2(2) [OF True refl refl refl]) (use True miss in blast)
    next
      case False
      show ?thesis by (rule 2(3) [OF False])
    qed
    ultimately show ?thesis by simp
  qed
qed

lemma format_chunk_ends: "\<exists>u. format_chunk lores c = ''<'' @ u @ ''>'' @ nl"
proof -
  have "\<exists>u. x @ y @ z @ ''>'' @ nl = ''<'' @ u @ ''>'' @ nl" if "x = CHR ''<'' # v" for x y z v :: string
    using that by (intro exI [of _ "v @ y @ z"]) (simp only: append_Cons append_Nil append_assoc)
  then have e: "\<exists>u. (CHR ''<'' # v) @ y @ z @ ''>'' @ nl = ''<'' @ u @ ''>'' @ nl" for v y z :: string by blast
  have "\<exists>v y z. format_chunk lores c = (CHR ''<'' # v) @ y @ z @ ''>'' @ nl"
    unfolding format_chunk_def Let_def
    by (intro exI [of _ "''lore name=''"] exI [of _ "quote_q _ @ '' id='' @ quote_q _ @ ''>'' @ nl @ lcContent _ @ nl"]
          exI [of _ "''</lore''"]) (simp only: append_Cons append_Nil append_assoc)
  then show ?thesis using e by (elim exE) (simp only:)
qed

lemma str_trim_line: "str_trim (''<'' @ v @ ''>'' @ nl) = ''<'' @ v @ ''>''"
proof -
  have c: "\<not> is_space (CHR ''<'')" "\<not> is_space (CHR ''>'')" "is_space (CHR 0x0A)" by (simp_all add: is_space_def)
  then have "dropWhile is_space (''<'' @ v @ ''>'' @ nl) = ''<'' @ v @ ''>'' @ nl" by (simp only: append_Cons append_Nil dropWhile.simps if_False)
  moreover have "rev (''<'' @ v @ ''>'' @ nl) = CHR 0x0A # CHR ''>'' # rev v @ ''<''" by (simp only: nl_def rev_append rev.simps append.simps append_assoc)
  ultimately show ?thesis
    by (simp only: str_trim_def c dropWhile.simps if_True if_False) (simp only: rev_append rev.simps append.simps append_assoc rev_rev_ident)
qed

lemma chunks_line:
  "cs \<noteq> [] \<Longrightarrow> \<exists>v. concat (map (format_chunk lores) cs) = ''<'' @ v @ ''>'' @ nl"
proof (induction cs)
  case (Cons c cs)
  obtain u where u: "format_chunk lores c = ''<'' @ u @ ''>'' @ nl" using format_chunk_ends by blast
  show ?case
  proof (cases "cs = []")
    case True
    then show ?thesis using u by simp
  next
    case False
    then obtain v where "concat (map (format_chunk lores) cs) = ''<'' @ v @ ''>'' @ nl" using Cons by blast
    then show ?thesis using u by (auto intro: exI [of _ "u @ ''>'' @ nl @ ''<'' @ v"])
  qed
qed simp

lemma formatChunks_ids:
  assumes "\<forall>c\<in>set cs. citable lores c"
  shows "extractLoreChunkIDs (formatChunks lores cs) = map lcID cs"
proof (cases "cs = []")
  case True
  then show ?thesis by (simp add: formatChunks_def extractLoreChunkIDs_def str_trim_def)
next
  case False
  let ?s = "concat (map (format_chunk lores) cs)"
  obtain v where v: "?s = ''<'' @ v @ ''>'' @ nl" using chunks_line [OF False] by blast
  then have "?s = formatChunks lores cs @ nl" by (simp add: formatChunks_def str_trim_line del: append_Cons)
  then have "id_scan False (formatChunks lores cs) = id_scan False ?s" by (simp add: id_scan_nl)
  then show ?thesis using id_scan_formatted [OF assms] by (simp add: extractLoreChunkIDs_def)
qed

end
