(* ===== verification/DemoLore.thy ===== *)
theory DemoLore
  imports Lore
begin

text \<open>Retrieved chunks, a Pulse that carries them and a draft that cites one, to evaluate.\<close>

definition demo_chunk :: "string \<Rightarrow> unit LoreChunk" where
  "demo_chunk i = \<lparr>lcID = i, lcLoreID = ''faq'', lcContent = ''text'', lcEmbedding = None, lcMetadata = None, lcScore = 0\<rparr>"

definition demo_retrieved :: pulse where
  "demo_retrieved = AddKnowledge LoreContextKnowledgeKey (VStr (formatChunks [] [demo_chunk ''d1'', demo_chunk ''d2''])) zero_pulse"

definition demo_grounding :: GroundingPolicy where
  "demo_grounding = \<lparr>grEnabled = True, grMinCitations = 1, grOnViolation = GroundingBlock, grBlockedMessage = []\<rparr>"

definition demo_draft :: string where
  "demo_draft = ''see [chunk:d1] and [chunk:zz]''"

end
