(* ===== verification/Rituals.thy ===== *)
theory Rituals
  imports Pulse
begin

text \<open>
  Scheduled tasks: \<open>domain/entities/ritual.go\<close>, the ports \<open>RitualRepository\<close> and \<open>Keeper\<close>, and
  \<open>implementation/services/ritual_service.go\<close>, the authority over a task's life. Times are
  milliseconds. The repository, the Keeper, the clock, the generator of identifiers, the time
  zone database and the cron parser are arguments.
\<close>

section \<open>Tasks\<close>

datatype RitualStatus = RitualPending | RitualRunning | RitualExecuted | RitualCancelled | RitualFailed

fun ritual_status_text :: "RitualStatus \<Rightarrow> string" where
  "ritual_status_text RitualPending = ''pending''"
| "ritual_status_text RitualRunning = ''running''"
| "ritual_status_text RitualExecuted = ''executed''"
| "ritual_status_text RitualCancelled = ''cancelled''"
| "ritual_status_text RitualFailed = ''failed''"

definition ritualMetadataKey :: string where
  "ritualMetadataKey = ''ritual_id''"

record RecurrenceConfig =
  cfCron :: string
  cfTimezone :: string
  cfEndsAt :: "int option"
  cfMaxRuns :: int
  cfRunCount :: int

record Ritual =
  riID :: string
  riMemoryKey :: string
  riEventKey :: string
  riKeeperTaskID :: string
  riExecuteAt :: int
  riStatus :: RitualStatus
  riCreatedBy :: string
  riEventSnapshot :: "pulse option"
  riRecurrence :: "RecurrenceConfig option"
  riAttemptCount :: int
  riCreatedAt :: int
  riStartedAt :: "int option"
  riExecutedAt :: "int option"
  riCancelledAt :: "int option"
  riFailedAt :: "int option"
  riFailureReason :: string
  riMetadata :: "gmap option"

record RitualRequest =
  qrEventKey :: string
  qrEvent :: pulse
  qrExecuteAt :: int
  qrCreatedBy :: string
  qrRecurrence :: "RecurrenceConfig option"
  qrMetadata :: "gmap option"

section \<open>The ports\<close>

record 'w ritual_repo =
  roSave :: "Ritual \<Rightarrow> 'w \<Rightarrow> gerr option \<times> 'w"
  roFindByID :: "string \<Rightarrow> 'w \<Rightarrow> (gerr + Ritual) \<times> 'w"
  roFindPending :: "string \<Rightarrow> int \<Rightarrow> int \<Rightarrow> 'w \<Rightarrow> (gerr + Ritual list) \<times> 'w"
  roCount :: "string \<Rightarrow> 'w \<Rightarrow> (gerr + int) \<times> 'w"
  roUpdateStatus :: "string \<Rightarrow> RitualStatus \<Rightarrow> int \<Rightarrow> 'w \<Rightarrow> gerr option \<times> 'w"
  roUpdateRunning :: "string \<Rightarrow> int \<Rightarrow> 'w \<Rightarrow> gerr option \<times> 'w"
  roUpdateFailed :: "string \<Rightarrow> int \<Rightarrow> string \<Rightarrow> 'w \<Rightarrow> gerr option \<times> 'w"
  roUpdateKeeperTaskID :: "string \<Rightarrow> string \<Rightarrow> 'w \<Rightarrow> gerr option \<times> 'w"

record 'w keeper =
  kpSchedule :: "string \<Rightarrow> pulse \<Rightarrow> int \<Rightarrow> 'w \<Rightarrow> (gerr + string) \<times> 'w"
  kpCancel :: "string \<Rightarrow> 'w \<Rightarrow> gerr option \<times> 'w"

text \<open>\<open>rsCron\<close> parses an expression; a schedule gives the next tick in a zone after a time.\<close>

record 'w ritual_service =
  rsRepo :: "'w ritual_repo"
  rsKeeper :: "'w keeper"
  rsNow :: "'w \<Rightarrow> int"
  rsNewID :: "'w \<Rightarrow> string \<times> 'w"
  rsLocation :: "string \<Rightarrow> gerr option"
  rsCron :: "string \<Rightarrow> gerr + (string \<Rightarrow> int \<Rightarrow> int)"

section \<open>The service\<close>

definition ritual_of_request :: "RitualRequest \<Rightarrow> string \<Rightarrow> int \<Rightarrow> pulse \<Rightarrow> Ritual" where
  "ritual_of_request req taskID now event =
     \<lparr>riID = taskID, riMemoryKey = pMemoryKey event, riEventKey = qrEventKey req, riKeeperTaskID = [],
      riExecuteAt = qrExecuteAt req, riStatus = RitualPending, riCreatedBy = qrCreatedBy req,
      riEventSnapshot = Some event, riRecurrence = qrRecurrence req, riAttemptCount = 0, riCreatedAt = now,
      riStartedAt = None, riExecutedAt = None, riCancelledAt = None, riFailedAt = None,
      riFailureReason = [], riMetadata = qrMetadata req\<rparr>"

definition ritual_Schedule :: "'w ritual_service \<Rightarrow> RitualRequest \<Rightarrow> 'w \<Rightarrow> (gerr + Ritual) \<times> 'w" where
  "ritual_Schedule s req w =
     (let (taskID, w1) = rsNewID s w;
          event = AddMetadata ritualMetadataKey (VStr taskID) (qrEvent req);
          task = ritual_of_request req taskID (rsNow s w1) event
      in case roSave (rsRepo s) task w1 of
           (Some e, w2) \<Rightarrow> (Inl (EWrap ''persist scheduled task'' e), w2)
         | (None, w2) \<Rightarrow>
             (case kpSchedule (rsKeeper s) (qrEventKey req) event (qrExecuteAt req) w2 of
                (Inl e, w3) \<Rightarrow>
                  (Inl (EWrap ''schedule task'' e),
                   snd (roUpdateStatus (rsRepo s) taskID RitualCancelled (rsNow s w3) w3))
              | (Inr cloudID, w3) \<Rightarrow>
                  (Inr (task\<lparr>riKeeperTaskID := cloudID\<rparr>),
                   snd (roUpdateKeeperTaskID (rsRepo s) taskID cloudID w3))))"

definition ritual_Cancel :: "'w ritual_service \<Rightarrow> string \<Rightarrow> string \<Rightarrow> 'w \<Rightarrow> gerr option \<times> 'w" where
  "ritual_Cancel s i memoryKey w =
     (case roFindByID (rsRepo s) i w of
        (Inl e, w1) \<Rightarrow> (Some (EWrap ''find task'' e), w1)
      | (Inr task, w1) \<Rightarrow>
          if riMemoryKey task \<noteq> memoryKey
          then (Some (NewBusinessError ''task does not belong to this memory'' []), w1)
          else if riStatus task \<noteq> RitualPending then (None, w1)
          else (let w2 = snd (kpCancel (rsKeeper s) (riKeeperTaskID task) w1)
                in case roUpdateStatus (rsRepo s) i RitualCancelled (rsNow s w2) w2 of
                     (Some e, w3) \<Rightarrow> (Some (EWrap ''cancel ritual'' e), w3)
                   | (None, w3) \<Rightarrow> (None, w3)))"

definition ritual_MarkRunning :: "'w ritual_service \<Rightarrow> string \<Rightarrow> 'w \<Rightarrow> gerr option \<times> 'w" where
  "ritual_MarkRunning s i w =
     (case roFindByID (rsRepo s) i w of
        (Inl e, w1) \<Rightarrow> (Some (EWrap ''find task'' e), w1)
      | (Inr task, w1) \<Rightarrow>
          if riStatus task \<in> {RitualExecuted, RitualFailed, RitualCancelled}
          then (Some (EWrap (''task '' @ i @ '' is '' @ quote_q (ritual_status_text (riStatus task))) ERitualTerminal), w1)
          else (case roUpdateRunning (rsRepo s) i (rsNow s w1) w1 of
                  (Some e, w2) \<Rightarrow> (Some (EWrap ''mark ritual running'' e), w2)
                | (None, w2) \<Rightarrow> (None, w2)))"

definition nextCronTick :: "'w ritual_service \<Rightarrow> string \<Rightarrow> string \<Rightarrow> int \<Rightarrow> gerr + int" where
  "nextCronTick s expr timezone after =
     (case (if timezone = [] then None else rsLocation s timezone) of
        Some e \<Rightarrow> Inl (EWrap (''invalid timezone '' @ quote_q timezone) e)
      | None \<Rightarrow>
          (case rsCron s expr of
             Inl e \<Rightarrow> Inl (EWrap (''invalid cron expression '' @ quote_q expr) e)
           | Inr sched \<Rightarrow> Inr (sched timezone after)))"

text \<open>The snapshot with a fresh identity, without the mark of the occurrence that ran.\<close>

definition next_event :: "string \<Rightarrow> int \<Rightarrow> pulse \<Rightarrow> pulse" where
  "next_event i now e =
     e\<lparr>pID := i, pTimestamp := now,
       pMetadata := map_option (AList.delete ritualMetadataKey) (pMetadata e)\<rparr>"

definition scheduleNextOccurrence :: "'w ritual_service \<Rightarrow> Ritual \<Rightarrow> 'w \<Rightarrow> 'w" where
  "scheduleNextOccurrence s task w =
     (case (riEventSnapshot task, riRecurrence task) of
        (Some e, Some r) \<Rightarrow>
          if 0 < cfMaxRuns r \<and> cfMaxRuns r \<le> wrap64 (cfRunCount r + 1) then w
          else (case nextCronTick s (cfCron r) (cfTimezone r) (riExecuteAt task) of
                  Inl _ \<Rightarrow> w
                | Inr nextAt \<Rightarrow>
                    if (\<exists>t \<in> set_option (cfEndsAt r). t < nextAt) then w
                    else (let (i, w1) = rsNewID s w
                          in snd (ritual_Schedule s
                               \<lparr>qrEventKey = riEventKey task, qrEvent = next_event i (rsNow s w1) e,
                                qrExecuteAt = nextAt, qrCreatedBy = ''system'',
                                qrRecurrence = Some (r\<lparr>cfRunCount := wrap64 (cfRunCount r + 1)\<rparr>),
                                qrMetadata = riMetadata task\<rparr> w1)))
      | _ \<Rightarrow> w)"

definition ritual_MarkExecuted :: "'w ritual_service \<Rightarrow> string \<Rightarrow> 'w \<Rightarrow> gerr option \<times> 'w" where
  "ritual_MarkExecuted s i w =
     (case roFindByID (rsRepo s) i w of
        (Inl e, w1) \<Rightarrow> (Some (EWrap ''find task'' e), w1)
      | (Inr task, w1) \<Rightarrow>
          if riStatus task \<noteq> RitualPending \<and> riStatus task \<noteq> RitualRunning then (None, w1)
          else (case roUpdateStatus (rsRepo s) i RitualExecuted (rsNow s w1) w1 of
                  (Some e, w2) \<Rightarrow> (Some (EWrap ''mark ritual executed'' e), w2)
                | (None, w2) \<Rightarrow>
                    (None, if riRecurrence task = None then w2 else scheduleNextOccurrence s task w2)))"

definition ritual_MarkFailed :: "'w ritual_service \<Rightarrow> string \<Rightarrow> string \<Rightarrow> 'w \<Rightarrow> gerr option \<times> 'w" where
  "ritual_MarkFailed s i reason w =
     (case roFindByID (rsRepo s) i w of
        (Inl e, w1) \<Rightarrow> (Some (EWrap ''find task'' e), w1)
      | (Inr task, w1) \<Rightarrow>
          if riStatus task = RitualFailed then (None, w1)
          else (case roUpdateFailed (rsRepo s) i (rsNow s w1) reason w1 of
                  (Some e, w2) \<Rightarrow> (Some (EWrap ''mark ritual failed'' e), w2)
                | (None, w2) \<Rightarrow> (None, w2)))"

definition ListPendingByMemoryKey ::
  "'w ritual_service \<Rightarrow> string \<Rightarrow> int \<Rightarrow> int \<Rightarrow> 'w \<Rightarrow> (gerr + Ritual list) \<times> 'w" where
  "ListPendingByMemoryKey s mk limit offset w =
     (case roFindPending (rsRepo s) mk limit offset w of
        (Inl e, w1) \<Rightarrow> (Inl (EWrap ''list pending rituals'' e), w1)
      | (Inr rs, w1) \<Rightarrow> (Inr rs, w1))"

definition CountByMemoryKey :: "'w ritual_service \<Rightarrow> string \<Rightarrow> 'w \<Rightarrow> (gerr + int) \<times> 'w" where
  "CountByMemoryKey s mk w =
     (case roCount (rsRepo s) mk w of
        (Inl e, w1) \<Rightarrow> (Inl (EWrap ''count rituals'' e), w1)
      | (Inr n, w1) \<Rightarrow> (Inr n, w1))"

end
