(* ===== verification/RitualLaws.thy ===== *)
theory RitualLaws
  imports Rituals
begin

text \<open>
  What the service of scheduled tasks guarantees: over the documented behaviour of its ports, every
  operation only adds tasks and moves the others along \<open>may_become\<close>, and a recurrence never runs
  past its maximum.
\<close>

section \<open>What the service relies on\<close>

text \<open>What the updates of the repository do to a task.\<close>

definition with_status :: "RitualStatus \<Rightarrow> int \<Rightarrow> Ritual \<Rightarrow> Ritual" where
  "with_status st now t = t\<lparr>riStatus := st,
     riStartedAt := (if st = RitualRunning then Some now else riStartedAt t),
     riExecutedAt := (if st = RitualExecuted then Some now else riExecutedAt t),
     riCancelledAt := (if st = RitualCancelled then Some now else riCancelledAt t)\<rparr>"

definition with_running :: "int \<Rightarrow> Ritual \<Rightarrow> Ritual" where
  "with_running now t = t\<lparr>riStatus := RitualRunning, riStartedAt := Some now, riAttemptCount := riAttemptCount t + 1\<rparr>"

definition with_failed :: "int \<Rightarrow> string \<Rightarrow> Ritual \<Rightarrow> Ritual" where
  "with_failed now why t = t\<lparr>riStatus := RitualFailed, riFailedAt := Some now, riFailureReason := why\<rparr>"

definition with_keeper :: "string \<Rightarrow> Ritual \<Rightarrow> Ritual" where
  "with_keeper k t = t\<lparr>riKeeperTaskID := k\<rparr>"

lemma with_status_simps [simp]:
  "riStatus (with_status st now t) = st" "riRecurrence (with_status st now t) = riRecurrence t"
  "riStatus (with_running now t) = RitualRunning" "riRecurrence (with_running now t) = riRecurrence t"
  "riStatus (with_failed now why t) = RitualFailed" "riRecurrence (with_failed now why t) = riRecurrence t"
  "riStatus (with_keeper k t) = riStatus t" "riRecurrence (with_keeper k t) = riRecurrence t"
  by (simp_all add: with_status_def with_running_def with_failed_def with_keeper_def)

text \<open>
  The documented behaviour of the ports: the repository is a map from identifiers to tasks, seen
  through \<open>tasks\<close>; an update that fails changes nothing, one of an unknown identifier neither;
  Keeper and generator leave the map alone, and a generated identifier is new and not empty.
\<close>

type_synonym 'w task_view = "'w \<Rightarrow> string \<Rightarrow> Ritual option"

definition updates :: "'w task_view \<Rightarrow> string \<Rightarrow> (Ritual \<Rightarrow> Ritual) \<Rightarrow> ('w \<Rightarrow> gerr option \<times> 'w) \<Rightarrow> bool" where
  "updates tasks i f op \<longleftrightarrow>
     (\<forall>w. tasks (snd (op w)) = (if fst (op w) = None then (tasks w)(i := map_option f (tasks w i)) else tasks w))"

definition repo_laws :: "'w ritual_repo \<Rightarrow> 'w task_view \<Rightarrow> bool" where
  "repo_laws r tasks \<longleftrightarrow>
     (\<forall>t w. riID t \<noteq> [] \<longrightarrow> tasks (snd (roSave r t w)) = (if fst (roSave r t w) = None then (tasks w)(riID t := Some t) else tasks w))
     \<and> (\<forall>i w. tasks (snd (roFindByID r i w)) = tasks w)
     \<and> (\<forall>i w t. fst (roFindByID r i w) = Inr t \<longrightarrow> tasks w i = Some t)
     \<and> (\<forall>i st now. updates tasks i (with_status st now) (roUpdateStatus r i st now))
     \<and> (\<forall>i now. updates tasks i (with_running now) (roUpdateRunning r i now))
     \<and> (\<forall>i now why. updates tasks i (with_failed now why) (roUpdateFailed r i now why))
     \<and> (\<forall>i k. updates tasks i (with_keeper k) (roUpdateKeeperTaskID r i k))"

definition ritual_laws :: "'w ritual_service \<Rightarrow> 'w task_view \<Rightarrow> bool" where
  "ritual_laws s tasks \<longleftrightarrow>
     repo_laws (rsRepo s) tasks
     \<and> (\<forall>k e x w. tasks (snd (kpSchedule (rsKeeper s) k e x w)) = tasks w)
     \<and> (\<forall>i w. tasks (snd (kpCancel (rsKeeper s) i w)) = tasks w)
     \<and> (\<forall>w. tasks (snd (rsNewID s w)) = tasks w \<and> tasks w (fst (rsNewID s w)) = None \<and> fst (rsNewID s w) \<noteq> [])"

lemma updatesD:
  "updates tasks i f op \<Longrightarrow> op w = (e, w') \<Longrightarrow>
     tasks w' = (if e = None then (tasks w)(i := map_option f (tasks w i)) else tasks w)"
  unfolding updates_def by (metis fst_conv snd_conv)

lemma repo_lawsD:
  assumes "ritual_laws s tasks"
  shows "roSave (rsRepo s) t w = (e, w') \<Longrightarrow> riID t \<noteq> [] \<Longrightarrow> tasks w' = (if e = None then (tasks w)(riID t := Some t) else tasks w)"
    and "roFindByID (rsRepo s) i w = (r, w') \<Longrightarrow> tasks w' = tasks w"
    and "roFindByID (rsRepo s) i w = (Inr t, w') \<Longrightarrow> tasks w i = Some t"
    and "updates tasks i (with_status st now) (roUpdateStatus (rsRepo s) i st now)"
    and "updates tasks i (with_running now) (roUpdateRunning (rsRepo s) i now)"
    and "updates tasks i (with_failed now why) (roUpdateFailed (rsRepo s) i now why)"
    and "updates tasks i (with_keeper k) (roUpdateKeeperTaskID (rsRepo s) i k)"
  using assms unfolding ritual_laws_def repo_laws_def by (metis fst_conv snd_conv)+

lemma port_lawsD:
  assumes "ritual_laws s tasks"
  shows "kpSchedule (rsKeeper s) ek ev x w = (y, w') \<Longrightarrow> tasks w' = tasks w"
    and "kpCancel (rsKeeper s) i w = (e, w') \<Longrightarrow> tasks w' = tasks w"
    and "rsNewID s w = (j, w') \<Longrightarrow> tasks w' = tasks w \<and> tasks w j = None \<and> j \<noteq> []"
  using assms unfolding ritual_laws_def by (metis fst_conv snd_conv)+

section \<open>The life of a task\<close>

text \<open>
  The statuses a task can come to. Only failure reaches a task that ended, and it reaches also
  one that was executed or cancelled: \<open>MarkFailed\<close> checks for nothing but a failure before.
\<close>

fun may_become :: "RitualStatus \<Rightarrow> RitualStatus \<Rightarrow> bool" where
  "may_become RitualPending st = True"
| "may_become RitualRunning st = (st \<in> {RitualRunning, RitualExecuted, RitualFailed})"
| "may_become a st = (st = a \<or> st = RitualFailed)"

lemma may_become_refl [simp]: "may_become a a"
  by (cases a) simp_all

lemma may_become_trans: "may_become a b \<Longrightarrow> may_become b c \<Longrightarrow> may_become a c"
  by (cases a; cases b) auto

text \<open>
  What a step of the service may do to the map: tasks keep their recurrence and move along
  \<open>may_become\<close>; the recurrence of a new task is one of \<open>R\<close>.
\<close>

definition evolves :: "RecurrenceConfig option set \<Rightarrow> (string \<Rightarrow> Ritual option) \<Rightarrow> (string \<Rightarrow> Ritual option) \<Rightarrow> bool" where
  "evolves R m m' \<longleftrightarrow>
     (\<forall>i t. m i = Some t \<longrightarrow> (\<exists>t'. m' i = Some t' \<and> may_become (riStatus t) (riStatus t') \<and> riRecurrence t' = riRecurrence t))
     \<and> (\<forall>i t'. m' i = Some t' \<longrightarrow> m i = None \<longrightarrow> riRecurrence t' \<in> R)"

lemma evolves_refl [simp]: "evolves R m m"
  by (simp add: evolves_def)

lemma evolves_mono: "evolves R m m' \<Longrightarrow> R \<subseteq> R' \<Longrightarrow> evolves R' m m'"
  unfolding evolves_def by blast

lemma evolves_old:
  assumes "\<And>t. m i = Some t \<Longrightarrow> may_become (riStatus t) (riStatus (f t)) \<and> riRecurrence (f t) = riRecurrence t"
    and "m' = (if ok then m(i := map_option f (m i)) else m)"
  shows "evolves R m m'"
  using assms by (auto simp: evolves_def split: if_splits)

text \<open>\<open>Schedule\<close> adds its task; nothing else changes.\<close>

lemma Schedule_tasks:
  assumes l: "ritual_laws s tasks" and c: "ritual_Schedule s req w = (res, w')"
  obtains "tasks w' = tasks w" "\<exists>e. res = Inl e"
  | i t where "tasks w i = None" "tasks w' = (tasks w)(i := Some t)" "riRecurrence t = qrRecurrence req"
      "riStatus t = (case res of Inl _ \<Rightarrow> riStatus t | Inr _ \<Rightarrow> RitualPending)"
      "riStatus t \<in> {RitualPending, RitualCancelled}"
proof -
  obtain j w1 where j: "rsNewID s w = (j, w1)" by (cases "rsNewID s w")
  define ev where "ev = AddMetadata ritualMetadataKey (VStr j) (qrEvent req)"
  define t where "t = ritual_of_request req j (rsNow s w1) ev"
  have t: "riID t = j" "riStatus t = RitualPending" "riRecurrence t = qrRecurrence req"
    by (simp_all add: t_def ritual_of_request_def)
  have w1: "tasks w1 = tasks w" "tasks w j = None" "j \<noteq> []" using port_lawsD(3) [OF l j] by simp_all
  obtain e w2 where save: "roSave (rsRepo s) t w1 = (e, w2)" by (cases "roSave (rsRepo s) t w1")
  note s2 = repo_lawsD(1) [OF l save, simplified t(1), OF w1(3)]
  show thesis
  proof (cases e)
    case (Some x)
    with c save s2 w1 show thesis
      by (intro that(1)) (auto simp: ritual_Schedule_def j Let_def ev_def [symmetric] t_def [symmetric])
  next
    case None
    obtain y w3 where k: "kpSchedule (rsKeeper s) (qrEventKey req) ev (qrExecuteAt req) w2 = (y, w3)"
      by (cases "kpSchedule (rsKeeper s) (qrEventKey req) ev (qrExecuteAt req) w2")
    have w3: "tasks w3 = (tasks w)(j := Some t)" using port_lawsD(1) [OF l k] s2 None t w1 by simp
    show thesis
    proof (cases y)
      case (Inl x)
      obtain e2 w4 where u: "roUpdateStatus (rsRepo s) j RitualCancelled (rsNow s w3) w3 = (e2, w4)"
        by (cases "roUpdateStatus (rsRepo s) j RitualCancelled (rsNow s w3) w3")
      have "w' = w4" "res = Inl (EWrap ''schedule task'' x)"
        using c save None k Inl u by (simp_all add: ritual_Schedule_def j Let_def ev_def [symmetric] t_def [symmetric])
      moreover have "tasks w4 = (tasks w)(j := Some (if e2 = None then with_status RitualCancelled (rsNow s w3) t else t))"
        using updatesD [OF repo_lawsD(4) [OF l] u] w3 by auto
      ultimately show thesis
        using that(2) [of j "if e2 = None then with_status RitualCancelled (rsNow s w3) t else t"] w1 t by simp
    next
      case (Inr x)
      obtain e2 w4 where u: "roUpdateKeeperTaskID (rsRepo s) j x w3 = (e2, w4)"
        by (cases "roUpdateKeeperTaskID (rsRepo s) j x w3")
      have "w' = w4" "res = Inr (t\<lparr>riKeeperTaskID := x\<rparr>)"
        using c save None k Inr u by (simp_all add: ritual_Schedule_def j Let_def ev_def [symmetric] t_def [symmetric])
      moreover have "tasks w4 = (tasks w)(j := Some (if e2 = None then with_keeper x t else t))"
        using updatesD [OF repo_lawsD(7) [OF l] u] w3 by auto
      ultimately show thesis
        using that(2) [of j "if e2 = None then with_keeper x t else t"] w1 t by simp
    qed
  qed
qed

lemma Schedule_evolves:
  assumes "ritual_laws s tasks" "ritual_Schedule s req w = (res, w')"
  shows "evolves {qrRecurrence req} (tasks w) (tasks w')"
  using assms by (rule Schedule_tasks) (auto simp: evolves_def)

text \<open>A recurrence that has runs left; those the service schedules itself always have.\<close>

definition runs_left :: "RecurrenceConfig option \<Rightarrow> bool" where
  "runs_left r \<longleftrightarrow> (\<forall>c. r = Some c \<longrightarrow> 0 < cfMaxRuns c \<longrightarrow> cfRunCount c < cfMaxRuns c)"

lemma next_evolves:
  assumes l: "ritual_laws s tasks"
  shows "evolves (Collect runs_left) (tasks w) (tasks (scheduleNextOccurrence s task w))"
proof (cases "scheduleNextOccurrence s task w = w")
  case False
  then obtain e r nextAt where
    r: "riEventSnapshot task = Some e" "riRecurrence task = Some r" "\<not> (0 < cfMaxRuns r \<and> cfMaxRuns r \<le> wrap64 (cfRunCount r + 1))"
      "nextCronTick s (cfCron r) (cfTimezone r) (riExecuteAt task) = Inr nextAt"
      "\<not> (\<exists>t \<in> set_option (cfEndsAt r). t < nextAt)"
    by (auto simp: scheduleNextOccurrence_def split: option.splits if_splits sum.splits)
  obtain j w1 where j: "rsNewID s w = (j, w1)" by (cases "rsNewID s w")
  define req where "req = \<lparr>qrEventKey = riEventKey task, qrEvent = next_event j (rsNow s w1) e,
      qrExecuteAt = nextAt, qrCreatedBy = ''system'',
      qrRecurrence = Some (r\<lparr>cfRunCount := wrap64 (cfRunCount r + 1)\<rparr>), qrMetadata = riMetadata task\<rparr>"
  obtain res w2 where c: "ritual_Schedule s req w1 = (res, w2)" by (cases "ritual_Schedule s req w1")
  have "scheduleNextOccurrence s task w = snd (ritual_Schedule s req w1)"
    unfolding scheduleNextOccurrence_def r(1,2,4) option.case prod.case sum.case if_not_P [OF r(3)] if_not_P [OF r(5)]
    by (simp add: j req_def)
  then have "scheduleNextOccurrence s task w = w2" using c by simp
  moreover have "evolves {qrRecurrence req} (tasks w1) (tasks w2)" by (rule Schedule_evolves [OF l c])
  moreover have "tasks w1 = tasks w" using port_lawsD(3) [OF l j] by simp
  moreover have "runs_left (qrRecurrence req)" using r(3) by (auto simp: runs_left_def req_def)
  ultimately show ?thesis using evolves_mono by fastforce
qed simp

datatype ritual_op =
    OpSchedule RitualRequest
  | OpCancel string string
  | OpMarkRunning string
  | OpMarkExecuted string
  | OpMarkFailed string string

fun ritual_exec :: "'w ritual_service \<Rightarrow> ritual_op \<Rightarrow> 'w \<Rightarrow> 'w" where
  "ritual_exec s (OpSchedule req) w = snd (ritual_Schedule s req w)"
| "ritual_exec s (OpCancel i mk) w = snd (ritual_Cancel s i mk w)"
| "ritual_exec s (OpMarkRunning i) w = snd (ritual_MarkRunning s i w)"
| "ritual_exec s (OpMarkExecuted i) w = snd (ritual_MarkExecuted s i w)"
| "ritual_exec s (OpMarkFailed i why) w = snd (ritual_MarkFailed s i why w)"

fun op_recurrences :: "ritual_op \<Rightarrow> RecurrenceConfig option set" where
  "op_recurrences (OpSchedule req) = {qrRecurrence req}"
| "op_recurrences (OpMarkExecuted i) = Collect runs_left"
| "op_recurrences _ = {}"

lemma evolves_trans:
  assumes "evolves R a b" "evolves R b c"
  shows "evolves R a c"
  unfolding evolves_def
proof (intro conjI allI impI)
  fix i t
  assume "a i = Some t"
  with assms(1) obtain u where u: "b i = Some u" "may_become (riStatus t) (riStatus u)" "riRecurrence u = riRecurrence t"
    unfolding evolves_def by blast
  with assms(2) obtain v where v: "c i = Some v" "may_become (riStatus u) (riStatus v)" "riRecurrence v = riRecurrence u"
    unfolding evolves_def by blast
  with u show "\<exists>t'. c i = Some t' \<and> may_become (riStatus t) (riStatus t') \<and> riRecurrence t' = riRecurrence t"
    by (auto intro: may_become_trans)
next
  fix i v
  assume v: "c i = Some v" and a: "a i = None"
  show "riRecurrence v \<in> R"
  proof (cases "b i")
    case None
    with v assms(2) show ?thesis unfolding evolves_def by blast
  next
    case (Some u)
    with assms(2) v have "riRecurrence v = riRecurrence u" unfolding evolves_def by fastforce
    with Some a assms(1) show ?thesis unfolding evolves_def by auto
  qed
qed

lemma updates_evolves:
  assumes "updates tasks i f op" "op w = (e, w')"
    and "\<And>t. tasks w i = Some t \<Longrightarrow> may_become (riStatus t) (riStatus (f t)) \<and> riRecurrence (f t) = riRecurrence t"
  shows "evolves R (tasks w) (tasks w')"
  using updatesD [OF assms(1,2)] assms(3) by (intro evolves_old [where ok = "e = None" and i = i and f = f]) auto

lemma Cancel_evolves:
  assumes l: "ritual_laws s tasks"
  shows "evolves R (tasks w) (tasks (snd (ritual_Cancel s i mk w)))"
proof -
  obtain r w1 where f: "roFindByID (rsRepo s) i w = (r, w1)" by (cases "roFindByID (rsRepo s) i w")
  note w1 = repo_lawsD(2) [OF l f]
  show ?thesis
  proof (cases r)
    case (Inr t)
    note t = repo_lawsD(3) [OF l f [unfolded Inr]]
    obtain e w2 where k: "kpCancel (rsKeeper s) (riKeeperTaskID t) w1 = (e, w2)"
      by (cases "kpCancel (rsKeeper s) (riKeeperTaskID t) w1")
    obtain e2 w3 where u: "roUpdateStatus (rsRepo s) i RitualCancelled (rsNow s w2) w2 = (e2, w3)"
      by (cases "roUpdateStatus (rsRepo s) i RitualCancelled (rsNow s w2) w2")
    have w2: "tasks w2 = tasks w" using port_lawsD(2) [OF l k] w1 by simp
    have "riStatus t = RitualPending \<Longrightarrow> evolves R (tasks w2) (tasks w3)"
      by (rule updates_evolves [OF repo_lawsD(4) [OF l] u]) (simp add: w2 t)
    then show ?thesis
      using f Inr k u w1 w2 by (auto simp: ritual_Cancel_def split: option.split)
  qed (use f w1 in \<open>simp add: ritual_Cancel_def\<close>)
qed

lemma MarkRunning_evolves:
  assumes l: "ritual_laws s tasks"
  shows "evolves R (tasks w) (tasks (snd (ritual_MarkRunning s i w)))"
proof -
  obtain r w1 where f: "roFindByID (rsRepo s) i w = (r, w1)" by (cases "roFindByID (rsRepo s) i w")
  note w1 = repo_lawsD(2) [OF l f]
  show ?thesis
  proof (cases r)
    case (Inr t)
    note t = repo_lawsD(3) [OF l f [unfolded Inr]]
    obtain e w2 where u: "roUpdateRunning (rsRepo s) i (rsNow s w1) w1 = (e, w2)"
      by (cases "roUpdateRunning (rsRepo s) i (rsNow s w1) w1")
    have "riStatus t \<notin> {RitualExecuted, RitualFailed, RitualCancelled} \<Longrightarrow> evolves R (tasks w1) (tasks w2)"
      by (rule updates_evolves [OF repo_lawsD(5) [OF l] u]) (cases "riStatus t"; simp add: w1 t)
    then show ?thesis
      using f Inr u w1 by (auto simp: ritual_MarkRunning_def split: option.split)
  qed (use f w1 in \<open>simp add: ritual_MarkRunning_def\<close>)
qed

lemma MarkFailed_evolves:
  assumes l: "ritual_laws s tasks"
  shows "evolves R (tasks w) (tasks (snd (ritual_MarkFailed s i why w)))"
proof -
  obtain r w1 where f: "roFindByID (rsRepo s) i w = (r, w1)" by (cases "roFindByID (rsRepo s) i w")
  note w1 = repo_lawsD(2) [OF l f]
  show ?thesis
  proof (cases r)
    case (Inr t)
    obtain e w2 where u: "roUpdateFailed (rsRepo s) i (rsNow s w1) why w1 = (e, w2)"
      by (cases "roUpdateFailed (rsRepo s) i (rsNow s w1) why w1")
    have "may_become st RitualFailed" for st by (cases st) simp_all
    then have "evolves R (tasks w1) (tasks w2)"
      by (intro updates_evolves [OF repo_lawsD(6) [OF l] u]) simp
    then show ?thesis
      using f Inr u w1 by (auto simp: ritual_MarkFailed_def split: option.split)
  qed (use f w1 in \<open>simp add: ritual_MarkFailed_def\<close>)
qed

lemma MarkExecuted_evolves:
  assumes l: "ritual_laws s tasks"
  shows "evolves (Collect runs_left) (tasks w) (tasks (snd (ritual_MarkExecuted s i w)))"
proof -
  obtain r w1 where f: "roFindByID (rsRepo s) i w = (r, w1)" by (cases "roFindByID (rsRepo s) i w")
  note w1 = repo_lawsD(2) [OF l f]
  show ?thesis
  proof (cases r)
    case (Inr t)
    note t = repo_lawsD(3) [OF l f [unfolded Inr]]
    obtain e w2 where u: "roUpdateStatus (rsRepo s) i RitualExecuted (rsNow s w1) w1 = (e, w2)"
      by (cases "roUpdateStatus (rsRepo s) i RitualExecuted (rsNow s w1) w1")
    have step: "evolves (Collect runs_left) (tasks w1) (tasks w2)" if "riStatus t = RitualPending \<or> riStatus t = RitualRunning"
      by (rule updates_evolves [OF repo_lawsD(4) [OF l] u]) (use \<open>riStatus t = RitualPending \<or> riStatus t = RitualRunning\<close> in \<open>auto simp: w1 t\<close>)
    note evolves_trans [OF step next_evolves [OF l, of w2 t]]
    with step show ?thesis
      using f Inr u w1 by (auto simp: ritual_MarkExecuted_def split: option.split)
  qed (use f w1 in \<open>simp add: ritual_MarkExecuted_def\<close>)
qed

lemma ritual_exec_evolves:
  assumes "ritual_laws s tasks"
  shows "evolves (op_recurrences x) (tasks w) (tasks (ritual_exec s x w))"
  using assms
  by (cases x) (auto intro: Cancel_evolves MarkRunning_evolves MarkFailed_evolves MarkExecuted_evolves
      Schedule_evolves [OF _ prod.collapse [symmetric]])

lemma ritual_fold_evolves:
  assumes "ritual_laws s tasks" "\<forall>x \<in> set xs. op_recurrences x \<subseteq> R"
  shows "evolves R (tasks w) (tasks (fold (ritual_exec s) xs w))"
  using assms(2)
proof (induction xs arbitrary: w)
  case (Cons x xs)
  have "evolves R (tasks w) (tasks (ritual_exec s x w))"
    using evolves_mono [OF ritual_exec_evolves [OF assms(1)]] Cons.prems by auto
  with Cons show ?case by (auto intro: evolves_trans)
qed simp

lemma ritual_fold_runs:
  assumes "ritual_laws s tasks" "\<forall>req. OpSchedule req \<in> set ops \<longrightarrow> runs_left (qrRecurrence req)"
    and "\<forall>i t. tasks w i = Some t \<longrightarrow> runs_left (riRecurrence t)"
    and "tasks (fold (ritual_exec s) ops w) i = Some t"
  shows "runs_left (riRecurrence t)"
proof -
  have "op_recurrences x \<subseteq> Collect runs_left" if "x \<in> set ops" for x
    using assms(2) that by (cases x) auto
  then have "evolves (Collect runs_left) (tasks w) (tasks (fold (ritual_exec s) ops w))"
    by (intro ritual_fold_evolves [OF assms(1)]) blast
  with assms(3,4) show ?thesis
    unfolding evolves_def by (cases "tasks w i") (auto, metis option.inject)
qed

end
