(* ===== verification/DemoRitual.thy ===== *)
theory DemoRitual
  imports RitualLaws
begin

text \<open>
  The service of scheduled tasks on concrete ports: a repository that is an association list, a
  Keeper that accepts every task, a clock that stands still and identifiers longer than those in use.
\<close>

record task_world =
  twTasks :: "(string \<times> Ritual) list"
  twKeeper :: "string list"

definition tw_view :: "task_world \<Rightarrow> string \<Rightarrow> Ritual option" where
  "tw_view w = map_of (twTasks w)"

definition tw_update :: "string \<Rightarrow> (Ritual \<Rightarrow> Ritual) \<Rightarrow> task_world \<Rightarrow> gerr option \<times> task_world" where
  "tw_update i f w = (None, w\<lparr>twTasks := map (\<lambda>(k, t). (k, if k = i then f t else t)) (twTasks w)\<rparr>)"

definition tw_repo :: "task_world ritual_repo" where
  "tw_repo =
     \<lparr>roSave = (\<lambda>t w. (None, w\<lparr>twTasks := (riID t, t) # twTasks w\<rparr>)),
      roFindByID = (\<lambda>i w. (case map_of (twTasks w) i of None \<Rightarrow> Inl (ENotFound ''ritual'' i) | Some t \<Rightarrow> Inr t, w)),
      roFindPending = (\<lambda>mk limit offset w.
         (Inr (filter (\<lambda>t. riMemoryKey t = mk \<and> riStatus t = RitualPending) (map snd (twTasks w))), w)),
      roCount = (\<lambda>mk w. (Inr (int (length (filter (\<lambda>t. riMemoryKey t = mk) (map snd (twTasks w))))), w)),
      roUpdateStatus = (\<lambda>i st now. tw_update i (with_status st now)),
      roUpdateRunning = (\<lambda>i now. tw_update i (with_running now)),
      roUpdateFailed = (\<lambda>i now why. tw_update i (with_failed now why)),
      roUpdateKeeperTaskID = (\<lambda>i k. tw_update i (with_keeper k))\<rparr>"

definition tw_service :: "task_world ritual_service" where
  "tw_service =
     \<lparr>rsRepo = tw_repo,
      rsKeeper = \<lparr>kpSchedule = (\<lambda>k e x w. (Inr ''cloud'', w\<lparr>twKeeper := k # twKeeper w\<rparr>)),
                  kpCancel = (\<lambda>i w. (None, w))\<rparr>,
      rsNow = (\<lambda>w. 1000),
      rsNewID = (\<lambda>w. (replicate (Suc (sum_list (map (length \<circ> fst) (twTasks w)))) (CHR ''r''), w)),
      rsLocation = (\<lambda>z. None),
      rsCron = (\<lambda>e. Inr (\<lambda>z t. t + 60000))\<rparr>"

lemma map_of_update:
  "map_of (map (\<lambda>(k, t). (k, if k = i then f t else t)) xs) = (map_of xs)(i := map_option f (map_of xs i))"
  by (induction xs) (auto simp: fun_eq_iff)

lemma tw_updates: "updates tw_view i f (tw_update i f)"
  by (simp add: updates_def tw_view_def tw_update_def map_of_update)

lemma fresh_longer: "map_of xs (replicate (Suc (sum_list (map (length \<circ> fst) xs))) c) = None"
proof -
  have "length k \<le> sum_list (map (length \<circ> fst) xs)" if "(k, t) \<in> set xs" for k t
    using member_le_sum_list [of "length k" "map (length \<circ> fst) xs"] that by force
  then show ?thesis
    unfolding map_of_eq_None_iff by (metis (no_types, lifting) Suc_n_not_le_n imageE length_replicate prod.collapse)
qed

lemma tw_laws: "ritual_laws tw_service tw_view"
  unfolding ritual_laws_def repo_laws_def
  by (auto simp: tw_service_def tw_repo_def tw_updates tw_view_def fresh_longer
      simp del: replicate_Suc split: option.splits)

definition tw_request :: RitualRequest where
  "tw_request = \<lparr>qrEventKey = ''followup'',
     qrEvent = zero_pulse\<lparr>pID := ''e'', pMemoryKey := ''m'', pSource := ''agent''\<rparr>,
     qrExecuteAt = 5000, qrCreatedBy = ''agent'',
     qrRecurrence = Some \<lparr>cfCron = ''* * * * *'', cfTimezone = [], cfEndsAt = None, cfMaxRuns = 2, cfRunCount = 0\<rparr>,
     qrMetadata = None\<rparr>"

definition tw_empty :: task_world where
  "tw_empty = \<lparr>twTasks = [], twKeeper = []\<rparr>"

text \<open>The status a task has after some operations, and the recurrence of the next occurrence.\<close>

definition tw_status :: "ritual_op list \<Rightarrow> RitualStatus option" where
  "tw_status ops = map_option riStatus (tw_view (fold (ritual_exec tw_service) ops tw_empty) ''r'')"

lemma tw_runs:
  "tw_status [OpSchedule tw_request] = Some RitualPending"
  "tw_status [OpSchedule tw_request, OpMarkExecuted ''r''] = Some RitualExecuted"
  "tw_status [OpSchedule tw_request, OpMarkExecuted ''r'', OpCancel ''r'' ''m'', OpMarkFailed ''r'' ''late''] = Some RitualFailed"
  by code_simp+

lemma tw_second:
  "map_option riRecurrence (tw_view (fold (ritual_exec tw_service) [OpSchedule tw_request, OpMarkExecuted ''r''] tw_empty) ''rr'')
     = Some (Some \<lparr>cfCron = ''* * * * *'', cfTimezone = [], cfEndsAt = None, cfMaxRuns = 2, cfRunCount = 1\<rparr>)"
  by code_simp

end
