(* ===== verification/Regex.thy ===== *)
theory Regex
  imports Runes
begin

text \<open>
  The part of Go's package \<open>regexp\<close> that the sources use: runes and classes, sequences,
  alternatives, counted repetition, word boundaries. The engine prefers matches the way
  leftmost-first matching does: \<open>rx_ends\<close> lists the ends of the matches that start at a
  position, the preferred one first.
\<close>

section \<open>Text as a list of encoded runes\<close>

text \<open>A byte that no rune starts at stands for itself; no class of the sources contains it.\<close>

function tokens :: "string \<Rightarrow> string list" where
  "tokens [] = []"
| "tokens (a # s) = (let n = max 1 (utf8_len (a # s)) in take n (a # s) # tokens (drop (n - 1) s))"
  by pat_completeness auto
termination by (relation "measure length") auto

declare tokens.simps(2) [simp del]

lemma concat_tokens [simp]: "concat (tokens s) = s"
proof (induction s rule: tokens.induct)
  case (2 a s)
  define n where "n = max 1 (utf8_len (a # s))"
  have "take n (a # s) @ drop (n - 1) s = a # s"
    by (cases n) (simp_all add: n_def)
  moreover have "tokens (a # s) = take n (a # s) # tokens (drop (n - 1) s)"
    by (subst tokens.simps) (simp add: n_def Let_def)
  ultimately show ?case using 2 [OF n_def] by simp
qed simp

lemma tokens_ascii: "ascii s \<Longrightarrow> tokens s = map (\<lambda>c. [c]) s"
proof (induction s)
  case (Cons a s)
  then have "byte a < 128" "ascii s" by (simp_all add: ascii_def)
  then have "utf8_len (a # s) = 1" by (simp add: enc1_def)
  with Cons.IH [OF \<open>ascii s\<close>] show ?case by (simp add: tokens.simps(2))
qed simp

section \<open>Expressions\<close>

datatype rx =
    REps
  | RSet "string \<Rightarrow> bool"
  | RBound
  | RSeq rx rx
  | RAlt rx rx
  | RRep nat nat rx
  | RMin nat rx

primrec exactly :: "nat \<Rightarrow> (nat \<Rightarrow> nat list) \<Rightarrow> nat \<Rightarrow> nat list" where
  "exactly 0 f i = [i]"
| "exactly (Suc k) f i = concat (map (exactly k f) (f i))"

text \<open>At most so many more, as many as possible first.\<close>

primrec up_to :: "nat \<Rightarrow> (nat \<Rightarrow> nat list) \<Rightarrow> nat \<Rightarrow> nat list" where
  "up_to 0 f i = [i]"
| "up_to (Suc k) f i = concat (map (up_to k f) (f i)) @ [i]"

definition word_rune :: "string \<Rightarrow> bool" where
  "word_rune r = (case r of [c] \<Rightarrow> in_range 48 57 c \<or> in_range 65 90 c \<or> in_range 97 122 c \<or> byte c = 95 | _ \<Rightarrow> False)"

definition word_at :: "string list \<Rightarrow> nat \<Rightarrow> bool" where
  "word_at ts i \<longleftrightarrow> i < length ts \<and> word_rune (ts ! i)"

definition word_boundary :: "string list \<Rightarrow> nat \<Rightarrow> bool" where
  "word_boundary ts i = ((0 < i \<and> word_at ts (i - 1)) \<noteq> word_at ts i)"

text \<open>
  \<open>RRep m n\<close> is at least \<open>m\<close> and at most \<open>m + n\<close> times. \<open>RMin m\<close> has no maximum; its body
  consumes a rune, so the length of the text is one.
\<close>

primrec rx_ends :: "rx \<Rightarrow> string list \<Rightarrow> nat \<Rightarrow> nat list" where
  "rx_ends REps ts i = [i]"
| "rx_ends (RSet P) ts i = (if i < length ts \<and> P (ts ! i) then [Suc i] else [])"
| "rx_ends RBound ts i = (if word_boundary ts i then [i] else [])"
| "rx_ends (RSeq a b) ts i = concat (map (rx_ends b ts) (rx_ends a ts i))"
| "rx_ends (RAlt a b) ts i = rx_ends a ts i @ rx_ends b ts i"
| "rx_ends (RRep m n a) ts i = concat (map (up_to n (rx_ends a ts)) (exactly m (rx_ends a ts) i))"
| "rx_ends (RMin m a) ts i = concat (map (up_to (length ts) (rx_ends a ts)) (exactly m (rx_ends a ts) i))"

definition rx_MatchString :: "rx \<Rightarrow> string \<Rightarrow> bool" where
  "rx_MatchString r s = (let ts = tokens s in list_ex (\<lambda>i. rx_ends r ts i \<noteq> []) [0..<Suc (length ts)])"

text \<open>
  The leftmost matches that do not overlap, with the text between them. An empty match, which no
  expression of the sources has, would be passed over.
\<close>

primrec rx_parts :: "rx \<Rightarrow> string list \<Rightarrow> nat \<Rightarrow> nat \<Rightarrow> (bool \<times> string) list" where
  "rx_parts r ts 0 i = []"
| "rx_parts r ts (Suc k) i =
     (if length ts \<le> i then []
      else case rx_ends r ts i of
             [] \<Rightarrow> (False, ts ! i) # rx_parts r ts k (Suc i)
           | j # _ \<Rightarrow> if i < j then (True, concat (take (j - i) (drop i ts))) # rx_parts r ts k j
                     else (False, ts ! i) # rx_parts r ts k (Suc i))"

definition rx_split :: "rx \<Rightarrow> string \<Rightarrow> (bool \<times> string) list" where
  "rx_split r s = (let ts = tokens s in rx_parts r ts (length ts) 0)"

definition rx_ReplaceAll :: "rx \<Rightarrow> (string \<Rightarrow> string) \<Rightarrow> string \<Rightarrow> string" where
  "rx_ReplaceAll r f s = concat (map (\<lambda>(hit, t). if hit then f t else t) (rx_split r s))"

text \<open>Names of the pieces of an expression.\<close>

definition rx_seq :: "rx list \<Rightarrow> rx" where
  "rx_seq rs = foldr RSeq rs REps"

fun rx_alt :: "rx list \<Rightarrow> rx" where
  "rx_alt [] = RSet (\<lambda>_. False)"
| "rx_alt [r] = r"
| "rx_alt (r # rs) = RAlt r (rx_alt rs)"

definition rx_opt :: "rx \<Rightarrow> rx" where
  "rx_opt r = RRep 0 1 r"

definition one_byte :: "(char \<Rightarrow> bool) \<Rightarrow> rx" where
  "one_byte P = RSet (\<lambda>r. case r of [c] \<Rightarrow> byte c < 128 \<and> P c | _ \<Rightarrow> False)"

definition rx_digit :: rx where
  "rx_digit = one_byte (in_range 48 57)"

definition space_char :: "char \<Rightarrow> bool" where
  "space_char c = (byte c \<in> {9, 10, 12, 13, 32})"

definition rx_spaces :: rx where
  "rx_spaces = RMin 1 (one_byte space_char)"

definition rx_chars :: "string \<Rightarrow> rx" where
  "rx_chars cs = one_byte (\<lambda>c. c \<in> set cs)"

text \<open>\<open>(?i)\<close>: the two runes outside ASCII that fold to a letter are the long s and the Kelvin sign.\<close>

definition folds_to :: "char \<Rightarrow> string \<Rightarrow> bool" where
  "folds_to c r =
     (map lower_char r = [lower_char c]
      \<or> (lower_char c = CHR ''s'' \<and> r = [CHR 0xC5, CHR 0xBF])
      \<or> (lower_char c = CHR ''k'' \<and> r = [CHR 0xE2, CHR 0x84, CHR 0xAA]))"

definition rx_lit :: "string \<Rightarrow> rx" where
  "rx_lit s = rx_seq (map (\<lambda>c. RSet (folds_to c)) s)"

section \<open>What the engine keeps\<close>

lemma exactly_closed:
  "(\<And>i j. P i \<Longrightarrow> j \<in> set (f i) \<Longrightarrow> P j) \<Longrightarrow> P i \<Longrightarrow> j \<in> set (exactly k f i) \<Longrightarrow> P j"
  by (induction k arbitrary: i) auto

lemma up_to_closed:
  "(\<And>i j. P i \<Longrightarrow> j \<in> set (f i) \<Longrightarrow> P j) \<Longrightarrow> P i \<Longrightarrow> j \<in> set (up_to k f i) \<Longrightarrow> P j"
  by (induction k arbitrary: i) auto

lemma repeat_closed:
  assumes "\<And>i j. P i \<Longrightarrow> j \<in> set (f i) \<Longrightarrow> P j" "P i" "j \<in> set (concat (map (up_to n f) (exactly m f i)))"
  shows "P j"
proof -
  from assms(3) obtain e where "e \<in> set (exactly m f i)" "j \<in> set (up_to n f e)" by auto
  with assms(1,2) exactly_closed [of P f] up_to_closed [of P f] show ?thesis by blast
qed

lemma rx_ends_closed:
  assumes step: "\<And>i. P i \<Longrightarrow> i < length ts \<Longrightarrow> P (Suc i)"
  shows "P i \<Longrightarrow> j \<in> set (rx_ends r ts i) \<Longrightarrow> P j"
proof (induction r arbitrary: i j)
  case (RSeq r1 r2)
  from RSeq.prems(2) obtain e where e: "e \<in> set (rx_ends r1 ts i)" "j \<in> set (rx_ends r2 ts e)" by auto
  from RSeq.IH(1) [OF RSeq.prems(1) e(1)] have "P e" .
  from RSeq.IH(2) [OF this e(2)] show ?case .
next
  case (RRep m n r)
  from RRep.IH RRep.prems(1) RRep.prems(2) [unfolded rx_ends.simps] show ?case by (rule repeat_closed)
next
  case (RMin m r)
  from RMin.IH RMin.prems(1) RMin.prems(2) [unfolded rx_ends.simps] show ?case by (rule repeat_closed)
next
  case (RSet p)
  with step [of i] show ?case by (simp split: if_splits)
next
  case (RAlt r1 r2)
  from RAlt.prems(2) consider "j \<in> set (rx_ends r1 ts i)" | "j \<in> set (rx_ends r2 ts i)" by auto
  then show ?case by cases (fact RAlt.IH [OF RAlt.prems(1)])+
next
  case RBound
  then show ?case by (simp split: if_splits)
qed simp

lemma rx_ends_le: "j \<in> set (rx_ends r ts i) \<Longrightarrow> i \<le> j"
  by (rule rx_ends_closed [where P = "\<lambda>j. i \<le> j" and i = i]) simp_all

lemma rx_ends_bound: "j \<in> set (rx_ends r ts i) \<Longrightarrow> i \<le> length ts \<Longrightarrow> j \<le> length ts"
  by (rule rx_ends_closed [where P = "\<lambda>j. j \<le> length ts" and i = i and ts = ts]) simp_all

text \<open>The parts of a text are the text.\<close>

lemma rx_parts_concat: "length ts - i \<le> k \<Longrightarrow> concat (map snd (rx_parts r ts k i)) = concat (drop i ts)"
proof (induction k arbitrary: i)
  case (Suc k)
  show ?case
  proof (cases "length ts \<le> i")
    case False
    have one: "concat (drop i ts) = ts ! i @ concat (drop (Suc i) ts)"
      using False by (simp add: Cons_nth_drop_Suc [symmetric])
    have cut: "concat (drop i ts) = concat (take (j - i) (drop i ts)) @ concat (drop j ts)" if "i < j" for j
      using append_take_drop_id [of "j - i" "drop i ts"] \<open>i < j\<close>
      by (metis concat_append drop_drop le_add_diff_inverse2 less_imp_le_nat)
    show ?thesis
      using Suc False one cut by (auto split: list.split)
  qed simp
qed simp

lemma rx_split_concat [simp]: "concat (map snd (rx_split r s)) = s"
  by (simp add: rx_split_def Let_def rx_parts_concat)

lemma rx_ReplaceAll_same:
  assumes "\<And>t. (True, t) \<in> set (rx_split r s) \<Longrightarrow> f t = t"
  shows "rx_ReplaceAll r f s = s"
proof -
  have "map (\<lambda>(hit, t). if hit then f t else t) (rx_split r s) = map snd (rx_split r s)"
    using assms by auto
  then show ?thesis unfolding rx_ReplaceAll_def by (simp only: rx_split_concat)
qed

end
