(* ===== verification/Pii.thy ===== *)
theory Pii
  imports Regex
begin

text \<open>
  Personal data (\<open>internal/helpers/pii.go\<close>): hiding phone numbers in logs, and the redaction of
  answers with its three expressions and the Luhn check.
\<close>

section \<open>Phones in logs\<close>

definition ObfuscatePhone :: "string \<Rightarrow> string" where
  "ObfuscatePhone phone =
     (if length phone \<le> 4 * 2 then replicate (length phone) (CHR ''*'')
      else take 4 phone @ ''****'' @ drop (length phone - 4) phone)"

section \<open>Kinds and expressions\<close>

datatype PIIKind = PIIEmail | PIICreditCard | PIIPhone

definition allPIIKinds :: "PIIKind list" where
  "allPIIKinds = [PIIEmail, PIICreditCard, PIIPhone]"

definition letter_char :: "char \<Rightarrow> bool" where
  "letter_char c \<longleftrightarrow> in_range 65 90 c \<or> in_range 97 122 c"

definition emailPattern :: rx where
  "emailPattern =
     rx_seq [RMin 1 (one_byte (\<lambda>c. letter_char c \<or> in_range 48 57 c \<or> c \<in> set ''._%+-'')),
             rx_chars ''@'',
             RMin 1 (one_byte (\<lambda>c. letter_char c \<or> in_range 48 57 c \<or> c \<in> set ''.-'')),
             rx_chars ''.'', RMin 2 (one_byte letter_char)]"

definition cardPattern :: rx where
  "cardPattern = rx_seq [RBound, rx_digit, RRep 12 6 (RSeq (rx_opt (rx_chars '' -'')) rx_digit), RBound]"

definition phone_sep :: rx where
  "phone_sep = one_byte (\<lambda>c. space_char c \<or> c \<in> set ''.-'')"

definition digits_of :: "nat \<Rightarrow> rx" where
  "digits_of n = RRep n 0 rx_digit"

definition phonePattern :: rx where
  "phonePattern =
     rx_alt [rx_seq [rx_chars ''+'', rx_digit, RMin 6 (one_byte (\<lambda>c. in_range 48 57 c \<or> space_char c \<or> c \<in> set ''().-'')), rx_digit],
             rx_seq [rx_chars ''('', digits_of 3, rx_chars '')'', rx_opt phone_sep, digits_of 3, rx_opt phone_sep, digits_of 4],
             rx_seq [RBound, digits_of 3, phone_sep, digits_of 3, phone_sep, digits_of 4, RBound]]"

section \<open>The Luhn check\<close>

definition luhn_weight :: "bool \<Rightarrow> nat \<Rightarrow> nat" where
  "luhn_weight alt d = (if alt then (if d * 2 > 9 then d * 2 - 9 else d * 2) else d)"

text \<open>The loop over the bytes from the last one; it returns the sum and the number of digits.\<close>

fun luhn_loop :: "string \<Rightarrow> bool \<Rightarrow> nat \<Rightarrow> nat \<Rightarrow> nat \<times> nat" where
  "luhn_loop [] alt tot digits = (tot, digits)"
| "luhn_loop (c # s) alt tot digits =
     (if in_range 48 57 c
      then luhn_loop s (\<not> alt) (tot + luhn_weight alt (byte c - 48)) (Suc digits)
      else luhn_loop s alt tot digits)"

definition isLuhnValid :: "string \<Rightarrow> bool" where
  "isLuhnValid s =
     (case luhn_loop (rev s) False 0 0 of (tot, digits) \<Rightarrow> 13 \<le> digits \<and> digits \<le> 19 \<and> tot mod 10 = 0)"

section \<open>Redaction\<close>

text \<open>One pass: the text with its matches replaced, and whether one was.\<close>

definition redact_pass :: "rx \<Rightarrow> (string \<Rightarrow> bool) \<Rightarrow> string \<Rightarrow> string \<Rightarrow> string \<times> bool" where
  "redact_pass r ok msk t =
     (rx_ReplaceAll r (\<lambda>m. if ok m then msk else m) t, list_ex (\<lambda>(hit, m). hit \<and> ok m) (rx_split r t))"

definition RedactPII :: "string \<Rightarrow> PIIKind list \<Rightarrow> string \<Rightarrow> string \<times> PIIKind list" where
  "RedactPII t0 kinds msk =
     (let enabled = (\<lambda>k. kinds = [] \<or> k \<in> set kinds);
          (t1, card) = (if enabled PIICreditCard then redact_pass cardPattern isLuhnValid msk t0 else (t0, False));
          (t2, phone) = (if enabled PIIPhone then redact_pass phonePattern (\<lambda>_. True) msk t1 else (t1, False));
          (t3, email) = (if enabled PIIEmail then redact_pass emailPattern (\<lambda>_. True) msk t2 else (t2, False))
      in (t3, filter (\<lambda>k. case k of PIIEmail \<Rightarrow> email | PIICreditCard \<Rightarrow> card | PIIPhone \<Rightarrow> phone) allPIIKinds))"

section \<open>What redaction does\<close>

lemma redact_pass_miss: "\<not> snd (redact_pass r ok msk t) \<Longrightarrow> fst (redact_pass r ok msk t) = t"
  unfolding redact_pass_def fst_conv snd_conv
  by (rule rx_ReplaceAll_same) (auto simp: list_ex_iff)

text \<open>A text in which nothing is found is returned as it is; only enabled kinds are reported.\<close>

lemma redact_nothing: "snd (RedactPII t kinds msk) = [] \<Longrightarrow> fst (RedactPII t kinds msk) = t"
proof -
  assume none: "snd (RedactPII t kinds msk) = []"
  define on where "on k = (kinds = [] \<or> k \<in> set kinds)" for k
  obtain t1 c where 1: "(if on PIICreditCard then redact_pass cardPattern isLuhnValid msk t else (t, False)) = (t1, c)"
    by fastforce
  obtain t2 p where 2: "(if on PIIPhone then redact_pass phonePattern (\<lambda>_. True) msk t1 else (t1, False)) = (t2, p)"
    by fastforce
  obtain t3 e where 3: "(if on PIIEmail then redact_pass emailPattern (\<lambda>_. True) msk t2 else (t2, False)) = (t3, e)"
    by fastforce
  have r: "RedactPII t kinds msk
      = (t3, filter (\<lambda>k. case k of PIIEmail \<Rightarrow> e | PIICreditCard \<Rightarrow> c | PIIPhone \<Rightarrow> p) allPIIKinds)"
    unfolding RedactPII_def on_def [symmetric] Let_def 1 2 3 prod.case ..
  have miss: "t' = u" if "(if b then redact_pass x ok msk u else (u, False)) = (t', False)" for b x ok u t'
    using that redact_pass_miss [of x ok msk u] by (simp split: if_splits)
  have off: "c = False" "p = False" "e = False" using none by (auto simp: r allPIIKinds_def split: if_splits)
  have "t1 = t" by (rule miss [OF 1 [unfolded off]])
  moreover have "t2 = t1" by (rule miss [OF 2 [unfolded off]])
  moreover have "t3 = t2" by (rule miss [OF 3 [unfolded off]])
  ultimately show ?thesis by (simp add: r)
qed

lemma redact_kinds: "k \<in> set (snd (RedactPII t kinds msk)) \<Longrightarrow> kinds = [] \<or> k \<in> set kinds"
  by (auto simp: RedactPII_def Let_def allPIIKinds_def split: prod.splits if_splits PIIKind.splits)

subsection \<open>The check finds every wrong digit\<close>

fun luhn_sum :: "bool \<Rightarrow> string \<Rightarrow> nat" where
  "luhn_sum alt [] = 0"
| "luhn_sum alt (c # s) =
     (if in_range 48 57 c then luhn_weight alt (byte c - 48) + luhn_sum (\<not> alt) s else luhn_sum alt s)"

definition digit_count :: "string \<Rightarrow> nat" where
  "digit_count s = length (filter (in_range 48 57) s)"

lemma luhn_loop_sum: "luhn_loop s alt a n = (a + luhn_sum alt s, n + digit_count s)"
  by (induction s alt a n rule: luhn_loop.induct) (auto simp: digit_count_def)

lemma luhn_sum_append:
  "luhn_sum alt (s @ t) = luhn_sum alt s + luhn_sum (alt \<noteq> odd (digit_count s)) t"
  by (induction alt s rule: luhn_sum.induct) (auto simp: digit_count_def)

lemma isLuhnValid_sum:
  "isLuhnValid s \<longleftrightarrow> 13 \<le> digit_count s \<and> digit_count s \<le> 19 \<and> luhn_sum False (rev s) mod 10 = 0"
  by (simp add: isLuhnValid_def luhn_loop_sum digit_count_def rev_filter [symmetric])

lemma luhn_weight_table:
  "list_all (\<lambda>x. list_all (\<lambda>y. list_all (\<lambda>a. luhn_weight a x < 10 \<and> (luhn_weight a x = luhn_weight a y \<longrightarrow> x = y))
      [True, False]) [0..<10]) [0..<10]"
  by code_simp

lemma luhn_weight_digit:
  assumes "d < 10" "e < 10"
  shows "luhn_weight alt d < 10" "luhn_weight alt d = luhn_weight alt e \<Longrightarrow> d = e"
proof -
  have "d \<in> set [0..<10]" "e \<in> set [0..<10]" "alt \<in> set [True, False]" using assms by simp_all
  then show "luhn_weight alt d < 10" "luhn_weight alt d = luhn_weight alt e \<Longrightarrow> d = e"
    using luhn_weight_table unfolding list_all_iff by blast+
qed

lemma same_residue:
  assumes "(a + x) mod 10 = 0" "(a + y) mod 10 = 0" "x < 10" "y < (10::nat)"
  shows "x = y"
proof -
  from assms(1,2) obtain k l where "a + x = 10 * k" "a + y = 10 * l" by (meson dvd_eq_mod_eq_0 dvdE)
  with assms(3,4) show ?thesis by (cases k l rule: linorder_cases) linarith+
qed

lemma luhn_wrong_digit:
  assumes "isLuhnValid (a @ c # b)" "in_range 48 57 c" "in_range 48 57 d" "d \<noteq> c"
  shows "\<not> isLuhnValid (a @ d # b)"
proof
  assume v: "isLuhnValid (a @ d # b)"
  define alt where "alt = odd (digit_count (rev b))"
  have s: "luhn_sum False (rev (a @ x # b))
      = (luhn_sum False (rev b) + luhn_sum (\<not> alt) (rev a)) + luhn_weight alt (byte x - 48)" if "in_range 48 57 x" for x
    using that by (simp add: luhn_sum_append alt_def)
  have d: "byte c - 48 < 10" "byte d - 48 < 10"
    using assms(2,3) unfolding in_range_def by linarith+
  have "luhn_weight alt (byte c - 48) = luhn_weight alt (byte d - 48)"
    using assms(1) v luhn_weight_digit(1) [OF d] luhn_weight_digit(1) [OF d(2,1)]
    unfolding isLuhnValid_sum s [OF assms(2)] s [OF assms(3)] by (elim conjE) (rule same_residue)
  then have "byte c - 48 = byte d - 48" by (rule luhn_weight_digit(2) [OF d])
  then have "byte c = byte d" using assms(2,3) unfolding in_range_def by linarith
  then show False using assms(4) unfolding byte_def by (simp only: of_char_eq_iff)
qed

text \<open>
  A number that touches the card hides it: the longest candidate is tried, fails the check, and the
  text it covers is not looked at again.
\<close>

lemma card_leaks:
  "isLuhnValid ''4111111111111111''"
  "RedactPII ''card 4111111111111111'' [PIICreditCard] ''X'' = (''card X'', [PIICreditCard])"
  "RedactPII ''2 4111111111111111'' [PIICreditCard] ''X'' = (''2 4111111111111111'', [])"
  by code_simp+

lemma redact_examples:
  "RedactPII ''a@b.io'' [] ''#'' = (''#'', [PIIEmail])"
  by code_simp

end
