(* ===== verification/Config.thy ===== *)
theory Config
  imports Pulse Links Executor Pii
begin

text \<open>
  The configuration of a Weave and its checks (\<open>orchestrator/config.go\<close>), and the validator of
  incoming Pulses (\<open>orchestrator/validator.go\<close>) with its expressions against prompt injection.
  Durations are nanoseconds in 64 bits.
\<close>

section \<open>Configuration\<close>

record GuardConfig =
  gcPromptInjectionDetection :: bool
  gcMaxLineCount :: int

record OutputGuardConfig =
  ocRedactPII :: bool
  ocPIIKinds :: "PIIKind list"
  ocRedactionMask :: string
  ocBlockedPatterns :: "string list"
  ocBlockedMessage :: string

definition output_guard_enabled :: "OutputGuardConfig \<Rightarrow> bool" where
  "output_guard_enabled g \<longleftrightarrow> ocRedactPII g \<or> ocBlockedPatterns g \<noteq> []"

record WeaveConfig =
  wcLockTTL :: int
  wcLockAcquireTimeout :: int
  wcScoutTimeout :: int
  wcSpiritSelectionTimeout :: int
  wcSpiritLoadTimeout :: int
  wcSessionTimeout :: int
  wcReasoningTimeout :: int
  wcPersistenceTimeout :: int
  wcMaxReasoningIterations :: int
  wcMaxMemoryMessages :: int
  wcMaxIterationsMessage :: string
  wcEnableMemoryReconstruction :: bool
  wcMemoryReconstructionLimit :: int
  wcParallelActionExecution :: bool
  wcActionRetryMaxAttempts :: int
  wcActionRetryBaseDelay :: int
  wcMaxActionsPerCycle :: int
  wcInputGuard :: GuardConfig
  wcOutputGuard :: OutputGuardConfig
  wcToolResultLimits :: ToolResultLimits
  wcProgressPolicy :: ProgressPolicy
  wcCompressionPolicy :: CompressionPolicy
  wcReflectionPolicy :: ReflectionPolicy
  wcGroundingPolicy :: GroundingPolicy
  wcPlanPolicy :: PlanPolicy
  wcHandoffPolicy :: HandoffPolicy
  wcInboxMinWindow :: int
  wcMessageCoalescingTimeout :: int
  wcIdempotencyTTL :: int
  wcMaxSessionKeyLength :: int
  wcMaxUserMessageLength :: int
  wcMaxEventContextSize :: int
  wcMaxConcurrentEvents :: int

definition time_second :: int where
  "time_second = 1000000000"

text \<open>The fields the literal leaves out have their zero values.\<close>

definition DefaultWeaveConfig :: WeaveConfig where
  "DefaultWeaveConfig =
     \<lparr>wcLockTTL = 120 * time_second + 30 * time_second, wcLockAcquireTimeout = 5 * time_second,
      wcScoutTimeout = 10 * time_second, wcSpiritSelectionTimeout = 30 * time_second,
      wcSpiritLoadTimeout = 5 * time_second, wcSessionTimeout = 5 * time_second,
      wcReasoningTimeout = 120 * time_second, wcPersistenceTimeout = 10 * time_second,
      wcMaxReasoningIterations = 5, wcMaxMemoryMessages = 10,
      wcMaxIterationsMessage = ''I'' @ [CHR 0x27] @ ''ve reached my processing limit. Please try again with a more specific question.'',
      wcEnableMemoryReconstruction = True, wcMemoryReconstructionLimit = 10,
      wcParallelActionExecution = False, wcActionRetryMaxAttempts = 1, wcActionRetryBaseDelay = 0,
      wcMaxActionsPerCycle = 20,
      wcInputGuard = \<lparr>gcPromptInjectionDetection = True, gcMaxLineCount = 200\<rparr>,
      wcOutputGuard = \<lparr>ocRedactPII = False, ocPIIKinds = [], ocRedactionMask = [], ocBlockedPatterns = [],
                       ocBlockedMessage = []\<rparr>,
      wcToolResultLimits = \<lparr>rlMaxChars = 0, rlStrategy = ToolShapeTruncate, rlKeepHead = 0, rlKeepTail = 0\<rparr>,
      wcProgressPolicy = \<lparr>prEnabled = False, prStallWindow = 0\<rparr>,
      wcCompressionPolicy = \<lparr>coEnabled = False, coMaxContextChars = 0, coKeepRecent = 0\<rparr>,
      wcReflectionPolicy = \<lparr>rfEnabled = False, rfMaxRounds = 0, rfModel = [], rfCriteria = []\<rparr>,
      wcGroundingPolicy = \<lparr>grEnabled = False, grMinCitations = 0, grOnViolation = GroundingUnset, grBlockedMessage = []\<rparr>,
      wcPlanPolicy = \<lparr>plEnabled = False, plMaxItems = 0, plRequired = False\<rparr>,
      wcHandoffPolicy = \<lparr>hoEnabled = False, hoMinConfidence = ConfidenceOther [], hoMode = HandoffModeOther [],
                         hoHoldingMessage = [], hoUncertaintyMarkers = []\<rparr>,
      wcInboxMinWindow = 0, wcMessageCoalescingTimeout = 10 * time_second,
      wcIdempotencyTTL = 24 * 3600 * time_second,
      wcMaxSessionKeyLength = 256, wcMaxUserMessageLength = 50000, wcMaxEventContextSize = 100000,
      wcMaxConcurrentEvents = 100\<rparr>"

text \<open>The expressions \<open>regexp.Compile\<close> rejects; each gives its error.\<close>

fun bad_pattern :: "(string \<Rightarrow> gerr option) \<Rightarrow> string list \<Rightarrow> gerr option" where
  "bad_pattern compile [] = None"
| "bad_pattern compile (p # ps) =
     (case compile p of
        Some e \<Rightarrow> Some (ErrInvalidConfig (''OutputGuard.BlockedPatterns: invalid pattern '' @ quote_q p @ '': '' @ err_text e))
      | None \<Rightarrow> bad_pattern compile ps)"

text \<open>\<open>dur\<close> prints a duration.\<close>

definition WeaveConfig_Validate :: "(int \<Rightarrow> string) \<Rightarrow> (string \<Rightarrow> gerr option) \<Rightarrow> WeaveConfig \<Rightarrow> gerr option" where
  "WeaveConfig_Validate dur compile c =
     (if wcLockTTL c \<le> 0 then Some (ErrInvalidConfig ''LockTTL must be positive'')
      else if 0 < wcReasoningTimeout c \<and> wcLockTTL c < wrap64 (wcReasoningTimeout c + 15 * time_second)
      then Some (ErrInvalidConfig (''LockTTL ('' @ dur (wcLockTTL c) @ '') must be at least ReasoningTimeout ('' @ dur (wcReasoningTimeout c)
             @ '') + 15s to prevent lock expiry during reasoning; set LockTTL to ''
             @ dur (wrap64 (wcReasoningTimeout c + 30 * time_second)) @ '' or higher''))
      else if wcMaxReasoningIterations c \<le> 0 then Some (ErrInvalidConfig ''MaxReasoningIterations must be positive'')
      else if wcMaxMemoryMessages c \<le> 0 then Some (ErrInvalidConfig ''MaxMemoryMessages must be positive'')
      else if wcMaxSessionKeyLength c \<le> 0 then Some (ErrInvalidConfig ''MaxSessionKeyLength must be positive'')
      else if wcMaxUserMessageLength c \<le> 0 then Some (ErrInvalidConfig ''MaxUserMessageLength must be positive'')
      else bad_pattern compile (ocBlockedPatterns (wcOutputGuard c)))"

lemma bad_pattern_None: "bad_pattern compile ps = None \<longleftrightarrow> (\<forall>p \<in> set ps. compile p = None)"
  by (induction ps) (auto split: option.splits)

lemma WeaveConfig_Validate_None:
  "WeaveConfig_Validate dur compile c = None \<longleftrightarrow>
     0 < wcLockTTL c
     \<and> (0 < wcReasoningTimeout c \<longrightarrow> wrap64 (wcReasoningTimeout c + 15 * time_second) \<le> wcLockTTL c)
     \<and> 0 < wcMaxReasoningIterations c \<and> 0 < wcMaxMemoryMessages c \<and> 0 < wcMaxSessionKeyLength c
     \<and> 0 < wcMaxUserMessageLength c \<and> (\<forall>p \<in> set (ocBlockedPatterns (wcOutputGuard c)). compile p = None)"
  by (auto simp: WeaveConfig_Validate_def bad_pattern_None)

lemma default_config_valid: "WeaveConfig_Validate dur compile DefaultWeaveConfig = None"
  by (simp add: WeaveConfig_Validate_None DefaultWeaveConfig_def time_second_def wrap64_in_range in_int64_def)

section \<open>Prompt injection\<close>

definition rx_word :: "string list \<Rightarrow> rx" where
  "rx_word ws = rx_alt (map rx_lit ws)"

text \<open>\<open>(w\s+)?\<close>, for one word or several.\<close>

definition opt_word :: "string list \<Rightarrow> rx" where
  "opt_word ws = rx_opt (rx_alt (map (\<lambda>w. rx_seq [rx_lit w, rx_spaces]) ws))"

definition rx_runes :: "string list \<Rightarrow> rx" where
  "rx_runes rs = RSet (\<lambda>r. r \<in> set rs)"

definition injectionPatterns :: "rx list" where
  "injectionPatterns =
    [rx_seq [rx_lit ''ignore'', rx_spaces, opt_word [''all'', ''the''], rx_word [''previous'', ''above'', ''prior''], rx_spaces, rx_lit ''instruction''],
     rx_seq [rx_lit ''disregard'', rx_spaces, opt_word [''all'', ''the''], rx_word [''previous'', ''above'', ''prior'']],
     rx_seq [rx_lit ''forget'', rx_spaces, opt_word [''all'', ''the''], rx_word [''previous'', ''above'', ''prior''], rx_spaces, rx_lit ''instruction''],
     rx_lit ''<|im_start|>'',
     rx_word [''[INST]'', ''[/INST]''],
     rx_runes [[CHR 0x00]],
     rx_runes [[CHR 0xE2, CHR 0x80, CHR 0xAE], [CHR 0xE2, CHR 0x80, CHR 0xAD]],
     rx_runes [[CHR 0xE2, CHR 0x80, CHR 0x8B], [CHR 0xE2, CHR 0x80, CHR 0x8C], [CHR 0xE2, CHR 0x80, CHR 0x8D], [CHR 0xEF, CHR 0xBB, CHR 0xBF]],
     rx_seq [RBound, rx_lit ''do'', rx_spaces, rx_lit ''anything'', rx_spaces, rx_lit ''now'', RBound],
     rx_seq [RBound, rx_lit ''jailbreak'', RBound],
     rx_seq [rx_lit ''developer'', rx_spaces, rx_lit ''mode'', rx_spaces, rx_word [''enabled'', ''on'']],
     rx_seq [rx_word [''reveal'', ''show'', ''print'', ''repeat'', ''expose''], rx_spaces, opt_word [''me''], opt_word [''your'', ''the''],
             rx_alt [rx_seq [rx_lit ''system'', rx_spaces, rx_lit ''prompt''], rx_seq [rx_lit ''initial'', rx_spaces, rx_lit ''instructions''],
                     rx_seq [rx_lit ''system'', rx_spaces, rx_lit ''message'']]],
     rx_seq [rx_alt [rx_lit ''ignore'', rx_lit ''bypass'', rx_lit ''disable'', rx_seq [rx_lit ''turn'', rx_spaces, rx_lit ''off'']], rx_spaces,
             opt_word [''your'', ''the''], rx_word [''safety'', ''content'', ''moderation''], rx_spaces,
             rx_alt [rx_seq [rx_lit ''guideline'', rx_opt (rx_lit ''s'')], rx_lit ''policy'', rx_lit ''policies'',
                     rx_seq [rx_lit ''filter'', rx_opt (rx_lit ''s'')], rx_seq [rx_lit ''rule'', rx_opt (rx_lit ''s'')]]],
     rx_seq [rx_alt [rx_seq [rx_lit ''you'', rx_spaces, rx_lit ''are'', rx_spaces, rx_lit ''now''],
                     rx_seq [rx_lit ''pretend'', rx_spaces, rx_alt [rx_seq [rx_lit ''you'', rx_spaces, rx_lit ''are''], rx_seq [rx_lit ''to'', rx_spaces, rx_lit ''be'']]],
                     rx_seq [rx_lit ''act'', rx_spaces, rx_lit ''as'']], rx_spaces,
             rx_opt (rx_seq [rx_lit ''a'', rx_opt (rx_lit ''n''), rx_spaces]),
             rx_word [''unrestricted'', ''uncensored'', ''jailbroken'', ''evil'']]]"

section \<open>The validator\<close>

text \<open>\<open>unicode.IsControl\<close> on an encoded rune.\<close>

definition control_rune :: "string \<Rightarrow> bool" where
  "control_rune r =
     (case r of
        [c] \<Rightarrow> byte c < 32 \<or> byte c = 127
      | [a, b] \<Rightarrow> byte a = 194 \<and> in_range 128 159 b
      | _ \<Rightarrow> False)"

definition disallowed_control :: "string \<Rightarrow> bool" where
  "disallowed_control r \<longleftrightarrow> control_rune r \<and> r \<noteq> [CHR 0x0A] \<and> r \<noteq> [CHR 0x0D] \<and> r \<noteq> [CHR 0x09]"

definition validateInputGuard :: "GuardConfig \<Rightarrow> string \<Rightarrow> gerr option" where
  "validateInputGuard guard message =
     (if 0 < gcMaxLineCount guard \<and> gcMaxLineCount guard \<le> int (count_list message (CHR 0x0A))
      then Some (ErrValidationFailed ''user_message'' ''exceeds maximum line count'')
      else if gcPromptInjectionDetection guard
      then (if list_ex (\<lambda>p. rx_MatchString p message) injectionPatterns then Some ErrPromptInjectionDetected
            else if list_ex disallowed_control (runes message)
            then Some (ErrValidationFailed ''user_message'' ''contains disallowed control characters'')
            else None)
      else None)"

text \<open>\<open>json\<close> is \<open>json.Marshal\<close>, \<open>None\<close> on error.\<close>

definition EventValidator_Validate :: "(gmap \<Rightarrow> string option) \<Rightarrow> WeaveConfig \<Rightarrow> pulse \<Rightarrow> gerr option" where
  "EventValidator_Validate json c e =
     (if pMemoryKey e = [] then Some (ErrValidationFailed ''memory_key'' ''cannot be empty'')
      else if wcMaxSessionKeyLength c < int (length (pMemoryKey e))
      then Some (ErrValidationFailed ''memory_key'' ''exceeds maximum length'')
      else if wcMaxUserMessageLength c < int (length (pUserMessage e))
      then Some (ErrValidationFailed ''user_message'' ''exceeds maximum length'')
      else case (if pUserMessage e \<noteq> [] then validateInputGuard (wcInputGuard c) (pUserMessage e) else None) of
        Some err \<Rightarrow> Some err
      | None \<Rightarrow>
          if (case pKnowledge e of
                None \<Rightarrow> False
              | Some k \<Rightarrow> (case json k of None \<Rightarrow> False | Some d \<Rightarrow> wcMaxEventContextSize c < int (length d)))
          then Some (ErrValidationFailed ''knowledge'' ''exceeds maximum size'')
          else if pID e = [] then Some (ErrValidationFailed ''id'' ''cannot be empty'')
          else None)"

definition ValidateEventConfiguration :: "link \<Rightarrow> gerr option" where
  "ValidateEventConfiguration l =
     (if lEventType l = [] then Some (ErrValidationFailed ''event_type'' ''cannot be empty'')
      else if lInboundConverterName l = [] then Some (ErrValidationFailed ''inbound_converter_name'' ''cannot be empty'')
      else if lAllowedSpirits l = [] \<and> lDefaultSpirit l = []
      then Some (ErrValidationFailed ''spirits'' ''must specify at least one allowed spirit or a default spirit'')
      else None)"

text \<open>What an accepted Pulse satisfies, and nothing else is accepted.\<close>

definition clean_message :: "GuardConfig \<Rightarrow> string \<Rightarrow> bool" where
  "clean_message g m \<longleftrightarrow>
     (0 < gcMaxLineCount g \<longrightarrow> int (count_list m (CHR 0x0A)) < gcMaxLineCount g)
     \<and> (gcPromptInjectionDetection g \<longrightarrow>
          (\<forall>p \<in> set injectionPatterns. \<not> rx_MatchString p m) \<and> (\<forall>r \<in> set (runes m). \<not> disallowed_control r))"

lemma validateInputGuard_None: "validateInputGuard g m = None \<longleftrightarrow> clean_message g m"
  by (auto simp: validateInputGuard_def clean_message_def list_ex_iff)

definition well_formed_pulse :: "(gmap \<Rightarrow> string option) \<Rightarrow> WeaveConfig \<Rightarrow> pulse \<Rightarrow> bool" where
  "well_formed_pulse json c e \<longleftrightarrow>
     pMemoryKey e \<noteq> [] \<and> int (length (pMemoryKey e)) \<le> wcMaxSessionKeyLength c
     \<and> int (length (pUserMessage e)) \<le> wcMaxUserMessageLength c
     \<and> (pUserMessage e \<noteq> [] \<longrightarrow> clean_message (wcInputGuard c) (pUserMessage e))
     \<and> (\<forall>k d. pKnowledge e = Some k \<longrightarrow> json k = Some d \<longrightarrow> int (length d) \<le> wcMaxEventContextSize c)
     \<and> pID e \<noteq> []"

lemma EventValidator_Validate_None: "EventValidator_Validate json c e = None \<longleftrightarrow> well_formed_pulse json c e"
  using validateInputGuard_None [of "wcInputGuard c" "pUserMessage e"]
  unfolding EventValidator_Validate_def well_formed_pulse_def
  by (cases "validateInputGuard (wcInputGuard c) (pUserMessage e)") (auto split: option.splits)

text \<open>Whatever is refused is refused with one of two codes, which the audit log shows alike.\<close>

lemma EventValidator_Validate_code:
  "EventValidator_Validate json c e = Some err \<Longrightarrow>
     orch_code err = Some ''VALIDATION_FAILED'' \<or> orch_code err = Some ''PROMPT_INJECTION_DETECTED''"
  by (auto simp: EventValidator_Validate_def validateInputGuard_def ErrValidationFailed_def ErrPromptInjectionDetected_def
      orch_code_def split: option.splits if_splits)

end
