(* ===== verification/ConfigCache.thy ===== *)
theory ConfigCache
  imports Config
begin

text \<open>
  The cache of Links that every instance keeps (\<open>orchestrator/config_cache.go\<close>), its operations
  over a repository and a channel, and the instances together: a step relation over their
  repository writes, cache writes, publications and reloads in any interleaving.
\<close>

section \<open>One instance\<close>

record 'w link_repo =
  lrFindAll :: "'w \<Rightarrow> (gerr + link list) \<times> 'w"
  lrFindByKey :: "string \<Rightarrow> 'w \<Rightarrow> (gerr + link) \<times> 'w"
  lrSave :: "link \<Rightarrow> 'w \<Rightarrow> gerr option \<times> 'w"
  lrDelete :: "string \<Rightarrow> 'w \<Rightarrow> gerr option \<times> 'w"

type_synonym link_map = "(string \<times> link) list"

record 'w config_cache =
  ccRepo :: "'w link_repo option"
  ccPublish :: "(string \<Rightarrow> string \<Rightarrow> 'w \<Rightarrow> gerr option \<times> 'w) option"

definition configReloadChannel :: string where
  "configReloadChannel = ''eywa:config:reload''"

definition RegisterLink :: "link \<Rightarrow> link_map \<Rightarrow> link_map" where
  "RegisterLink l ls = AList.update (lEventType l) l ls"

definition GetLink :: "link_map \<Rightarrow> string \<Rightarrow> link option" where
  "GetLink ls k = map_of ls k"

definition GetAllLinks :: "link_map \<Rightarrow> link list" where
  "GetAllLinks ls = map snd ls"

definition LoadAll :: "'w config_cache \<Rightarrow> link_map \<Rightarrow> 'w \<Rightarrow> gerr option \<times> link_map \<times> 'w" where
  "LoadAll c ls w =
     (case ccRepo c of
        None \<Rightarrow> (None, ls, w)
      | Some r \<Rightarrow>
          (case lrFindAll r w of
             (Inl e, w1) \<Rightarrow> (Some (EWrap ''load links'' e), ls, w1)
           | (Inr found, w1) \<Rightarrow> (None, fold RegisterLink found ls, w1)))"

text \<open>A publication that fails is logged.\<close>

definition publish_reload :: "'w config_cache \<Rightarrow> string \<Rightarrow> 'w \<Rightarrow> 'w" where
  "publish_reload c k w =
     (case ccPublish c of None \<Rightarrow> w | Some publish \<Rightarrow> snd (publish configReloadChannel (''link:'' @ k) w))"

definition SaveLink :: "'w config_cache \<Rightarrow> link \<Rightarrow> link_map \<Rightarrow> 'w \<Rightarrow> gerr option \<times> link_map \<times> 'w" where
  "SaveLink c l ls w =
     (case (case ccRepo c of None \<Rightarrow> (None, w) | Some r \<Rightarrow> lrSave r l w) of
        (Some e, w1) \<Rightarrow> (Some (EWrap ''save link'' e), ls, w1)
      | (None, w1) \<Rightarrow> (None, RegisterLink l ls, publish_reload c (lEventType l) w1))"

definition DeleteLink :: "'w config_cache \<Rightarrow> string \<Rightarrow> link_map \<Rightarrow> 'w \<Rightarrow> gerr option \<times> link_map \<times> 'w" where
  "DeleteLink c k ls w =
     (case (case ccRepo c of None \<Rightarrow> (None, w) | Some r \<Rightarrow> lrDelete r k w) of
        (Some e, w1) \<Rightarrow> (Some (EWrap ''delete link'' e), ls, w1)
      | (None, w1) \<Rightarrow> (None, AList.delete k ls, publish_reload c k w1))"

definition ForceReload :: "'w config_cache \<Rightarrow> link_map \<Rightarrow> 'w \<Rightarrow> gerr option \<times> link_map \<times> 'w" where
  "ForceReload c ls w =
     (case LoadAll c ls w of
        (Some e, ls1, w1) \<Rightarrow> (Some e, ls1, w1)
      | (None, ls1, w1) \<Rightarrow> (None, ls1, publish_reload c ''*'' w1))"

text \<open>What a reload of a key writes: the Link the repository has, or nothing when it gives an error.\<close>

definition reload_key :: "string \<Rightarrow> (gerr + link) \<Rightarrow> link_map \<Rightarrow> link_map" where
  "reload_key k found ls = (case found of Inl _ \<Rightarrow> AList.delete k ls | Inr l \<Rightarrow> RegisterLink l ls)"

text \<open>The handler that \<open>Subscribe\<close> runs for a message of the channel.\<close>

definition on_reload :: "'w config_cache \<Rightarrow> string \<Rightarrow> link_map \<Rightarrow> 'w \<Rightarrow> link_map \<times> 'w" where
  "on_reload c msg ls w =
     (if msg = ''link:*'' then (case LoadAll c ls w of (_, ls1, w1) \<Rightarrow> (ls1, w1))
      else if str_prefix ''link:'' msg
      then (case ccRepo c of
              None \<Rightarrow> (ls, w)
            | Some r \<Rightarrow> (case lrFindByKey r (drop 5 msg) w of (found, w1) \<Rightarrow> (reload_key (drop 5 msg) found ls, w1)))
      else (ls, w))"

lemma GetLink_RegisterLink [simp]: "GetLink (RegisterLink l ls) k = (if k = lEventType l then Some l else GetLink ls k)"
  by (simp add: GetLink_def RegisterLink_def update_conv')

lemma GetLink_delete [simp]: "GetLink (AList.delete j ls) k = (if k = j then None else GetLink ls k)"
  by (simp add: GetLink_def map_of_AList_delete)

lemma GetLink_reload_key:
  "(\<And>l. found = Inr l \<Longrightarrow> lEventType l = j) \<Longrightarrow>
   GetLink (reload_key j found ls) k
     = (if k = j then (case found of Inl _ \<Rightarrow> None | Inr l \<Rightarrow> Some l) else GetLink ls k)"
  by (auto simp: reload_key_def split: sum.split)

text \<open>A reload of everything only adds and replaces: what was deleted elsewhere stays.\<close>

lemma GetLink_fold_other: "k \<notin> lEventType ` set found \<Longrightarrow> GetLink (fold RegisterLink found ls) k = GetLink ls k"
  by (induction found arbitrary: ls) auto

lemma LoadAll_keeps:
  assumes "LoadAll c ls w = (None, ls1, w1)" "ccRepo c = Some r" "lrFindAll r w = (Inr found, w1)"
    "k \<notin> lEventType ` set found"
  shows "GetLink ls1 k = GetLink ls k"
  using assms by (auto simp: LoadAll_def GetLink_fold_other)

section \<open>The instances together\<close>

text \<open>
  An edit is a saved Link, or the key of a deleted one. There are \<open>csCount\<close> instances. Between the write of the repository and the
  write of the own cache an edit is \<open>written\<close>, until it is published it is \<open>cached\<close>.
  \<open>csInbox i\<close> holds the keys whose messages instance \<open>i\<close> has not handled, \<open>csRead i\<close> what its
  handler has read and not yet written.
\<close>

datatype edit = Saved link | Deleted string

fun edit_key :: "edit \<Rightarrow> string" where
  "edit_key (Saved l) = lEventType l"
| "edit_key (Deleted k) = k"

fun edit_value :: "edit \<Rightarrow> link option" where
  "edit_value (Saved l) = Some l"
| "edit_value (Deleted k) = None"

fun edit_cache :: "edit \<Rightarrow> link_map \<Rightarrow> link_map" where
  "edit_cache (Saved l) = RegisterLink l"
| "edit_cache (Deleted k) = AList.delete k"

record cache_system =
  csCount :: nat
  csRepo :: "string \<Rightarrow> link option"
  csCache :: "nat \<Rightarrow> link_map"
  csWritten :: "(nat \<times> edit) list"
  csCached :: "edit list"
  csInbox :: "nat \<Rightarrow> string list"
  csRead :: "nat \<Rightarrow> (string \<times> (gerr + link)) option"

definition repo_read :: "(string \<Rightarrow> link option) \<Rightarrow> string \<Rightarrow> gerr + link" where
  "repo_read m k = (case m k of None \<Rightarrow> Inl (ENotFound ''link'' k) | Some l \<Rightarrow> Inr l)"

inductive cache_step :: "cache_system \<Rightarrow> cache_system \<Rightarrow> bool" where
  written: "cache_step s (s\<lparr>csRepo := (csRepo s)(edit_key e := edit_value e), csWritten := (i, e) # csWritten s\<rparr>)"
| own_cache: "csWritten s = a @ (i, e) # b \<Longrightarrow>
    cache_step s (s\<lparr>csCache := (csCache s)(i := edit_cache e (csCache s i)), csWritten := a @ b, csCached := e # csCached s\<rparr>)"
| sent: "csCached s = a @ e # b \<Longrightarrow>
    cache_step s (s\<lparr>csInbox := (\<lambda>i. if i < csCount s then csInbox s i @ [edit_key e] else csInbox s i), csCached := a @ b\<rparr>)"
| heard: "i < csCount s \<Longrightarrow> csInbox s i = k # ks \<Longrightarrow> csRead s i = None \<Longrightarrow>
    cache_step s (s\<lparr>csInbox := (csInbox s)(i := ks), csRead := (csRead s)(i := Some (k, repo_read (csRepo s) k))\<rparr>)"
| reloaded: "i < csCount s \<Longrightarrow> csRead s i = Some (k, found) \<Longrightarrow>
    cache_step s (s\<lparr>csCache := (csCache s)(i := reload_key k found (csCache s i)), csRead := (csRead s)(i := None)\<rparr>)"

definition quiescent :: "cache_system \<Rightarrow> bool" where
  "quiescent s \<longleftrightarrow> csWritten s = [] \<and> csCached s = [] \<and> (\<forall>i < csCount s. csInbox s i = [] \<and> csRead s i = None)"

definition coherent :: "cache_system \<Rightarrow> bool" where
  "coherent s \<longleftrightarrow> (\<forall>i < csCount s. \<forall>k. GetLink (csCache s i) k = csRepo s k)"

text \<open>The repository holds each Link under its own key.\<close>

definition keyed :: "(string \<Rightarrow> link option) \<Rightarrow> bool" where
  "keyed m \<longleftrightarrow> (\<forall>k l. m k = Some l \<longrightarrow> lEventType l = k)"

text \<open>An instance will still hear of a key.\<close>

definition awaited :: "cache_system \<Rightarrow> nat \<Rightarrow> string \<Rightarrow> bool" where
  "awaited s i k \<longleftrightarrow> k \<in> edit_key ` snd ` set (csWritten s) \<or> k \<in> edit_key ` set (csCached s) \<or> k \<in> set (csInbox s i)"

definition read_value :: "gerr + link \<Rightarrow> link option" where
  "read_value found = (case found of Inl _ \<Rightarrow> None | Inr l \<Rightarrow> Some l)"

definition cache_inv :: "cache_system \<Rightarrow> bool" where
  "cache_inv s \<longleftrightarrow>
     keyed (csRepo s)
     \<and> (\<forall>i < csCount s. \<forall>k. GetLink (csCache s i) k = csRepo s k \<or> awaited s i k \<or> (\<exists>found. csRead s i = Some (k, found)))
     \<and> (\<forall>i < csCount s. \<forall>k found. csRead s i = Some (k, found) \<longrightarrow>
          (\<forall>l. found = Inr l \<longrightarrow> lEventType l = k) \<and> (read_value found = csRepo s k \<or> awaited s i k))"

lemma GetLink_edit_cache [simp]:
  "GetLink (edit_cache e ls) k = (if k = edit_key e then edit_value e else GetLink ls k)"
  by (cases e) simp_all

lemma keyed_edit: "keyed m \<Longrightarrow> keyed (m(edit_key e := edit_value e))"
  by (cases e) (auto simp: keyed_def)

lemma read_value_repo [simp]: "read_value (repo_read m k) = m k"
  by (simp add: read_value_def repo_read_def split: option.split)

lemma repo_read_keyed: "keyed m \<Longrightarrow> repo_read m k = Inr l \<Longrightarrow> lEventType l = k"
  by (auto simp: repo_read_def keyed_def split: option.splits)

lemma cache_inv_step:
  assumes "cache_step s t" "cache_inv s"
  shows "cache_inv t"
  using assms(1)
proof cases
  case (written e i)
  with assms(2) show ?thesis
    by (auto simp: cache_inv_def awaited_def keyed_edit)
next
  case (own_cache a i e b)
  with assms(2) show ?thesis
    by (auto simp: cache_inv_def awaited_def)
next
  case (sent a e b)
  with assms(2) show ?thesis
    by (auto simp: cache_inv_def awaited_def)
next
  case (heard i k ks)
  with assms(2) show ?thesis
    by (auto simp: cache_inv_def awaited_def dest: repo_read_keyed) (metis option.distinct(1) set_ConsD)+
next
  case (reloaded i k found)
  with assms(2) have "\<forall>l. found = Inr l \<longrightarrow> lEventType l = k" by (auto simp: cache_inv_def)
  then have "GetLink (reload_key k found (csCache s i)) j = (if j = k then read_value found else GetLink (csCache s i) j)" for j
    using GetLink_reload_key [of found k] by (simp add: read_value_def)
  with reloaded assms(2) show ?thesis
    by (auto simp: cache_inv_def awaited_def) (metis option.inject prod.inject)+
qed

lemma cache_inv_steps: "cache_step\<^sup>*\<^sup>* s t \<Longrightarrow> cache_inv s \<Longrightarrow> cache_inv t"
  by (induction rule: rtranclp_induct) (auto intro: cache_inv_step)

lemma cache_inv_coherent: "cache_inv s \<Longrightarrow> quiescent s \<Longrightarrow> coherent s"
  by (auto simp: cache_inv_def quiescent_def coherent_def awaited_def)

lemma coherent_start: "keyed (csRepo s) \<Longrightarrow> coherent s \<Longrightarrow> quiescent s \<Longrightarrow> cache_inv s"
  by (auto simp: cache_inv_def quiescent_def coherent_def)


subsection \<open>The instances settle\<close>

text \<open>What is still to be done: an edit has to reach every inbox, a message has to be read and applied.\<close>

definition pending :: "cache_system \<Rightarrow> nat" where
  "pending s = (2 * csCount s + 2) * length (csWritten s) + (2 * csCount s + 1) * length (csCached s)
     + (\<Sum>i < csCount s. 2 * length (csInbox s i) + (if csRead s i = None then 0 else 1))"

lemma sum_less_one:
  assumes "j < n" "\<And>i. i \<noteq> j \<Longrightarrow> f i = g i" "f j < g j"
  shows "(\<Sum>i < n. f i) < (\<Sum>i < (n::nat). g i :: nat)"
  by (rule sum_strict_mono_ex1) (use assms in \<open>auto intro: le_less\<close>, metis assms(2,3) le_less order_refl)

lemma settle_step:
  assumes "\<not> quiescent s"
  obtains t where "cache_step s t" "csRepo t = csRepo s" "pending t < pending s"
proof -
  consider "csWritten s \<noteq> []" | "csCached s \<noteq> []" | i where "i < csCount s" "csRead s i \<noteq> None"
    | i where "i < csCount s" "csRead s i = None" "csInbox s i \<noteq> []"
    using assms unfolding quiescent_def by blast
  then show thesis
  proof cases
    case 1
    then obtain i e b where "csWritten s = [] @ (i, e) # b" by (cases "csWritten s") auto
    from that [OF cache_step.own_cache [OF this]] this show thesis by (simp add: pending_def)
  next
    case 2
    then obtain e b where "csCached s = [] @ e # b" by (cases "csCached s") auto
    have "(\<Sum>i < csCount s. 2 * length (csInbox s i @ [k]) + x i)
        = (\<Sum>i < csCount s. 2 * length (csInbox s i) + x i) + 2 * csCount s" for k :: string and x :: "nat \<Rightarrow> nat"
    proof -
      have "(\<Sum>i < csCount s. 2 * length (csInbox s i @ [k]) + x i)
          = (\<Sum>i < csCount s. (2 * length (csInbox s i) + x i) + 2)" by (rule sum.cong) simp_all
      also have "\<dots> = (\<Sum>i < csCount s. 2 * length (csInbox s i) + x i) + (\<Sum>i < csCount s. 2)" by (rule sum.distrib)
      finally show ?thesis by simp
    qed
    from this [of "edit_key e" "\<lambda>i. if csRead s i = None then 0 else 1"] \<open>csCached s = [] @ e # b\<close>
    have "pending (s\<lparr>csInbox := (\<lambda>i. if i < csCount s then csInbox s i @ [edit_key e] else csInbox s i), csCached := [] @ b\<rparr>)
        < pending s" by (simp add: pending_def)
    then show thesis using that [OF cache_step.sent [OF \<open>csCached s = [] @ e # b\<close>]] by simp
  next
    case 3
    then obtain k found where r: "csRead s i = Some (k, found)" by auto
    let ?t = "s\<lparr>csCache := (csCache s)(i := reload_key k found (csCache s i)), csRead := (csRead s)(i := None)\<rparr>"
    have "pending ?t < pending s"
      using sum_less_one [OF 3(1), of "\<lambda>j. 2 * length (csInbox ?t j) + (if csRead ?t j = None then 0 else 1)"
          "\<lambda>j. 2 * length (csInbox s j) + (if csRead s j = None then 0 else 1)"] r
      by (simp add: pending_def)
    then show thesis using that [OF cache_step.reloaded [OF 3(1) r]] by simp
  next
    case 4
    then obtain k ks where q: "csInbox s i = k # ks" by (cases "csInbox s i") auto
    let ?t = "s\<lparr>csInbox := (csInbox s)(i := ks), csRead := (csRead s)(i := Some (k, repo_read (csRepo s) k))\<rparr>"
    have "pending ?t < pending s"
      using sum_less_one [OF 4(1), of "\<lambda>j. 2 * length (csInbox ?t j) + (if csRead ?t j = None then 0 else 1)"
          "\<lambda>j. 2 * length (csInbox s j) + (if csRead s j = None then 0 else 1)"] q 4(2)
      by (simp add: pending_def)
    then show thesis using that [OF cache_step.heard [OF 4(1) q 4(2)]] by simp
  qed
qed

lemma settles: "\<exists>t. cache_step\<^sup>*\<^sup>* s t \<and> quiescent t \<and> csRepo t = csRepo s"
proof (induction "pending s" arbitrary: s rule: less_induct)
  case less
  show ?case
  proof (cases "quiescent s")
    case False
    then obtain u where u: "cache_step s u" "csRepo u = csRepo s" "pending u < pending s" by (rule settle_step)
    from less.hyps [OF u(3)] obtain t where "cache_step\<^sup>*\<^sup>* u t" "quiescent t" "csRepo t = csRepo s"
      using u(2) by auto
    with u(1) show ?thesis by (meson converse_rtranclp_into_rtranclp)
  qed auto
qed

end
