(* ===== verification/DemoConfig.thy ===== *)
theory DemoConfig
  imports ConfigCache
begin

text \<open>Concrete configurations: two instances that edit the same Link, and messages for the guard.\<close>

definition demo_link1 :: link where
  "demo_link1 = WithDefaultSpirit ''one'' (NewLink ''k'')"

definition demo_link2 :: link where
  "demo_link2 = WithDefaultSpirit ''two'' (NewLink ''k'')"

definition two_instances :: cache_system where
  "two_instances = \<lparr>csCount = 2, csRepo = (\<lambda>k. None), csCache = (\<lambda>i. []), csWritten = [], csCached = [],
     csInbox = (\<lambda>i. []), csRead = (\<lambda>i. None)\<rparr>"

text \<open>
  Instance 0 writes the repository first and its cache last, so its cache misses the edit of
  instance 1 until the messages arrive.
\<close>

definition after_edits :: cache_system where
  "after_edits = two_instances\<lparr>csRepo := (\<lambda>k. None)(''k'' := Some demo_link2),
     csCache := (\<lambda>i. [])(1 := [(''k'', demo_link2)], 0 := [(''k'', demo_link1)]),
     csCached := [Saved demo_link1, Saved demo_link2]\<rparr>"

lemmas demo_cache_defs = two_instances_def after_edits_def demo_link1_def demo_link2_def NewLink_def WithDefaultSpirit_def

lemma demo_edits: "cache_step\<^sup>*\<^sup>* two_instances after_edits"
proof -
  let ?a = "two_instances\<lparr>csRepo := (csRepo two_instances)(''k'' := Some demo_link1), csWritten := [(0, Saved demo_link1)]\<rparr>"
  let ?b = "?a\<lparr>csRepo := (csRepo ?a)(''k'' := Some demo_link2), csWritten := [(1, Saved demo_link2), (0, Saved demo_link1)]\<rparr>"
  let ?c = "?b\<lparr>csCache := (csCache ?b)(1 := [(''k'', demo_link2)]), csWritten := [(0, Saved demo_link1)], csCached := [Saved demo_link2]\<rparr>"
  have k: "edit_key (Saved demo_link1) = ''k''" "edit_key (Saved demo_link2) = ''k''"
    by (simp_all add: demo_cache_defs)
  have "cache_step two_instances ?a"
    using cache_step.written [where s = two_instances and e = "Saved demo_link1" and i = 0] k by (simp add: two_instances_def)
  moreover have "cache_step ?a ?b"
    using cache_step.written [where s = ?a and e = "Saved demo_link2" and i = 1] k by simp
  moreover have "cache_step ?b ?c"
    using cache_step.own_cache [where s = ?b and a = "[]" and i = 1 and e = "Saved demo_link2" and b = "[(0, Saved demo_link1)]"] k
    by (simp add: two_instances_def RegisterLink_def demo_cache_defs)
  moreover have "cache_step ?c after_edits"
    using cache_step.own_cache [where s = ?c and a = "[]" and i = 0 and e = "Saved demo_link1" and b = "[]"] k
    by (simp add: two_instances_def after_edits_def RegisterLink_def demo_cache_defs)
  ultimately show ?thesis by (meson converse_rtranclp_into_rtranclp rtranclp.rtrancl_refl)
qed

end
