(* ===== verification/Imprints.thy ===== *)
theory Imprints
  imports Executor ReasonParts
begin

text \<open>
  Long-term facts about users: \<open>entities/imprint.go\<close>, the Scout that puts them into a Pulse
  (\<open>scouts/imprint_scout.go\<close>), their extraction from an exchange
  (\<open>orchestrator/pipeline_step_imprint.go\<close>) and the Actions that remember and forget
  (\<open>actions/imprint_actions.go\<close>). The repository is a record of functions over the world.
\<close>

section \<open>Facts\<close>

datatype ImprintSource = ImprintSourceExtracted | ImprintSourceExplicit

record Imprint =
  imID :: string
  imUserKey :: string
  imSpiritName :: string
  imFact :: string
  imCategory :: string
  imSource :: ImprintSource
  imCreatedAt :: int
  imUpdatedAt :: int

record 'w imprint_repo =
  ipSave :: "Imprint \<Rightarrow> 'w \<Rightarrow> gerr option \<times> 'w"
  ipGet :: "string \<Rightarrow> string \<Rightarrow> 'w \<Rightarrow> (gerr + Imprint list) \<times> 'w"
  ipDelete :: "string \<Rightarrow> 'w \<Rightarrow> gerr option \<times> 'w"
  ipPrune :: "string \<Rightarrow> string \<Rightarrow> int \<Rightarrow> 'w \<Rightarrow> gerr option \<times> 'w"

definition ImprintCategoryContext :: string where
  "ImprintCategoryContext = ''context''"

record ImprintExtractionConfig =
  ieEnabled :: bool
  ieModel :: SpiritModel
  ieMaxImprints :: int

definition maxImprints :: "ImprintExtractionConfig \<Rightarrow> int" where
  "maxImprints c = (if ieMaxImprints c \<le> 0 then 100 else ieMaxImprints c)"

section \<open>The Scout\<close>

definition imprintContextKey :: string where
  "imprintContextKey = ''_imprints''"

definition formatImprints :: "Imprint list \<Rightarrow> string" where
  "formatImprints imps =
     ''<user_memory>'' @ nl @ concat (map (\<lambda>i. ''- ['' @ imCategory i @ ''] '' @ imFact i @ nl) imps) @ ''</user_memory>''"

definition ImprintScout_Harvest :: "'w imprint_repo \<Rightarrow> pulse \<Rightarrow> string \<Rightarrow> 'w \<Rightarrow> gerr option \<times> pulse \<times> 'w" where
  "ImprintScout_Harvest r e spiritName w =
     (if pContactPhone e = [] then (None, e, w)
      else case ipGet r (pContactPhone e) spiritName w of
        (Inl _, w1) \<Rightarrow> (None, e, w1)
      | (Inr [], w1) \<Rightarrow> (None, e, w1)
      | (Inr imps, w1) \<Rightarrow> (None, AddKnowledge imprintContextKey (VStr (formatImprints imps)) e, w1))"

section \<open>Extraction\<close>

text \<open>The category in brackets and the fact after it; a line without brackets is a fact.\<close>

definition parseFact :: "string \<Rightarrow> string \<times> string" where
  "parseFact line0 =
     (let line = str_trim line0 in
      case line of
        [] \<Rightarrow> (ImprintCategoryContext, line)
      | c # rest \<Rightarrow>
          if c \<noteq> CHR ''['' then (ImprintCategoryContext, line)
          else case str_cut (CHR '']'') rest of
                 None \<Rightarrow> (ImprintCategoryContext, line)
               | Some (cat, fct) \<Rightarrow> (str_lower (str_trim cat), str_trim fct))"

text \<open>\<open>strings.Split\<close> at newlines.\<close>

fun split_lines :: "string \<Rightarrow> string \<Rightarrow> string list" where
  "split_lines acc [] = [rev acc]"
| "split_lines acc (c # s) = (if c = CHR 0x0A then rev acc # split_lines [] s else split_lines (c # acc) s)"

definition extraction_prompt :: string where
  "extraction_prompt =
     ''Extract memorable facts about the user from the conversation. ''
     @ ''Return one fact per line, category prefix in square brackets: [preference], [personal], [business], or [context]. ''
     @ ''Example: [preference] Prefers morning delivery. ''
     @ ''Only extract clear, durable facts. Return empty if none.''"

text \<open>The facts of an answer that are not among the known ones, which the loop does not extend.\<close>

definition new_facts :: "string list \<Rightarrow> string \<Rightarrow> (string \<times> string) list" where
  "new_facts known content =
     filter (\<lambda>(_, fct). fct \<noteq> [] \<and> str_lower fct \<notin> set known)
       (map parseFact (filter (\<lambda>l. l \<noteq> []) (map str_trim (split_lines [] (str_trim content)))))"

fun save_facts :: "'w imprint_repo \<Rightarrow> ('w \<Rightarrow> string \<times> 'w) \<Rightarrow> int \<Rightarrow> string \<Rightarrow> string \<Rightarrow> (string \<times> string) list \<Rightarrow> 'w \<Rightarrow> 'w" where
  "save_facts r newID now user sn [] w = w"
| "save_facts r newID now user sn ((category, fct) # fs) w =
     (case newID w of (i, w1) \<Rightarrow>
        save_facts r newID now user sn fs
          (snd (ipSave r \<lparr>imID = i, imUserKey = user, imSpiritName = sn, imFact = fct, imCategory = category,
                         imSource = ImprintSourceExtracted, imCreatedAt = now, imUpdatedAt = now\<rparr> w1)))"

definition imprint_extract ::
  "'w imprint_repo \<Rightarrow> (string \<Rightarrow> gerr + 'p) \<Rightarrow> ('p \<Rightarrow> OracleRequest \<Rightarrow> 'w \<Rightarrow> (gerr + OracleResponse) \<times> 'w)
     \<Rightarrow> ('w \<Rightarrow> int) \<Rightarrow> ('w \<Rightarrow> string \<times> 'w) \<Rightarrow> ImprintExtractionConfig \<Rightarrow> string \<Rightarrow> string \<Rightarrow> string \<Rightarrow> 'w \<Rightarrow> 'w" where
  "imprint_extract r provider generate now newID cfg user sn conversation w =
     (case provider (smProvider (ieModel cfg)) of
        Inl _ \<Rightarrow> w
      | Inr p \<Rightarrow>
          (case generate p \<lparr>orModel = smModel (ieModel cfg), orSystemPrompt = extraction_prompt,
                  orMessages = [text_message RoleUser conversation], orTemperature = smTemperature (ieModel cfg),
                  orMaxTokens = 0, orTools = [], orUseTools = False, orAttachments = [], orResponseFormat = None\<rparr> w of
             (Inl _, w1) \<Rightarrow> w1
           | (Inr resp, w1) \<Rightarrow>
               if oaContent resp = [] then w1
               else (let (got, w2) = ipGet r user sn w1;
                         known = (case got of Inl _ \<Rightarrow> [] | Inr imps \<Rightarrow> map (str_lower \<circ> imFact) imps);
                         w3 = save_facts r newID (now w2) user sn (new_facts known (oaContent resp)) w2
                     in snd (ipPrune r user sn (maxImprints cfg) w3))))"

section \<open>Remember and forget\<close>

text \<open>\<open>ctxPulse\<close> is the Pulse that travels in the context.\<close>

definition RememberFact_Validate :: "gmap option \<Rightarrow> gerr option" where
  "RememberFact_Validate args =
     (if str_arg args ''fact'' = [] then Some (NewBusinessError ''fact is required'' []) else None)"

definition RememberFact_Execute ::
  "'w imprint_repo \<Rightarrow> ('w \<Rightarrow> pulse option) \<Rightarrow> ('w \<Rightarrow> int) \<Rightarrow> ('w \<Rightarrow> string \<times> 'w) \<Rightarrow> string \<Rightarrow> gmap option \<Rightarrow> 'w
     \<Rightarrow> (gerr + string) \<times> 'w" where
  "RememberFact_Execute r ctxPulse now newID sn args w =
     (let fct = str_arg args ''fact'';
          category = (if str_arg args ''category'' = [] then ImprintCategoryContext else str_arg args ''category'')
      in case ctxPulse w of
           None \<Rightarrow> (Inl (NewBusinessError ''no user context available to associate memory'' []), w)
         | Some e \<Rightarrow>
             if pContactPhone e = [] then (Inl (NewBusinessError ''no user context available to associate memory'' []), w)
             else (case newID w of (i, w1) \<Rightarrow>
                     (case ipSave r \<lparr>imID = i, imUserKey = pContactPhone e, imSpiritName = sn, imFact = fct,
                            imCategory = category, imSource = ImprintSourceExplicit, imCreatedAt = now w,
                            imUpdatedAt = now w\<rparr> w1 of
                        (Some err, w2) \<Rightarrow> (Inl (NewInfrastructureError ''failed to save memory'' [err]), w2)
                      | (None, w2) \<Rightarrow> (Inr (''Remembered: '' @ fct), w2))))"

definition ForgetFact_Validate :: "gmap option \<Rightarrow> gerr option" where
  "ForgetFact_Validate args =
     (if str_arg args ''fact_substring'' = [] then Some (NewBusinessError ''fact_substring is required'' []) else None)"

fun delete_all :: "'w imprint_repo \<Rightarrow> Imprint list \<Rightarrow> nat \<Rightarrow> 'w \<Rightarrow> nat \<times> 'w" where
  "delete_all r [] n w = (n, w)"
| "delete_all r (i # is) n w =
     (case ipDelete r (imID i) w of
        (None, w1) \<Rightarrow> delete_all r is (n + 1) w1
      | (Some _, w1) \<Rightarrow> delete_all r is n w1)"

definition mentions :: "string \<Rightarrow> Imprint \<Rightarrow> bool" where
  "mentions sub i \<longleftrightarrow> str_contains (str_lower (imFact i)) (str_lower sub)"

definition ForgetFact_Execute ::
  "'w imprint_repo \<Rightarrow> ('w \<Rightarrow> pulse option) \<Rightarrow> string \<Rightarrow> gmap option \<Rightarrow> 'w \<Rightarrow> (gerr + string) \<times> 'w" where
  "ForgetFact_Execute r ctxPulse sn args w =
     (let sub = str_arg args ''fact_substring'' in
      case ctxPulse w of
        None \<Rightarrow> (Inl (NewBusinessError ''no user context available'' []), w)
      | Some e \<Rightarrow>
          if pContactPhone e = [] then (Inl (NewBusinessError ''no user context available'' []), w)
          else (case ipGet r (pContactPhone e) sn w of
                  (Inl err, w1) \<Rightarrow> (Inl (NewInfrastructureError ''failed to load memories'' [err]), w1)
                | (Inr imps, w1) \<Rightarrow>
                    (case delete_all r (filter (mentions sub) imps) 0 w1 of
                       (n, w2) \<Rightarrow> (Inr (''Forgot '' @ nat_dec n @ '' fact(s) matching '' @ quote_q sub), w2))))"

definition enum_property :: "string \<Rightarrow> string \<Rightarrow> string list \<Rightarrow> gval" where
  "enum_property ty descr vals =
     VMap ([(''type'', VStr ty), (''description'', VStr descr)] @ (if vals = [] then [] else [(''enum'', VStrs vals)]))"

definition RememberFactAction ::
  "'w imprint_repo \<Rightarrow> ('w \<Rightarrow> pulse option) \<Rightarrow> ('w \<Rightarrow> int) \<Rightarrow> ('w \<Rightarrow> string \<times> 'w) \<Rightarrow> string \<Rightarrow> 'w action" where
  "RememberFactAction r ctxPulse now newID sn =
     \<lparr>acName = ''remember_fact'',
      acDescription = ''Saves a fact about the user to long-term memory so it can be recalled in future conversations.'',
      acParameters = [(''type'', VStr ''object''),
        (''properties'', VMap [(''fact'', enum_property ''string'' ''The fact to remember about the user.'' []),
           (''category'', enum_property ''string'' ''Category: preference, personal, business, or context.''
              [''preference'', ''personal'', ''business'', ''context''])]),
        (''required'', VStrs [''fact'', ''category''])],
      acCategory = ActionModification, acIsCritical = False, acResultLimit = None,
      acValidate = RememberFact_Validate, acExecute = RememberFact_Execute r ctxPulse now newID sn\<rparr>"

definition ForgetFactAction :: "'w imprint_repo \<Rightarrow> ('w \<Rightarrow> pulse option) \<Rightarrow> string \<Rightarrow> 'w action" where
  "ForgetFactAction r ctxPulse sn =
     \<lparr>acName = ''forget_fact'',
      acDescription = ''Removes facts about the user from long-term memory that match the given substring.'',
      acParameters = [(''type'', VStr ''object''),
        (''properties'', VMap [(''fact_substring'', enum_property ''string''
           ''Substring to match against stored facts. All matching facts will be deleted.'' [])]),
        (''required'', VStrs [''fact_substring''])],
      acCategory = ActionModification, acIsCritical = False, acResultLimit = None,
      acValidate = ForgetFact_Validate, acExecute = ForgetFact_Execute r ctxPulse sn\<rparr>"

section \<open>Laws\<close>

text \<open>
  The port: \<open>facts\<close> shows the stored facts. A save adds one, a deletion takes the identifier away,
  the facts of a user and a Spirit are those with these keys, and the generator leaves them alone.
\<close>

definition imprint_laws :: "'w imprint_repo \<Rightarrow> ('w \<Rightarrow> Imprint list) \<Rightarrow> bool" where
  "imprint_laws r facts \<longleftrightarrow>
     (\<forall>i w. facts (snd (ipSave r i w)) = (if fst (ipSave r i w) = None then facts w @ [i] else facts w))
     \<and> (\<forall>u sn w. facts (snd (ipGet r u sn w)) = facts w)
     \<and> (\<forall>u sn w imps. fst (ipGet r u sn w) = Inr imps \<longrightarrow>
          imps = filter (\<lambda>i. imUserKey i = u \<and> imSpiritName i = sn) (facts w))
     \<and> (\<forall>k w. facts (snd (ipDelete r k w)) = (if fst (ipDelete r k w) = None then filter (\<lambda>i. imID i \<noteq> k) (facts w) else facts w))"

lemma imprint_lawsD:
  assumes "imprint_laws r facts"
  shows "ipGet r u sn w = (x, w') \<Longrightarrow> facts w' = facts w"
    and "ipGet r u sn w = (Inr imps, w') \<Longrightarrow> imps = filter (\<lambda>i. imUserKey i = u \<and> imSpiritName i = sn) (facts w)"
    and "ipDelete r k w = (e, w') \<Longrightarrow> facts w' = (if e = None then filter (\<lambda>i. imID i \<noteq> k) (facts w) else facts w)"
    and "ipSave r i w = (e, w') \<Longrightarrow> facts w' = (if e = None then facts w @ [i] else facts w)"
  using assms unfolding imprint_laws_def by (metis fst_conv snd_conv)+

lemma delete_all_count: "delete_all r is n w = (m, w') \<Longrightarrow> n \<le> m \<and> m \<le> n + length is"
  by (induction r "is" n w rule: delete_all.induct) (fastforce split: prod.splits option.splits)+

text \<open>When every deletion went through, nothing of the list is left, and only it is gone.\<close>

lemma delete_all_gone:
  assumes l: "imprint_laws r facts" and d: "delete_all r is n w = (n + length is, w')"
  shows "facts w' = filter (\<lambda>i. imID i \<notin> imID ` set is) (facts w)"
  using d
proof (induction "is" arbitrary: n w)
  case (Cons i "is")
  obtain e w1 where w1: "ipDelete r (imID i) w = (e, w1)" by (cases "ipDelete r (imID i) w")
  show ?case
  proof (cases e)
    case None
    with Cons.prems w1 have "delete_all r is (Suc n) w1 = (Suc n + length is, w')" by simp
    from Cons.IH [OF this] imprint_lawsD(3) [OF l w1] None show ?thesis by (auto intro: filter_cong)
  next
    case (Some x)
    with Cons.prems w1 have "delete_all r is n w1 = (n + Suc (length is), w')" by simp
    from delete_all_count [OF this] show ?thesis by simp
  qed
qed simp

lemma new_facts_fresh: "(cat, fct) \<in> set (new_facts known content) \<Longrightarrow> fct \<noteq> [] \<and> str_lower fct \<notin> set known"
  by (auto simp: new_facts_def)

lemma save_facts_saved:
  assumes l: "imprint_laws r facts" and g: "\<And>w. facts (snd (newID w)) = facts w"
  shows "\<exists>added. facts (save_facts r newID now user sn fs w) = facts w @ added
    \<and> subseq (map (\<lambda>i. (imCategory i, imFact i)) added) fs
    \<and> (\<forall>i \<in> set added. imUserKey i = user \<and> imSpiritName i = sn \<and> imSource i = ImprintSourceExtracted)"
proof (induction fs arbitrary: w)
  case (Cons f fs)
  obtain category fct where f: "f = (category, fct)" by (cases f)
  obtain i w1 where n: "newID w = (i, w1)" by (cases "newID w")
  define im where "im = \<lparr>imID = i, imUserKey = user, imSpiritName = sn, imFact = fct, imCategory = category,
                         imSource = ImprintSourceExtracted, imCreatedAt = now, imUpdatedAt = now\<rparr>"
  obtain e w2 where s: "ipSave r im w1 = (e, w2)" by (cases "ipSave r im w1")
  have w1: "facts w1 = facts w" using g [of w] n by simp
  have w2: "facts w2 = (if e = None then facts w @ [im] else facts w)" using imprint_lawsD(4) [OF l s] w1 by simp
  from Cons.IH [of w2] obtain added where a: "facts (save_facts r newID now user sn fs w2) = facts w2 @ added"
      "subseq (map (\<lambda>i. (imCategory i, imFact i)) added) fs"
      "\<forall>i \<in> set added. imUserKey i = user \<and> imSpiritName i = sn \<and> imSource i = ImprintSourceExtracted" by blast
  have step: "save_facts r newID now user sn (f # fs) w = save_facts r newID now user sn fs w2"
    using n s by (simp add: f im_def)
  show ?case
    unfolding step
    by (rule exI [of _ "(if e = None then [im] else []) @ added"]) (use a w2 in \<open>auto simp: f im_def\<close>)
qed simp

text \<open>Two equal lines of one answer are both kept: the table of known facts is not extended.\<close>

lemma duplicate_in_answer: "new_facts [] (''[personal] Likes tea'' @ nl @ ''[personal] likes tea'')
    = [(''personal'', ''Likes tea''), (''personal'', ''likes tea'')]"
  by code_simp


text \<open>Forgetting removes the facts of this user and Spirit that mention the text, and no other.\<close>

lemma delete_all_full: "(\<And>k w. fst (ipDelete r k w) = None) \<Longrightarrow> fst (delete_all r is n w) = n + length is"
  by (induction r "is" n w rule: delete_all.induct) (auto split: prod.splits option.splits, metis fst_conv option.distinct(1))

lemma forget_exact:
  assumes l: "imprint_laws r facts" and del: "\<And>k w. fst (ipDelete r k w) = None"
    and d: "distinct (map imID (facts w))" and e: "ctxPulse w = Some e" "pContactPhone e \<noteq> []"
    and x: "ForgetFact_Execute r ctxPulse sn args w = (Inr msg, w')"
  shows "facts w' = filter (\<lambda>i. \<not> (imUserKey i = pContactPhone e \<and> imSpiritName i = sn
      \<and> mentions (str_arg args ''fact_substring'') i)) (facts w)"
proof -
  let ?sub = "str_arg args ''fact_substring''"
  obtain y w1 where g: "ipGet r (pContactPhone e) sn w = (y, w1)" by (cases "ipGet r (pContactPhone e) sn w")
  with x e obtain imps where y: "y = Inr imps"
    by (cases y) (auto simp: ForgetFact_Execute_def Let_def)
  obtain n where n: "delete_all r (filter (mentions ?sub) imps) 0 w1 = (n, w')"
    using x e g y by (auto simp: ForgetFact_Execute_def Let_def split: prod.splits)
  have "n = 0 + length (filter (mentions ?sub) imps)" using delete_all_full [OF del] n by (metis fst_conv)
  with n have "facts w' = filter (\<lambda>i. imID i \<notin> imID ` set (filter (mentions ?sub) imps)) (facts w1)"
    using delete_all_gone [OF l] by blast
  moreover have "facts w1 = facts w" "imps = filter (\<lambda>i. imUserKey i = pContactPhone e \<and> imSpiritName i = sn) (facts w)"
    using imprint_lawsD(1,2) [OF l] g y by blast+
  moreover have "imID i = imID j \<longleftrightarrow> i = j" if "i \<in> set (facts w)" "j \<in> set (facts w)" for i j
    using d that by (auto simp: distinct_map inj_on_def)
  ultimately show ?thesis by (auto intro!: filter_cong)
qed

end
