(* ===== verification/Advisors.thy ===== *)
theory Advisors
  imports ReasonParts Runes
begin

text \<open>
  The two helpers that ask a model outside of a turn: the Archivist, which summarises a segment of
  a conversation (\<open>archivists/archivist.go\<close>), and the Pathfinder, which chooses a Spirit
  (\<open>pathfinders/llm_pathfinder.go\<close>). Providers are looked up and called through arguments.
\<close>

section \<open>Provider lookup\<close>

text \<open>By the configured name, else by the model.\<close>

definition by_name_or_model :: "(string \<Rightarrow> gerr + 'p) \<Rightarrow> (string \<Rightarrow> gerr + 'p) \<Rightarrow> string \<Rightarrow> string \<Rightarrow> gerr + 'p" where
  "by_name_or_model byName forModel name model =
     (case byName name of
        Inr p \<Rightarrow> Inr p
      | Inl _ \<Rightarrow> (case forModel model of Inl e \<Rightarrow> Inl (EWrap ''get oracle provider'' e) | Inr p \<Rightarrow> Inr p))"

section \<open>The Archivist\<close>

record llm_archivist =
  arProvider :: string
  arModel :: string
  arTemp :: rat
  arMaxTokens :: int

definition NewLLMArchivist :: "string \<Rightarrow> string \<Rightarrow> llm_archivist" where
  "NewLLMArchivist provider model = \<lparr>arProvider = provider, arModel = model, arTemp = 1 / 5, arMaxTokens = 512\<rparr>"

definition archivist_WithTemperature :: "rat \<Rightarrow> llm_archivist \<Rightarrow> llm_archivist" where
  "archivist_WithTemperature t a = a\<lparr>arTemp := t\<rparr>"

definition archivist_WithMaxTokens :: "int \<Rightarrow> llm_archivist \<Rightarrow> llm_archivist" where
  "archivist_WithMaxTokens n a = a\<lparr>arMaxTokens := n\<rparr>"

definition archivist_getProvider :: "(string \<Rightarrow> gerr + 'p) \<Rightarrow> (string \<Rightarrow> gerr + 'p) \<Rightarrow> llm_archivist \<Rightarrow> gerr + 'p" where
  "archivist_getProvider byName forModel a =
     by_name_or_model (if arProvider a = [] then (\<lambda>n. Inl (EPlain [])) else byName) forModel (arProvider a) (arModel a)"

definition prompt_label :: "string \<Rightarrow> string" where
  "prompt_label role = (if role = RoleAssistant then ''Assistant'' else if role = RoleTool then ''Tool'' else ''User'')"

definition archivist_buildPrompt :: "thread list \<Rightarrow> string" where
  "archivist_buildPrompt ms =
     ''Summarize the following conversation segment:'' @ nl @ nl
     @ concat (map (\<lambda>m. ''['' @ prompt_label (thRole m) @ '']: '' @ thContent m @ nl @ nl) ms)
     @ ''---'' @ nl @ ''Provide a concise summary of the above conversation.''"

definition archivist_system :: string where
  "archivist_system =
     ''You are a conversation summarizer. Your job is to produce a concise, factual summary of the conversation segment provided.'' @ nl @ nl
     @ ''Guidelines:'' @ nl
     @ ''- Capture key facts, decisions, confirmed data, and unresolved questions'' @ nl
     @ ''- Write in third-person past tense (e.g. '' @ dq @ ''The user confirmed...'' @ dq @ '', '' @ dq @ ''The assistant replied...'' @ dq @ '')'' @ nl
     @ ''- Do not include filler phrases or pleasantries '' @ em_dash @ '' only meaningful content'' @ nl
     @ ''- Be concise but complete: the summary replaces the original messages in memory'' @ nl
     @ ''- Do not fabricate or infer facts not present in the conversation''"

definition archivist_Summarize ::
  "(string \<Rightarrow> gerr + 'p) \<Rightarrow> (string \<Rightarrow> gerr + 'p) \<Rightarrow> ('p \<Rightarrow> OracleRequest \<Rightarrow> 'w \<Rightarrow> (gerr + OracleResponse) \<times> 'w)
     \<Rightarrow> llm_archivist \<Rightarrow> string \<Rightarrow> string \<Rightarrow> thread list \<Rightarrow> 'w \<Rightarrow> (gerr + string) \<times> 'w" where
  "archivist_Summarize byName forModel generate a memoryKey subjectKey ms w =
     (if ms = [] then (Inr [], w)
      else case archivist_getProvider byName forModel a of
        Inl e \<Rightarrow> (Inl (EWrap ''summarizer: failed to get LLM provider'' e), w)
      | Inr p \<Rightarrow>
          (case generate p \<lparr>orModel = arModel a, orSystemPrompt = archivist_system,
                  orMessages = [text_message RoleUser (archivist_buildPrompt ms)], orTemperature = arTemp a,
                  orMaxTokens = arMaxTokens a, orTools = [], orUseTools = False, orAttachments = [],
                  orResponseFormat = None\<rparr> w of
             (Inl e, w1) \<Rightarrow> (Inl (EWrap ''summarizer: LLM call failed'' e), w1)
           | (Inr resp, w1) \<Rightarrow> (Inr (str_trim (oaContent resp)), w1)))"

section \<open>The Pathfinder\<close>

text \<open>What the routing prompt shows of a Spirit.\<close>

record spirit_card =
  cdDescription :: string
  cdSpecialization :: string

text \<open>
  The map of active Spirits and its order of iteration, and \<open>json.MarshalIndent\<close> with \<open>None\<close> for
  an error, are arguments.
\<close>

record ('w, 'p) llm_pathfinder =
  pfModel :: SpiritModel
  pfSystemPrompt :: string
  pfByName :: "string \<Rightarrow> gerr + 'p"
  pfForModel :: "string \<Rightarrow> gerr + 'p"
  pfGenerate :: "'p \<Rightarrow> OracleRequest \<Rightarrow> 'w \<Rightarrow> (gerr + OracleResponse) \<times> 'w"
  pfFindActive :: "string list \<Rightarrow> 'w \<Rightarrow> (gerr + (string \<times> spirit_card) list) \<times> 'w"
  pfIndent :: "gmap \<Rightarrow> string option"

definition routing_system :: string where
  "routing_system =
     ''You are an intelligent Spirit routing system. Your job is to analyze the user'' @ [CHR 0x27] @ ''s message and context to select the most appropriate Spirit.'' @ nl @ nl
     @ ''You will receive:'' @ nl @ ''1. User'' @ [CHR 0x27] @ ''s message'' @ nl @ ''2. Knowledge (if available)'' @ nl
     @ ''3. Available Spirits with their descriptions and specializations'' @ nl @ nl
     @ ''Analyze the information carefully and respond with ONLY the name of the selected Spirit. Do not include any explanation or additional text.'' @ nl @ nl
     @ ''Guidelines:'' @ nl @ ''- Match user intent to Spirit specialization'' @ nl @ ''- Consider knowledge for better decisions'' @ nl
     @ ''- Be consistent in your routing choices'' @ nl @ nl
     @ ''Examples:'' @ nl @ ''- User asks about pricing/features '' @ [CHR 0xE2, CHR 0x86, CHR 0x92] @ '' select sales Spirit'' @ nl
     @ ''- User reports bug/technical issue '' @ [CHR 0xE2, CHR 0x86, CHR 0x92] @ '' select support Spirit'' @ nl
     @ ''- User asks about invoice/payment '' @ [CHR 0xE2, CHR 0x86, CHR 0x92] @ '' select billing Spirit''"

definition routing_model :: "string \<Rightarrow> string \<Rightarrow> rat \<Rightarrow> SpiritModel" where
  "routing_model provider model temperature =
     zero_model\<lparr>smProvider := provider, smModel := model,
       smTemperature := (if temperature = 0 then 1 / 5 else temperature), smMaxTokens := 50\<rparr>"

definition getOracle :: "('w, 'p) llm_pathfinder \<Rightarrow> gerr + 'p" where
  "getOracle c = by_name_or_model (pfByName c) (pfForModel c) (smProvider (pfModel c)) (smModel (pfModel c))"

text \<open>\<open>strings.Trim\<close> of quotation marks.\<close>

definition trim_quotes :: "string \<Rightarrow> string" where
  "trim_quotes s = (let q = (\<lambda>c. c \<in> {CHR 0x22, CHR 0x27}) in rev (dropWhile q (rev (dropWhile q s))))"

definition extractSpiritName :: "string \<Rightarrow> string" where
  "extractSpiritName content = trim_quotes (str_trim content)"

text \<open>\<open>strings.EqualFold\<close> on ASCII letters and the two other runes that fold to one.\<close>

definition fold_rune :: "string \<Rightarrow> string" where
  "fold_rune r =
     (if r = [CHR 0xC5, CHR 0xBF] then ''s'' else if r = [CHR 0xE2, CHR 0x84, CHR 0xAA] then ''k'' else map lower_char r)"

definition EqualFold :: "string \<Rightarrow> string \<Rightarrow> bool" where
  "EqualFold a b \<longleftrightarrow> map fold_rune (runes a) = map fold_rune (runes b)"

definition isValidSpirit :: "string \<Rightarrow> string list \<Rightarrow> bool" where
  "isValidSpirit selected available = list_ex (EqualFold selected) available"

fun addMissingSpirits :: "string list \<Rightarrow> (string \<times> spirit_card) list \<Rightarrow> (string \<times> spirit_card) list" where
  "addMissingSpirits [] cards = cards"
| "addMissingSpirits (n # ns) cards =
     addMissingSpirits ns
       (case map_of cards n of
          Some _ \<Rightarrow> cards
        | None \<Rightarrow> AList.update n \<lparr>cdDescription = ''No description available'', cdSpecialization = []\<rparr> cards)"

definition fetchSpiritDescriptions ::
  "('w, 'p) llm_pathfinder \<Rightarrow> string list \<Rightarrow> 'w \<Rightarrow> (gerr + (string \<times> spirit_card) list) \<times> 'w" where
  "fetchSpiritDescriptions c names w =
     (case pfFindActive c names w of
        (Inl e, w1) \<Rightarrow> (Inl (EWrap ''fetch spirit descriptions'' e), w1)
      | (Inr cards, w1) \<Rightarrow> (Inr (addMissingSpirits names cards), w1))"

definition writeJSON :: "(gmap \<Rightarrow> string option) \<Rightarrow> string \<Rightarrow> gmap option \<Rightarrow> string" where
  "writeJSON indent title m =
     (if gm_entries m = [] then []
      else ''## '' @ title @ nl @ (case indent (gm_entries m) of None \<Rightarrow> [] | Some j \<Rightarrow> j) @ nl @ nl)"

definition write_card :: "string \<times> spirit_card \<Rightarrow> string" where
  "write_card nc =
     ''### '' @ fst nc @ nl
     @ (if cdDescription (snd nc) = [] then [] else ''Description: '' @ cdDescription (snd nc) @ nl)
     @ (if cdSpecialization (snd nc) = [] then [] else ''Specialization: '' @ cdSpecialization (snd nc) @ nl) @ nl"

definition buildRoutingPrompt :: "(gmap \<Rightarrow> string option) \<Rightarrow> pulse \<Rightarrow> (string \<times> spirit_card) list \<Rightarrow> string" where
  "buildRoutingPrompt indent e cards =
     ''## User Message'' @ nl @ (if pUserMessage e = [] then ''(No message provided)'' else pUserMessage e) @ nl @ nl
     @ writeJSON indent ''Knowledge'' (pKnowledge e) @ writeJSON indent ''Event Metadata'' (pMetadata e)
     @ ''## Available Spirits'' @ nl @ nl @ concat (map write_card cards)
     @ ''---'' @ nl @ nl
     @ ''Based on the above information, which Spirit should handle this request? Reply with ONLY the Spirit name (e.g., ''
     @ [CHR 0x27] @ ''sales'' @ [CHR 0x27] @ '' or '' @ [CHR 0x27] @ ''support'' @ [CHR 0x27] @ '').''"

definition pathfinder_callLLM :: "('w, 'p) llm_pathfinder \<Rightarrow> 'p \<Rightarrow> string \<Rightarrow> 'w \<Rightarrow> (gerr + OracleResponse) \<times> 'w" where
  "pathfinder_callLLM c p prompt w =
     (case pfGenerate c p \<lparr>orModel = smModel (pfModel c), orSystemPrompt = pfSystemPrompt c,
             orMessages = [text_message RoleUser prompt], orTemperature = smTemperature (pfModel c),
             orMaxTokens = smMaxTokens (pfModel c), orTools = [], orUseTools = False, orAttachments = [],
             orResponseFormat = None\<rparr> w of
        (Inl e, w1) \<Rightarrow> (Inl (EWrap ''oracle generate response'' e), w1)
      | (Inr resp, w1) \<Rightarrow> (Inr resp, w1))"

definition SelectSpirit :: "('w, 'p) llm_pathfinder \<Rightarrow> pulse \<Rightarrow> string list \<Rightarrow> 'w \<Rightarrow> string \<times> 'w" where
  "SelectSpirit c e available w =
     (case available of
        [] \<Rightarrow> ([], w)
      | [s] \<Rightarrow> (s, w)
      | _ \<Rightarrow>
          (case fetchSpiritDescriptions c available w of
             (Inl _, w1) \<Rightarrow> ([], w1)
           | (Inr cards, w1) \<Rightarrow>
               (case getOracle c of
                  Inl _ \<Rightarrow> ([], w1)
                | Inr p \<Rightarrow>
                    (case pathfinder_callLLM c p (buildRoutingPrompt (pfIndent c) e cards) w1 of
                       (Inl _, w2) \<Rightarrow> ([], w2)
                     | (Inr resp, w2) \<Rightarrow>
                         (let s = extractSpiritName (oaContent resp)
                          in if isValidSpirit s available then (s, w2) else ([], w2))))))"

section \<open>Laws\<close>

text \<open>The choice is empty or, up to the case of its letters, one of the Spirits on offer.\<close>

lemma SelectSpirit_offered:
  assumes "SelectSpirit c e available w = (s, w')" "s \<noteq> []"
  shows "\<exists>a \<in> set available. EqualFold s a"
  using assms
  by (auto simp: SelectSpirit_def isValidSpirit_def list_ex_iff Let_def EqualFold_def
      split: list.splits prod.splits sum.splits if_splits)

text \<open>The prompt describes every Spirit on offer.\<close>

lemma addMissingSpirits_keeps: "map_of cards n = Some d \<Longrightarrow> map_of (addMissingSpirits ns cards) n = Some d"
proof (induction ns cards rule: addMissingSpirits.induct)
  case (2 m ns cards)
  then show ?case by (cases "map_of cards m"; cases "n = m") (simp_all add: update_conv')
qed simp

lemma addMissingSpirits_all: "n \<in> set ns \<Longrightarrow> map_of (addMissingSpirits ns cards) n \<noteq> None"
proof (induction ns arbitrary: cards)
  case (Cons m ns)
  let ?c = "case map_of cards m of
      Some _ \<Rightarrow> cards | None \<Rightarrow> AList.update m \<lparr>cdDescription = ''No description available'', cdSpecialization = []\<rparr> cards"
  have step: "addMissingSpirits (m # ns) cards = addMissingSpirits ns ?c" by simp
  have "\<exists>d. map_of ?c m = Some d" by (cases "map_of cards m") (simp_all add: update_conv')
  then obtain d where "map_of ?c m = Some d" by blast
  from addMissingSpirits_keeps [OF this, of ns] have "map_of (addMissingSpirits (m # ns) cards) m \<noteq> None"
    unfolding step by simp
  moreover have "map_of (addMissingSpirits (m # ns) cards) n \<noteq> None" if "n \<in> set ns"
    unfolding step by (rule Cons.IH [OF that])
  ultimately show ?case using Cons.prems by auto
qed simp

text \<open>A name in other letters is passed on as the model wrote it, and is then no name of the Link.\<close>

lemma EqualFold_example: "EqualFold ''Sales'' ''sales'' \<and> ''Sales'' \<noteq> ''sales''"
  by code_simp

end
