(* ===== verification/ToolActions.thy ===== *)
theory ToolActions
  imports Rituals Executor Links Memories
begin

text \<open>
  The built-in Actions of \<open>implementation/actions\<close>: scheduling, listing and cancelling tasks,
  asking an operator for approval, switching the subject, messages to the contact, and the tools
  of MCP servers. An Action finds the session, the Pulse and the Link in its context; the session
  is an object that the Action changes in place.
\<close>

section \<open>What an Action sees\<close>

text \<open>
  \<open>teParse\<close> and \<open>teFormat\<close> are \<open>time.Parse\<close> and \<open>Format\<close> at RFC 3339, \<open>teSummaries\<close> is the JSON
  of the listed tasks.
\<close>

record 'w tool_env =
  teSession :: "'w \<Rightarrow> memory option"
  tePutSession :: "memory \<Rightarrow> 'w \<Rightarrow> 'w"
  tePulse :: "'w \<Rightarrow> pulse option"
  teLink :: "'w \<Rightarrow> link option"
  teNow :: "'w \<Rightarrow> int"
  teNewID :: "'w \<Rightarrow> string \<times> 'w"
  teParse :: "string \<Rightarrow> int option"
  teFormat :: "int \<Rightarrow> string"
  teCronOK :: "string \<Rightarrow> bool"
  teSummaries :: "(string \<times> string \<times> string \<times> RecurrenceConfig option) list \<Rightarrow> string"

definition no_session :: gerr where
  "no_session = NewInfrastructureError ''session not available in context'' []"

definition mapArg :: "gmap option \<Rightarrow> string \<Rightarrow> gmap option" where
  "mapArg args k = (case gm_get args k of Some (VMap es) \<Rightarrow> Some es | _ \<Rightarrow> None)"

text \<open>A required text argument.\<close>

definition needs :: "string \<Rightarrow> gmap option \<Rightarrow> gerr option" where
  "needs k args =
     (if str_arg args k = []
      then Some (NewBusinessError (''missing or invalid '' @ [CHR 0x27] @ k @ [CHR 0x27]) []) else None)"

definition schema_prop :: "string \<Rightarrow> string \<Rightarrow> gval" where
  "schema_prop ty descr = VMap [(''type'', VStr ty), (''description'', VStr descr)]"

definition object_schema :: "gmap \<Rightarrow> string list \<Rightarrow> gmap" where
  "object_schema props req =
     [(''type'', VStr ''object''), (''properties'', VMap props)] @ (if req = [] then [] else [(''required'', VStrs req)])"

section \<open>Scheduling\<close>

definition validate_recurrence :: "'w tool_env \<Rightarrow> gmap \<Rightarrow> gerr option" where
  "validate_recurrence te r =
     (let cron = str_arg (Some r) ''cron''; ends = str_arg (Some r) ''ends_at'' in
      if cron = [] then Some (NewBusinessError ''recurrence.cron is required'' [])
      else if \<not> teCronOK te cron then Some (NewBusinessError ''recurrence.cron: invalid cron expression'' [])
      else if ends \<noteq> [] \<and> teParse te ends = None
      then Some (NewBusinessError ''recurrence.ends_at must be a valid RFC3339 datetime'' [])
      else None)"

text \<open>\<open>now\<close> is the time of the check.\<close>

definition ScheduleRitual_Validate :: "'w tool_env \<Rightarrow> int \<Rightarrow> gmap option \<Rightarrow> gerr option" where
  "ScheduleRitual_Validate te now args =
     (case needs ''event_key'' args of
        Some e \<Rightarrow> Some e
      | None \<Rightarrow>
          (case needs ''execute_at'' args of
             Some e \<Rightarrow> Some e
           | None \<Rightarrow>
               (case teParse te (str_arg args ''execute_at'') of
                  None \<Rightarrow> Some (NewBusinessError ([CHR 0x27] @ ''execute_at'' @ [CHR 0x27] @ '' must be a valid RFC3339 datetime'') [])
                | Some t \<Rightarrow>
                    if t \<le> now then Some (NewBusinessError ([CHR 0x27] @ ''execute_at'' @ [CHR 0x27] @ '' must be in the future'') [])
                    else (case mapArg args ''recurrence'' of None \<Rightarrow> None | Some r \<Rightarrow> validate_recurrence te r))))"

definition parseRecurrence :: "(string \<Rightarrow> int option) \<Rightarrow> gmap option \<Rightarrow> RecurrenceConfig option" where
  "parseRecurrence parse args =
     (case mapArg args ''recurrence'' of
        None \<Rightarrow> None
      | Some r \<Rightarrow>
          Some \<lparr>cfCron = str_arg (Some r) ''cron'', cfTimezone = str_arg (Some r) ''timezone'',
                cfEndsAt = (if str_arg (Some r) ''ends_at'' = [] then None else parse (str_arg (Some r) ''ends_at'')),
                cfMaxRuns = (case map_of r ''max_runs'' of Some (VFloat n) \<Rightarrow> f64_to_int n | _ \<Rightarrow> 0),
                cfRunCount = 0\<rparr>)"

text \<open>An unparsable time is the zero time, 62135596800 seconds before 1970.\<close>

definition zero_time :: int where
  "zero_time = - 62135596800000"

definition ScheduleRitual_Execute ::
  "'w tool_env \<Rightarrow> (RitualRequest \<Rightarrow> 'w \<Rightarrow> (gerr + Ritual) \<times> 'w) \<Rightarrow> gmap option \<Rightarrow> 'w \<Rightarrow> (gerr + string) \<times> 'w" where
  "ScheduleRitual_Execute te schedule args w =
     (case teSession te w of
        None \<Rightarrow> (Inl no_session, w)
      | Some m \<Rightarrow>
          (let at_time = (case teParse te (str_arg args ''execute_at'') of Some t \<Rightarrow> t | None \<Rightarrow> zero_time);
               (i, w1) = teNewID te w;
               event = zero_pulse\<lparr>pID := i, pMemoryKey := meMemoryKey m, pUserMessage := str_arg args ''user_message'',
                         pTimestamp := teNow te w1, pPayload := mapArg args ''data'', pMetadata := Some []\<rparr>
           in case schedule \<lparr>qrEventKey = str_arg args ''event_key'', qrEvent = event, qrExecuteAt = at_time,
                     qrCreatedBy = ''llm'', qrRecurrence = parseRecurrence (teParse te) args, qrMetadata = None\<rparr> w1 of
                (Inl e, w2) \<Rightarrow> (Inl (EWrap ''schedule event'' e), w2)
              | (Inr task, w2) \<Rightarrow>
                  (Inr (''{'' @ dq @ ''task_id'' @ dq @ '':'' @ dq @ riID task @ dq @ '','' @ dq @ ''execute_at'' @ dq @ '':''
                        @ dq @ teFormat te (riExecuteAt task) @ dq @ ''}''), w2)))"

definition ListRituals_Execute ::
  "'w tool_env \<Rightarrow> (string \<Rightarrow> int \<Rightarrow> int \<Rightarrow> 'w \<Rightarrow> (gerr + Ritual list) \<times> 'w) \<Rightarrow> gmap option \<Rightarrow> 'w \<Rightarrow> (gerr + string) \<times> 'w" where
  "ListRituals_Execute te pending args w =
     (case teSession te w of
        None \<Rightarrow> (Inl no_session, w)
      | Some m \<Rightarrow>
          (case pending (meMemoryKey m) 50 0 w of
             (Inl e, w1) \<Rightarrow> (Inl (EWrap ''list scheduled tasks'' e), w1)
           | (Inr ts, w1) \<Rightarrow>
               (Inr (teSummaries te (map (\<lambda>t. (riID t, riEventKey t, teFormat te (riExecuteAt t), riRecurrence t)) ts)), w1)))"

definition CancelRitual_Execute ::
  "'w tool_env \<Rightarrow> (string \<Rightarrow> string \<Rightarrow> 'w \<Rightarrow> gerr option \<times> 'w) \<Rightarrow> gmap option \<Rightarrow> 'w \<Rightarrow> (gerr + string) \<times> 'w" where
  "CancelRitual_Execute te cancel args w =
     (case teSession te w of
        None \<Rightarrow> (Inl no_session, w)
      | Some m \<Rightarrow>
          (case cancel (str_arg args ''task_id'') (meMemoryKey m) w of
             (Some e, w1) \<Rightarrow> (Inl (EWrap ''cancel ritual'' e), w1)
           | (None, w1) \<Rightarrow> (Inr (''{'' @ dq @ ''cancelled'' @ dq @ '':true}''), w1)))"

definition plain_action :: "string \<Rightarrow> string \<Rightarrow> gmap \<Rightarrow> 'w action" where
  "plain_action name descr params =
     \<lparr>acName = name, acDescription = descr, acParameters = params, acCategory = ActionGeneral, acIsCritical = False,
      acResultLimit = None, acValidate = (\<lambda>_. None), acExecute = (\<lambda>_ w. (Inr [], w))\<rparr>"

definition ScheduleRitualAction :: "'w tool_env \<Rightarrow> int \<Rightarrow> 'w ritual_service \<Rightarrow> 'w action" where
  "ScheduleRitualAction te now s =
     (plain_action ''schedule_ritual''
        (''Schedules an event to execute at a specific future time. ''
         @ ''Use when the user requests an action at a later date, or when current conditions are not met but may be in the future. ''
         @ ''For repeating tasks, provide a recurrence config.'')
        (object_schema
          [(''event_key'', schema_prop ''string'' (''Event type to execute (e.g. '' @ [CHR 0x27] @ ''start_route'' @ [CHR 0x27] @ '', '' @ [CHR 0x27] @ ''send_reminder'' @ [CHR 0x27] @ '').'')),
           (''execute_at'', schema_prop ''string'' (''RFC3339 datetime for execution (e.g. '' @ [CHR 0x27] @ ''2026-04-25T08:00:00-05:00'' @ [CHR 0x27] @ ''). Must be in the future.'')),
           (''user_message'', schema_prop ''string'' ''Optional message to include in the scheduled event.''),
           (''data'', schema_prop ''object'' ''Optional key-value data to include in the event payload.''),
           (''recurrence'', VMap [(''type'', VStr ''object''), (''description'', VStr ''Optional recurrence config for repeating tasks.''),
              (''properties'', VMap
                 [(''cron'', schema_prop ''string'' (''Standard 5-field cron expression (e.g. '' @ [CHR 0x27] @ ''0 8 * * 1-5'' @ [CHR 0x27] @ '').'')),
                  (''timezone'', schema_prop ''string'' (''IANA timezone (e.g. '' @ [CHR 0x27] @ ''America/Mexico_City'' @ [CHR 0x27] @ '').'')),
                  (''ends_at'', schema_prop ''string'' ''Optional RFC3339 end datetime after which no more recurrences are scheduled.''),
                  (''max_runs'', schema_prop ''integer'' ''Maximum number of executions. 0 means unlimited.'')]),
              (''required'', VStrs [''cron''])])]
          [''event_key'', ''execute_at'']))
      \<lparr>acValidate := ScheduleRitual_Validate te now, acExecute := ScheduleRitual_Execute te (ritual_Schedule s)\<rparr>"

definition ListRitualsAction :: "'w tool_env \<Rightarrow> 'w ritual_service \<Rightarrow> 'w action" where
  "ListRitualsAction te s =
     (plain_action ''list_rituals''
        (''Lists pending rituals for the current memory. ''
         @ ''Use before scheduling to check for existing rituals and avoid duplicates.'')
        (object_schema [] []))\<lparr>acExecute := ListRituals_Execute te (ListPendingByMemoryKey s)\<rparr>"

definition CancelRitualAction :: "'w tool_env \<Rightarrow> 'w ritual_service \<Rightarrow> 'w action" where
  "CancelRitualAction te s =
     (plain_action ''cancel_ritual''
        (''Cancels a pending ritual. '' @ ''Only meaningful before the execution time. '' @ ''Use list_rituals to find the task_id.'')
        (object_schema [(''task_id'', schema_prop ''string'' ''Task ID returned by schedule_event or list_scheduled_tasks.'')] [''task_id'']))
      \<lparr>acValidate := needs ''task_id'', acExecute := CancelRitual_Execute te (ritual_Cancel s)\<rparr>"

section \<open>Approval by an operator\<close>

datatype RiteStatus = RitePending | RiteApproved | RiteRejected | RiteExpired

record Rite =
  rtID :: string
  rtMemoryKey :: string
  rtSubjectKey :: string
  rtEventKey :: string
  rtContext :: "gmap option"
  rtReason :: string
  rtStatus :: RiteStatus
  rtOperatorID :: string
  rtRequestedAt :: int
  rtDecidedAt :: "int option"
  rtExpiresAt :: "int option"

text \<open>\<open>announce\<close> publishes the JSON of the new request on the channel of requests.\<close>

definition RequestRite_Execute ::
  "'w tool_env \<Rightarrow> (Rite \<Rightarrow> 'w \<Rightarrow> gerr option \<times> 'w) \<Rightarrow> (Rite \<Rightarrow> 'w \<Rightarrow> 'w) option \<Rightarrow> gmap option \<Rightarrow> 'w
     \<Rightarrow> (gerr + string) \<times> 'w" where
  "RequestRite_Execute te create announce args w =
     (case teSession te w of
        None \<Rightarrow> (Inl no_session, w)
      | Some m \<Rightarrow>
          (let (i, w1) = teNewID te w;
               rite = \<lparr>rtID = i, rtMemoryKey = meMemoryKey m, rtSubjectKey = meSubjectKey m,
                       rtEventKey = str_arg args ''event_key'', rtContext = mapArg args ''context'',
                       rtReason = str_arg args ''reason'', rtStatus = RitePending, rtOperatorID = [],
                       rtRequestedAt = teNow te w1, rtDecidedAt = None, rtExpiresAt = None\<rparr>
           in case create rite w1 of
                (Some e, w2) \<Rightarrow> (Inl (EWrap ''create rite'' e), w2)
              | (None, w2) \<Rightarrow>
                  (Inr (''{'' @ dq @ ''rite_id'' @ dq @ '':'' @ dq @ i @ dq @ '','' @ dq @ ''status'' @ dq @ '':'' @ dq @ ''pending'' @ dq @ ''}''),
                   case announce of None \<Rightarrow> w2 | Some f \<Rightarrow> f rite w2)))"

definition RequestRite_Validate :: "gmap option \<Rightarrow> gerr option" where
  "RequestRite_Validate args = (case needs ''event_key'' args of Some e \<Rightarrow> Some e | None \<Rightarrow> needs ''reason'' args)"

definition RequestRiteAction ::
  "'w tool_env \<Rightarrow> (Rite \<Rightarrow> 'w \<Rightarrow> gerr option \<times> 'w) \<Rightarrow> (Rite \<Rightarrow> 'w \<Rightarrow> 'w) option \<Rightarrow> 'w action" where
  "RequestRiteAction te create announce =
     (plain_action ''request_rite''
        (''Requests operator authorization for a sensitive action. ''
         @ ''Creates a pending rite and suspends the current flow. ''
         @ ''The operator will approve or reject, triggering the specified event_key.'')
        (object_schema
          [(''event_key'', schema_prop ''string'' ''Event key to fire when the operator decides (approve or reject).''),
           (''reason'', schema_prop ''string'' ''Why authorization is being requested.''),
           (''context'', schema_prop ''object'' ''Key-value data forwarded to the operator and injected into the resume Pulse.'')]
          [''event_key'', ''reason'']))
      \<lparr>acIsCritical := True, acValidate := RequestRite_Validate, acExecute := RequestRite_Execute te create announce\<rparr>"

section \<open>The subject of a conversation\<close>

definition isTopicSwitch :: "string \<Rightarrow> string \<Rightarrow> bool" where
  "isTopicSwitch previous nxt \<longleftrightarrow> previous \<noteq> [] \<and> previous \<noteq> nxt"

definition applyTopicUpdate :: "memory \<Rightarrow> string \<Rightarrow> bool \<Rightarrow> gmap option \<Rightarrow> memory" where
  "applyTopicUpdate m nxt switched args =
     (let m1 = m\<lparr>meSubjectKey := nxt\<rparr>;
          m2 = (if switched then m1\<lparr>meTopicFacts := Some [], meSummary := []\<rparr> else m1)
      in case mapArg args ''facts'' of
           None \<Rightarrow> m2
         | Some facts \<Rightarrow> m2\<lparr>meTopicFacts := Some (gm_copy_into facts (gm_entries (meTopicFacts m2)))\<rparr>)"

definition formatUpdateMessage :: "string \<Rightarrow> string \<Rightarrow> bool \<Rightarrow> string" where
  "formatUpdateMessage previous nxt switched =
     (if switched then ''subject switched from '' @ [CHR 0x27] @ previous @ [CHR 0x27] @ '' to '' @ [CHR 0x27] @ nxt @ [CHR 0x27]
      else ''subject updated to '' @ [CHR 0x27] @ nxt @ [CHR 0x27])"

definition UpdateSubject_Execute :: "'w tool_env \<Rightarrow> gmap option \<Rightarrow> 'w \<Rightarrow> (gerr + string) \<times> 'w" where
  "UpdateSubject_Execute te args w =
     (case teSession te w of
        None \<Rightarrow> (Inl no_session, w)
      | Some m \<Rightarrow>
          (let nxt = str_arg args ''subject_key''; switched = isTopicSwitch (meSubjectKey m) nxt
           in (Inr (formatUpdateMessage (meSubjectKey m) nxt switched), tePutSession te (applyTopicUpdate m nxt switched args) w)))"

definition UpdateSubject_Validate :: "gmap option \<Rightarrow> gerr option" where
  "UpdateSubject_Validate args =
     (if str_arg args ''subject_key'' = []
      then Some (NewBusinessError (''missing or invalid '' @ [CHR 0x27] @ ''subject_key'' @ [CHR 0x27] @ '' argument'') []) else None)"

definition UpdateSubjectAction :: "'w tool_env \<Rightarrow> 'w action" where
  "UpdateSubjectAction te =
     (plain_action ''update_subject''
        (''Updates the current subject and optionally stores facts about it. ''
         @ ''Use this when you identify what business entity the user is referring to (e.g. a specific shipment, ticket, or order). ''
         @ ''The subject_key will be associated with all subsequent messages in this memory.'')
        (object_schema
          [(''subject_key'', schema_prop ''string'' (''The business topic identifier (e.g. '' @ [CHR 0x27] @ ''shipment:123'' @ [CHR 0x27] @ '', '' @ [CHR 0x27] @ ''ticket:456'' @ [CHR 0x27] @ ''). Use the format ''
              @ [CHR 0x27] @ ''entity_type:id'' @ [CHR 0x27] @ ''.'')),
           (''facts'', schema_prop ''object'' (''Optional key-value data to accumulate about this topic. ''
              @ ''These facts will be available to the LLM in future interactions without replaying the full conversation history.''))]
          [''subject_key'']))
      \<lparr>acValidate := UpdateSubject_Validate, acExecute := UpdateSubject_Execute te\<rparr>"

section \<open>Messages to the contact\<close>

definition SendToContact_Validate :: "gmap option \<Rightarrow> gerr option" where
  "SendToContact_Validate args =
     (if str_arg args ''message'' = []
      then Some (NewBusinessError ''message is required and must be a non-empty string'' []) else None)"

text \<open>The Voice registry gives the sending function of a name.\<close>

definition SendToContact_Execute ::
  "'w tool_env \<Rightarrow> (string \<Rightarrow> gerr + (pulse \<Rightarrow> string \<Rightarrow> 'w \<Rightarrow> gerr option \<times> 'w)) \<Rightarrow> gmap option \<Rightarrow> 'w \<Rightarrow> (gerr + string) \<times> 'w" where
  "SendToContact_Execute te voice args w =
     (case teLink te w of
        None \<Rightarrow> (Inl (NewInfrastructureError ''send_to_contact: link context not available'' []), w)
      | Some l \<Rightarrow>
          if lVoiceName l = [] then (Inl (NewBusinessError ''no response channel configured on this Link'' []), w)
          else (case voice (lVoiceName l) of
                  Inl e \<Rightarrow> (Inl (NewInfrastructureError (''voice '' @ quote_q (lVoiceName l) @ '' not found'') [e]), w)
                | Inr send \<Rightarrow>
                    (case tePulse te w of
                       None \<Rightarrow> (Inl (NewBusinessError ''no pulse context available for delivery'' []), w)
                     | Some p \<Rightarrow>
                         (let other = str_arg args ''contact_key'';
                              target = (if other = [] then p else p\<lparr>pContactPhone := other\<rparr>)
                          in case send target (str_arg args ''message'') w of
                               (Some e, w1) \<Rightarrow> (Inl (NewInfrastructureError ''failed to send message to contact'' [e]), w1)
                             | (None, w1) \<Rightarrow> (Inr (''Message delivered to '' @ pContactPhone target), w1)))))"

definition SendToContactAction ::
  "'w tool_env \<Rightarrow> (string \<Rightarrow> gerr + (pulse \<Rightarrow> string \<Rightarrow> 'w \<Rightarrow> gerr option \<times> 'w)) \<Rightarrow> 'w action" where
  "SendToContactAction te voice =
     (plain_action ''send_to_contact''
        (''Sends a message to the contact associated with this event via the configured response channel. ''
         @ ''Use this to deliver the final result of a task to the user. ''
         @ ''contact_key is optional and defaults to the event'' @ [CHR 0x27] @ ''s contact phone number.'')
        (object_schema
          [(''message'', schema_prop ''string'' ''The message to send to the contact.''),
           (''contact_key'', schema_prop ''string'' (''Optional. The contact phone number (E.164 format). Defaults to the event'' @ [CHR 0x27] @ ''s ContactPhone.''))]
          [''message'']))
      \<lparr>acCategory := ActionDelivery, acIsCritical := True, acValidate := SendToContact_Validate,
       acExecute := SendToContact_Execute te voice\<rparr>"

section \<open>Tools of MCP servers\<close>

record 'w conduit =
  cnName :: string
  cnConnect :: "'w \<Rightarrow> gerr option \<times> 'w"
  cnListTools :: "'w \<Rightarrow> (gerr + (string \<times> string \<times> gmap) list) \<times> 'w"
  cnCall :: "string \<Rightarrow> gmap option \<Rightarrow> 'w \<Rightarrow> (gerr + string) \<times> 'w"

definition ConduitActionAdapter :: "'w conduit \<Rightarrow> string \<times> string \<times> gmap \<Rightarrow> 'w action" where
  "ConduitActionAdapter c tool =
     (case tool of (name, descr, params) \<Rightarrow>
       (plain_action (cnName c @ ''__'' @ name) descr params)
         \<lparr>acExecute := (\<lambda>args w.
            case cnCall c name args w of
              (Inl e, w1) \<Rightarrow>
                (Inl (NewInfrastructureError (''conduit '' @ quote_q (cnName c) @ '' tool '' @ quote_q name @ '' call failed'') [e]), w1)
            | (Inr r, w1) \<Rightarrow> (Inr r, w1))\<rparr>)"

section \<open>Laws\<close>

text \<open>
  A call that passed its check asks for a time in the future, for the memory of its session, and
  for a recurrence that starts from no runs.
\<close>

lemma schedule_valid:
  assumes "ScheduleRitual_Validate te now args = None"
  obtains t where "teParse te (str_arg args ''execute_at'') = Some t" "now < t" "str_arg args ''event_key'' \<noteq> []"
  using assms by (auto simp: ScheduleRitual_Validate_def needs_def split: option.splits if_splits)

lemma schedule_requests:
  assumes "ScheduleRitual_Validate te now args = None" "teSession te w = Some m"
  obtains req w1 where "ScheduleRitual_Execute te schedule args w
      = (case schedule req w1 of (Inl e, w2) \<Rightarrow> (Inl (EWrap ''schedule event'' e), w2)
         | (Inr task, w2) \<Rightarrow> (Inr (''{'' @ dq @ ''task_id'' @ dq @ '':'' @ dq @ riID task @ dq @ '','' @ dq @ ''execute_at'' @ dq @ '':''
              @ dq @ teFormat te (riExecuteAt task) @ dq @ ''}''), w2))"
    "now < qrExecuteAt req" "pMemoryKey (qrEvent req) = meMemoryKey m" "qrEventKey req \<noteq> []"
    "\<forall>c. qrRecurrence req = Some c \<longrightarrow> cfRunCount c = 0"
proof -
  from assms(1) obtain t where t: "teParse te (str_arg args ''execute_at'') = Some t" "now < t" "str_arg args ''event_key'' \<noteq> []"
    by (rule schedule_valid)
  obtain i w1 where i: "teNewID te w = (i, w1)" by (cases "teNewID te w")
  show thesis
    by (rule that [of "\<lparr>qrEventKey = str_arg args ''event_key'',
          qrEvent = zero_pulse\<lparr>pID := i, pMemoryKey := meMemoryKey m, pUserMessage := str_arg args ''user_message'',
                         pTimestamp := teNow te w1, pPayload := mapArg args ''data'', pMetadata := Some []\<rparr>,
          qrExecuteAt = t, qrCreatedBy = ''llm'', qrRecurrence = parseRecurrence (teParse te) args, qrMetadata = None\<rparr>" w1])
      (use t assms(2) i in \<open>auto simp: ScheduleRitual_Execute_def parseRecurrence_def Let_def split: option.splits\<close>)
qed

text \<open>A new subject starts without the facts and the summary of the old one; the old subject keeps them.\<close>

lemma applyTopicUpdate_facts:
  assumes "\<forall>f. mapArg args ''facts'' = Some f \<longrightarrow> distinct (map fst f)"
  shows "gm_get (meTopicFacts (applyTopicUpdate m nxt switched args)) k
    = (case gm_get (mapArg args ''facts'') k of
         Some v \<Rightarrow> Some v
       | None \<Rightarrow> if switched then None else gm_get (meTopicFacts m) k)"
  using assms
  by (cases "mapArg args ''facts''"; cases "meTopicFacts m")
    (auto simp: applyTopicUpdate_def Let_def map_of_copy_into split: option.split)

lemma applyTopicUpdate_rest:
  "meSubjectKey (applyTopicUpdate m nxt switched args) = nxt"
  "meSummary (applyTopicUpdate m nxt switched args) = (if switched then [] else meSummary m)"
  "meThreads (applyTopicUpdate m nxt switched args) = meThreads m"
  "meMemoryKey (applyTopicUpdate m nxt switched args) = meMemoryKey m"
  by (auto simp: applyTopicUpdate_def Let_def split: option.split)

end
