(* ===== verification/Builder.thy ===== *)
theory Builder
  imports Engine ConfigCache Imprints Advisors ToolActions Lore
begin

text \<open>
  How a Weave is put together: \<open>orchestrator/builder.go\<close> and the constructor in
  \<open>orchestrator/engine.go\<close>. The builder collects collaborators and a configuration; \<open>Build\<close> checks
  them and gives the record of collaborators that the pipeline of \<open>Engine\<close> runs on.
\<close>

section \<open>The builder\<close>

record 'w channel =
  chName :: string
  chVoiceName :: string
  chVoice :: "'w voice"

record AppInfo =
  aiName :: string
  aiVersion :: string

record 'w spirit_repo =
  spFind :: "string \<Rightarrow> 'w \<Rightarrow> (gerr + spirit) \<times> 'w"
  spFindActive :: "string list \<Rightarrow> 'w \<Rightarrow> (gerr + (string \<times> spirit_card) list) \<times> 'w"

text \<open>The three parts of a knowledge base come from three setters.\<close>

record ('w, 'h, 'p, 'v) builder =
  wbSpirits :: "'w spirit_repo option"
  wbMemories :: "'w memory_repo option"
  wbEchoes :: "'w echo_repo option"
  wbChronicles :: "(Chronicle \<Rightarrow> 'w \<Rightarrow> gerr option \<times> 'w) option"
  wbBond :: "'w bond_client option"
  wbLockTTLExplicit :: bool
  wbPins :: "(string \<Rightarrow> 'w \<Rightarrow> (gerr + string) \<times> 'w) option"
  wbSeen :: "(string \<Rightarrow> int \<Rightarrow> 'w \<Rightarrow> (gerr + bool) \<times> 'w) option"
  wbLimiter :: "(string \<Rightarrow> 'w \<Rightarrow> (gerr + bool) \<times> 'w) option"
  wbInbox :: "'w inbox_client option"
  wbDispatcher :: "'w keeper option"
  wbRituals :: "((string \<Rightarrow> 'w \<Rightarrow> gerr option \<times> 'w) \<times> (string \<Rightarrow> 'w \<Rightarrow> gerr option \<times> 'w)) option"
  wbVault :: "((string \<Rightarrow> nat list \<Rightarrow> string \<Rightarrow> 'w \<Rightarrow> (gerr + string) \<times> 'w) \<times> ('w \<Rightarrow> string \<times> 'w)) option"
  wbLens :: "(pulse \<Rightarrow> 'w \<Rightarrow> (OracleUsage \<times> gerr option \<times> pulse) \<times> 'w) option"
  wbTyping :: "((string \<Rightarrow> 'w \<Rightarrow> gerr option \<times> 'w) \<times> (string \<Rightarrow> 'w \<Rightarrow> gerr option \<times> 'w)) option"
  wbOracles :: "(string \<times> 'p) list"
  wbFactory :: "'p factory option"
  wbScouts :: "'w scout scout_reg option"
  wbPathfinders :: "(string \<times> pathfinder) list option"
  wbActions :: "'w action reg option"
  wbVoices :: "'w voice reg option"
  wbRouters :: "(pulse \<Rightarrow> 'w \<Rightarrow> string \<times> 'w) reg option"
  wbChannels :: "'w channel list"
  wbLoreByIDs :: "(string list \<Rightarrow> 'w \<Rightarrow> (gerr + Lore list) \<times> 'w) option"
  wbLoreSearch :: "(string \<Rightarrow> 'v \<Rightarrow> int \<Rightarrow> rat \<Rightarrow> 'w \<Rightarrow> (gerr + 'v LoreChunk list) \<times> 'w) option"
  wbLoreEmbed :: "(string list \<Rightarrow> 'w \<Rightarrow> (gerr + 'v list) \<times> 'w) option"
  wbImprints :: "'w imprint_repo option"
  wbImprintCfg :: ImprintExtractionConfig
  wbConduits :: "'w conduit list"
  wbLedger :: "'w ledger option"
  wbAlertHook :: "(ledger_alert \<Rightarrow> 'w \<Rightarrow> 'w) option"
  wbRoutingRules :: "ModelRoutingRule list"
  wbPathfinderProvider :: string
  wbPathfinderModel :: string
  wbPathfinderTemp :: rat
  wbArchivist :: "(string \<Rightarrow> string \<Rightarrow> thread list \<Rightarrow> 'w \<Rightarrow> (gerr + string) \<times> 'w) option"
  wbArchivistThreshold :: int
  wbArchivistKeepRecent :: int
  wbArchivistProvider :: string
  wbArchivistModel :: string
  wbArchivistTemp :: rat
  wbArchivistTempSet :: bool
  wbArchivistTokens :: int
  wbConfig :: WeaveConfig
  wbLinkRepo :: "'w link_repo option"
  wbConfigRepo :: "('w \<Rightarrow> (gerr + WeaveConfig) \<times> 'w) option"
  wbPublish :: "(string \<Rightarrow> string \<Rightarrow> 'w \<Rightarrow> gerr option \<times> 'w) option"
  wbHTTPTools :: "((string \<Rightarrow> 'w \<Rightarrow> (gerr + 'h list) \<times> 'w) \<times> ('h \<Rightarrow> string) \<times> ('h \<Rightarrow> 'w \<Rightarrow> gerr option \<times> 'w)) option"
  wbVigil :: "(string \<Rightarrow> 'w \<Rightarrow> (gerr + string option) \<times> 'w) option"
  wbVigilTimeout :: int
  wbCheckpoint :: "'w checkpoint_store option"
  wbRites :: "(Rite \<Rightarrow> 'w \<Rightarrow> gerr option \<times> 'w) option"
  wbAppInfo :: AppInfo

definition zero_imprint_cfg :: ImprintExtractionConfig where
  "zero_imprint_cfg = \<lparr>ieEnabled = False, ieModel = zero_model, ieMaxImprints = 0\<rparr>"

definition NewWeaveBuilder :: "('w, 'h, 'p, 'v) builder" where
  "NewWeaveBuilder =
     \<lparr>wbSpirits = None, wbMemories = None, wbEchoes = None, wbChronicles = None, wbBond = None, wbLockTTLExplicit = False,
      wbPins = None, wbSeen = None, wbLimiter = None, wbInbox = None, wbDispatcher = None, wbRituals = None, wbVault = None,
      wbLens = None, wbTyping = None, wbOracles = [], wbFactory = None, wbScouts = None, wbPathfinders = None,
      wbActions = None, wbVoices = None, wbRouters = None, wbChannels = [], wbLoreByIDs = None, wbLoreSearch = None,
      wbLoreEmbed = None, wbImprints = None, wbImprintCfg = zero_imprint_cfg, wbConduits = [], wbLedger = None,
      wbAlertHook = None, wbRoutingRules = [], wbPathfinderProvider = [], wbPathfinderModel = [], wbPathfinderTemp = 0,
      wbArchivist = None, wbArchivistThreshold = 0, wbArchivistKeepRecent = 0, wbArchivistProvider = [],
      wbArchivistModel = [], wbArchivistTemp = 0, wbArchivistTempSet = False, wbArchivistTokens = 0,
      wbConfig = DefaultWeaveConfig, wbLinkRepo = None, wbConfigRepo = None, wbPublish = None, wbHTTPTools = None,
      wbVigil = None, wbVigilTimeout = 0, wbCheckpoint = None, wbRites = None, wbAppInfo = \<lparr>aiName = [], aiVersion = []\<rparr>\<rparr>"

subsection \<open>Collaborators\<close>

definition WithSpiritRepository where "WithSpiritRepository r b = b\<lparr>wbSpirits := Some r\<rparr>"
definition WithMemoryRepository where "WithMemoryRepository r b = b\<lparr>wbMemories := Some r\<rparr>"
definition WithEchoRepository where "WithEchoRepository r b = b\<lparr>wbEchoes := Some r\<rparr>"
definition WithChronicleRepository where "WithChronicleRepository r b = b\<lparr>wbChronicles := Some r\<rparr>"

definition WithRepositories where
  "WithRepositories s m e c b = b\<lparr>wbSpirits := s, wbMemories := m, wbEchoes := e, wbChronicles := c\<rparr>"

definition WithBond where "WithBond l b = b\<lparr>wbBond := Some l\<rparr>"
definition WithRateLimiter where "WithRateLimiter l b = b\<lparr>wbLimiter := Some l\<rparr>"
definition WithIdempotencyStore where "WithIdempotencyStore s b = b\<lparr>wbSeen := Some s\<rparr>"
definition WithHandoffStore where "WithHandoffStore s b = b\<lparr>wbPins := Some s\<rparr>"
definition WithMessageInbox where "WithMessageInbox i b = b\<lparr>wbInbox := Some i\<rparr>"
definition WithRitualManager where "WithRitualManager m b = b\<lparr>wbRituals := Some m\<rparr>"
definition WithAsyncDispatch where "WithAsyncDispatch k b = b\<lparr>wbDispatcher := Some k\<rparr>"
definition WithMediaStore where "WithMediaStore v b = b\<lparr>wbVault := Some v\<rparr>"
definition WithMediaProcessor where "WithMediaProcessor l b = b\<lparr>wbLens := Some l\<rparr>"
definition WithTypingIndicator where "WithTypingIndicator t b = b\<lparr>wbTyping := Some t\<rparr>"

definition AddOracle :: "string \<Rightarrow> 'p \<Rightarrow> ('w, 'h, 'p, 'v) builder \<Rightarrow> ('w, 'h, 'p, 'v) builder" where
  "AddOracle name p b = b\<lparr>wbOracles := AList.update name p (wbOracles b)\<rparr>"

definition WithOracleFactory where "WithOracleFactory f b = b\<lparr>wbFactory := Some f\<rparr>"
definition WithScoutRegistry where "WithScoutRegistry r b = b\<lparr>wbScouts := Some r\<rparr>"
definition WithPathfinderRegistry where "WithPathfinderRegistry r b = b\<lparr>wbPathfinders := Some r\<rparr>"
definition WithActionRegistry where "WithActionRegistry r b = b\<lparr>wbActions := Some r\<rparr>"
definition WithVoiceRegistry where "WithVoiceRegistry r b = b\<lparr>wbVoices := Some r\<rparr>"
definition WithChannel where "WithChannel c b = b\<lparr>wbChannels := wbChannels b @ [c]\<rparr>"
definition WithLogicRouterRegistry where "WithLogicRouterRegistry r b = b\<lparr>wbRouters := Some r\<rparr>"
definition WithLoreRepository where "WithLoreRepository r b = b\<lparr>wbLoreByIDs := Some r\<rparr>"
definition WithLoreStore where "WithLoreStore s b = b\<lparr>wbLoreSearch := Some s\<rparr>"
definition WithLoreEmbedder where "WithLoreEmbedder e b = b\<lparr>wbLoreEmbed := Some e\<rparr>"
definition WithImprintRepository where "WithImprintRepository r b = b\<lparr>wbImprints := Some r\<rparr>"
definition WithImprintExtraction where "WithImprintExtraction c b = b\<lparr>wbImprintCfg := c\<rparr>"
definition WithConduit where "WithConduit c b = b\<lparr>wbConduits := wbConduits b @ [c]\<rparr>"
definition WithLedgerRepository where "WithLedgerRepository l b = b\<lparr>wbLedger := Some l\<rparr>"
definition WithCostAlertHook where "WithCostAlertHook h b = b\<lparr>wbAlertHook := Some h\<rparr>"
definition WithModelRoutingRules where "WithModelRoutingRules rs b = b\<lparr>wbRoutingRules := rs\<rparr>"
definition WithLinkRepository where "WithLinkRepository r b = b\<lparr>wbLinkRepo := Some r\<rparr>"
definition WithWeaveConfigRepository where "WithWeaveConfigRepository r b = b\<lparr>wbConfigRepo := Some r\<rparr>"
definition WithPubSub where "WithPubSub p b = b\<lparr>wbPublish := Some p\<rparr>"
definition WithHTTPToolRepository where "WithHTTPToolRepository r b = b\<lparr>wbHTTPTools := Some r\<rparr>"
definition WithVigilRepository where "WithVigilRepository r b = b\<lparr>wbVigil := Some r\<rparr>"
definition WithVigilConfig where "WithVigilConfig t b = b\<lparr>wbVigilTimeout := t\<rparr>"
definition WithCheckpointStore where "WithCheckpointStore s b = b\<lparr>wbCheckpoint := Some s\<rparr>"
definition WithRiteRepository where "WithRiteRepository r b = b\<lparr>wbRites := Some r\<rparr>"
definition WithAppInfo where "WithAppInfo n v b = b\<lparr>wbAppInfo := \<lparr>aiName = n, aiVersion = v\<rparr>\<rparr>"

subsection \<open>Configuration\<close>

definition on_config :: "(WeaveConfig \<Rightarrow> WeaveConfig) \<Rightarrow> ('w, 'h, 'p, 'v) builder \<Rightarrow> ('w, 'h, 'p, 'v) builder" where
  "on_config f b = b\<lparr>wbConfig := f (wbConfig b)\<rparr>"

definition WithConfig :: "WeaveConfig \<Rightarrow> ('w, 'h, 'p, 'v) builder \<Rightarrow> ('w, 'h, 'p, 'v) builder" where
  "WithConfig c b = b\<lparr>wbConfig := c, wbLockTTLExplicit := True\<rparr>"

definition WithInputGuard where "WithInputGuard g = on_config (\<lambda>c. c\<lparr>wcInputGuard := g\<rparr>)"
definition WithOutputGuard where "WithOutputGuard g = on_config (\<lambda>c. c\<lparr>wcOutputGuard := g\<rparr>)"
definition WithToolResultLimits where "WithToolResultLimits l = on_config (\<lambda>c. c\<lparr>wcToolResultLimits := l\<rparr>)"
definition WithProgressPolicy where "WithProgressPolicy p = on_config (\<lambda>c. c\<lparr>wcProgressPolicy := p\<rparr>)"
definition WithCompressionPolicy where "WithCompressionPolicy p = on_config (\<lambda>c. c\<lparr>wcCompressionPolicy := p\<rparr>)"
definition WithReflectionPolicy where "WithReflectionPolicy p = on_config (\<lambda>c. c\<lparr>wcReflectionPolicy := p\<rparr>)"
definition WithGroundingPolicy where "WithGroundingPolicy p = on_config (\<lambda>c. c\<lparr>wcGroundingPolicy := p\<rparr>)"
definition WithPlanPolicy where "WithPlanPolicy p = on_config (\<lambda>c. c\<lparr>wcPlanPolicy := p\<rparr>)"
definition WithHandoffPolicy where "WithHandoffPolicy p = on_config (\<lambda>c. c\<lparr>wcHandoffPolicy := p\<rparr>)"
definition WithInboxMinWindow where "WithInboxMinWindow d = on_config (\<lambda>c. c\<lparr>wcInboxMinWindow := d\<rparr>)"
definition WithLockAcquireTimeout where "WithLockAcquireTimeout d = on_config (\<lambda>c. c\<lparr>wcLockAcquireTimeout := d\<rparr>)"
definition WithScoutTimeout where "WithScoutTimeout d = on_config (\<lambda>c. c\<lparr>wcScoutTimeout := d\<rparr>)"
definition WithMaxIterations where "WithMaxIterations n = on_config (\<lambda>c. c\<lparr>wcMaxReasoningIterations := n\<rparr>)"
definition WithMaxMemoryMessages where "WithMaxMemoryMessages n = on_config (\<lambda>c. c\<lparr>wcMaxMemoryMessages := n\<rparr>)"
definition WithSpiritSelectionTimeout where "WithSpiritSelectionTimeout d = on_config (\<lambda>c. c\<lparr>wcSpiritSelectionTimeout := d\<rparr>)"
definition WithMaxIterationsMessage where "WithMaxIterationsMessage s = on_config (\<lambda>c. c\<lparr>wcMaxIterationsMessage := s\<rparr>)"
definition WithParallelActionExecution where "WithParallelActionExecution p = on_config (\<lambda>c. c\<lparr>wcParallelActionExecution := p\<rparr>)"

definition builder_WithMemoryReconstruction where
  "builder_WithMemoryReconstruction enabled limit = on_config (\<lambda>c.
     (if 0 < limit then c\<lparr>wcEnableMemoryReconstruction := enabled, wcMemoryReconstructionLimit := limit\<rparr>
      else c\<lparr>wcEnableMemoryReconstruction := enabled\<rparr>))"

definition WithActionRetry where
  "WithActionRetry n d = on_config (\<lambda>c. c\<lparr>wcActionRetryMaxAttempts := n, wcActionRetryBaseDelay := d\<rparr>)"

definition WithValidationLimits where
  "WithValidationLimits key msg ctx = on_config (\<lambda>c.
     c\<lparr>wcMaxSessionKeyLength := key, wcMaxUserMessageLength := msg, wcMaxEventContextSize := ctx\<rparr>)"

definition WithLockTTL :: "int \<Rightarrow> ('w, 'h, 'p, 'v) builder \<Rightarrow> ('w, 'h, 'p, 'v) builder" where
  "WithLockTTL ttl b = (on_config (\<lambda>c. c\<lparr>wcLockTTL := ttl\<rparr>) b)\<lparr>wbLockTTLExplicit := True\<rparr>"

definition WithReasoningTimeout :: "int \<Rightarrow> ('w, 'h, 'p, 'v) builder \<Rightarrow> ('w, 'h, 'p, 'v) builder" where
  "WithReasoningTimeout t b =
     on_config (\<lambda>c. if wbLockTTLExplicit b then c\<lparr>wcReasoningTimeout := t\<rparr>
                     else c\<lparr>wcReasoningTimeout := t, wcLockTTL := wrap64 (t + 30 * time_second)\<rparr>) b"

subsection \<open>Helpers that ask a model\<close>

definition WithArchivist where
  "WithArchivist f threshold b = b\<lparr>wbArchivist := Some f, wbArchivistThreshold := threshold\<rparr>"

definition WithDefaultLLMArchivist :: "string \<Rightarrow> string \<Rightarrow> int \<Rightarrow> ('w, 'h, 'p, 'v) builder \<Rightarrow> ('w, 'h, 'p, 'v) builder" where
  "WithDefaultLLMArchivist provider model threshold b =
     b\<lparr>wbArchivistProvider := provider, wbArchivistModel := model, wbArchivistThreshold := threshold,
       wbArchivistTemp := (if wbArchivistTemp b = 0 then 1 / 5 else wbArchivistTemp b),
       wbArchivistTokens := (if wbArchivistTokens b = 0 then 512 else wbArchivistTokens b)\<rparr>"

definition WithArchivistConfig where
  "WithArchivistConfig temp toks b =
     b\<lparr>wbArchivistTemp := temp, wbArchivistTempSet := True, wbArchivistTokens := toks\<rparr>"

definition WithArchivistKeepRecent where "WithArchivistKeepRecent k b = b\<lparr>wbArchivistKeepRecent := k\<rparr>"

definition resolveKeepRecent :: "('w, 'h, 'p, 'v) builder \<Rightarrow> int" where
  "resolveKeepRecent b = (if 0 < wbArchivistKeepRecent b then wbArchivistKeepRecent b else sgn (wbArchivistThreshold b) * (\<bar>wbArchivistThreshold b\<bar> div 2))"

definition WithDefaultLLMPathfinder :: "string \<Rightarrow> string \<Rightarrow> rat option \<Rightarrow> ('w, 'h, 'p, 'v) builder \<Rightarrow> ('w, 'h, 'p, 'v) builder" where
  "WithDefaultLLMPathfinder provider model temp b =
     b\<lparr>wbPathfinderProvider := provider, wbPathfinderModel := model,
       wbPathfinderTemp := (case temp of Some t \<Rightarrow> t | None \<Rightarrow> 1 / 5)\<rparr>"

section \<open>Build\<close>

text \<open>What the process supplies: clocks, codecs, expression compiler, and how a service is run in a context.\<close>

record ('w, 'p) platform =
  pmDeadline :: "WeaveConfig \<Rightarrow> string \<Rightarrow> 'w \<Rightarrow> bool"
  pmNow :: "'w \<Rightarrow> int"
  pmWait :: "int \<Rightarrow> 'w \<Rightarrow> 'w"
  pmNewID :: "'w \<Rightarrow> string \<times> 'w"
  pmJSON :: "gmap \<Rightarrow> string option"
  pmIndent :: "gmap \<Rightarrow> string option"
  pmDuration :: "int \<Rightarrow> string"
  pmCompile :: "string \<Rightarrow> gerr + (string \<Rightarrow> bool)"
  pmModels :: "'p \<Rightarrow> string list"
  pmGenerate :: "'p \<Rightarrow> OracleRequest \<Rightarrow> 'w \<Rightarrow> (gerr + OracleResponse) \<times> 'w"
  pmService :: "'p factory \<Rightarrow> 'w action reg option \<Rightarrow> ('w, 'p) reasoning_service"
  pmReasoner :: "('w, 'p) reasoning_service \<Rightarrow> 'w reasoner"
  pmNotifier :: "'p factory \<Rightarrow> ('w, 'p) notifier"
  pmPathfinder :: "('w, 'p) llm_pathfinder \<Rightarrow> pathfinder"
  pmAnnounce :: "(string \<Rightarrow> string \<Rightarrow> 'w \<Rightarrow> gerr option \<times> 'w) \<Rightarrow> Rite \<Rightarrow> 'w \<Rightarrow> 'w"
  pmTools :: "'w tool_env"

record ('w, 'h, 'p) built =
  btWeave :: "('w, 'h, 'p) weave"
  btConfig :: WeaveConfig
  btLinks :: link_map
  btActions :: "'w action reg option"
  btAppInfo :: AppInfo

definition builder_validate :: "('w, 'h, 'p, 'v) builder \<Rightarrow> gerr option" where
  "builder_validate b =
     (if wbSpirits b = None then Some (EPlain ''spirit repository is required'')
      else if wbMemories b = None then Some (EPlain ''session repository is required'')
      else if wbEchoes b = None then Some (EPlain ''message repository is required'')
      else if wbChronicles b = None then Some (EPlain ''interaction log repository is required'')
      else if wbBond b = None then Some (EPlain ''distributed lock is required'')
      else if wbFactory b = None \<and> wbOracles b = [] then Some (EPlain ''at least one Oracle provider must be configured'')
      else if (wbArchivist b \<noteq> None \<or> wbArchivistProvider b \<noteq> []) \<and> wbArchivistThreshold b < 2
      then Some (EPlain (''archivist threshold must be at least 2, got '' @ int_dec (wbArchivistThreshold b)))
      else None)"

text \<open>The providers in the order Go happens to range over the map.\<close>

fun register_providers :: "(string \<times> 'p) list \<Rightarrow> 'p factory \<Rightarrow> gerr + 'p factory" where
  "register_providers [] f = Inr f"
| "register_providers ((n, p) # ps) f =
     (case RegisterProvider n (Some p) f of
        (Some e, _) \<Rightarrow> Inl (EWrap (''failed to register provider '' @ n) e)
      | (None, f1) \<Rightarrow> register_providers ps f1)"

definition buildOracleFactory :: "('w, 'h, 'p, 'v) builder \<Rightarrow> gerr + 'p factory" where
  "buildOracleFactory b =
     (if wbOracles b = [] then Inl (EPlain ''no Oracle providers registered'')
      else register_providers (wbOracles b) \<lparr>faProviders = [], faDefault = []\<rparr>)"

text \<open>The limits, messages and policies of the reasoning service.\<close>

definition service_of_config :: "WeaveConfig \<Rightarrow> ('s, 'p) reasoning_service \<Rightarrow> ('s, 'p) reasoning_service" where
  "service_of_config c s =
     s\<lparr>rvMaxIterations := wcMaxReasoningIterations c, rvMaxIterationsMessage := wcMaxIterationsMessage c,
       rvMaxActionsPerCycle := wcMaxActionsPerCycle c, rvToolResultLimits := wcToolResultLimits c,
       rvProgress := wcProgressPolicy c, rvCompression := wcCompressionPolicy c, rvReflection := wcReflectionPolicy c,
       rvGrounding := wcGroundingPolicy c, rvPlan := wcPlanPolicy c, rvHandoffPolicy := wcHandoffPolicy c\<rparr>"

definition new_memory_manager :: "WeaveConfig \<Rightarrow> 'w memory_repo \<Rightarrow> 'w echo_repo \<Rightarrow> 'w memory_mgr" where
  "new_memory_manager c mr er =
     WithMemoryReconstruction (wcEnableMemoryReconstruction c) (wcMemoryReconstructionLimit c)
       (NewMemoryManager mr (Some er) (wcMaxMemoryMessages c))"

definition guard_of_config :: "('w, 'p) platform \<Rightarrow> OutputGuardConfig \<Rightarrow> output_guard option" where
  "guard_of_config pm g =
     (if output_guard_enabled g
      then Some (NewOutputGuard (\<lambda>p. case pmCompile pm p of Inl _ \<Rightarrow> None | Inr m \<Rightarrow> Some m) (ocBlockedPatterns g) (ocBlockedMessage g)
             (if ocRedactPII g
              then Some (\<lambda>t. let (t1, found) = RedactPII t (ocPIIKinds g) (if ocRedactionMask g = [] then ''[REDACTED]'' else ocRedactionMask g)
                              in (t1, found \<noteq> []))
              else None))
      else None)"

definition default_archivist :: "('w, 'h, 'p, 'v) builder \<Rightarrow> llm_archivist" where
  "default_archivist b =
     (let a = NewLLMArchivist (wbArchivistProvider b) (wbArchivistModel b);
          a1 = (if wbArchivistTempSet b then archivist_WithTemperature (wbArchivistTemp b) a else a)
      in if 0 < wbArchivistTokens b then archivist_WithMaxTokens (wbArchivistTokens b) a1 else a1)"

definition archivist_of where
  "archivist_of pm b f =
     (case wbArchivist b of
        Some a \<Rightarrow> Some (a, wbArchivistThreshold b, resolveKeepRecent b)
      | None \<Rightarrow>
          if wbArchivistProvider b \<noteq> [] \<and> wbArchivistModel b \<noteq> []
          then Some (archivist_Summarize (\<lambda>n. GetProvider n f) (\<lambda>m. GetProviderForModel (pmModels pm) m f) (pmGenerate pm)
                       (default_archivist b), wbArchivistThreshold b, resolveKeepRecent b)
          else None)"

definition default_pathfinder ::
  "('w, 'p) platform \<Rightarrow> ('w, 'h, 'p, 'v) builder \<Rightarrow> 'w spirit_repo \<Rightarrow> 'p factory \<Rightarrow> ('w, 'p) llm_pathfinder" where
  "default_pathfinder pm b sp f =
     \<lparr>pfModel = routing_model (wbPathfinderProvider b) (wbPathfinderModel b) (wbPathfinderTemp b),
      pfSystemPrompt = routing_system, pfByName = (\<lambda>n. GetProvider n f),
      pfForModel = (\<lambda>m. GetProviderForModel (pmModels pm) m f), pfGenerate = pmGenerate pm,
      pfFindActive = spFindActive sp, pfIndent = pmIndent pm\<rparr>"

text \<open>A registry that already has the name keeps its Pathfinder.\<close>

definition pathfinders_of where
  "pathfinders_of pm b sp f =
     (if wbPathfinderProvider b \<noteq> [] \<and> wbPathfinderModel b \<noteq> []
      then Some (snd (pathfinder_Register fst (DefaultPathfinderName, pmPathfinder pm (default_pathfinder pm b sp f))
             (case wbPathfinders b of None \<Rightarrow> [] | Some r \<Rightarrow> map (\<lambda>(n, p). (n, n, p)) r)))
      else map_option (map (\<lambda>(n, p). (n, n, p))) (wbPathfinders b))"

fun register_channels :: "'w channel list \<Rightarrow> (string \<times> 'w voice) reg \<Rightarrow> gerr + (string \<times> 'w voice) reg" where
  "register_channels [] vs = Inr vs"
| "register_channels (c # cs) vs =
     (case voice_Register fst (chVoiceName c, chVoice c) vs of
        (Some e, _) \<Rightarrow> Inl (EWrap (''register voice for channel '' @ quote_q (chName c)) e)
      | (None, vs1) \<Rightarrow> register_channels cs vs1)"

text \<open>An Action that cannot be registered is logged; without a registry none can.\<close>

definition register_action :: "'w action \<Rightarrow> 'w action reg option \<Rightarrow> 'w action reg option" where
  "register_action a r = map_option (\<lambda>x. snd (action_Register acName a x)) r"

fun wireConduits :: "'w conduit list \<Rightarrow> 'w action reg option \<Rightarrow> 'w \<Rightarrow> 'w action reg option \<times> 'w" where
  "wireConduits [] r w = (r, w)"
| "wireConduits (c # cs) r w =
     (case cnConnect c w of
        (Some _, w1) \<Rightarrow> wireConduits cs r w1
      | (None, w1) \<Rightarrow>
          (case cnListTools c w1 of
             (Inl _, w2) \<Rightarrow> wireConduits cs r w2
           | (Inr tools, w2) \<Rightarrow> wireConduits cs (fold (\<lambda>t. register_action (ConduitActionAdapter c t)) tools r) w2))"

text \<open>The registry of Actions: created for HTTP tools and approvals when none was given.\<close>

definition initial_actions :: "('w, 'h, 'p, 'v) builder \<Rightarrow> 'w action reg option" where
  "initial_actions b =
     (if (wbHTTPTools b \<noteq> None \<or> wbRites b \<noteq> None) \<and> wbActions b = None then Some [] else wbActions b)"

definition rite_actions :: "('w, 'p) platform \<Rightarrow> ('w, 'h, 'p, 'v) builder \<Rightarrow> 'w action reg option \<Rightarrow> 'w action reg option" where
  "rite_actions pm b r =
     (case wbRites b of
        None \<Rightarrow> r
      | Some create \<Rightarrow> register_action (RequestRiteAction (pmTools pm) create (map_option (pmAnnounce pm) (wbPublish b))) r)"

definition build_weave ::
  "('w, 'p) platform \<Rightarrow> ('w, 'h, 'p, 'v) builder \<Rightarrow> WeaveConfig \<Rightarrow> 'w spirit_repo \<Rightarrow> 'w memory_repo \<Rightarrow> 'w echo_repo
     \<Rightarrow> (Chronicle \<Rightarrow> 'w \<Rightarrow> gerr option \<times> 'w) \<Rightarrow> 'w bond_client \<Rightarrow> 'p factory \<Rightarrow> 'w action reg option
     \<Rightarrow> (string \<times> 'w voice) reg \<Rightarrow> ('w, 'h, 'p) weave" where
  "build_weave pm b c sp mr er logs lck f actions voices =
     \<lparr>wvDeadline = pmDeadline pm c, wvNow = pmNow pm, wvWait = pmWait pm,
      wvValidate = EventValidator_Validate (pmJSON pm) c,
      wvSeen = wbSeen b, wvIdempotencyTTL = wcIdempotencyTTL c, wvAllow = wbLimiter b, wvBond = lck, wvInbox = wbInbox b,
      wvVigil = wbVigil b, wvTyping = wbTyping b, wvRituals = wbRituals b, wvScouts = wbScouts b,
      wvPathfinders = map_option (\<lambda>r n. map_option snd (pathfinder_Get n r)) (pathfinders_of pm b sp f),
      wvPins = wbPins b, wvFindSpirit = spFind sp, wvHTTPTools = wbHTTPTools b,
      wvLoreHarvest = (case (wbLoreByIDs b, wbLoreSearch b, wbLoreEmbed b) of
          (Some byIDs, Some search, Some emb) \<Rightarrow> Some (LoreScout_Harvest emb byIDs search 5 (7 / 10)) | _ \<Rightarrow> None),
      wvImprintHarvest = map_option ImprintScout_Harvest (wbImprints b),
      wvRouters = wbRouters b, wvVault = wbVault b, wvLens = wbLens b,
      wvMemory = new_memory_manager c mr er, wvEchoes = er, wvArchivist = archivist_of pm b f,
      wvInboxMinWindow = wcInboxMinWindow c, wvLedger = wbLedger b,
      wvAlertHook = (if wbLedger b = None then None else wbAlertHook b), wvRoutingRules = wbRoutingRules b,
      wvReasoner = pmReasoner pm ((service_of_config c (pmService pm f actions))\<lparr>rvCheckpoint := wbCheckpoint b\<rparr>),
      wvNotifier = (pmNotifier pm f)\<lparr>ntVoices := map (\<lambda>(n, _, v). (n, v)) voices\<rparr>,
      wvOutputGuard = guard_of_config pm (wcOutputGuard c), wvLog = logs,
      wvImprints = map_option (\<lambda>r. (ieEnabled (wbImprintCfg b),
          imprint_extract r (\<lambda>n. GetProvider n f) (pmGenerate pm) (pmNow pm) (pmNewID pm) (wbImprintCfg b))) (wbImprints b)\<rparr>"

definition loaded_config :: "('w, 'h, 'p, 'v) builder \<Rightarrow> 'w \<Rightarrow> (gerr + WeaveConfig) \<times> 'w" where
  "loaded_config b w =
     (case wbConfigRepo b of
        None \<Rightarrow> (Inr (wbConfig b), w)
      | Some read \<Rightarrow>
          (case read w of (Inl e, w1) \<Rightarrow> (Inl (EWrap ''failed to load engine config'' e), w1) | (Inr c, w1) \<Rightarrow> (Inr c, w1)))"

definition named_app :: "AppInfo \<Rightarrow> AppInfo" where
  "named_app a = \<lparr>aiName = (if aiName a = [] then ''eywa'' else aiName a),
                  aiVersion = (if aiVersion a = [] then ''unknown'' else aiVersion a)\<rparr>"

definition compile_error :: "('w, 'p) platform \<Rightarrow> string \<Rightarrow> gerr option" where
  "compile_error pm p = (case pmCompile pm p of Inl e \<Rightarrow> Some e | Inr _ \<Rightarrow> None)"

text \<open>After the checks: the cache of Links, the Voices of the channels, the tools of the Conduits.\<close>

definition assemble ::
  "('w, 'p) platform \<Rightarrow> ('w, 'h, 'p, 'v) builder \<Rightarrow> WeaveConfig \<Rightarrow> 'p factory \<Rightarrow> 'w \<Rightarrow> (gerr + ('w, 'h, 'p) built) \<times> 'w" where
  "assemble pm b c f w =
     (case (wbSpirits b, wbMemories b, wbEchoes b, wbChronicles b, wbBond b) of
        (Some sp, Some mr, Some er, Some logs, Some lck) \<Rightarrow>
          (case LoadAll \<lparr>ccRepo = wbLinkRepo b, ccPublish = wbPublish b\<rparr> [] w of
             (Some e, _, w1) \<Rightarrow> (Inl (EWrap ''failed to load link config cache'' e), w1)
           | (None, links, w1) \<Rightarrow>
               (case register_channels (wbChannels b) (case wbVoices b of None \<Rightarrow> [] | Some r \<Rightarrow> map (\<lambda>(n, v). (n, n, v)) r) of
                  Inl e \<Rightarrow> (Inl e, w1)
                | Inr voices \<Rightarrow>
                    (let (actions, w2) = wireConduits (wbConduits b) (rite_actions pm b (initial_actions b)) w1
                     in (Inr \<lparr>btWeave = build_weave pm b c sp mr er logs lck f actions voices, btConfig = c, btLinks = links,
                              btActions = actions, btAppInfo = named_app (wbAppInfo b)\<rparr>, w2))))
      | _ \<Rightarrow> (Inl (EPlain []), w))"

definition Weave_Build :: "('w, 'p) platform \<Rightarrow> ('w, 'h, 'p, 'v) builder \<Rightarrow> 'w \<Rightarrow> (gerr + ('w, 'h, 'p) built) \<times> 'w" where
  "Weave_Build pm b w =
     (case builder_validate b of
        Some e \<Rightarrow> (Inl (EWrap ''engine builder validation failed'' e), w)
      | None \<Rightarrow>
          (case (case wbFactory b of Some f \<Rightarrow> Inr f | None \<Rightarrow> buildOracleFactory b) of
             Inl e \<Rightarrow> (Inl (EWrap ''failed to build Oracle factory'' e), w)
           | Inr f \<Rightarrow>
               (case loaded_config b w of
                  (Inl e, w1) \<Rightarrow> (Inl e, w1)
                | (Inr c, w1) \<Rightarrow>
                    (case WeaveConfig_Validate (pmDuration pm) (compile_error pm) c of
                       Some e \<Rightarrow> (Inl (EWrap ''invalid Weave configuration'' e), w1)
                     | None \<Rightarrow> assemble pm b c f w1))))"

section \<open>What a built Weave is\<close>

lemma assemble_ok:
  assumes "assemble pm b c f w = (Inr bt, w')"
  obtains sp mr er logs lck voices where
    "wbSpirits b = Some sp" "wbMemories b = Some mr" "wbEchoes b = Some er" "wbChronicles b = Some logs" "wbBond b = Some lck"
    "btWeave bt = build_weave pm b c sp mr er logs lck f (btActions bt) voices" "btConfig bt = c"
  using assms by (auto simp: assemble_def split: option.splits prod.splits sum.splits)

text \<open>
  A Weave is built only from a complete builder and a valid configuration: the one of the store if
  there is one, else the one of the builder.
\<close>

lemma Build_ok:
  assumes "Weave_Build pm b w = (Inr bt, w')"
  obtains sp mr er logs lck f voices where
    "wbSpirits b = Some sp" "wbMemories b = Some mr" "wbEchoes b = Some er" "wbChronicles b = Some logs" "wbBond b = Some lck"
    "btWeave bt = build_weave pm b (btConfig bt) sp mr er logs lck f (btActions bt) voices"
    "fst (loaded_config b w) = Inr (btConfig bt)" "builder_validate b = None"
    "WeaveConfig_Validate (pmDuration pm) (compile_error pm) (btConfig bt) = None"
proof -
  from assms obtain f c w1 where
    "builder_validate b = None" "loaded_config b w = (Inr c, w1)"
    "WeaveConfig_Validate (pmDuration pm) (compile_error pm) c = None" "assemble pm b c f w1 = (Inr bt, w')"
    by (auto simp: Weave_Build_def split: option.splits sum.splits prod.splits)
  with assemble_ok that show thesis by (metis fst_conv)
qed

text \<open>The archivist keeps fewer messages than it waits for, unless the number was set by hand.\<close>

lemma keep_recent_less:
  assumes "builder_validate b = None" "wbArchivist b \<noteq> None \<or> wbArchivistProvider b \<noteq> []" "wbArchivistKeepRecent b \<le> 0"
  shows "0 < resolveKeepRecent b \<and> resolveKeepRecent b < wbArchivistThreshold b"
proof -
  have "2 \<le> wbArchivistThreshold b"
    using assms(1,2) unfolding builder_validate_def by (auto split: if_splits)
  then show ?thesis using assms(3) by (auto simp: resolveKeepRecent_def)
qed

subsection \<open>The lock outlives the reasoning\<close>

definition same_lock :: "('w, 'h, 'p, 'v) builder \<Rightarrow> ('w, 'h, 'p, 'v) builder \<Rightarrow> bool" where
  "same_lock b b' \<longleftrightarrow>
     wcLockTTL (wbConfig b') = wcLockTTL (wbConfig b) \<and> wcReasoningTimeout (wbConfig b') = wcReasoningTimeout (wbConfig b)
     \<and> wbLockTTLExplicit b' = wbLockTTLExplicit b"

text \<open>Builders reached by setters that neither replace the configuration nor set the TTL.\<close>

inductive auto_lock :: "('w, 'h, 'p, 'v) builder \<Rightarrow> bool" where
  fresh: "auto_lock NewWeaveBuilder"
| timeout: "auto_lock b \<Longrightarrow> in_int64 (t + 30 * time_second) \<Longrightarrow> 0 \<le> t \<Longrightarrow> auto_lock (WithReasoningTimeout t b)"
| other: "auto_lock b \<Longrightarrow> same_lock b b' \<Longrightarrow> auto_lock b'"

lemma setters_keep_lock:
  "same_lock b (WithInputGuard g b)" "same_lock b (WithOutputGuard og b)" "same_lock b (WithToolResultLimits l b)"
  "same_lock b (WithProgressPolicy p1 b)" "same_lock b (WithCompressionPolicy p2 b)" "same_lock b (WithReflectionPolicy p3 b)"
  "same_lock b (WithGroundingPolicy p4 b)" "same_lock b (WithPlanPolicy p5 b)" "same_lock b (WithHandoffPolicy p6 b)"
  "same_lock b (WithInboxMinWindow d b)" "same_lock b (WithLockAcquireTimeout d b)" "same_lock b (WithScoutTimeout d b)"
  "same_lock b (WithMaxIterations n b)" "same_lock b (WithMaxMemoryMessages n b)" "same_lock b (WithSpiritSelectionTimeout d b)"
  "same_lock b (WithMaxIterationsMessage s b)" "same_lock b (WithParallelActionExecution pe b)"
  "same_lock b (builder_WithMemoryReconstruction en n b)" "same_lock b (WithActionRetry n d b)"
  "same_lock b (WithValidationLimits n1 n2 n3 b)" "same_lock b (WithBond lck b)" "same_lock b (AddOracle nm pr b)"
  "same_lock b (WithRepositories r1 r2 r3 r4 b)" "same_lock b (WithArchivist f n b)"
  "same_lock b (WithDefaultLLMArchivist s1 s2 n b)" "same_lock b (WithConduit c b)"
  by (simp_all add: same_lock_def on_config_def WithInputGuard_def WithOutputGuard_def WithToolResultLimits_def
      WithProgressPolicy_def WithCompressionPolicy_def WithReflectionPolicy_def WithGroundingPolicy_def WithPlanPolicy_def
      WithHandoffPolicy_def WithInboxMinWindow_def WithLockAcquireTimeout_def WithScoutTimeout_def WithMaxIterations_def
      WithMaxMemoryMessages_def WithSpiritSelectionTimeout_def WithMaxIterationsMessage_def WithParallelActionExecution_def
      builder_WithMemoryReconstruction_def WithActionRetry_def WithValidationLimits_def WithBond_def AddOracle_def
      WithRepositories_def WithArchivist_def WithDefaultLLMArchivist_def WithConduit_def)

lemma auto_lock_inv:
  "auto_lock b \<Longrightarrow> \<not> wbLockTTLExplicit b \<and> 0 \<le> wcReasoningTimeout (wbConfig b)
     \<and> wcLockTTL (wbConfig b) = wcReasoningTimeout (wbConfig b) + 30 * time_second
     \<and> in_int64 (wcReasoningTimeout (wbConfig b) + 30 * time_second)"
proof (induction rule: auto_lock.induct)
  case fresh
  then show ?case by (simp add: NewWeaveBuilder_def DefaultWeaveConfig_def time_second_def in_int64_def)
next
  case (timeout b t)
  then show ?case by (simp add: WithReasoningTimeout_def on_config_def wrap64_in_range)
next
  case (other b b')
  then show ?case by (simp add: same_lock_def)
qed

lemma auto_lock_covers:
  assumes "auto_lock b"
  shows "wcReasoningTimeout (wbConfig b) + 15 * time_second \<le> wcLockTTL (wbConfig b) \<and> 0 < wcLockTTL (wbConfig b)"
  using auto_lock_inv [OF assms] by (auto simp: time_second_def)

text \<open>Without a registry the tools of a Conduit are found and lost.\<close>

lemma wireConduits_None: "fst (wireConduits cs None w) = None"
proof (induction cs arbitrary: w)
  case (Cons c cs)
  have "fold (\<lambda>t. register_action (ConduitActionAdapter c t)) ts None = None" for ts
    by (induction ts) (simp_all add: register_action_def)
  with Cons show ?case by (auto split: prod.split option.split sum.split)
qed simp

text \<open>Every registered Action stays registered when the tools of the Conduits are added.\<close>

lemma register_action_keeps: "r = Some x \<Longrightarrow> map_of x n = Some a \<Longrightarrow> \<exists>y. register_action c r = Some y \<and> map_of y n = Some a"
  using actions.register_keeps [where n = n and r = x and b = a and nm = acName and a = c] by (simp add: register_action_def)

lemma fold_register_keeps:
  "r = Some x \<Longrightarrow> map_of x n = Some a \<Longrightarrow>
   \<exists>y. fold (\<lambda>t. register_action (mk t)) ts r = Some y \<and> map_of y n = Some a"
proof (induction ts arbitrary: r x)
  case (Cons t ts)
  from register_action_keeps [OF Cons.prems] obtain y where "register_action (mk t) r = Some y" "map_of y n = Some a" by blast
  with Cons.IH [of "register_action (mk t) r" y] show ?case by simp
qed simp

lemma wireConduits_keeps:
  "r = Some x \<Longrightarrow> map_of x n = Some a \<Longrightarrow> \<exists>y. fst (wireConduits cs r w) = Some y \<and> map_of y n = Some a"
proof (induction cs r w arbitrary: x rule: wireConduits.induct)
  case (2 c cs r w)
  show ?case
  proof (cases "cnConnect c w")
    case (Pair e w1)
    show ?thesis
    proof (cases e)
      case None
      show ?thesis
      proof (cases "cnListTools c w1")
        case (Pair res w2)
        show ?thesis
        proof (cases res)
          case (Inr ts)
          from fold_register_keeps [OF "2.prems", of "ConduitActionAdapter c" ts] obtain y where
            "fold (\<lambda>t. register_action (ConduitActionAdapter c t)) ts r = Some y" "map_of y n = Some a" by blast
          with 2 \<open>cnConnect c w = (e, w1)\<close> None Pair Inr show ?thesis by simp
        qed (use 2 \<open>cnConnect c w = (e, w1)\<close> None Pair in simp)
      qed
    qed (use 2 Pair in simp)
  qed
qed simp

end
