(* ===== verification/BuiltWeave.thy ===== *)
theory BuiltWeave
  imports Builder Endings
begin

text \<open>
  Laws of the Weave that \<open>Build\<close> gives: its validator stands in front of the whole pipeline, its
  limits are positive and its lock outlives its reasoning.
\<close>

section \<open>Only well-formed Pulses are processed\<close>

lemma built_from:
  assumes "Weave_Build pm b w0 = (Inr bt, w1)"
  obtains sp mr er logs lck f voices where
    "btWeave bt = build_weave pm b (btConfig bt) sp mr er logs lck f (btActions bt) voices"
    "builder_validate b = None" "WeaveConfig_Validate (pmDuration pm) (compile_error pm) (btConfig bt) = None"
  by (rule Build_ok [OF assms], rule that; assumption)

lemma built_validates:
  assumes "Weave_Build pm b w0 = (Inr bt, w1)"
  shows "wvValidate (btWeave bt) = EventValidator_Validate (pmJSON pm) (btConfig bt)" "wvTyping (btWeave bt) = wbTyping b"
  by (rule built_from [OF assms], simp add: build_weave_def)+

lemma validation_status:
  assumes "EventValidator_Validate json c e = Some err"
  shows "statusFromError (EWrap s (EWrap t err)) = ''validation_failed''" "\<not> IsDuplicateEvent (EWrap s (EWrap t err))"
  using EventValidator_Validate_code [OF assms] by (auto simp: statusFromError_def IsDuplicateEvent_def orch_code_def)

lemma gate_refused:
  assumes "wvValidate wv (psEvent ps) = Some err" "\<not> wvDeadline wv ''Validation'' w"
  shows "run_steps (wvDeadline wv) (buildProcessingPipeline wv) (ps, w)
    = Ret (Some (EWrap ''Validation'' (EWrap ''validate event'' err))) (ps\<lparr>psFailedAtStep := ''Validation''\<rparr>, w)"
  using assms
  by (simp add: buildProcessingPipeline_def gate_steps_def stp_def executeStep_def ValidationStep_def)

lemma refused:
  assumes "wvValidate wv = EventValidator_Validate json c" "EventValidator_Validate json c (psEvent ps) = Some err"
    and "\<not> wvDeadline wv ''Validation'' w" "wvTyping wv = None" "\<not> psLockAcquired ps"
  shows "\<exists>x resp. runProcessingPipeline wv ps w
      = (Some (resp, Some (EWrap ''Validation'' (EWrap ''validate event'' err))), snd (wvLog wv x w))
    \<and> chStatus x = ''validation_failed'' \<and> chFailedAtStep x = ''Validation''"
proof -
  define e where "e = EWrap ''Validation'' (EWrap ''validate event'' err)"
  define ps1 where "ps1 = ps\<lparr>psStartTime := wvNow wv w, psStatus := ''success''\<rparr>"
  have r: "run_steps (wvDeadline wv) (buildProcessingPipeline wv) (ps1, w)
      = Ret (Some e) (ps1\<lparr>psFailedAtStep := ''Validation''\<rparr>, w)"
    using gate_refused [of wv ps1 err w] assms by (simp add: ps1_def e_def)
  then have x: "execute_pipeline wv ps w = Ret (Some e) (ps1\<lparr>psFailedAtStep := ''Validation''\<rparr>, w)"
    using assms(4) by (simp add: execute_pipeline_def pipeline_Execute_def deferred_steps_def opt_step_def ps1_def)
  have s: "statusFromError e = ''validation_failed''" "\<not> IsDuplicateEvent e"
    unfolding e_def by (rule validation_status [OF assms(2)])+
  define x0 where "x0 = interaction_log (wvNow wv w)
    (ps1\<lparr>psFailedAtStep := ''Validation'', psStatus := ''validation_failed''\<rparr>)"
  define resp where "resp = error_response (ps1\<lparr>psFailedAtStep := ''Validation''\<rparr>) e"
  have "runProcessingPipeline wv ps w = (Some (resp, Some e), snd (wvLog wv x0 w))"
    using assms(5) s
    by (simp add: runProcessingPipeline_def x release_cleanup_def Let_def logInteraction_def split_beta ps1_def x0_def resp_def)
  moreover have "chStatus x0 = ''validation_failed''" "chFailedAtStep x0 = ''Validation''"
    by (simp_all add: x0_def interaction_log_def Let_def ps1_def)
  ultimately show ?thesis unfolding e_def by blast
qed

lemma ill_formed_refused:
  assumes "Weave_Build pm b w0 = (Inr bt, w1)" "wbTyping b = None" "links key = Some l"
    and "\<not> pmDeadline pm (btConfig bt) ''Validation'' w" "\<not> well_formed_pulse (pmJSON pm) (btConfig bt) e"
  shows "\<exists>x resp err. ProcessEventByKey (btWeave bt) links key e w = (Some (resp, Some err), snd (wvLog (btWeave bt) x w))
    \<and> chStatus x = ''validation_failed'' \<and> chFailedAtStep x = ''Validation''"
proof -
  obtain err where "EventValidator_Validate (pmJSON pm) (btConfig bt) e = Some err"
    using assms(5) EventValidator_Validate_None by blast
  moreover have "wvDeadline (btWeave bt) = pmDeadline pm (btConfig bt)"
    by (rule built_from [OF assms(1)]) (simp add: build_weave_def)
  moreover have "psEvent (new_state key l False e) = e" "\<not> psLockAcquired (new_state key l False e)"
    by (simp_all add: new_state_def)
  ultimately show ?thesis
    using refused [OF built_validates(1) [OF assms(1)], of "new_state key l False e" err w] assms(2-4)
      built_validates(2) [OF assms(1)]
    by (simp add: ProcessEventByKey_def processEventWithConfig_def) blast
qed

section \<open>Limits\<close>

lemma built_limits:
  assumes "Weave_Build pm b w0 = (Inr bt, w1)"
  shows "0 < wcLockTTL (btConfig bt)" "0 < wcMaxReasoningIterations (btConfig bt)" "0 < mmMaxMemoryMessages (wvMemory (btWeave bt))"
    and "0 < wcReasoningTimeout (btConfig bt) \<Longrightarrow> wrap64 (wcReasoningTimeout (btConfig bt) + 15 * time_second) \<le> wcLockTTL (btConfig bt)"
    and "\<forall>p \<in> set (ocBlockedPatterns (wcOutputGuard (btConfig bt))). compile_error pm p = None"
proof -
  obtain sp mr er logs lck f voices where
    w: "btWeave bt = build_weave pm b (btConfig bt) sp mr er logs lck f (btActions bt) voices"
      "builder_validate b = None" "WeaveConfig_Validate (pmDuration pm) (compile_error pm) (btConfig bt) = None"
    by (rule built_from [OF assms])
  note c = w(3) [unfolded WeaveConfig_Validate_None]
  show "0 < wcLockTTL (btConfig bt)" "0 < wcMaxReasoningIterations (btConfig bt)"
    "\<forall>p \<in> set (ocBlockedPatterns (wcOutputGuard (btConfig bt))). compile_error pm p = None" using c by blast+
  show "0 < wcReasoningTimeout (btConfig bt) \<Longrightarrow> wrap64 (wcReasoningTimeout (btConfig bt) + 15 * time_second) \<le> wcLockTTL (btConfig bt)"
    using conjunct1 [OF conjunct2 [OF c]] by (rule mp)
  have "wvMemory (btWeave bt) = new_memory_manager (btConfig bt) mr er" using w(1) by (simp add: build_weave_def)
  moreover have "0 < wcMaxMemoryMessages (btConfig bt)" using c by (elim conjE)
  then have "mmMaxMemoryMessages (new_memory_manager (btConfig bt) mr er) = wcMaxMemoryMessages (btConfig bt)"
    by (simp add: new_memory_manager_def NewMemoryManager_def WithMemoryReconstruction_def Let_def)
  ultimately show "0 < mmMaxMemoryMessages (wvMemory (btWeave bt))" using \<open>0 < wcMaxMemoryMessages (btConfig bt)\<close> by simp
qed

lemma built_archivist:
  assumes "Weave_Build pm b w0 = (Inr bt, w1)" "wbArchivistKeepRecent b \<le> 0" "wvArchivist (btWeave bt) = Some (f, threshold, keep)"
  shows "0 < keep \<and> keep < threshold"
proof -
  obtain sp mr er logs lck fa voices where w: "btWeave bt = build_weave pm b (btConfig bt) sp mr er logs lck fa (btActions bt) voices"
      "builder_validate b = None" "WeaveConfig_Validate (pmDuration pm) (compile_error pm) (btConfig bt) = None"
    by (rule built_from [OF assms(1)])
  then have a: "archivist_of pm b fa = Some (f, threshold, keep)" using assms(3) by (simp add: build_weave_def)
  then have "wbArchivist b \<noteq> None \<or> wbArchivistProvider b \<noteq> []" "threshold = wbArchivistThreshold b" "keep = resolveKeepRecent b"
    by (auto simp: archivist_of_def split: option.splits if_splits)
  with keep_recent_less [OF w(2) _ assms(2)] show ?thesis by simp
qed

end
