(* ===== verification/DemoBuilder.thy ===== *)
theory DemoBuilder
  imports BuiltWeave DemoEngine
begin

text \<open>
  A builder that can be evaluated: its world counts audit records, its repositories are empty, its
  one model provider is a constant.
\<close>

definition demo_tools :: "nat tool_env" where
  "demo_tools = \<lparr>teSession = (\<lambda>_. None), tePutSession = (\<lambda>_ w. w), tePulse = (\<lambda>_. None), teLink = (\<lambda>_. None),
     teNow = (\<lambda>_. 0), teNewID = (\<lambda>w. (''id'', w)), teParse = (\<lambda>_. None), teFormat = (\<lambda>_. []), teCronOK = (\<lambda>_. True),
     teSummaries = (\<lambda>_. [])\<rparr>"

definition demo_platform :: "(nat, unit) platform" where
  "demo_platform = \<lparr>pmDeadline = (\<lambda>_ _ _. False), pmNow = (\<lambda>_. 0), pmWait = (\<lambda>_ w. w), pmNewID = (\<lambda>w. (''id'', w)),
     pmJSON = (\<lambda>_. Some []), pmIndent = (\<lambda>_. None), pmDuration = (\<lambda>_. []), pmCompile = (\<lambda>_. Inr (\<lambda>_. False)),
     pmModels = (\<lambda>_. []), pmGenerate = (\<lambda>_ _ w. (Inl (EPlain ''model down''), w)),
     pmService = (\<lambda>_ _. demo_service polite None 0),
     pmReasoner = (\<lambda>_. \<lparr>rxRun = (\<lambda>_ _ w. Some (None, Some demo_answer, w)), rxPut = (\<lambda>_ w. w), rxGet = (\<lambda>_. None),
        rxLost = (\<lambda>_. False), rxIndent = (\<lambda>_. [])\<rparr>),
     pmNotifier = (\<lambda>_. \<lparr>ntVoices = [], ntProvider = (\<lambda>_. Inl (EPlain [])), ntGenerate = (\<lambda>_ _ w. (Inl (EPlain []), w)),
        ntFloat = (\<lambda>_. []), ntOrder = (\<lambda>x. x), ntIndent = (\<lambda>_. [])\<rparr>),
     pmPathfinder = (\<lambda>_ _ _. []), pmAnnounce = (\<lambda>_ _ w. w), pmTools = demo_tools\<rparr>"

definition demo_echoes :: "nat echo_repo" where
  "demo_echoes = \<lparr>erAppend = (\<lambda>_ w. (None, w)), erFindRecent = (\<lambda>_ _ w. (Inr [], w)),
     erFindRecentSubject = (\<lambda>_ _ _ w. (Inr [], w))\<rparr>"

definition demo_builder :: "(nat, unit, unit, unit) builder" where
  "demo_builder =
     WithReasoningTimeout (60 * time_second)
      (WithDefaultLLMArchivist ''p'' ''m'' 8
        (AddOracle ''p'' ()
          (WithBond \<lparr>boAcquire = (\<lambda>_ w. (Inr True, w)), boRelease = (\<lambda>_ w. (None, w))\<rparr>
            (WithRepositories
               (Some \<lparr>spFind = (\<lambda>_ w. (Inr chatty, w)), spFindActive = (\<lambda>_ w. (Inr [], w))\<rparr>)
               (Some \<lparr>mrGetMemory = (\<lambda>k w. (Inl (ENotFound ''memory'' k), w)), mrSaveMemory = (\<lambda>_ _ w. (None, w))\<rparr>)
               (Some demo_echoes) (Some (\<lambda>_ w. (None, Suc w)))
               NewWeaveBuilder))))"

lemmas demo_builder_defs = demo_builder_def WithReasoningTimeout_def WithDefaultLLMArchivist_def AddOracle_def WithBond_def
  WithRepositories_def NewWeaveBuilder_def on_config_def

lemma demo_config_valid: "WeaveConfig_Validate dur compile (wbConfig demo_builder) = None"
  by (simp add: demo_builder_defs WeaveConfig_Validate_None DefaultWeaveConfig_def time_second_def wrap64_in_range in_int64_def)

lemma demo_factory: "\<exists>f. buildOracleFactory demo_builder = Inr f"
  by (simp add: buildOracleFactory_def demo_builder_defs RegisterProvider_def Let_def)

lemma demo_assembles:
  "\<exists>bt. assemble demo_platform demo_builder (wbConfig demo_builder) f 0 = (Inr bt, 0) \<and> btConfig bt = wbConfig demo_builder"
  by (simp add: assemble_def demo_builder_defs LoadAll_def initial_actions_def rite_actions_def)

lemma demo_builds:
  "\<exists>bt. Weave_Build demo_platform demo_builder 0 = (Inr bt, 0) \<and> btConfig bt = wbConfig demo_builder"
proof -
  obtain f where f: "buildOracleFactory demo_builder = Inr f" using demo_factory by blast
  have b: "builder_validate demo_builder = None" "wbFactory demo_builder = None"
      "loaded_config demo_builder 0 = (Inr (wbConfig demo_builder), 0)"
    by (simp_all add: builder_validate_def loaded_config_def demo_builder_defs)
  show ?thesis using demo_assembles [of f] by (simp add: Weave_Build_def b f demo_config_valid)
qed

text \<open>A Pulse that asks for a jailbreak.\<close>

definition rude_pulse :: pulse where
  "rude_pulse = demo_pulse\<lparr>pUserMessage := ''jailbreak''\<rparr>"

lemma rude_matches: "list_ex (\<lambda>p. rx_MatchString p ''jailbreak'') injectionPatterns"
  by code_simp

lemma rude_refused: "\<not> well_formed_pulse json (wbConfig demo_builder) rude_pulse"
  using rude_matches
  by (simp add: well_formed_pulse_def clean_message_def rude_pulse_def list_ex_iff demo_builder_defs DefaultWeaveConfig_def)

end
