(* ===== verification/MapHelpers.thy ===== *)
theory MapHelpers
  imports Pulse
begin

text \<open>
  Typed reads of dynamic maps and the operations on them (\<open>internal/helpers/maps.go\<close>), and the
  classification of HTTP answers (\<open>internal/helpers/http_errors.go\<close>). A read returns the value and
  whether it was found with the type, as the code does; \<open>Must\<close> variants that panic return \<open>None\<close>.
\<close>

section \<open>Typed reads\<close>

definition GetString :: "gmap option \<Rightarrow> string \<Rightarrow> string \<times> bool" where
  "GetString m k = (case gm_get m k of Some (VStr s) \<Rightarrow> (s, True) | _ \<Rightarrow> ([], False))"

definition GetInt :: "gmap option \<Rightarrow> string \<Rightarrow> int \<times> bool" where
  "GetInt m k =
     (case gm_get m k of
        Some (VInt i) \<Rightarrow> (i, True)
      | Some (VInt64 i) \<Rightarrow> (i, True)
      | Some (VFloat v) \<Rightarrow> (f64_to_int v, True)
      | Some (VStr s) \<Rightarrow> (case parse_int s of Some i \<Rightarrow> (i, True) | None \<Rightarrow> (0, False))
      | _ \<Rightarrow> (0, False))"

definition GetInt64 :: "gmap option \<Rightarrow> string \<Rightarrow> int \<times> bool" where
  "GetInt64 m k =
     (case gm_get m k of
        Some (VInt64 i) \<Rightarrow> (i, True)
      | Some (VInt i) \<Rightarrow> (i, True)
      | Some (VFloat v) \<Rightarrow> (f64_to_int v, True)
      | _ \<Rightarrow> (0, False))"

text \<open>\<open>f\<close> is the rounding of an integer to \<open>float64\<close>.\<close>

definition GetFloat64 :: "(int \<Rightarrow> rat) \<Rightarrow> gmap option \<Rightarrow> string \<Rightarrow> rat \<times> bool" where
  "GetFloat64 f m k =
     (case gm_get m k of
        Some (VFloat v) \<Rightarrow> (v, True)
      | Some (VFloat32 v) \<Rightarrow> (v, True)
      | Some (VInt i) \<Rightarrow> (f i, True)
      | Some (VInt64 i) \<Rightarrow> (f i, True)
      | _ \<Rightarrow> (0, False))"

definition GetBool :: "gmap option \<Rightarrow> string \<Rightarrow> bool \<times> bool" where
  "GetBool m k = (case gm_get m k of Some (VBool b) \<Rightarrow> (b, True) | _ \<Rightarrow> (False, False))"

definition GetMap :: "gmap option \<Rightarrow> string \<Rightarrow> gmap option \<times> bool" where
  "GetMap m k = (case gm_get m k of Some (VMap es) \<Rightarrow> (Some es, True) | _ \<Rightarrow> (None, False))"

definition GetSlice :: "gmap option \<Rightarrow> string \<Rightarrow> gval list \<times> bool" where
  "GetSlice m k = (case gm_get m k of Some (VSlice vs) \<Rightarrow> (vs, True) | _ \<Rightarrow> ([], False))"

fun strings_of :: "gval list \<Rightarrow> string list option" where
  "strings_of [] = Some []"
| "strings_of (VStr s # vs) = map_option ((#) s) (strings_of vs)"
| "strings_of (_ # vs) = None"

definition GetStringSlice :: "gmap option \<Rightarrow> string \<Rightarrow> string list \<times> bool" where
  "GetStringSlice m k =
     (case gm_get m k of
        Some (VStrs ss) \<Rightarrow> (ss, True)
      | Some (VSlice vs) \<Rightarrow> (case strings_of vs of Some ss \<Rightarrow> (ss, True) | None \<Rightarrow> ([], False))
      | _ \<Rightarrow> ([], False))"

definition or_default :: "'a \<times> bool \<Rightarrow> 'a \<Rightarrow> 'a" where
  "or_default r d = (if snd r then fst r else d)"

definition GetStringOrDefault where "GetStringOrDefault m k d = or_default (GetString m k) d"
definition GetIntOrDefault where "GetIntOrDefault m k d = or_default (GetInt m k) d"
definition GetInt64OrDefault where "GetInt64OrDefault m k d = or_default (GetInt64 m k) d"
definition GetFloat64OrDefault where "GetFloat64OrDefault f m k d = or_default (GetFloat64 f m k) d"
definition GetBoolOrDefault where "GetBoolOrDefault m k d = or_default (GetBool m k) d"
definition GetMapOrDefault where "GetMapOrDefault m k d = or_default (GetMap m k) d"
definition GetSliceOrDefault where "GetSliceOrDefault m k d = or_default (GetSlice m k) d"
definition GetStringSliceOrDefault where "GetStringSliceOrDefault m k d = or_default (GetStringSlice m k) d"

definition must :: "'a \<times> bool \<Rightarrow> 'a option" where
  "must r = (if snd r then Some (fst r) else None)"

definition MustGetString where "MustGetString m k = must (GetString m k)"
definition MustGetInt where "MustGetInt m k = must (GetInt m k)"
definition MustGetMap where "MustGetMap m k = must (GetMap m k)"

definition Has :: "gmap option \<Rightarrow> string \<Rightarrow> bool" where
  "Has m k \<longleftrightarrow> gm_get m k \<noteq> None"

section \<open>Paths\<close>

text \<open>The bytes before the first full stop are a key, the rest is a path into its map.\<close>

function getNestedRecursive :: "gmap \<Rightarrow> string \<Rightarrow> gval option" where
  "getNestedRecursive m path =
     (case str_cut (CHR ''.'') path of
        None \<Rightarrow> map_of m path
      | Some (k, rest) \<Rightarrow> (case map_of m k of Some (VMap es) \<Rightarrow> getNestedRecursive es rest | _ \<Rightarrow> None))"
  by pat_completeness auto
termination
  by (relation "measure (\<lambda>(m, p). length p)") (auto dest: str_cut_length)

declare getNestedRecursive.simps [simp del]

definition GetNested :: "gmap option \<Rightarrow> string \<Rightarrow> gval option" where
  "GetNested m path =
     (case m of
        None \<Rightarrow> None
      | Some es \<Rightarrow> (case map_of es path of Some v \<Rightarrow> Some v | None \<Rightarrow> getNestedRecursive es path))"

definition GetNestedString :: "gmap option \<Rightarrow> string \<Rightarrow> string \<times> bool" where
  "GetNestedString m path = (case GetNested m path of Some (VStr s) \<Rightarrow> (s, True) | _ \<Rightarrow> ([], False))"

definition GetNestedStringOrDefault where
  "GetNestedStringOrDefault m path d = or_default (GetNestedString m path) d"

section \<open>New maps from old\<close>

definition Merge :: "gmap list \<Rightarrow> gmap" where
  "Merge ms = fold gm_copy_into ms []"

definition Pick :: "gmap \<Rightarrow> string list \<Rightarrow> gmap" where
  "Pick m ks = fold (\<lambda>k r. case map_of m k of Some v \<Rightarrow> AList.update k v r | None \<Rightarrow> r) ks []"

definition Omit :: "gmap \<Rightarrow> string list \<Rightarrow> gmap" where
  "Omit m ks = filter (\<lambda>(k, v). k \<notin> set ks) m"

definition Keys :: "gmap \<Rightarrow> string list" where
  "Keys m = map fst m"

definition Values :: "gmap \<Rightarrow> gval list" where
  "Values m = map snd m"

definition GetMapFromSlice :: "gval list \<Rightarrow> int \<Rightarrow> gerr + gmap" where
  "GetMapFromSlice vs i =
     (if i < 0 \<or> int (length vs) \<le> i
      then Inl (EPlain (''index '' @ int_dec i @ '' out of bounds for slice of length '' @ nat_dec (length vs)))
      else case vs ! nat i of
             VMap es \<Rightarrow> Inr es
           | _ \<Rightarrow> Inl (EPlain (''element at index '' @ int_dec i @ '' is not a map[string]any'')))"

definition GetFirstMapFromSlice :: "gval list \<Rightarrow> gerr + gmap" where
  "GetFirstMapFromSlice vs = (if vs = [] then Inl (EPlain ''slice is empty'') else GetMapFromSlice vs 0)"

section \<open>Laws\<close>

text \<open>A path of keys without full stops walks down the maps.\<close>

fun walk :: "gmap \<Rightarrow> string list \<Rightarrow> gval option" where
  "walk m [] = None"
| "walk m [k] = map_of m k"
| "walk m (k # j # ks) = (case map_of m k of Some (VMap es) \<Rightarrow> walk es (j # ks) | _ \<Rightarrow> None)"

lemma getNestedRecursive_walk:
  "ks \<noteq> [] \<Longrightarrow> \<forall>k \<in> set ks. CHR ''.'' \<notin> set k \<Longrightarrow> getNestedRecursive m (str_join ''.'' ks) = walk m ks"
proof (induction m ks rule: walk.induct)
  case (2 m k)
  then have "str_cut (CHR ''.'') k = None" by (simp add: str_cut_None_iff)
  then show ?case by (subst getNestedRecursive.simps) simp
next
  case (3 m k j ks)
  have "str_cut (CHR ''.'') (k @ CHR ''.'' # str_join ''.'' (j # ks)) = Some (k, str_join ''.'' (j # ks))"
    using 3 by (intro str_cut_append) simp
  with 3 show ?case
    by (subst getNestedRecursive.simps) (auto split: option.split gval.split)
qed simp

lemma GetNested_walk:
  assumes "ks \<noteq> []" "\<forall>k \<in> set ks. CHR ''.'' \<notin> set k" "map_of m (str_join ''.'' ks) = None"
  shows "GetNested (Some m) (str_join ''.'' ks) = walk m ks"
  using assms getNestedRecursive_walk by (simp add: GetNested_def)

lemma map_of_Merge:
  assumes "\<forall>m \<in> set ms. distinct (map fst m)"
  shows "map_of (Merge ms) = fold (\<lambda>m f. f ++ map_of m) ms Map.empty"
proof -
  have "map_of (fold gm_copy_into ms r) = fold (\<lambda>m f. f ++ map_of m) ms (map_of r)" for r
    using assms
  proof (induction ms arbitrary: r)
    case (Cons m ms)
    then have "map_of (gm_copy_into m r) = map_of r ++ map_of m"
      by (auto simp: map_of_copy_into map_add_def fun_eq_iff split: option.split)
    with Cons show ?case by simp
  qed simp
  from this [of "[]"] show ?thesis by (simp add: Merge_def)
qed

lemma map_of_Pick: "map_of (Pick m ks) k = (if k \<in> set ks then map_of m k else None)"
proof -
  have "map_of (fold (\<lambda>k r. case map_of m k of Some v \<Rightarrow> AList.update k v r | None \<Rightarrow> r) ks r) k
      = (if k \<in> set ks \<and> map_of m k \<noteq> None then map_of m k else map_of r k)" for r
    by (induction ks arbitrary: r) (auto simp: update_conv' split: option.split)
  from this [of "[]"] show ?thesis by (auto simp: Pick_def)
qed

lemma map_of_Omit: "map_of (Omit m ks) k = (if k \<in> set ks then None else map_of m k)"
  unfolding Omit_def by (induction m) auto

text \<open>What is picked and what is left out make up the map.\<close>

lemma Pick_Omit: "map_of (Omit m ks) ++ map_of (Pick m ks) = map_of m"
  by (auto simp: map_add_def map_of_Pick map_of_Omit fun_eq_iff split: option.split)

section \<open>HTTP answers\<close>

definition FromHTTPStatus :: "int \<Rightarrow> string \<Rightarrow> gerr option" where
  "FromHTTPStatus status body =
     (if 200 \<le> status \<and> status < 300 then None
      else (let shown = (if 200 < length body then take 200 body @ ''...'' else body);
                msg = ''HTTP '' @ int_dec status @ (if body = [] then [] else '': '' @ str_trim shown)
            in if status \<in> {429, 502, 503, 504} \<or> 500 \<le> status then Some (NewInfrastructureError msg [])
               else Some (NewBusinessError msg [])))"

text \<open>The body is read only when the status is an error, and at most 4096 bytes of it.\<close>

definition FromHTTPResponse :: "int \<Rightarrow> string \<Rightarrow> gerr option" where
  "FromHTTPResponse status body = (if 200 \<le> status \<and> status < 300 then None else FromHTTPStatus status (take 4096 body))"

lemma FromHTTPStatus_class:
  "FromHTTPStatus st b = None \<longleftrightarrow> 200 \<le> st \<and> st < 300"
  "FromHTTPStatus st b = Some e \<Longrightarrow> IsInfrastructureError e \<longleftrightarrow> st = 429 \<or> 500 \<le> st"
  by (auto simp: FromHTTPStatus_def Let_def NewInfrastructureError_def NewBusinessError_def
      IsInfrastructureError_def as_action_error_def split: if_splits)

lemma FromHTTPResponse_eq: "FromHTTPResponse st b = FromHTTPStatus st (take 4096 b)"
  by (simp add: FromHTTPResponse_def FromHTTPStatus_def)

end
