(* ===== verification/DocStore.thy ===== *)
theory DocStore
  imports GoErrors "HOL-Library.Multiset"
begin

text \<open>
  Collections of documents as the adapters of \<open>mongo/\<close> use them. The driver and the server are
  third-party code: a collection is a record of functions over the world, and \<open>read_laws\<close>,
  \<open>write_laws\<close> and \<open>transaction_laws\<close> state the documented behaviour the adapters rely on. A document is a pair of its \<open>_id\<close> and its
  other fields; a filter is a predicate on documents, an update a function on their fields.
\<close>

section \<open>Collections\<close>

text \<open>An \<open>_id\<close> given as a Go string is stored as a string; one the driver makes is an ObjectID.\<close>

datatype doc_id = StringID string | ObjectID string

text \<open>Both decode into a string field, an ObjectID as its hexadecimal digits.\<close>

fun id_text :: "doc_id \<Rightarrow> string" where
  "id_text (StringID s) = s"
| "id_text (ObjectID h) = h"

type_synonym 'd doc = "doc_id \<times> 'd"

text \<open>\<open>quBefore\<close> is the sort order, \<open>quLimit\<close> 0 no limit.\<close>

record 'd query =
  quFilter :: "'d doc \<Rightarrow> bool"
  quBefore :: "'d doc \<Rightarrow> 'd doc \<Rightarrow> bool"
  quSkip :: int
  quLimit :: int

definition find_all :: "('d doc \<Rightarrow> bool) \<Rightarrow> 'd query" where
  "find_all p = \<lparr>quFilter = p, quBefore = (\<lambda>_ _. False), quSkip = 0, quLimit = 0\<rparr>"

text \<open>
  \<open>FindOne\<close> without a document gives \<open>None\<close> for \<open>ErrNoDocuments\<close>; an error covers decoding. The
  updates give the numbers of matched and of modified documents.
\<close>

record ('w, 'd) collection =
  coFindOne :: "('d doc \<Rightarrow> bool) \<Rightarrow> 'w \<Rightarrow> (gerr + 'd doc option) \<times> 'w"
  coFind :: "'d query \<Rightarrow> 'w \<Rightarrow> (gerr + 'd doc list) \<times> 'w"
  coCount :: "('d doc \<Rightarrow> bool) \<Rightarrow> 'w \<Rightarrow> (gerr + int) \<times> 'w"
  coInsert :: "doc_id option \<Rightarrow> 'd \<Rightarrow> 'w \<Rightarrow> gerr option \<times> 'w"
  coUpdateOne :: "('d doc \<Rightarrow> bool) \<Rightarrow> ('d \<Rightarrow> 'd) \<Rightarrow> 'w \<Rightarrow> (gerr + nat \<times> nat) \<times> 'w"
  coUpdateMany :: "('d doc \<Rightarrow> bool) \<Rightarrow> ('d \<Rightarrow> 'd) \<Rightarrow> 'w \<Rightarrow> (gerr + nat \<times> nat) \<times> 'w"
  coUpsert :: "('d doc \<Rightarrow> bool) \<Rightarrow> ('d \<Rightarrow> 'd) \<Rightarrow> doc_id option \<Rightarrow> 'd \<Rightarrow> 'w \<Rightarrow> gerr option \<times> 'w"
  coDeleteOne :: "('d doc \<Rightarrow> bool) \<Rightarrow> 'w \<Rightarrow> (gerr + nat) \<times> 'w"
  coDeleteMany :: "('d doc \<Rightarrow> bool) \<Rightarrow> 'w \<Rightarrow> (gerr + nat) \<times> 'w"
  coStartSession :: "'w \<Rightarrow> gerr option \<times> 'w"
  coTransaction :: "('w \<Rightarrow> gerr option \<times> 'w) \<Rightarrow> 'w \<Rightarrow> gerr option \<times> 'w"

text \<open>How the adapters wrap what the driver says.\<close>

definition by_id :: "string \<Rightarrow> 'd doc \<Rightarrow> bool" where
  "by_id i x \<longleftrightarrow> fst x = StringID i"

fun said :: "string \<Rightarrow> (gerr + 'a) \<times> 'w \<Rightarrow> gerr option \<times> 'w" where
  "said p (Inl e, w) = (Some (EWrap p e), w)"
| "said p (Inr _, w) = (None, w)"

fun failing :: "string \<Rightarrow> gerr option \<times> 'w \<Rightarrow> gerr option \<times> 'w" where
  "failing p (e, w) = (map_option (EWrap p) e, w)"

fun decoded :: "string \<Rightarrow> ('a \<Rightarrow> 'b) \<Rightarrow> (gerr + 'a) \<times> 'w \<Rightarrow> (gerr + 'b) \<times> 'w" where
  "decoded p f (Inl e, w) = (Inl (EWrap p e), w)"
| "decoded p f (Inr x, w) = (Inr (f x), w)"

fun found :: "string \<Rightarrow> gerr \<Rightarrow> ('d doc \<Rightarrow> 'b) \<Rightarrow> (gerr + 'd doc option) \<times> 'w \<Rightarrow> (gerr + 'b) \<times> 'w" where
  "found p missing f (Inl e, w) = (Inl (EWrap p e), w)"
| "found p missing f (Inr None, w) = (Inl missing, w)"
| "found p missing f (Inr (Some x), w) = (Inr (f x), w)"

lemma found_Inr: "found p missing f (y, w) = (Inr b, w') \<Longrightarrow> \<exists>x. y = Inr (Some x) \<and> b = f x"
  by (cases y; cases "projr y") auto

lemma found_world: "snd (found p missing f y) = snd y"
  by (cases y; cases "fst y"; cases "projr (fst y)") auto

lemma decoded_Inr: "decoded p f y = (Inr b, w') \<Longrightarrow> \<exists>x. y = (Inr x, w') \<and> b = f x"
  by (cases y; cases "fst y") auto

lemma said_world: "snd (said p y) = snd y" "fst (said p y) = None \<longleftrightarrow> (\<exists>x. fst y = Inr x)"
  by (cases y; cases "fst y"; auto)+

section \<open>Documented behaviour\<close>

text \<open>A comparison that can sort: ties are an equivalence.\<close>

definition sort_order :: "('a \<Rightarrow> 'a \<Rightarrow> bool) \<Rightarrow> bool" where
  "sort_order before \<longleftrightarrow>
     (\<forall>a b. before a b \<longrightarrow> \<not> before b a) \<and> (\<forall>a b c. \<not> before a b \<longrightarrow> \<not> before b c \<longrightarrow> \<not> before a c)"

definition answers :: "'d query \<Rightarrow> 'd doc list \<Rightarrow> 'd doc list \<Rightarrow> bool" where
  "answers q xs ys \<longleftrightarrow>
     (\<exists>zs. mset zs = mset (filter (quFilter q) xs) \<and> (sort_order (quBefore q) \<longrightarrow> sorted_wrt (\<lambda>a b. \<not> quBefore q b a) zs)
        \<and> ys = (if quLimit q = 0 then drop (nat (quSkip q)) zs
                else take (nat \<bar>quLimit q\<bar>) (drop (nat (quSkip q)) zs)))"

definition changes_one :: "('d doc \<Rightarrow> bool) \<Rightarrow> ('d \<Rightarrow> 'd) \<Rightarrow> 'd doc list \<Rightarrow> 'd doc list \<Rightarrow> bool" where
  "changes_one p f xs ys \<longleftrightarrow>
     (\<exists>as i d bs. xs = as @ (i, d) # bs \<and> p (i, d) \<and> ys = as @ (i, f d) # bs)"

definition adds_one :: "('d \<Rightarrow> 'd \<Rightarrow> bool) \<Rightarrow> doc_id option \<Rightarrow> 'd \<Rightarrow> 'd doc list \<Rightarrow> 'd doc list \<Rightarrow> bool" where
  "adds_one conflict given d xs ys \<longleftrightarrow>
     (\<exists>i. (case given of Some j \<Rightarrow> i = j | None \<Rightarrow> \<exists>h. i = ObjectID h) \<and> i \<notin> fst ` set xs
        \<and> (\<forall>x \<in> set xs. \<not> conflict (snd x) d) \<and> ys = xs @ [(i, d)])"

text \<open>
  \<open>docs\<close> shows the documents of the collection in a world, \<open>conflict\<close> is the violation of its
  unique index. What fails changes nothing.
\<close>

definition read_laws :: "('w, 'd) collection \<Rightarrow> ('w \<Rightarrow> 'd doc list) \<Rightarrow> bool" where
  "read_laws c docs \<longleftrightarrow>
     (\<forall>w. distinct (map fst (docs w)))
     \<and> (\<forall>p w. docs (snd (coFindOne c p w)) = docs w)
     \<and> (\<forall>p w. fst (coFindOne c p w) = Inr None \<longrightarrow> (\<forall>x \<in> set (docs w). \<not> p x))
     \<and> (\<forall>p w x. fst (coFindOne c p w) = Inr (Some x) \<longrightarrow> x \<in> set (docs w) \<and> p x)
     \<and> (\<forall>q w. docs (snd (coFind c q w)) = docs w)
     \<and> (\<forall>q w ys. fst (coFind c q w) = Inr ys \<longrightarrow> answers q (docs w) ys)
     \<and> (\<forall>p w. docs (snd (coCount c p w)) = docs w)
     \<and> (\<forall>p w n. fst (coCount c p w) = Inr n \<longrightarrow> n = int (length (filter p (docs w))))"

definition inserted where
  "inserted conflict g d xs (e :: gerr option) ys \<longleftrightarrow> (if e = None then adds_one conflict g d xs ys else ys = xs)"

definition updated_one where
  "updated_one p f xs (r :: gerr + nat \<times> nat) ys \<longleftrightarrow>
     (case r of Inl _ \<Rightarrow> ys = xs
      | Inr (0, m) \<Rightarrow> ys = xs \<and> (\<forall>x \<in> set xs. \<not> p x)
      | Inr (Suc n, m) \<Rightarrow> changes_one p f xs ys)"

definition updated_many where
  "updated_many p f xs (r :: gerr + nat \<times> nat) ys \<longleftrightarrow>
     ys = (case r of Inl _ \<Rightarrow> xs | Inr _ \<Rightarrow> map (\<lambda>x. (fst x, if p x then f (snd x) else snd x)) xs)"

definition upserted where
  "upserted conflict p f g d xs (e :: gerr option) ys \<longleftrightarrow>
     (if e \<noteq> None then ys = xs
      else if \<exists>x \<in> set xs. p x then changes_one p f xs ys
      else adds_one conflict g d xs ys)"

definition deleted_one where
  "deleted_one p xs (r :: gerr + nat) ys \<longleftrightarrow>
     (case r of Inl _ \<Rightarrow> ys = xs
      | Inr 0 \<Rightarrow> ys = xs \<and> (\<forall>x \<in> set xs. \<not> p x)
      | Inr (Suc n) \<Rightarrow> \<exists>as x bs. xs = as @ x # bs \<and> p x \<and> ys = as @ bs)"

definition deleted_many where
  "deleted_many p xs (r :: gerr + nat) ys \<longleftrightarrow> ys = (case r of Inl _ \<Rightarrow> xs | Inr _ \<Rightarrow> filter (\<lambda>x. \<not> p x) xs)"

definition write_laws :: "('d \<Rightarrow> 'd \<Rightarrow> bool) \<Rightarrow> ('w, 'd) collection \<Rightarrow> ('w \<Rightarrow> 'd doc list) \<Rightarrow> bool" where
  "write_laws conflict c docs \<longleftrightarrow>
     (\<forall>g d w. inserted conflict g d (docs w) (fst (coInsert c g d w)) (docs (snd (coInsert c g d w))))
     \<and> (\<forall>p f w. updated_one p f (docs w) (fst (coUpdateOne c p f w)) (docs (snd (coUpdateOne c p f w))))
     \<and> (\<forall>p f w. updated_many p f (docs w) (fst (coUpdateMany c p f w)) (docs (snd (coUpdateMany c p f w))))
     \<and> (\<forall>p f g d w. upserted conflict p f g d (docs w) (fst (coUpsert c p f g d w)) (docs (snd (coUpsert c p f g d w))))
     \<and> (\<forall>p w. deleted_one p (docs w) (fst (coDeleteOne c p w)) (docs (snd (coDeleteOne c p w))))
     \<and> (\<forall>p w. deleted_many p (docs w) (fst (coDeleteMany c p w)) (docs (snd (coDeleteMany c p w))))"

text \<open>A transaction runs its body on these documents and commits, or leaves them.\<close>

definition transaction_laws :: "('w, 'd) collection \<Rightarrow> ('w \<Rightarrow> 'd doc list) \<Rightarrow> bool" where
  "transaction_laws c docs \<longleftrightarrow>
     (\<forall>w. docs (snd (coStartSession c w)) = docs w)
     \<and> (\<forall>body w. if fst (coTransaction c body w) = None
        then (\<exists>w0. docs w0 = docs w \<and> fst (body w0) = None \<and> docs (snd (coTransaction c body w)) = docs (snd (body w0)))
        else docs (snd (coTransaction c body w)) = docs w)"

section \<open>What follows from it\<close>

lemma find_one_laws:
  assumes "read_laws c docs" "coFindOne c p w = (r, w')"
  shows "docs w' = docs w" and "r = Inr None \<Longrightarrow> x \<in> set (docs w) \<Longrightarrow> \<not> p x"
    and "r = Inr (Some y) \<Longrightarrow> y \<in> set (docs w) \<and> p y"
  using assms unfolding read_laws_def by (metis fst_conv snd_conv)+

lemma find_laws:
  assumes "read_laws c docs" "coFind c q w = (r, w')"
  shows "docs w' = docs w" and "r = Inr ys \<Longrightarrow> answers q (docs w) ys"
  using assms unfolding read_laws_def by (metis fst_conv snd_conv)+

lemma count_laws:
  assumes "read_laws c docs" "coCount c p w = (r, w')"
  shows "docs w' = docs w" and "r = Inr n \<Longrightarrow> n = int (length (filter p (docs w)))"
  using assms unfolding read_laws_def by (metis fst_conv snd_conv)+

lemma ids_distinct: "read_laws c docs \<Longrightarrow> distinct (map fst (docs w))"
  unfolding read_laws_def by blast

lemma insert_law:
  assumes "write_laws conflict c docs" "coInsert c g d w = (r, w')"
  shows "inserted conflict g d (docs w) r (docs w')"
proof -
  have "inserted conflict g d (docs w) (fst (coInsert c g d w)) (docs (snd (coInsert c g d w)))" using assms(1) unfolding write_laws_def by blast
  then show ?thesis by (simp add: assms(2))
qed

lemma update_one_law:
  assumes "write_laws conflict c docs" "coUpdateOne c p f w = (r, w')"
  shows "updated_one p f (docs w) r (docs w')"
proof -
  have "updated_one p f (docs w) (fst (coUpdateOne c p f w)) (docs (snd (coUpdateOne c p f w)))" using assms(1) unfolding write_laws_def by blast
  then show ?thesis by (simp add: assms(2))
qed

lemma update_many_law:
  assumes "write_laws conflict c docs" "coUpdateMany c p f w = (r, w')"
  shows "updated_many p f (docs w) r (docs w')"
proof -
  have "updated_many p f (docs w) (fst (coUpdateMany c p f w)) (docs (snd (coUpdateMany c p f w)))" using assms(1) unfolding write_laws_def by blast
  then show ?thesis by (simp add: assms(2))
qed

lemma upsert_law:
  assumes "write_laws conflict c docs" "coUpsert c p f g d w = (r, w')"
  shows "upserted conflict p f g d (docs w) r (docs w')"
proof -
  have "upserted conflict p f g d (docs w) (fst (coUpsert c p f g d w)) (docs (snd (coUpsert c p f g d w)))" using assms(1) unfolding write_laws_def by blast
  then show ?thesis by (simp add: assms(2))
qed

lemma delete_one_law:
  assumes "write_laws conflict c docs" "coDeleteOne c p w = (r, w')"
  shows "deleted_one p (docs w) r (docs w')"
proof -
  have "deleted_one p (docs w) (fst (coDeleteOne c p w)) (docs (snd (coDeleteOne c p w)))" using assms(1) unfolding write_laws_def by blast
  then show ?thesis by (simp add: assms(2))
qed

lemma delete_many_law:
  assumes "write_laws conflict c docs" "coDeleteMany c p w = (r, w')"
  shows "deleted_many p (docs w) r (docs w')"
proof -
  have "deleted_many p (docs w) (fst (coDeleteMany c p w)) (docs (snd (coDeleteMany c p w)))" using assms(1) unfolding write_laws_def by blast
  then show ?thesis by (simp add: assms(2))
qed

lemma session_law: "transaction_laws c docs \<Longrightarrow> coStartSession c w = (e, w') \<Longrightarrow> docs w' = docs w"
  unfolding transaction_laws_def by (metis snd_conv)

lemma transaction_laws:
  assumes "transaction_laws c docs" "coTransaction c body w = (e, w')"
  shows "e \<noteq> None \<Longrightarrow> docs w' = docs w"
    and "e = None \<Longrightarrow> \<exists>w0. docs w0 = docs w \<and> fst (body w0) = None \<and> docs w' = docs (snd (body w0))"
  using assms unfolding transaction_laws_def by (metis fst_conv snd_conv)+

lemma answers_subset: "answers q xs ys \<Longrightarrow> y \<in> set ys \<Longrightarrow> y \<in> set xs \<and> quFilter q y"
proof -
  assume a: "answers q xs ys" "y \<in> set ys"
  then obtain zs where z: "mset zs = mset (filter (quFilter q) xs)" "set ys \<subseteq> set zs"
    unfolding answers_def by (metis order_trans set_drop_subset set_take_subset)
  from z(1) have "set zs = set (filter (quFilter q) xs)" by (rule mset_eq_setD)
  with a(2) z(2) show ?thesis by auto
qed

text \<open>The documents by identifier.\<close>

lemma changes_one_key:
  assumes "changes_one p f xs ys" "distinct (map fst xs)" "\<And>x. p x \<Longrightarrow> fst x = i"
  shows "map_of ys = (map_of xs)(i := map_option f (map_of xs i))"
proof -
  from assms(1) obtain as j d bs where s: "xs = as @ (j, d) # bs" "p (j, d)" "ys = as @ (j, f d) # bs"
    unfolding changes_one_def by blast
  with assms(3) have j: "j = i" by force
  with s(1) assms(2) have "map_of as i = None" by (auto simp: map_of_eq_None_iff)
  with s j show ?thesis by (auto simp: fun_eq_iff map_add_def split: option.split)
qed

lemma map_of_none: "\<forall>x \<in> set xs. fst x \<noteq> i \<Longrightarrow> map_of xs i = None"
  by (auto simp: map_of_eq_None_iff)

lemma adds_one_key: "adds_one conflict (Some i) d xs ys \<Longrightarrow> map_of ys = (map_of xs)(i := Some d) \<and> map_of xs i = None"
  by (auto simp: adds_one_def fun_eq_iff map_add_def map_of_eq_None_iff split: option.split)
    (metis map_of_eq_None_iff option.distinct(1))+

lemma removes_one_key:
  assumes "xs = as @ x # bs" "fst x = i" "distinct (map fst xs)"
  shows "map_of (as @ bs) = (map_of xs)(i := None)"
proof -
  from assms have "map_of as i = None" "map_of bs i = None" by (auto simp: map_of_eq_None_iff)
  with assms show ?thesis by (cases x) (auto simp: fun_eq_iff map_add_def split: option.split)
qed

section \<open>Collections keyed by a string\<close>

lemma find_by_id:
  assumes "read_laws c docs" "coFindOne c (by_id i) w = (r, w')"
  shows "docs w' = docs w" and "r = Inr y \<Longrightarrow> map_of (docs w) (StringID i) = map_option snd y"
    and "r = Inr (Some x) \<Longrightarrow> fst x = StringID i"
proof -
  note l = find_one_laws [OF assms]
  show "docs w' = docs w" by (rule l(1))
  show "r = Inr (Some x) \<Longrightarrow> fst x = StringID i" using l(3) by (simp add: by_id_def)
  assume r: "r = Inr y"
  show "map_of (docs w) (StringID i) = map_option snd y"
  proof (cases y)
    case None
    with r l(2) have "\<forall>x \<in> set (docs w). fst x \<noteq> StringID i" by (simp add: by_id_def)
    with None show ?thesis by (simp add: map_of_none)
  next
    case (Some x)
    with r l(3) have "x \<in> set (docs w)" "fst x = StringID i" by (simp_all add: by_id_def)
    then have "(StringID i, snd x) \<in> set (docs w)" by (metis prod.collapse)
    with Some ids_distinct [OF assms(1)] show ?thesis by simp
  qed
qed

lemma insert_by_id:
  assumes "write_laws conflict c docs" "coInsert c (Some (StringID i)) d w = (e, w')"
  shows "map_of (docs w') = (if e = None then (map_of (docs w))(StringID i := Some d) else map_of (docs w))"
    and "e = None \<Longrightarrow> map_of (docs w) (StringID i) = None"
proof -
  have "inserted conflict (Some (StringID i)) d (docs w) e (docs w')" by (rule insert_law [OF assms])
  then show "map_of (docs w') = (if e = None then (map_of (docs w))(StringID i := Some d) else map_of (docs w))"
    "e = None \<Longrightarrow> map_of (docs w) (StringID i) = None"
    by (auto simp: inserted_def dest: adds_one_key split: if_splits)
qed

lemma update_by_id:
  assumes "read_laws c docs" "write_laws conflict c docs" "coUpdateOne c (by_id i) f w = (r, w')"
  shows "map_of (docs w') = (case r of Inl _ \<Rightarrow> map_of (docs w)
      | Inr _ \<Rightarrow> (map_of (docs w))(StringID i := map_option f (map_of (docs w) (StringID i))))"
    and "r = Inr (n, m) \<Longrightarrow> n = 0 \<longleftrightarrow> map_of (docs w) (StringID i) = None"
proof -
  have u: "updated_one (by_id i) f (docs w) r (docs w')" by (rule update_one_law [OF assms(2,3)])
  have k: "map_of (docs w') = (map_of (docs w))(StringID i := map_option f (map_of (docs w) (StringID i)))"
    if "changes_one (by_id i) f (docs w) (docs w')"
    by (rule changes_one_key [OF that ids_distinct [OF assms(1)]]) (simp add: by_id_def)
  have h: "map_of (docs w) (StringID i) \<noteq> None" if "changes_one (by_id i) f (docs w) (docs w')"
    using that by (auto simp: changes_one_def by_id_def map_of_eq_None_iff)
  show "map_of (docs w') = (case r of Inl _ \<Rightarrow> map_of (docs w)
      | Inr _ \<Rightarrow> (map_of (docs w))(StringID i := map_option f (map_of (docs w) (StringID i))))"
    using u k map_of_none [of "docs w" "StringID i"]
    by (auto simp: updated_one_def by_id_def fun_eq_iff split: sum.splits prod.splits nat.splits)
  show "r = Inr (n, m) \<Longrightarrow> n = 0 \<longleftrightarrow> map_of (docs w) (StringID i) = None"
    using u h map_of_none [of "docs w" "StringID i"]
    by (auto simp: updated_one_def by_id_def split: nat.splits)
qed

lemma upsert_by_id:
  assumes "read_laws c docs" "write_laws conflict c docs"
    and "coUpsert c (by_id i) f (Some (StringID i)) d w = (e, w')"
  shows "map_of (docs w') = (if e = None
      then (map_of (docs w))(StringID i := Some (case map_of (docs w) (StringID i) of None \<Rightarrow> d | Some old \<Rightarrow> f old))
      else map_of (docs w))"
proof -
  have u: "upserted conflict (by_id i) f (Some (StringID i)) d (docs w) e (docs w')" by (rule upsert_law [OF assms(2,3)])
  show ?thesis
  proof (cases "e = None")
    case True
    show ?thesis
    proof (cases "\<exists>x \<in> set (docs w). by_id i x")
      case hit: True
      with u True have c: "changes_one (by_id i) f (docs w) (docs w')" by (simp add: upserted_def)
      have "map_of (docs w') = (map_of (docs w))(StringID i := map_option f (map_of (docs w) (StringID i)))"
        by (rule changes_one_key [OF c ids_distinct [OF assms(1)]]) (simp add: by_id_def)
      moreover obtain old where "map_of (docs w) (StringID i) = Some old"
        using hit by (auto simp: by_id_def) (metis image_eqI map_of_eq_None_iff not_None_eq fst_conv)
      ultimately show ?thesis using True by simp
    next
      case miss: False
      with u True have "adds_one conflict (Some (StringID i)) d (docs w) (docs w')" by (simp add: upserted_def)
      with True show ?thesis by (simp add: adds_one_key)
    qed
  qed (use u in \<open>auto simp: upserted_def\<close>)
qed

lemma delete_by_id:
  assumes "read_laws c docs" "write_laws conflict c docs" "coDeleteOne c (by_id i) w = (r, w')"
  shows "map_of (docs w') = (case r of Inl _ \<Rightarrow> map_of (docs w) | Inr _ \<Rightarrow> (map_of (docs w))(StringID i := None))"
proof -
  have d: "deleted_one (by_id i) (docs w) r (docs w')" by (rule delete_one_law [OF assms(2,3)])
  show ?thesis
  proof (cases r)
    case (Inr n)
    show ?thesis
    proof (cases n)
      case 0
      with d Inr have "docs w' = docs w" "map_of (docs w) (StringID i) = None"
        by (auto simp: deleted_one_def by_id_def intro!: map_of_none)
      with Inr show ?thesis by (simp add: fun_eq_iff)
    next
      case (Suc k)
      with d Inr obtain as x bs where "docs w = as @ x # bs" "by_id i x" "docs w' = as @ bs"
        by (auto simp: deleted_one_def)
      then have "map_of (docs w') = (map_of (docs w))(StringID i := None)"
        using removes_one_key [of "docs w" as x bs "StringID i"] ids_distinct [OF assms(1), of w] by (metis by_id_def)
      with Inr show ?thesis by simp
    qed
  qed (use d in \<open>simp add: deleted_one_def\<close>)
qed

end
