(* ===== verification/DemoStore.thy ===== *)
theory DemoStore
  imports DocStore "HOL-Library.AList"
begin

text \<open>
  A collection in memory that keeps the laws of \<open>DocStore\<close>, so that they can be met: the witnesses
  of the adapters run on it. Its world is an association list, seen without shadowed entries.
\<close>

section \<open>The collection\<close>

fun update_first :: "('d doc \<Rightarrow> bool) \<Rightarrow> ('d \<Rightarrow> 'd) \<Rightarrow> 'd doc list \<Rightarrow> 'd doc list option" where
  "update_first p f [] = None"
| "update_first p f (x # xs) = (if p x then Some ((fst x, f (snd x)) # xs) else map_option ((#) x) (update_first p f xs))"

fun delete_first :: "('d doc \<Rightarrow> bool) \<Rightarrow> 'd doc list \<Rightarrow> 'd doc list option" where
  "delete_first p [] = None"
| "delete_first p (x # xs) = (if p x then Some xs else map_option ((#) x) (delete_first p xs))"

fun insert_by :: "('a \<Rightarrow> 'a \<Rightarrow> bool) \<Rightarrow> 'a \<Rightarrow> 'a list \<Rightarrow> 'a list" where
  "insert_by before x [] = [x]"
| "insert_by before x (y # ys) = (if before y x then y # insert_by before x ys else x # y # ys)"

definition sort_by :: "('a \<Rightarrow> 'a \<Rightarrow> bool) \<Rightarrow> 'a list \<Rightarrow> 'a list" where
  "sort_by before xs = foldr (insert_by before) xs []"

definition page :: "'d query \<Rightarrow> 'a list \<Rightarrow> 'a list" where
  "page q zs = (if quLimit q = 0 then drop (nat (quSkip q)) zs else take (nat \<bar>quLimit q\<bar>) (drop (nat (quSkip q)) zs))"

definition fresh_id :: "'d doc list \<Rightarrow> doc_id" where
  "fresh_id xs = ObjectID (replicate (Suc (sum_list (map (length \<circ> id_text \<circ> fst) xs))) (CHR ''0''))"

definition mem_insert :: "('d \<Rightarrow> 'd \<Rightarrow> bool) \<Rightarrow> doc_id option \<Rightarrow> 'd \<Rightarrow> 'd doc list \<Rightarrow> gerr option \<times> 'd doc list" where
  "mem_insert conflict g d w =
     (let xs = AList.clearjunk w; i = (case g of Some j \<Rightarrow> j | None \<Rightarrow> fresh_id xs)
      in if i \<in> fst ` set xs \<or> list_ex (\<lambda>x. conflict (snd x) d) xs then (Some (EPlain ''E11000 duplicate key error''), w)
         else (None, xs @ [(i, d)]))"

definition mem_store :: "('d \<Rightarrow> 'd \<Rightarrow> bool) \<Rightarrow> ('d doc list, 'd) collection" where
  "mem_store conflict =
     \<lparr>coFindOne = (\<lambda>p w. (Inr (List.find p (AList.clearjunk w)), w)),
      coFind = (\<lambda>q w. (Inr (page q (sort_by (quBefore q) (filter (quFilter q) (AList.clearjunk w)))), w)),
      coCount = (\<lambda>p w. (Inr (int (length (filter p (AList.clearjunk w)))), w)),
      coInsert = mem_insert conflict,
      coUpdateOne = (\<lambda>p f w. case update_first p f (AList.clearjunk w) of None \<Rightarrow> (Inr (0, 0), w) | Some ys \<Rightarrow> (Inr (1, 1), ys)),
      coUpdateMany = (\<lambda>p f w. (Inr (1, 1), map (\<lambda>x. (fst x, if p x then f (snd x) else snd x)) (AList.clearjunk w))),
      coUpsert = (\<lambda>p f g d w. case update_first p f (AList.clearjunk w) of None \<Rightarrow> mem_insert conflict g d w | Some ys \<Rightarrow> (None, ys)),
      coDeleteOne = (\<lambda>p w. case delete_first p (AList.clearjunk w) of None \<Rightarrow> (Inr 0, w) | Some ys \<Rightarrow> (Inr 1, ys)),
      coDeleteMany = (\<lambda>p w. (Inr 1, filter (\<lambda>x. \<not> p x) (AList.clearjunk w))),
      coStartSession = (\<lambda>w. (None, w)),
      coTransaction = (\<lambda>body w. case body w of (None, w1) \<Rightarrow> (None, w1) | (Some e, _) \<Rightarrow> (Some e, w))\<rparr>"

section \<open>It keeps the laws\<close>

lemma mset_insert_by: "mset (insert_by before x xs) = add_mset x (mset xs)"
  by (induction xs) auto

lemma mset_sort_by: "mset (sort_by before xs) = mset xs"
  by (induction xs) (auto simp: sort_by_def mset_insert_by)

lemma set_insert_by: "set (insert_by before x xs) = insert x (set xs)"
  by (induction xs) auto

lemma sorted_insert_by:
  assumes "sort_order before" "sorted_wrt (\<lambda>a b. \<not> before b a) xs"
  shows "sorted_wrt (\<lambda>a b. \<not> before b a) (insert_by before x xs)"
  using assms(2)
proof (induction xs)
  case (Cons y ys)
  show ?case
  proof (cases "before y x")
    case True
    then have "\<not> before x y" using assms(1) unfolding sort_order_def by blast
    with True Cons show ?thesis by (auto simp: set_insert_by)
  next
    case False
    have "\<not> before b x" if "b \<in> set ys" for b
    proof -
      have "\<not> before b y" using Cons.prems that by simp
      with False assms(1) show ?thesis unfolding sort_order_def by blast
    qed
    with False Cons.prems show ?thesis by auto
  qed
qed simp

lemma sorted_sort_by: "sort_order before \<Longrightarrow> sorted_wrt (\<lambda>a b. \<not> before b a) (sort_by before xs)"
  unfolding sort_by_def by (induction xs) (auto intro: sorted_insert_by)

lemma update_first_none: "update_first p f xs = None \<longleftrightarrow> (\<forall>x \<in> set xs. \<not> p x)"
  by (induction xs) auto

lemma update_first_some: "update_first p f xs = Some ys \<Longrightarrow> changes_one p f xs ys"
proof (induction xs arbitrary: ys)
  case (Cons x xs)
  show ?case
  proof (cases "p x")
    case True
    with Cons.prems show ?thesis unfolding changes_one_def by (cases x) (auto intro: exI [of _ "[]"])
  next
    case False
    with Cons.prems obtain zs where "update_first p f xs = Some zs" "ys = x # zs" by auto
    with Cons.IH obtain as i d bs where "x # xs = (x # as) @ (i, d) # bs" "p (i, d)" "ys = (x # as) @ (i, f d) # bs"
      unfolding changes_one_def by auto
    then show ?thesis unfolding changes_one_def by blast
  qed
qed simp

lemma delete_first_none: "delete_first p xs = None \<longleftrightarrow> (\<forall>x \<in> set xs. \<not> p x)"
  by (induction xs) auto

lemma delete_first_some: "delete_first p xs = Some ys \<Longrightarrow> \<exists>as x bs. xs = as @ x # bs \<and> p x \<and> ys = as @ bs"
proof (induction xs arbitrary: ys)
  case (Cons x xs)
  show ?case
  proof (cases "p x")
    case True
    with Cons.prems have "x # xs = [] @ x # xs" "p x" "ys = [] @ xs" by auto
    then show ?thesis by blast
  next
    case False
    with Cons.prems obtain zs where "delete_first p xs = Some zs" "ys = x # zs" by auto
    with Cons.IH obtain as y bs where "x # xs = (x # as) @ y # bs" "p y" "ys = (x # as) @ bs" by auto
    then show ?thesis by blast
  qed
qed simp

lemma keys_kept: "changes_one p f xs ys \<Longrightarrow> map fst ys = map fst xs"
  by (auto simp: changes_one_def)

lemma clear_id: "distinct (map fst xs) \<Longrightarrow> AList.clearjunk xs = xs"
  by (rule distinct_clearjunk_id)

lemma fresh_is_new: "fresh_id xs \<notin> fst ` set xs"
proof
  assume "fresh_id xs \<in> fst ` set xs"
  then obtain x where x: "x \<in> set xs" "fst x = fresh_id xs" by auto
  from x(1) have "length (id_text (fst x)) \<in> set (map (length \<circ> id_text \<circ> fst) xs)" by auto
  then have "length (id_text (fst x)) \<le> sum_list (map (length \<circ> id_text \<circ> fst) xs)"
    by (rule member_le_sum_list) simp
  with x(2) show False by (simp add: fresh_id_def)
qed

lemma mem_reads: "read_laws (mem_store conflict) AList.clearjunk"
  unfolding read_laws_def mem_store_def answers_def page_def
  by (auto simp: distinct_clearjunk find_None_iff find_Some_iff mset_sort_by sorted_sort_by
      intro!: exI [of _ "sort_by before xs" for before xs] nth_mem)

lemma mem_inserted:
  "inserted conflict g d (AList.clearjunk w) (fst (mem_insert conflict g d w)) (AList.clearjunk (snd (mem_insert conflict g d w)))"
proof -
  let ?xs = "AList.clearjunk w" and ?i = "case g of Some j \<Rightarrow> j | None \<Rightarrow> fresh_id (AList.clearjunk w)"
  show ?thesis
  proof (cases "?i \<in> fst ` set ?xs \<or> list_ex (\<lambda>x. conflict (snd x) d) ?xs")
    case True
    then show ?thesis by (simp add: mem_insert_def inserted_def Let_def)
  next
    case False
    then have "distinct (map fst (?xs @ [(?i, d)]))" by (auto simp: distinct_clearjunk)
    with False show ?thesis
      by (auto simp: mem_insert_def inserted_def adds_one_def Let_def clear_id list_ex_iff fresh_id_def split: option.splits)
  qed
qed

lemma mem_updated:
  assumes "changes_one p f (AList.clearjunk w) ys"
  shows "AList.clearjunk ys = ys"
  by (rule clear_id) (simp add: keys_kept [OF assms] distinct_clearjunk)

lemma mem_writes: "write_laws conflict (mem_store conflict) AList.clearjunk"
  unfolding write_laws_def
proof (intro conjI allI)
  fix g d w
  show "inserted conflict g d (AList.clearjunk w) (fst (coInsert (mem_store conflict) g d w))
      (AList.clearjunk (snd (coInsert (mem_store conflict) g d w)))"
    using mem_inserted by (simp add: mem_store_def)
next
  fix p f w
  show "updated_one p f (AList.clearjunk w) (fst (coUpdateOne (mem_store conflict) p f w))
      (AList.clearjunk (snd (coUpdateOne (mem_store conflict) p f w)))"
  proof (cases "update_first p f (AList.clearjunk w)")
    case None
    moreover have "\<forall>x \<in> set (AList.clearjunk w). \<not> p x" using None update_first_none by blast
    ultimately show ?thesis by (simp add: mem_store_def updated_one_def)
  next
    case (Some ys)
    then show ?thesis using update_first_some [OF Some] by (simp add: mem_store_def updated_one_def mem_updated)
  qed
next
  fix p :: "'a doc \<Rightarrow> bool" and f w
  have "map fst (map (\<lambda>x. (fst x, if p x then f (snd x) else snd x)) (AList.clearjunk w)) = map fst (AList.clearjunk w)"
    by simp
  then have "AList.clearjunk (map (\<lambda>x. (fst x, if p x then f (snd x) else snd x)) (AList.clearjunk w))
      = map (\<lambda>x. (fst x, if p x then f (snd x) else snd x)) (AList.clearjunk w)"
    using distinct_clearjunk [of w] clear_id by metis
  then show "updated_many p f (AList.clearjunk w) (fst (coUpdateMany (mem_store conflict) p f w))
      (AList.clearjunk (snd (coUpdateMany (mem_store conflict) p f w)))"
    by (simp add: mem_store_def updated_many_def)
next
  fix p f g d w
  show "upserted conflict p f g d (AList.clearjunk w) (fst (coUpsert (mem_store conflict) p f g d w))
      (AList.clearjunk (snd (coUpsert (mem_store conflict) p f g d w)))"
  proof (cases "update_first p f (AList.clearjunk w)")
    case None
    moreover have "\<forall>x \<in> set (AList.clearjunk w). \<not> p x" using None update_first_none by blast
    ultimately show ?thesis using mem_inserted [of conflict g d w]
      by (cases "fst (mem_insert conflict g d w)") (auto simp: mem_store_def upserted_def inserted_def)
  next
    case (Some ys)
    then have "\<exists>x \<in> set (AList.clearjunk w). p x" using update_first_none [of p f] by (metis option.distinct(1))
    with Some update_first_some [OF Some] show ?thesis by (simp add: mem_store_def upserted_def mem_updated)
  qed
next
  fix p w
  show "deleted_one p (AList.clearjunk w) (fst (coDeleteOne (mem_store conflict) p w))
      (AList.clearjunk (snd (coDeleteOne (mem_store conflict) p w)))"
  proof (cases "delete_first p (AList.clearjunk w)")
    case None
    moreover have "\<forall>x \<in> set (AList.clearjunk w). \<not> p x" using None delete_first_none by blast
    ultimately show ?thesis by (simp add: mem_store_def deleted_one_def)
  next
    case (Some ys)
    from delete_first_some [OF Some] obtain as x bs where s: "AList.clearjunk w = as @ x # bs" "p x" "ys = as @ bs" by blast
    have "distinct (map fst (as @ bs))" using distinct_clearjunk [of w] s(1) by simp
    then have c: "AList.clearjunk ys = ys" using s(3) clear_id by blast
    have "deleted_one p (AList.clearjunk w) (Inr (Suc 0)) ys"
      using delete_first_some [OF Some] by (simp add: deleted_one_def)
    with c Some show ?thesis by (simp add: mem_store_def)
  qed
next
  fix p :: "'a doc \<Rightarrow> bool" and w
  have "distinct (map fst (filter (\<lambda>x. \<not> p x) (AList.clearjunk w)))"
    by (rule distinct_map_filter [OF distinct_clearjunk])
  then show "deleted_many p (AList.clearjunk w) (fst (coDeleteMany (mem_store conflict) p w))
      (AList.clearjunk (snd (coDeleteMany (mem_store conflict) p w)))"
    by (simp add: mem_store_def deleted_many_def clear_id)
qed

lemma mem_transactions: "transaction_laws (mem_store conflict) AList.clearjunk"
  unfolding transaction_laws_def
proof (intro conjI allI)
  show "AList.clearjunk (snd (coStartSession (mem_store conflict) w)) = AList.clearjunk w" for w
    by (simp add: mem_store_def)
next
  fix body :: "'a doc list \<Rightarrow> gerr option \<times> 'a doc list" and w
  show "if fst (coTransaction (mem_store conflict) body w) = None
     then \<exists>w0. AList.clearjunk w0 = AList.clearjunk w \<and> fst (body w0) = None
        \<and> AList.clearjunk (snd (coTransaction (mem_store conflict) body w)) = AList.clearjunk (snd (body w0))
     else AList.clearjunk (snd (coTransaction (mem_store conflict) body w)) = AList.clearjunk w"
    by (cases "body w"; cases "fst (body w)") (auto simp: mem_store_def)
qed

end
