(* ===== verification/MongoSpirits.thy ===== *)
theory MongoSpirits
  imports Spirit DocStore
begin

text \<open>
  The versioned store of Spirits, \<open>mongo/spirit_repository.go\<close>. Every update inserts a new version;
  one version of a name is active. The index on name and version is unique.
\<close>

section \<open>Documents\<close>

text \<open>The fields of \<open>entities.Spirit\<close> that the life of a version uses, beside those of \<open>spirit\<close>.\<close>

record versioned_spirit = spirit +
  vsActive :: bool
  vsDeleted :: bool
  vsCreatedAt :: int
  vsUpdatedAt :: "int option"
  vsUpdatedBy :: string
  vsDeletedAt :: "int option"
  vsDeletedBy :: string
  vsDeactivatedAt :: "int option"
  vsChangeLog :: string

type_synonym 'w spirits = "('w, versioned_spirit) collection"

definition decode_spirit :: "versioned_spirit doc \<Rightarrow> versioned_spirit" where
  "decode_spirit x = (snd x)\<lparr>sID := id_text (fst x)\<rparr>"

text \<open>The tag \<open>omitempty\<close>: without an identifier the driver makes one.\<close>

definition given_id :: "versioned_spirit \<Rightarrow> doc_id option" where
  "given_id sp = (if sID sp = [] then None else Some (StringID (sID sp)))"

definition version_conflict :: "versioned_spirit \<Rightarrow> versioned_spirit \<Rightarrow> bool" where
  "version_conflict a b \<longleftrightarrow> sName a = sName b \<and> sVersion a = sVersion b"

definition named :: "string \<Rightarrow> versioned_spirit doc \<Rightarrow> bool" where
  "named n x \<longleftrightarrow> sName (snd x) = n"

definition is_active :: "versioned_spirit doc \<Rightarrow> bool" where
  "is_active x \<longleftrightarrow> vsActive (snd x) \<and> \<not> vsDeleted (snd x)"

definition at_version :: "int \<Rightarrow> versioned_spirit doc \<Rightarrow> bool" where
  "at_version v x \<longleftrightarrow> sVersion (snd x) = v"

definition version_name :: "string \<Rightarrow> int \<Rightarrow> string" where
  "version_name n v = n @ '' v'' @ int_dec v"

section \<open>Reading\<close>

definition FindActiveByName :: "'w spirits \<Rightarrow> string \<Rightarrow> 'w \<Rightarrow> (gerr + versioned_spirit) \<times> 'w" where
  "FindActiveByName c n w =
     (if n = [] then (Inl (EPlain ''invalid input: spiritName is required''), w)
      else found ''failed to find spirit'' (ENotFound ''spirit'' n) decode_spirit
             (coFindOne c (\<lambda>x. named n x \<and> is_active x) w))"

text \<open>A later document of the same name replaces an earlier one in the map.\<close>

definition FindActiveByNames :: "'w spirits \<Rightarrow> string list \<Rightarrow> 'w \<Rightarrow> (gerr + (string \<times> versioned_spirit) list) \<times> 'w" where
  "FindActiveByNames c ns w =
     (if ns = [] then (Inr [], w)
      else decoded ''failed to find spirits by names''
             (\<lambda>xs. fold (\<lambda>x. AList.update (sName (snd x)) (decode_spirit x)) xs [])
             (coFind c (find_all (\<lambda>x. sName (snd x) \<in> set ns \<and> is_active x)) w))"

definition spirit_FindByID :: "'w spirits \<Rightarrow> string \<Rightarrow> 'w \<Rightarrow> (gerr + versioned_spirit) \<times> 'w" where
  "spirit_FindByID c i w =
     (if i = [] then (Inl (EPlain ''invalid input: id is required''), w)
      else found ''failed to find spirit'' (ENotFound ''spirit'' i) decode_spirit (coFindOne c (by_id i) w))"

definition ListActive :: "'w spirits \<Rightarrow> int \<Rightarrow> int \<Rightarrow> 'w \<Rightarrow> (gerr + versioned_spirit list) \<times> 'w" where
  "ListActive c limit offset w =
     decoded ''failed to list active spirits'' (map decode_spirit)
       (coFind c \<lparr>quFilter = is_active, quBefore = (\<lambda>a b. sName (snd a) < sName (snd b)), quSkip = offset, quLimit = limit\<rparr> w)"

definition CountActive :: "'w spirits \<Rightarrow> 'w \<Rightarrow> (gerr + int) \<times> 'w" where
  "CountActive c w = decoded ''failed to count active spirits'' id (coCount c is_active w)"

definition ListAll :: "'w spirits \<Rightarrow> 'w \<Rightarrow> (gerr + versioned_spirit list) \<times> 'w" where
  "ListAll c w =
     decoded ''failed to list all spirits'' (map decode_spirit)
       (coFind c \<lparr>quFilter = (\<lambda>_. True),
          quBefore = (\<lambda>a b. sName (snd a) < sName (snd b)
             \<or> sName (snd a) = sName (snd b) \<and> sVersion (snd b) < sVersion (snd a)),
          quSkip = 0, quLimit = 0\<rparr> w)"

definition GetVersion :: "'w spirits \<Rightarrow> string \<Rightarrow> int \<Rightarrow> 'w \<Rightarrow> (gerr + versioned_spirit) \<times> 'w" where
  "GetVersion c n v w =
     (if n = [] \<or> v < 1 then (Inl (EPlain ''invalid input: spiritName and version are required''), w)
      else found ''failed to get spirit version'' (ENotFound ''spirit version'' (version_name n v)) decode_spirit
             (coFindOne c (\<lambda>x. named n x \<and> at_version v x) w))"

definition FindVersionHistory :: "'w spirits \<Rightarrow> string \<Rightarrow> 'w \<Rightarrow> (gerr + versioned_spirit list) \<times> 'w" where
  "FindVersionHistory c n w =
     (if n = [] then (Inl (EPlain ''invalid input: spiritName is required''), w)
      else decoded ''failed to find version history'' (map decode_spirit)
             (coFind c \<lparr>quFilter = named n, quBefore = (\<lambda>a b. sVersion (snd b) < sVersion (snd a)), quSkip = 0, quLimit = 0\<rparr> w))"

section \<open>Writing\<close>

text \<open>An error of the lookup counts as a free name: the unique index decides.\<close>

definition spirit_Create :: "'w spirits \<Rightarrow> int \<Rightarrow> versioned_spirit \<Rightarrow> 'w \<Rightarrow> gerr option \<times> 'w" where
  "spirit_Create c now sp w =
     (if sName sp = [] then (Some (EPlain ''invalid spirit: name is required''), w)
      else case FindActiveByName c (sName sp) w of
        (Inr _, w1) \<Rightarrow> (Some (EConflict ''spirit'' (sName sp)), w1)
      | (Inl _, w1) \<Rightarrow>
          failing ''failed to create spirit''
            (coInsert c (given_id sp) (sp\<lparr>sVersion := 1, vsActive := True, vsDeleted := False, vsCreatedAt := now\<rparr>) w1))"

definition next_version :: "string \<Rightarrow> int \<Rightarrow> int \<Rightarrow> string \<Rightarrow> versioned_spirit \<Rightarrow> versioned_spirit" where
  "next_version n v now changeLog sp =
     sp\<lparr>sID := [], sName := n, sVersion := v + 1, vsActive := True, vsDeleted := False, vsCreatedAt := now,
        vsChangeLog := changeLog, vsUpdatedAt := None, vsUpdatedBy := [], vsDeletedAt := None, vsDeletedBy := [],
        vsDeactivatedAt := None\<rparr>"

definition spirit_Update :: "'w spirits \<Rightarrow> int \<Rightarrow> string \<Rightarrow> versioned_spirit \<Rightarrow> string \<Rightarrow> 'w \<Rightarrow> (gerr + versioned_spirit) \<times> 'w" where
  "spirit_Update c now n sp changeLog w =
     (if n = [] then (Inl (EPlain ''invalid input: spiritName and spirit are required''), w)
      else case FindActiveByName c n w of
        (Inl e, w1) \<Rightarrow> (Inl (EWrap ''spirit not found'' e), w1)
      | (Inr current, w1) \<Rightarrow>
          (case coUpdateOne c (\<lambda>x. named n x \<and> vsActive (snd x)) (\<lambda>d. d\<lparr>vsActive := False\<rparr>) w1 of
             (Inl e, w2) \<Rightarrow> (Inl (EWrap ''failed to deactivate current version'' e), w2)
           | (Inr _, w2) \<Rightarrow>
               (let new = next_version n (sVersion current) now changeLog sp
                in case coInsert c (given_id new) new w2 of
                     (Some e, w3) \<Rightarrow> (Inl (EWrap ''failed to create new version'' e), w3)
                   | (None, w3) \<Rightarrow> (Inr new, w3))))"

text \<open>The bodies of the two transactions.\<close>

definition activate_body :: "'w spirits \<Rightarrow> string \<Rightarrow> int \<Rightarrow> 'w \<Rightarrow> gerr option \<times> 'w" where
  "activate_body c n v w =
     (case coUpdateMany c (named n) (\<lambda>d. d\<lparr>vsActive := False\<rparr>) w of
        (Inl e, w1) \<Rightarrow> (Some (EWrap ''failed to deactivate versions'' e), w1)
      | (Inr _, w1) \<Rightarrow>
          (case coUpdateOne c (\<lambda>x. named n x \<and> at_version v x) (\<lambda>d. d\<lparr>vsActive := True\<rparr>) w1 of
             (Inl e, w2) \<Rightarrow> (Some (EWrap ''failed to activate version'' e), w2)
           | (Inr (0, m), w2) \<Rightarrow> (Some (ENotFound ''spirit version'' (version_name n v)), w2)
           | (Inr (Suc k, m), w2) \<Rightarrow> (None, w2)))"

definition Activate :: "'w spirits \<Rightarrow> string \<Rightarrow> int \<Rightarrow> 'w \<Rightarrow> gerr option \<times> 'w" where
  "Activate c n v w =
     (if n = [] \<or> v < 1 then (Some (EPlain ''invalid input: spiritName and version are required''), w)
      else case coStartSession c w of
        (Some e, w1) \<Rightarrow> (Some (EWrap ''failed to start session'' e), w1)
      | (None, w1) \<Rightarrow> failing ''spirit transaction'' (coTransaction c (activate_body c n v) w1))"

definition spirit_Deactivate :: "'w spirits \<Rightarrow> int \<Rightarrow> string \<Rightarrow> 'w \<Rightarrow> gerr option \<times> 'w" where
  "spirit_Deactivate c now i w =
     (if i = [] then (Some (EPlain ''invalid input: id is required''), w)
      else said ''failed to deactivate spirit''
             (coUpdateOne c (by_id i) (\<lambda>d. d\<lparr>vsActive := False, vsDeactivatedAt := Some now\<rparr>) w))"

definition restore_body :: "'w spirits \<Rightarrow> string \<Rightarrow> string \<Rightarrow> 'w \<Rightarrow> gerr option \<times> 'w" where
  "restore_body c n i w =
     (case coUpdateMany c (named n) (\<lambda>d. d\<lparr>vsActive := False\<rparr>) w of
        (Inl e, w1) \<Rightarrow> (Some (EWrap ''failed to deactivate current versions'' e), w1)
      | (Inr _, w1) \<Rightarrow>
          said ''failed to restore spirit version''
            (coUpdateOne c (by_id i) (\<lambda>d. d\<lparr>vsActive := True, vsDeactivatedAt := None\<rparr>) w1))"

definition RestoreVersion :: "'w spirits \<Rightarrow> string \<Rightarrow> 'w \<Rightarrow> gerr option \<times> 'w" where
  "RestoreVersion c i w =
     (if i = [] then (Some (EPlain ''invalid input: id is required''), w)
      else case spirit_FindByID c i w of
        (Inl e, w1) \<Rightarrow> (Some e, w1)
      | (Inr sp, w1) \<Rightarrow>
          (case coStartSession c w1 of
             (Some e, w2) \<Rightarrow> (Some (EWrap ''failed to start session'' e), w2)
           | (None, w2) \<Rightarrow> failing ''spirit transaction'' (coTransaction c (restore_body c (sName sp) i) w2)))"

end
