(* ===== verification/SpiritLaws.thy ===== *)
theory SpiritLaws
  imports MongoSpirits
begin

text \<open>
  What the versioned store of Spirits guarantees over a collection that keeps its documented laws:
  one active version per name, an immutable history, and where it gets stuck.
\<close>

section \<open>The store between operations\<close>

definition actives :: "string \<Rightarrow> versioned_spirit doc list \<Rightarrow> doc_id set" where
  "actives n xs = {fst x |x. x \<in> set xs \<and> named n x \<and> vsActive (snd x)}"

definition one_active :: "versioned_spirit doc list \<Rightarrow> bool" where
  "one_active xs \<longleftrightarrow> (\<forall>n a b. a \<in> actives n xs \<longrightarrow> b \<in> actives n xs \<longrightarrow> a = b)"

text \<open>Nothing is deleted, versions count from 1, and every name has its first version.\<close>

definition versioned :: "versioned_spirit doc list \<Rightarrow> bool" where
  "versioned xs \<longleftrightarrow>
     (\<forall>x \<in> set xs. \<not> vsDeleted (snd x) \<and> 1 \<le> sVersion (snd x)
        \<and> (\<exists>y \<in> set xs. sName (snd y) = sName (snd x) \<and> sVersion (snd y) = 1))"

definition spirit_inv :: "versioned_spirit doc list \<Rightarrow> bool" where
  "spirit_inv xs \<longleftrightarrow> one_active xs \<and> versioned xs"

text \<open>Nothing but the life of a version changes: what it says, and its number, stay.\<close>

definition same_version :: "versioned_spirit doc \<Rightarrow> versioned_spirit doc \<Rightarrow> bool" where
  "same_version x y \<longleftrightarrow> fst y = fst x \<and> spirit.truncate (snd y) = spirit.truncate (snd x) \<and> vsDeleted (snd y) = vsDeleted (snd x)"

definition history_kept :: "versioned_spirit doc list \<Rightarrow> versioned_spirit doc list \<Rightarrow> bool" where
  "history_kept xs ys \<longleftrightarrow> (\<exists>new. list_all2 same_version xs (take (length xs) ys) \<and> ys = take (length xs) ys @ new)"

lemma truncate_eq:
  "spirit.truncate (a :: versioned_spirit) = spirit.truncate b \<Longrightarrow> sName a = sName b \<and> sVersion a = sVersion b"
  by (simp add: spirit.truncate_def)

lemma same_version_fields:
  "same_version x y \<Longrightarrow> fst y = fst x \<and> sName (snd y) = sName (snd x) \<and> sVersion (snd y) = sVersion (snd x)
     \<and> vsDeleted (snd y) = vsDeleted (snd x)"
  using truncate_eq unfolding same_version_def by blast

lemma same_version_refl [simp]: "same_version x x"
  by (simp add: same_version_def)

lemma same_version_trans: "same_version x y \<Longrightarrow> same_version y z \<Longrightarrow> same_version x z"
  by (simp add: same_version_def)

lemma lives_refl: "list_all2 same_version xs xs"
  by (simp add: list_all2_refl)

lemma lives_trans: "list_all2 same_version xs ys \<Longrightarrow> list_all2 same_version ys zs \<Longrightarrow> list_all2 same_version xs zs"
  by (rule list_all2_trans [OF same_version_trans])

lemma kept_refl [simp]: "history_kept xs xs"
  by (simp add: history_kept_def lives_refl)

lemma kept_append: "list_all2 same_version xs ys \<Longrightarrow> history_kept xs (ys @ new)"
  unfolding history_kept_def by (frule list_all2_lengthD) simp

lemma kept_lives: "list_all2 same_version xs ys \<Longrightarrow> history_kept xs ys"
  using kept_append [of xs ys "[]"] by simp

lemma kept_trans:
  assumes "history_kept xs ys" "history_kept ys zs"
  shows "history_kept xs zs"
proof -
  from assms obtain new1 new2 where
    a: "list_all2 same_version xs (take (length xs) ys)" "ys = take (length xs) ys @ new1"
      "list_all2 same_version ys (take (length ys) zs)" "zs = take (length ys) zs @ new2"
    unfolding history_kept_def by blast
  have l: "length xs \<le> length ys" using list_all2_lengthD [OF a(1)] by simp
  have "list_all2 same_version (take (length xs) ys) (take (length xs) (take (length ys) zs))"
    using a(3) by (rule list_all2_takeI)
  then have "list_all2 same_version (take (length xs) ys) (take (length xs) zs)" using l by (simp add: min_absorb1)
  with a(1) have "list_all2 same_version xs (take (length xs) zs)" by (rule lives_trans)
  then show ?thesis unfolding history_kept_def by (metis append_take_drop_id)
qed

lemma kept_doc: "history_kept xs ys \<Longrightarrow> x \<in> set xs \<Longrightarrow> \<exists>y \<in> set ys. same_version x y"
  unfolding history_kept_def by (metis in_set_takeD list_all2_lengthD in_set_conv_nth list_all2_nthD2 nth_mem)

section \<open>What the updates do to it\<close>

lemma lives_versioned:
  assumes "list_all2 same_version xs ys" "versioned xs"
  shows "versioned ys"
  unfolding versioned_def
proof
  fix y assume "y \<in> set ys"
  then obtain k where k: "k < length ys" "y = ys ! k" by (auto simp: in_set_conv_nth)
  have l: "length xs = length ys" by (rule list_all2_lengthD [OF assms(1)])
  have f: "same_version (xs ! j) (ys ! j)" if "j < length ys" for j using list_all2_nthD2 [OF assms(1) that] .
  have "xs ! k \<in> set xs" using k l by simp
  with assms(2) obtain z where z: "\<not> vsDeleted (snd (xs ! k))" "1 \<le> sVersion (snd (xs ! k))" "z \<in> set xs"
    "sName (snd z) = sName (snd (xs ! k))" "sVersion (snd z) = 1"
    unfolding versioned_def by blast
  then obtain j where j: "j < length ys" "z = xs ! j" using l by (auto simp: in_set_conv_nth)
  have "ys ! j \<in> set ys" using j by simp
  moreover have "sName (snd (ys ! j)) = sName (snd y)" "sVersion (snd (ys ! j)) = 1"
    using same_version_fields [OF f [OF j(1)]] same_version_fields [OF f [OF k(1)]] z j k by auto
  ultimately show "\<not> vsDeleted (snd y) \<and> 1 \<le> sVersion (snd y)
      \<and> (\<exists>y' \<in> set ys. sName (snd y') = sName (snd y) \<and> sVersion (snd y') = 1)"
    using same_version_fields [OF f [OF k(1)]] z k by auto
qed

lemma changes_one_lives:
  assumes "changes_one p f xs ys" "\<And>d. spirit.truncate (f d) = spirit.truncate d \<and> vsDeleted (f d) = vsDeleted d"
  shows "list_all2 same_version xs ys"
proof -
  from assms(1) obtain as i d bs where s: "xs = as @ (i, d) # bs" "ys = as @ (i, f d) # bs"
    unfolding changes_one_def by blast
  have "list_all2 same_version [(i, d)] [(i, f d)]" using assms(2) by (simp add: same_version_def)
  then show ?thesis using lives_refl [of as] lives_refl [of bs] by (simp add: s list_all2_appendI)
qed

lemma many_lives:
  assumes "\<And>d. spirit.truncate (f d) = spirit.truncate d \<and> vsDeleted (f d) = vsDeleted d"
  shows "list_all2 same_version xs (map (\<lambda>x. (fst x, if p x then f (snd x) else snd x)) xs)"
  using assms by (auto simp: list_all2_map2 same_version_def intro!: list_all2_refl list.rel_refl_strong)

lemma activesI: "x \<in> set xs \<Longrightarrow> named n x \<Longrightarrow> vsActive (snd x) \<Longrightarrow> fst x \<in> actives n xs"
  unfolding actives_def by blast

lemma actives_append: "actives n (xs @ ys) = actives n xs \<union> actives n ys"
  by (auto simp: actives_def)

lemma actives_nil: "actives n [] = {}"
  by (simp add: actives_def)

lemma actives_cons:
  "actives n ((i, d) # xs) = (if sName d = n \<and> vsActive d then insert i (actives n xs) else actives n xs)"
  by (auto simp: actives_def named_def)

text \<open>Switching a version off takes it out of the active ones.\<close>

lemma off_actives:
  assumes "changes_one p f xs ys" "\<And>d. sName (f d) = sName d \<and> \<not> vsActive (f d)"
  shows "actives n ys \<subseteq> actives n xs"
  using assms by (auto simp: changes_one_def actives_append actives_cons actives_nil)

lemma off_only:
  assumes "changes_one (\<lambda>x. named n x \<and> vsActive (snd x)) f xs ys" "\<And>d. sName (f d) = sName d \<and> \<not> vsActive (f d)"
    and "one_active xs" "distinct (map fst xs)"
  shows "actives n ys = {}"
proof -
  from assms(1) obtain as i d bs where s: "xs = as @ (i, d) # bs" "sName d = n" "vsActive d" "ys = as @ (i, f d) # bs"
    unfolding changes_one_def named_def by auto
  then have x: "actives n xs = insert i (actives n as \<union> actives n bs)" by (auto simp: actives_append actives_cons actives_nil)
  have "actives n as \<union> actives n bs \<subseteq> {i}" using assms(3) x unfolding one_active_def by blast
  moreover have "i \<notin> fst ` set as \<union> fst ` set bs" using assms(4) s(1) by auto
  then have "i \<notin> actives n as \<union> actives n bs" by (force simp: actives_def)
  ultimately have "actives n as = {}" "actives n bs = {}" by blast+
  then show ?thesis using s(4) assms(2) by (simp add: actives_append actives_cons actives_nil)
qed

lemma many_off:
  assumes "\<And>d. sName (f d) = sName d \<and> \<not> vsActive (f d)"
  shows "actives m (map (\<lambda>x. (fst x, if named n x then f (snd x) else snd x)) xs) = (if m = n then {} else actives m xs)"
proof (induction xs)
  case Nil
  then show ?case by (simp add: actives_def)
next
  case (Cons x xs)
  then show ?case using assms by (cases x) (auto simp: actives_cons actives_nil named_def)
qed

text \<open>Switching one version of a name on, when none is, makes it the one.\<close>

lemma on_only:
  assumes "changes_one p f xs ys" "\<And>x. x \<in> set xs \<Longrightarrow> p x \<Longrightarrow> named n x" "\<And>d. sName (f d) = sName d"
    and "actives n xs = {}" "one_active xs"
  shows "one_active ys"
proof -
  from assms(1) obtain as i d bs where s: "xs = as @ (i, d) # bs" "p (i, d)" "ys = as @ (i, f d) # bs"
    unfolding changes_one_def by auto
  have n: "sName d = n" using assms(2) [of "(i, d)"] s by (simp add: named_def)
  have "actives n ys \<subseteq> {i}" using assms(4) s by (auto simp: actives_append actives_cons actives_nil split: if_splits)
  moreover have "actives m ys = actives m xs" if "m \<noteq> n" for m
    using that s n assms(3) by (simp add: actives_append actives_cons actives_nil)
  ultimately show ?thesis using assms(5) unfolding one_active_def by (metis singletonD subsetD)
qed

lemma one_active_sub: "one_active xs \<Longrightarrow> (\<And>n. actives n ys \<subseteq> actives n xs) \<Longrightarrow> one_active ys"
  unfolding one_active_def by blast

lemma add_active:
  assumes "one_active xs" "actives (sName d) xs = {}"
  shows "one_active (xs @ [(i, d)])"
  using assms unfolding one_active_def by (auto simp: actives_append actives_cons actives_nil split: if_splits)

section \<open>The operations\<close>

definition spirit_store_laws :: "'w spirits \<Rightarrow> ('w \<Rightarrow> versioned_spirit doc list) \<Rightarrow> bool" where
  "spirit_store_laws c docs \<longleftrightarrow>
     read_laws c docs \<and> write_laws version_conflict c docs \<and> transaction_laws c docs"

text \<open>What an operation may do: keep the invariant and the history.\<close>

definition good :: "versioned_spirit doc list \<Rightarrow> versioned_spirit doc list \<Rightarrow> bool" where
  "good xs ys \<longleftrightarrow> (spirit_inv xs \<longrightarrow> spirit_inv ys) \<and> history_kept xs ys"

lemma good_refl [simp]: "good xs xs"
  by (simp add: good_def)

lemma good_lives: "list_all2 same_version xs ys \<Longrightarrow> (spirit_inv xs \<Longrightarrow> one_active ys) \<Longrightarrow> good xs ys"
  unfolding good_def spirit_inv_def using lives_versioned kept_lives by blast

lemma FindActive_laws:
  assumes "read_laws c docs" "FindActiveByName c n w = (r, w')"
  shows "docs w' = docs w" and "r = Inr sp \<Longrightarrow> \<exists>x \<in> set (docs w). named n x \<and> is_active x \<and> sp = decode_spirit x"
    and "r = Inl e \<Longrightarrow> n \<noteq> [] \<Longrightarrow> fst (coFindOne c (\<lambda>x. named n x \<and> is_active x) w) = Inr None \<Longrightarrow> x \<in> set (docs w) \<Longrightarrow> \<not> (named n x \<and> is_active x)"
proof -
  obtain y w1 where f: "coFindOne c (\<lambda>x. named n x \<and> is_active x) w = (y, w1)"
    by (cases "coFindOne c (\<lambda>x. named n x \<and> is_active x) w")
  note l = find_one_laws [OF assms(1) f]
  show "docs w' = docs w"
  proof (cases "n = []")
    case False
    have "w' = w1" using arg_cong [OF assms(2), of snd] False by (simp add: FindActiveByName_def found_world f)
    with l(1) show ?thesis by simp
  qed (use assms(2) in \<open>simp add: FindActiveByName_def\<close>)
  show "r = Inl e \<Longrightarrow> n \<noteq> [] \<Longrightarrow> fst (coFindOne c (\<lambda>x. named n x \<and> is_active x) w) = Inr None \<Longrightarrow> x \<in> set (docs w) \<Longrightarrow> \<not> (named n x \<and> is_active x)"
    using l(2) f by simp
  assume r: "r = Inr sp"
  then have n: "n \<noteq> []" using assms(2) by (auto simp: FindActiveByName_def)
  from found_Inr [OF assms(2) [unfolded FindActiveByName_def if_not_P [OF n] f r]]
  obtain x where "y = Inr (Some x)" "sp = decode_spirit x" by blast
  with l(3) show "\<exists>x \<in> set (docs w). named n x \<and> is_active x \<and> sp = decode_spirit x" by blast
qed

lemma first_version_conflicts:
  assumes "versioned xs" "x \<in> set xs" "named n x" "sName d = n" "sVersion d = 1"
  shows "\<exists>y \<in> set xs. version_conflict (snd y) d"
  using assms unfolding versioned_def version_conflict_def named_def by metis

text \<open>A new name starts at version 1; a name that was ever used cannot be created again.\<close>

lemma Create_good:
  assumes "spirit_store_laws c docs"
  shows "good (docs w) (docs (snd (spirit_Create c now sp w)))"
    and "fst (spirit_Create c now sp w) = None \<Longrightarrow> spirit_inv (docs w) \<Longrightarrow> \<forall>x \<in> set (docs w). \<not> named (sName sp) x"
proof -
  have l: "read_laws c docs" "write_laws version_conflict c docs" using assms unfolding spirit_store_laws_def by blast+
  let ?d = "sp\<lparr>sVersion := 1, vsActive := True, vsDeleted := False, vsCreatedAt := now\<rparr>"
  obtain r w1 where f: "FindActiveByName c (sName sp) w = (r, w1)" by (cases "FindActiveByName c (sName sp) w")
  have w1: "docs w1 = docs w" by (rule FindActive_laws(1) [OF l(1) f])
  obtain e w2 where i: "coInsert c (given_id sp) ?d w1 = (e, w2)" by (cases "coInsert c (given_id sp) ?d w1")
  have ins: "inserted version_conflict (given_id sp) ?d (docs w) e (docs w2)" using insert_law [OF l(2) i] w1 by simp
  have free: "\<forall>x \<in> set (docs w). \<not> named (sName sp) x"
    if "adds_one version_conflict (given_id sp) ?d (docs w) ys" "versioned (docs w)" for ys
    using that first_version_conflicts [of "docs w" _ "sName sp" ?d] unfolding adds_one_def by auto
  have g: "good (docs w) (docs w2)"
  proof (cases e)
    case None
    with ins obtain j where a: "adds_one version_conflict (given_id sp) ?d (docs w) (docs w2)" "docs w2 = docs w @ [(j, ?d)]"
      by (auto simp: inserted_def adds_one_def)
    have "spirit_inv (docs w2)" if inv: "spirit_inv (docs w)"
    proof -
      have v: "versioned (docs w)" "one_active (docs w)" using inv by (simp_all add: spirit_inv_def)
      have "actives (sName ?d) (docs w) = {}" using free [OF a(1) v(1)] by (auto simp: actives_def)
      then have "one_active (docs w2)" unfolding a(2) by (rule add_active [OF v(2)])
      moreover have "versioned (docs w2)" using v(1) unfolding versioned_def a(2) by auto
      ultimately show ?thesis by (simp add: spirit_inv_def)
    qed
    then show ?thesis using kept_append [OF lives_refl] by (simp add: good_def a(2))
  qed (use ins in \<open>simp add: inserted_def\<close>)
  show "good (docs w) (docs (snd (spirit_Create c now sp w)))"
    using g f i w1 by (auto simp: spirit_Create_def split: sum.split)
  assume "fst (spirit_Create c now sp w) = None" "spirit_inv (docs w)"
  then have "e = None" using f i by (auto simp: spirit_Create_def split: if_splits sum.splits)
  with ins free \<open>spirit_inv (docs w)\<close> show "\<forall>x \<in> set (docs w). \<not> named (sName sp) x"
    by (auto simp: inserted_def spirit_inv_def)
qed

lemma good_trans: "good xs ys \<Longrightarrow> good ys zs \<Longrightarrow> good xs zs"
  unfolding good_def using kept_trans by blast

lemma off_one:
  assumes "updated_one p f xs r ys" "\<And>d. spirit.truncate (f d) = spirit.truncate d \<and> vsDeleted (f d) = vsDeleted d \<and> \<not> vsActive (f d)"
  shows "list_all2 same_version xs ys" "one_active xs \<Longrightarrow> one_active ys"
proof -
  have n: "\<And>d. sName (f d) = sName d \<and> \<not> vsActive (f d)" using assms(2) truncate_eq by blast
  have f: "\<And>d. spirit.truncate (f d) = spirit.truncate d \<and> vsDeleted (f d) = vsDeleted d" using assms(2) by blast
  have c: "ys = xs \<or> changes_one p f xs ys"
    using assms(1) by (auto simp: updated_one_def split: sum.splits prod.splits nat.splits)
  then show "list_all2 same_version xs ys" using changes_one_lives [OF _ f] lives_refl by blast
  from c show "one_active xs \<Longrightarrow> one_active ys" using one_active_sub off_actives [OF _ n] by blast
qed

lemma Deactivate_good:
  assumes "spirit_store_laws c docs"
  shows "good (docs w) (docs (snd (spirit_Deactivate c now i w)))"
proof -
  have l: "write_laws version_conflict c docs" using assms unfolding spirit_store_laws_def by blast
  let ?f = "\<lambda>d :: versioned_spirit. d\<lparr>vsActive := False, vsDeactivatedAt := Some now\<rparr>"
  obtain r w1 where u: "coUpdateOne c (by_id i) ?f w = (r, w1)" by (cases "coUpdateOne c (by_id i) ?f w")
  have o: "updated_one (by_id i) ?f (docs w) r (docs w1)" by (rule update_one_law [OF l u])
  have "spirit.truncate (?f d) = spirit.truncate d \<and> vsDeleted (?f d) = vsDeleted d \<and> \<not> vsActive (?f d)" for d
    by (simp add: spirit.truncate_def)
  from off_one [OF o this] have "good (docs w) (docs w1)" by (intro good_lives) (auto simp: spirit_inv_def)
  then show ?thesis using u by (simp add: spirit_Deactivate_def said_world)
qed

text \<open>Switching all versions of a name off and one of them on.\<close>

lemma switch_good:
  assumes "list_all2 same_version xs ys" "ys = map (\<lambda>x. (fst x, if named n x then f (snd x) else snd x)) xs"
    and "\<And>d. sName (f d) = sName d \<and> \<not> vsActive (f d)"
    and "updated_one p g ys r zs" "\<And>d. spirit.truncate (g d) = spirit.truncate d \<and> vsDeleted (g d) = vsDeleted d"
    and "\<And>x. x \<in> set ys \<Longrightarrow> p x \<Longrightarrow> named n x"
  shows "good xs zs"
proof -
  have c: "zs = ys \<or> changes_one p g ys zs"
    using assms(4) by (auto simp: updated_one_def split: sum.splits prod.splits nat.splits)
  then have lz: "list_all2 same_version ys zs" using changes_one_lives [OF _ assms(5)] lives_refl by blast
  have a: "actives m ys = (if m = n then {} else actives m xs)" for m
    using many_off [OF assms(3), of m n xs] assms(2) by simp
  have g: "\<And>d. sName (g d) = sName d" using assms(5) truncate_eq by blast
  have "one_active zs" if "one_active xs"
  proof -
    have y: "one_active ys" using that a unfolding one_active_def by (metis empty_iff)
    from c show ?thesis
    proof
      assume "changes_one p g ys zs"
      from on_only [OF this assms(6) g _ y] a show ?thesis by simp
    qed (use y in simp)
  qed
  then show ?thesis
    by (intro good_lives lives_trans [OF assms(1) lz]) (simp add: spirit_inv_def)
qed

lemma off_fields:
  "spirit.truncate (d\<lparr>vsActive := b\<rparr>) = spirit.truncate d \<and> vsDeleted (d\<lparr>vsActive := b\<rparr>) = vsDeleted d"
  "spirit.truncate (d\<lparr>vsActive := b, vsDeactivatedAt := t\<rparr>) = spirit.truncate d
     \<and> vsDeleted (d\<lparr>vsActive := b, vsDeactivatedAt := t\<rparr>) = vsDeleted d"
  by (simp_all add: spirit.truncate_def)

lemma many_off_lives:
  "list_all2 same_version xs (map (\<lambda>x. (fst x, if named n x then (snd x)\<lparr>vsActive := False\<rparr> else snd x)) xs)"
  using many_lives [of "\<lambda>d. d\<lparr>vsActive := False\<rparr>" xs "named n"] off_fields(1) by blast

lemma activate_body_good:
  assumes l: "write_laws version_conflict c docs" and b: "activate_body c n v w = (None, w')"
  shows "good (docs w) (docs w')"
proof -
  obtain r1 w1 where m: "coUpdateMany c (named n) (\<lambda>d. d\<lparr>vsActive := False\<rparr>) w = (r1, w1)"
    by (cases "coUpdateMany c (named n) (\<lambda>d. d\<lparr>vsActive := False\<rparr>) w")
  obtain r2 w2 where o: "coUpdateOne c (\<lambda>x. named n x \<and> at_version v x) (\<lambda>d. d\<lparr>vsActive := True\<rparr>) w1 = (r2, w2)"
    by (cases "coUpdateOne c (\<lambda>x. named n x \<and> at_version v x) (\<lambda>d. d\<lparr>vsActive := True\<rparr>) w1")
  from b m o obtain nm where "r1 = Inr nm" and w2: "w' = w2"
    by (cases r1) (auto simp: activate_body_def split: sum.splits prod.splits nat.splits)
  then have y: "docs w1 = map (\<lambda>x. (fst x, if named n x then (snd x)\<lparr>vsActive := False\<rparr> else snd x)) (docs w)"
    using update_many_law [OF l m] by (simp add: updated_many_def)
  show ?thesis unfolding w2
    by (rule switch_good [OF _ y _ update_one_law [OF l o]]) (use y many_off_lives off_fields in auto)
qed

lemma Activate_good:
  assumes "spirit_store_laws c docs"
  shows "good (docs w) (docs (snd (Activate c n v w)))"
proof -
  have l: "write_laws version_conflict c docs" "transaction_laws c docs" using assms unfolding spirit_store_laws_def by blast+
  obtain e1 w1 where s: "coStartSession c w = (e1, w1)" by (cases "coStartSession c w")
  obtain e2 w2 where t: "coTransaction c (activate_body c n v) w1 = (e2, w2)" by (cases "coTransaction c (activate_body c n v) w1")
  have w1: "docs w1 = docs w" by (rule session_law [OF l(2) s])
  have "good (docs w) (docs w2)"
  proof (cases e2)
    case None
    then obtain w0 where w0: "docs w0 = docs w1" "fst (activate_body c n v w0) = None" "docs w2 = docs (snd (activate_body c n v w0))"
      using transaction_laws(2) [OF l(2) t] by blast
    have "activate_body c n v w0 = (None, snd (activate_body c n v w0))" using w0(2) by (metis prod.collapse)
    from activate_body_good [OF l(1) this] w0 w1 show ?thesis by simp
  next
    case (Some e)
    then show ?thesis using transaction_laws(1) [OF l(2) t] w1 by simp
  qed
  then show ?thesis using s t w1 by (auto simp: Activate_def split: option.split)
qed

lemma same_doc: "distinct (map fst xs) \<Longrightarrow> x \<in> set xs \<Longrightarrow> y \<in> set xs \<Longrightarrow> fst x = fst y \<Longrightarrow> x = y"
  by (metis eq_key_imp_eq_value prod.collapse)

lemma restore_body_good:
  assumes l: "read_laws c docs" "write_laws version_conflict c docs" and b: "restore_body c n i w = (None, w')"
    and x: "x \<in> set (docs w)" "by_id i x" "named n x"
  shows "good (docs w) (docs w')"
proof -
  let ?g = "\<lambda>d :: versioned_spirit. d\<lparr>vsActive := True, vsDeactivatedAt := None\<rparr>"
  obtain r1 w1 where m: "coUpdateMany c (named n) (\<lambda>d. d\<lparr>vsActive := False\<rparr>) w = (r1, w1)"
    by (cases "coUpdateMany c (named n) (\<lambda>d. d\<lparr>vsActive := False\<rparr>) w")
  obtain r2 w2 where o: "coUpdateOne c (by_id i) ?g w1 = (r2, w2)" by (cases "coUpdateOne c (by_id i) ?g w1")
  from b m obtain nm where r1: "r1 = Inr nm" by (cases r1) (auto simp: restore_body_def)
  have w2: "w' = w2" using arg_cong [OF b, of snd] m o r1 by (simp add: restore_body_def said_world)
  have y: "docs w1 = map (\<lambda>x. (fst x, if named n x then (snd x)\<lparr>vsActive := False\<rparr> else snd x)) (docs w)"
    using update_many_law [OF l(2) m] r1 by (simp add: updated_many_def)
  have p: "named n z" if z: "z \<in> set (docs w1)" "by_id i z" for z
  proof -
    obtain z0 where z0: "z0 \<in> set (docs w)" "z = (fst z0, if named n z0 then (snd z0)\<lparr>vsActive := False\<rparr> else snd z0)"
      using z(1) y by auto
    then have "fst z0 = fst x" using z(2) x(2) by (simp add: by_id_def)
    with same_doc [OF ids_distinct [OF l(1)] z0(1) x(1)] x(3) z0(2) show ?thesis by (simp add: named_def)
  qed
  show ?thesis unfolding w2
    by (rule switch_good [OF _ y _ update_one_law [OF l(2) o] _ p]) (use y many_off_lives off_fields in auto)
qed

lemma RestoreVersion_good:
  assumes "spirit_store_laws c docs"
  shows "good (docs w) (docs (snd (RestoreVersion c i w)))"
proof (cases "i = []")
  case False
  have l: "read_laws c docs" "write_laws version_conflict c docs" "transaction_laws c docs"
    using assms unfolding spirit_store_laws_def by blast+
  obtain y w1 where f: "coFindOne c (by_id i) w = (y, w1)" by (cases "coFindOne c (by_id i) w")
  have w1: "docs w1 = docs w" by (rule find_one_laws(1) [OF l(1) f])
  have fw: "snd (spirit_FindByID c i w) = w1" using False f by (simp add: spirit_FindByID_def found_world)
  show ?thesis
  proof (cases "fst (spirit_FindByID c i w)")
    case (Inl e)
    then have "spirit_FindByID c i w = (Inl e, w1)" using fw by (metis prod.collapse)
    then show ?thesis using False w1 by (simp add: RestoreVersion_def)
  next
    case (Inr sp)
    then have s: "spirit_FindByID c i w = (Inr sp, w1)" using fw by (metis prod.collapse)
    from found_Inr [OF s [unfolded spirit_FindByID_def if_not_P [OF False] f]]
    obtain x where x: "y = Inr (Some x)" "sp = decode_spirit x" by blast
    then have xd: "x \<in> set (docs w)" "by_id i x" "named (sName sp) x"
      using find_one_laws(3) [OF l(1) f] by (auto simp: named_def decode_spirit_def)
    obtain e1 w2 where ss: "coStartSession c w1 = (e1, w2)" by (cases "coStartSession c w1")
    obtain e2 w3 where t: "coTransaction c (restore_body c (sName sp) i) w2 = (e2, w3)"
      by (cases "coTransaction c (restore_body c (sName sp) i) w2")
    have w2: "docs w2 = docs w" using session_law [OF l(3) ss] w1 by simp
    have "good (docs w) (docs w3)"
    proof (cases e2)
      case None
      then obtain w0 where w0: "docs w0 = docs w2" "fst (restore_body c (sName sp) i w0) = None"
          "docs w3 = docs (snd (restore_body c (sName sp) i w0))"
        using transaction_laws(2) [OF l(3) t] by blast
      have "restore_body c (sName sp) i w0 = (None, snd (restore_body c (sName sp) i w0))" using w0(2) by (metis prod.collapse)
      from restore_body_good [OF l(1,2) this] xd w0 w2 show ?thesis by simp
    next
      case (Some e)
      then show ?thesis using transaction_laws(1) [OF l(3) t] w2 by simp
    qed
    then show ?thesis using False s ss t w2 by (auto simp: RestoreVersion_def split: option.split)
  qed
qed (simp add: RestoreVersion_def)

text \<open>An update: the active version off, then the next one in.\<close>

lemma off_current:
  assumes "updated_one (\<lambda>x. named n x \<and> vsActive (snd x)) (\<lambda>d. d\<lparr>vsActive := False\<rparr>) xs (Inr nm) ys"
    and "one_active xs" "distinct (map fst xs)"
  shows "actives n ys = {}"
proof -
  consider "changes_one (\<lambda>x. named n x \<and> vsActive (snd x)) (\<lambda>d. d\<lparr>vsActive := False\<rparr>) xs ys"
    | "ys = xs" "\<forall>x \<in> set xs. \<not> (named n x \<and> vsActive (snd x))"
    using assms(1) by (auto simp: updated_one_def split: prod.splits nat.splits)
  then show ?thesis
  proof cases
    case 1
    from off_only [OF this _ assms(2,3)] show ?thesis by simp
  qed (auto simp: actives_def)
qed

lemma Update_good:
  assumes "spirit_store_laws c docs"
  shows "good (docs w) (docs (snd (spirit_Update c now n sp changeLog w)))"
proof (cases "n = []")
  case False
  have l: "read_laws c docs" "write_laws version_conflict c docs" using assms unfolding spirit_store_laws_def by blast+
  let ?p = "\<lambda>x. named n x \<and> vsActive (snd x)" and ?f = "\<lambda>d :: versioned_spirit. d\<lparr>vsActive := False\<rparr>"
  obtain r w1 where f: "FindActiveByName c n w = (r, w1)" by (cases "FindActiveByName c n w")
  have w1: "docs w1 = docs w" by (rule FindActive_laws(1) [OF l(1) f])
  show ?thesis
  proof (cases r)
    case (Inl e)
    then show ?thesis using False f w1 by (simp add: spirit_Update_def)
  next
    case (Inr cur)
    then obtain x where x: "x \<in> set (docs w)" "named n x" "cur = decode_spirit x"
      using FindActive_laws(2) [OF l(1) f] by blast
    define new where "new = next_version n (sVersion cur) now changeLog sp"
    obtain r2 w2 where u: "coUpdateOne c ?p ?f w1 = (r2, w2)" by (cases "coUpdateOne c ?p ?f w1")
    obtain e w3 where i: "coInsert c (given_id new) new w2 = (e, w3)" by (cases "coInsert c (given_id new) new w2")
    have o: "updated_one ?p ?f (docs w) r2 (docs w2)" using update_one_law [OF l(2) u] w1 by simp
    have "spirit.truncate (?f d) = spirit.truncate d \<and> vsDeleted (?f d) = vsDeleted d \<and> \<not> vsActive (?f d)" for d
      by (simp add: spirit.truncate_def)
    note off = off_one [OF o this]
    have g2: "good (docs w) (docs w2)" by (rule good_lives [OF off(1)]) (simp add: off(2) spirit_inv_def)
    show ?thesis
    proof (cases r2)
      case (Inl e2)
      then show ?thesis using False f Inr u g2 by (simp add: spirit_Update_def)
    next
      case r2: (Inr nm)
      have w': "snd (spirit_Update c now n sp changeLog w) = w3"
        using False f Inr u r2 i by (simp add: spirit_Update_def Let_def new_def split: option.split)
      have "good (docs w) (docs w3)"
      proof (cases e)
        case None
        with insert_law [OF l(2) i] obtain j where a: "docs w3 = docs w2 @ [(j, new)]"
          by (auto simp: inserted_def adds_one_def)
        have "spirit_inv (docs w3)" if inv: "spirit_inv (docs w)"
        proof -
          have v: "versioned (docs w)" "one_active (docs w)" using inv by (simp_all add: spirit_inv_def)
          have v2: "versioned (docs w2)" by (rule lives_versioned [OF off(1) v(1)])
          have "actives n (docs w2) = {}"
            by (rule off_current [OF _ v(2) ids_distinct [OF l(1)]]) (use o r2 in simp)
          then have "one_active (docs w3)" unfolding a
            by (intro add_active [OF off(2) [OF v(2)]]) (simp add: new_def next_version_def)
          moreover have "versioned (docs w3)"
          proof -
            obtain y where "y \<in> set (docs w2)" "same_version x y" using kept_doc [OF kept_lives [OF off(1)] x(1)] by blast
            then have y: "y \<in> set (docs w2)" "sName (snd y) = n" "sVersion (snd y) = sVersion cur"
              using same_version_fields x(2,3) by (auto simp: named_def decode_spirit_def)
            with v2 obtain z where "1 \<le> sVersion cur" "z \<in> set (docs w2)" "sName (snd z) = n" "sVersion (snd z) = 1"
              unfolding versioned_def by metis
            then show ?thesis using v2 unfolding versioned_def a by (auto simp: new_def next_version_def)
          qed
          ultimately show ?thesis by (simp add: spirit_inv_def)
        qed
        then show ?thesis using kept_append [OF off(1)] by (simp add: good_def a)
      next
        case (Some e1)
        then show ?thesis using insert_law [OF l(2) i] g2 by (simp add: inserted_def)
      qed
      then show ?thesis by (simp add: w')
    qed
  qed
qed (simp add: spirit_Update_def)

section \<open>Any run of operations\<close>

datatype spirit_op =
    OpCreateSpirit int versioned_spirit
  | OpUpdateSpirit int string versioned_spirit string
  | OpActivate string int
  | OpDeactivate int string
  | OpRestore string

fun spirit_exec :: "'w spirits \<Rightarrow> spirit_op \<Rightarrow> 'w \<Rightarrow> 'w" where
  "spirit_exec c (OpCreateSpirit now sp) w = snd (spirit_Create c now sp w)"
| "spirit_exec c (OpUpdateSpirit now n sp why) w = snd (spirit_Update c now n sp why w)"
| "spirit_exec c (OpActivate n v) w = snd (Activate c n v w)"
| "spirit_exec c (OpDeactivate now i) w = snd (spirit_Deactivate c now i w)"
| "spirit_exec c (OpRestore i) w = snd (RestoreVersion c i w)"

lemma spirit_exec_good: "spirit_store_laws c docs \<Longrightarrow> good (docs w) (docs (spirit_exec c op w))"
  by (cases op) (simp_all add: Create_good(1) Update_good Activate_good Deactivate_good RestoreVersion_good)

lemma spirit_runs_good: "spirit_store_laws c docs \<Longrightarrow> good (docs w) (docs (fold (spirit_exec c) ops w))"
proof (induction ops arbitrary: w)
  case (Cons op ops)
  from good_trans [OF spirit_exec_good [OF Cons.prems] Cons.IH [OF Cons.prems]] show ?case by simp
qed simp

section \<open>Where it gets stuck\<close>

text \<open>A store that answers: no call fails for another reason than the unique index.\<close>

definition reliable :: "'w spirits \<Rightarrow> bool" where
  "reliable c \<longleftrightarrow> (\<forall>p w. \<exists>x. fst (coFindOne c p w) = Inr x) \<and> (\<forall>p f w. \<exists>x. fst (coUpdateOne c p f w) = Inr x)"

lemma reliable_finds:
  assumes "spirit_store_laws c docs" "reliable c" "x \<in> set (docs w)" "named n x" "is_active x" "n \<noteq> []" "one_active (docs w)"
  obtains w1 where "FindActiveByName c n w = (Inr (decode_spirit x), w1)" "docs w1 = docs w"
proof -
  have l: "read_laws c docs" using assms(1) unfolding spirit_store_laws_def by blast
  let ?p = "\<lambda>x. named n x \<and> is_active x"
  obtain y w1 where f: "coFindOne c ?p w = (Inr y, w1)" using assms(2) unfolding reliable_def by (metis prod.collapse)
  obtain z where z: "y = Some z"
  proof (cases y)
    case None
    with find_one_laws(2) [OF l f, of x] assms(3-5) have False by simp
    then show ?thesis ..
  qed (rule that)
  have zd: "z \<in> set (docs w)" "named n z" "is_active z" using find_one_laws(3) [OF l f] z by auto
  then have "fst z \<in> actives n (docs w)" "fst x \<in> actives n (docs w)" using assms(3-5) by (simp_all add: activesI is_active_def)
  then have "fst z = fst x" using assms(7) unfolding one_active_def by blast
  then have "z = x" using same_doc [OF ids_distinct [OF l] zd(1) assms(3)] by simp
  then have "FindActiveByName c n w = (Inr (decode_spirit x), w1)" using assms(6) f z by (simp add: FindActiveByName_def)
  then show thesis using that FindActive_laws(1) [OF l] by blast
qed

text \<open>
  When an older version was activated, the number of the next one is taken: the update fails, and
  not before the active version was switched off.
\<close>

lemma update_strands:
  assumes "spirit_store_laws c docs" "reliable c" "spirit_inv (docs w)" "n \<noteq> []"
    and "x \<in> set (docs w)" "named n x" "vsActive (snd x)"
    and "y \<in> set (docs w)" "named n y" "sVersion (snd y) = sVersion (snd x) + 1"
  shows "(\<exists>e. fst (spirit_Update c now n sp changeLog w) = Inl e)
    \<and> actives n (docs (snd (spirit_Update c now n sp changeLog w))) = {}"
proof -
  have l: "read_laws c docs" "write_laws version_conflict c docs" using assms(1) unfolding spirit_store_laws_def by blast+
  have inv: "one_active (docs w)" "versioned (docs w)" using assms(3) by (simp_all add: spirit_inv_def)
  have "is_active x" using assms(5,7) inv(2) unfolding versioned_def is_active_def by blast
  from reliable_finds [OF assms(1,2,5,6) this assms(4) inv(1)]
  obtain w1 where f: "FindActiveByName c n w = (Inr (decode_spirit x), w1)" "docs w1 = docs w" .
  let ?p = "\<lambda>x. named n x \<and> vsActive (snd x)" and ?f = "\<lambda>d :: versioned_spirit. d\<lparr>vsActive := False\<rparr>"
  obtain nm w2 where u: "coUpdateOne c ?p ?f w1 = (Inr nm, w2)" using assms(2) unfolding reliable_def by (metis prod.collapse)
  have o: "updated_one ?p ?f (docs w) (Inr nm) (docs w2)" using update_one_law [OF l(2) u] f(2) by simp
  define new where "new = next_version n (sVersion (decode_spirit x)) now changeLog sp"
  obtain e w3 where i: "coInsert c (given_id new) new w2 = (e, w3)" by (cases "coInsert c (given_id new) new w2")
  have off: "list_all2 same_version (docs w) (docs w2)" by (rule off_one(1) [OF o]) (simp add: spirit.truncate_def)
  obtain z where z: "z \<in> set (docs w2)" "same_version y z" using kept_doc [OF kept_lives [OF off] assms(8)] by blast
  then have "version_conflict (snd z) new"
    using same_version_fields [OF z(2)] assms(9,10) by (simp add: version_conflict_def new_def next_version_def named_def decode_spirit_def)
  then have e: "e \<noteq> None" "docs w3 = docs w2"
    using insert_law [OF l(2) i] z(1) by (auto simp: inserted_def adds_one_def split: if_splits)
  have "actives n (docs w2) = {}" by (rule off_current [OF o inv(1) ids_distinct [OF l(1)]])
  moreover have "spirit_Update c now n sp changeLog w = (Inl (EWrap ''failed to create new version'' (the e)), w3)"
    using assms(4) f(1) u i e(1) by (auto simp: spirit_Update_def Let_def new_def split: option.split)
  ultimately show ?thesis using e(2) by simp
qed

text \<open>
  The new version of an update gets an ObjectID, which decodes to its digits; the operations that
  take an identifier ask for the string, and find nothing.
\<close>

lemma update_adds:
  assumes "spirit_store_laws c docs" "spirit_Update c now n sp changeLog w = (Inr new, w')"
  obtains h xs where "docs w' = xs @ [(ObjectID h, new)]" "sName new = n" "vsActive new" "\<not> vsDeleted new" "n \<noteq> []"
proof -
  have l: "write_laws version_conflict c docs" using assms(1) unfolding spirit_store_laws_def by blast
  have n: "n \<noteq> []" using assms(2) by (auto simp: spirit_Update_def)
  obtain r w1 where f: "FindActiveByName c n w = (r, w1)" by (cases "FindActiveByName c n w")
  from assms(2) f n obtain cur where r: "r = Inr cur" by (cases r) (auto simp: spirit_Update_def)
  let ?p = "\<lambda>x. named n x \<and> vsActive (snd x)" and ?f = "\<lambda>d :: versioned_spirit. d\<lparr>vsActive := False\<rparr>"
  obtain r2 w2 where u: "coUpdateOne c ?p ?f w1 = (r2, w2)" by (cases "coUpdateOne c ?p ?f w1")
  from assms(2) f n r u obtain nm where r2: "r2 = Inr nm" by (cases r2) (auto simp: spirit_Update_def)
  define new' where "new' = next_version n (sVersion cur) now changeLog sp"
  obtain e w3 where i: "coInsert c (given_id new') new' w2 = (e, w3)" by (cases "coInsert c (given_id new') new' w2")
  have e: "e = None" "new = new'" "w' = w3"
    using assms(2) f n r u r2 i by (auto simp: spirit_Update_def Let_def new'_def split: option.splits)
  have "given_id new' = None" by (simp add: given_id_def new'_def next_version_def)
  with insert_law [OF l i] e(1) obtain h where "docs w3 = docs w2 @ [(ObjectID h, new')]"
    by (auto simp: inserted_def adds_one_def)
  then show thesis using that e n by (simp add: new'_def next_version_def)
qed

lemma updated_stays_active:
  assumes "spirit_store_laws c docs" "spirit_inv (docs w)" "spirit_Update c now n sp changeLog w = (Inr new, w1)"
    and "FindActiveByName c n w1 = (Inr cur, w2)" "StringID (sID cur) \<notin> fst ` set (docs w2)"
  shows "ObjectID (sID cur) \<in> actives n (docs (snd (spirit_Deactivate c now' (sID cur) w2)))"
proof -
  have l: "read_laws c docs" "write_laws version_conflict c docs" using assms(1) unfolding spirit_store_laws_def by blast+
  from update_adds [OF assms(1,3)] obtain h xs where
    a: "docs w1 = xs @ [(ObjectID h, new)]" "sName new = n" "vsActive new" .
  have i: "ObjectID h \<in> actives n (docs w1)" using a by (simp add: actives_append actives_cons)
  have "good (docs w) (docs w1)" using Update_good [OF assms(1), of w now n sp changeLog] assms(3) by simp
  then have o: "one_active (docs w1)" using assms(2) by (simp add: good_def spirit_inv_def)
  obtain x where x: "x \<in> set (docs w1)" "named n x" "is_active x" "cur = decode_spirit x"
    using FindActive_laws(2) [OF l(1) assms(4)] by blast
  then have "fst x \<in> actives n (docs w1)" by (simp add: activesI is_active_def)
  then have "fst x = ObjectID h" using o i unfolding one_active_def by blast
  then have h: "sID cur = h" using x(4) by (simp add: decode_spirit_def)
  have "docs (snd (spirit_Deactivate c now' (sID cur) w2)) = docs w2"
  proof (cases "sID cur = []")
    case False
    let ?f = "\<lambda>d :: versioned_spirit. d\<lparr>vsActive := False, vsDeactivatedAt := Some now'\<rparr>"
    obtain r w3 where u: "coUpdateOne c (by_id (sID cur)) ?f w2 = (r, w3)" by (cases "coUpdateOne c (by_id (sID cur)) ?f w2")
    have "\<not> changes_one (by_id (sID cur)) ?f (docs w2) (docs w3)"
      using assms(5) by (auto simp: changes_one_def by_id_def)
    with update_one_law [OF l(2) u] have "docs w3 = docs w2"
      by (auto simp: updated_one_def split: sum.splits prod.splits nat.splits)
    with False u show ?thesis by (simp add: spirit_Deactivate_def said_world)
  qed (simp add: spirit_Deactivate_def)
  moreover have "docs w2 = docs w1" by (rule FindActive_laws(1) [OF l(1) assms(4)])
  ultimately show ?thesis using i h by simp
qed

end
