(* ===== verification/MongoRituals.thy ===== *)
theory MongoRituals
  imports RitualLaws DocStore
begin

text \<open>
  The repository of scheduled tasks in MongoDB, \<open>mongo/ritual_repository.go\<close>, over a collection,
  and the proof that it is a repository in the sense of \<open>RitualLaws\<close>.
\<close>

section \<open>The adapter\<close>

definition decode_ritual :: "Ritual doc \<Rightarrow> Ritual" where
  "decode_ritual x = (snd x)\<lparr>riID := id_text (fst x)\<rparr>"

fun statusTimestampField :: "RitualStatus \<Rightarrow> gerr + string" where
  "statusTimestampField RitualRunning = Inr ''started_at''"
| "statusTimestampField RitualExecuted = Inr ''executed_at''"
| "statusTimestampField RitualCancelled = Inr ''cancelled_at''"
| "statusTimestampField st = Inl (EPlain (''UpdateStatus: unhandled status '' @ quote_q (ritual_status_text st)))"

definition set_time :: "string \<Rightarrow> int \<Rightarrow> Ritual \<Rightarrow> Ritual" where
  "set_time f ts t =
     (if f = ''started_at'' then t\<lparr>riStartedAt := Some ts\<rparr>
      else if f = ''executed_at'' then t\<lparr>riExecutedAt := Some ts\<rparr>
      else if f = ''cancelled_at'' then t\<lparr>riCancelledAt := Some ts\<rparr> else t)"

text \<open>\<open>newID\<close> is \<open>primitive.NewObjectID().Hex()\<close>.\<close>

definition mongo_ritual_Save ::
  "('w \<Rightarrow> string \<times> 'w) \<Rightarrow> ('w, Ritual) collection \<Rightarrow> Ritual \<Rightarrow> 'w \<Rightarrow> gerr option \<times> 'w" where
  "mongo_ritual_Save newID c task w =
     (let (i, w1) = (if riID task = [] then newID w else (riID task, w))
      in failing ''insert ritual'' (coInsert c (Some (StringID i)) (task\<lparr>riID := i\<rparr>) w1))"

definition mongo_ritual_FindByID :: "('w, Ritual) collection \<Rightarrow> string \<Rightarrow> 'w \<Rightarrow> (gerr + Ritual) \<times> 'w" where
  "mongo_ritual_FindByID c i w = found ''decode ritual'' (ENotFound ''ritual'' i) decode_ritual (coFindOne c (by_id i) w)"

definition pending_of :: "string \<Rightarrow> Ritual doc \<Rightarrow> bool" where
  "pending_of mk x \<longleftrightarrow> riMemoryKey (snd x) = mk \<and> riStatus (snd x) = RitualPending"

definition mongo_ritual_FindPending ::
  "('w, Ritual) collection \<Rightarrow> string \<Rightarrow> int \<Rightarrow> int \<Rightarrow> 'w \<Rightarrow> (gerr + Ritual list) \<times> 'w" where
  "mongo_ritual_FindPending c mk limit offset w =
     decoded ''find rituals by memory key'' (map decode_ritual)
       (coFind c \<lparr>quFilter = pending_of mk, quBefore = (\<lambda>a b. riExecuteAt (snd a) < riExecuteAt (snd b)),
                  quSkip = offset, quLimit = limit\<rparr> w)"

definition mongo_ritual_Count :: "('w, Ritual) collection \<Rightarrow> string \<Rightarrow> 'w \<Rightarrow> (gerr + int) \<times> 'w" where
  "mongo_ritual_Count c mk w = decoded ''count rituals'' id (coCount c (pending_of mk) w)"

definition mongo_ritual_UpdateStatus ::
  "('w, Ritual) collection \<Rightarrow> string \<Rightarrow> RitualStatus \<Rightarrow> int \<Rightarrow> 'w \<Rightarrow> gerr option \<times> 'w" where
  "mongo_ritual_UpdateStatus c i st ts w =
     (case statusTimestampField st of
        Inl e \<Rightarrow> (Some e, w)
      | Inr f \<Rightarrow> said ''update ritual status'' (coUpdateOne c (by_id i) (\<lambda>t. (set_time f ts t)\<lparr>riStatus := st\<rparr>) w))"

definition mongo_ritual_UpdateRunning :: "('w, Ritual) collection \<Rightarrow> string \<Rightarrow> int \<Rightarrow> 'w \<Rightarrow> gerr option \<times> 'w" where
  "mongo_ritual_UpdateRunning c i ts w =
     said ''update ritual running'' (coUpdateOne c (by_id i)
       (\<lambda>t. t\<lparr>riStatus := RitualRunning, riStartedAt := Some ts, riAttemptCount := riAttemptCount t + 1\<rparr>) w)"

definition mongo_ritual_UpdateFailed :: "('w, Ritual) collection \<Rightarrow> string \<Rightarrow> int \<Rightarrow> string \<Rightarrow> 'w \<Rightarrow> gerr option \<times> 'w" where
  "mongo_ritual_UpdateFailed c i ts why w =
     said ''update ritual failed'' (coUpdateOne c (by_id i)
       (\<lambda>t. t\<lparr>riStatus := RitualFailed, riFailedAt := Some ts, riFailureReason := why\<rparr>) w)"

definition mongo_ritual_UpdateKeeperTaskID :: "('w, Ritual) collection \<Rightarrow> string \<Rightarrow> string \<Rightarrow> 'w \<Rightarrow> gerr option \<times> 'w" where
  "mongo_ritual_UpdateKeeperTaskID c i k w =
     said ''update ritual keeper task id'' (coUpdateOne c (by_id i) (\<lambda>t. t\<lparr>riKeeperTaskID := k\<rparr>) w)"

definition mongo_rituals :: "('w \<Rightarrow> string \<times> 'w) \<Rightarrow> ('w, Ritual) collection \<Rightarrow> 'w ritual_repo" where
  "mongo_rituals newID c =
     \<lparr>roSave = mongo_ritual_Save newID c, roFindByID = mongo_ritual_FindByID c, roFindPending = mongo_ritual_FindPending c,
      roCount = mongo_ritual_Count c, roUpdateStatus = mongo_ritual_UpdateStatus c,
      roUpdateRunning = mongo_ritual_UpdateRunning c, roUpdateFailed = mongo_ritual_UpdateFailed c,
      roUpdateKeeperTaskID = mongo_ritual_UpdateKeeperTaskID c\<rparr>"

section \<open>It is a repository\<close>

text \<open>The tasks a collection holds.\<close>

definition mongo_tasks :: "('w \<Rightarrow> Ritual doc list) \<Rightarrow> 'w task_view" where
  "mongo_tasks docs w i = map_option (\<lambda>t. t\<lparr>riID := i\<rparr>) (map_of (docs w) (StringID i))"

lemma said_None: "said p y = (e, w) \<Longrightarrow> (e = None \<longleftrightarrow> (\<exists>x. fst y = Inr x)) \<and> snd y = w"
  by (cases y; cases "fst y") auto

lemma mongo_updates:
  assumes "read_laws c docs" "write_laws conflict c docs"
    and "\<And>t j. (f t)\<lparr>riID := j\<rparr> = g (t\<lparr>riID := j\<rparr>)"
  shows "updates (mongo_tasks docs) i g (\<lambda>w. said p (coUpdateOne c (by_id i) f w))"
  unfolding updates_def
proof
  fix w
  obtain r w' where r: "coUpdateOne c (by_id i) f w = (r, w')" by (cases "coUpdateOne c (by_id i) f w")
  note u = update_by_id(1) [OF assms(1,2) r]
  show "mongo_tasks docs (snd (said p (coUpdateOne c (by_id i) f w)))
      = (if fst (said p (coUpdateOne c (by_id i) f w)) = None
         then (mongo_tasks docs w)(i := map_option g (mongo_tasks docs w i)) else mongo_tasks docs w)"
    using u r by (cases r) (auto simp: mongo_tasks_def fun_eq_iff assms(3) option.map_comp comp_def)
qed

lemma mongo_UpdateStatus_updates:
  assumes "read_laws c docs" "write_laws conflict c docs"
  shows "updates (mongo_tasks docs) i (with_status st ts) (mongo_ritual_UpdateStatus c i st ts)"
proof (cases "statusTimestampField st")
  case (Inl e)
  then show ?thesis by (simp add: updates_def mongo_ritual_UpdateStatus_def)
next
  case (Inr f)
  then have "((set_time f ts t)\<lparr>riStatus := st\<rparr>)\<lparr>riID := j\<rparr> = with_status st ts (t\<lparr>riID := j\<rparr>)" for t :: Ritual and j
    by (cases st) (auto simp: set_time_def with_status_def)
  from mongo_updates [OF assms, of "\<lambda>t. (set_time f ts t)\<lparr>riStatus := st\<rparr>", OF this]
  have "updates (mongo_tasks docs) i (with_status st ts)
      (\<lambda>w. said ''update ritual status'' (coUpdateOne c (by_id i) (\<lambda>t. (set_time f ts t)\<lparr>riStatus := st\<rparr>) w))" .
  then show ?thesis using Inr by (simp add: mongo_ritual_UpdateStatus_def [abs_def])
qed

lemma mongo_Save_tasks:
  assumes "write_laws conflict c docs" "riID t \<noteq> []"
  shows "mongo_tasks docs (snd (mongo_ritual_Save newID c t w))
    = (if fst (mongo_ritual_Save newID c t w) = None then (mongo_tasks docs w)(riID t := Some t) else mongo_tasks docs w)"
proof -
  obtain e w' where r: "coInsert c (Some (StringID (riID t))) t w = (e, w')" by (cases "coInsert c (Some (StringID (riID t))) t w")
  have "t\<lparr>riID := riID t\<rparr> = t" by simp
  with insert_by_id(1) [OF assms(1) r] r assms(2) show ?thesis
    by (auto simp: mongo_ritual_Save_def mongo_tasks_def fun_eq_iff)
qed

lemma mongo_FindByID_tasks:
  assumes "read_laws c docs" "mongo_ritual_FindByID c i w = (r, w')"
  shows "mongo_tasks docs w' = mongo_tasks docs w" "r = Inr t \<Longrightarrow> mongo_tasks docs w i = Some t"
proof -
  obtain y w1 where f: "coFindOne c (by_id i) w = (y, w1)" by (cases "coFindOne c (by_id i) w")
  note l = find_by_id [OF assms(1) f]
  have w1: "w' = w1" using assms(2) f by (auto simp: mongo_ritual_FindByID_def elim: found.elims)
  then show "mongo_tasks docs w' = mongo_tasks docs w" using l(1) by (simp add: mongo_tasks_def fun_eq_iff)
  assume "r = Inr t"
  then obtain x where "y = Inr (Some x)" "t = decode_ritual x"
    using found_Inr [OF assms(2) [unfolded mongo_ritual_FindByID_def f \<open>r = Inr t\<close>]] by blast
  then show "mongo_tasks docs w i = Some t" using l(2) l(3) by (simp add: mongo_tasks_def decode_ritual_def)
qed

text \<open>The adapter implements the repository that the laws of the service ask for.\<close>

lemma mongo_rituals_laws:
  assumes "read_laws c docs" "write_laws conflict c docs"
  shows "repo_laws (mongo_rituals newID c) (mongo_tasks docs)"
proof -
  have "mongo_tasks docs (snd (mongo_ritual_FindByID c i w)) = mongo_tasks docs w" for i w
    using mongo_FindByID_tasks(1) [OF assms(1)] by (metis prod.collapse)
  moreover have "mongo_tasks docs w i = Some t" if "fst (mongo_ritual_FindByID c i w) = Inr t" for i w t
    using mongo_FindByID_tasks(2) [OF assms(1)] that by (metis prod.collapse)
  moreover have "updates (mongo_tasks docs) i (with_running now) (mongo_ritual_UpdateRunning c i now)" for i now
    unfolding mongo_ritual_UpdateRunning_def [abs_def] by (rule mongo_updates [OF assms]) (simp add: with_running_def)
  moreover have "updates (mongo_tasks docs) i (with_failed now why) (mongo_ritual_UpdateFailed c i now why)" for i now why
    unfolding mongo_ritual_UpdateFailed_def [abs_def] by (rule mongo_updates [OF assms]) (simp add: with_failed_def)
  moreover have "updates (mongo_tasks docs) i (with_keeper k) (mongo_ritual_UpdateKeeperTaskID c i k)" for i k
    unfolding mongo_ritual_UpdateKeeperTaskID_def [abs_def] by (rule mongo_updates [OF assms]) (simp add: with_keeper_def)
  ultimately show ?thesis
    using mongo_UpdateStatus_updates [OF assms] mongo_Save_tasks [OF assms(2)]
    unfolding repo_laws_def mongo_rituals_def by simp
qed

text \<open>The pending tasks are read in the order of their times.\<close>

lemma mongo_FindPending_sorted:
  assumes "read_laws c docs" "mongo_ritual_FindPending c mk limit offset w = (Inr ts, w')"
  shows "sorted (map riExecuteAt ts)" "\<forall>t \<in> set ts. riMemoryKey t = mk \<and> riStatus t = RitualPending"
proof -
  let ?q = "\<lparr>quFilter = pending_of mk, quBefore = (\<lambda>a b :: Ritual doc. riExecuteAt (snd a) < riExecuteAt (snd b)),
                  quSkip = offset, quLimit = limit\<rparr>"
  obtain xs where f: "coFind c ?q w = (Inr xs, w')" and ts: "ts = map decode_ritual xs"
    using decoded_Inr [OF assms(2) [unfolded mongo_ritual_FindPending_def]] by blast
  have a: "answers ?q (docs w) xs" using find_laws(2) [OF assms(1) f] by simp
  have "sort_order (\<lambda>a b :: Ritual doc. riExecuteAt (snd a) < riExecuteAt (snd b))" by (auto simp: sort_order_def)
  with a have "sorted_wrt (\<lambda>a b. riExecuteAt (snd a) \<le> riExecuteAt (snd b)) xs"
    unfolding answers_def by (auto simp: not_less sorted_wrt_take sorted_wrt_drop)
  then have "sorted_wrt (\<lambda>a b. riExecuteAt a \<le> riExecuteAt b) ts"
    unfolding ts sorted_wrt_map by (simp add: decode_ritual_def)
  then show "sorted (map riExecuteAt ts)" by (simp add: sorted_wrt_map sorted_wrt_iff_nth_less)
  show "\<forall>t \<in> set ts. riMemoryKey t = mk \<and> riStatus t = RitualPending"
    using answers_subset [OF a] by (auto simp: ts decode_ritual_def pending_of_def)
qed

end
