(* ===== verification/HttpTools.thy ===== *)
theory HttpTools
  imports ToolActions MapHelpers PipeDeliver DocStore "HOL-Library.Word"
begin

text \<open>
  Tools that call an HTTP endpoint: \<open>domain/entities/http_tool.go\<close>, the executor
  \<open>orchestrator/http_tool_executor.go\<close>, its check of addresses \<open>helpers/netutil/netutil.go\<close>, and the
  repository \<open>mongo/http_tool_repository.go\<close>. URL parser, resolver and HTTP client are arguments.
\<close>

section \<open>Addresses\<close>

text \<open>An address after \<open>net.ParseIP\<close>; an IPv6 address that maps an IPv4 one is an \<open>IPv4\<close>, as for \<open>To4\<close>.\<close>

datatype ip = IPv4 "32 word" | IPv6 "128 word"

definition ipv4 :: "nat \<Rightarrow> nat \<Rightarrow> nat \<Rightarrow> nat \<Rightarrow> 32 word" where
  "ipv4 a b c d = of_nat (((a * 256 + b) * 256 + c) * 256 + d)"

text \<open>A network and the length of its prefix; \<open>Contains\<close> compares addresses of the same length.\<close>

datatype cidr = CIDR4 "32 word" nat | CIDR6 "128 word" nat

fun cidr_contains :: "cidr \<Rightarrow> ip \<Rightarrow> bool" where
  "cidr_contains (CIDR4 net len) (IPv4 x) \<longleftrightarrow> drop_bit (32 - len) x = drop_bit (32 - len) net"
| "cidr_contains (CIDR6 net len) (IPv6 x) \<longleftrightarrow> drop_bit (128 - len) x = drop_bit (128 - len) net"
| "cidr_contains _ _ \<longleftrightarrow> False"

definition privateRanges :: "cidr list" where
  "privateRanges =
    [CIDR4 (ipv4 0 0 0 0) 8, CIDR4 (ipv4 10 0 0 0) 8, CIDR4 (ipv4 172 16 0 0) 12, CIDR4 (ipv4 192 168 0 0) 16,
     CIDR4 (ipv4 127 0 0 0) 8, CIDR6 1 128, CIDR4 (ipv4 169 254 0 0) 16, CIDR4 (ipv4 100 64 0 0) 10,
     CIDR6 (push_bit 120 0xfc) 7]"

text \<open>The classes of the library.\<close>

fun IsLoopback :: "ip \<Rightarrow> bool" where
  "IsLoopback (IPv4 x) \<longleftrightarrow> drop_bit 24 x = 127"
| "IsLoopback (IPv6 x) \<longleftrightarrow> x = 1"

fun IsLinkLocalUnicast :: "ip \<Rightarrow> bool" where
  "IsLinkLocalUnicast (IPv4 x) \<longleftrightarrow> drop_bit 16 x = 169 * 256 + 254"
| "IsLinkLocalUnicast (IPv6 x) \<longleftrightarrow> drop_bit 118 x = 0xfe80 div 64"

fun IsLinkLocalMulticast :: "ip \<Rightarrow> bool" where
  "IsLinkLocalMulticast (IPv4 x) \<longleftrightarrow> drop_bit 8 x = 224 * 65536"
| "IsLinkLocalMulticast (IPv6 x) \<longleftrightarrow> drop_bit 120 x = 0xff \<and> take_bit 4 (drop_bit 112 x) = 2"

definition IsPrivateIP :: "ip \<Rightarrow> bool" where
  "IsPrivateIP i \<longleftrightarrow>
     IsLoopback i \<or> IsLinkLocalUnicast i \<or> IsLinkLocalMulticast i \<or> list_ex (\<lambda>r. cidr_contains r i) privateRanges"

text \<open>
  \<open>parse\<close> is \<open>url.Parse\<close> with the scheme and the host of the result, \<open>resolve\<close> is \<open>LookupHost\<close>, and
  \<open>ip_of\<close> is \<open>net.ParseIP\<close>.
\<close>

record net =
  nePars :: "string \<Rightarrow> gerr + string \<times> string"
  neResolve :: "string \<Rightarrow> gerr + string list"
  neIP :: "string \<Rightarrow> ip option"

definition ValidateURL :: "net \<Rightarrow> string \<Rightarrow> gerr option" where
  "ValidateURL ne url =
     (case nePars ne url of
        Inl e \<Rightarrow> Some (EWrap ''invalid URL'' e)
      | Inr (scheme, host) \<Rightarrow>
          if scheme \<noteq> ''http'' \<and> scheme \<noteq> ''https'' then Some (EPlain (''URL scheme not allowed: '' @ scheme))
          else if host = [] then Some (EPlain ''URL has no host'')
          else case neResolve ne host of
            Inl _ \<Rightarrow> None
          | Inr addrs \<Rightarrow>
              if list_ex (\<lambda>a. case neIP ne a of None \<Rightarrow> False | Some i \<Rightarrow> IsPrivateIP i) addrs
              then Some (EPlain ''requests to private network addresses are not allowed'') else None)"

section \<open>The tool\<close>

record HTTPToolParam =
  tpName :: string
  tpType :: string
  tpDescription :: string
  tpRequired :: bool

record HTTPTool =
  htID :: string
  htName :: string
  htDescription :: string
  htMethod :: string
  htURL :: string
  htHeaders :: "(string \<times> string) list option"
  htBodyTemplate :: string
  htParameters :: "HTTPToolParam list"
  htTimeoutMS :: int
  htMaxResponseBytes :: int
  htIsCritical :: bool
  htSpiritIDs :: "string list option"

definition http_parameters :: "HTTPTool \<Rightarrow> gmap" where
  "http_parameters t =
     object_schema (fold (\<lambda>p m. AList.update (tpName p) (schema_prop (tpType p) (tpDescription p)) m) (htParameters t) [])
       (map tpName (filter tpRequired (htParameters t)))"

fun http_Validate_params :: "HTTPToolParam list \<Rightarrow> gmap option \<Rightarrow> gerr option" where
  "http_Validate_params [] args = None"
| "http_Validate_params (p # ps) args =
     (if tpRequired p \<and> gm_get args (tpName p) = None
      then Some (EPlain (''required parameter missing: '' @ tpName p)) else http_Validate_params ps args)"

text \<open>The arguments in the order Go happens to range over the map for this template.\<close>

fun resolveTemplate :: "(rat \<Rightarrow> string) \<Rightarrow> string \<Rightarrow> gmap \<Rightarrow> string" where
  "resolveTemplate ff t [] = t"
| "resolveTemplate ff t ((k, v) # es) = resolveTemplate ff (str_replace (''{{'' @ k @ ''}}'') (fmt_v ff v) t) es"

record http_request =
  hqMethod :: string
  hqURL :: string
  hqHeaders :: "(string \<times> string) list"
  hqBody :: string

text \<open>The client: \<open>clBuild\<close> is \<open>NewRequestWithContext\<close>, \<open>clDo\<close> gives the status and the body.\<close>

record 'w http_client =
  clNet :: net
  clBuild :: "string \<Rightarrow> string \<Rightarrow> gerr option"
  clDo :: "http_request \<Rightarrow> 'w \<Rightarrow> (gerr + int \<times> string) \<times> 'w"
  clMillis :: "'w \<Rightarrow> int"
  clFloat :: "rat \<Rightarrow> string"
  clOrder :: "string \<Rightarrow> gmap \<Rightarrow> gmap"

definition resolved :: "'w http_client \<Rightarrow> gmap \<Rightarrow> string \<Rightarrow> string" where
  "resolved cl args t = resolveTemplate (clFloat cl) t (clOrder cl t args)"

definition request_of :: "'w http_client \<Rightarrow> HTTPTool \<Rightarrow> string \<Rightarrow> gmap \<Rightarrow> http_request" where
  "request_of cl t url args =
     (let body = resolved cl args (htBodyTemplate t);
          hs = map (\<lambda>(k, v). (k, resolved cl args v)) (case htHeaders t of None \<Rightarrow> [] | Some h \<Rightarrow> h)
      in \<lparr>hqMethod = htMethod t, hqURL = url,
          hqHeaders = (if body = [] then hs else AList.update ''Content-Type'' ''application/json'' hs), hqBody = body\<rparr>)"

definition response_limit :: "HTTPTool \<Rightarrow> nat" where
  "response_limit t = (if htMaxResponseBytes t \<le> 0 then 1048576 else nat (htMaxResponseBytes t))"

definition http_execute :: "'w http_client \<Rightarrow> HTTPTool \<Rightarrow> string \<Rightarrow> gmap \<Rightarrow> 'w \<Rightarrow> (gerr + string) \<times> 'w" where
  "http_execute cl t url args w =
     (case clBuild cl (htMethod t) url of
        Some e \<Rightarrow> (Inl (NewInfrastructureError (err_text e) []), w)
      | None \<Rightarrow>
          (case clDo cl (request_of cl t url args) w of
             (Inl e, w1) \<Rightarrow> (Inl (NewInfrastructureError (err_text e) []), w1)
           | (Inr (status, body), w1) \<Rightarrow>
               (let seen = take (response_limit t) body
                in case FromHTTPStatus status seen of
                     Some e \<Rightarrow> (Inl e, w1)
                   | None \<Rightarrow> (Inr seen, w1))))"

definition http_Execute :: "'w http_client \<Rightarrow> HTTPTool \<Rightarrow> gmap option \<Rightarrow> 'w \<Rightarrow> (gerr + string) \<times> 'w" where
  "http_Execute cl t args w =
     (let as = gm_entries args; url = resolved cl as (htURL t)
      in case ValidateURL (clNet cl) url of
           Some e \<Rightarrow> (Inl (NewInfrastructureError (err_text e) []), w)
         | None \<Rightarrow> http_execute cl t url as w)"

record HTTPToolTestResult =
  trStatusCode :: int
  trResponse :: string
  trResolvedURL :: string
  trLatencyMS :: int

definition http_Test :: "'w http_client \<Rightarrow> HTTPTool \<Rightarrow> gmap option \<Rightarrow> 'w \<Rightarrow> (gerr + HTTPToolTestResult) \<times> 'w" where
  "http_Test cl t args w =
     (let as = gm_entries args; url = resolved cl as (htURL t)
      in case ValidateURL (clNet cl) url of
           Some e \<Rightarrow> (Inl (EWrap ''URL validation failed'' (NewInfrastructureError (err_text e) [])), w)
         | None \<Rightarrow>
             (case clBuild cl (htMethod t) url of
                Some e \<Rightarrow> (Inl (EWrap ''invalid request'' e), w)
              | None \<Rightarrow>
                  (case clDo cl (request_of cl t url as) w of
                     (Inl e, w1) \<Rightarrow> (Inl (EWrap ''request failed'' e), w1)
                   | (Inr (status, body), w1) \<Rightarrow>
                       (Inr \<lparr>trStatusCode = status, trResponse = take (response_limit t) body, trResolvedURL = url,
                             trLatencyMS = clMillis cl w1 - clMillis cl w\<rparr>, w1))))"

definition NewHTTPToolExecutor :: "'w http_client \<Rightarrow> HTTPTool \<Rightarrow> 'w action" where
  "NewHTTPToolExecutor cl t =
     \<lparr>acName = htName t, acDescription = htDescription t, acParameters = http_parameters t, acCategory = ActionGeneral,
      acIsCritical = htIsCritical t, acResultLimit = None, acValidate = http_Validate_params (htParameters t),
      acExecute = http_Execute cl t\<rparr>"

section \<open>The repository\<close>

record httpToolDocument =
  hdName :: string
  hdDescription :: string
  hdMethod :: string
  hdURL :: string
  hdHeaders :: "(string \<times> string) list option"
  hdBodyTemplate :: string
  hdParameters :: "HTTPToolParam list"
  hdTimeoutMS :: int
  hdIsCritical :: bool
  hdSpiritIDs :: "string list option"
  hdUpdatedAt :: int

definition httpToolToDocument :: "int \<Rightarrow> HTTPTool \<Rightarrow> httpToolDocument" where
  "httpToolToDocument now t =
     \<lparr>hdName = htName t, hdDescription = htDescription t, hdMethod = htMethod t, hdURL = htURL t,
      hdHeaders = Some (case htHeaders t of None \<Rightarrow> [] | Some h \<Rightarrow> h), hdBodyTemplate = htBodyTemplate t,
      hdParameters = htParameters t, hdTimeoutMS = htTimeoutMS t, hdIsCritical = htIsCritical t,
      hdSpiritIDs = Some (case htSpiritIDs t of None \<Rightarrow> [] | Some s \<Rightarrow> s), hdUpdatedAt = now\<rparr>"

definition httpDocumentToTool :: "httpToolDocument doc \<Rightarrow> HTTPTool" where
  "httpDocumentToTool x =
     (let d = snd x
      in \<lparr>htID = id_text (fst x), htName = hdName d, htDescription = hdDescription d, htMethod = hdMethod d, htURL = hdURL d,
          htHeaders = hdHeaders d, htBodyTemplate = hdBodyTemplate d, htParameters = hdParameters d,
          htTimeoutMS = hdTimeoutMS d, htMaxResponseBytes = 0, htIsCritical = hdIsCritical d, htSpiritIDs = hdSpiritIDs d\<rparr>)"

text \<open>\<open>eywa.ErrNotFound\<close>, the sentinel.\<close>

definition sentinel_not_found :: gerr where
  "sentinel_not_found = EPlain ''not found''"

definition http_tools_List :: "('w, httpToolDocument) collection \<Rightarrow> 'w \<Rightarrow> (gerr + HTTPTool list) \<times> 'w" where
  "http_tools_List c w = decoded ''find http tools'' (map httpDocumentToTool) (coFind c (find_all (\<lambda>_. True)) w)"

definition http_tools_FindBySpiritID :: "('w, httpToolDocument) collection \<Rightarrow> string \<Rightarrow> 'w \<Rightarrow> (gerr + HTTPTool list) \<times> 'w" where
  "http_tools_FindBySpiritID c i w =
     decoded ''find http tools by spirit id'' (map httpDocumentToTool)
       (coFind c (find_all (\<lambda>x. case hdSpiritIDs (snd x) of None \<Rightarrow> False | Some is \<Rightarrow> i \<in> set is)) w)"

definition http_tools_FindByID :: "('w, httpToolDocument) collection \<Rightarrow> string \<Rightarrow> 'w \<Rightarrow> (gerr + HTTPTool) \<times> 'w" where
  "http_tools_FindByID c i w = found ''decode http tool'' sentinel_not_found httpDocumentToTool (coFindOne c (by_id i) w)"

definition http_tools_Save :: "('w, httpToolDocument) collection \<Rightarrow> int \<Rightarrow> HTTPTool \<Rightarrow> 'w \<Rightarrow> gerr option \<times> 'w" where
  "http_tools_Save c now t w =
     failing ''insert http tool'' (coInsert c (Some (StringID (htID t))) (httpToolToDocument now t) w)"

definition http_tools_Update :: "('w, httpToolDocument) collection \<Rightarrow> int \<Rightarrow> HTTPTool \<Rightarrow> 'w \<Rightarrow> gerr option \<times> 'w" where
  "http_tools_Update c now t w =
     (case coUpdateOne c (by_id (htID t)) (\<lambda>_. httpToolToDocument now t) w of
        (Inl e, w1) \<Rightarrow> (Some (EWrap ''replace http tool'' e), w1)
      | (Inr (0, m), w1) \<Rightarrow> (Some sentinel_not_found, w1)
      | (Inr (Suc k, m), w1) \<Rightarrow> (None, w1))"

definition http_tools_Delete :: "('w, httpToolDocument) collection \<Rightarrow> string \<Rightarrow> 'w \<Rightarrow> gerr option \<times> 'w" where
  "http_tools_Delete c i w =
     (case coDeleteOne c (by_id i) w of
        (Inl e, w1) \<Rightarrow> (Some (EWrap ''delete http tool'' e), w1)
      | (Inr 0, w1) \<Rightarrow> (Some sentinel_not_found, w1)
      | (Inr (Suc k), w1) \<Rightarrow> (None, w1))"

section \<open>Laws\<close>

text \<open>
  A call reaches the client only when no address the resolver gave for the host is private. What
  the client does after that, a redirect or a second resolution, is not checked.
\<close>

definition public_host :: "net \<Rightarrow> string \<Rightarrow> bool" where
  "public_host ne host \<longleftrightarrow>
     (\<forall>addrs a i. neResolve ne host = Inr addrs \<longrightarrow> a \<in> set addrs \<longrightarrow> neIP ne a = Some i \<longrightarrow> \<not> IsPrivateIP i)"

lemma ValidateURL_public:
  "ValidateURL ne url = None \<longleftrightarrow>
     (\<exists>scheme host. nePars ne url = Inr (scheme, host) \<and> scheme \<in> {''http'', ''https''} \<and> host \<noteq> [] \<and> public_host ne host)"
  by (auto simp: ValidateURL_def public_host_def list_ex_iff split: sum.splits option.splits)

lemma Execute_public:
  assumes "snd (http_Execute cl t args w) \<noteq> w"
  shows "\<exists>scheme host. nePars (clNet cl) (resolved cl (gm_entries args) (htURL t)) = Inr (scheme, host)
    \<and> scheme \<in> {''http'', ''https''} \<and> host \<noteq> [] \<and> public_host (clNet cl) host"
proof -
  have "ValidateURL (clNet cl) (resolved cl (gm_entries args) (htURL t)) = None"
    using assms by (auto simp: http_Execute_def Let_def split: option.splits)
  then show ?thesis by (simp add: ValidateURL_public)
qed

text \<open>A body is cut to the limit before anything else sees it.\<close>

lemma http_result_bounded:
  "http_Execute cl t args w = (Inr out, w') \<Longrightarrow> length out \<le> response_limit t"
  by (auto simp: http_Execute_def http_execute_def Let_def split: option.splits prod.splits sum.splits)

text \<open>A stored tool comes back without its limit on responses, which has no field in the document.\<close>

lemma http_tool_roundtrip:
  "httpDocumentToTool (StringID (htID t), httpToolToDocument now t)
     = t\<lparr>htMaxResponseBytes := 0, htHeaders := Some (case htHeaders t of None \<Rightarrow> [] | Some h \<Rightarrow> h),
         htSpiritIDs := Some (case htSpiritIDs t of None \<Rightarrow> [] | Some s \<Rightarrow> s)\<rparr>"
  by (simp add: httpDocumentToTool_def httpToolToDocument_def)

lemma private_examples:
  "IsPrivateIP (IPv4 (ipv4 10 1 2 3))" "IsPrivateIP (IPv4 (ipv4 172 31 255 255))" "IsPrivateIP (IPv4 (ipv4 169 254 169 254))"
  "IsPrivateIP (IPv6 1)" "\<not> IsPrivateIP (IPv4 (ipv4 172 32 0 0))" "\<not> IsPrivateIP (IPv4 (ipv4 8 8 8 8))"
  by (simp_all add: IsPrivateIP_def privateRanges_def ipv4_def drop_bit_eq_div)

end
