(* ===== verification/MongoRecords.thy ===== *)
theory MongoRecords
  imports DocStore Imprints Memories ToolActions Lore Spirit PipeDeliver
begin

text \<open>
  Repositories of \<open>mongo/\<close> that hold what happened and what is known: messages, facts about
  users, requests of approval, the ledger of tokens, lores, operators and tokens of applications.
\<close>

section \<open>Pages\<close>

text \<open>Page 1 and 20 documents when the caller gives nothing; \<open>cap\<close> is the largest page, if there is one.\<close>

definition page_limit :: "int option \<Rightarrow> int \<Rightarrow> int" where
  "page_limit cap limit =
     (let l = (if limit < 1 then 20 else limit) in case cap of None \<Rightarrow> l | Some m \<Rightarrow> min m l)"

definition page_skip :: "int \<Rightarrow> int \<Rightarrow> int" where
  "page_skip p limit = wrap64 (((if p < 1 then 1 else p) - 1) * limit)"

definition counted ::
  "string \<Rightarrow> string \<Rightarrow> ('d doc \<Rightarrow> 'b) \<Rightarrow> ('w, 'd) collection \<Rightarrow> 'd query \<Rightarrow> 'w \<Rightarrow> (gerr + 'b list \<times> int) \<times> 'w" where
  "counted count_msg find_msg f c q w =
     (case coCount c (quFilter q) w of
        (Inl e, w1) \<Rightarrow> (Inl (EWrap count_msg e), w1)
      | (Inr n, w1) \<Rightarrow> decoded find_msg (\<lambda>xs. (map f xs, n)) (coFind c q w1))"

text \<open>A filter with an optional field: empty means any.\<close>

definition if_given :: "string \<Rightarrow> string \<Rightarrow> bool" where
  "if_given want have \<longleftrightarrow> want = [] \<or> have = want"

section \<open>Messages\<close>

definition decode_echo :: "echo doc \<Rightarrow> echo" where
  "decode_echo x = (snd x)\<lparr>ecID := id_text (fst x)\<rparr>"

definition echo_Append :: "('w, echo) collection \<Rightarrow> ('w \<Rightarrow> string \<times> 'w) \<Rightarrow> ('w \<Rightarrow> int) \<Rightarrow> echo \<Rightarrow> 'w \<Rightarrow> gerr option \<times> 'w" where
  "echo_Append c newID now m w =
     (if \<not> ecIsUserFacing m then (None, w)
      else if ecMemoryKey m = [] then (Some (EPlain ''invalid input: memory_key is required''), w)
      else let (i, w1) = (if ecID m = [] then newID w else (ecID m, w))
           in failing ''failed to append message''
                (coInsert c (Some (StringID i)) (m\<lparr>ecID := i, ecTimestamp := now w1\<rparr>) w1))"

definition said_to_user :: "(echo \<Rightarrow> bool) \<Rightarrow> echo doc \<Rightarrow> bool" where
  "said_to_user p x \<longleftrightarrow> p (snd x) \<and> ecIsUserFacing (snd x)"

definition earlier :: "echo doc \<Rightarrow> echo doc \<Rightarrow> bool" where
  "earlier a b \<longleftrightarrow> ecTimestamp (snd a) < ecTimestamp (snd b)"

definition maxMessageLimit :: int where "maxMessageLimit = 1000"
definition defaultMessageLimit :: int where "defaultMessageLimit = 50"

definition echo_find :: "('w, echo) collection \<Rightarrow> (echo doc \<Rightarrow> bool) \<Rightarrow> int \<Rightarrow> int \<Rightarrow> 'w \<Rightarrow> (gerr + echo list) \<times> 'w" where
  "echo_find c p limit offset w =
     (let l = (if limit \<le> 0 then defaultMessageLimit else limit)
      in decoded ''failed to query messages'' (map decode_echo)
           (coFind c \<lparr>quFilter = p, quBefore = earlier, quSkip = max 0 offset, quLimit = min maxMessageLimit l\<rparr> w))"

definition echo_FindByMemoryKey :: "('w, echo) collection \<Rightarrow> string \<Rightarrow> int \<Rightarrow> int \<Rightarrow> 'w \<Rightarrow> (gerr + echo list) \<times> 'w" where
  "echo_FindByMemoryKey c mk limit offset w =
     (if mk = [] then (Inl (EPlain ''invalid input: memory_key is required''), w)
      else echo_find c (said_to_user (\<lambda>m. ecMemoryKey m = mk)) limit offset w)"

definition echo_FindByMemoryKeyAndSubject ::
  "('w, echo) collection \<Rightarrow> string \<Rightarrow> string \<Rightarrow> int \<Rightarrow> int \<Rightarrow> 'w \<Rightarrow> (gerr + echo list) \<times> 'w" where
  "echo_FindByMemoryKeyAndSubject c mk sk limit offset w =
     (if mk = [] \<or> sk = [] then (Inl (EPlain ''invalid input: memory_key and subject_key are required''), w)
      else echo_find c (said_to_user (\<lambda>m. ecMemoryKey m = mk \<and> ecSubjectKey m = sk)) limit offset w)"

definition echo_FindBySubjectKey :: "('w, echo) collection \<Rightarrow> string \<Rightarrow> int \<Rightarrow> int \<Rightarrow> 'w \<Rightarrow> (gerr + echo list) \<times> 'w" where
  "echo_FindBySubjectKey c sk limit offset w =
     (if sk = [] then (Inl (EPlain ''invalid input: subject_key is required''), w)
      else echo_find c (said_to_user (\<lambda>m. ecSubjectKey m = sk)) limit offset w)"

text \<open>An aggregation: a match, then stages that sort or cut.\<close>

datatype 'd stage = SortStage "'d doc \<Rightarrow> 'd doc \<Rightarrow> bool" | LimitStage int

type_synonym ('w, 'd) aggregation = "('d doc \<Rightarrow> bool) \<Rightarrow> 'd stage list \<Rightarrow> 'w \<Rightarrow> (gerr + 'd doc list) \<times> 'w"

definition echo_findRecent :: "('w, echo) aggregation \<Rightarrow> (echo doc \<Rightarrow> bool) \<Rightarrow> int \<Rightarrow> 'w \<Rightarrow> (gerr + echo list) \<times> 'w" where
  "echo_findRecent agg p limit w =
     decoded ''failed to query recent messages'' (map decode_echo)
       (agg p [SortStage (\<lambda>a b. earlier b a), LimitStage limit, SortStage earlier] w)"

definition echo_FindRecentByMemoryKey :: "('w, echo) aggregation \<Rightarrow> string \<Rightarrow> int \<Rightarrow> 'w \<Rightarrow> (gerr + echo list) \<times> 'w" where
  "echo_FindRecentByMemoryKey agg mk limit w =
     (if mk = [] then (Inl (EPlain ''invalid input: memory_key is required''), w)
      else echo_findRecent agg (said_to_user (\<lambda>m. ecMemoryKey m = mk)) limit w)"

definition echo_FindRecentByMemoryKeyAndSubject ::
  "('w, echo) aggregation \<Rightarrow> string \<Rightarrow> string \<Rightarrow> int \<Rightarrow> 'w \<Rightarrow> (gerr + echo list) \<times> 'w" where
  "echo_FindRecentByMemoryKeyAndSubject agg mk sk limit w =
     (if mk = [] \<or> sk = [] then (Inl (EPlain ''invalid input: memory_key and subject_key are required''), w)
      else echo_findRecent agg (said_to_user (\<lambda>m. ecMemoryKey m = mk \<and> ecSubjectKey m = sk)) limit w)"

definition echo_CountByMemoryKey :: "('w, echo) collection \<Rightarrow> string \<Rightarrow> 'w \<Rightarrow> (gerr + int) \<times> 'w" where
  "echo_CountByMemoryKey c mk w =
     decoded ''count messages by memory key'' id (coCount c (said_to_user (\<lambda>m. ecMemoryKey m = mk)) w)"

definition echo_CountByMemoryKeyAndSubject :: "('w, echo) collection \<Rightarrow> string \<Rightarrow> string \<Rightarrow> 'w \<Rightarrow> (gerr + int) \<times> 'w" where
  "echo_CountByMemoryKeyAndSubject c mk sk w =
     decoded ''count messages by memory key and subject'' id
       (coCount c (said_to_user (\<lambda>m. ecMemoryKey m = mk \<and> ecSubjectKey m = sk)) w)"

definition echo_CountBySubjectKey :: "('w, echo) collection \<Rightarrow> string \<Rightarrow> 'w \<Rightarrow> (gerr + int) \<times> 'w" where
  "echo_CountBySubjectKey c sk w =
     decoded ''count messages by subject key'' id (coCount c (said_to_user (\<lambda>m. ecSubjectKey m = sk)) w)"

definition mongo_echoes :: "('w, echo) collection \<Rightarrow> ('w, echo) aggregation \<Rightarrow> ('w \<Rightarrow> string \<times> 'w) \<Rightarrow> ('w \<Rightarrow> int) \<Rightarrow> 'w echo_repo" where
  "mongo_echoes c agg newID now =
     \<lparr>erAppend = echo_Append c newID now, erFindRecent = echo_FindRecentByMemoryKey agg,
      erFindRecentSubject = echo_FindRecentByMemoryKeyAndSubject agg\<rparr>"

text \<open>
  The pages of the history. The cursor is compared as an ObjectID; a comparison selects only
  identifiers of its own kind. \<open>hexID\<close> is the check of \<open>ObjectIDFromHex\<close>.
\<close>

definition before_object :: "string \<Rightarrow> 'd doc \<Rightarrow> bool" where
  "before_object h x \<longleftrightarrow> (case fst x of ObjectID i \<Rightarrow> i < h | StringID _ \<Rightarrow> False)"

fun id_less :: "doc_id \<Rightarrow> doc_id \<Rightarrow> bool" where
  "id_less (StringID a) (StringID b) \<longleftrightarrow> a < b"
| "id_less (ObjectID a) (ObjectID b) \<longleftrightarrow> a < b"
| "id_less (StringID a) (ObjectID b) \<longleftrightarrow> True"
| "id_less (ObjectID a) (StringID b) \<longleftrightarrow> False"

definition FindByMemoryKeyBefore ::
  "('w, echo) collection \<Rightarrow> (string \<Rightarrow> gerr option) \<Rightarrow> string \<Rightarrow> string \<Rightarrow> int \<Rightarrow> 'w \<Rightarrow> (gerr + echo list) \<times> 'w" where
  "FindByMemoryKeyBefore c hexID mk beforeID limit w =
     (if mk = [] then (Inl (EPlain ''memoryKey is required''), w)
      else case (if beforeID = [] then None else hexID beforeID) of
        Some e \<Rightarrow> (Inl (EWrap ''invalid before_id'' e), w)
      | None \<Rightarrow>
          decoded ''find messages before cursor'' (map decode_echo)
            (coFind c \<lparr>quFilter = (\<lambda>x. said_to_user (\<lambda>m. ecMemoryKey m = mk) x \<and> (beforeID = [] \<or> before_object beforeID x)),
                       quBefore = (\<lambda>a b. id_less (fst b) (fst a)), quSkip = 0, quLimit = page_limit (Some 100) limit\<rparr> w))"

section \<open>Facts about users\<close>

definition decode_imprint :: "Imprint doc \<Rightarrow> Imprint" where
  "decode_imprint x = (snd x)\<lparr>imID := id_text (fst x)\<rparr>"

definition imprint_Save :: "('w, Imprint) collection \<Rightarrow> ('w \<Rightarrow> int) \<Rightarrow> Imprint \<Rightarrow> 'w \<Rightarrow> gerr option \<times> 'w" where
  "imprint_Save c now i w =
     failing ''save imprint''
       (coInsert c (Some (StringID (imID i))) (i\<lparr>imCreatedAt := now w, imUpdatedAt := now w\<rparr>) w)"

definition newer_imprint :: "Imprint doc \<Rightarrow> Imprint doc \<Rightarrow> bool" where
  "newer_imprint a b \<longleftrightarrow> imCreatedAt (snd b) < imCreatedAt (snd a)"

definition imprint_GetByUserKey :: "('w, Imprint) collection \<Rightarrow> string \<Rightarrow> string \<Rightarrow> 'w \<Rightarrow> (gerr + Imprint list) \<times> 'w" where
  "imprint_GetByUserKey c u sn w =
     decoded ''get imprints'' (map decode_imprint)
       (coFind c \<lparr>quFilter = (\<lambda>x. imUserKey (snd x) = u \<and> imSpiritName (snd x) = sn), quBefore = newer_imprint,
                  quSkip = 0, quLimit = 0\<rparr> w)"

definition imprint_Delete :: "('w, Imprint) collection \<Rightarrow> string \<Rightarrow> 'w \<Rightarrow> gerr option \<times> 'w" where
  "imprint_Delete c i w = said ''delete imprint'' (coDeleteOne c (by_id i) w)"

record ImprintListOptions =
  ioUserKey :: string
  ioSpiritName :: string
  ioCategory :: string
  ioLimit :: int
  ioOffset :: int

definition imprint_List :: "('w, Imprint) collection \<Rightarrow> ImprintListOptions \<Rightarrow> 'w \<Rightarrow> (gerr + Imprint list \<times> int) \<times> 'w" where
  "imprint_List c opts w =
     counted ''count imprints'' ''list imprints'' decode_imprint c
       \<lparr>quFilter = (\<lambda>x. if_given (ioUserKey opts) (imUserKey (snd x)) \<and> if_given (ioSpiritName opts) (imSpiritName (snd x))
                        \<and> if_given (ioCategory opts) (imCategory (snd x))),
        quBefore = newer_imprint, quSkip = ioOffset opts, quLimit = (if 0 < ioLimit opts then ioLimit opts else 50)\<rparr> w"

text \<open>The facts beyond the newest \<open>maxCount\<close> go; \<open>resort\<close> is \<open>sort.Slice\<close> by time. A negative count panics.\<close>

fun delete_imprints :: "('w, Imprint) collection \<Rightarrow> Imprint list \<Rightarrow> 'w \<Rightarrow> 'w" where
  "delete_imprints c [] w = w"
| "delete_imprints c (i # is) w = delete_imprints c is (snd (imprint_Delete c (imID i) w))"

definition imprint_Prune ::
  "('w, Imprint) collection \<Rightarrow> (Imprint list \<Rightarrow> Imprint list) \<Rightarrow> string \<Rightarrow> string \<Rightarrow> int \<Rightarrow> 'w \<Rightarrow> (gerr option \<times> 'w) option" where
  "imprint_Prune c resort u sn maxCount w =
     (case imprint_GetByUserKey c u sn w of
        (Inl e, w1) \<Rightarrow> Some (Some e, w1)
      | (Inr imps, w1) \<Rightarrow>
          (if int (length imps) \<le> maxCount then Some (None, w1)
           else if maxCount < 0 then None
           else Some (None, delete_imprints c (drop (nat maxCount) (resort imps)) w1)))"

section \<open>Requests of approval\<close>

definition decode_rite :: "Rite doc \<Rightarrow> Rite" where
  "decode_rite x = (snd x)\<lparr>rtID := id_text (fst x)\<rparr>"

definition rite_Create :: "('w, Rite) collection \<Rightarrow> ('w \<Rightarrow> string \<times> 'w) \<Rightarrow> Rite \<Rightarrow> 'w \<Rightarrow> gerr option \<times> 'w" where
  "rite_Create c newID r w =
     (let (i, w1) = (if rtID r = [] then newID w else (rtID r, w))
      in failing ''insert rite'' (coInsert c (Some (StringID i)) (r\<lparr>rtID := i\<rparr>) w1))"

definition rite_FindByID :: "('w, Rite) collection \<Rightarrow> string \<Rightarrow> 'w \<Rightarrow> (gerr + Rite) \<times> 'w" where
  "rite_FindByID c i w = found ''decode rite'' (ENotFound ''rite'' i) decode_rite (coFindOne c (by_id i) w)"

definition rite_List :: "('w, Rite) collection \<Rightarrow> string \<Rightarrow> RiteStatus option \<Rightarrow> int \<Rightarrow> int \<Rightarrow> 'w \<Rightarrow> (gerr + Rite list \<times> int) \<times> 'w" where
  "rite_List c mk st p limit w =
     counted ''count rites'' ''find rites'' decode_rite c
       \<lparr>quFilter = (\<lambda>x. if_given mk (rtMemoryKey (snd x)) \<and> (case st of None \<Rightarrow> True | Some s \<Rightarrow> rtStatus (snd x) = s)),
        quBefore = (\<lambda>a b. rtRequestedAt (snd b) < rtRequestedAt (snd a)),
        quSkip = page_skip p (page_limit None limit), quLimit = page_limit None limit\<rparr> w"

definition rite_Decide :: "('w, Rite) collection \<Rightarrow> int \<Rightarrow> string \<Rightarrow> string \<Rightarrow> RiteStatus \<Rightarrow> 'w \<Rightarrow> gerr option \<times> 'w" where
  "rite_Decide c now i operator st w =
     (case coUpdateOne c (by_id i) (\<lambda>r. r\<lparr>rtStatus := st, rtOperatorID := operator, rtDecidedAt := Some now\<rparr>) w of
        (Inl e, w1) \<Rightarrow> (Some (EWrap ''decide rite'' e), w1)
      | (Inr (0, m), w1) \<Rightarrow> (Some (ENotFound ''rite'' i), w1)
      | (Inr (Suc k, m), w1) \<Rightarrow> (None, w1))"

section \<open>The ledger\<close>

record LedgerEntry =
  leSpiritName :: string
  leMonth :: string
  leTokensUsed :: int
  leEstCostUSD :: rat
  leUpdatedAt :: int

definition of_month :: "string \<Rightarrow> string \<Rightarrow> LedgerEntry doc \<Rightarrow> bool" where
  "of_month sn month x \<longleftrightarrow> leSpiritName (snd x) = sn \<and> leMonth (snd x) = month"

definition entry_conflict :: "LedgerEntry \<Rightarrow> LedgerEntry \<Rightarrow> bool" where
  "entry_conflict a b \<longleftrightarrow> leSpiritName a = leSpiritName b \<and> leMonth a = leMonth b"

text \<open>\<open>month\<close> is the month of the clock.\<close>

definition IncrementUsage ::
  "('w, LedgerEntry) collection \<Rightarrow> string \<Rightarrow> int \<Rightarrow> string \<Rightarrow> int \<Rightarrow> rat \<Rightarrow> 'w \<Rightarrow> gerr option \<times> 'w" where
  "IncrementUsage c month now sn used cost w =
     failing ''update ledger entry''
       (coUpsert c (of_month sn month)
          (\<lambda>d. d\<lparr>leTokensUsed := leTokensUsed d + used, leEstCostUSD := leEstCostUSD d + cost, leUpdatedAt := now\<rparr>) None
          \<lparr>leSpiritName = sn, leMonth = month, leTokensUsed = used, leEstCostUSD = cost, leUpdatedAt = now\<rparr> w)"

definition GetMonthUsage :: "('w, LedgerEntry) collection \<Rightarrow> string \<Rightarrow> string \<Rightarrow> 'w \<Rightarrow> (gerr + LedgerEntry) \<times> 'w" where
  "GetMonthUsage c sn month w =
     (case coFindOne c (of_month sn month) w of
        (Inl e, w1) \<Rightarrow> (Inl (EWrap ''decode ledger entry'' e), w1)
      | (Inr None, w1) \<Rightarrow> (Inr \<lparr>leSpiritName = sn, leMonth = month, leTokensUsed = 0, leEstCostUSD = 0, leUpdatedAt = 0\<rparr>, w1)
      | (Inr (Some x), w1) \<Rightarrow> (Inr (snd x), w1))"

definition ListMonthUsage :: "('w, LedgerEntry) collection \<Rightarrow> string \<Rightarrow> 'w \<Rightarrow> (gerr + LedgerEntry list) \<times> 'w" where
  "ListMonthUsage c month w =
     decoded ''list ledger entries'' (map snd) (coFind c (find_all (\<lambda>x. leMonth (snd x) = month)) w)"

text \<open>A budget with the name of its Spirit.\<close>

type_synonym budgetDocument = "string \<times> TokenBudget"

definition budget_of :: "string \<Rightarrow> budgetDocument doc \<Rightarrow> bool" where
  "budget_of sn x \<longleftrightarrow> fst (snd x) = sn"

definition budget_conflict :: "budgetDocument \<Rightarrow> budgetDocument \<Rightarrow> bool" where
  "budget_conflict a b \<longleftrightarrow> fst a = fst b"

definition no_budget :: TokenBudget where
  "no_budget = \<lparr>tbMonthlyTokenLimit = 0, tbOnExceed = [], tbDowngradeModel = zero_model, tbAlertThreshold = 0, tbDowngradeAtThreshold = False\<rparr>"

definition GetBudget :: "('w, budgetDocument) collection \<Rightarrow> string \<Rightarrow> 'w \<Rightarrow> (gerr + TokenBudget) \<times> 'w" where
  "GetBudget c sn w =
     (case coFindOne c (budget_of sn) w of
        (Inl e, w1) \<Rightarrow> (Inl (EWrap ''decode ledger budget'' e), w1)
      | (Inr None, w1) \<Rightarrow> (Inr no_budget, w1)
      | (Inr (Some x), w1) \<Rightarrow> (Inr (snd (snd x)), w1))"

text \<open>
  \<open>$set\<close> with the struct: the fields tagged \<open>omitempty\<close> that are zero are left out, so what the
  document has stays. A nested struct is always written.
\<close>

definition set_budget :: "TokenBudget \<Rightarrow> TokenBudget \<Rightarrow> TokenBudget" where
  "set_budget b old =
     b\<lparr>tbAlertThreshold := (if tbAlertThreshold b = 0 then tbAlertThreshold old else tbAlertThreshold b),
       tbDowngradeAtThreshold := (if tbDowngradeAtThreshold b then True else tbDowngradeAtThreshold old)\<rparr>"

definition SetBudget :: "('w, budgetDocument) collection \<Rightarrow> string \<Rightarrow> TokenBudget \<Rightarrow> 'w \<Rightarrow> gerr option \<times> 'w" where
  "SetBudget c sn b w =
     failing ''upsert ledger entry''
       (coUpsert c (budget_of sn) (\<lambda>d. (sn, set_budget b (snd d))) None (sn, b) w)"

definition ListBudgets :: "('w, budgetDocument) collection \<Rightarrow> 'w \<Rightarrow> (gerr + (string \<times> TokenBudget) list) \<times> 'w" where
  "ListBudgets c w = decoded ''list ledger budgets'' (map snd) (coFind c (find_all (\<lambda>_. True)) w)"

text \<open>The ledger the cost step asks, for the month of the clock.\<close>

definition mongo_ledger ::
  "('w, LedgerEntry) collection \<Rightarrow> ('w, budgetDocument) collection \<Rightarrow> ('w \<Rightarrow> string) \<Rightarrow> ('w \<Rightarrow> int) \<Rightarrow> 'w ledger" where
  "mongo_ledger entries budgets month now =
     \<lparr>ldBudget = GetBudget budgets,
      ldMonthUsage = (\<lambda>sn w. case GetMonthUsage entries sn (month w) w of (r, w1) \<Rightarrow> (map_sum id leTokensUsed r, w1)),
      ldIncrement = (\<lambda>sn used cost w. IncrementUsage entries (month w) (now w) sn used cost w)\<rparr>"

section \<open>Lores\<close>

record stored_lore = Lore +
  slDescription :: string
  slSpiritIDs :: "string list"
  slCreatedAt :: int
  slUpdatedAt :: int

definition decode_lore :: "stored_lore doc \<Rightarrow> stored_lore" where
  "decode_lore x = (snd x)\<lparr>loID := id_text (fst x)\<rparr>"

definition lore_conflict :: "stored_lore \<Rightarrow> stored_lore \<Rightarrow> bool" where
  "lore_conflict a b \<longleftrightarrow> loName a = loName b"

definition lore_Create :: "('w, stored_lore) collection \<Rightarrow> int \<Rightarrow> stored_lore \<Rightarrow> 'w \<Rightarrow> gerr option \<times> 'w" where
  "lore_Create c now l w =
     failing ''create lore'' (coInsert c (Some (StringID (loID l))) (l\<lparr>slCreatedAt := now, slUpdatedAt := now\<rparr>) w)"

definition lore_GetByID :: "('w, stored_lore) collection \<Rightarrow> string \<Rightarrow> 'w \<Rightarrow> (gerr + stored_lore) \<times> 'w" where
  "lore_GetByID c i w = found (''get lore '' @ quote_q i) (ENotFound ''lore'' i) decode_lore (coFindOne c (by_id i) w)"

definition lore_GetByName :: "('w, stored_lore) collection \<Rightarrow> string \<Rightarrow> 'w \<Rightarrow> (gerr + stored_lore) \<times> 'w" where
  "lore_GetByName c n w =
     found (''get lore '' @ quote_q n) (ENotFound ''lore'' n) decode_lore (coFindOne c (\<lambda>x. loName (snd x) = n) w)"

definition lore_GetBySpiritID :: "('w, stored_lore) collection \<Rightarrow> string \<Rightarrow> 'w \<Rightarrow> (gerr + stored_lore list) \<times> 'w" where
  "lore_GetBySpiritID c i w =
     decoded ''get lores by spirit'' (map decode_lore) (coFind c (find_all (\<lambda>x. i \<in> set (slSpiritIDs (snd x)))) w)"

definition lore_GetByIDs :: "('w, stored_lore) collection \<Rightarrow> string list \<Rightarrow> 'w \<Rightarrow> (gerr + stored_lore list) \<times> 'w" where
  "lore_GetByIDs c ids w =
     decoded ''get lores by ids'' (map decode_lore) (coFind c (find_all (\<lambda>x. list_ex (\<lambda>i. by_id i x) ids)) w)"

definition lore_List :: "('w, stored_lore) collection \<Rightarrow> 'w \<Rightarrow> (gerr + stored_lore list) \<times> 'w" where
  "lore_List c w = decoded ''list lores'' (map decode_lore) (coFind c (find_all (\<lambda>_. True)) w)"

text \<open>A lore that is missing is replaced by nothing, without an error.\<close>

definition lore_Update :: "('w, stored_lore) collection \<Rightarrow> int \<Rightarrow> stored_lore \<Rightarrow> 'w \<Rightarrow> gerr option \<times> 'w" where
  "lore_Update c now l w = said ''update lore'' (coUpdateOne c (by_id (loID l)) (\<lambda>_. l\<lparr>slUpdatedAt := now\<rparr>) w)"

definition lore_Delete :: "('w, stored_lore) collection \<Rightarrow> string \<Rightarrow> 'w \<Rightarrow> gerr option \<times> 'w" where
  "lore_Delete c i w = said ''delete lore'' (coDeleteOne c (by_id i) w)"

section \<open>Operators and applications\<close>

record Operator =
  opID :: string
  opName :: string
  opEmail :: string
  opRole :: string
  opPasswordHash :: string
  opIsActive :: bool
  opCreatedAt :: int
  opUpdatedAt :: int

definition decode_operator :: "Operator doc \<Rightarrow> Operator" where
  "decode_operator x = (snd x)\<lparr>opID := id_text (fst x)\<rparr>"

definition operator_conflict :: "Operator \<Rightarrow> Operator \<Rightarrow> bool" where
  "operator_conflict a b \<longleftrightarrow> opEmail a = opEmail b"

definition operator_Create :: "('w, Operator) collection \<Rightarrow> ('w \<Rightarrow> string \<times> 'w) \<Rightarrow> int \<Rightarrow> Operator \<Rightarrow> 'w \<Rightarrow> gerr option \<times> 'w" where
  "operator_Create c newID now x w =
     (let (i, w1) = (if opID x = [] then newID w else (opID x, w))
      in failing ''insert operator''
           (coInsert c (Some (StringID i)) (x\<lparr>opID := i, opCreatedAt := now, opUpdatedAt := now\<rparr>) w1))"

definition operator_FindByEmail :: "('w, Operator) collection \<Rightarrow> string \<Rightarrow> 'w \<Rightarrow> (gerr + Operator) \<times> 'w" where
  "operator_FindByEmail c email w =
     found ''decode operator'' (ENotFound ''operator'' email) decode_operator (coFindOne c (\<lambda>x. opEmail (snd x) = email) w)"

definition operator_FindByID :: "('w, Operator) collection \<Rightarrow> string \<Rightarrow> 'w \<Rightarrow> (gerr + Operator) \<times> 'w" where
  "operator_FindByID c i w = found ''decode operator'' (ENotFound ''operator'' i) decode_operator (coFindOne c (by_id i) w)"

definition operator_List :: "('w, Operator) collection \<Rightarrow> int \<Rightarrow> int \<Rightarrow> 'w \<Rightarrow> (gerr + Operator list \<times> int) \<times> 'w" where
  "operator_List c p limit w =
     counted ''count operators'' ''find operators'' decode_operator c
       \<lparr>quFilter = (\<lambda>_. True), quBefore = (\<lambda>a b. opCreatedAt (snd b) < opCreatedAt (snd a)),
        quSkip = page_skip p (page_limit None limit), quLimit = page_limit None limit\<rparr> w"

fun matched :: "string \<Rightarrow> gerr \<Rightarrow> (gerr + nat \<times> nat) \<times> 'w \<Rightarrow> gerr option \<times> 'w" where
  "matched p missing (Inl e, w) = (Some (EWrap p e), w)"
| "matched p missing (Inr (0, m), w) = (Some missing, w)"
| "matched p missing (Inr (Suc k, m), w) = (None, w)"

definition operator_Update :: "('w, Operator) collection \<Rightarrow> int \<Rightarrow> Operator \<Rightarrow> 'w \<Rightarrow> gerr option \<times> 'w" where
  "operator_Update c now x w =
     matched ''update operator'' (ENotFound ''operator'' (opID x))
       (coUpdateOne c (by_id (opID x))
          (\<lambda>d. d\<lparr>opName := opName x, opEmail := opEmail x, opRole := opRole x, opIsActive := opIsActive x, opUpdatedAt := now\<rparr>) w)"

definition operator_Deactivate :: "('w, Operator) collection \<Rightarrow> int \<Rightarrow> string \<Rightarrow> 'w \<Rightarrow> gerr option \<times> 'w" where
  "operator_Deactivate c now i w =
     matched ''deactivate operator'' (ENotFound ''operator'' i)
       (coUpdateOne c (by_id i) (\<lambda>d. d\<lparr>opIsActive := False, opUpdatedAt := now\<rparr>) w)"

record AppToken =
  apID :: string
  apName :: string
  apHash :: string
  apRole :: string
  apCreatedAt :: int
  apExpiresAt :: "int option"
  apRevokedAt :: "int option"

definition token_IsActive :: "int \<Rightarrow> AppToken \<Rightarrow> bool" where
  "token_IsActive now t \<longleftrightarrow> apRevokedAt t = None \<and> (case apExpiresAt t of None \<Rightarrow> True | Some x \<Rightarrow> now < x)"

definition decode_token :: "AppToken doc \<Rightarrow> AppToken" where
  "decode_token x = (snd x)\<lparr>apID := id_text (fst x)\<rparr>"

definition token_conflict :: "AppToken \<Rightarrow> AppToken \<Rightarrow> bool" where
  "token_conflict a b \<longleftrightarrow> apHash a = apHash b"

definition token_Create :: "('w, AppToken) collection \<Rightarrow> AppToken \<Rightarrow> 'w \<Rightarrow> gerr option \<times> 'w" where
  "token_Create c t w = failing ''create app token'' (coInsert c (Some (StringID (apID t))) t w)"

definition token_FindByHash :: "('w, AppToken) collection \<Rightarrow> string \<Rightarrow> 'w \<Rightarrow> (gerr + AppToken) \<times> 'w" where
  "token_FindByHash c h w = found ''find app token'' (EPlain ''not found'') decode_token (coFindOne c (\<lambda>x. apHash (snd x) = h) w)"

definition token_List :: "('w, AppToken) collection \<Rightarrow> 'w \<Rightarrow> (gerr + AppToken list) \<times> 'w" where
  "token_List c w = decoded ''list app tokens'' (map decode_token) (coFind c (find_all (\<lambda>_. True)) w)"

definition token_Revoke :: "('w, AppToken) collection \<Rightarrow> int \<Rightarrow> string \<Rightarrow> 'w \<Rightarrow> gerr option \<times> 'w" where
  "token_Revoke c now i w =
     matched ''revoke app token'' (EPlain ''not found'') (coUpdateOne c (by_id i) (\<lambda>d. d\<lparr>apRevokedAt := Some now\<rparr>) w)"

section \<open>Laws\<close>

text \<open>What an aggregation gives.\<close>

fun stages_give :: "'d stage list \<Rightarrow> 'd doc list \<Rightarrow> 'd doc list \<Rightarrow> bool" where
  "stages_give [] xs ys \<longleftrightarrow> ys = xs"
| "stages_give (SortStage before # ss) xs ys \<longleftrightarrow>
     (\<exists>zs. mset zs = mset xs \<and> (sort_order before \<longrightarrow> sorted_wrt (\<lambda>a b. \<not> before b a) zs) \<and> stages_give ss zs ys)"
| "stages_give (LimitStage n # ss) xs ys \<longleftrightarrow> 0 < n \<and> stages_give ss (take (nat n) xs) ys"

definition aggregate_laws :: "('w, 'd) aggregation \<Rightarrow> ('w \<Rightarrow> 'd doc list) \<Rightarrow> bool" where
  "aggregate_laws agg docs \<longleftrightarrow>
     (\<forall>p ss w. docs (snd (agg p ss w)) = docs w)
     \<and> (\<forall>p ss w ys. fst (agg p ss w) = Inr ys \<longrightarrow> stages_give ss (filter p (docs w)) ys)"

lemma earlier_order: "sort_order earlier" "sort_order (\<lambda>a b. earlier b a)"
  by (auto simp: sort_order_def earlier_def)

text \<open>Lists in the order of strictly growing times are determined by their elements.\<close>

lemma strict_unique:
  assumes "sorted_wrt earlier xs" "sorted_wrt (\<lambda>a b. \<not> earlier b a) ys" "mset ys = mset xs"
  shows "ys = xs"
proof -
  let ?t = "\<lambda>x :: echo doc. ecTimestamp (snd x)"
  have s: "sorted_wrt (<) (map ?t xs)" using assms(1) by (simp add: sorted_wrt_map earlier_def [abs_def])
  then have d: "distinct (map ?t xs)" "sorted (map ?t xs)" by (simp_all add: strict_sorted_iff)
  have m: "mset (map ?t ys) = mset (map ?t xs)" using assms(3) by (metis mset_map)
  then have "distinct (map ?t ys)" using d(1) by (metis mset_eq_imp_distinct_iff)
  moreover have "sorted (map ?t ys)" using assms(2) by (simp add: sorted_wrt_map earlier_def [abs_def] not_less)
  moreover have "set ys = set xs" using assms(3) by (rule mset_eq_setD)
  moreover have "inj_on ?t (set ys \<union> set xs)" using d(1) \<open>set ys = set xs\<close> by (simp add: distinct_map)
  ultimately show ?thesis using d by (intro map_sorted_distinct_set_unique)
qed

text \<open>\<open>findRecent\<close> gives the newest messages, oldest first, when the messages came in order.\<close>

lemma findRecent_newest:
  assumes "aggregate_laws agg docs" "sorted_wrt earlier (filter p (docs w))" "echo_findRecent agg p n w = (Inr ms, w')"
  shows "ms = lastn (nat n) (map decode_echo (filter p (docs w)))"
proof -
  let ?xs = "filter p (docs w)"
  obtain ys where y: "agg p [SortStage (\<lambda>a b. earlier b a), LimitStage n, SortStage earlier] w = (Inr ys, w')" "ms = map decode_echo ys"
    using decoded_Inr [OF assms(3) [unfolded echo_findRecent_def]] by blast
  have "stages_give [SortStage (\<lambda>a b. earlier b a), LimitStage n, SortStage earlier] ?xs ys"
    using assms(1) y(1) unfolding aggregate_laws_def by (metis fst_conv)
  then obtain zs where z: "mset zs = mset ?xs" "sorted_wrt (\<lambda>a b. \<not> earlier a b) zs"
      "mset ys = mset (take (nat n) zs)" "sorted_wrt (\<lambda>a b. \<not> earlier b a) ys"
    using earlier_order by auto
  have "rev zs = ?xs"
    using strict_unique [OF assms(2), of "rev zs"] z(1,2) by (simp add: sorted_wrt_rev)
  then have zs: "zs = rev ?xs" by (metis rev_rev_ident)
  have t: "take (nat n) zs = rev (drop (length ?xs - nat n) ?xs)" by (simp add: zs take_rev)
  have "sorted_wrt earlier (drop (length ?xs - nat n) ?xs)" using assms(2) by (rule sorted_wrt_drop)
  from strict_unique [OF this z(4)] z(3) t have "ys = drop (length ?xs - nat n) ?xs" by simp
  then show ?thesis by (simp add: y(2) lastn_def drop_map)
qed

text \<open>The identifiers of messages are strings, so no cursor ever selects one.\<close>

lemma history_page_none:
  assumes "read_laws c docs" "\<forall>x \<in> set (docs w). \<exists>s. fst x = StringID s" "beforeID \<noteq> []"
    and "FindByMemoryKeyBefore c hexID mk beforeID limit w = (Inr ms, w')"
  shows "ms = []"
proof -
  let ?q = "\<lparr>quFilter = (\<lambda>x. said_to_user (\<lambda>m. ecMemoryKey m = mk) x \<and> (beforeID = [] \<or> before_object beforeID x)),
             quBefore = (\<lambda>a b :: echo doc. id_less (fst b) (fst a)), quSkip = 0, quLimit = page_limit (Some 100) limit\<rparr>"
  from assms(4) have "decoded ''find messages before cursor'' (map decode_echo) (coFind c ?q w) = (Inr ms, w')"
    by (simp add: FindByMemoryKeyBefore_def split: if_splits option.splits)
  from decoded_Inr [OF this] obtain xs where x: "coFind c ?q w = (Inr xs, w')" "ms = map decode_echo xs" by blast
  have "answers ?q (docs w) xs" using find_laws(2) [OF assms(1) x(1)] by simp
  from answers_subset [OF this] have "x \<in> set (docs w) \<and> before_object beforeID x" if "x \<in> set xs" for x
    using that assms(3) by simp
  moreover have "\<not> before_object beforeID x" if "x \<in> set (docs w)" for x
    using assms(2) that by (auto simp: before_object_def)
  ultimately have "set xs = {}" by (metis equals0I)
  then have "xs = []" by simp
  with x(2) show ?thesis by simp
qed

lemma Append_string_ids:
  assumes "write_laws conflict c docs" "\<And>w. docs (snd (newID w)) = docs w" "\<forall>x \<in> set (docs w). \<exists>s. fst x = StringID s"
  shows "\<forall>x \<in> set (docs (snd (echo_Append c newID now m w))). \<exists>s. fst x = StringID s"
proof -
  obtain i w1 where i: "(if ecID m = [] then newID w else (ecID m, w)) = (i, w1)"
    by (cases "if ecID m = [] then newID w else (ecID m, w)")
  have w1: "docs w1 = docs w" using i assms(2) [of w] by (auto split: if_splits)
  obtain e w2 where ins: "coInsert c (Some (StringID i)) (m\<lparr>ecID := i, ecTimestamp := now w1\<rparr>) w1 = (e, w2)"
    by (cases "coInsert c (Some (StringID i)) (m\<lparr>ecID := i, ecTimestamp := now w1\<rparr>) w1")
  have "\<forall>x \<in> set (docs w2). \<exists>s. fst x = StringID s"
    using insert_law [OF assms(1) ins] assms(3) w1 by (auto simp: inserted_def adds_one_def split: if_splits)
  then show ?thesis using assms(3) i ins by (auto simp: echo_Append_def Let_def split: prod.splits)
qed

text \<open>A decided request can be decided again.\<close>

lemma Decide_again:
  assumes "read_laws c docs" "write_laws conflict c docs" "rite_Decide c now i operator st w = (None, w')"
  shows "\<exists>r. map_of (docs w) (StringID i) = Some r
    \<and> map_of (docs w') (StringID i) = Some (r\<lparr>rtStatus := st, rtOperatorID := operator, rtDecidedAt := Some now\<rparr>)"
proof -
  let ?f = "\<lambda>r :: Rite. r\<lparr>rtStatus := st, rtOperatorID := operator, rtDecidedAt := Some now\<rparr>"
  obtain k m where u: "coUpdateOne c (by_id i) ?f w = (Inr (Suc k, m), w')"
    using assms(3) by (auto simp: rite_Decide_def split: prod.splits sum.splits nat.splits)
  from update_by_id [OF assms(1,2) u] show ?thesis by auto
qed

text \<open>The threshold of a budget cannot be set back to zero.\<close>

lemma set_budget_keeps:
  "tbAlertThreshold b = 0 \<Longrightarrow> tbAlertThreshold (set_budget b old) = tbAlertThreshold old"
  "\<not> tbDowngradeAtThreshold b \<Longrightarrow> tbDowngradeAtThreshold (set_budget b old) = tbDowngradeAtThreshold old"
  by (simp_all add: set_budget_def)

definition one_budget :: "budgetDocument doc list \<Rightarrow> bool" where
  "one_budget xs \<longleftrightarrow> distinct (map (fst \<circ> snd) xs)"

lemma budget_unique: "one_budget xs \<Longrightarrow> x \<in> set xs \<Longrightarrow> y \<in> set xs \<Longrightarrow> budget_of sn x \<Longrightarrow> budget_of sn y \<Longrightarrow> x = y"
  unfolding one_budget_def budget_of_def by (metis comp_apply distinct_map inj_onD)

lemma budget_set_read:
  assumes "read_laws c docs" "write_laws budget_conflict c docs" "one_budget (docs w)"
    and "x \<in> set (docs w)" "budget_of sn x"
    and "SetBudget c sn b w = (None, w1)" "GetBudget c sn w1 = (Inr got, w2)"
  shows "got = set_budget b (snd (snd x))"
proof -
  let ?f = "\<lambda>d :: budgetDocument. (sn, set_budget b (snd d))"
  obtain e w1' where u: "coUpsert c (budget_of sn) ?f None (sn, b) w = (e, w1')" by (cases "coUpsert c (budget_of sn) ?f None (sn, b) w")
  have e: "e = None" "w1' = w1" using assms(6) u by (simp_all add: SetBudget_def)
  have "\<exists>y \<in> set (docs w). budget_of sn y" using assms(4,5) by blast
  then have "changes_one (budget_of sn) ?f (docs w) (docs w1)"
    using upsert_law [OF assms(2) u] e by (simp add: upserted_def)
  then obtain as i d bs where s: "docs w = as @ (i, d) # bs" "budget_of sn (i, d)" "docs w1 = as @ (i, ?f d) # bs"
    unfolding changes_one_def by blast
  have x: "x = (i, d)" using budget_unique [OF assms(3,4) _ assms(5) s(2)] s(1) by simp
  have only: "\<not> budget_of sn y" if "y \<in> set as \<or> y \<in> set bs" for y
  proof
    assume y: "budget_of sn y"
    have "y = (i, d)" using budget_unique [OF assms(3) _ _ y s(2)] that s(1) by auto
    with that s(1) assms(3) show False by (auto simp: one_budget_def image_iff)
  qed
  obtain z w2' where f: "coFindOne c (budget_of sn) w1 = (z, w2')" by (cases "coFindOne c (budget_of sn) w1")
  note l = find_one_laws [OF assms(1) f]
  have "budget_of sn (i, ?f d)" by (simp add: budget_of_def)
  then have "z \<noteq> Inr None" using l(2) [of "(i, ?f d)"] s(3) by auto
  with assms(7) f obtain y where y: "z = Inr (Some y)" "got = snd (snd y)"
    by (cases z) (auto simp: GetBudget_def split: option.splits)
  have "y \<in> set (docs w1)" "budget_of sn y" using l(3) y(1) by auto
  with only [of y] s(3) have "y = (i, ?f d)" by (metis UnE insertE list.set(2) set_append)
  with y(2) x show ?thesis by simp
qed

text \<open>The cost step goes on with the threshold a budget was to lose.\<close>

lemma threshold_sticks:
  assumes "read_laws bc docs" "write_laws budget_conflict bc docs" "one_budget (docs w)"
    and "x \<in> set (docs w)" "budget_of sn x" "old = snd (snd x)" "tbDowngradeAtThreshold old" "0 < tbAlertThreshold old"
    and "SetBudget bc sn b w = (None, w1)" "tbAlertThreshold b = 0" "\<not> tbDowngradeAtThreshold b"
    and "GetBudget bc sn w1 = (Inr got, w2)" "ldMonthUsage (mongo_ledger ec bc month now) sn w2 = (Inr used, w3)"
    and "psSpirit ps = Some sp" "sName sp = sn" "used < tbMonthlyTokenLimit b" "0 < tbMonthlyTokenLimit b"
    and "tbAlertThreshold old \<le> of_int used / of_int (tbMonthlyTokenLimit b)" "smModel (tbDowngradeModel b) \<noteq> []"
  shows "\<exists>w4. CostEnforcementStep (mongo_ledger ec bc month now) hook (ps, w1) = Ret None (set_model (tbDowngradeModel b) ps, w4)"
proof -
  have g: "got = set_budget b old" unfolding assms(6) by (rule budget_set_read [OF assms(1-5,9,12)])
  have f: "tbAlertThreshold got = tbAlertThreshold old" "tbDowngradeAtThreshold got"
      "tbMonthlyTokenLimit got = tbMonthlyTokenLimit b" "tbDowngradeModel got = tbDowngradeModel b"
    using assms(7,10,11) by (simp_all add: g set_budget_def)
  have "CostEnforcementStep (mongo_ledger ec bc month now) hook (ps, w1)
      = Ret None (enforce_budget hook sn got used (ps, w3))"
    using assms(12-15,17) f(3) by (simp add: CostEnforcementStep_def mongo_ledger_def)
  moreover have "\<exists>w4. enforce_budget hook sn got used (ps, w3) = (set_model (tbDowngradeModel b) ps, w4)"
    using f assms(8,16,18,19) by (simp add: enforce_budget_def Let_def)
  ultimately show ?thesis by auto
qed

end
