(* ===== verification/MongoStores.thy ===== *)
theory MongoStores
  imports DocStore ConfigCache Config ReasonLoop
begin

text \<open>
  Stores of \<open>mongo/\<close> that hold the configuration and the state between requests: Links, the
  configuration of the Weave, the pins of handoffs and the checkpoints of turns. Each is a set of
  operations over a collection of \<open>DocStore\<close>.
\<close>

section \<open>Links\<close>

text \<open>The compiled guards are not stored. A slice that \<open>make\<close> gives is never nil.\<close>

record linkDocument =
  ldInboundConverterName :: string
  ldRequireScouts :: "string list"
  ldPathfinderName :: string
  ldAllowedSpirits :: "string list"
  ldDefaultSpirit :: string
  ldVoiceName :: string
  ldChannelName :: string
  ldIngestionTimeoutNs :: int
  ldProcessingTimeoutNs :: int
  ldGuards :: "Guard list"
  ldMetadata :: "gmap option"
  ldUpdatedAt :: int

definition linkToDocument :: "int \<Rightarrow> link \<Rightarrow> linkDocument" where
  "linkToDocument now l =
     \<lparr>ldInboundConverterName = lInboundConverterName l, ldRequireScouts = lRequireScouts l,
      ldPathfinderName = lPathfinderName l, ldAllowedSpirits = lAllowedSpirits l, ldDefaultSpirit = lDefaultSpirit l,
      ldVoiceName = lVoiceName l, ldChannelName = lChannelName l, ldIngestionTimeoutNs = lIngestionTimeout l,
      ldProcessingTimeoutNs = lProcessingTimeout l,
      ldGuards = map (\<lambda>g. \<lparr>gField = gField g, gBlockList = gBlockList g, gAllowList = gAllowList g\<rparr>) (lGuards l),
      ldMetadata = lMetadata l, ldUpdatedAt = now\<rparr>"

definition documentToLink :: "linkDocument doc \<Rightarrow> link" where
  "documentToLink x =
     (let d = snd x;
          gs = map (\<lambda>g. \<lparr>gField = gField g, gBlockList = gBlockList g, gAllowList = gAllowList g\<rparr>) (ldGuards d);
          l = link_Build (WithGuards gs (link_WithMetadata (ldMetadata d) (WithVoice (ldVoiceName d)
                (WithDefaultSpirit (ldDefaultSpirit d) (WithSpirits (ldAllowedSpirits d) (WithPathfinder (ldPathfinderName d)
                (WithScouts (ldRequireScouts d) (WithInboundConverter (ldInboundConverterName d) (NewLink (id_text (fst x)))))))))))
      in l\<lparr>lChannelName := ldChannelName d, lIngestionTimeout := ldIngestionTimeoutNs d,
            lProcessingTimeout := ldProcessingTimeoutNs d\<rparr>)"

definition sentinel_missing :: gerr where
  "sentinel_missing = EPlain ''not found''"

definition links_FindAll :: "('w, linkDocument) collection \<Rightarrow> 'w \<Rightarrow> (gerr + link list) \<times> 'w" where
  "links_FindAll c w = decoded ''find all links'' (map documentToLink) (coFind c (find_all (\<lambda>_. True)) w)"

definition links_FindByKey :: "('w, linkDocument) collection \<Rightarrow> string \<Rightarrow> 'w \<Rightarrow> (gerr + link) \<times> 'w" where
  "links_FindByKey c k w = found ''decode link'' sentinel_missing documentToLink (coFindOne c (by_id k) w)"

text \<open>\<open>ReplaceOne\<close> with upsert; the replacement carries its own \<open>_id\<close>.\<close>

definition links_Save :: "('w, linkDocument) collection \<Rightarrow> ('w \<Rightarrow> int) \<Rightarrow> link \<Rightarrow> 'w \<Rightarrow> gerr option \<times> 'w" where
  "links_Save c now l w =
     (let d = linkToDocument (now w) l
      in failing ''replace link'' (coUpsert c (by_id (lEventType l)) (\<lambda>_. d) (Some (StringID (lEventType l))) d w))"

definition links_Delete :: "('w, linkDocument) collection \<Rightarrow> string \<Rightarrow> 'w \<Rightarrow> gerr option \<times> 'w" where
  "links_Delete c k w = said ''delete link'' (coDeleteOne c (by_id k) w)"

definition mongo_links :: "('w, linkDocument) collection \<Rightarrow> ('w \<Rightarrow> int) \<Rightarrow> 'w link_repo" where
  "mongo_links c now =
     \<lparr>lrFindAll = links_FindAll c, lrFindByKey = links_FindByKey c, lrSave = links_Save c now, lrDelete = links_Delete c\<rparr>"

text \<open>A Link comes back as \<open>Build\<close> makes it.\<close>

lemma guard_copied: "\<lparr>gField = gField g, gBlockList = gBlockList g, gAllowList = gAllowList g\<rparr> = g"
  by simp

lemma link_roundtrip: "documentToLink (StringID (lEventType l), linkToDocument now l) = link_Build l"
  by (cases l) (simp add: guard_copied comp_def documentToLink_def linkToDocument_def link_Build_def WithGuards_def link_WithMetadata_def WithVoice_def
      WithDefaultSpirit_def WithSpirits_def WithPathfinder_def WithScouts_def WithInboundConverter_def NewLink_def Let_def)

definition mongo_link_view :: "('w \<Rightarrow> linkDocument doc list) \<Rightarrow> 'w \<Rightarrow> string \<Rightarrow> link option" where
  "mongo_link_view docs w k = map_option (\<lambda>d. documentToLink (StringID k, d)) (map_of (docs w) (StringID k))"

lemma mongo_link_laws:
  assumes "read_laws c docs" "write_laws conflict c docs"
  shows "lrSave (mongo_links c now) l w = (e, w') \<Longrightarrow>
      mongo_link_view docs w' = (if e = None then (mongo_link_view docs w)(lEventType l := Some (link_Build l)) else mongo_link_view docs w)"
    and "lrDelete (mongo_links c now) k w = (e, w') \<Longrightarrow>
      mongo_link_view docs w' = (if e = None then (mongo_link_view docs w)(k := None) else mongo_link_view docs w)"
    and "lrFindByKey (mongo_links c now) k w = (r, w') \<Longrightarrow> mongo_link_view docs w' = mongo_link_view docs w"
    and "lrFindByKey (mongo_links c now) k w = (Inr found_link, w') \<Longrightarrow> mongo_link_view docs w k = Some found_link"
proof -
  assume s: "lrSave (mongo_links c now) l w = (e, w')"
  let ?d = "linkToDocument (now w) l"
  obtain e1 w1 where u: "coUpsert c (by_id (lEventType l)) (\<lambda>_. ?d) (Some (StringID (lEventType l))) ?d w = (e1, w1)"
    by (cases "coUpsert c (by_id (lEventType l)) (\<lambda>_. ?d) (Some (StringID (lEventType l))) ?d w")
  have e: "w' = w1" "e = None \<longleftrightarrow> e1 = None" using s u by (auto simp: mongo_links_def links_Save_def Let_def)
  have "map_of (docs w1) = (if e1 = None then (map_of (docs w))(StringID (lEventType l) := Some ?d) else map_of (docs w))"
    using upsert_by_id [OF assms u] by (auto split: option.splits)
  then show "mongo_link_view docs w' = (if e = None then (mongo_link_view docs w)(lEventType l := Some (link_Build l)) else mongo_link_view docs w)"
    using e link_roundtrip [of l "now w"] by (auto simp: mongo_link_view_def fun_eq_iff)
next
  assume s: "lrDelete (mongo_links c now) k w = (e, w')"
  obtain r w1 where d: "coDeleteOne c (by_id k) w = (r, w1)" by (cases "coDeleteOne c (by_id k) w")
  have "w' = w1" "e = None \<longleftrightarrow> (\<exists>n. r = Inr n)" using s d by (cases r; auto simp: mongo_links_def links_Delete_def)+
  then show "mongo_link_view docs w' = (if e = None then (mongo_link_view docs w)(k := None) else mongo_link_view docs w)"
    using delete_by_id [OF assms d] by (cases r) (auto simp: mongo_link_view_def fun_eq_iff)
next
  obtain y w1 where f: "coFindOne c (by_id k) w = (y, w1)" by (cases "coFindOne c (by_id k) w")
  note l = find_by_id [OF assms(1) f]
  have world: "w' = w1" if "lrFindByKey (mongo_links c now) k w = (r, w')" for r
    using that f found_world [of "''decode link''" sentinel_missing documentToLink "(y, w1)"]
    by (simp add: mongo_links_def links_FindByKey_def)
  show "mongo_link_view docs w' = mongo_link_view docs w" if "lrFindByKey (mongo_links c now) k w = (r, w')"
    using world [OF that] l(1) by (simp add: mongo_link_view_def fun_eq_iff)
  assume "lrFindByKey (mongo_links c now) k w = (Inr found_link, w')"
  then have "found ''decode link'' sentinel_missing documentToLink (y, w1) = (Inr found_link, w')"
    using f by (simp add: mongo_links_def links_FindByKey_def)
  from found_Inr [OF this] obtain x where "y = Inr (Some x)" "found_link = documentToLink x" by blast
  with l(2,3) show "mongo_link_view docs w k = Some found_link" by (cases x) (auto simp: mongo_link_view_def)
qed

section \<open>The configuration\<close>

record weaveConfigDocument =
  wdLockTTLNs :: int
  wdLockAcquireTimeoutNs :: int
  wdScoutTimeoutNs :: int
  wdSpiritSelectionTimeoutNs :: int
  wdSpiritLoadTimeoutNs :: int
  wdSessionTimeoutNs :: int
  wdReasoningTimeoutNs :: int
  wdPersistenceTimeoutNs :: int
  wdMaxReasoningIterations :: int
  wdMaxMemoryMessages :: int
  wdMaxIterationsMessage :: string
  wdEnableMemoryReconstruction :: bool
  wdMemoryReconstructionLimit :: int
  wdParallelActionExecution :: bool
  wdActionRetryMaxAttempts :: int
  wdActionRetryBaseDelayNs :: int
  wdMaxActionsPerCycle :: int
  wdInboxMinWindowNs :: int
  wdMessageCoalescingTimeoutNs :: int
  wdMaxSessionKeyLength :: int
  wdMaxUserMessageLength :: int
  wdMaxEventContextSize :: int
  wdPromptInjectionDetection :: bool
  wdMaxLineCount :: int
  wdUpdatedAt :: int

definition configToDocument :: "int \<Rightarrow> WeaveConfig \<Rightarrow> weaveConfigDocument" where
  "configToDocument now c =
     \<lparr>wdLockTTLNs = wcLockTTL c, wdLockAcquireTimeoutNs = wcLockAcquireTimeout c, wdScoutTimeoutNs = wcScoutTimeout c,
      wdSpiritSelectionTimeoutNs = wcSpiritSelectionTimeout c, wdSpiritLoadTimeoutNs = wcSpiritLoadTimeout c,
      wdSessionTimeoutNs = wcSessionTimeout c, wdReasoningTimeoutNs = wcReasoningTimeout c,
      wdPersistenceTimeoutNs = wcPersistenceTimeout c, wdMaxReasoningIterations = wcMaxReasoningIterations c,
      wdMaxMemoryMessages = wcMaxMemoryMessages c, wdMaxIterationsMessage = wcMaxIterationsMessage c,
      wdEnableMemoryReconstruction = wcEnableMemoryReconstruction c,
      wdMemoryReconstructionLimit = wcMemoryReconstructionLimit c, wdParallelActionExecution = wcParallelActionExecution c,
      wdActionRetryMaxAttempts = wcActionRetryMaxAttempts c, wdActionRetryBaseDelayNs = wcActionRetryBaseDelay c,
      wdMaxActionsPerCycle = wcMaxActionsPerCycle c, wdInboxMinWindowNs = wcInboxMinWindow c,
      wdMessageCoalescingTimeoutNs = wcMessageCoalescingTimeout c, wdMaxSessionKeyLength = wcMaxSessionKeyLength c,
      wdMaxUserMessageLength = wcMaxUserMessageLength c, wdMaxEventContextSize = wcMaxEventContextSize c,
      wdPromptInjectionDetection = gcPromptInjectionDetection (wcInputGuard c),
      wdMaxLineCount = gcMaxLineCount (wcInputGuard c), wdUpdatedAt = now\<rparr>"

text \<open>The fields without a place in the document have their zero values.\<close>

definition documentToConfig :: "weaveConfigDocument doc \<Rightarrow> WeaveConfig" where
  "documentToConfig x =
     (let d = snd x
      in \<lparr>wcLockTTL = wdLockTTLNs d, wcLockAcquireTimeout = wdLockAcquireTimeoutNs d, wcScoutTimeout = wdScoutTimeoutNs d,
          wcSpiritSelectionTimeout = wdSpiritSelectionTimeoutNs d, wcSpiritLoadTimeout = wdSpiritLoadTimeoutNs d,
          wcSessionTimeout = wdSessionTimeoutNs d, wcReasoningTimeout = wdReasoningTimeoutNs d,
          wcPersistenceTimeout = wdPersistenceTimeoutNs d, wcMaxReasoningIterations = wdMaxReasoningIterations d,
          wcMaxMemoryMessages = wdMaxMemoryMessages d, wcMaxIterationsMessage = wdMaxIterationsMessage d,
          wcEnableMemoryReconstruction = wdEnableMemoryReconstruction d,
          wcMemoryReconstructionLimit = wdMemoryReconstructionLimit d,
          wcParallelActionExecution = wdParallelActionExecution d, wcActionRetryMaxAttempts = wdActionRetryMaxAttempts d,
          wcActionRetryBaseDelay = wdActionRetryBaseDelayNs d, wcMaxActionsPerCycle = wdMaxActionsPerCycle d,
          wcInputGuard = \<lparr>gcPromptInjectionDetection = wdPromptInjectionDetection d, gcMaxLineCount = wdMaxLineCount d\<rparr>,
          wcOutputGuard = wcOutputGuard DefaultWeaveConfig, wcToolResultLimits = wcToolResultLimits DefaultWeaveConfig,
          wcProgressPolicy = wcProgressPolicy DefaultWeaveConfig, wcCompressionPolicy = wcCompressionPolicy DefaultWeaveConfig,
          wcReflectionPolicy = wcReflectionPolicy DefaultWeaveConfig, wcGroundingPolicy = wcGroundingPolicy DefaultWeaveConfig,
          wcPlanPolicy = wcPlanPolicy DefaultWeaveConfig, wcHandoffPolicy = wcHandoffPolicy DefaultWeaveConfig,
          wcInboxMinWindow = wdInboxMinWindowNs d, wcMessageCoalescingTimeout = wdMessageCoalescingTimeoutNs d,
          wcIdempotencyTTL = 0, wcMaxSessionKeyLength = wdMaxSessionKeyLength d,
          wcMaxUserMessageLength = wdMaxUserMessageLength d, wcMaxEventContextSize = wdMaxEventContextSize d,
          wcMaxConcurrentEvents = 0\<rparr>)"

definition config_Find :: "('w, weaveConfigDocument) collection \<Rightarrow> 'w \<Rightarrow> (gerr + WeaveConfig) \<times> 'w" where
  "config_Find c w =
     (case coFindOne c (by_id ''default'') w of
        (Inr None, w1) \<Rightarrow> (Inr DefaultWeaveConfig, w1)
      | (Inr (Some x), w1) \<Rightarrow> (Inr (documentToConfig x), w1)
      | (Inl e, w1) \<Rightarrow> (Inl (EWrap ''decode weave config'' e), w1))"

definition config_Save :: "('w, weaveConfigDocument) collection \<Rightarrow> int \<Rightarrow> WeaveConfig \<Rightarrow> 'w \<Rightarrow> gerr option \<times> 'w" where
  "config_Save c now cfg w =
     failing ''replace weave config''
       (coUpsert c (by_id ''default'') (\<lambda>_. configToDocument now cfg) (Some (StringID ''default'')) (configToDocument now cfg) w)"

text \<open>What survives a save, and what does not.\<close>

lemma config_roundtrip:
  "documentToConfig (i, configToDocument now c)
     = c\<lparr>wcOutputGuard := wcOutputGuard DefaultWeaveConfig, wcToolResultLimits := wcToolResultLimits DefaultWeaveConfig,
         wcProgressPolicy := wcProgressPolicy DefaultWeaveConfig, wcCompressionPolicy := wcCompressionPolicy DefaultWeaveConfig,
         wcReflectionPolicy := wcReflectionPolicy DefaultWeaveConfig, wcGroundingPolicy := wcGroundingPolicy DefaultWeaveConfig,
         wcPlanPolicy := wcPlanPolicy DefaultWeaveConfig, wcHandoffPolicy := wcHandoffPolicy DefaultWeaveConfig,
         wcIdempotencyTTL := 0, wcMaxConcurrentEvents := 0\<rparr>"
  by (simp add: documentToConfig_def configToDocument_def)

text \<open>A configuration that is valid stays valid in the store.\<close>

lemma saved_config_valid:
  "WeaveConfig_Validate dur compile c = None \<Longrightarrow> WeaveConfig_Validate dur compile (documentToConfig (i, configToDocument now c)) = None"
  by (simp add: config_roundtrip WeaveConfig_Validate_None DefaultWeaveConfig_def)

lemma config_Find_guard: "config_Find c w = (Inr cfg, w') \<Longrightarrow> wcOutputGuard cfg = wcOutputGuard DefaultWeaveConfig"
  by (auto simp: config_Find_def documentToConfig_def split: prod.splits sum.splits option.splits)

lemma config_found_after_save:
  assumes "read_laws c docs" "write_laws conflict c docs" "config_Save c now cfg w = (None, w1)" "config_Find c w1 = (Inr back, w2)"
  shows "back = documentToConfig (StringID ''default'', configToDocument now cfg)"
proof -
  let ?d = "configToDocument now cfg"
  obtain e w1' where u: "coUpsert c (by_id ''default'') (\<lambda>_. ?d) (Some (StringID ''default'')) ?d w = (e, w1')"
    by (cases "coUpsert c (by_id ''default'') (\<lambda>_. ?d) (Some (StringID ''default'')) ?d w")
  have e: "e = None" "w1' = w1" using assms(3) u by (simp_all add: config_Save_def)
  have m: "map_of (docs w1) (StringID ''default'') = Some ?d"
    using upsert_by_id [OF assms(1,2) u] e by (simp split: option.splits)
  obtain y w2' where f: "coFindOne c (by_id ''default'') w1 = (y, w2')" by (cases "coFindOne c (by_id ''default'') w1")
  note l = find_by_id [OF assms(1) f]
  from assms(4) f l(2) m obtain x where y: "y = Inr (Some x)"
    by (auto simp: config_Find_def split: sum.splits option.splits)
  with l m have "x = (StringID ''default'', ?d)" by (cases x) auto
  with assms(4) f y show ?thesis by (simp add: config_Find_def)
qed

section \<open>Pins of handoffs\<close>

text \<open>The document of a session, by its unique \<open>session_key\<close>; the driver makes its \<open>_id\<close>.\<close>

record handoffDoc =
  hfSessionKey :: string
  hfSpiritName :: string
  hfUpdatedAt :: int

definition of_session :: "string \<Rightarrow> handoffDoc doc \<Rightarrow> bool" where
  "of_session k x \<longleftrightarrow> hfSessionKey (snd x) = k"

definition session_conflict :: "handoffDoc \<Rightarrow> handoffDoc \<Rightarrow> bool" where
  "session_conflict a b \<longleftrightarrow> hfSessionKey a = hfSessionKey b"

definition mongo_GetActiveSpirit :: "('w, handoffDoc) collection \<Rightarrow> string \<Rightarrow> 'w \<Rightarrow> (gerr + string) \<times> 'w" where
  "mongo_GetActiveSpirit c k w =
     (case coFindOne c (of_session k) w of
        (Inr None, w1) \<Rightarrow> (Inr [], w1)
      | (Inr (Some x), w1) \<Rightarrow> (Inr (hfSpiritName (snd x)), w1)
      | (Inl e, w1) \<Rightarrow> (Inl (EWrap ''handoff find'' e), w1))"

definition mongo_SetActiveSpirit :: "('w, handoffDoc) collection \<Rightarrow> int \<Rightarrow> string \<Rightarrow> string \<Rightarrow> 'w \<Rightarrow> gerr option \<times> 'w" where
  "mongo_SetActiveSpirit c now k n w =
     failing ''handoff upsert''
       (coUpsert c (of_session k) (\<lambda>d. d\<lparr>hfSpiritName := n, hfUpdatedAt := now\<rparr>) None
         \<lparr>hfSessionKey = k, hfSpiritName = n, hfUpdatedAt = now\<rparr> w)"

definition mongo_ClearActiveSpirit :: "('w, handoffDoc) collection \<Rightarrow> string \<Rightarrow> 'w \<Rightarrow> gerr option \<times> 'w" where
  "mongo_ClearActiveSpirit c k w = said ''handoff delete'' (coDeleteOne c (of_session k) w)"

text \<open>The pins as a function, as long as the index holds.\<close>

definition mongo_pin :: "handoffDoc doc list \<Rightarrow> string \<Rightarrow> string" where
  "mongo_pin xs k = (case List.find (of_session k) xs of None \<Rightarrow> [] | Some x \<Rightarrow> hfSpiritName (snd x))"

definition one_pin :: "handoffDoc doc list \<Rightarrow> bool" where
  "one_pin xs \<longleftrightarrow> distinct (map (hfSessionKey \<circ> snd) xs)"

lemma pin_of: "one_pin xs \<Longrightarrow> x \<in> set xs \<Longrightarrow> of_session k x \<Longrightarrow> mongo_pin xs k = hfSpiritName (snd x)"
  unfolding one_pin_def
proof (induction xs)
  case (Cons y ys)
  show ?case
  proof (cases "of_session k y")
    case True
    then have "x = y" using Cons.prems by (auto simp: of_session_def image_iff)
    with True show ?thesis by (simp add: mongo_pin_def)
  next
    case False
    with Cons show ?thesis by (auto simp: mongo_pin_def)
  qed
qed simp

lemma pin_none: "\<forall>x \<in> set xs. \<not> of_session k x \<Longrightarrow> mongo_pin xs k = []"
  unfolding mongo_pin_def by (metis find_None_iff option.case(1))

lemma pin_append: "mongo_pin (xs @ ys) k = (if \<exists>x \<in> set xs. of_session k x then mongo_pin xs k else mongo_pin ys k)"
  by (induction xs) (auto simp: mongo_pin_def)

lemma pin_cons: "mongo_pin (x # xs) k = (if of_session k x then hfSpiritName (snd x) else mongo_pin xs k)"
  by (simp add: mongo_pin_def)

lemma pin_set_law:
  assumes "write_laws session_conflict c docs" "one_pin (docs w)" "mongo_SetActiveSpirit c now k n w = (e, w')"
  shows "one_pin (docs w')" "mongo_pin (docs w') = (if e = None then (mongo_pin (docs w))(k := n) else mongo_pin (docs w))"
proof -
  let ?f = "\<lambda>d. d\<lparr>hfSpiritName := n, hfUpdatedAt := now\<rparr>" and ?d = "\<lparr>hfSessionKey = k, hfSpiritName = n, hfUpdatedAt = now\<rparr>"
  obtain e1 w1 where u: "coUpsert c (of_session k) ?f None ?d w = (e1, w1)" by (cases "coUpsert c (of_session k) ?f None ?d w")
  have e: "w' = w1" "e = None \<longleftrightarrow> e1 = None" using assms(3) u by (auto simp: mongo_SetActiveSpirit_def)
  have l: "upserted session_conflict (of_session k) ?f None ?d (docs w) e1 (docs w1)" by (rule upsert_law [OF assms(1) u])
  have "one_pin (docs w1) \<and> mongo_pin (docs w1) = (if e1 = None then (mongo_pin (docs w))(k := n) else mongo_pin (docs w))"
  proof (cases "e1 = None")
    case True
    show ?thesis
    proof (cases "\<exists>x \<in> set (docs w). of_session k x")
      case hit: True
      with l True obtain as i d bs where s: "docs w = as @ (i, d) # bs" "of_session k (i, d)" "docs w1 = as @ (i, ?f d) # bs"
        by (auto simp: upserted_def changes_one_def)
      have "\<not> (\<exists>x \<in> set as. of_session k x)"
        using assms(2) s(1,2) by (auto simp: one_pin_def of_session_def image_iff)
      then show ?thesis using s assms(2) True
        by (auto simp: one_pin_def pin_append pin_cons of_session_def fun_eq_iff)
    next
      case miss: False
      with l True obtain i where s: "docs w1 = docs w @ [(i, ?d)]" "\<forall>x \<in> set (docs w). \<not> session_conflict (snd x) ?d"
        by (auto simp: upserted_def adds_one_def)
      have "mongo_pin (docs w1) j = (if j = k then n else mongo_pin (docs w) j)" for j
      proof (cases "\<exists>x \<in> set (docs w). of_session j x")
        case False
        then have "mongo_pin (docs w) j = []" by (intro pin_none) blast
        with False show ?thesis by (simp add: s(1) pin_append pin_cons of_session_def) (simp add: mongo_pin_def)
      qed (use miss in \<open>auto simp: s(1) pin_append\<close>)
      then have "mongo_pin (docs w1) = (mongo_pin (docs w))(k := n)" by (simp add: fun_eq_iff)
      then show ?thesis using s assms(2) True by (auto simp: one_pin_def session_conflict_def image_iff)
    qed
  qed (use l assms(2) in \<open>auto simp: upserted_def\<close>)
  with e show "one_pin (docs w')" "mongo_pin (docs w') = (if e = None then (mongo_pin (docs w))(k := n) else mongo_pin (docs w))"
    by simp_all
qed

lemma pin_clear_law:
  assumes "write_laws session_conflict c docs" "one_pin (docs w)" "mongo_ClearActiveSpirit c k w = (e, w')"
  shows "one_pin (docs w')" "mongo_pin (docs w') = (if e = None then (mongo_pin (docs w))(k := []) else mongo_pin (docs w))"
proof -
  obtain r w1 where d: "coDeleteOne c (of_session k) w = (r, w1)" by (cases "coDeleteOne c (of_session k) w")
  have e: "w' = w1" "e = None \<longleftrightarrow> (\<exists>n. r = Inr n)" using assms(3) d by (cases r; auto simp: mongo_ClearActiveSpirit_def)+
  have l: "deleted_one (of_session k) (docs w) r (docs w1)" by (rule delete_one_law [OF assms(1) d])
  have "one_pin (docs w1) \<and> mongo_pin (docs w1) = (if \<exists>n. r = Inr n then (mongo_pin (docs w))(k := []) else mongo_pin (docs w))"
  proof (cases r)
    case (Inr n)
    show ?thesis
    proof (cases n)
      case 0
      with l Inr have "docs w1 = docs w" "\<forall>x \<in> set (docs w). \<not> of_session k x" by (auto simp: deleted_one_def)
      with Inr assms(2) pin_none show ?thesis by (auto simp: fun_eq_iff)
    next
      case (Suc m)
      with l Inr obtain as x bs where s: "docs w = as @ x # bs" "of_session k x" "docs w1 = as @ bs"
        by (auto simp: deleted_one_def)
      have "\<forall>y \<in> set (as @ bs). \<not> of_session k y"
        using assms(2) s(1,2) by (auto simp: one_pin_def of_session_def image_iff)
      then have "mongo_pin (docs w1) k = []" unfolding s(3) by (rule pin_none)
      moreover have "mongo_pin (docs w1) j = mongo_pin (docs w) j" if "j \<noteq> k" for j
        using that s(2) by (simp add: s(1,3) pin_append pin_cons of_session_def)
      ultimately have "mongo_pin (docs w1) = (mongo_pin (docs w))(k := [])" by (simp add: fun_eq_iff)
      then show ?thesis using Inr s assms(2) by (auto simp: one_pin_def)
    qed
  qed (use l assms(2) in \<open>simp add: deleted_one_def\<close>)
  with e show "one_pin (docs w')" "mongo_pin (docs w') = (if e = None then (mongo_pin (docs w))(k := []) else mongo_pin (docs w))"
    by simp_all
qed

lemma pin_get_law:
  assumes "read_laws c docs" "one_pin (docs w)" "mongo_GetActiveSpirit c k w = (r, w')"
  shows "docs w' = docs w" "r = Inr n \<Longrightarrow> n = mongo_pin (docs w) k"
proof -
  obtain y w1 where f: "coFindOne c (of_session k) w = (y, w1)" by (cases "coFindOne c (of_session k) w")
  note l = find_one_laws [OF assms(1) f]
  have w: "w' = w1" using assms(3) f by (auto simp: mongo_GetActiveSpirit_def split: sum.splits option.splits)
  with l(1) show "docs w' = docs w" by simp
  assume "r = Inr n"
  with assms(3) f consider "y = Inr None" "n = []" | x where "y = Inr (Some x)" "n = hfSpiritName (snd x)"
    by (auto simp: mongo_GetActiveSpirit_def split: sum.splits option.splits)
  then show "n = mongo_pin (docs w) k"
  proof cases
    case 1
    then have "\<forall>x \<in> set (docs w). \<not> of_session k x" using l(2) by blast
    with 1 show ?thesis by (simp add: pin_none)
  next
    case 2
    with l(3) pin_of [OF assms(2)] show ?thesis by metis
  qed
qed

section \<open>Checkpoints\<close>

record checkpointDocument =
  cdData :: string
  cdExpiresAt :: int
  cdUpdatedAt :: int

definition defaultCheckpointTTL :: int where
  "defaultCheckpointTTL = 24 * 3600 * time_second"

definition checkpoint_ttl :: "int \<Rightarrow> int" where
  "checkpoint_ttl ttl = (if ttl \<le> 0 then defaultCheckpointTTL else ttl)"

definition checkpoint_Save ::
  "('w, checkpointDocument) collection \<Rightarrow> int \<Rightarrow> ('w \<Rightarrow> int) \<Rightarrow> string \<Rightarrow> string \<Rightarrow> 'w \<Rightarrow> gerr option \<times> 'w" where
  "checkpoint_Save c ttl now i data w =
     (let d = \<lparr>cdData = data, cdExpiresAt = now w + ttl, cdUpdatedAt = now w\<rparr>
      in failing ''checkpoint save'' (coUpsert c (by_id i) (\<lambda>_. d) (Some (StringID i)) d w))"

definition checkpoint_Load :: "('w, checkpointDocument) collection \<Rightarrow> string \<Rightarrow> 'w \<Rightarrow> (gerr + string option) \<times> 'w" where
  "checkpoint_Load c i w =
     (case coFindOne c (by_id i) w of
        (Inl e, w1) \<Rightarrow> (Inl (EWrap ''checkpoint load'' e), w1)
      | (Inr y, w1) \<Rightarrow> (Inr (map_option (cdData \<circ> snd) y), w1))"

definition checkpoint_Delete :: "('w, checkpointDocument) collection \<Rightarrow> string \<Rightarrow> 'w \<Rightarrow> gerr option \<times> 'w" where
  "checkpoint_Delete c i w = said ''checkpoint delete'' (coDeleteOne c (by_id i) w)"

definition NewCheckpointStoreWithTTL :: "('w, checkpointDocument) collection \<Rightarrow> int \<Rightarrow> ('w \<Rightarrow> int) \<Rightarrow> 'w checkpoint_store" where
  "NewCheckpointStoreWithTTL c ttl now =
     \<lparr>ckSave = checkpoint_Save c (checkpoint_ttl ttl) now, ckLoad = checkpoint_Load c, ckDelete = checkpoint_Delete c\<rparr>"

definition NewCheckpointStore :: "('w, checkpointDocument) collection \<Rightarrow> ('w \<Rightarrow> int) \<Rightarrow> 'w checkpoint_store" where
  "NewCheckpointStore c = NewCheckpointStoreWithTTL c defaultCheckpointTTL"

text \<open>What was saved is loaded, until it is deleted.\<close>

lemma checkpoint_saved_loaded:
  assumes "read_laws c docs" "write_laws conflict c docs"
    and "ckSave (NewCheckpointStoreWithTTL c ttl now) i data w = (None, w1)"
    and "ckLoad (NewCheckpointStoreWithTTL c ttl now) i w1 = (Inr y, w2)"
  shows "y = Some data"
proof -
  let ?d = "\<lparr>cdData = data, cdExpiresAt = now w + checkpoint_ttl ttl, cdUpdatedAt = now w\<rparr>"
  obtain e w1' where u: "coUpsert c (by_id i) (\<lambda>_. ?d) (Some (StringID i)) ?d w = (e, w1')"
    by (cases "coUpsert c (by_id i) (\<lambda>_. ?d) (Some (StringID i)) ?d w")
  have e: "e = None" "w1' = w1" using assms(3) u by (simp_all add: NewCheckpointStoreWithTTL_def checkpoint_Save_def)
  have m: "map_of (docs w1) (StringID i) = Some ?d"
    using upsert_by_id [OF assms(1,2) u] e by (simp split: option.splits)
  obtain z w2' where f: "coFindOne c (by_id i) w1 = (z, w2')" by (cases "coFindOne c (by_id i) w1")
  from assms(4) f obtain z' where z: "z = Inr z'" "y = map_option (cdData \<circ> snd) z'"
    by (cases z) (auto simp: NewCheckpointStoreWithTTL_def checkpoint_Load_def)
  with find_by_id(2) [OF assms(1) f z(1)] m show ?thesis by (cases z') auto
qed

lemma checkpoint_deleted_gone:
  assumes "read_laws c docs" "write_laws conflict c docs"
    and "checkpoint_Delete c i w = (None, w1)" "checkpoint_Load c i w1 = (Inr y, w2)"
  shows "y = None"
proof -
  obtain r w1' where d: "coDeleteOne c (by_id i) w = (r, w1')" by (cases "coDeleteOne c (by_id i) w")
  with assms(3) obtain n where r: "r = Inr n" "w1' = w1" by (cases r) (auto simp: checkpoint_Delete_def)
  with delete_by_id [OF assms(1,2) d] have m: "map_of (docs w1) (StringID i) = None" by simp
  obtain z w2' where f: "coFindOne c (by_id i) w1 = (z, w2')" by (cases "coFindOne c (by_id i) w1")
  from assms(4) f obtain z' where z: "z = Inr z'" "y = map_option (cdData \<circ> snd) z'"
    by (cases z) (auto simp: checkpoint_Load_def)
  with find_by_id(2) [OF assms(1) f z(1)] m show ?thesis by simp
qed

end
