(* ===== verification/DemoMongo.thy ===== *)
theory DemoMongo
  imports DemoStore SpiritLaws MongoRituals DemoRitual HttpTools MongoRecords MongoStores DemoBuilder
begin

text \<open>
  The adapters of \<open>mongo/\<close> on the collection in memory of \<open>DemoStore\<close>: a Spirit with two versions,
  and the service of scheduled tasks with its repository.
\<close>

section \<open>Spirits\<close>

definition mem_spirits :: "versioned_spirit doc list spirits" where
  "mem_spirits = mem_store version_conflict"

definition mem_bot :: versioned_spirit where
  "mem_bot = spirit.extend (zero_spirit\<lparr>sID := ''u1'', sName := ''bot'', sSystemPrompt := ''hi''\<rparr>)
     \<lparr>vsActive = True, vsDeleted = False, vsCreatedAt = 0, vsUpdatedAt = None, vsUpdatedBy = [], vsDeletedAt = None,
      vsDeletedBy = [], vsDeactivatedAt = None, vsChangeLog = []\<rparr>"

lemma mem_spirit_laws: "spirit_store_laws mem_spirits AList.clearjunk"
  unfolding spirit_store_laws_def mem_spirits_def by (intro conjI mem_reads mem_writes mem_transactions)

lemma mem_reliable: "reliable mem_spirits"
  by (auto simp: reliable_def mem_spirits_def mem_store_def split: option.split)

lemma empty_inv: "spirit_inv (AList.clearjunk [])"
  by (simp add: spirit_inv_def one_active_def actives_def versioned_def)

text \<open>Two versions, the second active; then the first activated again.\<close>

definition two_versions :: "spirit_op list" where
  "two_versions = [OpCreateSpirit 10 mem_bot, OpUpdateSpirit 20 ''bot'' (mem_bot\<lparr>sSystemPrompt := ''hello''\<rparr>) ''tone'']"

definition rolled_back :: "versioned_spirit doc list" where
  "rolled_back = fold (spirit_exec mem_spirits) (two_versions @ [OpActivate ''bot'' 1]) []"

definition shown :: "versioned_spirit doc list \<Rightarrow> (doc_id \<times> string \<times> int \<times> string \<times> bool) list" where
  "shown xs = map (\<lambda>x. (fst x, sName (snd x), sVersion (snd x), sSystemPrompt (snd x), vsActive (snd x))) xs"

lemma two_versions_shown:
  "shown (fold (spirit_exec mem_spirits) two_versions [])
     = [(StringID ''u1'', ''bot'', 1, ''hi'', False), (ObjectID ''000'', ''bot'', 2, ''hello'', True)]"
  by code_simp

lemma rolled_back_shown:
  "shown (AList.clearjunk rolled_back)
     = [(StringID ''u1'', ''bot'', 1, ''hi'', True), (ObjectID ''000'', ''bot'', 2, ''hello'', False)]"
  by code_simp

text \<open>The first version, updated and read back.\<close>

definition mem_created :: "versioned_spirit doc list" where
  "mem_created = spirit_exec mem_spirits (OpCreateSpirit 10 mem_bot) []"

lemma mem_created_inv: "spirit_inv (AList.clearjunk mem_created)"
  using spirit_runs_good [OF mem_spirit_laws, of "[]" "[OpCreateSpirit 10 mem_bot]"] empty_inv
  by (simp add: good_def mem_created_def)

lemma mem_update_result:
  "case spirit_Update mem_spirits 20 ''bot'' mem_bot ''tone'' mem_created of (Inl _, _) \<Rightarrow> False
   | (Inr new, w1) \<Rightarrow> (case FindActiveByName mem_spirits ''bot'' w1 of (Inl _, _) \<Rightarrow> False
      | (Inr cur, w2) \<Rightarrow> sID cur = ''000'' \<and> \<not> list_ex (\<lambda>x. fst x = StringID (sID cur)) (AList.clearjunk w2))"
  by code_simp

lemma mem_updated_cur:
  obtains new w1 cur w2 where "spirit_Update mem_spirits 20 ''bot'' mem_bot ''tone'' mem_created = (Inr new, w1)"
    "FindActiveByName mem_spirits ''bot'' w1 = (Inr cur, w2)" "sID cur = ''000''"
    "StringID (sID cur) \<notin> fst ` set (AList.clearjunk w2)"
proof -
  obtain r w1 where u: "spirit_Update mem_spirits 20 ''bot'' mem_bot ''tone'' mem_created = (r, w1)" by (rule prod.exhaust)
  obtain new where r: "r = Inr new" using mem_update_result unfolding u by (cases r) simp_all
  obtain r2 w2 where f: "FindActiveByName mem_spirits ''bot'' w1 = (r2, w2)" by (rule prod.exhaust)
  obtain cur where r2: "r2 = Inr cur" using mem_update_result unfolding u r prod.case sum.case f by (cases r2) simp_all
  have c: "sID cur = ''000'' \<and> \<not> list_ex (\<lambda>x. fst x = StringID (sID cur)) (AList.clearjunk w2)"
    using mem_update_result unfolding u r prod.case sum.case f r2 .
  then have "StringID (sID cur) \<notin> fst ` set (AList.clearjunk w2)" unfolding list_ex_iff image_iff by (metis)
  with u f r r2 c that show thesis by blast
qed

section \<open>Scheduled tasks\<close>

definition mem_task_store :: "(Ritual doc list, Ritual) collection" where
  "mem_task_store = mem_store (\<lambda>_ _. False)"

definition mem_new_id :: "Ritual doc list \<Rightarrow> string \<times> Ritual doc list" where
  "mem_new_id w = (replicate (Suc (sum_list (map (length \<circ> id_text \<circ> fst) w))) (CHR ''r''), w)"

definition mem_service :: "Ritual doc list ritual_service" where
  "mem_service =
     \<lparr>rsRepo = mongo_rituals mem_new_id mem_task_store,
      rsKeeper = \<lparr>kpSchedule = (\<lambda>k e x w. (Inr ''cloud'', w)), kpCancel = (\<lambda>i w. (None, w))\<rparr>,
      rsNow = (\<lambda>w. 1000), rsNewID = mem_new_id, rsLocation = (\<lambda>z. None), rsCron = (\<lambda>e. Inr (\<lambda>z t. t + 60000))\<rparr>"

lemma mem_id_unused: "map_of w (StringID (fst (mem_new_id w))) = None"
proof -
  have "length (id_text k) \<le> sum_list (map (length \<circ> id_text \<circ> fst) w)" if "(k, t) \<in> set w" for k t
    using member_le_sum_list [of "length (id_text k)" "map (length \<circ> id_text \<circ> fst) w"] that by force
  then have "k \<noteq> StringID (fst (mem_new_id w))" if "(k, t) \<in> set w" for k t
    using that by (metis Suc_n_not_le_n fst_conv id_text.simps(1) length_replicate mem_new_id_def)
  then show ?thesis unfolding map_of_eq_None_iff by (metis imageE prod.collapse)
qed

lemma mem_service_ports:
  "tasks_kept = mongo_tasks AList.clearjunk \<Longrightarrow>
     (\<forall>k e x w. tasks_kept (snd (kpSchedule (rsKeeper mem_service) k e x w)) = tasks_kept w)
     \<and> (\<forall>i w. tasks_kept (snd (kpCancel (rsKeeper mem_service) i w)) = tasks_kept w)
     \<and> (\<forall>w. tasks_kept (snd (rsNewID mem_service w)) = tasks_kept w \<and> tasks_kept w (fst (rsNewID mem_service w)) = None
          \<and> fst (rsNewID mem_service w) \<noteq> [])"
  by (auto simp: mem_service_def mongo_tasks_def mem_id_unused map_of_clearjunk simp del: replicate_Suc)
    (simp_all add: mem_new_id_def)

definition mem_status :: "ritual_op list \<Rightarrow> RitualStatus option" where
  "mem_status ops = map_option riStatus (mongo_tasks AList.clearjunk (fold (ritual_exec mem_service) ops []) ''r'')"

lemma mem_runs:
  "mem_status [OpSchedule tw_request] = Some RitualPending"
  "mem_status [OpSchedule tw_request, OpMarkExecuted ''r''] = Some RitualExecuted"
  by code_simp+

section \<open>HTTP tools\<close>

definition echo_client :: "nat http_client" where
  "echo_client =
     \<lparr>clNet = \<lparr>nePars = (\<lambda>u. Inr (''https'', ''api.example'')), neResolve = (\<lambda>h. Inr [''93.184.216.34'']),
                neIP = (\<lambda>a. Some (IPv4 (ipv4 93 184 216 34)))\<rparr>,
      clBuild = (\<lambda>m u. None), clDo = (\<lambda>rq w. (Inr (200, hqURL rq), Suc w)), clMillis = (\<lambda>w. 0),
      clFloat = (\<lambda>x. []), clOrder = (\<lambda>t as. as)\<rparr>"

definition weather_tool :: HTTPTool where
  "weather_tool =
     \<lparr>htID = ''t'', htName = ''weather'', htDescription = [], htMethod = ''GET'', htURL = ''https://api.example/{{city}}'',
      htHeaders = None, htBodyTemplate = [], htParameters = [], htTimeoutMS = 0, htMaxResponseBytes = 0,
      htIsCritical = False, htSpiritIDs = None\<rparr>"

lemma example_address_public: "\<not> IsPrivateIP (IPv4 (ipv4 93 184 216 34))"
  by (simp add: IsPrivateIP_def privateRanges_def ipv4_def drop_bit_eq_div)

lemma weather_runs:
  "snd (acExecute (NewHTTPToolExecutor echo_client weather_tool) (Some [(''city'', VStr ''Rio'')]) (0 :: nat)) = 1"
  "nePars (clNet echo_client) (resolved echo_client [(''city'', VStr ''Rio'')] (htURL weather_tool)) = Inr (''https'', ''api.example'')"
  using example_address_public
  by (simp_all add: NewHTTPToolExecutor_def http_Execute_def ValidateURL_def echo_client_def http_execute_def
      FromHTTPStatus_def Let_def)

section \<open>A collection that never changes\<close>

definition const_collection :: "'d doc list \<Rightarrow> ('w, 'd) collection" where
  "const_collection xs =
     \<lparr>coFindOne = (\<lambda>p w. (Inr (List.find p xs), w)), coFind = (\<lambda>q w. (Inr (filter (quFilter q) xs), w)),
      coCount = (\<lambda>p w. (Inr (int (length (filter p xs))), w)), coInsert = (\<lambda>i d w. (Some (EPlain ''read only''), w)),
      coUpdateOne = (\<lambda>p f w. (Inl (EPlain ''read only''), w)), coUpdateMany = (\<lambda>p f w. (Inl (EPlain ''read only''), w)),
      coUpsert = (\<lambda>p f i d w. (Some (EPlain ''read only''), w)), coDeleteOne = (\<lambda>p w. (Inl (EPlain ''read only''), w)),
      coDeleteMany = (\<lambda>p w. (Inl (EPlain ''read only''), w)), coStartSession = (\<lambda>w. (None, w)),
      coTransaction = (\<lambda>b w. b w)\<rparr>"

section \<open>A stored configuration\<close>

definition guarded_config :: WeaveConfig where
  "guarded_config = DefaultWeaveConfig\<lparr>wcOutputGuard := (wcOutputGuard DefaultWeaveConfig)\<lparr>ocRedactPII := True\<rparr>\<rparr>"

definition stored_config :: "(nat, weaveConfigDocument) collection" where
  "stored_config = const_collection [(StringID ''default'', configToDocument 0 guarded_config)]"

lemma stored_config_found:
  "config_Find stored_config w = (Inr (documentToConfig (StringID ''default'', configToDocument 0 guarded_config)), w)"
  by (simp add: config_Find_def stored_config_def const_collection_def by_id_def)

definition stored_builder :: "(nat, unit, unit, unit) builder" where
  "stored_builder = WithWeaveConfigRepository (config_Find stored_config) demo_builder"

lemma stored_builds: "\<exists>bt. Weave_Build demo_platform stored_builder 0 = (Inr bt, 0)"
proof -
  obtain f where f: "buildOracleFactory demo_builder = Inr f" using demo_factory by blast
  let ?c = "documentToConfig (StringID ''default'', configToDocument 0 guarded_config)"
  have "WeaveConfig_Validate dur compile guarded_config = None" for dur compile
    using default_config_valid [of dur compile]
    by (simp add: WeaveConfig_Validate_None guarded_config_def DefaultWeaveConfig_def)
  then have v: "WeaveConfig_Validate (pmDuration demo_platform) (compile_error demo_platform) ?c = None"
    by (rule saved_config_valid)
  have b: "builder_validate stored_builder = None" "wbFactory stored_builder = None" "buildOracleFactory stored_builder = Inr f"
      "loaded_config stored_builder 0 = (Inr ?c, 0)"
    using f by (simp_all add: builder_validate_def loaded_config_def stored_builder_def WithWeaveConfigRepository_def
        demo_builder_defs stored_config_found buildOracleFactory_def)
  have "\<exists>bt. assemble demo_platform stored_builder ?c f 0 = (Inr bt, 0)"
    by (simp add: assemble_def stored_builder_def WithWeaveConfigRepository_def demo_builder_defs LoadAll_def initial_actions_def
        rite_actions_def)
  then show ?thesis by (simp add: Weave_Build_def b v)
qed

section \<open>A budget\<close>

definition mem_budgets :: "(budgetDocument doc list, budgetDocument) collection" where
  "mem_budgets = mem_store budget_conflict"

definition careful_budget :: TokenBudget where
  "careful_budget = \<lparr>tbMonthlyTokenLimit = 100, tbOnExceed = ''alert'', tbDowngradeModel = zero_model\<lparr>smModel := ''small''\<rparr>,
     tbAlertThreshold = 1 / 2, tbDowngradeAtThreshold = True\<rparr>"

definition plain_budget :: TokenBudget where
  "plain_budget = careful_budget\<lparr>tbAlertThreshold := 0, tbDowngradeAtThreshold := False\<rparr>"

definition mem_budget_world :: "budgetDocument doc list" where
  "mem_budget_world = [(ObjectID ''b'', (''s'', careful_budget))]"

definition mem_entries :: "(budgetDocument doc list, LedgerEntry) collection" where
  "mem_entries = const_collection
     [(ObjectID ''l'', \<lparr>leSpiritName = ''s'', leMonth = ''m'', leTokensUsed = 60, leEstCostUSD = 0, leUpdatedAt = 0\<rparr>)]"

lemma mem_budget_set:
  "SetBudget mem_budgets ''s'' plain_budget mem_budget_world = (None, [(ObjectID ''b'', (''s'', set_budget plain_budget careful_budget))])"
  "GetBudget mem_budgets ''s'' [(ObjectID ''b'', (''s'', set_budget plain_budget careful_budget))]
     = (Inr (set_budget plain_budget careful_budget), [(ObjectID ''b'', (''s'', set_budget plain_budget careful_budget))])"
  "ldMonthUsage (mongo_ledger mem_entries mem_budgets (\<lambda>_. ''m'') (\<lambda>_. 0)) ''s'' w = (Inr 60, w)"
  by (simp_all add: SetBudget_def GetBudget_def mem_budgets_def mem_store_def mem_budget_world_def budget_of_def
      mongo_ledger_def GetMonthUsage_def mem_entries_def const_collection_def of_month_def)

section \<open>Messages\<close>

definition mem_echoes :: "(echo doc list, echo) collection" where
  "mem_echoes = mem_store (\<lambda>_ _. False)"

definition two_messages :: "echo doc list" where
  "two_messages = [(StringID ''0a'', (plain_echo ''k'' [] ''user'' ''hi'')\<lparr>ecTimestamp := 1\<rparr>),
                   (StringID ''0b'', (plain_echo ''k'' [] ''assistant'' ''hello'')\<lparr>ecTimestamp := 2\<rparr>)]"

lemma two_messages_page:
  "FindByMemoryKeyBefore mem_echoes (\<lambda>_. None) ''k'' [] 1 two_messages
     = (Inr [(plain_echo ''k'' [] ''assistant'' ''hello'')\<lparr>ecID := ''0b'', ecTimestamp := 2\<rparr>], two_messages)"
  by code_simp

lemma two_messages_next:
  "\<exists>ms. FindByMemoryKeyBefore mem_echoes (\<lambda>_. None) ''k'' ''0b'' 1 two_messages = (Inr ms, two_messages)"
  by (simp add: FindByMemoryKeyBefore_def mem_echoes_def mem_store_def)

end
