(* ===== verification/Spec2Isabelle.thy ===== *)
theory Spec2Isabelle
  imports Registries Delegation LockSystem Endings DemoEngine DemoLore DemoRitual DemoConfig DemoBuilder MapHelpers DemoMongo
begin

text \<open>
  Eywa is an agent runtime in Go: events (Pulses) arrive on channels, a Link says which agents
  (Spirits) may answer them, a pipeline of steps locks the conversation, enriches the Pulse,
  chooses a Spirit, runs its reasoning turn with a language model and Actions, and persists,
  delivers and audits the answer. This development models that core and proves what makes it
  correct. Paths below are under \<open>src/internal\<close>; \<open>O\<close> is \<open>implementation/orchestrator\<close>.

  Conventions. The world outside (repositories, model vendors, channels, clocks, brokers) is a
  type parameter \<open>'w\<close>; a collaborator is a function over it, a field of a record of functions
  (\<open>weave\<close>, \<open>reasoning_service\<close>, \<open>delegation\<close>, \<open>memory_mgr\<close>, ...), and every call threads
  the world in the order of the code. A Go error is a value of \<open>gerr\<close>, a result with an error is
  \<open>gerr + 'a\<close>, a panic is \<open>None\<close> or \<open>Panic\<close>. A Go map is an association list with distinct keys
  (\<open>gmap\<close>), \<open>None\<close> when nil; strings are byte strings, runes are cut out of them by \<open>Runes\<close>.
  Goroutines that only meet at a barrier run in an order that is an argument of the model.

  Theories, in the order they build on each other:
  \<^item> \<open>Prelude\<close>: dynamic values, maps, string helpers of the Go library, \<open>int64\<close> wrap-around.
    \<open>GoErrors\<close>: the error types and their wrapping (\<open>domain/errors\<close>, \<open>O/errors.go\<close>).
  \<^item> \<open>Stores\<close>: Bond, duplicate filter and pin table of one process, as interpretations of the
    locales \<open>bond\<close> and \<open>pin_store\<close>. \<open>LockSystem\<close>: cycles side by side over that Bond, a step
    relation with its invariant, its progress and what a crash does.
  \<^item> \<open>Pulse\<close>, \<open>Spirit\<close>, \<open>Links\<close>, \<open>Memories\<close>, \<open>Registries\<close>: the entities of \<open>domain/entities\<close>,
    the memory manager (locale \<open>memory_window\<close>), the registries (locale \<open>named_registry\<close>).
  \<^item> \<open>Runes\<close>, \<open>Executor\<close>: UTF-8 runes; Actions, retries, batches, result limits.
  \<^item> \<open>ReasonParts\<close>, \<open>Prompts\<close>, \<open>Gates\<close>, \<open>ReasonLoop\<close>, \<open>Turn\<close>: the reasoning service
    (\<open>O/reasoning_service.go\<close>, \<open>reasoning_loop.go\<close>, \<open>reasoning_durable.go\<close> and the policies
    beside them). \<open>TurnCounts\<close>, \<open>TurnFacts\<close>, \<open>TurnSafe\<close>, \<open>TurnRun\<close>: its laws.
  \<^item> \<open>Delegation\<close>: Summon and Handoff (locale \<open>bounded_nesting\<close>).
  \<^item> \<open>Pipeline\<close>, \<open>PipeRoute\<close>, \<open>PipeMemory\<close>, \<open>PipeDeliver\<close>: the runner and the steps
    (\<open>O/pipeline*.go\<close>). \<open>Engine\<close>: the pipeline \<open>buildProcessingPipeline\<close> makes and the ways to
    process events (\<open>O/engine.go\<close>). \<open>Frames\<close>, \<open>Cycle\<close>, \<open>Sends\<close>, \<open>Outcomes\<close>, \<open>Endings\<close>: what
    a step can touch, and from that the locks, the sends, the answers, the audit records and the
    ends of a whole cycle.
  \<^item> \<open>Chunking\<close>, \<open>Lore\<close>: the text splitter and the knowledge base.
  \<^item> \<open>Rituals\<close>, \<open>RitualLaws\<close>: scheduled tasks (\<open>implementation/services/ritual_service.go\<close>), the
    contract of their repository, the life of a task and the end of a recurrence.
  \<^item> \<open>Regex\<close>, \<open>Pii\<close>: the regular expressions the code uses, and the redaction of personal data
    (\<open>helpers/pii.go\<close>). \<open>MapHelpers\<close>: typed reads of dynamic maps and the classes of HTTP errors.
  \<^item> \<open>Imprints\<close>, \<open>Advisors\<close>, \<open>ToolActions\<close>, \<open>HttpTools\<close>: facts about users; archivist and
    Pathfinder; the built-in Actions; the tools operators define as HTTP requests, with the check of
    their URL (\<open>helpers/netutil\<close>) and their repository.
  \<^item> \<open>Config\<close>, \<open>ConfigCache\<close>: the configuration, the validator of Pulses, and the caches of Links of
    several instances as a step relation. \<open>Builder\<close>, \<open>BuiltWeave\<close>: every setter of the builder, its
    validation and \<open>Build\<close>, and what holds of each Weave that is built.
  \<^item> \<open>DocStore\<close>: a collection of documents as the adapters of \<open>src/mongo\<close> use it: a record of
    functions over the world, with the documented behaviour of the driver (reads, writes,
    transactions) as hypotheses. \<open>MongoSpirits\<close> with \<open>SpiritLaws\<close> (versions of Spirits),
    \<open>MongoRituals\<close> (tasks, a refinement of their contract), \<open>MongoStores\<close> (Links, configuration,
    pins, checkpoints) and \<open>MongoRecords\<close> (messages, facts, approvals, ledger, lores, operators,
    tokens) are the adapters over it.
  \<^item> \<open>Demo\<close>, \<open>DemoEngine\<close>, \<open>DemoLore\<close>, \<open>DemoRitual\<close>, \<open>DemoConfig\<close>, \<open>DemoBuilder\<close>, \<open>DemoMongo\<close>:
    small concrete collaborators on which the witnesses run; \<open>DemoStore\<close> is a collection in memory
    with the proof that it keeps the laws of \<open>DocStore\<close>.

  Bounds. The turn is a recursion on the iterations left, \<open>MaxIterations\<close> minus those a
  checkpoint used, which is the bound of the loop of the code; every other loop is structural or
  has a measure, so nothing needs fuel. Integers are \<open>int\<close> or \<open>nat\<close> where the code only counts,
  and wrap at 64 bits where it adds what it is given (delays, depths).

  Not modelled: the adapters to vendors of models, vectors, media and messages (\<open>providers\<close>,
  \<open>gcp\<close>, \<open>channels\<close>, \<open>mcp\<close>, \<open>redis\<close>), the HTTP API (\<open>fiber\<close>) and telemetry: they translate between
  the ports, which are the parameters of the model, and third-party libraries. Of \<open>src/mongo\<close>, the
  audit log, its aggregations, the list of sessions and the vector store, whose work is done by
  expressions the server evaluates. The server also evicts documents by a clock of its own, which is
  no operation of the code and is not part of \<open>DocStore\<close>.
\<close>

section \<open>The cycle of an event\<close>

text \<open>C1: Locks are given back. Over a Bond that keeps its contract, and collaborators that do not
  touch the locks themselves, \<open>runProcessingPipeline\<close> ends with exactly the locks held that were
  held before, whatever step failed, as long as the pipeline does not panic.\<close>

theorem cycle_returns_locks:
  assumes "engine_bond wv held ok" "quiet (\<lambda>w. (held w, ok w)) wv" "quiet_reasoner (\<lambda>w. (held w, ok w)) wv"
    "quiet_voices (\<lambda>w. (held w, ok w)) wv" "quiet_log (\<lambda>w. (held w, ok w)) wv"
    and "ok w" "\<not> psLockAcquired ps" "psAdditionalLocks ps = []"
    and "execute_pipeline wv ps w = Ret err c"
  shows "held (snd (runProcessingPipeline wv ps w)) = held w \<and> ok (snd (runProcessingPipeline wv ps w))"
  by (rule cycle_locks [OF assms])

theorem cycle_returns_locks_witness:
  "bond_held (dwBond (snd (runProcessingPipeline (demo_weave chatty None (Some False)) (demo_state False) demo_start)))
    = bond_held (dwBond demo_start)"
proof -
  obtain c where "execute_pipeline (demo_weave chatty None (Some False)) (demo_state False) demo_start = Ret None c"
    using demo_chatty by blast
  from cycle_returns_locks [OF demo_engine_bond demo_quiet demo_quiet_reasoner demo_quiet_voices demo_quiet_log _ _ _ this]
  show ?thesis by (simp add: demo_start_def bond_inv_new demo_state_def new_state_def)
qed





text \<open>C4: Cycles that send and then panic. A cycle whose pipeline ends well but whose Spirit asked
  no model (a notifier that renders a template, a turn skipped by the budget) has no
  \<open>ReasoningResult\<close>, and the success path, which reads one for a log line, panics: the caller gets
  no response.\<close>

theorem unasked_cycle_panics:
  assumes "psResult ps = None" "psSession ps = None" "execute_pipeline wv ps w = Ret None (ps', w1)"
    and "psSpirit ps' = Some sp" "\<not> asks_model sp ps'"
  shows "fst (runProcessingPipeline wv ps w) = None"
  by (rule unasked_panics [OF assms])

theorem unasked_cycle_panics_witness:
  "fst (runProcessingPipeline (demo_weave reminder None None) (demo_state False) demo_start) = None
   \<and> dwSent (snd (runProcessingPipeline (demo_weave reminder None None) (demo_state False) demo_start)) = [''due'']"
proof -
  obtain ps' w1 where r: "execute_pipeline (demo_weave reminder None None) (demo_state False) demo_start = Ret None (ps', w1)"
    using demo_reminder by fastforce
  have "(case execute_pipeline (demo_weave reminder None None) (demo_state False) demo_start of
      Ret _ c \<Rightarrow> map_option (\<lambda>sp. \<not> asks_model sp (fst c)) (psSpirit (fst c)) | Panic _ \<Rightarrow> None) = Some True"
    by code_simp
  then obtain sp where "psSpirit ps' = Some sp" "\<not> asks_model sp ps'" using r by auto
  moreover have "dwSent (snd (runProcessingPipeline (demo_weave reminder None None) (demo_state False) demo_start)) = [''due'']"
    by code_simp
  ultimately show ?thesis
    using unasked_cycle_panics [OF _ _ r] by (simp add: demo_state_def new_state_def)
qed

text \<open>C5: A panic of the pipeline keeps the locks. The clean-up of \<open>runProcessingPipeline\<close> is not
  deferred: when a step panics, the keys the state says it holds stay held on the Bond, whose
  in-process version never expires a key.\<close>

theorem panic_leaks_locks:
  assumes "engine_bond wv held ok" "quiet (\<lambda>w. (held w, ok w)) wv" "quiet_reasoner (\<lambda>w. (held w, ok w)) wv"
    "quiet_voices (\<lambda>w. (held w, ok w)) wv" "quiet_log (\<lambda>w. (held w, ok w)) wv"
    and "ok w" "\<not> psLockAcquired ps" "psAdditionalLocks ps = []"
    and "execute_pipeline wv ps w = Panic c"
  shows "fst (runProcessingPipeline wv ps w) = None
    \<and> held (snd (runProcessingPipeline wv ps w)) = held w
        \<union> (if psLockAcquired (fst c) then set (psLockKey (fst c) # psAdditionalLocks (fst c)) else {})"
  by (rule panic_keeps_locks [OF assms])

theorem panic_leaks_locks_witness:
  "bond_held (dwBond (snd (runProcessingPipeline (demo_weave worker None None) (demo_state False) demo_start)))
    = {''memory:c:u''}"
proof -
  let ?x = "execute_pipeline (demo_weave worker None None) (demo_state False) demo_start"
  have "(case ?x of Panic c \<Rightarrow> psLockAcquired (fst c) \<and> psLockKey (fst c) = ''memory:c:u''
      \<and> psAdditionalLocks (fst c) = [] | _ \<Rightarrow> False)"
    by code_simp
  then obtain c where c: "?x = Panic c" "psLockAcquired (fst c)" "psLockKey (fst c) = ''memory:c:u''"
      "psAdditionalLocks (fst c) = []"
    by (auto split: outcome.splits)
  have start: "bond_held (dwBond demo_start) = {}" by (simp add: demo_start_def bond_held_def newNoOpBond_def)
  from panic_leaks_locks [OF demo_engine_bond demo_quiet demo_quiet_reasoner demo_quiet_voices demo_quiet_log _ _ _ c(1)]
  show ?thesis using c(2-4) start by (simp add: demo_start_def bond_inv_new demo_state_def new_state_def)
qed

text \<open>C6: One audit record per cycle. A cycle whose pipeline does not panic adds exactly one record
  to the audit log, also when it fails; the record of a failed cycle has the status of its error.\<close>

theorem one_record_per_cycle:
  assumes "quiet logs wv" "quiet_reasoner logs wv" "quiet_bond logs wv" "quiet_voices logs wv" "records_log logs wv"
    and "execute_pipeline wv ps w = Ret err c"
  shows "\<exists>x. logs (snd (runProcessingPipeline wv ps w)) = logs w @ [x]
     \<and> (\<forall>e. err = Some e \<longrightarrow> chStatus x = statusFromError e)"
  by (rule cycle_logs [OF assms])

theorem one_record_per_cycle_witness:
  "length (dwLogs (snd (runProcessingPipeline (demo_weave chatty None (Some True)) (demo_state False) demo_start))) = 1"
proof -
  obtain e c where "execute_pipeline (demo_weave chatty None (Some True)) (demo_state False) demo_start = Ret (Some e) c"
    using demo_duplicate by blast
  from one_record_per_cycle [OF demo_quiet demo_quiet_reasoner demo_quiet_bond demo_quiet_voices demo_records_log this]
  show ?thesis by (auto simp: demo_start_def)
qed



text \<open>The error of a pipeline names its step. When \<open>Execute\<close> stops, it is at a step of the
  list: the state records its name, and the error is that step's timeout or wraps the step's
  error under its name.\<close>

theorem pipeline_error_names_step:
  assumes "run_steps deadline steps c = Ret (Some e) (ps, w)"
  shows "\<exists>st\<in>set steps. psFailedAtStep ps = stName st
     \<and> (e = ErrTimeoutExceeded (stName st) \<or> (\<exists>e'. e = EWrap (stName st) e'))"
  by (rule run_steps_error [OF assms])

theorem pipeline_error_names_step_witness:
  "\<exists>st\<in>{stp ''Validation'' (ValidationStep (\<lambda>_. Some (EPlain ''no'')))}. stName st = ''Validation''"
proof -
  have r: "run_steps (\<lambda>_ _. False) [stp ''Validation'' (ValidationStep (\<lambda>_. Some (EPlain ''no'')))] (demo_state False, ())
      = Ret (Some (EWrap ''Validation'' (EWrap ''validate event'' (EPlain ''no''))))
          ((demo_state False)\<lparr>psFailedAtStep := ''Validation''\<rparr>, ())"
    by (simp add: executeStep_def stp_def ValidationStep_def)
  from pipeline_error_names_step [OF r] show ?thesis by (simp add: stp_def)
qed



section \<open>The reasoning turn\<close>

text \<open>C9: A turn cannot panic. With result limits that are not negative, an executor that returns
  one result per call, collaborators that do not panic themselves, decodable snapshots whose
  offsets fit their context and a session that is there, \<open>run\<close> returns: every iteration, gate,
  handoff and compression of the loop keeps its slice bounds and ends within the iteration cap.\<close>

theorem run_no_panic:
  assumes "sane_service r" "sane_snapshots r" "rqSession req \<noteq> NoSession"
  shows "run r req emit s \<noteq> None"
  by (rule run_sane [OF assms])

theorem run_no_panic_witness:
  "run (demo_service polite None 0) demo_request False 0 \<noteq> None"
  by (rule run_no_panic) (simp_all add: demo_sane demo_snapshots demo_request_def)

text \<open>C10: The tool budget. However the model behaves and wherever a checkpoint resumes, the number of
  Action calls the executor ran in a turn is at most \<open>MaxActionsPerCycle\<close>.\<close>

theorem run_within_budget:
  assumes c: "counts_calls r (\<lambda>_. 1) cnt" and m: "0 < rvMaxActionsPerCycle r"
    and sn: "\<forall>d sn. rvDecode r d = Some sn \<longrightarrow>
       0 \<le> snTotalActionCalls sn \<and> snTotalActionCalls sn \<le> rvMaxActionsPerCycle r"
    and e: "run r req emit s = Some (err, res, s')"
  shows "int (cnt s') \<le> int (cnt s) + rvMaxActionsPerCycle r"
  by (rule run_budget [OF assms])

theorem run_within_budget_witness:
  "\<exists>err res s'. run (demo_service stubborn (Some empty_store) 2) demo_request False 0 = Some (err, res, s')
     \<and> int (id s') \<le> int (id 0) + 2"
proof -
  obtain t where t: "run (demo_service stubborn (Some empty_store) 2) demo_request False 0 = Some t"
    using run_sane [OF demo_sane demo_snapshots, of demo_request] by (fastforce simp: demo_request_def)
  obtain err res s' where p: "t = (err, res, s')" by (cases t)
  have "int (id s') \<le> int (id 0) + rvMaxActionsPerCycle (demo_service stubborn (Some empty_store) 2)"
    by (rule run_within_budget [OF demo_counts_one])
      (use t p in \<open>simp_all add: demo_service_def\<close>)
  with t p show ?thesis by (simp add: demo_service_def)
qed

text \<open>C11: A resumed turn does not repeat its calls. When \<open>run\<close> finds a checkpoint, a call whose
  signature the snapshot has memoized or banned is not executed again, to the end of the turn.\<close>

theorem resumed_calls_run_once:
  assumes "counts_calls r (one_signature r sg) cnt" "checkpointID r req = Some (st, k)"
    and "ckLoad st k s = (Inr (Some d), s1)" "rvDecode r d = Some sn"
    and "sg \<in> set (snBanned sn) \<or> (\<exists>m. snToolResults sn = Some m \<and> map_of m sg \<noteq> None)"
    and "run r req emit s = Some (err, res, s')"
  shows "cnt s' \<le> cnt s"
  by (rule run_resumed_once [OF assms])

theorem resumed_calls_run_once_witness:
  "\<exists>err res s'. run (demo_durable saved_store demo_snapshot) demo_request False 0 = Some (err, res, s') \<and> s' = 0"
proof -
  let ?r = "demo_durable saved_store demo_snapshot"
  obtain err res s' where e: "run ?r demo_request False 0 = Some (err, res, s')"
    using run_sane [OF demo_durable_sane demo_durable_snapshots, of demo_request] by (fastforce simp: demo_request_def)
  have "id s' \<le> id (0::nat)"
    by (rule resumed_calls_run_once [OF demo_durable_counts demo_durable_key _ _ _ e, of "''snap''" 0 demo_snapshot])
      (simp_all add: saved_store_def demo_durable_def demo_snapshot_def)
  with e show ?thesis by simp
qed



text \<open>C13: Iterations are bounded. The count a turn reports, resumed or not, is at most
  \<open>MaxIterations\<close>, given snapshots that keep the bound themselves.\<close>

theorem iterations_bounded:
  assumes "\<forall>d sn. rvDecode r d = Some sn \<longrightarrow> int (snIterationsUsed sn) \<le> rvMaxIterations r"
    and "run r req emit s = Some (err, Some res, s')"
  shows "int (rrIterationsUsed res) \<le> max 0 (rvMaxIterations r)"
  by (rule run_iterations [OF assms])

theorem iterations_bounded_witness:
  "(case run (demo_service stubborn None 0) demo_request False 0 of
      Some (_, Some res, _) \<Rightarrow> int (rrIterationsUsed res) \<le> 4 | _ \<Rightarrow> True)"
  using iterations_bounded [of "demo_service stubborn None 0" demo_request False 0]
  by (auto simp: demo_service_def split: option.split)

text \<open>C14: Every call is answered. A batch of calls, with banned, memoized, failing and nested ones,
  only appends tool messages to the context; when it ends without a fatal error there is exactly
  one for each call identifier, so the next request to the model is well formed.\<close>

theorem calls_all_answered:
  assumes "processActionCalls r p req calls enf plan banned b = Some (None, plan', b')"
  shows "\<exists>ms. btContext b' = btContext b @ ms \<and> (\<forall>m\<in>set ms. omRole m = RoleTool)
     \<and> mset (map omToolCallID ms) = mset (map tcID calls)"
  using processActionCalls_answers [OF assms] by (simp add: answered_def)

theorem calls_all_answered_witness:
  "\<exists>plan' b'. processActionCalls (demo_service polite None 0) () demo_request [demo_call, demo_call] False None [] demo_batch
      = Some (None, plan', b') \<and> length (btContext b') = 2"
proof -
  let ?p = "processActionCalls (demo_service polite None 0) () demo_request [demo_call, demo_call] False None [] demo_batch"
  have "(case ?p of Some (e, _, _) \<Rightarrow> e = None | None \<Rightarrow> False)" by code_simp
  then obtain plan' b' where e: "?p = Some (None, plan', b')" by (auto split: option.splits)
  from calls_all_answered [OF e] obtain ms where ms: "btContext b' = ms"
      "mset (map omToolCallID ms) = mset (map tcID [demo_call, demo_call])"
    by (auto simp: demo_batch_def)
  have "length (map omToolCallID ms) = length (map tcID [demo_call, demo_call])"
    using arg_cong [OF ms(2), of size] by (simp del: mset_map)
  with e ms show ?thesis by simp
qed

text \<open>A handoff can double a delivery. Whatever the sub-Spirit sent itself, \<open>executeHandoff\<close>
  keeps the delivery flag of the turn that handed off, so the delivery step does not learn that
  the user already has an answer.\<close>

theorem handoff_hides_delivery:
  assumes "executeHandoff r hf ts call lg s = Some (st, ts', lg', s')"
  shows "rrResponseDelivered (tsResult ts') = rrResponseDelivered (tsResult ts)"
  by (rule executeHandoff_delivered [OF assms])

theorem handoff_hides_delivery_witness:
  "\<exists>ts' lg' s'. executeHandoff (demo_service polite None 0)
      (\<lambda>_ _ _ _ _ w. Some (Inr (empty_result\<lparr>rrFinalResponse := ''hi'', rrResponseDelivered := True\<rparr>), w))
      demo_turn demo_handoff demo_log 0 = Some (StepDone, ts', lg', s') \<and> \<not> rrResponseDelivered (tsResult ts')"
proof -
  let ?h = "executeHandoff (demo_service polite None 0)
      (\<lambda>_ _ _ _ _ w. Some (Inr (empty_result\<lparr>rrFinalResponse := ''hi'', rrResponseDelivered := True\<rparr>), w))
      demo_turn demo_handoff demo_log (0::nat)"
  have "\<exists>ts' lg' s'. ?h = Some (StepDone, ts', lg', s')"
    by (simp add: executeHandoff_def demo_handoff_def str_arg_def Let_def)
  then obtain ts' lg' s' where h: "?h = Some (StepDone, ts', lg', s')" by blast
  have "\<not> rrResponseDelivered (tsResult demo_turn)" by code_simp
  with handoff_hides_delivery [OF h] h show ?thesis by blast
qed

section \<open>Cycles side by side\<close>

text \<open>C15: Mutual exclusion. In every reachable state of any number of cycles over one in-process
  Bond, a key belongs to one cycle at most, and the Bond holds exactly the keys the cycles own:
  none is lost and none is held by nobody.\<close>

theorem lock_mutual_exclusion:
  assumes "reachable s"
  shows "bond_held (lsBond s) = (\<Union>i. set (lsOwned s i))
    \<and> (\<forall>i j. i \<noteq> j \<longrightarrow> set (lsOwned s i) \<inter> set (lsOwned s j) = {})"
  using lock_inv_reachable [OF assms] unfolding lock_inv_def by (elim conjE) (intro conjI)

theorem lock_mutual_exclusion_witness:
  "''k'' \<in> bond_held (lsBond one_running)"
  using lock_mutual_exclusion [OF one_running_reachable]
  by (auto simp: one_running_def own_keys_def set_phase_def intro: exI [of _ 0])



text \<open>A crash blocks its conversation. After a cycle panicked while it held a key, every later
  request for that key is refused, whatever the other cycles do: the in-process Bond has no
  expiry, and nothing else releases the key.\<close>

theorem crash_blocks_key:
  assumes "reachable s" "lsPhase s i = Crashed" "k \<in> set (lsOwned s i)" "turn_step\<^sup>*\<^sup>* s s'"
  shows "bond_AcquireLock k (lsBond s') = (Inr False, lsBond s')"
  by (rule crashed_blocks [OF assms])

theorem crash_blocks_key_witness:
  "fst (bond_AcquireLock ''k'' (lsBond (set_phase 0 Crashed one_running))) = Inr False"
proof -
  have "lsPhase (set_phase 0 Crashed one_running) 0 = Crashed" by (simp add: set_phase_def)
  moreover have "''k'' \<in> set (lsOwned (set_phase 0 Crashed one_running) 0)"
    by (simp add: one_running_def set_phase_def own_keys_def)
  ultimately show ?thesis
    using crash_blocks_key [OF one_crashed_reachable, of 0 "''k''" "set_phase 0 Crashed one_running"] by simp
qed

section \<open>In-process stores\<close>

text \<open>C17: The duplicate window. Once \<open>Seen\<close> accepted a key, and the table had room, every call for
  the key within its window is told it is a duplicate, however many other keys were asked for in
  between.\<close>

theorem duplicate_window:
  assumes "idem_inv s" "idem_Seen now key ttl s = (False, s1)"
    and "length (seen (reapExpired now s)) < maxInMemoryIdempotencyKeys"
    and "\<forall>(t, k, l)\<in>set calls. t < now + ttl" "now' < now + ttl"
  shows "fst (idem_Seen now' key ttl' (snd (idem_run s1 calls)))"
proof -
  have "idem_inv s1" using idem_inv_Seen [OF assms(1), of now key ttl] assms(2) by simp
  moreover have "map_of (seen s1) key = Some (now + ttl)" using idem_Seen_recorded assms(1-3) by blast
  ultimately show ?thesis
    using idem_run_keeps [OF _ _ assms(4)] idem_run_inv idem_Seen_live assms(5) by blast
qed

theorem duplicate_window_witness:
  "fst (idem_Seen 5 ''k'' 10 (snd (idem_run (snd (idem_Seen 0 ''k'' 10 \<lparr>seen = []\<rparr>)) [(3, ''j'', 9)])))"
  by (rule duplicate_window [of "\<lparr>seen = []\<rparr>" 0 "''k''" 10])
    (simp_all add: idem_inv_def idem_Seen_def reapExpired_def maxInMemoryIdempotencyKeys_def Let_def)


text \<open>C19: Session memory is a sliding window. A run of \<open>UpdateMemory\<close> leaves the newest messages of
  everything that was said, stamped, up to the manager's cap, and leaves the identity, the
  subject, the facts and the summary alone.\<close>

theorem memory_is_a_window:
  assumes "ts \<noteq> []"
  shows "meThreads (fold (UpdateMemory (NewMemoryManager mr er mx) now) ts m)
      = drop (length (meThreads m) + length ts - nat (if mx \<le> 0 then 10 else mx))
          (meThreads m @ map (\<lambda>t. t\<lparr>thTimestamp := now\<rparr>) ts)
    \<and> meSummary (fold (UpdateMemory (NewMemoryManager mr er mx) now) ts m) = meSummary m
    \<and> meTopicFacts (fold (UpdateMemory (NewMemoryManager mr er mx) now) ts m) = meTopicFacts m"
  using mw.run_threads [OF assms(1), of mr er mx now m] mw.run_frame [of mr er mx now ts m]
  by (simp add: lastn_def)

theorem memory_is_a_window_witness:
  "length (meThreads (fold (UpdateMemory (NewMemoryManager demo_repo None 1) 7)
      [demo_said ''a'', demo_said ''b''] demo_memory)) = 1"
  using memory_is_a_window [of "[demo_said ''a'', demo_said ''b'']"
      demo_repo None 1 7 demo_memory]
  by (simp add: demo_memory_def emptySession_def)

section \<open>Delegation\<close>

text \<open>C20: Summons and handoffs terminate. A chain of nested Summons, or of nested Handoffs, over
  Spirits whose limits are at most \<open>M\<close>, is no longer than the limit minus the count the first
  Pulse has: the nested turns of one kind cannot recurse for ever.\<close>

theorem delegation_bounded:
  "((summons (capped M) ^^ n) (e, sp) (e', sp') \<and> 0 \<le> pOrchestrationDepth e
      \<longrightarrow> int n \<le> max 0 (min M (2 ^ 63 - 1) - pOrchestrationDepth e))
   \<and> ((hands_off (capped M) ^^ n) (e, sp) (e', sp') \<and> 0 \<le> pHandoffCount e
      \<longrightarrow> int n \<le> max 0 (min M (2 ^ 63 - 1) - pHandoffCount e))"
  using summon_nest.chain_bounded [where M = M and n = n and e = e]
    handoff_nest.chain_bounded [where M = M and n = n and e = e] by blast

theorem delegation_bounded_witness:
  "(summons (capped 1) ^^ 1) (zero_pulse, peer) (summon_child [] zero_pulse, peer) \<and> int 1 \<le> max 0 (min 1 (2 ^ 63 - 1) - 0)"
  using delegation_bounded [where M = 1 and n = 1 and e = zero_pulse] peer_chain
  by (simp add: zero_pulse_def)

text \<open>C21: Mixed chains do not. A Summon starts the handoff count of its child afresh and a Handoff
  the depth, so a Spirit that may do both to itself alternates for ever: there are chains of
  every length.\<close>

theorem mixed_delegation_unbounded:
  assumes "pOrchestrationDepth e = 0" "pHandoffCount e = 0"
  shows "\<exists>e'. (delegates {peer} ^^ n) (e, peer) (e', peer)"
  using mixed_chain [OF assms] by blast

theorem mixed_delegation_unbounded_witness:
  "\<exists>e'. (delegates {peer} ^^ 1000) (zero_pulse, peer) (e', peer)"
  by (rule mixed_delegation_unbounded) (simp_all add: zero_pulse_def)

text \<open>A handoff pins the conversation. Once a Handoff is allowed, its target is found and the
  pin store has room, the conversation is pinned to the target when it returns, also when the
  target's reasoning failed; the next Pulse goes there.\<close>

theorem handoff_pins:
  assumes "runs_beside_pins d" "validateHandoff target e sp = None"
    and "dgFind d target (p, x) = (Inr tsp, w1)"
    and "fst (SetActiveSpirit (pMemoryKey e) target p) = None"
    and "Handoff d target e sp se cc (p, x) = Some (y, (p', x'))"
  shows "GetActiveSpirit (pMemoryKey e) p' = target"
  by (rule Handoff_pin [OF assms])

theorem handoff_pins_witness:
  "\<exists>y p' x'. Handoff demo_delegation ''a'' zero_pulse peer NoSession [] (\<lparr>active = []\<rparr>, ()) = Some (y, (p', x'))
     \<and> GetActiveSpirit [] p' = ''a''"
proof -
  let ?h = "Handoff demo_delegation ''a'' zero_pulse peer NoSession [] (\<lparr>active = []\<rparr>, ())"
  have "(case ?h of Some _ \<Rightarrow> True | None \<Rightarrow> False)" by code_simp
  then obtain y p' x' where h: "?h = Some (y, (p', x'))" by (cases ?h) auto
  have "GetActiveSpirit (pMemoryKey zero_pulse) p' = ''a''"
  proof (rule handoff_pins [OF demo_beside_pins _ _ _ h])
    show "validateHandoff ''a'' zero_pulse peer = None" by code_simp
    show "dgFind demo_delegation ''a'' (\<lparr>active = []\<rparr>, ()) = (Inr peer, (\<lparr>active = []\<rparr>, ()))"
      by (simp add: demo_delegation_def)
    show "fst (SetActiveSpirit (pMemoryKey zero_pulse) ''a'' \<lparr>active = []\<rparr>) = None" by code_simp
  qed
  with h show ?thesis by (simp add: zero_pulse_def)
qed

section \<open>Actions and their results\<close>

text \<open>Retries are bounded. One call runs its Action at most \<open>MaxAttempts\<close> times (once when the
  setting is not positive), whatever the Action and the wait between attempts do.\<close>

theorem attempts_bounded:
  assumes "\<And>n a x s. map_of (exRegistry t) n = Some a \<Longrightarrow> cnt (snd (acExecute a x s)) = Suc (cnt s)"
    and "\<And>d s. cnt (snd (exWait t d s)) = cnt s"
  shows "int (cnt (snd (executeOne t c s))) \<le> int (cnt s) + max 1 (rcMaxAttempts (exRetry t))"
  by (rule executeOne_count [OF assms])

theorem attempts_bounded_witness:
  "int (id (snd (executeOne demo_executor demo_call 0))) \<le> int (id 0) + max 1 3"
proof -
  have "int (id (snd (executeOne demo_executor demo_call 0))) \<le> int (id 0) + max 1 (rcMaxAttempts (exRetry demo_executor))"
    by (rule attempts_bounded) (auto simp: demo_executor_def demo_action_def split: if_splits)
  then show ?thesis by (simp add: demo_executor_def)
qed

text \<open>A permanent error is final. An Action whose error is not of the infrastructure type runs
  once: the result has that error under the executor's prefix, and nothing is retried.\<close>

theorem business_error_final:
  assumes "action_Get (tcName c) (exRegistry t) = Inr a" "acValidate a (tcArguments c) = None"
    and "acExecute a (tcArguments c) s = (Inl e, s1)" "\<not> IsInfrastructureError e"
  shows "executeOne t c s = ((result_base a c)\<lparr>arError := Some (EWrap ''execution failed'' e)\<rparr>, s1)"
  by (rule executeOne_business [OF assms])

theorem business_error_final_witness:
  "snd (executeOne (demo_executor\<lparr>exRegistry := [(''t'', demo_action (NewBusinessError ''no'' []))]\<rparr>) demo_call 0) = 1"
proof -
  have "executeOne (demo_executor\<lparr>exRegistry := [(''t'', demo_action (NewBusinessError ''no'' []))]\<rparr>) demo_call 0
     = ((result_base (demo_action (NewBusinessError ''no'' [])) demo_call)
          \<lparr>arError := Some (EWrap ''execution failed'' (NewBusinessError ''no'' []))\<rparr>, 1)"
    by (rule business_error_final)
      (simp_all add: action_Get_def reg_find_map_of demo_call_def demo_action_def demo_executor_def
        NewBusinessError_def IsInfrastructureError_def as_action_error_def)
  then show ?thesis by simp
qed

text \<open>C22: Results are in the order of the calls. Sequential or parallel, and for every order in which
  the goroutines finish, \<open>ExecuteAll\<close> has one result per call, in the slot of its call.\<close>

theorem results_in_order:
  assumes "distinct sched" "set sched = {..<length calls}"
  shows "length (fst (ExecuteAll t sched calls s)) = length calls
     \<and> map arActionName (fst (ExecuteAll t sched calls s)) = map tcName calls"
  by (rule ExecuteAll_shape [OF assms])

theorem results_in_order_witness:
  "map arActionName (fst (ExecuteAll (demo_executor\<lparr>exParallel := True\<rparr>) [1, 0]
      [demo_call, demo_call\<lparr>tcName := ''u''\<rparr>] 0)) = [''t'', ''u'']"
proof -
  have "set [1, 0] = {..<length [demo_call, demo_call\<lparr>tcName := ''u''\<rparr>]}" by auto
  from results_in_order [OF _ this, where t = "demo_executor\<lparr>exParallel := True\<rparr>" and s = 0]
  show ?thesis by (simp add: demo_call_def)
qed

text \<open>Bounded results stay valid text. With limits that are not negative, \<open>truncateToolResult\<close>
  never cuts out of range; a short result is unchanged, a long one keeps whole runes, at most
  \<open>MaxChars\<close> of them, from its head and its tail around a notice that counts the rest.\<close>

theorem truncation_keeps_runes:
  assumes "0 < rlMaxChars l" "0 \<le> rlKeepHead l" "0 \<le> rlKeepTail l"
  shows "if int (rune_count content) \<le> rlMaxChars l then truncateToolResult content l = Some content
    else (\<exists>h t. int (h + t) \<le> rlMaxChars l \<and> truncateToolResult content l
       = Some (concat (take h (runes content)) @ truncationNotice (int (rune_count content) - int (h + t))
           @ concat (drop (rune_count content - t) (runes content))))"
proof (cases "int (rune_count content) \<le> rlMaxChars l")
  case True
  then show ?thesis by (simp add: truncateToolResult_def rune_count_def Let_def)
next
  case False
  then show ?thesis using truncate_long [OF assms, of content] by (metis not_le)
qed

theorem truncation_keeps_runes_witness:
  "\<exists>h t. int (h + t) \<le> 4 \<and> truncateToolResult ''abcdefgh'' (quiet_limits\<lparr>rlMaxChars := 4\<rparr>)
      = Some (concat (take h (runes ''abcdefgh'')) @ truncationNotice (8 - int (h + t)) @ concat (drop (8 - t) (runes ''abcdefgh'')))"
proof -
  have "rune_count ''abcdefgh'' = 8" by code_simp
  then show ?thesis using truncation_keeps_runes [of "quiet_limits\<lparr>rlMaxChars := 4\<rparr>" "''abcdefgh''"]
    by (simp add: quiet_limits_def)
qed

text \<open>Infrastructure failures stay opaque. What the model is told of a failed call depends only
  on the call and its criticality when the error is not a business error: no text of an
  infrastructure error reaches the model.\<close>

theorem infra_errors_opaque:
  assumes "arError r = Some e" "arError r' = Some e'" "\<not> IsBusinessError e" "\<not> IsBusinessError e'"
    and "arIsCritical r = arIsCritical r'"
  shows "actionErrorMessage i n r = actionErrorMessage i n r'"
  by (rule infra_message_opaque [OF assms])

theorem infra_errors_opaque_witness:
  "actionErrorMessage ''1'' ''t'' ((named_result ''t'')\<lparr>arError := Some (EPlain ''secret host'')\<rparr>)
    = actionErrorMessage ''1'' ''t'' ((named_result ''t'')\<lparr>arError := Some (EPlain [])\<rparr>)"
proof (rule infra_errors_opaque)
  show "\<not> IsBusinessError (EPlain ''secret host'')" "\<not> IsBusinessError (EPlain [])" by code_simp+
qed (simp_all add: named_result_def)

text \<open>C23: Stall detection is exact. With a positive window, the verdicts of the tracker on a run of
  batches, which keeps only the set of signatures and a counter, are those of the detector that
  looks back at every batch of the run.\<close>

theorem stall_detection_exact:
  assumes "0 < w"
  shows "fst (observe_run sg bs (newStallTracker w)) = stall_reference sg w [] bs"
  using observe_run_reference [OF tracks_new [OF assms], of sg bs] by (simp add: newStallTracker_def)

theorem stall_detection_exact_witness:
  "fst (observe_run tcName [[demo_call], [demo_call], [demo_call]] (newStallTracker 2)) = [False, False, True]"
proof -
  have "fst (observe_run tcName [[demo_call], [demo_call], [demo_call]] (newStallTracker 2))
      = stall_reference tcName 2 [] [[demo_call], [demo_call], [demo_call]]"
    by (rule stall_detection_exact) simp
  then show ?thesis by (simp add: repeats_def)
qed

section \<open>Routing and identity\<close>

text \<open>C24: Compiled guards mean what they say. The filter step on a built Link lets a Pulse through
  exactly when every guard passes: its field is absent, or not blocked and, with an allow list, in
  the list. The precompiled lookup sets and the order of the checks make no difference.\<close>

theorem guards_compiled_correctly:
  "FilterStep_check e (link_Build l) = None \<longleftrightarrow> (\<forall>g\<in>set (lGuards l). guard_passes e g)"
  by (simp add: FilterStep_check_build compiled_passes)

theorem guards_compiled_correctly_witness:
  "FilterStep_check (demo_pulse\<lparr>pMetadata := Some [(''lang'', VStr ''de'')]\<rparr>)
     (link_Build (demo_link\<lparr>lGuards := [\<lparr>gField = ''metadata.lang'', gBlockList = [''de''], gAllowList = []\<rparr>]\<rparr>)) \<noteq> None"
proof -
  have "\<not> guard_passes (demo_pulse\<lparr>pMetadata := Some [(''lang'', VStr ''de'')]\<rparr>)
      \<lparr>gField = ''metadata.lang'', gBlockList = [''de''], gAllowList = []\<rparr>"
    by code_simp
  then show ?thesis by (simp add: guards_compiled_correctly)
qed

text \<open>Store keys do not collide. For identities \<open>channel:user\<close> whose parts hold no colon, distinct
  pairs of identity and subject have distinct keys of stored memory.\<close>

theorem memory_keys_distinct:
  assumes "CHR '':'' \<notin> set a" "CHR '':'' \<notin> set b" "CHR '':'' \<notin> set a'" "CHR '':'' \<notin> set b'"
    and "buildRedisKey (a @ '':'' @ b) s = buildRedisKey (a' @ '':'' @ b') s'"
  shows "a @ '':'' @ b = a' @ '':'' @ b' \<and> s = s'"
  by (rule buildRedisKey_inj [OF assms])

theorem memory_keys_distinct_witness:
  "buildRedisKey (''wa'' @ '':'' @ ''49'') ''order:1'' \<noteq> buildRedisKey (''wa'' @ '':'' @ ''49'') ''order:2''"
  using memory_keys_distinct [of "''wa''" "''49''" "''wa''" "''49''" "''order:1''" "''order:2''"] by auto

section \<open>Knowledge\<close>

text \<open>C25: Grounding admits only retrieved sources. When chunks were retrieved and the policy does not
  merely annotate, a draft the check lets through unrevised has as citations distinct identifiers
  of retrieved chunks that the draft itself names, at least the required number.\<close>

theorem grounding_sound:
  assumes "enforceGrounding policy e draft res = (False, False, res')"
    and "extractLoreChunkIDs (retrievedLoreContext e) \<noteq> []" "retrievedLoreContext e \<noteq> []"
    and "grOnViolation policy \<noteq> GroundingAnnotate"
  shows "grounded policy e (rrCitations res') \<and> set (rrCitations res') \<subseteq> set (parseCitations draft)"
  by (rule enforceGrounding_accepts [OF assms])

theorem grounding_sound_witness:
  "rrCitations (snd (snd (enforceGrounding demo_grounding demo_retrieved demo_draft empty_result))) = [''d1'']"
proof -
  have r: "enforceGrounding demo_grounding demo_retrieved demo_draft empty_result
      = (False, False, empty_result\<lparr>rrCitations := [''d1'']\<rparr>)"
    by code_simp
  have "extractLoreChunkIDs (retrievedLoreContext demo_retrieved) \<noteq> []" "retrievedLoreContext demo_retrieved \<noteq> []"
    by code_simp+
  from grounding_sound [OF r this] have "grounded demo_grounding demo_retrieved [''d1'']"
    by (simp add: demo_grounding_def)
  with r show ?thesis by simp
qed



text \<open>Chunks are bounded, but not by the size. A chunk is not empty and has at most the size plus
  twice the overlap in runes; without overlap the size is the bound, with one it is not.\<close>

theorem chunks_bounded:
  assumes "0 < sz" "p \<in> set (chunk_runes doc sz overlap)"
  shows "p \<noteq> [] \<and> int (length p) \<le> sz + 2 * int (clamp_overlap sz overlap)
    \<and> (overlap \<le> 0 \<longrightarrow> int (length p) \<le> sz)"
  using chunk_bound [OF assms] clamp_zero [OF assms(1), of overlap] by auto

theorem chunks_bounded_witness:
  "16 \<in> length ` set (chunk_runes (runes ''aaaaa bbbbbbbbbb ccc'') 10 5) \<and> (16::int) \<le> 10 + 2 * 5"
proof -
  have m: "16 \<in> set (map length (chunk_runes (runes ''aaaaa bbbbbbbbbb ccc'') 10 5))" by code_simp
  then obtain p where p: "p \<in> set (chunk_runes (runes ''aaaaa bbbbbbbbbb ccc'') 10 5)" "length p = 16" by auto
  have "int (length p) \<le> 10 + 2 * int (clamp_overlap 10 5)" using chunks_bounded [OF _ p(1)] by simp
  with p m show ?thesis by (simp add: clamp_overlap_def)
qed

text \<open>Chunking without overlap loses no words. Every rune of the document except white space and
  full stops is in the chunks, once and in its order.\<close>

theorem chunks_keep_words:
  assumes "overlap \<le> 0"
  shows "filter kept (concat (chunk_runes doc sz overlap)) = filter kept doc"
  by (rule chunks_keep [OF assms])

theorem chunks_keep_words_witness:
  "filter kept (concat (chunk_runes (runes ''Hello there. Bye now'') 8 0)) = filter kept (runes ''Hello there. Bye now'')"
  by (rule chunks_keep_words) simp



section \<open>Scheduled tasks\<close>

text \<open>C28: The life of a scheduled task. Whatever operations of the service run, and however its
  ports answer, a task stays in the repository, keeps its recurrence, and its status moves along
  \<open>may_become\<close>: an executed, cancelled or failed task can only become failed.\<close>

theorem ritual_lifecycle:
  assumes "ritual_laws s tasks" "tasks w i = Some t"
  shows "\<exists>t'. tasks (fold (ritual_exec s) ops w) i = Some t' \<and> riRecurrence t' = riRecurrence t
    \<and> may_become (riStatus t) (riStatus t')"
  using ritual_fold_evolves [OF assms(1), of ops UNIV w] assms(2) by (auto simp: evolves_def)

theorem ritual_lifecycle_witness:
  "tw_status [OpSchedule tw_request, OpMarkExecuted ''r''] = Some RitualExecuted
   \<and> (\<exists>st. tw_status ([OpSchedule tw_request, OpMarkExecuted ''r''] @ [OpCancel ''r'' ''m'', OpMarkFailed ''r'' ''late'']) = Some st
        \<and> st = RitualFailed \<and> may_become RitualExecuted st)"
proof -
  let ?w = "fold (ritual_exec tw_service) [OpSchedule tw_request, OpMarkExecuted ''r''] tw_empty"
  obtain t where t: "tw_view ?w ''r'' = Some t" "riStatus t = RitualExecuted"
    using tw_runs(2) by (auto simp: tw_status_def)
  from ritual_lifecycle [OF tw_laws t(1), of "[OpCancel ''r'' ''m'', OpMarkFailed ''r'' ''late'']"]
  show ?thesis using tw_runs t(2) by (auto simp: tw_status_def)
qed



section \<open>The Weave that is built\<close>



text \<open>C31: A Weave that is built is configured consistently, whatever the builder collected or the
  store of configurations held: iterations, memory window and lock time are positive, the lock
  outlives the reasoning by fifteen seconds, every blocked pattern compiles, and an archivist
  with the default setting keeps fewer messages than it waits for.\<close>

theorem built_weave_consistent:
  assumes "Weave_Build pm b w0 = (Inr bt, w1)"
  shows "0 < wcMaxReasoningIterations (btConfig bt) \<and> 0 < mmMaxMemoryMessages (wvMemory (btWeave bt)) \<and> 0 < wcLockTTL (btConfig bt)
    \<and> (0 < wcReasoningTimeout (btConfig bt) \<longrightarrow> in_int64 (wcReasoningTimeout (btConfig bt) + 15 * time_second)
         \<longrightarrow> wcReasoningTimeout (btConfig bt) + 15 * time_second \<le> wcLockTTL (btConfig bt))
    \<and> (\<forall>p \<in> set (ocBlockedPatterns (wcOutputGuard (btConfig bt))). compile_error pm p = None)
    \<and> (\<forall>f threshold keep. wbArchivistKeepRecent b \<le> 0 \<longrightarrow> wvArchivist (btWeave bt) = Some (f, threshold, keep)
         \<longrightarrow> 0 < keep \<and> keep < threshold)"
proof (intro conjI impI)
  assume "0 < wcReasoningTimeout (btConfig bt)" "in_int64 (wcReasoningTimeout (btConfig bt) + 15 * time_second)"
  then show "wcReasoningTimeout (btConfig bt) + 15 * time_second \<le> wcLockTTL (btConfig bt)"
    using built_limits(4) [OF assms] by (simp add: wrap64_in_range)
qed (use built_limits(1-3,5) [OF assms] built_archivist [OF assms] in blast)+

theorem built_weave_consistent_witness:
  "\<exists>bt. Weave_Build demo_platform demo_builder 0 = (Inr bt, 0) \<and> wcReasoningTimeout (btConfig bt) + 15 * time_second \<le> wcLockTTL (btConfig bt)"
proof -
  obtain bt where bt: "Weave_Build demo_platform demo_builder 0 = (Inr bt, 0)" "btConfig bt = wbConfig demo_builder"
    using demo_builds by blast
  have "0 < wcReasoningTimeout (btConfig bt)" "in_int64 (wcReasoningTimeout (btConfig bt) + 15 * time_second)"
    by (simp_all add: bt(2) demo_builder_defs time_second_def in_int64_def)
  with built_weave_consistent [OF bt(1)] bt(1) show ?thesis by blast
qed



section \<open>The stores of documents and the tools of operators\<close>

text \<open>C33: Versions of Spirits. Over a collection that keeps its documented laws, whatever operations of
  the repository run, and whichever of their calls fail: of each name at most one version is active,
  its versions are numbered from 1, and every version ever stored keeps its content and number.\<close>

theorem spirit_versions_kept:
  assumes "spirit_store_laws c docs" "spirit_inv (docs w)"
  shows "spirit_inv (docs (fold (spirit_exec c) ops w)) \<and> history_kept (docs w) (docs (fold (spirit_exec c) ops w))"
  using spirit_runs_good [OF assms(1), of w ops] assms(2) by (simp add: good_def)

theorem spirit_versions_kept_witness:
  "spirit_inv (AList.clearjunk rolled_back)
   \<and> shown (AList.clearjunk rolled_back)
     = [(StringID ''u1'', ''bot'', 1, ''hi'', True), (ObjectID ''000'', ''bot'', 2, ''hello'', False)]"
  using spirit_versions_kept [OF mem_spirit_laws empty_inv, of "two_versions @ [OpActivate ''bot'' 1]"] rolled_back_shown
  by (simp add: rolled_back_def)

text \<open>C34: A rollback strands a name. When an older version of a Spirit is active and the next number
  is taken, \<open>Update\<close> fails on the unique index, and because it has no transaction the active version
  is switched off by then: the name has no active version.\<close>

theorem update_strands_name:
  assumes "spirit_store_laws c docs" "reliable c" "spirit_inv (docs w)" "n \<noteq> []"
    and "x \<in> set (docs w)" "named n x" "vsActive (snd x)"
    and "y \<in> set (docs w)" "named n y" "sVersion (snd y) = sVersion (snd x) + 1"
  shows "(\<exists>e. fst (spirit_Update c now n sp changeLog w) = Inl e)
    \<and> actives n (docs (snd (spirit_Update c now n sp changeLog w))) = {}"
  by (rule update_strands [OF assms])

theorem update_strands_name_witness:
  "\<exists>e. fst (spirit_Update mem_spirits 30 ''bot'' mem_bot ''again'' rolled_back) = Inl e"
proof -
  have i: "spirit_inv (AList.clearjunk rolled_back)"
    using spirit_runs_good [OF mem_spirit_laws, of "[]" "two_versions @ [OpActivate ''bot'' 1]"] empty_inv
    by (simp add: good_def rolled_back_def)
  obtain x y where xy: "AList.clearjunk rolled_back = [x, y]" "sName (snd x) = ''bot''" "vsActive (snd x)" "sVersion (snd x) = 1"
      "sName (snd y) = ''bot''" "sVersion (snd y) = 2"
    using rolled_back_shown by (auto simp: shown_def)
  from xy update_strands_name [OF mem_spirit_laws mem_reliable i, of "''bot''" x y 30 mem_bot "''again''"]
  show ?thesis by (simp add: named_def)
qed

text \<open>C35: An updated Spirit cannot be deactivated. The identifier \<open>Update\<close> leaves to the driver is an
  ObjectID; a later \<open>Deactivate\<close> by the identifier the Spirit is read back with asks for a string,
  matches nothing, and the version stays active.\<close>

theorem updated_spirit_stays_active:
  assumes "spirit_store_laws c docs" "spirit_inv (docs w)" "spirit_Update c now n sp changeLog w = (Inr new, w1)"
    and "FindActiveByName c n w1 = (Inr cur, w2)" "StringID (sID cur) \<notin> fst ` set (docs w2)"
  shows "ObjectID (sID cur) \<in> actives n (docs (snd (spirit_Deactivate c now' (sID cur) w2)))"
  by (rule updated_stays_active [OF assms])

theorem updated_spirit_stays_active_witness:
  "\<exists>new w1 cur w2. spirit_Update mem_spirits 20 ''bot'' mem_bot ''tone'' mem_created = (Inr new, w1)
     \<and> FindActiveByName mem_spirits ''bot'' w1 = (Inr cur, w2) \<and> sID cur = ''000''
     \<and> ObjectID ''000'' \<in> actives ''bot'' (AList.clearjunk (snd (spirit_Deactivate mem_spirits 30 (sID cur) w2)))"
proof -
  obtain new w1 cur w2 where r: "spirit_Update mem_spirits 20 ''bot'' mem_bot ''tone'' mem_created = (Inr new, w1)"
      "FindActiveByName mem_spirits ''bot'' w1 = (Inr cur, w2)" "sID cur = ''000''"
      "StringID (sID cur) \<notin> fst ` set (AList.clearjunk w2)"
    by (rule mem_updated_cur)
  from updated_spirit_stays_active [OF mem_spirit_laws mem_created_inv r(1,2,4)] r(1,2,3) show ?thesis by auto
qed





text \<open>C38: A stored configuration switches the output guard off. A Weave built with the MongoDB store of
  configurations has no output guard, whatever was saved there and whatever the builder was given:
  the document has no field for it, and the default has none.\<close>

theorem stored_config_drops_guard:
  assumes "wbConfigRepo b = Some (config_Find c)" "Weave_Build pm b w0 = (Inr bt, w1)"
  shows "wvOutputGuard (btWeave bt) = None"
proof -
  obtain sp mr er logs lck f voices where
    w: "btWeave bt = build_weave pm b (btConfig bt) sp mr er logs lck f (btActions bt) voices"
      "fst (loaded_config b w0) = Inr (btConfig bt)"
    by (rule Build_ok [OF assms(2)])
  obtain w2 where "config_Find c w0 = (Inr (btConfig bt), w2)"
    using w(2) assms(1) by (auto simp: loaded_config_def split: prod.splits sum.splits)
  from config_Find_guard [OF this] have "\<not> output_guard_enabled (wcOutputGuard (btConfig bt))"
    by (simp add: output_guard_enabled_def DefaultWeaveConfig_def)
  then show ?thesis by (simp add: w(1) build_weave_def guard_of_config_def)
qed

theorem stored_config_drops_guard_witness:
  "output_guard_enabled (wcOutputGuard guarded_config)
   \<and> (\<exists>bt. Weave_Build demo_platform stored_builder 0 = (Inr bt, 0) \<and> wvOutputGuard (btWeave bt) = None)"
proof -
  obtain bt where b: "Weave_Build demo_platform stored_builder 0 = (Inr bt, 0)" using stored_builds by blast
  have "wbConfigRepo stored_builder = Some (config_Find stored_config)"
    by (simp add: stored_builder_def WithWeaveConfigRepository_def)
  from stored_config_drops_guard [OF this b] b show ?thesis
    by (auto simp: output_guard_enabled_def guarded_config_def)
qed

text \<open>C39: The threshold of a budget sticks. When the budget of a Spirit downgrades at a threshold and an
  operator saves one without, the old threshold stays in the document, and the cost step still
  downgrades the model of a Spirit that has used that much.\<close>

theorem budget_threshold_sticks:
  assumes "read_laws bc docs" "write_laws budget_conflict bc docs" "one_budget (docs w)"
    and "x \<in> set (docs w)" "budget_of sn x" "old = snd (snd x)" "tbDowngradeAtThreshold old" "0 < tbAlertThreshold old"
    and "SetBudget bc sn b w = (None, w1)" "tbAlertThreshold b = 0" "\<not> tbDowngradeAtThreshold b"
    and "GetBudget bc sn w1 = (Inr got, w2)" "ldMonthUsage (mongo_ledger ec bc month now) sn w2 = (Inr used, w3)"
    and "psSpirit ps = Some sp" "sName sp = sn" "used < tbMonthlyTokenLimit b" "0 < tbMonthlyTokenLimit b"
    and "tbAlertThreshold old \<le> of_int used / of_int (tbMonthlyTokenLimit b)" "smModel (tbDowngradeModel b) \<noteq> []"
  shows "\<exists>w4. CostEnforcementStep (mongo_ledger ec bc month now) hook (ps, w1) = Ret None (set_model (tbDowngradeModel b) ps, w4)"
  by (rule threshold_sticks [OF assms])

theorem budget_threshold_sticks_witness:
  "\<exists>w1 w4. SetBudget mem_budgets ''s'' plain_budget mem_budget_world = (None, w1)
     \<and> \<not> tbDowngradeAtThreshold plain_budget
     \<and> CostEnforcementStep (mongo_ledger mem_entries mem_budgets (\<lambda>_. ''m'') (\<lambda>_. 0)) None
           ((new_state ''k'' demo_link False demo_pulse)\<lparr>psSpirit := Some chatty\<rparr>, w1)
         = Ret None (set_model (tbDowngradeModel plain_budget) ((new_state ''k'' demo_link False demo_pulse)\<lparr>psSpirit := Some chatty\<rparr>), w4)"
proof -
  have m: "read_laws mem_budgets AList.clearjunk" "write_laws budget_conflict mem_budgets AList.clearjunk"
    unfolding mem_budgets_def by (rule mem_reads mem_writes)+
  have w: "one_budget (AList.clearjunk mem_budget_world)"
      "(ObjectID ''b'', (''s'', careful_budget)) \<in> set (AList.clearjunk mem_budget_world)"
      "budget_of ''s'' (ObjectID ''b'', (''s'', careful_budget))"
    by (simp_all add: mem_budget_world_def one_budget_def budget_of_def)
  have b: "careful_budget = snd (snd (ObjectID ''b'', (''s'', careful_budget)))" "tbDowngradeAtThreshold careful_budget"
      "0 < tbAlertThreshold careful_budget" "tbAlertThreshold plain_budget = 0" "\<not> tbDowngradeAtThreshold plain_budget"
      "60 < tbMonthlyTokenLimit plain_budget" "0 < tbMonthlyTokenLimit plain_budget"
      "tbAlertThreshold careful_budget \<le> of_int 60 / of_int (tbMonthlyTokenLimit plain_budget)"
      "smModel (tbDowngradeModel plain_budget) \<noteq> []"
    by (simp_all add: plain_budget_def careful_budget_def)
  have s: "psSpirit ((new_state ''k'' demo_link False demo_pulse)\<lparr>psSpirit := Some chatty\<rparr>) = Some chatty" "sName chatty = ''s''"
    by (simp_all add: chatty_def)
  note f = budget_threshold_sticks [OF m w b(1-3) mem_budget_set(1) b(4,5) mem_budget_set(2,3) s b(6-9), where hook = None]
  from f mem_budget_set(1) b(5) show ?thesis by blast
qed

text \<open>C40: Older history is never shown. The messages of a conversation are stored with their
  identifiers as strings, but the page before a message asks for identifiers less than an ObjectID:
  every page after the first one is empty.\<close>

theorem history_page_empty:
  assumes "read_laws c docs" "\<forall>x \<in> set (docs w). \<exists>s. fst x = StringID s" "beforeID \<noteq> []"
    and "FindByMemoryKeyBefore c hexID mk beforeID limit w = (Inr ms, w')"
  shows "ms = []"
  by (rule history_page_none [OF assms])

theorem history_page_empty_witness:
  "\<exists>m. FindByMemoryKeyBefore mem_echoes (\<lambda>_. None) ''k'' [] 1 two_messages = (Inr [m], two_messages)
     \<and> FindByMemoryKeyBefore mem_echoes (\<lambda>_. None) ''k'' (ecID m) 1 two_messages = (Inr [], two_messages)"
proof -
  obtain ms where "FindByMemoryKeyBefore mem_echoes (\<lambda>_. None) ''k'' ''0b'' 1 two_messages = (Inr ms, two_messages)"
    using two_messages_next by blast
  moreover from this have "ms = []"
    by (rule history_page_empty [where docs = AList.clearjunk, rotated 3])
      (simp_all add: mem_echoes_def mem_reads two_messages_def)
  ultimately show ?thesis using two_messages_page by simp
qed

end
